(* ===== verification/Prelude.thy ===== *)
theory Prelude
  imports Main "HOL-Library.Char_ord" "HOL-Library.List_Lexorder" "HOL-Library.Code_Target_Nat"
begin

section \<open>Shared vocabulary: text, errors and keyed rows\<close>

text \<open>
  What every component of the development uses: the type synonyms of the model (identifiers,
  instants, amounts), the string functions of Python's \<open>str\<close> that the services call, the errors
  the code raises (with the HTTP status \<open>api/errors.py\<close> gives each), and the list operations that
  stand for primary-key access to a table.

  Strings are lists of \<open>char\<close>, read as code points below 256 (Latin-1); \<open>strip\<close>, \<open>lower\<close> and
  \<open>upper\<close> follow Python on that range (for \<open>upper\<close>, on the letters whose capital is again below 256).
\<close>

type_synonym uuid = nat
type_synonym instant = int
  \<comment> \<open>a timezone-aware \<open>datetime\<close>, in microseconds since the epoch\<close>
type_synonym money = int
  \<comment> \<open>a \<open>Numeric(12, 2)\<close> amount, in hundredths\<close>

named_theorems run_simps \<open>equations that execute an operation on a given world\<close>
named_theorems ok_iff \<open>when an operation returns a value, what happened\<close>
named_theorems err_iff \<open>when an operation raises, what happened\<close>
named_theorems step_ok \<open>a handler that returned, call by call\<close>
named_theorems step_run \<open>executing the next call of a handler\<close>
named_theorems keeps_intros \<open>rules of the invariant calculus\<close>

subsection \<open>Text\<close>

definition is_space :: "char \<Rightarrow> bool" where
  "is_space c =
     (let n = (of_char c :: nat)
      in 9 \<le> n \<and> n \<le> 13 \<or> 28 \<le> n \<and> n \<le> 32 \<or> n = 133 \<or> n = 160)"

definition strip :: "string \<Rightarrow> string" where
  "strip s = rev (dropWhile is_space (rev (dropWhile is_space s)))"

definition lower_char :: "char \<Rightarrow> char" where
  "lower_char c =
     (let n = (of_char c :: nat)
      in if 65 \<le> n \<and> n \<le> 90 \<or> 192 \<le> n \<and> n \<le> 222 \<and> n \<noteq> 215 then char_of (n + 32) else c)"

definition upper_char :: "char \<Rightarrow> char" where
  "upper_char c =
     (let n = (of_char c :: nat)
      in if 97 \<le> n \<and> n \<le> 122 \<or> 224 \<le> n \<and> n \<le> 254 \<and> n \<noteq> 247 then char_of (n - 32) else c)"

definition lower :: "string \<Rightarrow> string" where
  "lower s = map lower_char s"

definition upper :: "string \<Rightarrow> string" where
  "upper s = map upper_char s"

fun startswith :: "string \<Rightarrow> string \<Rightarrow> bool" where
  "startswith s [] = True"
| "startswith [] (p # ps) = False"
| "startswith (c # cs) (p # ps) = (c = p \<and> startswith cs ps)"

text \<open>Hexadecimal digits, and Python's \<open>repr\<close> of a \<open>str\<close>.\<close>

definition hex_char :: "nat \<Rightarrow> char" where
  "hex_char n = (if n < 10 then char_of (48 + n) else char_of (87 + n))"

fun hex_digits :: "nat \<Rightarrow> nat \<Rightarrow> string" where
  "hex_digits 0 n = []"
| "hex_digits (Suc k) n = hex_digits k (n div 16) @ [hex_char (n mod 16)]"

definition repr_char :: "char \<Rightarrow> char \<Rightarrow> string" where
  "repr_char quote c =
     (let n = (of_char c :: nat)
      in if c = quote \<or> n = 92 then [char_of (92::nat), c]
         else if n = 9 then [char_of (92::nat), CHR ''t'']
         else if n = 10 then [char_of (92::nat), CHR ''n'']
         else if n = 13 then [char_of (92::nat), CHR ''r'']
         else if n < 32 \<or> 127 \<le> n \<and> n \<le> 160 \<or> n = 173
         then [char_of (92::nat), CHR ''x''] @ hex_digits 2 n
         else [c])"

definition repr_str :: "string \<Rightarrow> string" where
  "repr_str s =
     (let quote = char_of (if 39 \<in> (of_char ` set s :: nat set) \<and> 34 \<notin> (of_char ` set s :: nat set)
                           then 34 else 39 :: nat)
      in [quote] @ concat (map (repr_char quote) s) @ [quote])"

text \<open>Python's \<open>x or y\<close> on a string that may be \<open>None\<close>: the empty string counts as false.\<close>

definition str_or :: "string option \<Rightarrow> string \<Rightarrow> string" where
  "str_or x d = (case x of None \<Rightarrow> d | Some s \<Rightarrow> if s = [] then d else s)"

lemma startswith_append [simp]: "startswith (p @ s) p"
  by (induction p) auto

lemma startswith_iff: "startswith s p \<longleftrightarrow> take (length p) s = p"
  by (induction s p rule: startswith.induct) auto

lemma dropWhile_idem [simp]: "dropWhile P (dropWhile P xs) = dropWhile P xs"
  by (induction xs) auto

lemma hd_rdropWhile:
  "rev (dropWhile P (rev xs)) \<noteq> [] \<Longrightarrow> hd (rev (dropWhile P (rev xs))) = hd xs"
  by (induction xs) (auto simp: dropWhile_append hd_append)

lemma strip_idem [simp]: "strip (strip s) = strip s"
proof -
  let ?d = "dropWhile is_space s"
  let ?e = "rev (dropWhile is_space (rev ?d))"
  have "dropWhile is_space ?e = ?e"
  proof (cases "?e = []")
    case False
    then have "?d \<noteq> []" by (metis dropWhile.simps(1) rev.simps(1))
    then have "\<not> is_space (hd ?d)" by (rule hd_dropWhile)
    with hd_rdropWhile [OF False] have "\<not> is_space (hd ?e)" by simp
    with False show ?thesis by (metis dropWhile.simps(2) list.exhaust_sel)
  next
    case True
    then show ?thesis by (simp only: dropWhile.simps)
  qed
  then show ?thesis by (simp add: strip_def)
qed

lemma strip_Nil [simp]: "strip [] = []"
  by (simp add: strip_def)

lemma length_strip_le: "length (strip s) \<le> length s"
  unfolding strip_def
  by (metis (no_types, lifting) dual_order.trans length_dropWhile_le length_rev)

subsection \<open>Errors\<close>

text \<open>
  \<open>shared/domain/exceptions.py\<close>, with the exceptions of Python and SQLAlchemy that the services can
  let through.
\<close>

datatype error =
    ConflictError string
  | NotFoundError string
  | ValidationError string
  | ForbiddenError string
  | UnauthorizedError string
  | KeycloakUnavailable string
  | ValueError string
  | KeyError
  | TypeError
  | AssertionError
  | StopIteration
  | MultipleResultsFound
  | NoResultFound
  | IntegrityError
  | InvalidOperation

fun http_status :: "error \<Rightarrow> nat" where
  "http_status (ConflictError _) = 409"
| "http_status (NotFoundError _) = 404"
| "http_status (ValidationError _) = 422"
| "http_status (ForbiddenError _) = 403"
| "http_status (UnauthorizedError _) = 401"
| "http_status (KeycloakUnavailable _) = 503"
| "http_status _ = 500"

subsection \<open>Tables as lists of rows\<close>

text \<open>
  A table is the list of its rows in insertion order. \<open>get_row\<close> is access by primary key,
  \<open>upd_row\<close> assigns attributes of the row with a key, \<open>del_row\<close> deletes it.
\<close>

definition get_row :: "('r \<Rightarrow> uuid) \<Rightarrow> uuid \<Rightarrow> 'r list \<Rightarrow> 'r option" where
  "get_row key k rows = List.find (\<lambda>r. key r = k) rows"

definition upd_row :: "('r \<Rightarrow> uuid) \<Rightarrow> uuid \<Rightarrow> ('r \<Rightarrow> 'r) \<Rightarrow> 'r list \<Rightarrow> 'r list" where
  "upd_row key k f rows = map (\<lambda>r. if key r = k then f r else r) rows"

definition del_row :: "('r \<Rightarrow> uuid) \<Rightarrow> uuid \<Rightarrow> 'r list \<Rightarrow> 'r list" where
  "del_row key k rows = filter (\<lambda>r. key r \<noteq> k) rows"

lemma get_row_Some: "get_row key k rows = Some r \<Longrightarrow> r \<in> set rows \<and> key r = k"
  by (auto simp: get_row_def find_Some_iff)

lemma get_row_None: "get_row key k rows = None \<longleftrightarrow> (\<forall>r \<in> set rows. key r \<noteq> k)"
  by (auto simp: get_row_def find_None_iff)

lemma get_row_Nil [simp]: "get_row key k [] = None"
  by (simp add: get_row_def)

lemma get_row_Cons [simp]:
  "get_row key k (r # rows) = (if key r = k then Some r else get_row key k rows)"
  by (simp add: get_row_def)

lemma get_row_append:
  "get_row key k (xs @ ys) = (case get_row key k xs of None \<Rightarrow> get_row key k ys | Some r \<Rightarrow> Some r)"
  by (induction xs) auto

lemma get_row_upd_row:
  assumes "\<And>r. key (f r) = key r"
  shows "get_row key k (upd_row key j f rows)
    = (if k = j then map_option f (get_row key k rows) else get_row key k rows)"
  using assms by (induction rows) (auto simp: upd_row_def)

lemma get_row_unique:
  assumes "distinct (map key rows)" and "r \<in> set rows"
  shows "get_row key (key r) rows = Some r"
  using assms by (induction rows) (auto simp: rev_image_eqI)

lemma upd_row_Nil [simp]: "upd_row key k f [] = []"
  by (simp add: upd_row_def)

lemma upd_row_Cons [simp]:
  "upd_row key k f (r # rows) = (if key r = k then f r else r) # upd_row key k f rows"
  by (simp add: upd_row_def)

lemma length_upd_row [simp]: "length (upd_row key k f rows) = length rows"
  by (simp add: upd_row_def)

lemma set_upd_row:
  "x \<in> set (upd_row key k f rows)
    \<longleftrightarrow> (\<exists>r \<in> set rows. x = (if key r = k then f r else r))"
  unfolding upd_row_def set_map image_iff by (rule refl)

lemma map_key_upd_row [simp]:
  "(\<And>r. g (f r) = g r) \<Longrightarrow> map g (upd_row key k f rows) = map g rows"
  by (induction rows) auto

lemma set_del_row [simp]: "x \<in> set (del_row key k rows) \<longleftrightarrow> x \<in> set rows \<and> key x \<noteq> k"
  by (auto simp: del_row_def)

text \<open>A loop that updates one row per element, each row at most once.\<close>

lemma fold_upd_rows:
  assumes "distinct (map key fs)" and "\<And>f r. key (g f r) = key r"
  shows "fold (\<lambda>f. upd_row key (key f) (g f)) fs rows
    = map (\<lambda>r. case get_row key (key r) fs of None \<Rightarrow> r | Some f \<Rightarrow> g f r) rows"
  using assms(1)
proof (induction fs arbitrary: rows)
  case (Cons f fs)
  have none: "get_row key (key f) fs = None" using Cons.prems by (auto simp: get_row_None image_iff)
  have "fold (\<lambda>f. upd_row key (key f) (g f)) (f # fs) rows
      = fold (\<lambda>f. upd_row key (key f) (g f)) fs (upd_row key (key f) (g f) rows)"
    by simp
  also have "\<dots> = map (\<lambda>r. case get_row key (key r) fs of None \<Rightarrow> r | Some f \<Rightarrow> g f r)
          (upd_row key (key f) (g f) rows)"
    by (rule Cons.IH) (use Cons.prems in simp)
  also have "\<dots> = map (\<lambda>r. case get_row key (key r) fs of None \<Rightarrow> r | Some f \<Rightarrow> g f r)
          (map (\<lambda>r. if key r = key f then g f r else r) rows)"
    by (simp only: upd_row_def)
  also have "\<dots> = map (\<lambda>r. case get_row key (key r) (f # fs) of None \<Rightarrow> r | Some f \<Rightarrow> g f r) rows"
    using none assms(2) by (auto split: option.split)
  finally show ?case .
qed simp

lemma get_row_filter:
  assumes "distinct (map key rows)" and "r \<in> set rows"
  shows "get_row key (key r) (filter P rows) = (if P r then Some r else None)"
proof (cases "P r")
  case True
  then show ?thesis
    using get_row_unique [of key "filter P rows" r] assms by (simp add: distinct_map_filter)
next
  case False
  have "key r' \<noteq> key r" if "r' \<in> set (filter P rows)" for r'
    using that assms False by (auto simp: distinct_map inj_on_def)
  with False show ?thesis by (auto simp: get_row_None)
qed

text \<open>\<open>first_row\<close> is a query with \<open>limit(1)\<close>: the first row, if any.\<close>

definition first_row :: "'r list \<Rightarrow> 'r option" where
  "first_row rows = (case rows of [] \<Rightarrow> None | r # _ \<Rightarrow> Some r)"

lemma first_row_Nil [simp]: "first_row [] = None"
  by (simp add: first_row_def)

lemma first_row_Cons [simp]: "first_row (r # rows) = Some r"
  by (simp add: first_row_def)

lemma first_row_None [simp]: "first_row rows = None \<longleftrightarrow> rows = []"
  by (cases rows) auto

lemma first_row_ex [simp]: "(\<exists>r. first_row rows = Some r) \<longleftrightarrow> rows \<noteq> []"
  by (cases rows) auto

lemma first_row_Some: "first_row rows = Some r \<Longrightarrow> r \<in> set rows"
  by (cases rows) auto

text \<open>A unique column selects at most one row.\<close>

lemma length_filter_unique:
  assumes "distinct (map f rows)" and "\<And>r. Q r \<Longrightarrow> f r = k"
  shows "length (filter Q rows) \<le> Suc 0"
  using assms
proof (induction rows)
  case (Cons r rows)
  show ?case
  proof (cases "Q r")
    case True
    then have "f r = k" by (rule Cons.prems(2))
    with Cons.prems have "\<forall>x \<in> set rows. \<not> Q x" by (auto simp: image_iff)
    then have "filter Q rows = []" by simp
    then show ?thesis by simp
  next
    case False
    with Cons show ?thesis by simp
  qed
qed simp

text \<open>A join along a key of the second table keeps the key of the first.\<close>

lemma joined_row: "concat (map (\<lambda>y. if P y then [x] else []) ys) = replicate (length (filter P ys)) x"
  by (induction ys) auto

lemma distinct_joined:
  assumes "distinct (map f xs)" and "distinct (map g ys)"
    and "\<And>x y. P x y \<Longrightarrow> g y = k x"
  shows "distinct (map f [x. x \<leftarrow> xs, y \<leftarrow> ys, P x y])"
  using assms(1)
proof (induction xs)
  case (Cons x xs)
  have "length (filter (P x) ys) \<le> Suc 0"
    by (rule length_filter_unique [OF assms(2), of _ "k x"]) (rule assms(3))
  moreover have "f x \<notin> f ` set xs"
    using Cons.prems by simp
  moreover have "distinct (map f [x. x \<leftarrow> xs, y \<leftarrow> ys, P x y])"
    using Cons by simp
  ultimately show ?case
    by (auto simp: joined_row le_Suc_eq image_iff)
qed simp

text \<open>Rows with a property, up to one (\<open>scalar_one_or_none\<close> on a query without its error).\<close>

definition at_most_one :: "('r \<Rightarrow> bool) \<Rightarrow> 'r list \<Rightarrow> bool" where
  "at_most_one P rows = (length (filter P rows) \<le> 1)"

lemma at_most_one_append:
  "at_most_one P (xs @ [y]) \<longleftrightarrow> (if P y then filter P xs = [] else at_most_one P xs)"
  by (auto simp: at_most_one_def)

lemma at_most_one_Nil [simp]: "at_most_one P []"
  by (simp add: at_most_one_def)

end
