(* ===== verification/Schema.thy ===== *)
theory Schema
  imports Prelude
begin

section \<open>The tables\<close>

text \<open>
  One record per SQLAlchemy row class, with its columns in the order of the source (columns no
  modelled operation reads, such as \<open>updated_at\<close> of \<open>TimestampMixin\<close>, are left out),
  and the database as the record of all tables, grouped as the PostgreSQL schemas are
  (\<open>identity\<close>, \<open>authz\<close>, \<open>tenant\<close>, \<open>vendor\<close>, \<open>platform\<close>, \<open>resource\<close>, \<open>marketplace\<close>). Status
  columns are strings, as in the source. Columns with a JSON payload hold a \<open>json\<close> value.
\<close>

datatype json =
    JNull
  | JBool bool
  | JInt int
  | JStr string
  | JUuid uuid
  | JMoney money
  | JList "json list"
  | JObj "(string \<times> json) list"

type_synonym payload = "(string \<times> json) list"

subsection \<open>Schema identity\<close>

record principal_row =
  pri_id :: uuid
  pri_type :: string
  pri_status :: string

record user_row =
  usr_id :: uuid
  usr_principal_id :: uuid
  usr_email :: string
  usr_normalized_email :: string
  usr_display_name :: string
  usr_status :: string
  usr_last_login_at :: "instant option"
  usr_created_at :: instant

record realm_row =
  rlm_id :: uuid
  rlm_realm_name :: string
  rlm_realm_type :: string
  rlm_issuer :: string
  rlm_issuer_url :: string
  rlm_keycloak_realm_id :: "string option"
  rlm_organization_id :: "uuid option"
  rlm_status :: string

record credential_row =
  crd_id :: uuid
  crd_principal_id :: uuid
  crd_realm_id :: uuid
  crd_keycloak_subject :: string
  crd_password_hash :: "string option"
  crd_type :: string
  crd_status :: string

record session_row =
  ses_id :: uuid
  ses_user_id :: uuid
  ses_status :: string
  ses_refresh_token_hash :: "string option"
  ses_expires_at :: instant
  ses_last_active_at :: "instant option"
  ses_revoked_at :: "instant option"
  ses_created_at :: instant

record audit_row =
  aud_id :: uuid
  aud_event_action :: string
  aud_actor_user_id :: "uuid option"
  aud_tenant_id :: "uuid option"
  aud_payload :: payload
  aud_created_at :: instant

record verification_token_row =
  vtk_id :: uuid
  vtk_user_id :: uuid
  vtk_otp_hash :: string
  vtk_expires_at :: instant
  vtk_created_at :: instant

record reset_token_row =
  rtk_id :: uuid
  rtk_user_id :: uuid
  rtk_token_hash :: string
  rtk_expires_at :: instant
  rtk_used_at :: "instant option"
  rtk_created_at :: instant

record service_account_row =
  sac_id :: uuid
  sac_principal_id :: uuid
  sac_tenant_id :: uuid
  sac_organization_id :: uuid
  sac_name :: string
  sac_description :: "string option"
  sac_status :: string
  sac_created_by :: "uuid option"
  sac_created_at :: instant

record api_key_row =
  key_id :: uuid
  key_service_account_id :: uuid
  key_prefix :: string
  key_hash :: string
  key_status :: string
  key_revoked_at :: "instant option"
  key_expiry :: "instant option"
  key_last_used_at :: "instant option"
  key_created_at :: instant

record delivery_secret_row =
  dsc_id :: uuid
  dsc_purpose :: string
  dsc_secret_plain :: "string option"
  dsc_expires_at :: instant
  dsc_consumed_at :: "instant option"

subsection \<open>Schema authz\<close>

record permission_row =
  prm_id :: uuid
  prm_code :: string
  prm_scope_type :: string
  prm_description :: "string option"
  prm_status :: string

record role_row =
  rol_id :: uuid
  rol_scope_type :: string
  rol_tenant_id :: "uuid option"
  rol_operator_org_id :: "uuid option"
  rol_name :: string
  rol_is_system_role :: bool
  rol_status :: string

record role_permission_row =
  rpm_id :: uuid
  rpm_role_id :: uuid
  rpm_permission_id :: uuid

record principal_role_row =
  prl_id :: uuid
  prl_principal_id :: uuid
  prl_role_id :: uuid
  prl_scope_type :: string
  prl_tenant_id :: "uuid option"
  prl_operator_org_id :: "uuid option"
  prl_status :: string
  prl_assigned_by :: "uuid option"
  prl_valid_from :: instant
  prl_valid_until :: "instant option"
  prl_revoked_at :: "instant option"
  prl_justification :: "string option"
  prl_created_at :: instant

record authorization_audit_row =
  aal_id :: uuid
  aal_principal_id :: "uuid option"
  aal_permission_code :: string
  aal_scope_type :: string
  aal_tenant_id :: "uuid option"
  aal_operator_org_id :: "uuid option"
  aal_decision :: string
  aal_reason :: "string option"
  aal_request_id :: "string option"
  aal_created_at :: instant

subsection \<open>Schema tenant\<close>

record organization_row =
  org_id :: uuid
  org_name :: string
  org_slug :: string
  org_type :: string
  org_participation :: string
  org_is_platform_operator :: bool
  org_keycloak_realm_ref :: "string option"
  org_status :: string
  org_created_at :: instant

record org_membership_row =
  omb_id :: uuid
  omb_organization_id :: uuid
  omb_user_id :: uuid
  omb_role :: string
  omb_status :: string

record tenant_row =
  ten_id :: uuid
  ten_organization_id :: uuid
  ten_name :: string
  ten_slug :: string
  ten_status :: string
  ten_created_at :: instant

record project_row =
  prj_id :: uuid
  prj_tenant_id :: uuid
  prj_name :: string
  prj_status :: string
  prj_created_at :: instant

record tenant_membership_row =
  tmb_id :: uuid
  tmb_tenant_id :: uuid
  tmb_user_id :: uuid
  tmb_status :: string

record address_row =
  adr_id :: uuid
  adr_tenant_id :: uuid
  adr_label :: string
  adr_contact_name :: string
  adr_line1 :: string
  adr_city :: string
  adr_state :: string
  adr_pincode :: string
  adr_phone :: string
  adr_status :: string
  adr_created_at :: instant

record registration_request_row =
  orr_id :: uuid
  orr_org_id :: uuid
  orr_requester_user_id :: uuid
  orr_name :: string
  orr_slug :: string
  orr_contact_name :: string
  orr_contact_email :: string
  orr_country :: string
  orr_status :: string
  orr_keycloak_realm_ref :: "string option"
  orr_error_message :: "string option"
  orr_completed_at :: "instant option"

subsection \<open>Schemas vendor, platform and resource\<close>

record vendor_profile_row =
  vnd_id :: uuid
  vnd_organization_id :: uuid
  vnd_legal_name :: string
  vnd_tax_id :: "string option"
  vnd_payout_bank_account :: "string option"
  vnd_contact_email :: string
  vnd_business_doc_url :: "string option"
  vnd_status :: string
  vnd_created_at :: instant

record verification_row =
  vrf_id :: uuid
  vrf_vendor_id :: uuid
  vrf_status :: string
  vrf_notes :: "string option"
  vrf_decided_by :: "uuid option"
  vrf_decided_at :: "instant option"
  vrf_created_at :: instant

record vendor_settings_row =
  vst_vendor_id :: uuid
  vst_support_email :: string
  vst_bank_account_name :: string
  vst_bank_account_number :: string
  vst_bank_ifsc :: string
  vst_notify_install :: bool
  vst_notify_payout :: bool
  vst_default_currency :: string
  vst_updated_at :: instant

record support_request_row =
  spr_id :: uuid
  spr_vendor_id :: uuid
  spr_subject :: string
  spr_message :: string
  spr_status :: string
  spr_created_at :: instant

record outbox_row =
  obx_id :: uuid
  obx_type :: string
  obx_payload :: payload
  obx_status :: string
  obx_retry_count :: int
  obx_created_at :: instant
  obx_processed_at :: "instant option"

record policy_row =
  pol_id :: uuid
  pol_name :: string
  pol_scope :: string
  pol_enforcement :: string
  pol_applies_to :: string
  pol_status :: string
  pol_body :: payload

record team_member_row =
  tmm_id :: uuid
  tmm_user_id :: "uuid option"
  tmm_email :: string
  tmm_platform_role :: string
  tmm_status :: string
  tmm_invited_by :: "uuid option"
  tmm_invited_at :: instant
  tmm_activated_at :: "instant option"
  tmm_mfa_enabled :: bool
  tmm_invite_note :: string

record config_row =
  cfg_key :: string
  cfg_value :: json
  cfg_updated_by :: "uuid option"
  cfg_updated_at :: instant

record resource_row =
  res_id :: uuid
  res_tenant_id :: uuid
  res_name :: string
  res_resource_type :: string
  res_status :: string
  res_external_ref :: "string option"
  res_created_by :: "uuid option"
  res_created_at :: instant

subsection \<open>Schema marketplace\<close>

record plugin_row =
  plg_id :: uuid
  plg_vendor_id :: "uuid option"
  plg_owner_kind :: string
  plg_name :: string
  plg_slug :: string
  plg_category :: string
  plg_short_description :: string
  plg_status :: string
  plg_requirements :: "json list"
  plg_created_at :: instant
  plg_updated_at :: instant

record plugin_version_row =
  pvr_id :: uuid
  pvr_plugin_id :: uuid
  pvr_version :: string
  pvr_artifact_url :: string
  pvr_changelog :: string
  pvr_sbom_url :: string
  pvr_status :: string
  pvr_scan_status :: string
  pvr_risk_level :: string
  pvr_decided_by :: "uuid option"
  pvr_decided_at :: "instant option"
  pvr_claimed_by :: "uuid option"
  pvr_claimed_at :: "instant option"
  pvr_review_notes :: string
  pvr_created_at :: instant

record plugin_capability_row =
  pcp_id :: uuid
  pcp_version_id :: uuid
  pcp_scope :: string
  pcp_justification :: string

record activation_row =
  act_id :: uuid
  act_vendor_id :: uuid
  act_plugin_id :: uuid
  act_status :: string
  act_activated_at :: instant
  act_updated_at :: instant

record product_row =
  prd_id :: uuid
  prd_vendor_id :: uuid
  prd_plugin_id :: "uuid option"
  prd_name :: string
  prd_description :: string
  prd_category :: string
  prd_fulfilment_type :: string
  prd_status :: string
  prd_pa_status :: string
  prd_pa_reject_reason :: string
  prd_archived_at :: "instant option"
  prd_created_at :: instant
  prd_updated_at :: instant

record product_content_row =
  pct_product_id :: uuid
  pct_payload :: payload

record offering_row =
  off_id :: uuid
  off_product_id :: uuid
  off_plan_name :: string
  off_billing_period :: string
  off_price_usd :: money
  off_currency :: string
  off_included_transactions :: "int option"
  off_overage_price_per_1k :: "int option"
  \<comment> \<open>\<open>Numeric(12, 4)\<close>, in ten-thousandths\<close>
  off_status :: string
  off_created_at :: instant

record installation_row =
  ins_id :: uuid
  ins_offering_id :: uuid
  ins_tenant_id :: uuid
  ins_project_id :: uuid
  ins_status :: string
  ins_accepted_capabilities :: "string list"
  ins_created_at :: instant

record entitlement_row =
  etl_id :: uuid
  etl_installation_id :: uuid
  etl_offering_id :: uuid
  etl_tenant_id :: uuid
  etl_status :: string
  etl_granted_at :: instant

record service_instance_row =
  sin_id :: uuid
  sin_installation_id :: uuid
  sin_status :: string
  sin_external_ref :: "uuid option"
  \<comment> \<open>the \<open>n\<close> of \<open>stub://install/{n}\<close>\<close>

record wishlist_row =
  wsh_id :: uuid
  wsh_tenant_id :: uuid
  wsh_product_id :: uuid
  wsh_created_at :: instant

record cart_row =
  crt_id :: uuid
  crt_tenant_id :: uuid
  crt_status :: string

record cart_line_row =
  cln_id :: uuid
  cln_cart_id :: uuid
  cln_offering_id :: uuid
  cln_quantity :: int
  cln_created_at :: instant

record order_row =
  ord_id :: uuid
  ord_tenant_id :: uuid
  ord_cart_id :: uuid
  ord_address_id :: "uuid option"
  ord_payment_method :: string
  ord_status :: string
  ord_created_at :: instant

record vendor_fulfilment_row =
  ful_id :: uuid
  ful_order_id :: uuid
  ful_vendor_id :: uuid
  ful_status :: string
  ful_courier :: string
  ful_tracking_number :: string
  ful_refund_status :: string
  ful_refund_amount :: "money option"
  ful_updated_at :: instant

record order_line_row =
  oln_id :: uuid
  oln_order_id :: uuid
  oln_offering_id :: uuid
  oln_product_name :: string
  oln_plan_name :: string
  oln_quantity :: int
  oln_fulfilment_type :: string
  oln_billing_period :: string
  oln_unit_price :: money
  oln_currency :: string
  oln_status :: string

record return_row =
  ret_id :: uuid
  ret_order_id :: uuid
  ret_line_id :: uuid
  ret_reason :: string
  ret_notes :: string
  ret_status :: string
  ret_refund_amount :: "money option"
  ret_refund_currency :: string
  ret_refund_method :: "string option"
  ret_vendor_notes :: string
  ret_decided_at :: "instant option"
  ret_refunded_at :: "instant option"
  ret_created_at :: instant

record product_review_row =
  rev_id :: uuid
  rev_vendor_id :: uuid
  rev_product_id :: uuid
  rev_order_id :: uuid
  rev_line_id :: uuid
  rev_tenant_id :: uuid
  rev_rating :: int
  rev_comment :: string
  rev_created_at :: instant

record warehouse_row =
  whs_id :: uuid
  whs_vendor_id :: uuid
  whs_name :: string
  whs_location :: string
  whs_capacity :: int
  whs_created_at :: instant

record inventory_row =
  inv_id :: uuid
  inv_vendor_id :: uuid
  inv_product_id :: uuid
  inv_warehouse_id :: uuid
  inv_sku :: string
  inv_available :: int
  inv_reserved :: int
  inv_reorder_threshold :: int

record service_city_row =
  sct_id :: uuid
  sct_vendor_id :: uuid
  sct_city_name :: string
  sct_warehouse_id :: uuid
  sct_currency :: "string option"

record city_pincode_row =
  cpn_id :: uuid
  cpn_city_id :: uuid
  cpn_pincode :: string

record product_city_row =
  pcy_product_id :: uuid
  pcy_city_id :: uuid

record payout_row =
  pay_id :: uuid
  pay_vendor_id :: uuid
  pay_period :: string
  pay_gross :: money
  pay_platform_fee :: money
  pay_net :: money
  pay_status :: string
  pay_created_at :: "instant option"

subsection \<open>The database\<close>

record database =
  principals :: "principal_row list"
  users :: "user_row list"
  identity_realms :: "realm_row list"
  credentials :: "credential_row list"
  sessions :: "session_row list"
  audit_log :: "audit_row list"
  verification_tokens :: "verification_token_row list"
  password_reset_tokens :: "reset_token_row list"
  service_accounts :: "service_account_row list"
  api_keys :: "api_key_row list"
  delivery_secrets :: "delivery_secret_row list"
  permissions :: "permission_row list"
  roles :: "role_row list"
  role_permissions :: "role_permission_row list"
  principal_roles :: "principal_role_row list"
  authorization_audit_log :: "authorization_audit_row list"
  organizations :: "organization_row list"
  org_memberships :: "org_membership_row list"
  tenants :: "tenant_row list"
  projects :: "project_row list"
  tenant_memberships :: "tenant_membership_row list"
  addresses :: "address_row list"
  registration_requests :: "registration_request_row list"
  vendor_profiles :: "vendor_profile_row list"
  vendor_verifications :: "verification_row list"
  vendor_settings :: "vendor_settings_row list"
  support_requests :: "support_request_row list"
  outbox_events :: "outbox_row list"
  platform_policies :: "policy_row list"
  team_members :: "team_member_row list"
  platform_config :: "config_row list"
  resources :: "resource_row list"
  plugins :: "plugin_row list"
  plugin_versions :: "plugin_version_row list"
  plugin_capabilities :: "plugin_capability_row list"
  vendor_plugin_activations :: "activation_row list"
  products :: "product_row list"
  product_contents :: "product_content_row list"
  offerings :: "offering_row list"
  installations :: "installation_row list"
  entitlements :: "entitlement_row list"
  service_instances :: "service_instance_row list"
  wishlists :: "wishlist_row list"
  carts :: "cart_row list"
  cart_lines :: "cart_line_row list"
  orders :: "order_row list"
  vendor_fulfilments :: "vendor_fulfilment_row list"
  order_lines :: "order_line_row list"
  returns :: "return_row list"
  product_reviews :: "product_review_row list"
  warehouses :: "warehouse_row list"
  inventory :: "inventory_row list"
  service_cities :: "service_city_row list"
  city_pincodes :: "city_pincode_row list"
  product_service_cities :: "product_city_row list"
  payouts :: "payout_row list"

definition empty_db :: database where
  "empty_db =
     \<lparr>principals = [], users = [], identity_realms = [], credentials = [], sessions = [],
      audit_log = [], verification_tokens = [], password_reset_tokens = [],
      service_accounts = [], api_keys = [], delivery_secrets = [], permissions = [], roles = [],
      role_permissions = [], principal_roles = [], authorization_audit_log = [],
      organizations = [], org_memberships = [], tenants = [], projects = [],
      tenant_memberships = [], addresses = [], registration_requests = [], vendor_profiles = [],
      vendor_verifications = [], vendor_settings = [], support_requests = [],
      outbox_events = [], platform_policies = [], team_members = [], platform_config = [], resources = [], plugins = [], plugin_versions = [],
      plugin_capabilities = [], vendor_plugin_activations = [], products = [],
      product_contents = [], offerings = [], installations = [], entitlements = [],
      service_instances = [],
      wishlists = [], carts = [], cart_lines = [], orders = [], vendor_fulfilments = [],
      order_lines = [], returns = [], product_reviews = [], warehouses = [],
      inventory = [], service_cities = [], city_pincodes = [], product_service_cities = [],
      payouts = []\<rparr>"

end
