(* ===== verification/Effects.thy ===== *)
theory Effects
  imports Schema
begin

section \<open>Requests, transactions and errors\<close>

text \<open>
  The services are \<open>async\<close> methods on one SQLAlchemy session. An operation of the model is a
  function from the world to an error or a value, and the world it leaves behind. The world has the
  session's view of the tables (\<open>db\<close>), what has been committed (\<open>disk\<close>), the clock that
  \<open>utcnow()\<close> and \<open>func.now()\<close> read (one instant for the whole request), and the supply of
  \<open>uuid4()\<close> values, which are fresh by construction.

  \<open>bindE\<close> is sequencing: an exception skips the rest and keeps the world reached so far, so what a
  handler committed before it raised stays committed. The request dependency \<open>get_session\<close> closes
  the session without a commit, which \<open>request\<close> models: whatever was not committed is dropped, on
  success as on failure.
\<close>

record world =
  db :: database
  disk :: database
  clock :: instant
  next_uuid :: uuid

type_synonym 'a op = "world \<Rightarrow> (error + 'a) \<times> world"

definition ret :: "'a \<Rightarrow> 'a op" where
  "ret x = (\<lambda>w. (Inr x, w))"

definition raise :: "error \<Rightarrow> 'a op" where
  "raise e = (\<lambda>w. (Inl e, w))"

definition bindE :: "'a op \<Rightarrow> ('a \<Rightarrow> 'b op) \<Rightarrow> 'b op" where
  "bindE m f = (\<lambda>w. case m w of (Inl e, w') \<Rightarrow> (Inl e, w') | (Inr x, w') \<Rightarrow> f x w')"

definition catch :: "'a op \<Rightarrow> (error \<Rightarrow> 'a op) \<Rightarrow> 'a op" where
  "catch m h = (\<lambda>w. case m w of (Inl e, w') \<Rightarrow> h e w' | (Inr x, w') \<Rightarrow> (Inr x, w'))"

definition raise_if :: "bool \<Rightarrow> error \<Rightarrow> unit op" where
  "raise_if b e = (if b then raise e else ret ())"

definition the_or :: "'a option \<Rightarrow> error \<Rightarrow> 'a op" where
  "the_or x e = (case x of None \<Rightarrow> raise e | Some y \<Rightarrow> ret y)"

definition reads :: "(database \<Rightarrow> 'a) \<Rightarrow> 'a op" where
  "reads f = (\<lambda>w. (Inr (f (db w)), w))"

definition modifies :: "(database \<Rightarrow> database) \<Rightarrow> unit op" where
  "modifies f = (\<lambda>w. (Inr (), w\<lparr>db := f (db w)\<rparr>))"

definition utcnow :: "instant op" where
  "utcnow = (\<lambda>w. (Inr (clock w), w))"

definition uuid4 :: "uuid op" where
  "uuid4 = (\<lambda>w. (Inr (next_uuid w), w\<lparr>next_uuid := Suc (next_uuid w)\<rparr>))"

definition commit :: "unit op" where
  "commit = (\<lambda>w. (Inr (), w\<lparr>disk := db w\<rparr>))"

definition rollback :: "unit op" where
  "rollback = (\<lambda>w. (Inr (), w\<lparr>db := disk w\<rparr>))"

definition request :: "'a op \<Rightarrow> 'a op" where
  "request m = (\<lambda>w. case m w of (r, w') \<Rightarrow> (r, w'\<lparr>db := disk w'\<rparr>))"

text \<open>
  A write in a short transaction of its own (another session of the same factory): it is committed
  at once, and the request's session sees it.
\<close>

definition own_transaction :: "(database \<Rightarrow> database) \<Rightarrow> unit op" where
  "own_transaction f = (\<lambda>w. (Inr (), w\<lparr>db := f (db w), disk := f (disk w)\<rparr>))"

text \<open>
  \<open>scalar_one_or_none()\<close> of SQLAlchemy: the row, \<open>None\<close> when there is none, and an exception
  when there are several.
\<close>

fun one_or_none :: "'a list \<Rightarrow> 'a option op" where
  "one_or_none [] = ret None"
| "one_or_none [x] = ret (Some x)"
| "one_or_none (x # y # xs) = raise MultipleResultsFound"

fun for_each :: "'a list \<Rightarrow> ('a \<Rightarrow> unit op) \<Rightarrow> unit op" where
  "for_each [] f = ret ()"
| "for_each (x # xs) f = bindE (f x) (\<lambda>_. for_each xs f)"

fun map_each :: "'a list \<Rightarrow> ('a \<Rightarrow> 'b op) \<Rightarrow> 'b list op" where
  "map_each [] f = ret []"
| "map_each (x # xs) f = bindE (f x) (\<lambda>y. bindE (map_each xs f) (\<lambda>ys. ret (y # ys)))"

subsection \<open>Executing operations\<close>

lemma ret_run [run_simps]: "ret x w = (Inr x, w)"
  by (simp add: ret_def)

lemma raise_run [run_simps]: "raise e w = (Inl e, w)"
  by (simp add: raise_def)

lemma bindE_run [run_simps]:
  "bindE m f w = (case m w of (Inl e, w') \<Rightarrow> (Inl e, w') | (Inr x, w') \<Rightarrow> f x w')"
  by (simp add: bindE_def)

lemma catch_run [run_simps]:
  "catch m h w = (case m w of (Inl e, w') \<Rightarrow> h e w' | (Inr x, w') \<Rightarrow> (Inr x, w'))"
  by (simp add: catch_def)

lemma raise_if_run [run_simps]: "raise_if b e w = (if b then (Inl e, w) else (Inr (), w))"
  by (simp add: raise_if_def run_simps)

lemma the_or_run [run_simps]:
  "the_or x e w = (case x of None \<Rightarrow> (Inl e, w) | Some y \<Rightarrow> (Inr y, w))"
  by (simp add: the_or_def run_simps split: option.split)

lemma reads_run [run_simps]: "reads f w = (Inr (f (db w)), w)"
  by (simp add: reads_def)

lemma modifies_run [run_simps]: "modifies f w = (Inr (), w\<lparr>db := f (db w)\<rparr>)"
  by (simp add: modifies_def)

lemma utcnow_run [run_simps]: "utcnow w = (Inr (clock w), w)"
  by (simp add: utcnow_def)

lemma uuid4_run [run_simps]:
  "uuid4 w = (Inr (next_uuid w), w\<lparr>next_uuid := Suc (next_uuid w)\<rparr>)"
  by (simp add: uuid4_def)

lemma commit_run [run_simps]: "commit w = (Inr (), w\<lparr>disk := db w\<rparr>)"
  by (simp add: commit_def)

lemma rollback_run [run_simps]: "rollback w = (Inr (), w\<lparr>db := disk w\<rparr>)"
  by (simp add: rollback_def)

lemma own_transaction_run [run_simps]:
  "own_transaction f w = (Inr (), w\<lparr>db := f (db w), disk := f (disk w)\<rparr>)"
  by (simp add: own_transaction_def)

lemma request_run [run_simps]:
  "request m w = (case m w of (r, w') \<Rightarrow> (r, w'\<lparr>db := disk w'\<rparr>))"
  by (simp add: request_def)

lemma one_or_none_run [run_simps]:
  "one_or_none xs w =
     (case xs of [] \<Rightarrow> (Inr None, w) | [x] \<Rightarrow> (Inr (Some x), w)
      | _ \<Rightarrow> (Inl MultipleResultsFound, w))"
  by (cases xs rule: one_or_none.cases) (simp_all add: run_simps)

lemma one_or_none_le1: "length xs \<le> Suc 0 \<Longrightarrow> one_or_none xs w = (Inr (first_row xs), w)"
  by (cases xs rule: one_or_none.cases) (simp_all add: run_simps)

lemma one_or_none_unique:
  assumes "distinct (map f rows)" and "\<And>r. Q r \<Longrightarrow> f r = k"
  shows "one_or_none (filter Q rows) w = (Inr (first_row (filter Q rows)), w)"
  by (rule one_or_none_le1) (rule length_filter_unique [OF assms])

subsection \<open>Inversion: what a returned value or a raised error tells\<close>

lemma ret_ok [ok_iff]: "ret x w = (Inr y, w') \<longleftrightarrow> y = x \<and> w' = w"
  by (auto simp: run_simps)

lemma raise_ok [ok_iff]: "raise e w = (Inr y, w') \<longleftrightarrow> False"
  by (simp add: run_simps)

lemma bindE_ok [ok_iff]:
  "bindE m f w = (Inr y, w') \<longleftrightarrow> (\<exists>x w1. m w = (Inr x, w1) \<and> f x w1 = (Inr y, w'))"
  by (auto simp: run_simps split: prod.splits sum.splits)

lemma catch_ok [ok_iff]:
  "catch m h w = (Inr y, w')
    \<longleftrightarrow> m w = (Inr y, w') \<or> (\<exists>e w1. m w = (Inl e, w1) \<and> h e w1 = (Inr y, w'))"
  by (auto simp: run_simps split: prod.splits sum.splits)

lemma raise_if_ok [ok_iff]: "raise_if b e w = (Inr u, w') \<longleftrightarrow> \<not> b \<and> w' = w"
  by (auto simp: run_simps)

lemma the_or_ok [ok_iff]: "the_or x e w = (Inr y, w') \<longleftrightarrow> x = Some y \<and> w' = w"
  by (auto simp: run_simps split: option.splits)

lemma reads_ok [ok_iff]: "reads f w = (Inr y, w') \<longleftrightarrow> y = f (db w) \<and> w' = w"
  by (auto simp: run_simps)

lemma modifies_ok [ok_iff]:
  "modifies f w = (Inr u, w') \<longleftrightarrow> w' = w\<lparr>db := f (db w)\<rparr>"
  by (auto simp: run_simps)

lemma utcnow_ok [ok_iff]: "utcnow w = (Inr y, w') \<longleftrightarrow> y = clock w \<and> w' = w"
  by (auto simp: run_simps)

lemma uuid4_ok [ok_iff]:
  "uuid4 w = (Inr y, w') \<longleftrightarrow> y = next_uuid w \<and> w' = w\<lparr>next_uuid := Suc (next_uuid w)\<rparr>"
  by (auto simp: run_simps)

lemma commit_ok [ok_iff]: "commit w = (Inr u, w') \<longleftrightarrow> w' = w\<lparr>disk := db w\<rparr>"
  by (auto simp: run_simps)

lemma one_or_none_ok [ok_iff]:
  "one_or_none xs w = (Inr y, w')
    \<longleftrightarrow> w' = w \<and> (case y of None \<Rightarrow> xs = [] | Some x \<Rightarrow> xs = [x])"
  by (cases xs rule: one_or_none.cases) (auto simp: run_simps split: option.splits)

lemma bindE_err [err_iff]:
  "bindE m f w = (Inl e, w')
    \<longleftrightarrow> m w = (Inl e, w') \<or> (\<exists>x w1. m w = (Inr x, w1) \<and> f x w1 = (Inl e, w'))"
  by (auto simp: run_simps split: prod.splits sum.splits)

lemma ret_err [err_iff]: "ret x w = (Inl e, w') \<longleftrightarrow> False"
  by (simp add: ret_run)

lemma raise_err [err_iff]: "raise d w = (Inl e, w') \<longleftrightarrow> e = d \<and> w' = w"
  by (auto simp: raise_run)

lemma raise_if_err [err_iff]: "raise_if b d w = (Inl e, w') \<longleftrightarrow> b \<and> e = d \<and> w' = w"
  by (auto simp: raise_if_run)

lemma the_or_err [err_iff]: "the_or z d w = (Inl e, w') \<longleftrightarrow> z = None \<and> e = d \<and> w' = w"
  by (auto simp: the_or_run split: option.splits)

lemma total_err [err_iff]:
  "reads f w = (Inl e, w') \<longleftrightarrow> False"
  "modifies g w = (Inl e, w') \<longleftrightarrow> False"
  "utcnow w = (Inl e, w') \<longleftrightarrow> False"
  "uuid4 w = (Inl e, w') \<longleftrightarrow> False"
  "commit w = (Inl e, w') \<longleftrightarrow> False"
  by (simp_all add: reads_run modifies_run utcnow_run uuid4_run commit_run)

lemma one_or_none_err [err_iff]:
  "one_or_none xs w = (Inl e, w')
    \<longleftrightarrow> w' = w \<and> e = MultipleResultsFound \<and> 2 \<le> length xs"
  by (cases xs rule: one_or_none.cases) (auto simp: run_simps)

subsection \<open>The invariant calculus\<close>

text \<open>
  \<open>keeps I m\<close>: the operation keeps a property of the world, whether it returns or raises. The rules
  follow the shape of an operation, so a proof is an \<open>intro\<close> over them and one goal per write.
\<close>

definition keeps :: "(world \<Rightarrow> bool) \<Rightarrow> 'a op \<Rightarrow> bool" where
  "keeps I m \<longleftrightarrow> (\<forall>w. I w \<longrightarrow> I (snd (m w)))"

lemma keepsI: "(\<And>w. I w \<Longrightarrow> I (snd (m w))) \<Longrightarrow> keeps I m"
  by (simp add: keeps_def)

lemma keepsD: "keeps I m \<Longrightarrow> I w \<Longrightarrow> m w = (r, w') \<Longrightarrow> I w'"
  by (metis keeps_def snd_conv)

lemma keeps_ret [keeps_intros]: "keeps I (ret x)"
  by (simp add: keeps_def run_simps)

lemma keeps_raise [keeps_intros]: "keeps I (raise e)"
  by (simp add: keeps_def run_simps)

lemma keeps_bindE [keeps_intros]:
  "keeps I m \<Longrightarrow> (\<And>x. keeps I (f x)) \<Longrightarrow> keeps I (bindE m f)"
  by (auto simp: keeps_def run_simps split: prod.split sum.split)

lemma keeps_catch [keeps_intros]:
  "keeps I m \<Longrightarrow> (\<And>e. keeps I (h e)) \<Longrightarrow> keeps I (catch m h)"
  by (auto simp: keeps_def run_simps split: prod.split sum.split)

lemma keeps_raise_if [keeps_intros]: "keeps I (raise_if b e)"
  by (simp add: keeps_def run_simps)

lemma keeps_the_or [keeps_intros]: "keeps I (the_or x e)"
  by (simp add: keeps_def run_simps split: option.split)

lemma keeps_reads [keeps_intros]: "keeps I (reads f)"
  by (simp add: keeps_def run_simps)

lemma keeps_utcnow [keeps_intros]: "keeps I utcnow"
  by (simp add: keeps_def run_simps)

lemma keeps_one_or_none [keeps_intros]: "keeps I (one_or_none xs)"
  by (simp add: keeps_def run_simps split: list.split)

lemma keeps_for_each [keeps_intros]: "(\<And>x. keeps I (f x)) \<Longrightarrow> keeps I (for_each xs f)"
  by (induction xs) (auto intro: keeps_intros)

lemma keeps_map_each [keeps_intros]: "(\<And>x. keeps I (f x)) \<Longrightarrow> keeps I (map_each xs f)"
  by (induction xs) (auto intro: keeps_intros)

lemma keeps_if [keeps_intros]:
  "(b \<Longrightarrow> keeps I m) \<Longrightarrow> (\<not> b \<Longrightarrow> keeps I n) \<Longrightarrow> keeps I (if b then m else n)"
  by simp

lemma keeps_option [keeps_intros]:
  "(x = None \<Longrightarrow> keeps I m) \<Longrightarrow> (\<And>y. x = Some y \<Longrightarrow> keeps I (f y))
    \<Longrightarrow> keeps I (case x of None \<Rightarrow> m | Some y \<Rightarrow> f y)"
  by (cases x) auto

lemma keeps_Let [keeps_intros]: "keeps I (f x) \<Longrightarrow> keeps I (let y = x in f y)"
  by simp

lemma keeps_prod [keeps_intros]:
  "(\<And>a b. p = (a, b) \<Longrightarrow> keeps I (f a b)) \<Longrightarrow> keeps I (case p of (a, b) \<Rightarrow> f a b)"
  by (cases p) auto

text \<open>Operations that do not commit leave the committed tables alone.\<close>

definition disk_is :: "database \<Rightarrow> world \<Rightarrow> bool" where
  "disk_is d w \<longleftrightarrow> disk w = d"

lemma keeps_disk_modifies [keeps_intros]: "keeps (disk_is d) (modifies f)"
  by (simp add: keeps_def run_simps disk_is_def)

lemma keeps_disk_uuid4 [keeps_intros]: "keeps (disk_is d) uuid4"
  by (simp add: keeps_def run_simps disk_is_def)

text \<open>
  An operation is atomic when an error leaves the committed tables as they were. It follows from
  operations that do not commit, with a final commit after which nothing can fail.
\<close>

definition atomic :: "'a op \<Rightarrow> bool" where
  "atomic m \<longleftrightarrow> (\<forall>w e w'. m w = (Inl e, w') \<longrightarrow> disk w' = disk w)"

lemma atomicD: "atomic m \<Longrightarrow> m w = (Inl e, w') \<Longrightarrow> disk w' = disk w"
  by (auto simp: atomic_def)

lemma disk_isD: "(\<And>d. keeps (disk_is d) m) \<Longrightarrow> m w = (r, w') \<Longrightarrow> disk w' = disk w"
  using keepsD [of "disk_is (disk w)" m w r w'] by (simp add: disk_is_def)

lemma atomic_keeps:
  assumes "\<And>d. keeps (disk_is d) m"
  shows "atomic m"
  unfolding atomic_def using disk_isD [OF assms] by blast

lemma atomic_bindE:
  assumes "\<And>d. keeps (disk_is d) m" and "\<And>x. atomic (f x)"
  shows "atomic (bindE m f)"
  unfolding atomic_def
proof (intro allI impI)
  fix w e w' assume "bindE m f w = (Inl e, w')"
  then consider "m w = (Inl e, w')" | x w1 where "m w = (Inr x, w1)" "f x w1 = (Inl e, w')"
    by (auto simp: err_iff)
  then show "disk w' = disk w"
  proof cases
    case 1
    then show ?thesis by (rule disk_isD [OF assms(1)])
  next
    case 2
    have "disk w1 = disk w" by (rule disk_isD [OF assms(1) 2(1)])
    with atomicD [OF assms(2) 2(2)] show ?thesis by simp
  qed
qed

text \<open>An operation that cannot fail.\<close>

definition total_op :: "'a op \<Rightarrow> bool" where
  "total_op m \<longleftrightarrow> (\<forall>w. \<exists>x w'. m w = (Inr x, w'))"

lemma atomic_total: "total_op m \<Longrightarrow> atomic m"
  by (auto simp: atomic_def total_op_def) (metis Inl_Inr_False prod.inject)

lemma total_bindE: "total_op m \<Longrightarrow> (\<And>x. total_op (f x)) \<Longrightarrow> total_op (bindE m f)"
  unfolding total_op_def bindE_ok by blast

lemma total_simple:
  "total_op (ret x)" "total_op (reads f)" "total_op (modifies g)" "total_op utcnow"
  "total_op uuid4" "total_op commit"
  by (auto simp: total_op_def run_simps)

lemma total_for_each: "(\<And>x. total_op (f x)) \<Longrightarrow> total_op (for_each xs f)"
  by (induction xs) (auto intro: total_bindE total_simple)

subsection \<open>Operations that change nothing\<close>

definition reads_only :: "'a op \<Rightarrow> bool" where
  "reads_only m \<longleftrightarrow> (\<forall>w. snd (m w) = w)"

named_theorems reads_only_intros \<open>operations that change nothing\<close>

lemma reads_onlyD: "reads_only m \<Longrightarrow> m w = (r, w') \<Longrightarrow> w' = w"
  by (metis reads_only_def snd_conv)

lemma reads_only_keeps: "reads_only m \<Longrightarrow> keeps I m"
  by (simp add: reads_only_def keeps_def)

lemma reads_only_bindE [reads_only_intros]:
  "reads_only m \<Longrightarrow> (\<And>x. reads_only (f x)) \<Longrightarrow> reads_only (bindE m f)"
  by (auto simp: reads_only_def bindE_run split: prod.split sum.split)
     (metis snd_conv)+

lemma reads_only_simple [reads_only_intros]:
  "reads_only (ret x)" "reads_only (raise e)" "reads_only (raise_if b e)"
  "reads_only (the_or y e)" "reads_only (reads f)" "reads_only utcnow"
  by (auto simp: reads_only_def run_simps split: option.split)

lemma reads_only_one_or_none [reads_only_intros]: "reads_only (one_or_none xs)"
  by (cases xs rule: one_or_none.cases) (auto simp: reads_only_def run_simps)

lemma reads_only_cases [reads_only_intros]:
  "(b \<Longrightarrow> reads_only m) \<Longrightarrow> (\<not> b \<Longrightarrow> reads_only n) \<Longrightarrow> reads_only (if b then m else n)"
  "reads_only m \<Longrightarrow> (\<And>y. reads_only (f y)) \<Longrightarrow> reads_only (case z of None \<Rightarrow> m | Some y \<Rightarrow> f y)"
  "(\<And>a c. reads_only (g a c)) \<Longrightarrow> reads_only (case p of (a, c) \<Rightarrow> g a c)"
  by (auto split: option.split prod.split)

lemma reads_only_map_each [reads_only_intros]:
  "(\<And>x. reads_only (f x)) \<Longrightarrow> reads_only (map_each xs f)"
  by (induction xs) (auto intro: reads_only_intros)

lemma bindE_assoc: "bindE (bindE m f) g = bindE m (\<lambda>x. bindE (f x) g)"
  by (rule ext) (simp add: bindE_run split: prod.split sum.split)

subsection \<open>Stepping through a handler that returned\<close>

text \<open>
  \<open>step_ok\<close> rewrites \<open>handler w = (Inr y, w')\<close> one call at a time into the checks that passed and
  the final world: no case distinction is left on the way.
\<close>

lemma step_ok_simple [step_ok]:
  "bindE (bindE m g) f w = (Inr y, w') \<longleftrightarrow> bindE m (\<lambda>x. bindE (g x) f) w = (Inr y, w')"
  "bindE (ret v2) f2 w = (Inr y, w') \<longleftrightarrow> f2 v2 w = (Inr y, w')"
  "bindE (raise e) f3 w = (Inr y, w') \<longleftrightarrow> False"
  "bindE (reads r) f4 w = (Inr y, w') \<longleftrightarrow> f4 (r (db w)) w = (Inr y, w')"
  "bindE (modifies h) f5 w = (Inr y, w') \<longleftrightarrow> f5 () (w\<lparr>db := h (db w)\<rparr>) = (Inr y, w')"
  "bindE utcnow f6 w = (Inr y, w') \<longleftrightarrow> f6 (clock w) w = (Inr y, w')"
  "bindE uuid4 f7 w = (Inr y, w')
     \<longleftrightarrow> f7 (next_uuid w) (w\<lparr>next_uuid := Suc (next_uuid w)\<rparr>) = (Inr y, w')"
  "bindE commit f8 w = (Inr y, w') \<longleftrightarrow> f8 () (w\<lparr>disk := db w\<rparr>) = (Inr y, w')"
  "bindE (raise_if b e) f9 w = (Inr y, w') \<longleftrightarrow> \<not> b \<and> f9 () w = (Inr y, w')"
  "bindE (the_or z10 e) f10 w = (Inr y, w') \<longleftrightarrow> (\<exists>v. z10 = Some v \<and> f10 v w = (Inr y, w'))"
  "bindE (one_or_none xs) f11 w = (Inr y, w')
     \<longleftrightarrow> (\<exists>v. (case v of None \<Rightarrow> xs = [] | Some x11 \<Rightarrow> xs = [x11]) \<and> f11 v w = (Inr y, w'))"
  by (auto simp: run_simps split: prod.splits sum.splits option.splits list.splits)

lemma step_ok_final [step_ok]:
  "ret x w = (Inr x', w') \<longleftrightarrow> x = x' \<and> w' = w"
  "raise e w = (Inr y, w') \<longleftrightarrow> False"
  "raise_if b e w = (Inr u, w') \<longleftrightarrow> \<not> b \<and> w' = w"
  "the_or z e w = (Inr z', w') \<longleftrightarrow> z = Some z' \<and> w' = w"
  "reads r w = (Inr a, w') \<longleftrightarrow> r (db w) = a \<and> w' = w"
  by (auto simp: run_simps split: option.splits)

lemma step_ok_reads_only [step_ok]:
  "reads_only m \<Longrightarrow> bindE m f w = (Inr y, w')
     \<longleftrightarrow> (\<exists>x. m w = (Inr x, w) \<and> f x w = (Inr y, w'))"
  by (auto simp: ok_iff dest: reads_onlyD)

text \<open>\<open>step_run\<close> executes the next call, whatever the handler ends with.\<close>

lemma step_run_simple [step_run]:
  "bindE (bindE m1 g1) f1 w = bindE m1 (\<lambda>x. bindE (g1 x) f1) w"
  "bindE (ret x2) f2 w = f2 x2 w"
  "bindE (raise e3) f3 w = (Inl e3, w)"
  "bindE (reads r4) f4 w = f4 (r4 (db w)) w"
  "bindE (modifies h5) f5 w = f5 () (w\<lparr>db := h5 (db w)\<rparr>)"
  "bindE utcnow f6 w = f6 (clock w) w"
  "bindE uuid4 f7 w = f7 (next_uuid w) (w\<lparr>next_uuid := Suc (next_uuid w)\<rparr>)"
  "bindE commit f8 w = f8 () (w\<lparr>disk := db w\<rparr>)"
  "bindE (raise_if b9 e9) f9 w = (if b9 then (Inl e9, w) else f9 () w)"
  "bindE (the_or None e10) f10 w = (Inl e10, w)"
  "bindE (the_or (Some v10) e10) f10 w = f10 v10 w"
  "bindE (one_or_none []) f11 w = f11 None w"
  "bindE (one_or_none [y11]) f11 w = f11 (Some y11) w"
  by (simp_all add: run_simps split: prod.split sum.split)

lemma step_run_bind: "m w = (Inr x, w1) \<Longrightarrow> bindE m f w = f x w1"
  by (simp add: bindE_run)

lemma step_ok_bind: "bindE m f w = (Inr y, w')
    \<longleftrightarrow> (\<exists>x w1. m w = (Inr x, w1) \<and> f x w1 = (Inr y, w'))"
  by (rule bindE_ok)

lemma the_or_checked_ok:
  "(case z of None \<Rightarrow> None | Some r \<Rightarrow> if b r then None else Some r) = Some v \<longleftrightarrow> z = Some v \<and> \<not> b v"
  by (auto split: option.splits)

text \<open>
  A loop that inserts one row per element: \<open>U\<close> updates the table, \<open>mk i x\<close> is the row for \<open>x\<close> with
  identifier \<open>i\<close>.
\<close>

definition insert_each ::
  "(('r list \<Rightarrow> 'r list) \<Rightarrow> database \<Rightarrow> database) \<Rightarrow> (uuid \<Rightarrow> 'x \<Rightarrow> 'r) \<Rightarrow> 'x list \<Rightarrow> unit op"
where
  "insert_each U mk xs = for_each xs (\<lambda>x. bindE uuid4 (\<lambda>i. modifies (U (\<lambda>rows. rows @ [mk i x]))))"

definition inserted_rows :: "(uuid \<Rightarrow> 'x \<Rightarrow> 'r) \<Rightarrow> uuid \<Rightarrow> 'x list \<Rightarrow> 'r list" where
  "inserted_rows mk n xs = map2 mk [n..<n + length xs] xs"

lemma inserted_rows_Nil [simp]: "inserted_rows mk n [] = []"
  by (simp add: inserted_rows_def)

lemma inserted_rows_Cons [simp]:
  "inserted_rows mk n (x # xs) = mk n x # inserted_rows mk (Suc n) xs"
proof -
  have "[n..<n + length (x # xs)] = n # [Suc n..<n + length (x # xs)]"
    by (rule upt_conv_Cons) simp
  then show ?thesis unfolding inserted_rows_def by (simp del: upt_Suc)
qed

lemma length_inserted_rows [simp]: "length (inserted_rows mk n xs) = length xs"
  by (simp add: inserted_rows_def)

lemma insert_each_run:
  assumes "\<And>f g d. U f (U g d) = U (\<lambda>rows. f (g rows)) d" and "\<And>d. U (\<lambda>rows. rows) d = d"
  shows "insert_each U mk xs w = (Inr (), w\<lparr>next_uuid := next_uuid w + length xs,
           db := U (\<lambda>rows. rows @ inserted_rows mk (next_uuid w) xs) (db w)\<rparr>)"
proof (induction xs arbitrary: w)
  case (Cons x xs)
  let ?w = "w\<lparr>next_uuid := Suc (next_uuid w), db := U (\<lambda>rows. rows @ [mk (next_uuid w) x]) (db w)\<rparr>"
  have "insert_each U mk (x # xs) w = insert_each U mk xs ?w"
    by (simp add: insert_each_def bindE_run uuid4_run modifies_run)
  also have "\<dots> = (Inr (), w\<lparr>next_uuid := next_uuid w + length (x # xs),
      db := U (\<lambda>rows. rows @ inserted_rows mk (next_uuid w) (x # xs)) (db w)\<rparr>)"
    unfolding Cons.IH by (simp add: assms(1))
  finally show ?case .
qed (simp add: insert_each_def ret_run assms(2))

lemma keeps_insert_each [keeps_intros]:
  "keeps I uuid4 \<Longrightarrow> (\<And>f. keeps I (modifies f)) \<Longrightarrow> keeps I (insert_each U mk xs)"
  unfolding insert_each_def by (intro keeps_for_each keeps_bindE)

text \<open>An operation whose only commit is its last step is atomic.\<close>

lemma atomic_last_commit: "atomic (bindE commit (\<lambda>_. ret x))" "atomic commit"
  by (auto simp: atomic_def run_simps)

lemma atomic_cases:
  "(b \<Longrightarrow> atomic m) \<Longrightarrow> (\<not> b \<Longrightarrow> atomic n) \<Longrightarrow> atomic (if b then m else n)"
  "atomic m \<Longrightarrow> (\<And>y. atomic (f y)) \<Longrightarrow> atomic (case z of None \<Rightarrow> m | Some y \<Rightarrow> f y)"
  "(\<And>a c. atomic (g a c)) \<Longrightarrow> atomic (case p of (a, c) \<Rightarrow> g a c)"
  by (auto split: option.split prod.split)

end
