(* ===== verification/Authz_Catalog.thy ===== *)
theory Authz_Catalog
  imports Effects
begin

section \<open>The permission catalog and the public deny reasons\<close>

text \<open>
  \<open>authz/domain/catalog.py\<close> and \<open>authz/domain/deny_messages.py\<close>: the permission codes with their
  scope, the permissions of the system roles (a dictionary, kept in its order), the check that a role
  of one scope never receives a permission of the other, and the mapping of internal deny reasons to
  what a client sees.
\<close>

record permission_spec =
  spc_code :: string
  spc_scope_type :: string
  spc_description :: string

definition permission_catalog :: "permission_spec list" where
  "permission_catalog =
     [\<lparr>spc_code = ''resource.read'', spc_scope_type = ''tenant'', spc_description = ''List/read resources''\<rparr>,
      \<lparr>spc_code = ''resource.create'', spc_scope_type = ''tenant'', spc_description = ''Create resource records''\<rparr>,
      \<lparr>spc_code = ''resource.update'', spc_scope_type = ''tenant'', spc_description = ''Update resource records''\<rparr>,
      \<lparr>spc_code = ''resource.delete'', spc_scope_type = ''tenant'', spc_description = ''Delete resources''\<rparr>,
      \<lparr>spc_code = ''tenant.member.read'', spc_scope_type = ''tenant'', spc_description = ''List tenant members''\<rparr>,
      \<lparr>spc_code = ''tenant.member.invite'', spc_scope_type = ''tenant'', spc_description = ''Invite tenant members''\<rparr>,
      \<lparr>spc_code = ''tenant.member.revoke'', spc_scope_type = ''tenant'', spc_description = ''Revoke tenant membership''\<rparr>,
      \<lparr>spc_code = ''tenant.settings.update'', spc_scope_type = ''tenant'', spc_description = ''Update tenant settings''\<rparr>,
      \<lparr>spc_code = ''vendor.read'', spc_scope_type = ''tenant'', spc_description = ''Read vendor profile for tenant''\<rparr>,
      \<lparr>spc_code = ''vendor.manage'', spc_scope_type = ''tenant'', spc_description = ''Manage vendor settings for tenant''\<rparr>,
      \<lparr>spc_code = ''billing.invoice.read'', spc_scope_type = ''tenant'', spc_description = ''Read tenant invoices''\<rparr>,
      \<lparr>spc_code = ''platform.tenant.read'', spc_scope_type = ''platform'', spc_description = ''Read any tenant (management plane)''\<rparr>,
      \<lparr>spc_code = ''platform.tenant.suspend'', spc_scope_type = ''platform'', spc_description = ''Suspend a customer tenant''\<rparr>,
      \<lparr>spc_code = ''platform.plugin.review'', spc_scope_type = ''platform'', spc_description = ''Review and decide vendor plugin versions''\<rparr>,
      \<lparr>spc_code = ''platform.plugin.manage_standard'', spc_scope_type = ''platform'', spc_description = ''Create and lifecycle platform standard plugins''\<rparr>,
      \<lparr>spc_code = ''platform.user.manage'', spc_scope_type = ''platform'', spc_description = ''Manage platform user directory lifecycle''\<rparr>,
      \<lparr>spc_code = ''platform.audit.read'', spc_scope_type = ''platform'', spc_description = ''Read cross-tenant audit log''\<rparr>]"

definition compat_permission_catalog :: "permission_spec list" where
  "compat_permission_catalog =
     [\<lparr>spc_code = ''tenant.admin'', spc_scope_type = ''tenant'', spc_description = ''Legacy tenant admin (compat)''\<rparr>,
      \<lparr>spc_code = ''resource.allocation.create'', spc_scope_type = ''tenant'', spc_description = ''Legacy allocation create (compat)''\<rparr>,
      \<lparr>spc_code = ''resource.allocation.approve'', spc_scope_type = ''tenant'', spc_description = ''Legacy allocation approve (compat)''\<rparr>,
      \<lparr>spc_code = ''audit.read'', spc_scope_type = ''tenant'', spc_description = ''Legacy tenant audit read (compat)''\<rparr>]"

definition tenant_system_role_permissions :: "(string \<times> string list) list" where
  "tenant_system_role_permissions =
     [(''tenant-admin'',
        [''resource.read'', ''resource.create'', ''resource.update'', ''resource.delete'',
         ''tenant.member.read'', ''tenant.member.invite'', ''tenant.member.revoke'',
         ''tenant.settings.update'', ''vendor.read'', ''vendor.manage'', ''billing.invoice.read'',
         ''tenant.admin'', ''resource.allocation.create'', ''resource.allocation.approve'',
         ''audit.read'']),
      (''resource-admin'',
        [''resource.read'', ''resource.create'', ''resource.update'', ''resource.delete'',
         ''vendor.read'', ''vendor.manage'', ''resource.allocation.create'',
         ''resource.allocation.approve'']),
      (''viewer'',
        [''resource.read'', ''tenant.member.read'', ''vendor.read'', ''billing.invoice.read''])]"

definition platform_system_role_permissions :: "(string \<times> string list) list" where
  "platform_system_role_permissions =
     [(''platform-admin'',
        [''platform.tenant.read'', ''platform.tenant.suspend'', ''platform.plugin.review'',
         ''platform.plugin.manage_standard'', ''platform.user.manage'', ''platform.audit.read'']),
      (''platform-support'', [''platform.tenant.read''])]"

definition all_permission_specs :: "permission_spec list" where
  "all_permission_specs = permission_catalog @ compat_permission_catalog"

definition is_platform_code :: "string \<Rightarrow> bool" where
  "is_platform_code code = startswith code ''platform.''"

definition scope_type_for_code :: "string \<Rightarrow> string" where
  "scope_type_for_code code = (if is_platform_code code then ''platform'' else ''tenant'')"

definition assert_role_may_receive_permission :: "string \<Rightarrow> string \<Rightarrow> unit op" where
  "assert_role_may_receive_permission role_scope_type permission_code =
     (let perm_scope = scope_type_for_code permission_code
      in if role_scope_type = ''tenant''
            \<and> (perm_scope = ''platform'' \<or> is_platform_code permission_code)
         then raise (ValueError (''refusing to attach platform permission '' @ repr_str permission_code
                                 @ '' to tenant-scoped role''))
         else if role_scope_type = ''platform'' \<and> perm_scope \<noteq> ''platform''
         then raise (ValueError (''refusing to attach tenant permission '' @ repr_str permission_code
                                 @ '' to platform-scoped role''))
         else ret ())"

definition public_deny_detail :: string where
  "public_deny_detail = ''forbidden''"

definition internal_reason_to_public :: "(string \<times> string) list" where
  "internal_reason_to_public =
     [(''tenant_membership_inactive'', ''forbidden''),
      (''tenant_not_active'', ''forbidden''),
      (''no_matching_role_permission'', ''forbidden''),
      (''principal_not_found'', ''forbidden''),
      (''permission_not_found'', ''forbidden''),
      (''permission_not_active'', ''forbidden''),
      (''permission_scope_mismatch'', ''forbidden''),
      (''public_surface_rejects_platform_permission'', ''forbidden''),
      (''management_surface_requires_platform_permission'', ''forbidden''),
      (''operator_membership_inactive'', ''forbidden''),
      (''tenant_id_required'', ''forbidden''),
      (''permission_code_required'', ''forbidden'')]"

definition public_forbid_detail :: "string \<Rightarrow> string" where
  "public_forbid_detail internal_reason =
     (if startswith internal_reason ''principal_status_'' then public_deny_detail
      else case map_of internal_reason_to_public internal_reason of
        None \<Rightarrow> public_deny_detail | Some detail \<Rightarrow> detail)"

subsection \<open>Lemmas\<close>

lemma assert_role_ok [ok_iff]:
  "assert_role_may_receive_permission scope code w = (Inr u, w')
    \<longleftrightarrow> w' = w \<and> (scope = ''tenant'' \<longrightarrow> \<not> is_platform_code code)
        \<and> (scope = ''platform'' \<longrightarrow> is_platform_code code)"
  by (auto simp: assert_role_may_receive_permission_def scope_type_for_code_def Let_def ok_iff)

lemma keeps_assert_role [keeps_intros]: "keeps I (assert_role_may_receive_permission scope code)"
  by (simp add: assert_role_may_receive_permission_def Let_def keeps_raise keeps_ret)

lemma assert_role_tenant:
  "\<not> is_platform_code code \<Longrightarrow> assert_role_may_receive_permission ''tenant'' code = ret ()"
  by (simp add: assert_role_may_receive_permission_def scope_type_for_code_def)

lemma assert_role_platform:
  "is_platform_code code \<Longrightarrow> assert_role_may_receive_permission ''platform'' code = ret ()"
  by (simp add: assert_role_may_receive_permission_def scope_type_for_code_def)

lemma public_forbid_detail_const [simp]: "public_forbid_detail reason = ''forbidden''"
  by (simp add: public_forbid_detail_def internal_reason_to_public_def public_deny_detail_def)

lemma spec_scope:
  "\<forall>s \<in> set all_permission_specs. spc_scope_type s = scope_type_for_code (spc_code s)"
  by code_simp

lemma distinct_spec_codes: "distinct (map spc_code all_permission_specs)"
  by (simp add: all_permission_specs_def permission_catalog_def compat_permission_catalog_def)

lemma tenant_templates_not_platform:
  "\<forall>(n, codes) \<in> set tenant_system_role_permissions. \<forall>c \<in> set codes. \<not> is_platform_code c"
  by (simp add: tenant_system_role_permissions_def is_platform_code_def)

lemma platform_templates_platform:
  "\<forall>(n, codes) \<in> set platform_system_role_permissions. \<forall>c \<in> set codes. is_platform_code c"
  by (simp add: platform_system_role_permissions_def is_platform_code_def)

lemma templates_in_catalog:
  "\<forall>(n, codes) \<in> set (tenant_system_role_permissions @ platform_system_role_permissions).
     \<forall>c \<in> set codes. c \<in> spc_code ` set all_permission_specs"
  by code_simp

end
