(* ===== verification/Authz_Service.thy ===== *)
theory Authz_Service
  imports Authz_Catalog
begin

section \<open>The authorization service\<close>

text \<open>
  \<open>authz/domain/models.py\<close>, the repository protocols of \<open>authz/domain/repositories.py\<close> as a record
  of operations (\<open>authz_ports\<close>), and \<open>AuthorizationService\<close> of
  \<open>authz/application/authorization_service.py\<close>, which uses only those ports. The locale
  \<open>authorization_contract\<close> states what the service relies on (the reading ports return a function of
  the tables and change nothing, the audit port appends) and proves once what the service then does:
  it always returns, it allows exactly when every check of the specification \<open>may_use\<close> holds, and it
  writes one audit entry that agrees with the answer.
\<close>

datatype api_surface = PUBLIC | MANAGEMENT

datatype authorization_decision = ALLOW | DENY

fun decision_value :: "authorization_decision \<Rightarrow> string" where
  "decision_value ALLOW = ''allow''"
| "decision_value DENY = ''deny''"

record authorize_command =
  cmd_principal_id :: uuid
  cmd_permission_code :: string
  cmd_api_surface :: api_surface
  cmd_tenant_id :: "uuid option"
  cmd_operator_org_id :: "uuid option"
  cmd_request_id :: "string option"
  cmd_at :: "instant option"

record authorize_result =
  azr_allowed :: bool
  azr_decision :: authorization_decision
  azr_reason :: string
  azr_permission_code :: string
  azr_scope_type :: string
  azr_tenant_id :: "uuid option"
  azr_operator_org_id :: "uuid option"

record permission_record =
  pmr_id :: uuid
  pmr_code :: string
  pmr_scope_type :: string
  pmr_status :: string

record audit_entry =
  ent_principal_id :: uuid
  ent_permission_code :: string
  ent_scope_type :: string
  ent_tenant_id :: "uuid option"
  ent_operator_org_id :: "uuid option"
  ent_decision :: string
  ent_reason :: string
  ent_request_id :: "string option"

record authz_ports =
  get_status :: "uuid \<Rightarrow> string option op"
  is_tenant_active :: "uuid \<Rightarrow> bool op"
  has_active_tenant_membership :: "uuid \<Rightarrow> uuid \<Rightarrow> bool op"
  find_active_operator_org_id :: "uuid \<Rightarrow> uuid option op"
  get_by_code :: "string \<Rightarrow> permission_record option op"
  has_exact_permission_grant ::
    "uuid \<Rightarrow> uuid \<Rightarrow> string \<Rightarrow> uuid option \<Rightarrow> uuid option \<Rightarrow> instant \<Rightarrow> bool op"
  append_audit :: "audit_entry \<Rightarrow> unit op"

text \<open>\<open>x if x is not None else y\<close>\<close>

definition first_some :: "'a option \<Rightarrow> 'a option \<Rightarrow> 'a option" where
  "first_some x y = (case x of None \<Rightarrow> y | Some z \<Rightarrow> Some z)"

definition allow ::
  "authz_ports \<Rightarrow> authorize_command \<Rightarrow> string \<Rightarrow> string \<Rightarrow> uuid option \<Rightarrow> uuid option
    \<Rightarrow> authorize_result op"
where
  "allow P command reason scope_type tenant operator_org =
     (let result = \<lparr>azr_allowed = True, azr_decision = ALLOW, azr_reason = reason,
                    azr_permission_code = cmd_permission_code command,
                    azr_scope_type = scope_type,
                    azr_tenant_id = first_some tenant (cmd_tenant_id command),
                    azr_operator_org_id = first_some operator_org (cmd_operator_org_id command)\<rparr>
      in bindE (append_audit P
           \<lparr>ent_principal_id = cmd_principal_id command,
            ent_permission_code = cmd_permission_code command,
            ent_scope_type = scope_type,
            ent_tenant_id = azr_tenant_id result,
            ent_operator_org_id = azr_operator_org_id result,
            ent_decision = decision_value (azr_decision result),
            ent_reason = reason,
            ent_request_id = cmd_request_id command\<rparr>) (\<lambda>_.
         ret result))"

definition deny ::
  "authz_ports \<Rightarrow> authorize_command \<Rightarrow> string \<Rightarrow> string option \<Rightarrow> uuid option \<Rightarrow> uuid option
    \<Rightarrow> authorize_result op"
where
  "deny P command reason scope_type tenant operator_org =
     (let resolved_scope =
            str_or scope_type
              (if cmd_api_surface command = MANAGEMENT then ''platform'' else ''tenant'');
          result = \<lparr>azr_allowed = False, azr_decision = DENY, azr_reason = reason,
                    azr_permission_code = cmd_permission_code command,
                    azr_scope_type = resolved_scope,
                    azr_tenant_id = first_some tenant (cmd_tenant_id command),
                    azr_operator_org_id = first_some operator_org (cmd_operator_org_id command)\<rparr>
      in bindE (append_audit P
           \<lparr>ent_principal_id = cmd_principal_id command,
            ent_permission_code = cmd_permission_code command,
            ent_scope_type = resolved_scope,
            ent_tenant_id = azr_tenant_id result,
            ent_operator_org_id = azr_operator_org_id result,
            ent_decision = decision_value (azr_decision result),
            ent_reason = reason,
            ent_request_id = cmd_request_id command\<rparr>) (\<lambda>_.
         ret result))"

definition authorize_tenant ::
  "authz_ports \<Rightarrow> authorize_command \<Rightarrow> string \<Rightarrow> instant \<Rightarrow> authorize_result op"
where
  "authorize_tenant P command code at =
     (case cmd_tenant_id command of
        None \<Rightarrow> deny P command ''tenant_id_required'' (Some ''tenant'') None None
      | Some tenant \<Rightarrow>
     bindE (get_status P (cmd_principal_id command)) (\<lambda>status.
     (case status of
        None \<Rightarrow> deny P command ''principal_not_found'' (Some ''tenant'') (Some tenant) None
      | Some s \<Rightarrow>
     if s \<noteq> ''active''
     then deny P command (''principal_status_'' @ s) (Some ''tenant'') (Some tenant) None
     else
     bindE (is_tenant_active P tenant) (\<lambda>active.
     if \<not> active
     then deny P command ''tenant_not_active'' (Some ''tenant'') (Some tenant) None
     else
     bindE (has_active_tenant_membership P (cmd_principal_id command) tenant) (\<lambda>member.
     if \<not> member
     then deny P command ''tenant_membership_inactive'' (Some ''tenant'') (Some tenant) None
     else
     bindE (get_by_code P code) (\<lambda>permission.
     (case permission of
        None \<Rightarrow> deny P command ''permission_not_found'' (Some ''tenant'') (Some tenant) None
      | Some p \<Rightarrow>
     if pmr_status p \<noteq> ''active''
     then deny P command ''permission_not_active'' (Some ''tenant'') (Some tenant) None
     else if pmr_scope_type p \<noteq> ''tenant''
     then deny P command ''permission_scope_mismatch'' (Some (pmr_scope_type p)) (Some tenant) None
     else
     bindE (has_exact_permission_grant P (cmd_principal_id command) (pmr_id p) ''tenant''
              (Some tenant) None at) (\<lambda>granted.
     if \<not> granted
     then deny P command ''no_matching_role_permission'' (Some ''tenant'') (Some tenant) None
     else allow P command ''granted'' ''tenant'' (Some tenant) None))))))))"

definition authorize_platform ::
  "authz_ports \<Rightarrow> authorize_command \<Rightarrow> string \<Rightarrow> instant \<Rightarrow> authorize_result op"
where
  "authorize_platform P command code at =
     bindE (get_status P (cmd_principal_id command)) (\<lambda>status.
     (case status of
        None \<Rightarrow> deny P command ''principal_not_found'' (Some ''platform'') None None
      | Some s \<Rightarrow>
     if s \<noteq> ''active''
     then deny P command (''principal_status_'' @ s) (Some ''platform'') None None
     else
     bindE (find_active_operator_org_id P (cmd_principal_id command)) (\<lambda>discovered.
     if cmd_operator_org_id command \<noteq> None \<and> discovered \<noteq> cmd_operator_org_id command
     then deny P command ''operator_membership_inactive'' (Some ''platform'') None
            (cmd_operator_org_id command)
     else
     (case first_some (cmd_operator_org_id command) discovered of
        None \<Rightarrow> deny P command ''operator_membership_inactive'' (Some ''platform'') None None
      | Some operator_org \<Rightarrow>
     bindE (get_by_code P code) (\<lambda>permission.
     (case permission of
        None \<Rightarrow> deny P command ''permission_not_found'' (Some ''platform'') None (Some operator_org)
      | Some p \<Rightarrow>
     if pmr_status p \<noteq> ''active''
     then deny P command ''permission_not_active'' (Some ''platform'') None (Some operator_org)
     else if pmr_scope_type p \<noteq> ''platform''
     then deny P command ''permission_scope_mismatch'' (Some (pmr_scope_type p)) None
            (Some operator_org)
     else if \<not> is_platform_code (pmr_code p)
     then deny P command ''permission_code_not_platform'' (Some ''platform'') None
            (Some operator_org)
     else
     bindE (has_exact_permission_grant P (cmd_principal_id command) (pmr_id p) ''platform''
              None (Some operator_org) at) (\<lambda>granted.
     if \<not> granted
     then deny P command ''no_matching_role_permission'' (Some ''platform'') None
            (Some operator_org)
     else allow P command ''granted'' ''platform'' None (Some operator_org))))))))"

definition authorize :: "authz_ports \<Rightarrow> authorize_command \<Rightarrow> authorize_result op" where
  "authorize P command =
     bindE utcnow (\<lambda>now.
     let at = (case cmd_at command of None \<Rightarrow> now | Some t \<Rightarrow> t);
         code = strip (cmd_permission_code command)
     in if code = [] then deny P command ''permission_code_required'' None None None
        else case cmd_api_surface command of
          PUBLIC \<Rightarrow>
            if is_platform_code code
            then deny P command ''public_surface_rejects_platform_permission'' (Some ''platform'')
                   None None
            else authorize_tenant P command code at
        | MANAGEMENT \<Rightarrow>
            if \<not> is_platform_code code
            then deny P command ''management_surface_requires_platform_permission''
                   (Some ''tenant'') None None
            else authorize_platform P command code at)"

text \<open>\<open>_require\<close> of the services: a public-surface check of one tenant permission.\<close>

definition public_command :: "uuid \<Rightarrow> uuid \<Rightarrow> string \<Rightarrow> string option \<Rightarrow> authorize_command" where
  "public_command prin tenant permission request_id =
     \<lparr>cmd_principal_id = prin, cmd_permission_code = permission, cmd_api_surface = PUBLIC,
      cmd_tenant_id = Some tenant, cmd_operator_org_id = None, cmd_request_id = request_id,
      cmd_at = None\<rparr>"

definition require_permission ::
  "authz_ports \<Rightarrow> uuid \<Rightarrow> uuid \<Rightarrow> string \<Rightarrow> string option \<Rightarrow> unit op"
where
  "require_permission P prin tenant permission request_id =
     bindE (authorize P (public_command prin tenant permission request_id)) (\<lambda>decision.
     raise_if (\<not> azr_allowed decision)
       (ForbiddenError (public_forbid_detail (azr_reason decision))))"

subsection \<open>The specification\<close>

text \<open>What an allowed request needs, over what the reading ports report.\<close>

record authz_views =
  view_status :: "uuid \<Rightarrow> string option"
  view_tenant_active :: "uuid \<Rightarrow> bool"
  view_member :: "uuid \<Rightarrow> uuid \<Rightarrow> bool"
  view_operator_org :: "uuid \<Rightarrow> uuid option"
  view_permission :: "string \<Rightarrow> permission_record option"
  view_grant :: "uuid \<Rightarrow> uuid \<Rightarrow> string \<Rightarrow> uuid option \<Rightarrow> uuid option \<Rightarrow> instant \<Rightarrow> bool"

definition may_use_tenant :: "authz_views \<Rightarrow> uuid \<Rightarrow> string \<Rightarrow> uuid \<Rightarrow> instant \<Rightarrow> bool" where
  "may_use_tenant V prin code tenant at \<longleftrightarrow>
     view_status V prin = Some ''active'' \<and> view_tenant_active V tenant
     \<and> view_member V prin tenant
     \<and> (case view_permission V code of None \<Rightarrow> False
        | Some p \<Rightarrow> pmr_status p = ''active'' \<and> pmr_scope_type p = ''tenant''
            \<and> view_grant V prin (pmr_id p) ''tenant'' (Some tenant) None at)"

definition may_use_platform ::
  "authz_views \<Rightarrow> uuid \<Rightarrow> string \<Rightarrow> uuid option \<Rightarrow> instant \<Rightarrow> bool"
where
  "may_use_platform V prin code asked at \<longleftrightarrow>
     view_status V prin = Some ''active''
     \<and> (case view_operator_org V prin of None \<Rightarrow> False
        | Some operator_org \<Rightarrow>
            (asked = None \<or> asked = Some operator_org)
            \<and> (case view_permission V code of None \<Rightarrow> False
               | Some p \<Rightarrow> pmr_status p = ''active'' \<and> pmr_scope_type p = ''platform''
                   \<and> is_platform_code (pmr_code p)
                   \<and> view_grant V prin (pmr_id p) ''platform'' None (Some operator_org) at))"

definition may_use :: "authz_views \<Rightarrow> authorize_command \<Rightarrow> instant \<Rightarrow> bool" where
  "may_use V command now \<longleftrightarrow>
     (let at = (case cmd_at command of None \<Rightarrow> now | Some t \<Rightarrow> t);
          code = strip (cmd_permission_code command)
      in code \<noteq> []
         \<and> (case cmd_api_surface command of
              PUBLIC \<Rightarrow> \<not> is_platform_code code
                \<and> (case cmd_tenant_id command of None \<Rightarrow> False
                   | Some tenant \<Rightarrow> may_use_tenant V (cmd_principal_id command) code tenant at)
            | MANAGEMENT \<Rightarrow> is_platform_code code
                \<and> may_use_platform V (cmd_principal_id command) code
                    (cmd_operator_org_id command) at))"

text \<open>The audit entry agrees with the answer.\<close>

definition entry_of :: "authorize_command \<Rightarrow> authorize_result \<Rightarrow> audit_entry" where
  "entry_of command r =
     \<lparr>ent_principal_id = cmd_principal_id command,
      ent_permission_code = cmd_permission_code command,
      ent_scope_type = azr_scope_type r,
      ent_tenant_id = azr_tenant_id r,
      ent_operator_org_id = azr_operator_org_id r,
      ent_decision = (if azr_allowed r then ''allow'' else ''deny''),
      ent_reason = azr_reason r,
      ent_request_id = cmd_request_id command\<rparr>"

subsection \<open>The contract of the ports, and the service over it\<close>

locale authorization_contract =
  fixes P :: authz_ports
    and I :: "database \<Rightarrow> bool"
    and V :: "database \<Rightarrow> authz_views"
    and logged :: "audit_entry \<Rightarrow> world \<Rightarrow> world"
  assumes get_status: "I (db w) \<Longrightarrow> get_status P p w = (Inr (view_status (V (db w)) p), w)"
    and is_tenant_active:
      "I (db w) \<Longrightarrow> is_tenant_active P t w = (Inr (view_tenant_active (V (db w)) t), w)"
    and has_member:
      "I (db w) \<Longrightarrow> has_active_tenant_membership P p t w = (Inr (view_member (V (db w)) p t), w)"
    and find_operator:
      "I (db w) \<Longrightarrow> find_active_operator_org_id P p w = (Inr (view_operator_org (V (db w)) p), w)"
    and get_by_code: "I (db w) \<Longrightarrow> get_by_code P c w = (Inr (view_permission (V (db w)) c), w)"
    and has_grant:
      "I (db w) \<Longrightarrow> has_exact_permission_grant P p i sc tn og a w
        = (Inr (view_grant (V (db w)) p i sc tn og a), w)"
    and append: "append_audit P e w = (Inr (), logged e w)"
begin

lemmas port_runs = get_status is_tenant_active has_member find_operator get_by_code has_grant append

definition denies :: "authorize_command \<Rightarrow> world \<Rightarrow> (error + authorize_result) \<times> world \<Rightarrow> bool" where
  "denies c w out \<longleftrightarrow> (\<exists>r. out = (Inr r, logged (entry_of c r) w) \<and> \<not> azr_allowed r)"

definition allows :: "authorize_command \<Rightarrow> world \<Rightarrow> (error + authorize_result) \<times> world \<Rightarrow> bool" where
  "allows c w out \<longleftrightarrow> (\<exists>r. out = (Inr r, logged (entry_of c r) w) \<and> azr_allowed r
     \<and> azr_reason r = ''granted'')"

lemma deny_denies: "denies c w (deny P c reason sc t g w)"
  by (auto simp: denies_def deny_def Let_def run_simps append entry_of_def)

lemma allow_allows: "allows c w (allow P c ''granted'' sc t g w)"
  by (auto simp: allows_def allow_def Let_def run_simps append entry_of_def)

lemma authorize_tenant_run:
  assumes I: "I (db w)" and t: "cmd_tenant_id c = Some t"
  shows "if may_use_tenant (V (db w)) (cmd_principal_id c) code t at
         then allows c w (authorize_tenant P c code at w)
         else denies c w (authorize_tenant P c code at w)"
  using I t deny_denies allow_allows
  by (simp add: authorize_tenant_def may_use_tenant_def run_simps port_runs split: option.split)

lemma authorize_platform_run:
  assumes I: "I (db w)"
  shows "if may_use_platform (V (db w)) (cmd_principal_id c) code (cmd_operator_org_id c) at
         then allows c w (authorize_platform P c code at w)
         else denies c w (authorize_platform P c code at w)"
  using I deny_denies allow_allows
  by (auto simp: authorize_platform_def may_use_platform_def first_some_def run_simps port_runs
      split: option.split)

lemma authorize_run:
  assumes I: "I (db w)"
  shows "if may_use (V (db w)) c (clock w) then allows c w (authorize P c w)
         else denies c w (authorize P c w)"
proof (cases "cmd_api_surface c")
  case PUBLIC
  show ?thesis
  proof (cases "cmd_tenant_id c")
    case None
    then show ?thesis using PUBLIC deny_denies
      by (simp add: authorize_def may_use_def authorize_tenant_def Let_def run_simps)
  next
    case (Some t)
    show ?thesis using PUBLIC Some deny_denies authorize_tenant_run [OF I Some]
      by (simp add: authorize_def may_use_def Let_def run_simps)
  qed
next
  case MANAGEMENT
  then show ?thesis using deny_denies authorize_platform_run [OF I]
    by (simp add: authorize_def may_use_def Let_def run_simps)
qed

lemma authorize_returns:
  assumes "I (db w)"
  shows "\<exists>r. authorize P c w = (Inr r, logged (entry_of c r) w)
           \<and> azr_allowed r = may_use (V (db w)) c (clock w)"
  using authorize_run [OF assms, of c]
  by (auto simp: allows_def denies_def split: if_splits)

lemma require_permission_run:
  assumes "I (db w)"
  shows "\<exists>r. require_permission P p t code rid w
     = ((if may_use (V (db w)) (public_command p t code rid) (clock w) then Inr ()
         else Inl (ForbiddenError ''forbidden'')),
        logged (entry_of (public_command p t code rid) r) w)"
proof -
  obtain r where r: "authorize P (public_command p t code rid) w
      = (Inr r, logged (entry_of (public_command p t code rid) r) w)"
    and a: "azr_allowed r = may_use (V (db w)) (public_command p t code rid) (clock w)"
    using authorize_returns [OF assms] by blast
  then show ?thesis
    by (intro exI [of _ r]) (simp add: require_permission_def run_simps)
qed

end

end
