(* ===== verification/Samples.thy ===== *)
theory Samples
  imports Authz_Catalog
begin

section \<open>Sample worlds\<close>

text \<open>
  Concrete tables for the witnesses: a tenant (31) of an organization (21) with two users, the first
  its \<open>tenant-admin\<close> and the second a plain member; an operator organization (22) with a platform
  administrator; and the permissions and roles they hold. Nothing here models code.
\<close>

definition sample_user :: "uuid \<Rightarrow> uuid \<Rightarrow> string \<Rightarrow> user_row" where
  "sample_user i p email =
     \<lparr>usr_id = i, usr_principal_id = p, usr_email = email, usr_normalized_email = email,
      usr_display_name = email, usr_status = ''active'', usr_last_login_at = None, usr_created_at = 0\<rparr>"

definition sample_permission :: "uuid \<Rightarrow> string \<Rightarrow> permission_row" where
  "sample_permission i code =
     \<lparr>prm_id = i, prm_code = code, prm_scope_type = scope_type_for_code code,
      prm_description = None, prm_status = ''active''\<rparr>"

definition sample_tenant_role :: "uuid \<Rightarrow> string \<Rightarrow> role_row" where
  "sample_tenant_role i name =
     \<lparr>rol_id = i, rol_scope_type = ''tenant'', rol_tenant_id = Some 31,
      rol_operator_org_id = None, rol_name = name, rol_is_system_role = True,
      rol_status = ''active''\<rparr>"

definition sample_binding :: "uuid \<Rightarrow> uuid \<Rightarrow> uuid \<Rightarrow> instant option \<Rightarrow> principal_role_row" where
  "sample_binding i p r until =
     \<lparr>prl_id = i, prl_principal_id = p, prl_role_id = r, prl_scope_type = ''tenant'',
      prl_tenant_id = Some 31, prl_operator_org_id = None, prl_status = ''active'',
      prl_assigned_by = None, prl_valid_from = 0, prl_valid_until = until,
      prl_revoked_at = None, prl_justification = None, prl_created_at = 0\<rparr>"

definition sample_org :: "uuid \<Rightarrow> bool \<Rightarrow> organization_row" where
  "sample_org i operator_flag =
     \<lparr>org_id = i, org_name = ''Acme'', org_slug = ''acme'', org_type = ''individual'',
      org_participation = ''consumer'', org_is_platform_operator = operator_flag,
      org_keycloak_realm_ref = None, org_status = ''active'', org_created_at = 0\<rparr>"

definition sample_db :: database where
  "sample_db = empty_db\<lparr>
     principals := [\<lparr>pri_id = 1, pri_type = ''user'', pri_status = ''active''\<rparr>,
                    \<lparr>pri_id = 2, pri_type = ''user'', pri_status = ''active''\<rparr>,
                    \<lparr>pri_id = 3, pri_type = ''user'', pri_status = ''active''\<rparr>],
     users := [sample_user 11 1 ''alice'', sample_user 12 2 ''bob'', sample_user 13 3 ''olga''],
     permissions := [sample_permission 41 ''tenant.admin'', sample_permission 42 ''resource.create'',
                     sample_permission 43 ''resource.read'',
                     sample_permission 44 ''platform.tenant.read''],
     roles := [sample_tenant_role 51 ''tenant-admin'', sample_tenant_role 52 ''viewer'',
               \<lparr>rol_id = 53, rol_scope_type = ''platform'', rol_tenant_id = None,
                rol_operator_org_id = Some 22, rol_name = ''platform-admin'',
                rol_is_system_role = True, rol_status = ''active''\<rparr>],
     role_permissions := [\<lparr>rpm_id = 61, rpm_role_id = 51, rpm_permission_id = 41\<rparr>,
                          \<lparr>rpm_id = 62, rpm_role_id = 51, rpm_permission_id = 42\<rparr>,
                          \<lparr>rpm_id = 63, rpm_role_id = 51, rpm_permission_id = 43\<rparr>,
                          \<lparr>rpm_id = 64, rpm_role_id = 52, rpm_permission_id = 43\<rparr>,
                          \<lparr>rpm_id = 65, rpm_role_id = 53, rpm_permission_id = 44\<rparr>],
     principal_roles := [sample_binding 71 1 51 None,
                         \<lparr>prl_id = 72, prl_principal_id = 3, prl_role_id = 53,
                          prl_scope_type = ''platform'', prl_tenant_id = None,
                          prl_operator_org_id = Some 22, prl_status = ''active'',
                          prl_assigned_by = None, prl_valid_from = 0, prl_valid_until = None,
                          prl_revoked_at = None, prl_justification = None, prl_created_at = 0\<rparr>],
     organizations := [sample_org 21 False, sample_org 22 True],
     org_memberships := [\<lparr>omb_id = 91, omb_organization_id = 21, omb_user_id = 11,
                          omb_role = ''owner'', omb_status = ''active''\<rparr>,
                         \<lparr>omb_id = 92, omb_organization_id = 22, omb_user_id = 13,
                          omb_role = ''owner'', omb_status = ''active''\<rparr>],
     tenants := [\<lparr>ten_id = 31, ten_organization_id = 21, ten_name = ''default'',
                  ten_slug = ''acme-default'', ten_status = ''active'', ten_created_at = 0\<rparr>],
     tenant_memberships := [\<lparr>tmb_id = 81, tmb_tenant_id = 31, tmb_user_id = 11,
                             tmb_status = ''active''\<rparr>,
                            \<lparr>tmb_id = 82, tmb_tenant_id = 31, tmb_user_id = 12,
                             tmb_status = ''active''\<rparr>]\<rparr>"

definition world_of :: "database \<Rightarrow> world" where
  "world_of d = \<lparr>db = d, disk = d, clock = 1000, next_uuid = 1000\<rparr>"

abbreviation sample_world :: world where
  "sample_world \<equiv> world_of sample_db"

lemma world_of_simps [simp]:
  "db (world_of d) = d" "disk (world_of d) = d" "clock (world_of d) = 1000"
  "next_uuid (world_of d) = 1000"
  by (simp_all add: world_of_def)

end
