(* ===== verification/Authz_Sql.thy ===== *)
theory Authz_Sql
  imports Authz_Service Samples
begin

section \<open>The SQL repositories behind the authorization service\<close>

text \<open>
  \<open>authz/infrastructure/repositories.py\<close>: the six repositories over the tables, and
  \<open>build_authorization_service\<close>. A join is a list comprehension over the joined tables, and SQL's
  \<open>column == None\<close> (rendered \<open>IS NULL\<close>) is equality with \<open>None\<close>. \<open>authz_keys\<close> are the unique
  constraints the row classes declare and these queries rely on.
\<close>

definition sql_get_status :: "uuid \<Rightarrow> string option op" where
  "sql_get_status p = reads (\<lambda>d. map_option pri_status (get_row pri_id p (principals d)))"

definition sql_is_tenant_active :: "uuid \<Rightarrow> bool op" where
  "sql_is_tenant_active t =
     reads (\<lambda>d. case get_row ten_id t (tenants d) of None \<Rightarrow> False
                | Some tenant \<Rightarrow> ten_status tenant = ''active'')"

definition user_by_principal :: "uuid \<Rightarrow> user_row option op" where
  "user_by_principal p =
     bindE (reads (\<lambda>d. filter (\<lambda>u. usr_principal_id u = p) (users d))) one_or_none"

definition active_membership :: "uuid \<Rightarrow> uuid \<Rightarrow> tenant_membership_row option op" where
  "active_membership t u =
     bindE (reads (\<lambda>d. filter (\<lambda>m. tmb_tenant_id m = t \<and> tmb_user_id m = u
                                  \<and> tmb_status m = ''active'') (tenant_memberships d)))
       one_or_none"

definition sql_has_active_tenant_membership :: "uuid \<Rightarrow> uuid \<Rightarrow> bool op" where
  "sql_has_active_tenant_membership p t =
     bindE (reads (\<lambda>d. get_row pri_id p (principals d))) (\<lambda>found.
     (case found of None \<Rightarrow> ret False
      | Some principal_row \<Rightarrow>
     if pri_type principal_row = ''service_account''
     then bindE (reads (\<lambda>d. filter (\<lambda>s. sac_principal_id s = p \<and> sac_tenant_id s = t
                                          \<and> sac_status s = ''active'') (service_accounts d))) (\<lambda>rows.
          bindE (one_or_none rows) (\<lambda>row. ret (row \<noteq> None)))
     else
     bindE (user_by_principal p) (\<lambda>user.
     (case user of None \<Rightarrow> ret False
      | Some user_row \<Rightarrow>
     bindE (active_membership t (usr_id user_row)) (\<lambda>row. ret (row \<noteq> None))))))"

definition operator_org_ids :: "database \<Rightarrow> uuid \<Rightarrow> uuid list" where
  "operator_org_ids d u =
     [org_id o'. o' \<leftarrow> organizations d, m \<leftarrow> org_memberships d,
        omb_organization_id m = org_id o' \<and> omb_user_id m = u \<and> omb_status m = ''active''
        \<and> org_is_platform_operator o' \<and> org_status o' = ''active'']"

definition sql_find_active_operator_org_id :: "uuid \<Rightarrow> uuid option op" where
  "sql_find_active_operator_org_id p =
     bindE (user_by_principal p) (\<lambda>user.
     (case user of None \<Rightarrow> ret None
      | Some user_row \<Rightarrow> reads (\<lambda>d. first_row (operator_org_ids d (usr_id user_row)))))"

definition record_of_permission :: "permission_row \<Rightarrow> permission_record" where
  "record_of_permission row =
     \<lparr>pmr_id = prm_id row, pmr_code = prm_code row, pmr_scope_type = prm_scope_type row,
      pmr_status = prm_status row\<rparr>"

definition sql_get_by_code :: "string \<Rightarrow> permission_record option op" where
  "sql_get_by_code code =
     bindE (reads (\<lambda>d. filter (\<lambda>r. prm_code r = code) (permissions d))) (\<lambda>rows.
     bindE (one_or_none rows) (\<lambda>row. ret (map_option record_of_permission row)))"

definition scope_match ::
  "string \<Rightarrow> uuid option \<Rightarrow> uuid option \<Rightarrow> principal_role_row \<Rightarrow> role_row \<Rightarrow> bool"
where
  "scope_match scope_type tenant operator_org pr role =
     (if scope_type = ''tenant''
      then prl_tenant_id pr = tenant \<and> rol_tenant_id role = tenant
           \<and> prl_operator_org_id pr = None \<and> rol_operator_org_id role = None
      else prl_operator_org_id pr = operator_org \<and> rol_operator_org_id role = operator_org
           \<and> prl_tenant_id pr = None \<and> rol_tenant_id role = None)"

definition grant_rows ::
  "database \<Rightarrow> uuid \<Rightarrow> uuid \<Rightarrow> string \<Rightarrow> uuid option \<Rightarrow> uuid option \<Rightarrow> instant \<Rightarrow> uuid list"
where
  "grant_rows d p permission scope_type tenant operator_org at =
     [prl_id pr. pr \<leftarrow> principal_roles d, role \<leftarrow> roles d, link \<leftarrow> role_permissions d,
        perm \<leftarrow> permissions d,
        rol_id role = prl_role_id pr \<and> rpm_role_id link = rol_id role
        \<and> prm_id perm = rpm_permission_id link
        \<and> prl_principal_id pr = p \<and> prl_status pr = ''active'' \<and> prl_revoked_at pr = None
        \<and> prl_valid_from pr \<le> at
        \<and> (case prl_valid_until pr of None \<Rightarrow> True | Some until \<Rightarrow> at < until)
        \<and> prl_scope_type pr = scope_type \<and> rol_scope_type role = scope_type
        \<and> rol_status role = ''active'' \<and> prm_id perm = permission
        \<and> prm_status perm = ''active'' \<and> prm_scope_type perm = scope_type
        \<and> scope_match scope_type tenant operator_org pr role]"

definition sql_has_exact_permission_grant ::
  "uuid \<Rightarrow> uuid \<Rightarrow> string \<Rightarrow> uuid option \<Rightarrow> uuid option \<Rightarrow> instant \<Rightarrow> bool op"
where
  "sql_has_exact_permission_grant p permission scope_type tenant operator_org at =
     reads (\<lambda>d. first_row (grant_rows d p permission scope_type tenant operator_org at) \<noteq> None)"

text \<open>
  The audit repository: with a session factory the row goes through a transaction of its own, without
  one it joins the request's.
\<close>

definition audit_row_of :: "uuid \<Rightarrow> instant \<Rightarrow> audit_entry \<Rightarrow> authorization_audit_row" where
  "audit_row_of i now e =
     \<lparr>aal_id = i, aal_principal_id = Some (ent_principal_id e),
      aal_permission_code = ent_permission_code e, aal_scope_type = ent_scope_type e,
      aal_tenant_id = (if ent_scope_type e = ''tenant'' then ent_tenant_id e else None),
      aal_operator_org_id = (if ent_scope_type e = ''platform'' then ent_operator_org_id e else None),
      aal_decision = ent_decision e, aal_reason = Some (ent_reason e),
      aal_request_id = ent_request_id e, aal_created_at = now\<rparr>"

definition sql_append_audit :: "bool \<Rightarrow> audit_entry \<Rightarrow> unit op" where
  "sql_append_audit with_factory e =
     bindE uuid4 (\<lambda>i. bindE utcnow (\<lambda>now.
     let add = authorization_audit_log_update (\<lambda>rows. rows @ [audit_row_of i now e])
     in if with_factory then own_transaction add else modifies add))"

definition build_authorization_service :: "bool \<Rightarrow> authz_ports" where
  "build_authorization_service with_factory =
     \<lparr>get_status = sql_get_status,
      is_tenant_active = sql_is_tenant_active,
      has_active_tenant_membership = sql_has_active_tenant_membership,
      find_active_operator_org_id = sql_find_active_operator_org_id,
      get_by_code = sql_get_by_code,
      has_exact_permission_grant = sql_has_exact_permission_grant,
      append_audit = sql_append_audit with_factory\<rparr>"

subsection \<open>The unique constraints and what the ports then report\<close>

definition authz_keys :: "database \<Rightarrow> bool" where
  "authz_keys d \<longleftrightarrow>
     distinct (map usr_principal_id (users d))
     \<and> distinct (map sac_principal_id (service_accounts d))
     \<and> distinct (map (\<lambda>m. (tmb_tenant_id m, tmb_user_id m)) (tenant_memberships d))
     \<and> distinct (map prm_code (permissions d))"

definition db_user :: "database \<Rightarrow> uuid \<Rightarrow> user_row option" where
  "db_user d p = first_row (filter (\<lambda>u. usr_principal_id u = p) (users d))"

definition db_active_member :: "database \<Rightarrow> uuid \<Rightarrow> uuid \<Rightarrow> bool" where
  "db_active_member d t u \<longleftrightarrow>
     (\<exists>m \<in> set (tenant_memberships d).
        tmb_tenant_id m = t \<and> tmb_user_id m = u \<and> tmb_status m = ''active'')"

definition sql_views :: "database \<Rightarrow> authz_views" where
  "sql_views d =
     \<lparr>view_status = (\<lambda>p. map_option pri_status (get_row pri_id p (principals d))),
      view_tenant_active = (\<lambda>t. case get_row ten_id t (tenants d) of None \<Rightarrow> False
                              | Some tenant \<Rightarrow> ten_status tenant = ''active''),
      view_member = (\<lambda>p t. case get_row pri_id p (principals d) of None \<Rightarrow> False
         | Some r \<Rightarrow>
             if pri_type r = ''service_account''
             then \<exists>s \<in> set (service_accounts d). sac_principal_id s = p \<and> sac_tenant_id s = t
                    \<and> sac_status s = ''active''
             else case db_user d p of None \<Rightarrow> False | Some u \<Rightarrow> db_active_member d t (usr_id u)),
      view_operator_org = (\<lambda>p. case db_user d p of None \<Rightarrow> None
         | Some u \<Rightarrow> first_row (operator_org_ids d (usr_id u))),
      view_permission = (\<lambda>c. map_option record_of_permission
         (first_row (filter (\<lambda>r. prm_code r = c) (permissions d)))),
      view_grant = (\<lambda>p i sc t g at. grant_rows d p i sc t g at \<noteq> [])\<rparr>"

definition sql_logged :: "bool \<Rightarrow> audit_entry \<Rightarrow> world \<Rightarrow> world" where
  "sql_logged with_factory e w = snd (sql_append_audit with_factory e w)"

lemma user_by_principal_run:
  "authz_keys (db w) \<Longrightarrow> user_by_principal p w = (Inr (db_user (db w) p), w)"
  by (simp add: user_by_principal_def bindE_run reads_run db_user_def authz_keys_def
      one_or_none_unique [where f = usr_principal_id and k = p])

lemma active_membership_run:
  assumes "authz_keys (db w)"
  shows "\<exists>r. active_membership t u w = (Inr r, w) \<and> (r \<noteq> None \<longleftrightarrow> db_active_member (db w) t u)"
proof -
  let ?Q = "\<lambda>m. tmb_tenant_id m = t \<and> tmb_user_id m = u \<and> tmb_status m = ''active''"
  have "one_or_none (filter ?Q (tenant_memberships (db w))) w
      = (Inr (first_row (filter ?Q (tenant_memberships (db w)))), w)"
    by (rule one_or_none_unique [where f = "\<lambda>m. (tmb_tenant_id m, tmb_user_id m)" and k = "(t, u)"])
       (use assms in \<open>auto simp: authz_keys_def\<close>)
  then show ?thesis
    by (auto simp: active_membership_def bindE_run reads_run db_active_member_def filter_empty_conv)
qed

lemma sql_has_member_run:
  assumes I: "authz_keys (db w)"
  shows "sql_has_active_tenant_membership p t w = (Inr (view_member (sql_views (db w)) p t), w)"
proof -
  let ?Q = "\<lambda>s. sac_principal_id s = p \<and> sac_tenant_id s = t \<and> sac_status s = ''active''"
  have sa: "one_or_none (filter ?Q (service_accounts (db w))) w
      = (Inr (first_row (filter ?Q (service_accounts (db w)))), w)"
    by (rule one_or_none_unique [where f = sac_principal_id and k = p])
       (use I in \<open>auto simp: authz_keys_def\<close>)
  have m: "\<And>u. \<exists>r. active_membership t u w = (Inr r, w)
      \<and> (r \<noteq> None \<longleftrightarrow> db_active_member (db w) t u)"
    using active_membership_run [OF I] by blast
  show ?thesis
  proof (cases "get_row pri_id p (principals (db w))")
    case None
    then show ?thesis
      by (simp add: sql_has_active_tenant_membership_def run_simps sql_views_def)
  next
    case (Some r)
    show ?thesis
    proof (cases "pri_type r = ''service_account''")
      case True
      with Some sa show ?thesis
        by (auto simp: sql_has_active_tenant_membership_def bindE_run reads_run ret_run
            sql_views_def filter_empty_conv)
    next
      case False
      show ?thesis
      proof (cases "db_user (db w) p")
        case None
        with Some False I show ?thesis
          by (simp add: sql_has_active_tenant_membership_def bindE_run reads_run ret_run
              user_by_principal_run sql_views_def)
      next
        case (Some u)
        obtain x where "active_membership t (usr_id u) w = (Inr x, w)"
          and "x \<noteq> None \<longleftrightarrow> db_active_member (db w) t (usr_id u)"
          using m by blast
        with \<open>get_row pri_id p (principals (db w)) = Some r\<close> Some False I show ?thesis
          by (simp add: sql_has_active_tenant_membership_def bindE_run reads_run ret_run
              user_by_principal_run sql_views_def)
      qed
    qed
  qed
qed

lemma sql_get_by_code_run:
  "authz_keys (db w) \<Longrightarrow> sql_get_by_code c w = (Inr (view_permission (sql_views (db w)) c), w)"
  by (simp add: sql_get_by_code_def bindE_run reads_run ret_run sql_views_def authz_keys_def
      one_or_none_unique [where f = prm_code and k = c])

lemma sql_append_run:
  "sql_append_audit b e w = (Inr (), sql_logged b e w)"
  by (simp add: sql_logged_def sql_append_audit_def bindE_run uuid4_run utcnow_run Let_def
      own_transaction_run modifies_run)

lemma sql_logged_db:
  "db (sql_logged b e w) = (db w)\<lparr>authorization_audit_log :=
     authorization_audit_log (db w) @ [audit_row_of (next_uuid w) (clock w) e]\<rparr>"
  by (simp add: sql_logged_def sql_append_audit_def bindE_run uuid4_run utcnow_run Let_def
      own_transaction_run modifies_run)

lemma sql_logged_rest:
  "clock (sql_logged b e w) = clock w"
  "next_uuid (sql_logged b e w) = Suc (next_uuid w)"
  "disk (sql_logged b e w) = (if b then (disk w)\<lparr>authorization_audit_log :=
     authorization_audit_log (disk w) @ [audit_row_of (next_uuid w) (clock w) e]\<rparr> else disk w)"
  by (simp_all add: sql_logged_def sql_append_audit_def bindE_run uuid4_run utcnow_run Let_def
      own_transaction_run modifies_run)

lemma authz_keys_log [simp]: "authz_keys (d\<lparr>authorization_audit_log := l\<rparr>) = authz_keys d"
  by (simp add: authz_keys_def)

lemma sql_views_log [simp]: "sql_views (d\<lparr>authorization_audit_log := l\<rparr>) = sql_views d"
  by (simp add: sql_views_def db_user_def db_active_member_def operator_org_ids_def grant_rows_def
      fun_eq_iff split: option.split)

interpretation sql: authorization_contract "build_authorization_service b" authz_keys sql_views
  "sql_logged b" for b
proof unfold_locales
  fix w :: world and p assume "authz_keys (db w)"
  then show "find_active_operator_org_id (build_authorization_service b) p w
      = (Inr (view_operator_org (sql_views (db w)) p), w)"
    by (simp add: build_authorization_service_def sql_find_active_operator_org_id_def bindE_run
        ret_run reads_run user_by_principal_run sql_views_def split: option.split)
qed (simp_all add: build_authorization_service_def sql_has_member_run sql_get_by_code_run
    sql_append_run sql_get_status_def sql_is_tenant_active_def sql_has_exact_permission_grant_def
    reads_run, simp_all add: sql_views_def)

subsection \<open>Properties of the service over the tables\<close>

text \<open>The rows that make a permission grant.\<close>

definition grants_permission ::
  "database \<Rightarrow> uuid \<Rightarrow> string \<Rightarrow> string \<Rightarrow> instant \<Rightarrow> principal_role_row \<Rightarrow> role_row \<Rightarrow> bool"
where
  "grants_permission d p scope_type code at pr role \<longleftrightarrow>
     pr \<in> set (principal_roles d) \<and> role \<in> set (roles d)
     \<and> prl_principal_id pr = p \<and> prl_role_id pr = rol_id role
     \<and> prl_status pr = ''active'' \<and> prl_revoked_at pr = None \<and> prl_valid_from pr \<le> at
     \<and> (\<forall>until. prl_valid_until pr = Some until \<longrightarrow> at < until)
     \<and> rol_status role = ''active'' \<and> prl_scope_type pr = scope_type
     \<and> rol_scope_type role = scope_type
     \<and> (\<exists>link \<in> set (role_permissions d). \<exists>perm \<in> set (permissions d).
          rpm_role_id link = rol_id role \<and> rpm_permission_id link = prm_id perm
          \<and> prm_code perm = code \<and> prm_status perm = ''active''
          \<and> prm_scope_type perm = scope_type)"

lemma grant_rows_iff:
  "grant_rows d p i sc t g at \<noteq> []
    \<longleftrightarrow> (\<exists>pr \<in> set (principal_roles d). \<exists>role \<in> set (roles d). \<exists>link \<in> set (role_permissions d).
         \<exists>perm \<in> set (permissions d).
           rol_id role = prl_role_id pr \<and> rpm_role_id link = rol_id role
           \<and> prm_id perm = rpm_permission_id link
           \<and> prl_principal_id pr = p \<and> prl_status pr = ''active'' \<and> prl_revoked_at pr = None
           \<and> prl_valid_from pr \<le> at
           \<and> (case prl_valid_until pr of None \<Rightarrow> True | Some until \<Rightarrow> at < until)
           \<and> prl_scope_type pr = sc \<and> rol_scope_type role = sc
           \<and> rol_status role = ''active'' \<and> prm_id perm = i
           \<and> prm_status perm = ''active'' \<and> prm_scope_type perm = sc
           \<and> scope_match sc t g pr role)"
  by (fastforce simp: grant_rows_def)

lemma view_permission_Some:
  assumes "view_permission (sql_views d) c = Some p"
  shows "\<exists>perm \<in> set (permissions d). p = record_of_permission perm \<and> prm_code perm = c"
proof -
  obtain perm where f: "first_row (filter (\<lambda>r. prm_code r = c) (permissions d)) = Some perm"
    and "p = record_of_permission perm"
    using assms by (auto simp: sql_views_def)
  with first_row_Some [OF f] show ?thesis by auto
qed

lemma grant_rows_grants:
  assumes ids: "distinct (map prm_id (permissions d))" and perm0: "perm0 \<in> set (permissions d)"
    and "grant_rows d p (prm_id perm0) sc t g at \<noteq> []"
  shows "\<exists>pr role. grants_permission d p sc (prm_code perm0) at pr role
           \<and> scope_match sc t g pr role"
  using assms(3) unfolding grant_rows_iff
proof (elim bexE)
  fix pr role link perm
  assume rows: "pr \<in> set (principal_roles d)" "role \<in> set (roles d)"
      "link \<in> set (role_permissions d)" "perm \<in> set (permissions d)"
    and eqs: "rol_id role = prl_role_id pr \<and> rpm_role_id link = rol_id role
           \<and> prm_id perm = rpm_permission_id link
           \<and> prl_principal_id pr = p \<and> prl_status pr = ''active'' \<and> prl_revoked_at pr = None
           \<and> prl_valid_from pr \<le> at
           \<and> (case prl_valid_until pr of None \<Rightarrow> True | Some until \<Rightarrow> at < until)
           \<and> prl_scope_type pr = sc \<and> rol_scope_type role = sc
           \<and> rol_status role = ''active'' \<and> prm_id perm = prm_id perm0
           \<and> prm_status perm = ''active'' \<and> prm_scope_type perm = sc
           \<and> scope_match sc t g pr role"
  then have "perm = perm0" using ids perm0 by (auto simp: distinct_map inj_on_def)
  then have "grants_permission d p sc (prm_code perm0) at pr role"
    using rows eqs by (auto simp: grants_permission_def intro!: bexI [of _ link] bexI [of _ perm0])
  then show ?thesis using eqs by blast
qed

lemma view_grant_grants:
  assumes ids: "distinct (map prm_id (permissions d))"
    and q: "view_permission (sql_views d) code = Some q"
    and g: "view_grant (sql_views d) p (pmr_id q) sc t g at"
  shows "\<exists>pr role. grants_permission d p sc code at pr role \<and> scope_match sc t g pr role"
proof -
  obtain perm0 where "perm0 \<in> set (permissions d)" "q = record_of_permission perm0"
    "prm_code perm0 = code"
    using view_permission_Some [OF q] by blast
  with grant_rows_grants [OF ids, of perm0 p sc t g at] g show ?thesis
    by (simp add: sql_views_def record_of_permission_def)
qed

lemma may_use_tenant_rows:
  assumes "may_use_tenant (sql_views d) p code t at"
    and "distinct (map prm_id (permissions d))"
  shows "\<exists>pr role. grants_permission d p ''tenant'' code at pr role
           \<and> prl_tenant_id pr = Some t \<and> rol_tenant_id role = Some t"
proof -
  obtain q where q: "view_permission (sql_views d) code = Some q"
    and g: "view_grant (sql_views d) p (pmr_id q) ''tenant'' (Some t) None at"
    using assms(1) by (auto simp: may_use_tenant_def split: option.splits)
  show ?thesis
    using view_grant_grants [OF assms(2) q g] by (auto simp: scope_match_def)
qed

lemma may_use_platform_rows:
  assumes "may_use_platform (sql_views d) p code asked at"
    and "distinct (map prm_id (permissions d))"
  shows "\<exists>pr role org u. grants_permission d p ''platform'' code at pr role
           \<and> prl_operator_org_id pr = Some org \<and> rol_operator_org_id role = Some org
           \<and> (asked = None \<or> asked = Some org)
           \<and> db_user d p = Some u \<and> org \<in> set (operator_org_ids d (usr_id u))"
proof -
  obtain q org where q: "view_permission (sql_views d) code = Some q"
    and o': "view_operator_org (sql_views d) p = Some org" "asked = None \<or> asked = Some org"
    and g: "view_grant (sql_views d) p (pmr_id q) ''platform'' None (Some org) at"
    using assms(1) by (auto simp: may_use_platform_def split: option.splits)
  obtain u where "db_user d p = Some u" "org \<in> set (operator_org_ids d (usr_id u))"
    using o'(1) by (auto simp: sql_views_def split: option.splits dest: first_row_Some)
  with view_grant_grants [OF assms(2) q g] o'(2) show ?thesis
    by (fastforce simp: scope_match_def)
qed

text \<open>The identifiers of the permission catalog are its primary keys.\<close>

definition permission_ids :: "database \<Rightarrow> bool" where
  "permission_ids d \<longleftrightarrow> distinct (map prm_id (permissions d))"

lemma authorize_cases:
  assumes "authz_keys (db w)"
    and "authorize (build_authorization_service b) c w = (Inr r, w')"
  shows "w' = sql_logged b (entry_of c r) w"
    and "azr_allowed r \<longleftrightarrow> may_use (sql_views (db w)) c (clock w)"
  using sql.authorize_returns [where b = b, OF assms(1), of c] assms(2) by auto


text \<open>
  C2. Default deny on the public surface: an allowed request named a tenant and a permission that is
  not a platform permission, its principal and tenant are active, and a binding of that tenant,
  active, not revoked, not expired at the instant asked about, leads through an active tenant role of
  the same tenant to exactly that permission.
\<close>

theorem public_allow_has_grant:
  assumes "authz_keys (db w)" and "permission_ids (db w)"
    and "authorize (build_authorization_service b) c w = (Inr r, w')"
    and "azr_allowed r" and "cmd_api_surface c = PUBLIC"
  shows "\<exists>t pr role.
     cmd_tenant_id c = Some t
     \<and> view_status (sql_views (db w)) (cmd_principal_id c) = Some ''active''
     \<and> view_tenant_active (sql_views (db w)) t
     \<and> view_member (sql_views (db w)) (cmd_principal_id c) t
     \<and> \<not> is_platform_code (strip (cmd_permission_code c))
     \<and> grants_permission (db w) (cmd_principal_id c) ''tenant'' (strip (cmd_permission_code c))
          (case cmd_at c of None \<Rightarrow> clock w | Some at \<Rightarrow> at) pr role
     \<and> prl_tenant_id pr = Some t \<and> rol_tenant_id role = Some t"
proof -
  let ?at = "case cmd_at c of None \<Rightarrow> clock w | Some at \<Rightarrow> at"
  have "may_use (sql_views (db w)) c (clock w)"
    using authorize_cases(2) [OF assms(1,3)] assms(4) by simp
  then obtain t where t: "cmd_tenant_id c = Some t" "\<not> is_platform_code (strip (cmd_permission_code c))"
    and m: "may_use_tenant (sql_views (db w)) (cmd_principal_id c) (strip (cmd_permission_code c)) t ?at"
    using assms(5) by (auto simp: may_use_def Let_def split: option.splits)
  from may_use_tenant_rows [OF m] assms(2) obtain pr role where
    "grants_permission (db w) (cmd_principal_id c) ''tenant'' (strip (cmd_permission_code c)) ?at pr role"
    "prl_tenant_id pr = Some t" "rol_tenant_id role = Some t"
    by (auto simp: permission_ids_def)
  with t m show ?thesis by (fastforce simp: may_use_tenant_def)
qed

theorem public_allow_has_grant_witness:
  "\<exists>r w'. authorize (build_authorization_service True) (public_command 1 31 '' tenant.admin '' None)
       sample_world = (Inr r, w') \<and> azr_allowed r
     \<and> (\<exists>pr role. grants_permission sample_db 1 ''tenant'' ''tenant.admin'' 1000 pr role)"
proof -
  let ?c = "public_command 1 31 '' tenant.admin '' None"
  have k: "authz_keys (db sample_world)" "permission_ids (db sample_world)" by code_simp+
  have "case authorize (build_authorization_service True) ?c sample_world of
      (Inl _, _) \<Rightarrow> False | (Inr r, _) \<Rightarrow> azr_allowed r"
    by code_simp
  then obtain r w' where e: "authorize (build_authorization_service True) ?c sample_world = (Inr r, w')"
    and a: "azr_allowed r"
    by (auto split: prod.splits sum.splits)
  have "strip '' tenant.admin '' = ''tenant.admin''" by code_simp
  then show ?thesis
    using public_allow_has_grant [OF k e a] e a by (auto simp: public_command_def)
qed


text \<open>
  On the management surface an allowed request asked for a platform permission, and its principal
  is an active member of an active operator organization (the one asked for, when one was named)
  whose binding and role, both scoped to that organization, grant it.
\<close>

theorem management_allow_has_grant:
  assumes "authz_keys (db w)" and "permission_ids (db w)"
    and "authorize (build_authorization_service b) c w = (Inr r, w')"
    and "azr_allowed r" and "cmd_api_surface c = MANAGEMENT"
  shows "\<exists>org u pr role.
     view_status (sql_views (db w)) (cmd_principal_id c) = Some ''active''
     \<and> (cmd_operator_org_id c = None \<or> cmd_operator_org_id c = Some org)
     \<and> db_user (db w) (cmd_principal_id c) = Some u
     \<and> org \<in> set (operator_org_ids (db w) (usr_id u))
     \<and> is_platform_code (strip (cmd_permission_code c))
     \<and> grants_permission (db w) (cmd_principal_id c) ''platform'' (strip (cmd_permission_code c))
          (case cmd_at c of None \<Rightarrow> clock w | Some at \<Rightarrow> at) pr role
     \<and> prl_operator_org_id pr = Some org \<and> rol_operator_org_id role = Some org"
proof -
  let ?at = "case cmd_at c of None \<Rightarrow> clock w | Some at \<Rightarrow> at"
  have "may_use (sql_views (db w)) c (clock w)"
    using authorize_cases(2) [OF assms(1,3)] assms(4) by simp
  then have p: "is_platform_code (strip (cmd_permission_code c))"
    and m: "may_use_platform (sql_views (db w)) (cmd_principal_id c) (strip (cmd_permission_code c))
              (cmd_operator_org_id c) ?at"
    using assms(5) by (auto simp: may_use_def Let_def)
  have "view_status (sql_views (db w)) (cmd_principal_id c) = Some ''active''"
    using m by (simp add: may_use_platform_def)
  with may_use_platform_rows [OF m] assms(2) p show ?thesis
    unfolding permission_ids_def by blast
qed

theorem management_allow_has_grant_witness:
  "\<exists>org u. db_user sample_db 3 = Some u \<and> org \<in> set (operator_org_ids sample_db (usr_id u))"
proof -
  let ?c = "\<lparr>cmd_principal_id = 3, cmd_permission_code = ''platform.tenant.read'',
    cmd_api_surface = MANAGEMENT, cmd_tenant_id = None, cmd_operator_org_id = Some 22,
    cmd_request_id = None, cmd_at = None\<rparr>"
  have k: "authz_keys (db sample_world)" "permission_ids (db sample_world)" by code_simp+
  have "case authorize (build_authorization_service True) ?c sample_world of
      (Inl _, _) \<Rightarrow> False | (Inr r, _) \<Rightarrow> azr_allowed r"
    by code_simp
  then obtain r w' where e: "authorize (build_authorization_service True) ?c sample_world = (Inr r, w')"
    and a: "azr_allowed r"
    by (auto split: prod.splits sum.splits)
  show ?thesis using management_allow_has_grant [OF k e a] by auto
qed

text \<open>
  C3. Every decision is audited once: the log grows by one row that names the principal, the
  permission and the decision taken, no other table changes, and with a session factory the row is
  already committed, so that it survives the rollback of the request.
\<close>

theorem authorize_audited_once:
  assumes "authz_keys (db w)"
    and "authorize (build_authorization_service b) c w = (Inr r, w')"
  shows "\<exists>row. db w' = (db w)\<lparr>authorization_audit_log := authorization_audit_log (db w) @ [row]\<rparr>
     \<and> disk w' = (if b then (disk w)\<lparr>authorization_audit_log :=
                       authorization_audit_log (disk w) @ [row]\<rparr> else disk w)
     \<and> aal_principal_id row = Some (cmd_principal_id c)
     \<and> aal_permission_code row = cmd_permission_code c
     \<and> aal_decision row = (if azr_allowed r then ''allow'' else ''deny'')
     \<and> aal_reason row = Some (azr_reason r)"
  unfolding authorize_cases(1) [OF assms] sql_logged_db sql_logged_rest
  by (rule exI [of _ "audit_row_of (next_uuid w) (clock w) (entry_of c r)"])
     (simp add: audit_row_of_def entry_of_def)

theorem authorize_audited_once_witness:
  "\<exists>r w'. authorize (build_authorization_service True) (public_command 2 31 ''tenant.admin'' None)
       sample_world = (Inr r, w')
     \<and> (\<exists>row. authorization_audit_log (disk w') = [row] \<and> aal_decision row = ''deny'')"
proof -
  let ?c = "public_command 2 31 ''tenant.admin'' None"
  have k: "authz_keys (db sample_world)" by code_simp
  have "case authorize (build_authorization_service True) ?c sample_world of
      (Inl _, _) \<Rightarrow> False | (Inr r, _) \<Rightarrow> \<not> azr_allowed r"
    by code_simp
  then obtain r w' where e: "authorize (build_authorization_service True) ?c sample_world = (Inr r, w')"
    and a: "\<not> azr_allowed r"
    by (auto split: prod.splits sum.splits)
  have "authorization_audit_log sample_db = []" by code_simp
  then show ?thesis using authorize_audited_once [OF k e] e a by auto
qed

end
