(* ===== verification/Access.thy ===== *)
theory Access
  imports Authz_Sql
begin

section \<open>Shared access checks and the audit log\<close>

text \<open>
  \<open>marketplace/application/access.py\<close>, with the membership check \<open>_require_member\<close> of the commerce
  service. The platform services carry the same operator check and the same \<open>_audit\<close>.
\<close>

definition audit :: "string \<Rightarrow> uuid option \<Rightarrow> uuid option \<Rightarrow> payload \<Rightarrow> unit op" where
  "audit action actor_user tenant payload =
     bindE uuid4 (\<lambda>i. bindE utcnow (\<lambda>now.
     modifies (audit_log_update (\<lambda>rows. rows @
       [\<lparr>aud_id = i, aud_event_action = action, aud_actor_user_id = actor_user,
         aud_tenant_id = tenant, aud_payload = payload, aud_created_at = now\<rparr>]))))"

definition require_vendor_owner :: "uuid \<Rightarrow> uuid \<Rightarrow> vendor_profile_row op" where
  "require_vendor_owner vendor user =
     bindE (reads (\<lambda>d. get_row vnd_id vendor (vendor_profiles d))) (\<lambda>found.
     bindE (the_or found (NotFoundError ''vendor not found'')) (\<lambda>profile.
     bindE (reads (\<lambda>d. filter (\<lambda>m. omb_organization_id m = vnd_organization_id profile
               \<and> omb_user_id m = user \<and> omb_role m = ''owner'' \<and> omb_status m = ''active'')
             (org_memberships d))) (\<lambda>rows.
     bindE (one_or_none rows) (\<lambda>membership.
     bindE (raise_if (membership = None) (ForbiddenError ''vendor admin required'')) (\<lambda>_.
     ret profile)))))"

definition operator_membership_org_ids :: "database \<Rightarrow> uuid \<Rightarrow> uuid list" where
  "operator_membership_org_ids d user =
     [org_id o'. o' \<leftarrow> organizations d, m \<leftarrow> org_memberships d,
        omb_organization_id m = org_id o' \<and> omb_user_id m = user \<and> omb_status m = ''active''
        \<and> org_is_platform_operator o']"

definition require_platform_operator :: "uuid \<Rightarrow> unit op" where
  "require_platform_operator user =
     bindE (reads (\<lambda>d. first_row (operator_membership_org_ids d user))) (\<lambda>row.
     raise_if (row = None) (ForbiddenError ''platform operator required''))"

definition require_member :: "uuid \<Rightarrow> uuid \<Rightarrow> unit op" where
  "require_member tenant user =
     bindE (reads (\<lambda>d. get_row ten_id tenant (tenants d))) (\<lambda>found.
     bindE (raise_if (found = None) (NotFoundError ''tenant not found'')) (\<lambda>_.
     bindE (active_membership tenant user) (\<lambda>membership.
     raise_if (membership = None) (ForbiddenError ''not a member of the tenant''))))"

subsection \<open>Lemmas\<close>

text \<open>The checks read only: on success or on error the world is unchanged.\<close>

lemma reads_only_lookups [reads_only_intros]:
  "reads_only (user_by_principal p)" "reads_only (active_membership t u)"
  by (auto simp: user_by_principal_def active_membership_def intro!: reads_only_intros)

lemma reads_only_checks [reads_only_intros]:
  "reads_only (require_vendor_owner v u)" "reads_only (require_platform_operator u)"
  "reads_only (require_member t u)"
  by (auto simp: require_vendor_owner_def require_platform_operator_def require_member_def
      intro!: reads_only_intros)

lemma active_membership_ok [ok_iff]:
  "active_membership t u w = (Inr r, w')
    \<longleftrightarrow> w' = w \<and> (case r of
          None \<Rightarrow> filter (\<lambda>m. tmb_tenant_id m = t \<and> tmb_user_id m = u \<and> tmb_status m = ''active'')
                    (tenant_memberships (db w)) = []
        | Some m \<Rightarrow> filter (\<lambda>m. tmb_tenant_id m = t \<and> tmb_user_id m = u \<and> tmb_status m = ''active'')
                    (tenant_memberships (db w)) = [m])"
  by (auto simp: active_membership_def ok_iff)

lemma require_member_okD:
  assumes "require_member t u w = (Inr x, w')"
  shows "w' = w" and "db_active_member (db w) t u"
proof -
  show "w' = w" using assms by (auto simp: require_member_def ok_iff)
  from assms obtain m where "filter (\<lambda>m. tmb_tenant_id m = t \<and> tmb_user_id m = u
      \<and> tmb_status m = ''active'') (tenant_memberships (db w)) = [m]"
    by (auto simp: require_member_def ok_iff)
  then have "m \<in> set (filter (\<lambda>m. tmb_tenant_id m = t \<and> tmb_user_id m = u
      \<and> tmb_status m = ''active'') (tenant_memberships (db w)))" by simp
  then show "db_active_member (db w) t u" by (auto simp: db_active_member_def)
qed

text \<open>\<open>owns_vendor\<close>: what \<open>require_vendor_owner\<close> has checked.\<close>

definition owns_vendor :: "database \<Rightarrow> uuid \<Rightarrow> uuid \<Rightarrow> bool" where
  "owns_vendor d vendor user \<longleftrightarrow>
     (\<exists>profile \<in> set (vendor_profiles d). vnd_id profile = vendor
        \<and> (\<exists>m \<in> set (org_memberships d). omb_organization_id m = vnd_organization_id profile
             \<and> omb_user_id m = user \<and> omb_role m = ''owner'' \<and> omb_status m = ''active''))"

lemma require_vendor_owner_okD:
  assumes "require_vendor_owner v u w = (Inr x, w')"
  shows "w' = w" and "owns_vendor (db w) v u" and "get_row vnd_id v (vendor_profiles (db w)) = Some x"
proof -
  let ?Q = "\<lambda>p m. omb_organization_id m = vnd_organization_id p
      \<and> omb_user_id m = u \<and> omb_role m = ''owner'' \<and> omb_status m = ''active''"
  show "w' = w" using assms by (auto simp: require_vendor_owner_def ok_iff)
  from assms obtain m where p: "get_row vnd_id v (vendor_profiles (db w)) = Some x"
    and "filter (?Q x) (org_memberships (db w)) = [m]"
    by (auto simp: require_vendor_owner_def ok_iff)
  then have "m \<in> set (filter (?Q x) (org_memberships (db w)))" by simp
  with get_row_Some [OF p] show "owns_vendor (db w) v u"
    by (auto simp: owns_vendor_def)
  show "get_row vnd_id v (vendor_profiles (db w)) = Some x" by (rule p)
qed

lemma audit_run [run_simps]:
  "audit action u t p w = (Inr (), w\<lparr>next_uuid := Suc (next_uuid w),
     db := (db w)\<lparr>audit_log := audit_log (db w) @
       [\<lparr>aud_id = next_uuid w, aud_event_action = action, aud_actor_user_id = u,
         aud_tenant_id = t, aud_payload = p, aud_created_at = clock w\<rparr>]\<rparr>\<rparr>)"
  by (simp add: audit_def run_simps)

lemma audit_ok [ok_iff]:
  "audit action u t p w = (Inr x, w') \<longleftrightarrow> w' = w\<lparr>next_uuid := Suc (next_uuid w),
     db := (db w)\<lparr>audit_log := audit_log (db w) @
       [\<lparr>aud_id = next_uuid w, aud_event_action = action, aud_actor_user_id = u,
         aud_tenant_id = t, aud_payload = p, aud_created_at = clock w\<rparr>]\<rparr>\<rparr>"
  by (auto simp: audit_run)

lemma step_ok_audit [step_ok]:
  "bindE (audit action u t p) f w = (Inr y, w')
    \<longleftrightarrow> f () (w\<lparr>next_uuid := Suc (next_uuid w), db := (db w)\<lparr>audit_log := audit_log (db w) @
       [\<lparr>aud_id = next_uuid w, aud_event_action = action, aud_actor_user_id = u,
         aud_tenant_id = t, aud_payload = p, aud_created_at = clock w\<rparr>]\<rparr>\<rparr>) = (Inr y, w')"
  by (simp add: bindE_run audit_run)

lemmas step_ok_lookups [step_ok] =
  step_ok_reads_only [OF reads_only_lookups(1)] step_ok_reads_only [OF reads_only_lookups(2)]
  step_ok_reads_only [OF reads_only_checks(1)] step_ok_reads_only [OF reads_only_checks(2)]
  step_ok_reads_only [OF reads_only_checks(3)]

lemma step_run_audit [step_run]:
  "bindE (audit action u t p) f w =
     f () (w\<lparr>next_uuid := Suc (next_uuid w), db := (db w)\<lparr>audit_log := audit_log (db w) @
       [\<lparr>aud_id = next_uuid w, aud_event_action = action, aud_actor_user_id = u,
         aud_tenant_id = t, aud_payload = p, aud_created_at = clock w\<rparr>]\<rparr>\<rparr>)"
  by (simp add: bindE_run audit_run)

lemma step_ok_require_permission [step_ok]:
  "bindE (require_permission P p t code rid) f w = (Inr y, w')
    \<longleftrightarrow> (\<exists>w1. require_permission P p t code rid w = (Inr (), w1) \<and> f () w1 = (Inr y, w'))"
  by (auto simp: bindE_ok)

lemma audit_err [err_iff]: "audit action u t p w = (Inl e, w') \<longleftrightarrow> False"
  by (simp add: audit_run)

lemma keeps_disk_audit [keeps_intros]: "keeps (disk_is d) (audit a u t p)"
  by (simp add: audit_def keeps_intros)

lemma total_audit: "total_op (audit a u t p)"
  by (simp add: total_op_def audit_run)

text \<open>An authorization check changes at most the authorization log.\<close>

lemma sql_ports_audit [simp]:
  "append_audit (build_authorization_service b) = sql_append_audit b"
  by (simp add: build_authorization_service_def)

lemma reads_only_ports [reads_only_intros]:
  "reads_only (get_status (build_authorization_service b) p)"
  "reads_only (is_tenant_active (build_authorization_service b) t)"
  "reads_only (has_active_tenant_membership (build_authorization_service b) p t)"
  "reads_only (find_active_operator_org_id (build_authorization_service b) p)"
  "reads_only (get_by_code (build_authorization_service b) c)"
  "reads_only (has_exact_permission_grant (build_authorization_service b) p i sc tn og a)"
  by (auto simp: build_authorization_service_def sql_get_status_def sql_is_tenant_active_def
      sql_has_active_tenant_membership_def sql_find_active_operator_org_id_def sql_get_by_code_def
      sql_has_exact_permission_grant_def intro!: reads_only_intros)

text \<open>
  \<open>log_free I\<close>: a property of the world that neither the authorization log nor the identifier supply
  can break. Every authorization check keeps such a property.
\<close>

definition log_free :: "(world \<Rightarrow> bool) \<Rightarrow> bool" where
  "log_free I \<longleftrightarrow> (\<forall>b e w. I w \<longrightarrow> I (sql_logged b e w))"

lemma keeps_authorize:
  assumes "log_free I"
  shows "keeps I (authorize (build_authorization_service b) c)"
proof -
  have a: "keeps I (sql_append_audit b e)" for e
    using assms by (auto simp: keeps_def log_free_def sql_append_run)
  have d: "keeps I (deny (build_authorization_service b) c r sc t g)" for r sc t g
    by (simp add: deny_def Let_def keeps_bindE keeps_ret a)
  have l: "keeps I (allow (build_authorization_service b) c r sc t g)" for r sc t g
    by (simp add: allow_def Let_def keeps_bindE keeps_ret a)
  have t: "keeps I (authorize_tenant (build_authorization_service b) c code at)" for code at
    unfolding authorize_tenant_def
    by (intro keeps_option keeps_bindE keeps_if reads_only_keeps reads_only_ports d l)
  have p: "keeps I (authorize_platform (build_authorization_service b) c code at)" for code at
    unfolding authorize_platform_def
    by (intro keeps_option keeps_bindE keeps_if reads_only_keeps reads_only_ports d l)
  show ?thesis
    unfolding authorize_def Let_def
    by (cases "cmd_api_surface c") (auto intro!: keeps_bindE keeps_utcnow d t p)
qed

lemma keeps_require_permission:
  "log_free I \<Longrightarrow> keeps I (require_permission (build_authorization_service b) p t code rid)"
  unfolding require_permission_def
  by (intro keeps_bindE keeps_authorize keeps_raise_if)

text \<open>What \<open>require_permission\<close> leaves behind, whatever it answers.\<close>

definition same_but_log :: "world \<Rightarrow> world \<Rightarrow> bool" where
  "same_but_log w w' \<longleftrightarrow>
     (\<exists>l. db w' = (db w)\<lparr>authorization_audit_log := l\<rparr>)
     \<and> (\<exists>l. disk w' = (disk w)\<lparr>authorization_audit_log := l\<rparr>)
     \<and> clock w' = clock w \<and> next_uuid w \<le> next_uuid w'"

lemma same_but_log_refl [simp]: "same_but_log w w"
  by (auto simp: same_but_log_def intro: exI [of _ "authorization_audit_log (db w)"]
      exI [of _ "authorization_audit_log (disk w)"])

lemma same_but_log_logged: "same_but_log w0 w \<Longrightarrow> same_but_log w0 (sql_logged b e w)"
  by (auto simp: same_but_log_def sql_logged_db sql_logged_rest)

lemma require_permission_frame:
  assumes "require_permission (build_authorization_service b) p t code rid w = (r, w')"
  shows "same_but_log w w'"
proof -
  have "log_free (same_but_log w)"
    by (auto simp: log_free_def intro: same_but_log_logged)
  from keepsD [OF keeps_require_permission [OF this] _ assms] show ?thesis by simp
qed

text \<open>What a granted \<open>require_permission\<close> has established.\<close>

lemma require_permission_ok:
  assumes "authz_keys (db w)"
    and "require_permission (build_authorization_service b) p t code rid w = (Inr x, w')"
  shows "may_use (sql_views (db w)) (public_command p t code rid) (clock w)"
  using sql.require_permission_run [where b = b, OF assms(1), of p t code rid] assms(2)
  by (auto split: if_splits)

text \<open>
  A handler that may write the authorization log in a transaction of its own is atomic up to that
  log: when it raises, the committed tables are as they were, but for new log rows.
\<close>

definition disk_but_log :: "database \<Rightarrow> world \<Rightarrow> bool" where
  "disk_but_log d w \<longleftrightarrow> (\<exists>l. disk w = d\<lparr>authorization_audit_log := l\<rparr>)"

lemma disk_but_log_refl [simp]: "disk_but_log (disk w) w"
  by (auto simp: disk_but_log_def intro: exI [of _ "authorization_audit_log (disk w)"])

lemma log_free_disk: "log_free (disk_but_log d)"
  by (auto simp: log_free_def disk_but_log_def sql_logged_rest)

lemma keeps_disk_log [keeps_intros]:
  "keeps (disk_but_log d) (modifies f)" "keeps (disk_but_log d) uuid4"
  "keeps (disk_but_log d) (audit a u t p)"
  "keeps (disk_but_log d) (require_permission (build_authorization_service b) pr tn code rid)"
  by (auto simp: keeps_def run_simps disk_but_log_def)
     (use keeps_require_permission [OF log_free_disk] in
       \<open>fastforce simp: keeps_def disk_but_log_def\<close>)

definition atomic_but_log :: "'a op \<Rightarrow> bool" where
  "atomic_but_log m \<longleftrightarrow> (\<forall>w e w'. m w = (Inl e, w') \<longrightarrow> disk_but_log (disk w) w')"

lemma atomic_but_logD: "atomic_but_log m \<Longrightarrow> m w = (Inl e, w') \<Longrightarrow> disk_but_log (disk w) w'"
  by (auto simp: atomic_but_log_def)

lemma atomic_but_log_total: "total_op m \<Longrightarrow> atomic_but_log m"
  unfolding total_op_def atomic_but_log_def by (metis Inl_Inr_False prod.inject)

lemma atomic_but_log_keeps:
  "(\<And>d. keeps (disk_but_log d) m) \<Longrightarrow> atomic_but_log m"
  unfolding atomic_but_log_def by (blast intro: keepsD disk_but_log_refl)

lemma atomic_but_log_bindE:
  assumes m: "\<And>d. keeps (disk_but_log d) m" and f: "\<And>x. atomic_but_log (f x)"
  shows "atomic_but_log (bindE m f)"
  unfolding atomic_but_log_def
proof (intro allI impI)
  fix w e w' assume "bindE m f w = (Inl e, w')"
  then consider "m w = (Inl e, w')" | x w1 where "m w = (Inr x, w1)" "f x w1 = (Inl e, w')"
    by (auto simp: err_iff)
  then show "disk_but_log (disk w) w'"
  proof cases
    case 1
    from keepsD [OF m disk_but_log_refl 1] show ?thesis .
  next
    case 2
    from keepsD [OF m disk_but_log_refl 2(1)] have "disk_but_log (disk w) w1" .
    with atomic_but_logD [OF f 2(2)] show ?thesis by (auto simp: disk_but_log_def)
  qed
qed

lemma atomic_but_log_commit:
  "atomic_but_log commit" "total_op (f ()) \<Longrightarrow> atomic_but_log (bindE commit f)"
  by (auto simp: atomic_but_log_def run_simps total_op_def) (metis Inl_Inr_False prod.inject)

lemma atomic_but_log_cases:
  "(b \<Longrightarrow> atomic_but_log m) \<Longrightarrow> (\<not> b \<Longrightarrow> atomic_but_log n) \<Longrightarrow> atomic_but_log (if b then m else n)"
  "atomic_but_log m \<Longrightarrow> (\<And>y. atomic_but_log (f y))
     \<Longrightarrow> atomic_but_log (case z of None \<Rightarrow> m | Some y \<Rightarrow> f y)"
  "(\<And>a c. atomic_but_log (g a c)) \<Longrightarrow> atomic_but_log (case p of (a, c) \<Rightarrow> g a c)"
  by (auto split: option.split prod.split)

lemmas atomic_but_log_intros = atomic_but_log_commit atomic_but_log_bindE atomic_but_log_cases
  total_bindE total_simple

lemma request_error:
  assumes "atomic_but_log m" and "request m w = (Inl e, w')"
  shows "\<exists>l. db w' = (disk w)\<lparr>authorization_audit_log := l\<rparr>"
proof -
  from assms(2) obtain w1 where "m w = (Inl e, w1)" "w' = w1\<lparr>db := disk w1\<rparr>"
    by (auto simp: request_run split: prod.splits)
  with atomic_but_logD [OF assms(1)] show ?thesis by (auto simp: disk_but_log_def)
qed

lemma request_ok:
  "request m w = (Inr x, w') \<longleftrightarrow> (\<exists>w1. m w = (Inr x, w1) \<and> w' = w1\<lparr>db := disk w1\<rparr>)"
  by (auto simp: request_run split: prod.splits)

lemma require_permission_passes:
  assumes "authz_keys (db w)" and "may_use (sql_views (db w)) (public_command p t code rid) (clock w)"
  shows "\<exists>w1 l. require_permission (build_authorization_service b) p t code rid w = (Inr (), w1)
    \<and> db w1 = (db w)\<lparr>authorization_audit_log := l\<rparr> \<and> clock w1 = clock w \<and> next_uuid w \<le> next_uuid w1"
proof -
  from sql.require_permission_run [where b = b, OF assms(1), of p t code rid] assms(2)
  obtain w1 where r: "require_permission (build_authorization_service b) p t code rid w = (Inr (), w1)"
    by auto
  from require_permission_frame [OF r] r show ?thesis
    by (auto simp: same_but_log_def)
qed

end
