(* ===== verification/Role_Bindings.thy ===== *)
theory Role_Bindings
  imports Access
begin

section \<open>Tenant role bindings\<close>

text \<open>
  \<open>RoleBindingService\<close> of \<open>authz/application/role_bindings.py\<close> (journeys J10 and J11): the roles and
  members of a tenant, granting a tenant role to a principal and revoking a binding.
\<close>

record role_summary =
  rsm_role_id :: uuid
  rsm_name :: string
  rsm_is_system_role :: bool
  rsm_status :: string

record binding_summary =
  bsm_binding_id :: uuid
  bsm_role_id :: uuid
  bsm_role_name :: string
  bsm_status :: string
  bsm_granted_at :: instant
  bsm_expires_at :: "instant option"
  bsm_justification :: "string option"

record member_summary =
  msm_user_id :: uuid
  msm_principal_id :: uuid
  msm_email :: string
  msm_display_name :: string
  msm_membership_status :: string
  msm_bindings :: "binding_summary list"

record grant_result =
  grs_binding_id :: uuid
  grs_principal_id :: uuid
  grs_user_id :: "uuid option"
  grs_role_id :: uuid
  grs_role_name :: string
  grs_status :: string
  grs_granted_by :: uuid
  grs_granted_at :: instant
  grs_expires_at :: "instant option"

record revoke_result =
  rrs_binding_id :: uuid
  rrs_status :: string
  rrs_revoked_at :: instant
  rrs_effective :: string

definition list_roles :: "authz_ports \<Rightarrow> uuid \<Rightarrow> uuid \<Rightarrow> role_summary list op" where
  "list_roles P tenant caller =
     bindE (require_permission P caller tenant ''tenant.member.read'' None) (\<lambda>_.
     reads (\<lambda>d.
       [\<lparr>rsm_role_id = rol_id row, rsm_name = rol_name row,
         rsm_is_system_role = rol_is_system_role row, rsm_status = rol_status row\<rparr>.
        row \<leftarrow> sort_key rol_name (filter (\<lambda>r. rol_tenant_id r = Some tenant
                \<and> rol_scope_type r = ''tenant'' \<and> rol_status r = ''active'') (roles d))]))"

definition active_bindings_for_principal :: "uuid \<Rightarrow> uuid \<Rightarrow> binding_summary list op" where
  "active_bindings_for_principal tenant p =
     reads (\<lambda>d.
       [\<lparr>bsm_binding_id = prl_id binding, bsm_role_id = rol_id role, bsm_role_name = rol_name role,
         bsm_status = prl_status binding, bsm_granted_at = prl_valid_from binding,
         bsm_expires_at = prl_valid_until binding,
         bsm_justification = prl_justification binding\<rparr>.
        (binding, role) \<leftarrow> sort_key (\<lambda>(_, role). rol_name role)
           [(binding, role). binding \<leftarrow> principal_roles d, role \<leftarrow> roles d,
              rol_id role = prl_role_id binding \<and> prl_tenant_id binding = Some tenant
              \<and> prl_principal_id binding = p \<and> prl_status binding = ''active'']])"

definition list_members :: "authz_ports \<Rightarrow> uuid \<Rightarrow> uuid \<Rightarrow> member_summary list op" where
  "list_members P tenant caller =
     bindE (require_permission P caller tenant ''tenant.member.read'' None) (\<lambda>_.
     bindE (reads (\<lambda>d. sort_key (\<lambda>(_, user). usr_email user)
        [(membership, user). membership \<leftarrow> tenant_memberships d, user \<leftarrow> users d,
           usr_id user = tmb_user_id membership \<and> tmb_tenant_id membership = tenant
           \<and> tmb_status membership = ''active''])) (\<lambda>memberships.
     map_each memberships (\<lambda>(membership, user).
       bindE (active_bindings_for_principal tenant (usr_principal_id user)) (\<lambda>bindings.
       ret \<lparr>msm_user_id = usr_id user, msm_principal_id = usr_principal_id user,
            msm_email = usr_email user, msm_display_name = usr_display_name user,
            msm_membership_status = tmb_status membership, msm_bindings = bindings\<rparr>))))"

definition tenant_admin_bindings :: "database \<Rightarrow> uuid \<Rightarrow> principal_role_row list" where
  "tenant_admin_bindings d tenant =
     [binding. binding \<leftarrow> principal_roles d, role \<leftarrow> roles d,
        rol_id role = prl_role_id binding \<and> prl_tenant_id binding = Some tenant
        \<and> prl_status binding = ''active'' \<and> rol_name role = ''tenant-admin''
        \<and> rol_tenant_id role = Some tenant]"

definition count_active_tenant_admins :: "uuid \<Rightarrow> nat op" where
  "count_active_tenant_admins tenant = reads (\<lambda>d. length (tenant_admin_bindings d tenant))"

text \<open>The user or principal a grant is for.\<close>

definition grant_target :: "uuid option \<Rightarrow> uuid option \<Rightarrow> (uuid \<times> user_row option) op" where
  "grant_target principal_id user_id =
     (case user_id of
        Some u \<Rightarrow>
          bindE (reads (\<lambda>d. get_row usr_id u (users d))) (\<lambda>found.
          bindE (the_or found (NotFoundError ''user not found'')) (\<lambda>user.
          ret (usr_principal_id user, Some user)))
      | None \<Rightarrow>
          bindE (the_or principal_id AssertionError) (\<lambda>p.
          bindE (reads (\<lambda>d. get_row pri_id p (principals d))) (\<lambda>found.
          bindE (raise_if (case found of None \<Rightarrow> True | Some r \<Rightarrow> pri_status r \<noteq> ''active'')
                   (NotFoundError ''principal not found'')) (\<lambda>_.
          bindE (user_by_principal p) (\<lambda>user.
          ret (p, user))))))"

definition active_binding_rows ::
  "database \<Rightarrow> uuid \<Rightarrow> uuid \<Rightarrow> uuid \<Rightarrow> principal_role_row list"
where
  "active_binding_rows d p role tenant =
     filter (\<lambda>b. prl_principal_id b = p \<and> prl_role_id b = role \<and> prl_tenant_id b = Some tenant
                 \<and> prl_status b = ''active'') (principal_roles d)"

definition grant ::
  "authz_ports \<Rightarrow> uuid \<Rightarrow> uuid \<Rightarrow> uuid \<Rightarrow> uuid option \<Rightarrow> uuid option \<Rightarrow> instant option
    \<Rightarrow> string option \<Rightarrow> grant_result op"
where
  "grant P tenant role_id caller principal_id user_id expires_at justification =
     bindE (require_permission P caller tenant ''tenant.admin'' None) (\<lambda>_.
     bindE (raise_if (principal_id = None \<and> user_id = None)
              (ValidationError ''principal_id or user_id is required'')) (\<lambda>_.
     bindE (grant_target principal_id user_id) (\<lambda>(p, target_user).
     bindE (reads (\<lambda>d. get_row rol_id role_id (roles d))) (\<lambda>found.
     bindE (the_or (case found of None \<Rightarrow> None
              | Some r \<Rightarrow> if rol_tenant_id r \<noteq> Some tenant \<or> rol_status r \<noteq> ''active''
                         then None else Some r)
              (NotFoundError ''role not found in this tenant'')) (\<lambda>role.
     bindE (raise_if (rol_scope_type role \<noteq> ''tenant'')
              (ValidationError ''cannot assign platform-scope role in tenant context'')) (\<lambda>_.
     bindE (case target_user of None \<Rightarrow> ret ()
            | Some user \<Rightarrow>
                bindE (active_membership tenant (usr_id user)) (\<lambda>member.
                raise_if (member = None)
                  (ValidationError ''target user is not an active member of this tenant''))) (\<lambda>_.
     bindE (reads (\<lambda>d. active_binding_rows d p role_id tenant)) (\<lambda>rows.
     bindE (one_or_none rows) (\<lambda>existing.
     bindE (raise_if (existing \<noteq> None) (ConflictError ''user already has this role'')) (\<lambda>_.
     bindE utcnow (\<lambda>now.
     bindE uuid4 (\<lambda>i.
     bindE (modifies (principal_roles_update (\<lambda>bs. bs @
        [\<lparr>prl_id = i, prl_principal_id = p, prl_role_id = rol_id role,
          prl_scope_type = ''tenant'', prl_tenant_id = Some tenant, prl_operator_org_id = None,
          prl_status = ''active'', prl_assigned_by = Some caller, prl_valid_from = now,
          prl_valid_until = expires_at, prl_revoked_at = None,
          prl_justification = justification, prl_created_at = now\<rparr>]))) (\<lambda>_.
     bindE (user_by_principal caller) (\<lambda>caller_user.
     bindE (audit ''role_binding.created'' (map_option usr_id caller_user) (Some tenant)
              [(''binding_id'', JUuid i), (''principal_id'', JUuid p),
               (''role_id'', JUuid (rol_id role)), (''role_name'', JStr (rol_name role)),
               (''assigned_by'', JUuid caller)]) (\<lambda>_.
     bindE commit (\<lambda>_.
     ret \<lparr>grs_binding_id = i, grs_principal_id = p,
          grs_user_id = map_option usr_id target_user, grs_role_id = rol_id role,
          grs_role_name = rol_name role, grs_status = ''active'', grs_granted_by = caller,
          grs_granted_at = now, grs_expires_at = expires_at\<rparr>))))))))))))))))"

text \<open>Closing a binding: status, instant and the reason appended to the justification.\<close>

definition revoked_justification :: "string option \<Rightarrow> string option \<Rightarrow> string option" where
  "revoked_justification reason old =
     (case reason of None \<Rightarrow> old
      | Some r \<Rightarrow> if r = [] then old
          else let note = ''revoked: '' @ r
               in Some (case old of None \<Rightarrow> note
                        | Some j \<Rightarrow> if j = [] then note else j @ '' | '' @ note))"

definition revoked_binding ::
  "instant \<Rightarrow> string option \<Rightarrow> principal_role_row \<Rightarrow> principal_role_row"
where
  "revoked_binding now reason b =
     b\<lparr>prl_status := ''revoked'', prl_revoked_at := Some now,
       prl_justification := revoked_justification reason (prl_justification b)\<rparr>"

definition revoke ::
  "authz_ports \<Rightarrow> uuid \<Rightarrow> uuid \<Rightarrow> uuid \<Rightarrow> uuid \<Rightarrow> string option \<Rightarrow> revoke_result op"
where
  "revoke P tenant role_id binding_id caller reason =
     bindE (require_permission P caller tenant ''tenant.admin'' None) (\<lambda>_.
     bindE (reads (\<lambda>d. get_row prl_id binding_id (principal_roles d))) (\<lambda>found.
     bindE (the_or (case found of None \<Rightarrow> None
              | Some b \<Rightarrow> if prl_tenant_id b \<noteq> Some tenant \<or> prl_role_id b \<noteq> role_id
                         then None else Some b)
              (NotFoundError ''binding not found'')) (\<lambda>binding.
     bindE (raise_if (prl_status binding \<noteq> ''active'') (ConflictError ''binding already revoked'')) (\<lambda>_.
     bindE (reads (\<lambda>d. get_row rol_id role_id (roles d))) (\<lambda>role.
     bindE (if (case role of None \<Rightarrow> False | Some r \<Rightarrow> rol_name r = ''tenant-admin'')
            then bindE (count_active_tenant_admins tenant) (\<lambda>active_admins.
                 raise_if (active_admins \<le> 1)
                   (ConflictError ''cannot revoke the last tenant-admin binding''))
            else ret ()) (\<lambda>_.
     bindE utcnow (\<lambda>now.
     bindE (modifies (principal_roles_update
              (upd_row prl_id binding_id (revoked_binding now reason)))) (\<lambda>_.
     bindE (user_by_principal caller) (\<lambda>caller_user.
     bindE (audit ''role_binding.revoked'' (map_option usr_id caller_user) (Some tenant)
              [(''binding_id'', JUuid binding_id),
               (''principal_id'', JUuid (prl_principal_id binding)),
               (''role_id'', JUuid role_id),
               (''reason'', case reason of None \<Rightarrow> JNull | Some r \<Rightarrow> JStr r),
               (''revoked_by'', JUuid caller)]) (\<lambda>_.
     bindE commit (\<lambda>_.
     ret \<lparr>rrs_binding_id = binding_id, rrs_status = ''revoked'', rrs_revoked_at = now,
          rrs_effective = ''immediately''\<rparr>)))))))))))"

subsection \<open>What the two writers do\<close>

lemma reads_only_count [reads_only_intros]: "reads_only (count_active_tenant_admins t)"
  by (auto simp: count_active_tenant_admins_def intro: reads_only_intros)

lemma reads_only_grant_target [reads_only_intros]: "reads_only (grant_target p u)"
  unfolding grant_target_def by (intro reads_only_intros)

lemma grant_atomic: "atomic_but_log (grant (build_authorization_service b) t r c p u e j)"
  unfolding grant_def
  by (rule atomic_but_log_intros keeps_intros reads_only_keeps reads_only_grant_target reads_only_lookups)+

lemma revoke_atomic: "atomic_but_log (revoke (build_authorization_service b) t r i c j)"
  unfolding revoke_def
  by (rule atomic_but_log_intros keeps_intros reads_only_keeps reads_only_count reads_only_lookups)+

text \<open>
  A successful \<open>grant\<close>, and a successful \<open>revoke\<close>: the checks passed, and the rows written.
\<close>

lemma grant_okD:
  assumes "grant (build_authorization_service b) t role_id c principal_id user_id e j w = (Inr x, w')"
  shows "\<exists>w1. require_permission (build_authorization_service b) c t ''tenant.admin'' None w = (Inr (), w1)
       \<and> (\<exists>role. get_row rol_id role_id (roles (db w1)) = Some role
             \<and> rol_tenant_id role = Some t \<and> rol_status role = ''active'' \<and> rol_scope_type role = ''tenant'')
       \<and> active_binding_rows (db w1) (grs_principal_id x) role_id t = []
       \<and> grs_binding_id x = next_uuid w1
       \<and> (\<exists>l. db w' = (principal_roles_update (\<lambda>bs. bs @
           [\<lparr>prl_id = next_uuid w1, prl_principal_id = grs_principal_id x,
           prl_role_id = role_id, prl_scope_type = ''tenant'', prl_tenant_id = Some t,
           prl_operator_org_id = None, prl_status = ''active'', prl_assigned_by = Some c,
           prl_valid_from = clock w1, prl_valid_until = e, prl_revoked_at = None,
           prl_justification = j, prl_created_at = clock w1\<rparr>]) (db w1))\<lparr>audit_log := l\<rparr>)
       \<and> disk w' = db w' \<and> clock w' = clock w1"
  using assms unfolding grant_def
  apply (simp only: step_ok reads_only_intros split_paired_Ex prod.case the_or_checked_ok)
  apply (elim exE conjE, hypsubst)
  apply (rule exI, rule conjI, assumption)
  apply (simp add: get_row_Some)
  apply (rule exI, rule refl)
  done

lemma revoke_okD:
  assumes "revoke (build_authorization_service b) t role_id i c reason w = (Inr x, w')"
  shows "\<exists>w1. require_permission (build_authorization_service b) c t ''tenant.admin'' None w = (Inr (), w1)
       \<and> (\<exists>old. get_row prl_id i (principal_roles (db w1)) = Some old
             \<and> prl_tenant_id old = Some t \<and> prl_role_id old = role_id \<and> prl_status old = ''active''
             \<and> ((\<exists>role. get_row rol_id role_id (roles (db w1)) = Some role
                   \<and> rol_name role = ''tenant-admin'')
                 \<longrightarrow> 2 \<le> length (tenant_admin_bindings (db w1) t)))
       \<and> (\<exists>l. db w' = (principal_roles_update
              (upd_row prl_id i (revoked_binding (clock w1) reason)) (db w1))\<lparr>audit_log := l\<rparr>)
       \<and> disk w' = db w' \<and> clock w' = clock w1"
  using assms unfolding revoke_def
  apply (simp only: step_ok reads_only_intros reads_only_count split_paired_Ex prod.case the_or_checked_ok)
  apply (elim exE conjE, hypsubst)
  apply (rule exI, rule conjI, assumption)
  apply (simp add: count_active_tenant_admins_def ok_iff split: option.split_asm if_split_asm)
  apply ((rule exI, rule refl)+)
  done

subsection \<open>Tenant administrators\<close>

text \<open>\<open>rbac_keys\<close>: the primary keys the role tables have.\<close>

definition rbac_keys :: "database \<Rightarrow> bool" where
  "rbac_keys d \<longleftrightarrow> distinct (map prl_id (principal_roles d)) \<and> distinct (map rol_id (roles d))"

lemma tenant_admin_bindings_iff:
  "b \<in> set (tenant_admin_bindings d t) \<longleftrightarrow>
     b \<in> set (principal_roles d) \<and> prl_tenant_id b = Some t \<and> prl_status b = ''active''
     \<and> (\<exists>role \<in> set (roles d). rol_id role = prl_role_id b \<and> rol_name role = ''tenant-admin''
          \<and> rol_tenant_id role = Some t)"
  by (auto simp: tenant_admin_bindings_def)

lemma distinct_tenant_admin_bindings:
  assumes "rbac_keys d"
  shows "distinct (map prl_id (tenant_admin_bindings d t))"
  unfolding tenant_admin_bindings_def
  by (rule distinct_joined [where g = rol_id and k = prl_role_id])
     (use assms in \<open>auto simp: rbac_keys_def\<close>)

lemma revoke_leaves_admin:
  assumes keys: "rbac_keys (db w)" and some: "tenant_admin_bindings (db w) t \<noteq> []"
    and ok: "revoke (build_authorization_service b) t role_id i c reason w = (Inr x, w')"
  shows "tenant_admin_bindings (db w') t \<noteq> []"
proof -
  from revoke_okD [OF ok] obtain w1 old l where
    req: "require_permission (build_authorization_service b) c t ''tenant.admin'' None w = (Inr (), w1)"
    and old: "get_row prl_id i (principal_roles (db w1)) = Some old" "prl_role_id old = role_id"
    and guard: "(\<exists>role. get_row rol_id role_id (roles (db w1)) = Some role
                   \<and> rol_name role = ''tenant-admin'') \<longrightarrow> 2 \<le> length (tenant_admin_bindings (db w1) t)"
    and w': "db w' = (principal_roles_update
              (upd_row prl_id i (revoked_binding (clock w1) reason)) (db w1))\<lparr>audit_log := l\<rparr>"
    by blast
  from require_permission_frame [OF req] obtain l' where s: "db w1 = (db w)\<lparr>authorization_audit_log := l'\<rparr>"
    by (auto simp: same_but_log_def)
  have same: "tenant_admin_bindings (db w1) t = tenant_admin_bindings (db w) t"
    by (simp add: s tenant_admin_bindings_def)
  have "\<exists>a \<in> set (tenant_admin_bindings (db w) t). prl_id a \<noteq> i"
  proof (rule ccontr)
    assume none: "\<not> ?thesis"
    from some obtain a where a: "a \<in> set (tenant_admin_bindings (db w) t)"
      by (cases "tenant_admin_bindings (db w) t") auto
    with none have ai: "prl_id a = i" by auto
    from a obtain role where role: "role \<in> set (roles (db w))" "rol_id role = prl_role_id a"
      "rol_name role = ''tenant-admin''" and apr: "a \<in> set (principal_roles (db w))"
      by (auto simp: tenant_admin_bindings_iff)
    have "get_row prl_id i (principal_roles (db w)) = Some a"
      using get_row_unique [of prl_id "principal_roles (db w)" a] keys apr ai
      by (simp add: rbac_keys_def)
    with old s have "a = old" by simp
    with role old have "get_row rol_id role_id (roles (db w1)) = Some role"
      using get_row_unique [of rol_id "roles (db w)" role] keys by (simp add: rbac_keys_def s)
    with guard role same have two: "2 \<le> length (map prl_id (tenant_admin_bindings (db w) t))" by auto
    from none have "set (map prl_id (tenant_admin_bindings (db w) t)) \<subseteq> {i}" by auto
    then have "card (set (map prl_id (tenant_admin_bindings (db w) t))) \<le> 1"
      using card_mono [of "{i}"] by fastforce
    with two distinct_card [OF distinct_tenant_admin_bindings [OF keys, of t]] show False by simp
  qed
  then obtain a where a: "a \<in> set (tenant_admin_bindings (db w) t)" "prl_id a \<noteq> i" by blast
  then have "a \<in> set (upd_row prl_id i (revoked_binding (clock w1) reason) (principal_roles (db w)))"
    unfolding set_upd_row tenant_admin_bindings_iff by (intro bexI [of _ a]) auto
  with a have "a \<in> set (tenant_admin_bindings (db w') t)"
    by (simp add: w' s tenant_admin_bindings_iff)
  then show ?thesis by auto
qed

subsection \<open>Granting and revoking\<close>

lemma request_ok_db: "request m w = (Inr x, w') \<Longrightarrow>
    \<exists>w1. m w = (Inr x, w1) \<and> db w' = disk w1 \<and> disk w' = disk w1 \<and> clock w' = clock w1"
  by (auto simp: request_ok)

text \<open>
  Granting needs \<open>tenant.admin\<close> and a role of the tenant that the principal does not hold
  yet; it leaves the principal with exactly one active binding of the role, committed, whose interval
  starts now and ends at the instant asked for.
\<close>

theorem grant_one_binding:
  assumes "authz_keys (db w)" and "disk w = db w"
    and "request (grant (build_authorization_service b) t role_id c principal_id user_id e j) w
           = (Inr x, w')"
  shows "may_use (sql_views (db w)) (public_command c t ''tenant.admin'' None) (clock w)
    \<and> active_binding_rows (db w) (grs_principal_id x) role_id t = []
    \<and> (\<exists>row. active_binding_rows (db w') (grs_principal_id x) role_id t = [row]
          \<and> prl_id row = grs_binding_id x \<and> prl_valid_from row = clock w
          \<and> prl_valid_until row = e \<and> prl_assigned_by row = Some c)"
proof -
  from request_ok_db [OF assms(3)] obtain w1 where
    ok: "grant (build_authorization_service b) t role_id c principal_id user_id e j w = (Inr x, w1)"
    and db: "db w' = disk w1" by blast
  from grant_okD [OF ok] obtain w0 l where
    req: "require_permission (build_authorization_service b) c t ''tenant.admin'' None w = (Inr (), w0)"
    and free: "active_binding_rows (db w0) (grs_principal_id x) role_id t = []"
    and i: "grs_binding_id x = next_uuid w0"
    and w1: "db w1 = (principal_roles_update (\<lambda>bs. bs @
           [\<lparr>prl_id = next_uuid w0, prl_principal_id = grs_principal_id x,
           prl_role_id = role_id, prl_scope_type = ''tenant'', prl_tenant_id = Some t,
           prl_operator_org_id = None, prl_status = ''active'', prl_assigned_by = Some c,
           prl_valid_from = clock w0, prl_valid_until = e, prl_revoked_at = None,
           prl_justification = j, prl_created_at = clock w0\<rparr>]) (db w0))\<lparr>audit_log := l\<rparr>"
      "disk w1 = db w1"
    by blast
  from require_permission_frame [OF req] obtain l' where s: "db w0 = (db w)\<lparr>authorization_audit_log := l'\<rparr>"
    "clock w0 = clock w"
    by (auto simp: same_but_log_def)
  show ?thesis
    using require_permission_ok [OF assms(1) req] free i
    by (simp add: db w1 s active_binding_rows_def)
qed

text \<open>
  C4. Revoking takes effect at once: from the moment it returned, no permission at any instant rests
  on that binding, and no other binding changed.
\<close>

theorem revoke_immediate:
  assumes "rbac_keys (db w)" and "disk w = db w"
    and "request (revoke (build_authorization_service b) t role_id i c reason) w = (Inr x, w')"
  shows "\<not> (\<exists>p sc code at pr role. prl_id pr = i \<and> grants_permission (db w') p sc code at pr role)
    \<and> filter (\<lambda>pr. prl_id pr \<noteq> i) (principal_roles (db w'))
        = filter (\<lambda>pr. prl_id pr \<noteq> i) (principal_roles (db w))"
proof -
  from request_ok_db [OF assms(3)] obtain w1 where
    ok: "revoke (build_authorization_service b) t role_id i c reason w = (Inr x, w1)"
    and db: "db w' = disk w1" by blast
  from revoke_okD [OF ok] obtain w0 l where
    req: "require_permission (build_authorization_service b) c t ''tenant.admin'' None w = (Inr (), w0)"
    and w1: "db w1 = (principal_roles_update
              (upd_row prl_id i (revoked_binding (clock w0) reason)) (db w0))\<lparr>audit_log := l\<rparr>"
      "disk w1 = db w1"
    by blast
  from require_permission_frame [OF req] obtain l' where s: "db w0 = (db w)\<lparr>authorization_audit_log := l'\<rparr>"
    by (auto simp: same_but_log_def)
  have pr: "principal_roles (db w') = upd_row prl_id i (revoked_binding (clock w0) reason) (principal_roles (db w))"
    by (simp add: db w1 s)
  have "filter (\<lambda>pr. prl_id pr \<noteq> i) (upd_row prl_id i (revoked_binding (clock w0) reason) rows)
      = filter (\<lambda>pr. prl_id pr \<noteq> i) rows" for rows
    by (induction rows) (auto simp: revoked_binding_def)
  then have rest: "filter (\<lambda>pr. prl_id pr \<noteq> i) (principal_roles (db w'))
      = filter (\<lambda>pr. prl_id pr \<noteq> i) (principal_roles (db w))"
    by (simp only: pr)
  have "prl_status r = ''revoked''" if "r \<in> set (principal_roles (db w'))" "prl_id r = i" for r
  proof -
    from that(1) obtain r0 where "r = (if prl_id r0 = i then revoked_binding (clock w0) reason r0 else r0)"
      unfolding pr set_upd_row by blast
    with that(2) show ?thesis by (cases "prl_id r0 = i") (simp_all add: revoked_binding_def)
  qed
  then have "\<not> grants_permission (db w') p sc code at r role" if "prl_id r = i" for p sc code at r role
    using that unfolding grants_permission_def by fastforce
  with rest show ?thesis by blast
qed

text \<open>
  C5. A tenant that has a \<open>tenant-admin\<close> binding keeps one through every revocation request,
  whether it succeeds or fails.
\<close>

theorem revoke_keeps_tenant_admin:
  assumes "rbac_keys (db w)" and "disk w = db w" and "tenant_admin_bindings (db w) t \<noteq> []"
    and "request (revoke (build_authorization_service b) t role_id i c reason) w = (r, w')"
  shows "tenant_admin_bindings (db w') t \<noteq> []"
proof (cases r)
  case (Inl e)
  from request_error [OF revoke_atomic] assms(4) Inl obtain l where
    "db w' = (disk w)\<lparr>authorization_audit_log := l\<rparr>" by blast
  with assms(2,3) show ?thesis by (simp add: tenant_admin_bindings_def)
next
  case (Inr x)
  with assms(4) have "request (revoke (build_authorization_service b) t role_id i c reason) w = (Inr x, w')"
    by simp
  from request_ok_db [OF this] obtain w1 where
    ok: "revoke (build_authorization_service b) t role_id i c reason w = (Inr x, w1)"
    and db: "db w' = disk w1" by blast
  from revoke_okD [OF ok] have "disk w1 = db w1" by blast
  with revoke_leaves_admin [OF assms(1,3) ok] db show ?thesis by simp
qed

subsection \<open>On concrete worlds\<close>

definition two_admins_world :: "instant option \<Rightarrow> world" where
  "two_admins_world until =
     world_of (principal_roles_update (\<lambda>bs. bs @ [sample_binding 73 2 51 until]) sample_db)"

theorem grant_one_binding_witness:
  "\<exists>x w'. request (grant (build_authorization_service True) 31 52 1 (Some 2) None (Some 5000) None)
       sample_world = (Inr x, w')
     \<and> (\<exists>row. active_binding_rows (db w') (grs_principal_id x) 52 31 = [row]
          \<and> prl_valid_until row = Some 5000)"
proof -
  let ?m = "request (grant (build_authorization_service True) 31 52 1 (Some 2) None (Some 5000) None)"
  have k: "authz_keys (db sample_world)" by code_simp
  have "case ?m sample_world of (Inl _, _) \<Rightarrow> False | (Inr r, _) \<Rightarrow> True"
    by code_simp
  then obtain x w' where e: "?m sample_world = (Inr x, w')"
    by (auto split: prod.splits sum.splits)
  from grant_one_binding [OF k _ e] e show ?thesis by auto
qed

theorem revoke_immediate_witness:
  "\<exists>x w'. request (revoke (build_authorization_service True) 31 51 73 1 (Some ''left''))
       (two_admins_world None) = (Inr x, w')
     \<and> \<not> (\<exists>p sc code at pr role. prl_id pr = 73 \<and> grants_permission (db w') p sc code at pr role)"
proof -
  let ?m = "request (revoke (build_authorization_service True) 31 51 73 1 (Some ''left''))"
  have k: "rbac_keys (db (two_admins_world None))"
    "disk (two_admins_world None) = db (two_admins_world None)"
    by (code_simp, simp add: two_admins_world_def)
  have "case ?m (two_admins_world None) of (Inl _, _) \<Rightarrow> False | (Inr r, _) \<Rightarrow> True"
    by code_simp
  then obtain x w' where e: "?m (two_admins_world None) = (Inr x, w')"
    by (auto split: prod.splits sum.splits)
  from revoke_immediate [OF k e] e show ?thesis by blast
qed

theorem revoke_keeps_tenant_admin_witness:
  "\<exists>r w'. request (revoke (build_authorization_service False) 31 51 71 1 None) sample_world = (r, w')
     \<and> tenant_admin_bindings (db w') 31 \<noteq> []"
proof -
  have k: "rbac_keys (db sample_world)" "disk sample_world = db sample_world"
    "tenant_admin_bindings (db sample_world) 31 \<noteq> []"
    by (code_simp, simp, code_simp)
  obtain r w' where e: "request (revoke (build_authorization_service False) 31 51 71 1 None) sample_world
      = (r, w')" by fastforce
  from revoke_keeps_tenant_admin [OF k e] e show ?thesis by blast
qed

text \<open>
  The guard on the last administrator counts bindings, not administrators: a binding whose
  \<open>valid_until\<close> has passed still counts. With one effective administrator and one expired one, the
  effective one can be revoked, and then no principal may administer the tenant any more.
\<close>

theorem last_admin_guard_counts_expired:
  "\<exists>x w'. request (revoke (build_authorization_service True) 31 51 71 1 None)
       (two_admins_world (Some 500)) = (Inr x, w')
     \<and> (\<forall>p. \<not> may_use (sql_views (db w')) (public_command p 31 ''tenant.admin'' None) (clock w'))"
proof -
  let ?m = "request (revoke (build_authorization_service True) 31 51 71 1 None)"
  let ?usable = "\<lambda>w pr. prl_scope_type pr = ''tenant'' \<and> prl_status pr = ''active''
      \<and> (case prl_valid_until pr of None \<Rightarrow> True | Some until \<Rightarrow> clock w < until)"
  have "case ?m (two_admins_world (Some 500)) of (Inl _, _) \<Rightarrow> False
      | (Inr r, w) \<Rightarrow> filter (?usable w) (principal_roles (db w)) = [] \<and> permission_ids (db w)"
    by code_simp
  then obtain x w' where e: "?m (two_admins_world (Some 500)) = (Inr x, w')"
    and none: "filter (?usable w') (principal_roles (db w')) = []" and ids: "permission_ids (db w')"
    by (auto split: prod.splits sum.splits)
  have "\<not> may_use (sql_views (db w')) (public_command p 31 ''tenant.admin'' None) (clock w')" for p
  proof
    assume "may_use (sql_views (db w')) (public_command p 31 ''tenant.admin'' None) (clock w')"
    then have "may_use_tenant (sql_views (db w')) p (strip ''tenant.admin'') 31 (clock w')"
      by (auto simp: may_use_def public_command_def Let_def)
    from may_use_tenant_rows [OF this] ids obtain pr role where
      "grants_permission (db w') p ''tenant'' (strip ''tenant.admin'') (clock w') pr role"
      by (auto simp: permission_ids_def)
    then have "pr \<in> set (filter (?usable w') (principal_roles (db w')))"
      by (auto simp: grants_permission_def split: option.split)
    with none show False by simp
  qed
  with e show ?thesis by blast
qed

end
