(* ===== verification/Authz_Seed.thy ===== *)
theory Authz_Seed
  imports Authz_Sql
begin

section \<open>Seeding the catalog and the system roles\<close>

text \<open>
  The asynchronous helpers of \<open>authz/infrastructure/seed.py\<close>: the permission catalog is upserted row
  by row, and the system roles of a tenant (or of an operator organization) are created with their
  links. The synchronous variants, which are raw SQL for migrations, are not modelled.
\<close>

record seed_report =
  srp_permissions_upserted :: nat
  srp_roles_upserted :: nat
  srp_role_permissions_upserted :: nat

definition non_empty :: "string \<Rightarrow> string option" where
  "non_empty s = (if s = [] then None else Some s)"

definition upsert_permission :: "permission_spec \<Rightarrow> unit op" where
  "upsert_permission spec =
     bindE (reads (\<lambda>d. filter (\<lambda>r. prm_code r = spc_code spec) (permissions d))) (\<lambda>rows.
     bindE (one_or_none rows) (\<lambda>row.
     (case row of
        None \<Rightarrow>
          bindE uuid4 (\<lambda>i.
          modifies (permissions_update (\<lambda>rs. rs @
            [\<lparr>prm_id = i, prm_code = spc_code spec, prm_scope_type = spc_scope_type spec,
              prm_description = non_empty (spc_description spec), prm_status = ''active''\<rparr>])))
      | Some r \<Rightarrow>
          modifies (permissions_update (upd_row prm_id (prm_id r) (\<lambda>r. r\<lparr>
            prm_scope_type := spc_scope_type spec,
            prm_description := first_some (non_empty (spc_description spec)) (prm_description r),
            prm_status := ''active''\<rparr>))))))"

definition seed_permission_catalog :: "nat op" where
  "seed_permission_catalog =
     bindE (for_each all_permission_specs upsert_permission) (\<lambda>_.
     ret (length all_permission_specs))"

text \<open>\<open>{p.code: p for p in ...}\<close>: of two rows with a code, the later one stays.\<close>

definition perm_rows :: "database \<Rightarrow> (string \<times> permission_row) list" where
  "perm_rows d = map (\<lambda>p. (prm_code p, p)) (rev (permissions d))"

definition get_or_create_role ::
  "string \<Rightarrow> uuid option \<Rightarrow> uuid option \<Rightarrow> string \<Rightarrow> role_row op"
where
  "get_or_create_role scope_type tenant operator_org name =
     bindE (reads (\<lambda>d. filter (\<lambda>r. rol_scope_type r = scope_type
        \<and> (if scope_type = ''tenant'' then rol_tenant_id r = tenant
           else rol_operator_org_id r = operator_org)
        \<and> rol_name r = name) (roles d))) (\<lambda>rows.
     bindE (one_or_none rows) (\<lambda>found.
     (case found of
        None \<Rightarrow>
          bindE uuid4 (\<lambda>i.
          let role = \<lparr>rol_id = i, rol_scope_type = scope_type, rol_tenant_id = tenant,
                      rol_operator_org_id = operator_org, rol_name = name,
                      rol_is_system_role = True, rol_status = ''active''\<rparr>
          in bindE (modifies (roles_update (\<lambda>rs. rs @ [role]))) (\<lambda>_. ret role))
      | Some role \<Rightarrow>
          let f = (\<lambda>r. r\<lparr>rol_is_system_role := True, rol_status := ''active''\<rparr>)
          in bindE (modifies (roles_update (upd_row rol_id (rol_id role) f))) (\<lambda>_.
             ret (f role)))))"

definition get_or_create_tenant_role :: "uuid \<Rightarrow> string \<Rightarrow> role_row op" where
  "get_or_create_tenant_role tenant name = get_or_create_role ''tenant'' (Some tenant) None name"

definition get_or_create_platform_role :: "uuid \<Rightarrow> string \<Rightarrow> role_row op" where
  "get_or_create_platform_role operator_org name =
     get_or_create_role ''platform'' None (Some operator_org) name"

definition ensure_role_permission :: "uuid \<Rightarrow> uuid \<Rightarrow> nat op" where
  "ensure_role_permission role permission =
     bindE (reads (\<lambda>d. filter (\<lambda>l. rpm_role_id l = role \<and> rpm_permission_id l = permission)
                         (role_permissions d))) (\<lambda>rows.
     bindE (one_or_none rows) (\<lambda>existing.
     if existing \<noteq> None then ret 0
     else bindE uuid4 (\<lambda>i.
          bindE (modifies (role_permissions_update (\<lambda>ls. ls @
            [\<lparr>rpm_id = i, rpm_role_id = role, rpm_permission_id = permission\<rparr>]))) (\<lambda>_.
          ret 1))))"

text \<open>The links of one role: codes missing from the catalog are skipped.\<close>

definition seed_link ::
  "string \<Rightarrow> string \<Rightarrow> (string \<times> permission_row) list \<Rightarrow> role_row \<Rightarrow> string \<Rightarrow> nat op"
where
  "seed_link scope_type role_name perms role code =
     bindE (assert_role_may_receive_permission scope_type code) (\<lambda>_.
     (case map_of perms code of
        None \<Rightarrow> ret 0
      | Some permission \<Rightarrow>
          if prm_scope_type permission \<noteq> scope_type
             \<or> (is_platform_code code \<longleftrightarrow> scope_type = ''tenant'')
          then raise (ValueError (''catalog inconsistency: '' @ code @ '' is not '' @ scope_type
                 @ ''-scoped but listed for '' @ role_name))
          else ensure_role_permission (rol_id role) (prm_id permission)))"

definition seed_tenant_system_roles :: "uuid \<Rightarrow> seed_report op" where
  "seed_tenant_system_roles tenant =
     bindE seed_permission_catalog (\<lambda>_.
     bindE (reads perm_rows) (\<lambda>perms.
     bindE (map_each tenant_system_role_permissions (\<lambda>(role_name, codes).
        bindE (get_or_create_tenant_role tenant role_name) (\<lambda>role.
        map_each codes (seed_link ''tenant'' role_name perms role)))) (\<lambda>links.
     ret \<lparr>srp_permissions_upserted = length all_permission_specs,
          srp_roles_upserted = length tenant_system_role_permissions,
          srp_role_permissions_upserted = sum_list (map sum_list links)\<rparr>)))"

definition seed_platform_system_roles :: "uuid \<Rightarrow> seed_report op" where
  "seed_platform_system_roles operator_org =
     bindE seed_permission_catalog (\<lambda>_.
     bindE (reads perm_rows) (\<lambda>perms.
     bindE (map_each platform_system_role_permissions (\<lambda>(role_name, codes).
        bindE (get_or_create_platform_role operator_org role_name) (\<lambda>role.
        map_each codes (seed_link ''platform'' role_name perms role)))) (\<lambda>links.
     ret \<lparr>srp_permissions_upserted = length all_permission_specs,
          srp_roles_upserted = length platform_system_role_permissions,
          srp_role_permissions_upserted = sum_list (map sum_list links)\<rparr>)))"

end
