(* ===== verification/Commerce_Base.thy ===== *)
theory Commerce_Base
  imports Access
begin

section \<open>What the commerce operations share\<close>

text \<open>
  Constants, view records and private helpers of \<open>CommerceService\<close>
  (\<open>marketplace/application/commerce_service.py\<close>) with the fulfilment types of
  \<open>marketplace/domain/fulfilment.py\<close>. Amounts the service turns into \<open>float\<close> are kept exact, in
  hundredths; instants the views render with \<open>isoformat()\<close> are kept as instants.
\<close>

definition fulfilment_types :: "string list" where
  "fulfilment_types =
     [''SHIP_PHYSICAL'', ''DELIVER_DIGITAL'', ''LICENSE_SOFTWARE'', ''PROVISION_SOFTWARE'',
      ''PROVISION_CLOUD'', ''STREAM_LMS_COURSE'', ''DELIVER_MULTIMEDIA'', ''DISPATCH_SERVICE'',
      ''BOOK_APPOINTMENT'']"

definition provision_types :: "string list" where
  "provision_types = [''PROVISION_SOFTWARE'', ''PROVISION_CLOUD'']"

definition address_required :: "string list" where
  "address_required = [''SHIP_PHYSICAL'', ''DISPATCH_SERVICE'', ''BOOK_APPOINTMENT'']"

definition payment_methods :: "string list" where
  "payment_methods = [''upi'', ''card'', ''netbanking'']"

text \<open>\<open>ORDER BY c DESC\<close>; rows that agree on the column stay in insertion order.\<close>

definition sort_desc :: "('r \<Rightarrow> int) \<Rightarrow> 'r list \<Rightarrow> 'r list" where
  "sort_desc f rows = sort_key (\<lambda>r. - f r) rows"

text \<open>An outer join: the matching rows, or one row without a partner.\<close>

definition outer :: "'r list \<Rightarrow> 'r option list" where
  "outer rows = (if rows = [] then [None] else map Some rows)"

record address_view =
  adv_address_id :: uuid
  adv_label :: string
  adv_contact_name :: string
  adv_line1 :: string
  adv_city :: string
  adv_state :: string
  adv_pincode :: string
  adv_phone :: string

definition address_view_of :: "address_row \<Rightarrow> address_view" where
  "address_view_of row =
     \<lparr>adv_address_id = adr_id row, adv_label = adr_label row,
      adv_contact_name = adr_contact_name row, adv_line1 = adr_line1 row, adv_city = adr_city row,
      adv_state = adr_state row, adv_pincode = adr_pincode row, adv_phone = adr_phone row\<rparr>"

definition published_product :: "uuid \<Rightarrow> product_row op" where
  "published_product product_id =
     bindE (reads (\<lambda>d. get_row prd_id product_id (products d))) (\<lambda>found.
     the_or (case found of None \<Rightarrow> None
             | Some p \<Rightarrow> if prd_status p \<noteq> ''published'' then None else Some p)
       (NotFoundError ''product not found''))"

definition published_offering :: "uuid \<Rightarrow> (offering_row \<times> product_row) op" where
  "published_offering offering_id =
     bindE (reads (\<lambda>d. get_row off_id offering_id (offerings d))) (\<lambda>found.
     bindE (the_or (case found of None \<Rightarrow> None
              | Some off \<Rightarrow> if off_status off \<noteq> ''published'' then None else Some off)
              (NotFoundError ''offering not found'')) (\<lambda>offering.
     bindE (reads (\<lambda>d. get_row prd_id (off_product_id offering) (products d))) (\<lambda>found_product.
     bindE (the_or (case found_product of None \<Rightarrow> None
              | Some p \<Rightarrow> if prd_status p \<noteq> ''published'' then None else Some p)
              (NotFoundError ''offering not found'')) (\<lambda>product.
     ret (offering, product)))))"

definition open_cart :: "uuid \<Rightarrow> cart_row option op" where
  "open_cart tenant =
     bindE (reads (\<lambda>d. filter (\<lambda>c. crt_tenant_id c = tenant \<and> crt_status c = ''open'') (carts d)))
       one_or_none"

definition cart_line_rows :: "database \<Rightarrow> uuid \<Rightarrow> (cart_line_row \<times> offering_row \<times> product_row) list" where
  "cart_line_rows d cart =
     sort_key (\<lambda>(line, _, _). cln_created_at line)
       [(line, offering, product). line \<leftarrow> cart_lines d, offering \<leftarrow> offerings d, product \<leftarrow> products d,
          off_id offering = cln_offering_id line \<and> prd_id product = off_product_id offering
          \<and> cln_cart_id line = cart]"

definition find_address :: "uuid \<Rightarrow> uuid \<Rightarrow> address_row op" where
  "find_address tenant address_id =
     bindE (reads (\<lambda>d. get_row adr_id address_id (addresses d))) (\<lambda>found.
     the_or (case found of None \<Rightarrow> None
             | Some a \<Rightarrow> if adr_tenant_id a \<noteq> tenant \<or> adr_status a \<noteq> ''active'' then None else Some a)
       (NotFoundError ''address not found''))"

definition check_quantity :: "int \<Rightarrow> unit op" where
  "check_quantity quantity =
     raise_if (quantity < 1) (ValidationError ''quantity must be at least 1'')"

definition days :: "int \<Rightarrow> int" where
  "days n = n * 86400000000"

definition next_bill :: "instant option \<Rightarrow> string \<Rightarrow> instant option op" where
  "next_bill start billing_period =
     bindE utcnow (\<lambda>now.
     let base = (case start of None \<Rightarrow> now | Some s \<Rightarrow> s)
     in ret (if billing_period = ''yearly'' then Some (base + days 365)
             else if billing_period = ''one_time'' then None
             else Some (base + days 30)))"

subsection \<open>Lemmas\<close>

lemma set_sort_desc [simp]: "set (sort_desc f rows) = set rows"
  by (simp add: sort_desc_def)

lemma sort_desc_sorted: "sorted_wrt (\<lambda>a b. f b \<le> f a) (sort_desc f rows)"
proof -
  have "sorted (map (\<lambda>r. - f r) (sort_desc f rows))"
    by (simp add: sort_desc_def)
  then show ?thesis by (simp add: sorted_map)
qed

lemma outer_not_Nil [simp]: "outer rows \<noteq> []"
  by (simp add: outer_def)

lemma reads_only_commerce [reads_only_intros]:
  "reads_only (published_product p)" "reads_only (published_offering i)" "reads_only (open_cart t)"
  "reads_only (find_address t a)" "reads_only (check_quantity q)" "reads_only (next_bill s b)"
  by (auto simp: published_product_def published_offering_def open_cart_def find_address_def
      check_quantity_def next_bill_def Let_def intro!: reads_only_intros)

lemmas step_ok_commerce [step_ok] =
  step_ok_reads_only [OF reads_only_commerce(1)] step_ok_reads_only [OF reads_only_commerce(2)]
  step_ok_reads_only [OF reads_only_commerce(3)] step_ok_reads_only [OF reads_only_commerce(4)]
  step_ok_reads_only [OF reads_only_commerce(5)] step_ok_reads_only [OF reads_only_commerce(6)]

lemma published_product_ok [ok_iff]:
  "published_product i w = (Inr p, w') \<longleftrightarrow>
     get_row prd_id i (products (db w)) = Some p \<and> prd_status p = ''published'' \<and> w' = w"
  by (auto simp: published_product_def step_ok the_or_checked_ok)

lemma published_offering_ok [ok_iff]:
  "published_offering i w = (Inr z, w') \<longleftrightarrow>
     (case z of (off, p) \<Rightarrow> get_row off_id i (offerings (db w)) = Some off
        \<and> off_status off = ''published''
        \<and> get_row prd_id (off_product_id off) (products (db w)) = Some p
        \<and> prd_status p = ''published'' \<and> w' = w)"
  by (cases z) (auto simp: published_offering_def step_ok the_or_checked_ok)

lemma open_cart_ok [ok_iff]:
  "open_cart t w = (Inr z, w') \<longleftrightarrow> w' = w \<and>
     (case z of
        None \<Rightarrow> filter (\<lambda>c. crt_tenant_id c = t \<and> crt_status c = ''open'') (carts (db w)) = []
      | Some c \<Rightarrow> filter (\<lambda>c. crt_tenant_id c = t \<and> crt_status c = ''open'') (carts (db w)) = [c])"
  by (auto simp: open_cart_def ok_iff)

lemma find_address_ok [ok_iff]:
  "find_address t i w = (Inr a, w') \<longleftrightarrow> get_row adr_id i (addresses (db w)) = Some a
     \<and> adr_tenant_id a = t \<and> adr_status a = ''active'' \<and> w' = w"
  by (auto simp: find_address_def step_ok the_or_checked_ok)

lemma check_quantity_ok [ok_iff]: "check_quantity q w = (Inr u, w') \<longleftrightarrow> 1 \<le> q \<and> w' = w"
  by (auto simp: check_quantity_def ok_iff)

lemma cart_line_rows_iff:
  "(line, offering, product) \<in> set (cart_line_rows d cart) \<longleftrightarrow>
     line \<in> set (cart_lines d) \<and> offering \<in> set (offerings d) \<and> product \<in> set (products d)
     \<and> off_id offering = cln_offering_id line \<and> prd_id product = off_product_id offering
     \<and> cln_cart_id line = cart"
  by (auto simp: cart_line_rows_def)

end
