(* ===== verification/Invariants.thy ===== *)
theory Invariants
  imports Access
begin

section \<open>Invariants of the committed database\<close>

text \<open>
  A property \<open>J n d\<close> of the tables \<open>d\<close> and the next identifier \<open>n\<close> is \<open>preserved\<close> by a handler
  when every request that runs it, from a session with nothing uncommitted, ends with the property
  still true of the committed tables: whether the handler returned or raised.
\<close>

definition preserved :: "(uuid \<Rightarrow> database \<Rightarrow> bool) \<Rightarrow> 'a op \<Rightarrow> bool" where
  "preserved J m \<longleftrightarrow>
     (\<forall>w r w'. disk w = db w \<and> J (next_uuid w) (db w) \<and> request m w = (r, w')
        \<longrightarrow> disk w' = db w' \<and> J (next_uuid w') (db w'))"

lemma preservedD:
  "preserved J m \<Longrightarrow> disk w = db w \<Longrightarrow> J (next_uuid w) (db w) \<Longrightarrow> request m w = (r, w')
    \<Longrightarrow> disk w' = db w' \<and> J (next_uuid w') (db w')"
  unfolding preserved_def by blast

text \<open>The properties considered: monotone in the supply, and indifferent to the authorization log.\<close>

definition supply_mono :: "(uuid \<Rightarrow> database \<Rightarrow> bool) \<Rightarrow> bool" where
  "supply_mono J \<longleftrightarrow> (\<forall>n n' d. n \<le> n' \<longrightarrow> J n d \<longrightarrow> J n' d)"

definition log_blind :: "(uuid \<Rightarrow> database \<Rightarrow> bool) \<Rightarrow> bool" where
  "log_blind J \<longleftrightarrow> (\<forall>n d l. J n d \<longrightarrow> J n (d\<lparr>authorization_audit_log := l\<rparr>))"

definition uuid_ge :: "uuid \<Rightarrow> world \<Rightarrow> bool" where
  "uuid_ge n w \<longleftrightarrow> n \<le> next_uuid w"

lemma uuid_ge_refl [simp]: "uuid_ge (next_uuid w) w"
  by (simp add: uuid_ge_def)

lemma keeps_uuid_ge [keeps_intros]:
  "keeps (uuid_ge n) (modifies f)" "keeps (uuid_ge n) uuid4" "keeps (uuid_ge n) commit"
  "keeps (uuid_ge n) rollback" "keeps (uuid_ge n) (audit a u t p)"
  "keeps (uuid_ge n) (own_transaction f)"
  by (auto simp: keeps_def uuid_ge_def run_simps)

lemma keeps_uuid_ge_require [keeps_intros]:
  "keeps (uuid_ge n) (require_permission (build_authorization_service b) p t code rid)"
  by (rule keeps_require_permission) (auto simp: log_free_def uuid_ge_def sql_logged_rest)

text \<open>A handler that is atomic preserves what its successful runs re-establish.\<close>

lemma preservedI:
  assumes "supply_mono J" and "log_blind J"
    and at: "atomic_but_log m" and up: "\<And>n. keeps (uuid_ge n) m"
    and ok: "\<And>w x w'. J (next_uuid w) (db w) \<Longrightarrow> disk w = db w \<Longrightarrow> m w = (Inr x, w')
               \<Longrightarrow> J (next_uuid w') (disk w')"
  shows "preserved J m"
  unfolding preserved_def
proof (intro allI impI, elim conjE)
  fix w r w' assume start: "disk w = db w" "J (next_uuid w) (db w)" and run: "request m w = (r, w')"
  from run obtain w1 where m: "m w = (r, w1)" and w': "w' = w1\<lparr>db := disk w1\<rparr>"
    by (auto simp: request_run split: prod.splits)
  have "J (next_uuid w1) (disk w1)"
  proof (cases r)
    case (Inl e)
    from atomic_but_logD [OF at] m Inl have "disk_but_log (disk w) w1" by blast
    moreover have "next_uuid w \<le> next_uuid w1"
      using keepsD [OF up uuid_ge_refl m] by (simp add: uuid_ge_def)
    ultimately show ?thesis
      using start assms(1,2) unfolding disk_but_log_def supply_mono_def log_blind_def by metis
  next
    case (Inr x)
    with m ok start show ?thesis by blast
  qed
  then show "disk w' = db w' \<and> J (next_uuid w') (db w')" by (simp add: w')
qed

text \<open>The same, with the successful runs taken as whole requests.\<close>

lemma preserved_request:
  assumes "supply_mono J" and "log_blind J"
    and at: "atomic_but_log m" and up: "\<And>n. keeps (uuid_ge n) m"
    and ok: "\<And>w x w'. disk w = db w \<Longrightarrow> J (next_uuid w) (db w) \<Longrightarrow> request m w = (Inr x, w')
               \<Longrightarrow> J (next_uuid w') (db w')"
  shows "preserved J m"
proof (rule preservedI [OF assms(1-4)])
  fix w x w' assume J: "J (next_uuid w) (db w)" and d: "disk w = db w" and m: "m w = (Inr x, w')"
  then have "request m w = (Inr x, w'\<lparr>db := disk w'\<rparr>)" by (simp add: request_run)
  from ok [OF d J this] show "J (next_uuid w') (disk w')" by simp
qed

lemma preserved_reads_only: "reads_only m \<Longrightarrow> preserved J m"
  by (auto simp: preserved_def request_run reads_only_def split: prod.splits)
     (metis snd_conv)+

lemma preserved_then_reads:
  assumes m: "preserved J m" and f: "\<And>x. reads_only (f x)"
  shows "preserved J (bindE m f)"
  unfolding preserved_def
proof (intro allI impI, elim conjE)
  fix w r w' assume d: "disk w = db w" "J (next_uuid w) (db w)" and run: "request (bindE m f) w = (r, w')"
  obtain q w1 where q: "m w = (q, w1)" by fastforce
  have "w' = w1\<lparr>db := disk w1\<rparr>"
  proof (cases q)
    case (Inl e)
    then show ?thesis using run q by (simp add: request_run bindE_run)
  next
    case (Inr x)
    obtain r2 w2 where f2: "f x w1 = (r2, w2)" by fastforce
    from reads_onlyD [OF f f2] f2 show ?thesis using run q Inr by (simp add: request_run bindE_run)
  qed
  moreover have "request m w = (q, w1\<lparr>db := disk w1\<rparr>)" by (simp add: request_run q)
  ultimately show "disk w' = db w' \<and> J (next_uuid w') (db w')"
    using preservedD [OF m d] by blast
qed

text \<open>A property of both the session's view and the committed tables, for the \<open>keeps\<close> rules.\<close>

definition both :: "(uuid \<Rightarrow> database \<Rightarrow> bool) \<Rightarrow> world \<Rightarrow> bool" where
  "both J w \<longleftrightarrow> J (next_uuid w) (db w) \<and> J (next_uuid w) (disk w)"

lemma keeps_both_commit [keeps_intros]:
  "keeps (both J) commit" "keeps (both J) rollback"
  by (auto simp: keeps_def both_def run_simps)

lemma keeps_both_modifies:
  "(\<And>n d. J n d \<Longrightarrow> J n (f d)) \<Longrightarrow> keeps (both J) (modifies f)"
  by (auto simp: keeps_def both_def run_simps)

lemma supply_monoD: "supply_mono J \<Longrightarrow> J n d \<Longrightarrow> n \<le> n' \<Longrightarrow> J n' d"
  unfolding supply_mono_def by blast

lemma keeps_both_uuid4: "supply_mono J \<Longrightarrow> keeps (both J) uuid4"
  by (auto simp: keeps_def both_def run_simps elim: supply_monoD)

lemma keeps_both_audit:
  assumes "supply_mono J" and "\<And>n d l. J n d \<Longrightarrow> J n (d\<lparr>audit_log := l\<rparr>)"
  shows "keeps (both J) (audit a u t p)"
proof -
  have "J (Suc n) d" if "J n d" for n d by (rule supply_monoD [OF assms(1) that]) simp
  with assms(2) show ?thesis by (simp add: keeps_def both_def run_simps)
qed

lemma keeps_both_require:
  assumes "supply_mono J" and "log_blind J"
  shows "keeps (both J) (require_permission (build_authorization_service b) q t code rid)"
proof (rule keeps_require_permission)
  show "log_free (both J)"
  proof -
    have "J (Suc n) d" if "J n d" for n d by (rule supply_monoD [OF assms(1) that]) simp
    with assms(2) show ?thesis
      unfolding log_blind_def by (simp add: log_free_def both_def sql_logged_rest sql_logged_db)
  qed
qed

lemma preserved_both:
  assumes "keeps (both J) m"
  shows "preserved J m"
  unfolding preserved_def
proof (intro allI impI, elim conjE)
  fix w r w' assume "disk w = db w" "J (next_uuid w) (db w)" and run: "request m w = (r, w')"
  then have "both J w" by (simp add: both_def)
  from run obtain w1 where m: "m w = (r, w1)" and "w' = w1\<lparr>db := disk w1\<rparr>"
    by (auto simp: request_run split: prod.splits)
  with keepsD [OF assms \<open>both J w\<close> m] show "disk w' = db w' \<and> J (next_uuid w') (db w')"
    by (simp add: both_def)
qed

lemma preserved_conj: "preserved J m \<Longrightarrow> preserved K m \<Longrightarrow> preserved (\<lambda>n d. J n d \<and> K n d) m"
  unfolding preserved_def by blast

subsection \<open>Operations that leave tables alone\<close>

text \<open>
  \<open>same_tables p x\<close>: the tables that \<open>p\<close> selects are \<open>x\<close>, in the session's view and committed. An
  operation that keeps it \<open>leaves\<close> those tables, and preserves what depends on them only.
\<close>

definition same_tables :: "(database \<Rightarrow> 'c) \<Rightarrow> 'c \<Rightarrow> world \<Rightarrow> bool" where
  "same_tables p x w \<longleftrightarrow> p (db w) = x \<and> p (disk w) = x"

definition leaves :: "(database \<Rightarrow> 'c) \<Rightarrow> 'a op \<Rightarrow> bool" where
  "leaves p m \<longleftrightarrow> (\<forall>x. keeps (same_tables p x) m)"

definition depends_on :: "(database \<Rightarrow> 'c) \<Rightarrow> (uuid \<Rightarrow> database \<Rightarrow> bool) \<Rightarrow> bool" where
  "depends_on p J \<longleftrightarrow> (\<forall>n d d'. p d' = p d \<longrightarrow> J n d \<longrightarrow> J n d')"

lemma keeps_same_tables [keeps_intros]:
  "(\<And>d. p (f d) = p d) \<Longrightarrow> keeps (same_tables p x) (modifies f)"
  "keeps (same_tables p x) uuid4" "keeps (same_tables p x) commit"
  "(\<And>l d. p (d\<lparr>audit_log := l\<rparr>) = p d) \<Longrightarrow> keeps (same_tables p x) (audit a u t l)"
  by (auto simp: keeps_def same_tables_def run_simps)

lemma keeps_same_tables_require:
  assumes "\<And>l d. p (d\<lparr>authorization_audit_log := l\<rparr>) = p d"
  shows "keeps (same_tables p x) (require_permission (build_authorization_service b) q t code rid)"
  by (rule keeps_require_permission)
     (auto simp: log_free_def same_tables_def assms sql_logged_rest sql_logged_db)

lemma preserved_leaves:
  assumes p: "leaves p m" "depends_on p J" and J: "supply_mono J" and up: "\<And>n. keeps (uuid_ge n) m"
  shows "preserved J m"
  unfolding preserved_def
proof (intro allI impI, elim conjE)
  fix w r w' assume d: "disk w = db w" "J (next_uuid w) (db w)" and run: "request m w = (r, w')"
  from run obtain w1 where m: "m w = (r, w1)" and w': "w' = w1\<lparr>db := disk w1\<rparr>"
    by (auto simp: request_run split: prod.splits)
  have "same_tables p (p (db w)) w" using d(1) by (simp add: same_tables_def)
  from keepsD [OF p(1) [unfolded leaves_def, rule_format] this m] have "p (disk w1) = p (db w)"
    by (simp add: same_tables_def)
  with p(2) d(2) have "J (next_uuid w) (disk w1)" unfolding depends_on_def by blast
  moreover have "next_uuid w \<le> next_uuid w1"
    using keepsD [OF up uuid_ge_refl m] by (simp add: uuid_ge_def)
  ultimately show "disk w' = db w' \<and> J (next_uuid w') (db w')"
    using supply_monoD [OF J] by (simp add: w')
qed

lemma leaves_intro:
  "(\<And>x. keeps (same_tables p x) m) \<Longrightarrow> leaves p m"
  by (simp add: leaves_def)

text \<open>A call whose result is not used.\<close>

definition silent :: "'a op \<Rightarrow> unit op" where
  "silent m = bindE m (\<lambda>_. ret ())"

lemma preserved_silent: "preserved J m \<Longrightarrow> preserved J (silent m)"
  unfolding silent_def by (rule preserved_then_reads) (auto intro: reads_only_intros)

lemma leaves_silent: "leaves p m \<Longrightarrow> leaves p (silent m)"
  by (auto simp: leaves_def silent_def intro!: keeps_bindE keeps_ret)

subsection \<open>Machines\<close>

text \<open>
  A machine serves requests in any order. When no step of it breaks a property of the committed tables, no run of it
  does.
\<close>

locale served_machine =
  fixes step :: "world \<Rightarrow> world \<Rightarrow> bool" and J :: "uuid \<Rightarrow> database \<Rightarrow> bool"
  assumes step_keeps: "step w w' \<Longrightarrow> disk w = db w \<and> J (next_uuid w) (db w)
    \<Longrightarrow> disk w' = db w' \<and> J (next_uuid w') (db w')"
begin

lemma run_keeps:
  assumes "step\<^sup>*\<^sup>* w w'" and "disk w = db w" and "J (next_uuid w) (db w)"
  shows "disk w' = db w' \<and> J (next_uuid w') (db w')"
  using assms(1)
proof induction
  case base
  show ?case using assms(2,3) by simp
next
  case (step w1 w2)
  from step_keeps [OF step(2,3)] show ?case .
qed

end

end
