(* ===== verification/Shop_Samples.thy ===== *)
theory Shop_Samples
  imports Samples
begin

section \<open>A sample shop\<close>

text \<open>
  The sample tenant with two vendors (201 owned by user 11, 202 owned by user 13), three published
  products with one offering each, an address and an open cart with one physical and one digital
  line. Nothing here models code.
\<close>

definition sample_product :: "uuid \<Rightarrow> uuid \<Rightarrow> string \<Rightarrow> product_row" where
  "sample_product i vendor ftype =
     \<lparr>prd_id = i, prd_vendor_id = vendor, prd_plugin_id = None, prd_name = ''Kettle'',
      prd_description = ''boils'', prd_category = ''home'', prd_fulfilment_type = ftype,
      prd_status = ''published'', prd_pa_status = ''live'',
      prd_pa_reject_reason = [], prd_archived_at = None, prd_created_at = 0, prd_updated_at = 0\<rparr>"

definition sample_offering :: "uuid \<Rightarrow> uuid \<Rightarrow> string \<Rightarrow> money \<Rightarrow> offering_row" where
  "sample_offering i product period price =
     \<lparr>off_id = i, off_product_id = product, off_plan_name = ''basic'', off_billing_period = period,
      off_price_usd = price, off_currency = ''INR'',
      off_included_transactions = None, off_overage_price_per_1k = None, off_status = ''published'',
      off_created_at = 0\<rparr>"

definition sample_line :: "uuid \<Rightarrow> uuid \<Rightarrow> int \<Rightarrow> cart_line_row" where
  "sample_line i offering q =
     \<lparr>cln_id = i, cln_cart_id = 501, cln_offering_id = offering, cln_quantity = q,
      cln_created_at = int i\<rparr>"

definition sample_address :: address_row where
  "sample_address =
     \<lparr>adr_id = 601, adr_tenant_id = 31, adr_label = ''home'', adr_contact_name = ''Alice'',
      adr_line1 = ''1 Lane'', adr_city = ''Pune'', adr_state = ''MH'', adr_pincode = ''411001'',
      adr_phone = ''1'', adr_status = ''active'', adr_created_at = 0\<rparr>"

definition shop_db :: database where
  "shop_db = sample_db\<lparr>
     vendor_profiles :=
       [\<lparr>vnd_id = 201, vnd_organization_id = 21, vnd_legal_name = ''Acme'', vnd_tax_id = None,
      vnd_payout_bank_account = None, vnd_contact_email = [], vnd_business_doc_url = None, vnd_status = ''active'',
      vnd_created_at = 0\<rparr>,
        \<lparr>vnd_id = 202, vnd_organization_id = 22, vnd_legal_name = ''Bits'', vnd_tax_id = None,
      vnd_payout_bank_account = None, vnd_contact_email = [], vnd_business_doc_url = None, vnd_status = ''active'',
      vnd_created_at = 0\<rparr>],
     products := [sample_product 301 201 ''SHIP_PHYSICAL'', sample_product 302 202 ''DELIVER_DIGITAL'',
                  sample_product 303 202 ''PROVISION_SOFTWARE''],
     offerings := [sample_offering 401 301 ''one_time'' 1000, sample_offering 402 302 ''monthly'' 250,
                   sample_offering 403 303 ''monthly'' 900],
     addresses := [sample_address],
     carts := [\<lparr>crt_id = 501, crt_tenant_id = 31, crt_status = ''open''\<rparr>],
     cart_lines := [sample_line 511 401 2, sample_line 512 402 1]\<rparr>"

abbreviation shop_world :: world where
  "shop_world \<equiv> world_of shop_db"

end
