(* ===== verification/Cart.thy ===== *)
theory Cart
  imports Commerce_Base Invariants Shop_Samples
begin

section \<open>Wishlist, cart and addresses\<close>

text \<open>
  Journeys J43 and J44 and the addresses of J52 in \<open>CommerceService\<close>: the saved products of a
  tenant, its one open cart with at most one line per offering, and its delivery addresses. Every
  operation starts with the membership check.
\<close>

record wishlist_item =
  wit_product_id :: uuid
  wit_name :: string
  wit_vendor_name :: string
  wit_fulfilment_type :: string

record cart_line_view =
  clv_line_id :: uuid
  clv_offering_id :: uuid
  clv_product_id :: uuid
  clv_product_name :: string
  clv_plan_name :: string
  clv_quantity :: int
  clv_unit_price :: money
  clv_fulfilment_type :: string
  clv_billing_period :: string
  clv_vendor_id :: uuid
  clv_vendor_name :: string
  clv_currency :: string

record cart_view =
  cvw_cart_id :: "uuid option"
  cvw_status :: string
  cvw_lines :: "cart_line_view list"

definition cart_lines_of :: "database \<Rightarrow> uuid \<Rightarrow> cart_line_view list" where
  "cart_lines_of d cart =
     [\<lparr>clv_line_id = cln_id line, clv_offering_id = off_id offering, clv_product_id = prd_id product,
       clv_product_name = prd_name product, clv_plan_name = off_plan_name offering,
       clv_quantity = cln_quantity line, clv_unit_price = off_price_usd offering,
       clv_fulfilment_type = prd_fulfilment_type product,
       clv_billing_period = off_billing_period offering, clv_vendor_id = vnd_id vendor,
       clv_vendor_name = vnd_legal_name vendor,
       clv_currency = str_or (Some (off_currency offering)) ''INR''\<rparr>.
      (line, offering, product, vendor) \<leftarrow> sort_key (\<lambda>(line, _). cln_created_at line)
        [(line, offering, product, vendor). line \<leftarrow> cart_lines d, offering \<leftarrow> offerings d,
           product \<leftarrow> products d, vendor \<leftarrow> vendor_profiles d,
           off_id offering = cln_offering_id line \<and> prd_id product = off_product_id offering
           \<and> vnd_id vendor = prd_vendor_id product \<and> cln_cart_id line = cart]]"

subsection \<open>Wishlist\<close>

definition list_wishlist :: "uuid \<Rightarrow> uuid \<Rightarrow> wishlist_item list op" where
  "list_wishlist tenant caller =
     bindE (require_member tenant caller) (\<lambda>_.
     reads (\<lambda>d.
       [\<lparr>wit_product_id = prd_id product, wit_name = prd_name product,
         wit_vendor_name = vnd_legal_name vendor,
         wit_fulfilment_type = prd_fulfilment_type product\<rparr>.
        (wish, product, vendor) \<leftarrow> sort_desc (\<lambda>(wish, _). wsh_created_at wish)
          [(wish, product, vendor). wish \<leftarrow> wishlists d, product \<leftarrow> products d,
             vendor \<leftarrow> vendor_profiles d,
             prd_id product = wsh_product_id wish \<and> vnd_id vendor = prd_vendor_id product
             \<and> wsh_tenant_id wish = tenant]]))"

definition wish_rows :: "database \<Rightarrow> uuid \<Rightarrow> uuid \<Rightarrow> wishlist_row list" where
  "wish_rows d tenant product_id =
     filter (\<lambda>r. wsh_tenant_id r = tenant \<and> wsh_product_id r = product_id) (wishlists d)"

definition add_wishlist :: "uuid \<Rightarrow> uuid \<Rightarrow> uuid \<Rightarrow> unit op" where
  "add_wishlist tenant caller product_id =
     bindE (require_member tenant caller) (\<lambda>_.
     bindE (published_product product_id) (\<lambda>product.
     bindE (reads (\<lambda>d. wish_rows d tenant (prd_id product))) (\<lambda>rows.
     bindE (one_or_none rows) (\<lambda>existing.
     bindE (raise_if (existing \<noteq> None) (ConflictError ''already saved'')) (\<lambda>_.
     bindE uuid4 (\<lambda>i.
     bindE utcnow (\<lambda>now.
     bindE (modifies (wishlists_update (\<lambda>rows. rows @
        [\<lparr>wsh_id = i, wsh_tenant_id = tenant, wsh_product_id = prd_id product,
          wsh_created_at = now\<rparr>]))) (\<lambda>_.
     commit))))))))"

definition remove_wishlist :: "uuid \<Rightarrow> uuid \<Rightarrow> uuid \<Rightarrow> unit op" where
  "remove_wishlist tenant caller product_id =
     bindE (require_member tenant caller) (\<lambda>_.
     bindE (reads (\<lambda>d. wish_rows d tenant product_id)) (\<lambda>rows.
     bindE (one_or_none rows) (\<lambda>found.
     bindE (the_or found (NotFoundError ''wishlist item not found'')) (\<lambda>row.
     bindE (modifies (wishlists_update (del_row wsh_id (wsh_id row)))) (\<lambda>_.
     commit)))))"

subsection \<open>Cart\<close>

definition view_cart :: "uuid \<Rightarrow> string \<Rightarrow> cart_view op" where
  "view_cart cart status =
     bindE (reads (\<lambda>d. cart_lines_of d cart)) (\<lambda>lines.
     ret \<lparr>cvw_cart_id = Some cart, cvw_status = status, cvw_lines = lines\<rparr>)"

definition get_cart :: "uuid \<Rightarrow> uuid \<Rightarrow> cart_view op" where
  "get_cart tenant caller =
     bindE (require_member tenant caller) (\<lambda>_.
     bindE (open_cart tenant) (\<lambda>cart.
     case cart of None \<Rightarrow> ret \<lparr>cvw_cart_id = None, cvw_status = ''open'', cvw_lines = []\<rparr>
     | Some c \<Rightarrow> view_cart (crt_id c) (crt_status c)))"

definition cart_offering_rows :: "database \<Rightarrow> uuid \<Rightarrow> uuid \<Rightarrow> cart_line_row list" where
  "cart_offering_rows d cart offering =
     filter (\<lambda>l. cln_cart_id l = cart \<and> cln_offering_id l = offering) (cart_lines d)"

definition open_or_new_cart :: "uuid \<Rightarrow> cart_row op" where
  "open_or_new_cart tenant =
     bindE (open_cart tenant) (\<lambda>found.
     case found of Some c \<Rightarrow> ret c
     | None \<Rightarrow>
         bindE uuid4 (\<lambda>i.
         let c = \<lparr>crt_id = i, crt_tenant_id = tenant, crt_status = ''open''\<rparr>
         in bindE (modifies (carts_update (\<lambda>rows. rows @ [c]))) (\<lambda>_. ret c)))"

definition add_line :: "uuid \<Rightarrow> uuid \<Rightarrow> uuid \<Rightarrow> int \<Rightarrow> cart_view op" where
  "add_line tenant caller offering_id quantity =
     bindE (require_member tenant caller) (\<lambda>_.
     bindE (check_quantity quantity) (\<lambda>_.
     bindE (published_offering offering_id) (\<lambda>(offering, product).
     bindE (raise_if (prd_fulfilment_type product \<in> set provision_types)
              (ConflictError ''software and cloud offerings are installed, not added to the cart'')) (\<lambda>_.
     bindE (open_or_new_cart tenant) (\<lambda>cart.
     bindE (reads (\<lambda>d. cart_offering_rows d (crt_id cart) (off_id offering))) (\<lambda>rows.
     bindE (one_or_none rows) (\<lambda>existing.
     bindE (raise_if (existing \<noteq> None) (ConflictError ''line already present'')) (\<lambda>_.
     bindE uuid4 (\<lambda>i.
     bindE utcnow (\<lambda>now.
     bindE (modifies (cart_lines_update (\<lambda>rows. rows @
        [\<lparr>cln_id = i, cln_cart_id = crt_id cart, cln_offering_id = off_id offering,
          cln_quantity = quantity, cln_created_at = now\<rparr>]))) (\<lambda>_.
     bindE commit (\<lambda>_.
     view_cart (crt_id cart) (crt_status cart)))))))))))))"

definition line_on_cart :: "cart_row option \<Rightarrow> uuid \<Rightarrow> (cart_row \<times> cart_line_row) op" where
  "line_on_cart cart line_id =
     bindE (the_or cart (NotFoundError ''cart line not found'')) (\<lambda>c.
     bindE (reads (\<lambda>d. get_row cln_id line_id (cart_lines d))) (\<lambda>found.
     bindE (the_or (case found of None \<Rightarrow> None
              | Some l \<Rightarrow> if cln_cart_id l \<noteq> crt_id c then None else Some l)
              (NotFoundError ''cart line not found'')) (\<lambda>line.
     ret (c, line))))"

definition update_line :: "uuid \<Rightarrow> uuid \<Rightarrow> uuid \<Rightarrow> int \<Rightarrow> cart_view op" where
  "update_line tenant caller line_id quantity =
     bindE (require_member tenant caller) (\<lambda>_.
     bindE (check_quantity quantity) (\<lambda>_.
     bindE (open_cart tenant) (\<lambda>found.
     bindE (line_on_cart found line_id) (\<lambda>(cart, line).
     bindE (modifies (cart_lines_update (upd_row cln_id (cln_id line)
              (\<lambda>l. l\<lparr>cln_quantity := quantity\<rparr>)))) (\<lambda>_.
     bindE commit (\<lambda>_.
     view_cart (crt_id cart) (crt_status cart)))))))"

definition remove_line :: "uuid \<Rightarrow> uuid \<Rightarrow> uuid \<Rightarrow> cart_view op" where
  "remove_line tenant caller line_id =
     bindE (require_member tenant caller) (\<lambda>_.
     bindE (open_cart tenant) (\<lambda>found.
     bindE (line_on_cart found line_id) (\<lambda>(cart, line).
     bindE (modifies (cart_lines_update (del_row cln_id (cln_id line)))) (\<lambda>_.
     bindE commit (\<lambda>_.
     view_cart (crt_id cart) (crt_status cart))))))"

subsection \<open>Addresses\<close>

definition list_addresses :: "uuid \<Rightarrow> uuid \<Rightarrow> address_view list op" where
  "list_addresses tenant caller =
     bindE (require_member tenant caller) (\<lambda>_.
     reads (\<lambda>d. map address_view_of (sort_desc adr_created_at
       (filter (\<lambda>a. adr_tenant_id a = tenant \<and> adr_status a = ''active'') (addresses d)))))"

definition create_address ::
  "uuid \<Rightarrow> uuid \<Rightarrow> string \<Rightarrow> string \<Rightarrow> string \<Rightarrow> string \<Rightarrow> string \<Rightarrow> string \<Rightarrow> string
    \<Rightarrow> address_view op"
where
  "create_address tenant caller label contact_name line1 city state pincode phone =
     bindE (require_member tenant caller) (\<lambda>_.
     bindE (raise_if ([] \<in> set (map strip [label, contact_name, line1, city, state, pincode, phone]))
              (ValidationError ''address fields are required'')) (\<lambda>_.
     bindE uuid4 (\<lambda>i.
     bindE utcnow (\<lambda>now.
     let row = \<lparr>adr_id = i, adr_tenant_id = tenant, adr_label = strip label,
         adr_contact_name = strip contact_name, adr_line1 = strip line1, adr_city = strip city,
         adr_state = strip state, adr_pincode = strip pincode, adr_phone = strip phone,
         adr_status = ''active'', adr_created_at = now\<rparr>
     in bindE (modifies (addresses_update (\<lambda>rows. rows @ [row]))) (\<lambda>_.
     bindE commit (\<lambda>_.
     ret (address_view_of row)))))))"

text \<open>
  \<open>setattr(row, key, cleaned)\<close> for the fields of the request body (\<open>AddressPatchRequest\<close>).
\<close>

definition set_address_field :: "string \<Rightarrow> string \<Rightarrow> address_row \<Rightarrow> address_row" where
  "set_address_field key v row =
     (if key = ''label'' then row\<lparr>adr_label := v\<rparr>
      else if key = ''contact_name'' then row\<lparr>adr_contact_name := v\<rparr>
      else if key = ''line1'' then row\<lparr>adr_line1 := v\<rparr>
      else if key = ''city'' then row\<lparr>adr_city := v\<rparr>
      else if key = ''state'' then row\<lparr>adr_state := v\<rparr>
      else if key = ''pincode'' then row\<lparr>adr_pincode := v\<rparr>
      else if key = ''phone'' then row\<lparr>adr_phone := v\<rparr>
      else row)"

fun assign_fields :: "(string \<times> string option) list \<Rightarrow> address_row \<Rightarrow> address_row op" where
  "assign_fields [] row = ret row"
| "assign_fields ((key, None) # fs) row = assign_fields fs row"
| "assign_fields ((key, Some v) # fs) row =
     bindE (raise_if (strip v = []) (ValidationError (key @ '' is required''))) (\<lambda>_.
     bindE (modifies (addresses_update
              (upd_row adr_id (adr_id row) (set_address_field key (strip v))))) (\<lambda>_.
     assign_fields fs (set_address_field key (strip v) row)))"

definition update_address ::
  "uuid \<Rightarrow> uuid \<Rightarrow> uuid \<Rightarrow> (string \<times> string option) list \<Rightarrow> address_view op"
where
  "update_address tenant caller address_id fs =
     bindE (require_member tenant caller) (\<lambda>_.
     bindE (find_address tenant address_id) (\<lambda>row.
     bindE (assign_fields fs row) (\<lambda>row'.
     bindE commit (\<lambda>_.
     ret (address_view_of row')))))"

definition delete_address :: "uuid \<Rightarrow> uuid \<Rightarrow> uuid \<Rightarrow> unit op" where
  "delete_address tenant caller address_id =
     bindE (require_member tenant caller) (\<lambda>_.
     bindE (find_address tenant address_id) (\<lambda>row.
     bindE (reads (\<lambda>d. filter (\<lambda>r. ord_address_id r = Some (adr_id row) \<and> ord_status r \<noteq> ''fulfilled'')
                        (orders d))) (\<lambda>rows.
     bindE (one_or_none rows) (\<lambda>blocking.
     bindE (raise_if (blocking \<noteq> None) (ConflictError ''address is on an open order'')) (\<lambda>_.
     bindE (modifies (addresses_update (del_row adr_id (adr_id row)))) (\<lambda>_.
     commit))))))"

subsection \<open>What the writers do\<close>

lemma reads_only_cart [reads_only_intros]:
  "reads_only (view_cart c s)" "reads_only (line_on_cart z l)"
  by (auto simp: view_cart_def line_on_cart_def intro!: reads_only_intros)

lemma total_view_cart: "total_op (view_cart c s)"
  by (simp add: view_cart_def total_bindE total_simple)

lemma keeps_open_or_new_cart [keeps_intros]:
  "keeps (disk_but_log d) (open_or_new_cart t)" "keeps (uuid_ge n) (open_or_new_cart t)"
  unfolding open_or_new_cart_def
  by (rule keeps_intros reads_only_keeps reads_only_commerce)+

lemma keeps_assign_fields [keeps_intros]:
  "keeps (disk_but_log d) (assign_fields fs row)" "keeps (uuid_ge n) (assign_fields fs row)"
  by (induction fs row rule: assign_fields.induct) (auto intro!: keeps_intros)

lemmas cart_ops_defs = add_wishlist_def remove_wishlist_def add_line_def update_line_def
  remove_line_def create_address_def update_address_def delete_address_def Let_def

lemma cart_ops_atomic:
  "atomic_but_log (add_wishlist t c p)" "atomic_but_log (remove_wishlist t c p)"
  "atomic_but_log (add_line t c i q)" "atomic_but_log (update_line t c l q)"
  "atomic_but_log (remove_line t c l)" "atomic_but_log (create_address t c s1 s2 s3 s4 s5 s6 s7)"
  "atomic_but_log (update_address t c a fs)" "atomic_but_log (delete_address t c a)"
  unfolding cart_ops_defs
  by (rule atomic_but_log_intros total_view_cart keeps_intros reads_only_keeps reads_only_checks
      reads_only_commerce reads_only_cart)+

lemma cart_ops_uuid:
  "keeps (uuid_ge n) (add_wishlist t c p)" "keeps (uuid_ge n) (remove_wishlist t c p)"
  "keeps (uuid_ge n) (add_line t c i q)" "keeps (uuid_ge n) (update_line t c l q)"
  "keeps (uuid_ge n) (remove_line t c l)" "keeps (uuid_ge n) (create_address t c s1 s2 s3 s4 s5 s6 s7)"
  "keeps (uuid_ge n) (update_address t c a fs)" "keeps (uuid_ge n) (delete_address t c a)"
  unfolding cart_ops_defs
  by (rule keeps_intros reads_only_keeps reads_only_checks reads_only_commerce reads_only_cart)+

lemma line_on_cart_ok [ok_iff]:
  "line_on_cart z i w = (Inr p, w') \<longleftrightarrow> (case p of (c, l) \<Rightarrow>
     z = Some c \<and> get_row cln_id i (cart_lines (db w)) = Some l \<and> cln_cart_id l = crt_id c \<and> w' = w)"
  by (cases p) (auto simp: line_on_cart_def step_ok the_or_checked_ok)

lemma view_cart_ok [ok_iff]:
  "view_cart c s w = (Inr v, w') \<longleftrightarrow>
     v = \<lparr>cvw_cart_id = Some c, cvw_status = s, cvw_lines = cart_lines_of (db w) c\<rparr> \<and> w' = w"
  by (auto simp: view_cart_def step_ok)

definition open_carts :: "database \<Rightarrow> uuid \<Rightarrow> cart_row list" where
  "open_carts d t = filter (\<lambda>c. crt_tenant_id c = t \<and> crt_status c = ''open'') (carts d)"

lemma open_or_new_cart_ok [ok_iff]:
  "open_or_new_cart t w = (Inr c, w') \<longleftrightarrow>
     open_carts (db w) t = [c] \<and> w' = w
     \<or> open_carts (db w) t = [] \<and> c = \<lparr>crt_id = next_uuid w, crt_tenant_id = t, crt_status = ''open''\<rparr>
        \<and> w' = w\<lparr>next_uuid := Suc (next_uuid w), db := carts_update (\<lambda>rows. rows @ [c]) (db w)\<rparr>"
  unfolding open_or_new_cart_def step_ok open_cart_ok open_carts_def Let_def
  by (auto simp: step_ok run_simps split: option.splits)

lemma add_line_okD:
  assumes "add_line t u i q w = (Inr x, w')"
  shows "\<exists>off prd c w1. open_or_new_cart t w = (Inr c, w1) \<and> 1 \<le> q \<and> db_active_member (db w) t u
     \<and> get_row off_id i (offerings (db w)) = Some off \<and> off_status off = ''published''
     \<and> get_row prd_id (off_product_id off) (products (db w)) = Some prd \<and> prd_status prd = ''published''
     \<and> prd_fulfilment_type prd \<notin> set provision_types
     \<and> cart_offering_rows (db w1) (crt_id c) i = []
     \<and> db w' = cart_lines_update (\<lambda>rows. rows @ [\<lparr>cln_id = next_uuid w1, cln_cart_id = crt_id c,
          cln_offering_id = i, cln_quantity = q, cln_created_at = clock w1\<rparr>]) (db w1)
     \<and> disk w' = db w' \<and> next_uuid w' = Suc (next_uuid w1)
     \<and> x = \<lparr>cvw_cart_id = Some (crt_id c), cvw_status = crt_status c,
            cvw_lines = cart_lines_of (db w') (crt_id c)\<rparr>"
  using assms unfolding add_line_def
  apply (simp only: step_ok split_paired_Ex prod.case step_ok_bind [of "open_or_new_cart t"])
  apply (elim exE conjE)
  apply (rule exI, rule exI, rule exI, rule exI, rule conjI, assumption)
  apply (simp add: ok_iff require_member_okD)
  apply (auto dest: get_row_Some require_member_okD)
  done

lemma update_line_okD:
  assumes "update_line t u i q w = (Inr x, w')"
  shows "\<exists>c l. open_carts (db w) t = [c] \<and> 1 \<le> q \<and> db_active_member (db w) t u
     \<and> get_row cln_id i (cart_lines (db w)) = Some l \<and> cln_cart_id l = crt_id c
     \<and> db w' = cart_lines_update (upd_row cln_id i (\<lambda>l. l\<lparr>cln_quantity := q\<rparr>)) (db w)
     \<and> disk w' = db w' \<and> next_uuid w' = next_uuid w"
  using assms unfolding update_line_def
  apply (simp only: step_ok split_paired_Ex prod.case reads_only_cart)
  apply (elim exE conjE)
  apply (simp add: ok_iff require_member_okD open_carts_def split: option.split_asm)
  apply (auto dest: get_row_Some require_member_okD)
  done

lemma remove_line_okD:
  assumes "remove_line t u i w = (Inr x, w')"
  shows "\<exists>c l. open_carts (db w) t = [c] \<and> db_active_member (db w) t u
     \<and> get_row cln_id i (cart_lines (db w)) = Some l \<and> cln_cart_id l = crt_id c
     \<and> db w' = cart_lines_update (del_row cln_id i) (db w)
     \<and> disk w' = db w' \<and> next_uuid w' = next_uuid w"
  using assms unfolding remove_line_def
  apply (simp only: step_ok split_paired_Ex prod.case reads_only_cart)
  apply (elim exE conjE)
  apply (simp add: ok_iff require_member_okD open_carts_def split: option.split_asm)
  apply (auto dest: get_row_Some require_member_okD)
  done

subsection \<open>The cart invariant\<close>

text \<open>
  At most one open cart per tenant, at most one line per offering of a cart, quantities of at least
  one, no line without its cart; and identifiers below the supply, which makes the next one fresh.
\<close>

definition cart_inv :: "uuid \<Rightarrow> database \<Rightarrow> bool" where
  "cart_inv n d \<longleftrightarrow>
     (\<forall>t. length (open_carts d t) \<le> 1)
     \<and> distinct (map crt_id (carts d)) \<and> distinct (map cln_id (cart_lines d))
     \<and> distinct (map (\<lambda>l. (cln_cart_id l, cln_offering_id l)) (cart_lines d))
     \<and> (\<forall>c \<in> set (carts d). crt_id c < n)
     \<and> (\<forall>l \<in> set (cart_lines d). cln_id l < n \<and> 1 \<le> cln_quantity l
          \<and> cln_cart_id l \<in> crt_id ` set (carts d))"

lemma cart_inv_mono: "supply_mono cart_inv"
  by (fastforce simp: supply_mono_def cart_inv_def)

lemma cart_inv_log: "log_blind cart_inv"
  by (simp add: log_blind_def cart_inv_def open_carts_def)

lemma cart_inv_new_cart:
  assumes "cart_inv n d" and "open_carts d t = []"
  shows "cart_inv (Suc n) (carts_update (\<lambda>rows. rows @ [\<lparr>crt_id = n, crt_tenant_id = t,
           crt_status = ''open''\<rparr>]) d)"
  using assms by (fastforce simp: cart_inv_def open_carts_def)

lemma cart_inv_new_line:
  assumes "cart_inv n d" and "cart_offering_rows d c i = []" and "c \<in> crt_id ` set (carts d)"
    and "1 \<le> q"
  shows "cart_inv (Suc n) (cart_lines_update (\<lambda>rows. rows @ [\<lparr>cln_id = n, cln_cart_id = c,
          cln_offering_id = i, cln_quantity = q, cln_created_at = now\<rparr>]) d)"
  using assms by (fastforce simp: cart_inv_def open_carts_def cart_offering_rows_def filter_empty_conv)

lemma cart_inv_same:
  "carts d' = carts d \<Longrightarrow> cart_lines d' = cart_lines d \<Longrightarrow> cart_inv n d \<Longrightarrow> cart_inv n d'"
  by (simp add: cart_inv_def open_carts_def)

lemma cart_inv_open_cart:
  "open_carts d t = [c] \<Longrightarrow> crt_id c \<in> crt_id ` set (carts d)"
proof -
  assume "open_carts d t = [c]"
  then have "c \<in> set (open_carts d t)" by simp
  then show ?thesis by (simp add: open_carts_def)
qed

lemma preserved_add_line: "preserved cart_inv (add_line t u i q)"
proof (rule preservedI [OF cart_inv_mono cart_inv_log cart_ops_atomic(3) cart_ops_uuid(3)])
  fix w x w' assume inv: "cart_inv (next_uuid w) (db w)" and ok: "add_line t u i q w = (Inr x, w')"
  from add_line_okD [OF ok] obtain c w1 where c: "open_or_new_cart t w = (Inr c, w1)" and q: "1 \<le> q"
    and free: "cart_offering_rows (db w1) (crt_id c) i = []"
    and w': "db w' = cart_lines_update (\<lambda>rows. rows @ [\<lparr>cln_id = next_uuid w1, cln_cart_id = crt_id c,
          cln_offering_id = i, cln_quantity = q, cln_created_at = clock w1\<rparr>]) (db w1)"
      "disk w' = db w'" "next_uuid w' = Suc (next_uuid w1)"
    by blast
  have "cart_inv (next_uuid w1) (db w1) \<and> crt_id c \<in> crt_id ` set (carts (db w1))"
    using c inv unfolding open_or_new_cart_ok
  proof (elim disjE conjE)
    assume "open_carts (db w) t = [c]" "w1 = w"
    with inv show ?thesis by (simp add: cart_inv_open_cart)
  next
    assume "open_carts (db w) t = []" "c = \<lparr>crt_id = next_uuid w, crt_tenant_id = t, crt_status = ''open''\<rparr>"
      "w1 = w\<lparr>next_uuid := Suc (next_uuid w), db := carts_update (\<lambda>rows. rows @ [c]) (db w)\<rparr>"
    with cart_inv_new_cart [OF inv, of t] show ?thesis by simp
  qed
  with cart_inv_new_line free q show "cart_inv (next_uuid w') (disk w')" by (simp add: w')
qed

lemma preserved_update_line: "preserved cart_inv (update_line t u i q)"
proof (rule preservedI [OF cart_inv_mono cart_inv_log cart_ops_atomic(4) cart_ops_uuid(4)])
  fix w x w' assume inv: "cart_inv (next_uuid w) (db w)" and ok: "update_line t u i q w = (Inr x, w')"
  from update_line_okD [OF ok] have "1 \<le> q" and
    w': "db w' = cart_lines_update (upd_row cln_id i (\<lambda>l. l\<lparr>cln_quantity := q\<rparr>)) (db w)"
      "disk w' = db w'" "next_uuid w' = next_uuid w"
    by blast+
  then show "cart_inv (next_uuid w') (disk w')"
    using inv by (auto simp: cart_inv_def open_carts_def set_upd_row)
qed

lemma preserved_remove_line: "preserved cart_inv (remove_line t u i)"
proof (rule preservedI [OF cart_inv_mono cart_inv_log cart_ops_atomic(5) cart_ops_uuid(5)])
  fix w x w' assume inv: "cart_inv (next_uuid w) (db w)" and ok: "remove_line t u i w = (Inr x, w')"
  from remove_line_okD [OF ok] have
    w': "db w' = cart_lines_update (del_row cln_id i) (db w)"
      "disk w' = db w'" "next_uuid w' = next_uuid w"
    by blast+
  then show "cart_inv (next_uuid w') (disk w')"
    using inv by (auto simp: cart_inv_def open_carts_def del_row_def distinct_map_filter)
qed

subsection \<open>Properties of the cart\<close>

text \<open>
  Adding a line: only for a member, a published offering that is not installed software, and a
  quantity of at least one; the tenant then has exactly one open cart, and the lines grew by exactly
  one line of that offering and quantity, which the cart did not have before.
\<close>

theorem add_line_adds_one:
  assumes "cart_inv (next_uuid w) (db w)" and "disk w = db w"
    and "request (add_line t u i q) w = (Inr x, w')"
  shows "db_active_member (db w) t u \<and> 1 \<le> q
     \<and> (\<exists>off prd. get_row off_id i (offerings (db w)) = Some off \<and> off_status off = ''published''
          \<and> get_row prd_id (off_product_id off) (products (db w)) = Some prd
          \<and> prd_status prd = ''published'' \<and> prd_fulfilment_type prd \<notin> set provision_types)
     \<and> (\<exists>c line. open_carts (db w') t = [c] \<and> cart_lines (db w') = cart_lines (db w) @ [line]
          \<and> cln_cart_id line = crt_id c \<and> cln_offering_id line = i \<and> cln_quantity line = q
          \<and> cart_offering_rows (db w) (crt_id c) i = [])"
proof -
  from assms(3) obtain w2 where ok: "add_line t u i q w = (Inr x, w2)" and w': "w' = w2\<lparr>db := disk w2\<rparr>"
    by (auto simp: request_ok)
  from add_line_okD [OF ok] obtain off prd c w1 where c: "open_or_new_cart t w = (Inr c, w1)"
    and facts: "1 \<le> q" "db_active_member (db w) t u"
      "get_row off_id i (offerings (db w)) = Some off" "off_status off = ''published''"
      "get_row prd_id (off_product_id off) (products (db w)) = Some prd" "prd_status prd = ''published''"
      "prd_fulfilment_type prd \<notin> set provision_types"
    and free: "cart_offering_rows (db w1) (crt_id c) i = []"
    and w2: "db w2 = cart_lines_update (\<lambda>rows. rows @ [\<lparr>cln_id = next_uuid w1, cln_cart_id = crt_id c,
          cln_offering_id = i, cln_quantity = q, cln_created_at = clock w1\<rparr>]) (db w1)"
      "disk w2 = db w2"
    by blast
  have "open_carts (db w1) t = [c] \<and> cart_lines (db w1) = cart_lines (db w)"
    using c unfolding open_or_new_cart_ok by (auto simp: open_carts_def)
  then show ?thesis
    using facts free by (simp add: w' w2 open_carts_def cart_offering_rows_def)
qed

theorem add_line_adds_one_witness:
  "\<exists>x w'. request (add_line 31 12 402 3) (world_of (shop_db\<lparr>carts := [], cart_lines := []\<rparr>)) = (Inr x, w')
     \<and> (\<exists>line. cart_lines (db w') = [line] \<and> cln_quantity line = 3)"
proof -
  let ?w = "world_of (shop_db\<lparr>carts := [], cart_lines := []\<rparr>)"
  have k: "cart_inv (next_uuid ?w) (db ?w)" "disk ?w = db ?w"
    by (simp_all add: cart_inv_def open_carts_def)
  have "case request (add_line 31 12 402 3) ?w of (Inl _, _) \<Rightarrow> False | (Inr r, _) \<Rightarrow> True"
    by code_simp
  then obtain x w' where e: "request (add_line 31 12 402 3) ?w = (Inr x, w')"
    by (auto split: prod.splits sum.splits)
  from add_line_adds_one [OF k e] e show ?thesis by auto
qed

text \<open>
  Changing or removing a line reaches only lines of the caller's tenant: the line was on the
  tenant's open cart, the lines of every other cart are untouched, and no other table changes.
\<close>

theorem cart_line_isolation:
  assumes "disk w = db w"
    and "request (update_line t u i q) w = (Inr x, w') \<or> request (remove_line t u i) w = (Inr x, w')"
  shows "db_active_member (db w) t u
     \<and> (\<exists>c l lines'. open_carts (db w) t = [c] \<and> get_row cln_id i (cart_lines (db w)) = Some l
          \<and> cln_cart_id l = crt_id c \<and> db w' = (db w)\<lparr>cart_lines := lines'\<rparr>
          \<and> (distinct (map cln_id (cart_lines (db w)))
              \<longrightarrow> filter (\<lambda>l. cln_cart_id l \<noteq> crt_id c) lines'
                  = filter (\<lambda>l. cln_cart_id l \<noteq> crt_id c) (cart_lines (db w))))"
proof -
  have upd: "filter (\<lambda>l. cln_cart_id l \<noteq> c) (upd_row cln_id i (\<lambda>l. l\<lparr>cln_quantity := q\<rparr>) ls)
        = filter (\<lambda>l. cln_cart_id l \<noteq> c) ls"
    if "\<forall>l \<in> set ls. cln_id l = i \<longrightarrow> cln_cart_id l = c" for c ls
    using that by (induction ls) auto
  have del: "filter (\<lambda>l. cln_cart_id l \<noteq> c) (del_row cln_id i ls) = filter (\<lambda>l. cln_cart_id l \<noteq> c) ls"
    if "\<forall>l \<in> set ls. cln_id l = i \<longrightarrow> cln_cart_id l = c" for c ls
    using that by (induction ls) (auto simp: del_row_def)
  have one: "\<forall>l' \<in> set ls. cln_id l' = i \<longrightarrow> cln_cart_id l' = cln_cart_id l"
    if "distinct (map cln_id ls)" "get_row cln_id i ls = Some l" for ls l
    using get_row_unique [OF that(1)] that(2) by fastforce
  from assms(2) show ?thesis
  proof
    assume "request (update_line t u i q) w = (Inr x, w')"
    then obtain w2 where ok: "update_line t u i q w = (Inr x, w2)" and w': "w' = w2\<lparr>db := disk w2\<rparr>"
      by (auto simp: request_ok)
    from update_line_okD [OF ok] obtain c l where "open_carts (db w) t = [c]"
      and "db_active_member (db w) t u" and l: "get_row cln_id i (cart_lines (db w)) = Some l"
      "cln_cart_id l = crt_id c"
      and "db w2 = cart_lines_update (upd_row cln_id i (\<lambda>l. l\<lparr>cln_quantity := q\<rparr>)) (db w)" "disk w2 = db w2"
      by blast
    with upd [of "cart_lines (db w)" "crt_id c"] one [of "cart_lines (db w)" l] w' show ?thesis
      by (intro conjI exI [of _ c] exI [of _ l] exI [of _ "cart_lines (db w')"]) auto
  next
    assume "request (remove_line t u i) w = (Inr x, w')"
    then obtain w2 where ok: "remove_line t u i w = (Inr x, w2)" and w': "w' = w2\<lparr>db := disk w2\<rparr>"
      by (auto simp: request_ok)
    from remove_line_okD [OF ok] obtain c l where "open_carts (db w) t = [c]"
      and "db_active_member (db w) t u" and l: "get_row cln_id i (cart_lines (db w)) = Some l"
      "cln_cart_id l = crt_id c"
      and "db w2 = cart_lines_update (del_row cln_id i) (db w)" "disk w2 = db w2"
      by blast
    with del [of "cart_lines (db w)" "crt_id c"] one [of "cart_lines (db w)" l] w' show ?thesis
      by (intro conjI exI [of _ c] exI [of _ l] exI [of _ "cart_lines (db w')"]) auto
  qed
qed

theorem cart_line_isolation_witness:
  "\<exists>x w'. request (remove_line 31 11 511) shop_world = (Inr x, w')
     \<and> (\<exists>lines'. db w' = shop_db\<lparr>cart_lines := lines'\<rparr>)"
proof -
  have "case request (remove_line 31 11 511) shop_world of (Inl _, _) \<Rightarrow> False | (Inr r, _) \<Rightarrow> True"
    by code_simp
  then obtain x w' where e: "request (remove_line 31 11 511) shop_world = (Inr x, w')"
    by (auto split: prod.splits sum.splits)
  from cart_line_isolation [of shop_world 31 11 511 0 x w'] e show ?thesis by auto
qed

end
