(* ===== verification/Checkout.thy ===== *)
theory Checkout
  imports Cart
begin

section \<open>Checkout\<close>

text \<open>
  Journey J48 in \<open>CommerceService\<close>: \<open>place_order\<close> turns the tenant's open cart into an order with a
  copy of every line, one fulfilment per vendor and a checked-out cart; \<open>list_orders\<close> reads them
  back. The vendor identifiers of the order are a Python \<open>set\<close>, whose iteration order is taken here as
  the order of first occurrence.
\<close>

record order_placed =
  opl_order_id :: uuid
  opl_status :: string
  opl_line_count :: nat

record order_vendor_summary =
  ovs_vendor_id :: uuid
  ovs_vendor_name :: string
  ovs_status :: string

record order_summary =
  osm_order_id :: uuid
  osm_status :: string
  osm_payment_method :: string
  osm_placed_at :: instant
  osm_line_count :: nat
  osm_total :: money
  osm_vendors :: "order_vendor_summary list"

type_synonym cart_entry = "cart_line_row \<times> offering_row \<times> product_row"

definition needs_address :: "cart_entry list \<Rightarrow> bool" where
  "needs_address lines =
     list_ex (\<lambda>(_, _, product). prd_fulfilment_type product \<in> set address_required) lines"

definition order_address :: "uuid \<Rightarrow> bool \<Rightarrow> uuid option \<Rightarrow> address_row option op" where
  "order_address tenant needed address_id =
     (if needed then
        bindE (the_or address_id (ValidationError ''address_id is required for this cart'')) (\<lambda>a.
        bindE (find_address tenant a) (\<lambda>row. ret (Some row)))
      else case address_id of None \<Rightarrow> ret None
           | Some a \<Rightarrow> bindE (find_address tenant a) (\<lambda>row. ret (Some row)))"

definition order_line_of :: "uuid \<Rightarrow> uuid \<Rightarrow> cart_entry \<Rightarrow> order_line_row" where
  "order_line_of order_id i entry =
     (case entry of (line, offering, product) \<Rightarrow>
        \<lparr>oln_id = i, oln_order_id = order_id, oln_offering_id = off_id offering,
         oln_product_name = prd_name product, oln_plan_name = off_plan_name offering,
         oln_quantity = cln_quantity line, oln_fulfilment_type = prd_fulfilment_type product,
         oln_billing_period = off_billing_period offering, oln_unit_price = off_price_usd offering,
         oln_currency = str_or (Some (off_currency offering)) ''INR'', oln_status = ''active''\<rparr>)"

definition fulfilment_of :: "uuid \<Rightarrow> instant \<Rightarrow> uuid \<Rightarrow> uuid \<Rightarrow> vendor_fulfilment_row" where
  "fulfilment_of order_id now i vendor =
     \<lparr>ful_id = i, ful_order_id = order_id, ful_vendor_id = vendor, ful_status = ''placed'',
      ful_courier = [], ful_tracking_number = [], ful_refund_status = ''none'',
      ful_refund_amount = None, ful_updated_at = now\<rparr>"

definition vendor_ids_of :: "cart_entry list \<Rightarrow> uuid list" where
  "vendor_ids_of lines = rev (remdups (rev (map (\<lambda>(_, _, product). prd_vendor_id product) lines)))"

definition place_order ::
  "authz_ports \<Rightarrow> uuid \<Rightarrow> uuid \<Rightarrow> uuid \<Rightarrow> uuid option \<Rightarrow> string \<Rightarrow> string option \<Rightarrow> order_placed op"
where
  "place_order P tenant caller_user caller_principal address_id payment_method request_id =
     bindE (require_permission P caller_principal tenant ''resource.create'' request_id) (\<lambda>_.
     let method = lower (strip payment_method) in
     bindE (raise_if (method \<notin> set payment_methods)
              (ValidationError ''payment_method must be upi, card, or netbanking'')) (\<lambda>_.
     bindE (open_cart tenant) (\<lambda>found.
     bindE (the_or found (ConflictError ''cart empty'')) (\<lambda>cart.
     bindE (reads (\<lambda>d. cart_line_rows d (crt_id cart))) (\<lambda>lines.
     bindE (raise_if (lines = []) (ConflictError ''cart empty'')) (\<lambda>_.
     bindE (order_address tenant (needs_address lines) address_id) (\<lambda>address.
     bindE uuid4 (\<lambda>order_id.
     bindE utcnow (\<lambda>now.
     bindE (modifies (orders_update (\<lambda>rows. rows @
        [\<lparr>ord_id = order_id, ord_tenant_id = tenant, ord_cart_id = crt_id cart,
          ord_address_id = map_option adr_id address, ord_payment_method = method,
          ord_status = ''placed'', ord_created_at = now\<rparr>]))) (\<lambda>_.
     bindE (insert_each order_lines_update (order_line_of order_id) lines) (\<lambda>_.
     bindE (insert_each vendor_fulfilments_update (fulfilment_of order_id now)
              (vendor_ids_of lines)) (\<lambda>_.
     bindE (modifies (carts_update (upd_row crt_id (crt_id cart)
              (\<lambda>c. c\<lparr>crt_status := ''checked_out''\<rparr>)))) (\<lambda>_.
     bindE (audit ''order.placed'' (Some caller_user) (Some tenant)
              [(''order_id'', JUuid order_id), (''cart_id'', JUuid (crt_id cart)),
               (''line_count'', JInt (int (length lines))), (''payment_method'', JStr method)]) (\<lambda>_.
     bindE commit (\<lambda>_.
     ret \<lparr>opl_order_id = order_id, opl_status = ''placed'',
          opl_line_count = length lines\<rparr>)))))))))))))))"

definition lines_of_order :: "database \<Rightarrow> uuid \<Rightarrow> order_line_row list" where
  "lines_of_order d order_id = filter (\<lambda>l. oln_order_id l = order_id) (order_lines d)"

definition line_total :: "order_line_row \<Rightarrow> money" where
  "line_total l = oln_unit_price l * oln_quantity l"

definition list_orders :: "uuid \<Rightarrow> uuid \<Rightarrow> order_summary list op" where
  "list_orders tenant caller =
     bindE (require_member tenant caller) (\<lambda>_.
     bindE (reads (\<lambda>d. sort_desc ord_created_at
              (filter (\<lambda>r. ord_tenant_id r = tenant) (orders d)))) (\<lambda>rows.
     map_each rows (\<lambda>order.
       bindE (reads (\<lambda>d. lines_of_order d (ord_id order))) (\<lambda>lines.
       bindE (reads (\<lambda>d. sort_key (\<lambda>(_, vendor). vnd_legal_name vendor)
          [(fulfilment, vendor). fulfilment \<leftarrow> vendor_fulfilments d, vendor \<leftarrow> vendor_profiles d,
             vnd_id vendor = ful_vendor_id fulfilment \<and> ful_order_id fulfilment = ord_id order])) (\<lambda>vendor_rows.
       ret \<lparr>osm_order_id = ord_id order, osm_status = ord_status order,
            osm_payment_method = ord_payment_method order, osm_placed_at = ord_created_at order,
            osm_line_count = length lines, osm_total = sum_list (map line_total lines),
            osm_vendors = [\<lparr>ovs_vendor_id = ful_vendor_id fulfilment,
                             ovs_vendor_name = vnd_legal_name vendor,
                             ovs_status = ful_status fulfilment\<rparr>. (fulfilment, vendor) \<leftarrow> vendor_rows]\<rparr>)))))"

subsection \<open>What placing an order does\<close>

lemma insert_each_order_lines:
  "insert_each order_lines_update mk xs w = (Inr (), w\<lparr>next_uuid := next_uuid w + length xs,
     db := order_lines_update (\<lambda>rows. rows @ inserted_rows mk (next_uuid w) xs) (db w)\<rparr>)"
  by (rule insert_each_run) (simp_all add: comp_def)

lemma insert_each_fulfilments:
  "insert_each vendor_fulfilments_update mk xs w = (Inr (), w\<lparr>next_uuid := next_uuid w + length xs,
     db := vendor_fulfilments_update (\<lambda>rows. rows @ inserted_rows mk (next_uuid w) xs) (db w)\<rparr>)"
  by (rule insert_each_run) (simp_all add: comp_def)

lemma step_ok_insert_each [step_ok]:
  "bindE (insert_each order_lines_update mk xs) f w = (Inr y, w') \<longleftrightarrow>
     f () (w\<lparr>next_uuid := next_uuid w + length xs,
       db := order_lines_update (\<lambda>rows. rows @ inserted_rows mk (next_uuid w) xs) (db w)\<rparr>) = (Inr y, w')"
  "bindE (insert_each vendor_fulfilments_update mk' xs') f' w = (Inr y', w') \<longleftrightarrow>
     f' () (w\<lparr>next_uuid := next_uuid w + length xs',
       db := vendor_fulfilments_update (\<lambda>rows. rows @ inserted_rows mk' (next_uuid w) xs') (db w)\<rparr>)
       = (Inr y', w')"
  by (simp_all add: bindE_run insert_each_order_lines insert_each_fulfilments)

lemma step_run_insert_each [step_run]:
  "bindE (insert_each order_lines_update mk xs) f w =
     f () (w\<lparr>next_uuid := next_uuid w + length xs,
       db := order_lines_update (\<lambda>rows. rows @ inserted_rows mk (next_uuid w) xs) (db w)\<rparr>)"
  "bindE (insert_each vendor_fulfilments_update mk' xs') f' w =
     f' () (w\<lparr>next_uuid := next_uuid w + length xs',
       db := vendor_fulfilments_update (\<lambda>rows. rows @ inserted_rows mk' (next_uuid w) xs') (db w)\<rparr>)"
  by (simp_all add: bindE_run insert_each_order_lines insert_each_fulfilments)

lemma reads_only_order_address [reads_only_intros]: "reads_only (order_address t n a)"
  unfolding order_address_def by (intro reads_only_intros)

text \<open>The tables after an order with identifier \<open>n\<close>, placed at \<open>now\<close>.\<close>

definition placed_db ::
  "uuid \<Rightarrow> instant \<Rightarrow> uuid \<Rightarrow> uuid \<Rightarrow> uuid option \<Rightarrow> string \<Rightarrow> cart_entry list \<Rightarrow> database \<Rightarrow> database"
where
  "placed_db n now tenant cart address method lines d =
     carts_update (upd_row crt_id cart (\<lambda>c. c\<lparr>crt_status := ''checked_out''\<rparr>))
      (vendor_fulfilments_update (\<lambda>rows. rows @
          inserted_rows (fulfilment_of n now) (Suc n + length lines) (vendor_ids_of lines))
       (order_lines_update (\<lambda>rows. rows @ inserted_rows (order_line_of n) (Suc n) lines)
        (orders_update (\<lambda>rows. rows @
          [\<lparr>ord_id = n, ord_tenant_id = tenant, ord_cart_id = cart, ord_address_id = address,
            ord_payment_method = method, ord_status = ''placed'', ord_created_at = now\<rparr>]) d)))"

lemma place_order_atomic:
  "atomic_but_log (place_order (build_authorization_service b) t u p a m rid)"
  unfolding place_order_def Let_def
  by (rule atomic_but_log_intros keeps_intros reads_only_keeps reads_only_commerce
      reads_only_order_address)+

lemma place_order_uuid:
  "keeps (uuid_ge n) (place_order (build_authorization_service b) t u p a m rid)"
  unfolding place_order_def Let_def
  by (rule keeps_intros reads_only_keeps reads_only_commerce reads_only_order_address)+

lemma place_order_okD:
  assumes "place_order (build_authorization_service b) t u p a m rid w = (Inr x, w')"
  shows "\<exists>w1. require_permission (build_authorization_service b) p t ''resource.create'' rid w = (Inr (), w1)
     \<and> (\<exists>cart. open_carts (db w1) t = [cart]
        \<and> (\<exists>address. order_address t (needs_address (cart_line_rows (db w1) (crt_id cart))) a w1
               = (Inr address, w1)
        \<and> (let lines = cart_line_rows (db w1) (crt_id cart)
           in lines \<noteq> [] \<and> lower (strip m) \<in> set payment_methods
        \<and> x = \<lparr>opl_order_id = next_uuid w1, opl_status = ''placed'', opl_line_count = length lines\<rparr>
        \<and> disk w' = db w'
        \<and> next_uuid w' = Suc (Suc (next_uuid w1 + length lines + length (vendor_ids_of lines)))
        \<and> (\<exists>l. db w' = (placed_db (next_uuid w1) (clock w1) t (crt_id cart) (map_option adr_id address)
                  (lower (strip m)) lines (db w1))\<lparr>audit_log := l\<rparr>))))"
  using assms unfolding place_order_def Let_def open_carts_def placed_db_def
  apply (simp only: step_ok reads_only_order_address)
  apply (elim exE conjE, hypsubst)
  apply (rule exI, rule conjI, assumption)
  apply (simp add: ok_iff split: option.split_asm)
  apply (rule exI, rule refl)
  done

lemma cart_line_rows_log [simp]:
  "cart_line_rows (d\<lparr>authorization_audit_log := l\<rparr>) c = cart_line_rows d c"
  by (simp add: cart_line_rows_def)

lemma open_carts_log [simp]: "open_carts (d\<lparr>authorization_audit_log := l\<rparr>) t = open_carts d t"
  by (simp add: open_carts_def)

lemma order_address_ok [ok_iff]:
  "order_address t needed a w = (Inr z, w') \<longleftrightarrow> w' = w \<and>
     (case a of None \<Rightarrow> \<not> needed \<and> z = None
      | Some i \<Rightarrow> \<exists>row. z = Some row \<and> get_row adr_id i (addresses (db w)) = Some row
          \<and> adr_tenant_id row = t \<and> adr_status row = ''active'')"
  by (cases a) (auto simp: order_address_def step_ok ok_iff)

text \<open>The same facts about the request as a whole, over the tables it started from.\<close>

lemma place_order_request:
  assumes "disk w = db w"
    and "request (place_order (build_authorization_service b) t u p a m rid) w = (Inr x, w')"
  shows "\<exists>cart address n l1 l2.
     open_carts (db w) t = [cart] \<and> cart_line_rows (db w) (crt_id cart) \<noteq> []
     \<and> next_uuid w \<le> n \<and> opl_order_id x = n \<and> opl_status x = ''placed''
     \<and> opl_line_count x = length (cart_line_rows (db w) (crt_id cart))
     \<and> (case a of None \<Rightarrow> \<not> needs_address (cart_line_rows (db w) (crt_id cart)) \<and> address = None
       | Some i \<Rightarrow> \<exists>row. address = Some i \<and> row \<in> set (addresses (db w)) \<and> adr_id row = i
          \<and> adr_tenant_id row = t \<and> adr_status row = ''active'')
     \<and> lower (strip m) \<in> set payment_methods
     \<and> db w' = (placed_db n (clock w) t (crt_id cart) address (lower (strip m))
       (cart_line_rows (db w) (crt_id cart)) ((db w)\<lparr>authorization_audit_log := l1\<rparr>))\<lparr>audit_log := l2\<rparr>
     \<and> disk w' = db w'
     \<and> next_uuid w' = Suc (Suc (n + length (cart_line_rows (db w) (crt_id cart))
       + length (vendor_ids_of (cart_line_rows (db w) (crt_id cart)))))"
proof -
  from assms(2) obtain w2 where ok: "place_order (build_authorization_service b) t u p a m rid w = (Inr x, w2)"
    and w': "w' = w2\<lparr>db := disk w2\<rparr>"
    by (auto simp: request_ok)
  from place_order_okD [OF ok] obtain w1 cart address l where
    req: "require_permission (build_authorization_service b) p t ''resource.create'' rid w = (Inr (), w1)"
    and cart: "open_carts (db w1) t = [cart]"
    and adr: "order_address t (needs_address (cart_line_rows (db w1) (crt_id cart))) a w1 = (Inr address, w1)"
    and rest: "cart_line_rows (db w1) (crt_id cart) \<noteq> []" "lower (strip m) \<in> set payment_methods"
      "x = \<lparr>opl_order_id = next_uuid w1, opl_status = ''placed'',
            opl_line_count = length (cart_line_rows (db w1) (crt_id cart))\<rparr>"
      "disk w2 = db w2"
      "next_uuid w2 = Suc (Suc (next_uuid w1 + length (cart_line_rows (db w1) (crt_id cart))
         + length (vendor_ids_of (cart_line_rows (db w1) (crt_id cart)))))"
      "db w2 = (placed_db (next_uuid w1) (clock w1) t (crt_id cart) (map_option adr_id address)
         (lower (strip m)) (cart_line_rows (db w1) (crt_id cart)) (db w1))\<lparr>audit_log := l\<rparr>"
    unfolding Let_def by blast
  from require_permission_frame [OF req] obtain l' where s: "db w1 = (db w)\<lparr>authorization_audit_log := l'\<rparr>"
    "clock w1 = clock w" "next_uuid w \<le> next_uuid w1"
    by (auto simp: same_but_log_def)
  have a: "case a of None \<Rightarrow> \<not> needs_address (cart_line_rows (db w) (crt_id cart)) \<and> map_option adr_id address = None
      | Some i \<Rightarrow> \<exists>row. map_option adr_id address = Some i \<and> row \<in> set (addresses (db w)) \<and> adr_id row = i
          \<and> adr_tenant_id row = t \<and> adr_status row = ''active''"
    using adr by (cases a) (auto simp: order_address_ok s dest: get_row_Some)
  show ?thesis
    by (rule exI [of _ cart], rule exI [of _ "map_option adr_id address"], rule exI [of _ "next_uuid w1"],
        rule exI [of _ l'], rule exI [of _ l])
       (use cart rest a s w' in simp_all)
qed

lemma inserted_rows_map:
  assumes "\<And>i x. f (mk i x) = g x"
  shows "map f (inserted_rows mk n xs) = map g xs"
  by (induction xs arbitrary: n) (simp_all add: assms)

lemma set_vendor_ids_of [simp]:
  "set (vendor_ids_of lines) = (\<lambda>(_, _, product). prd_vendor_id product) ` set lines"
  by (auto simp: vendor_ids_of_def)

lemma distinct_vendor_ids_of [simp]: "distinct (vendor_ids_of lines)"
  by (simp add: vendor_ids_of_def)

text \<open>What a cart line becomes on an order line: everything but the identifiers.\<close>

definition line_copy :: "order_line_row \<Rightarrow> uuid \<times> string \<times> string \<times> int \<times> string \<times> string \<times> money" where
  "line_copy l = (oln_offering_id l, oln_product_name l, oln_plan_name l, oln_quantity l,
     oln_fulfilment_type l, oln_billing_period l, oln_unit_price l)"

definition entry_copy :: "cart_entry \<Rightarrow> uuid \<times> string \<times> string \<times> int \<times> string \<times> string \<times> money" where
  "entry_copy entry = (case entry of (line, offering, product) \<Rightarrow>
     (off_id offering, prd_name product, off_plan_name offering, cln_quantity line,
      prd_fulfilment_type product, off_billing_period offering, off_price_usd offering))"

definition entry_total :: "cart_entry \<Rightarrow> money" where
  "entry_total entry = (case entry of (line, offering, _) \<Rightarrow> off_price_usd offering * cln_quantity line)"

lemma order_line_of_copy:
  "line_copy (order_line_of o' i e) = entry_copy e" "oln_order_id (order_line_of o' i e) = o'"
  "line_total (order_line_of o' i e) = entry_total e" "oln_status (order_line_of o' i e) = ''active''"
  by (simp_all add: line_copy_def entry_copy_def order_line_of_def line_total_def entry_total_def
      split: prod.split)

lemma fulfilment_of_simps [simp]:
  "ful_vendor_id (fulfilment_of o' now i v) = v" "ful_order_id (fulfilment_of o' now i v) = o'"
  "ful_status (fulfilment_of o' now i v) = ''placed''" "ful_refund_status (fulfilment_of o' now i v) = ''none''"
  "ful_courier (fulfilment_of o' now i v) = []" "ful_tracking_number (fulfilment_of o' now i v) = []"
  "ful_refund_amount (fulfilment_of o' now i v) = None" "ful_id (fulfilment_of o' now i v) = i"
  by (simp_all add: fulfilment_of_def)

lemma set_inserted_rows: "y \<in> set (inserted_rows mk n xs) \<Longrightarrow>
    \<exists>i x. y = mk i x \<and> x \<in> set xs \<and> n \<le> i \<and> i < n + length xs"
proof (induction xs arbitrary: n)
  case (Cons x xs)
  then show ?case by (fastforce dest: Cons.IH)
qed simp

lemma place_order_leaves_no_cart:
  assumes "disk w = db w"
    and "request (place_order (build_authorization_service b) t u p a m rid) w = (Inr x, w')"
  shows "open_carts (db w') t = []"
proof -
  from place_order_request [OF assms] obtain cart :: cart_row and address n l1 l2 where
    cart: "open_carts (db w) t = [cart]"
    and w': "db w' = (placed_db n (clock w) t (crt_id cart) address (lower (strip m))
       (cart_line_rows (db w) (crt_id cart)) ((db w)\<lparr>authorization_audit_log := l1\<rparr>))\<lparr>audit_log := l2\<rparr>"
    by blast
  have "filter (\<lambda>c. crt_tenant_id c = t \<and> crt_status c = ''open'')
      (upd_row crt_id (crt_id cart) (\<lambda>c. c\<lparr>crt_status := ''checked_out''\<rparr>) cs) = []"
    if "filter (\<lambda>c. crt_tenant_id c = t \<and> crt_status c = ''open'') cs = [cart]
       \<or> filter (\<lambda>c. crt_tenant_id c = t \<and> crt_status c = ''open'') cs = []" for cs
    using that by (induction cs) (auto split: if_splits)
  with cart show ?thesis by (simp add: w' placed_db_def open_carts_def)
qed

text \<open>
  C18. A placed order is a snapshot of the cart: one order, one line per cart line with its quantity,
  names and price copied (so the totals agree), and one \<open>placed\<close> fulfilment for every vendor of the
  lines; the cart is checked out.
\<close>

theorem place_order_snapshot:
  assumes "disk w = db w"
    and "request (place_order (build_authorization_service b) t u p a m rid) w = (Inr x, w')"
  shows "\<exists>cart order new fs. open_carts (db w) t = [cart]
     \<and> (let entries = cart_line_rows (db w) (crt_id cart) in
        entries \<noteq> []
        \<and> orders (db w') = orders (db w) @ [order] \<and> ord_id order = opl_order_id x
        \<and> ord_tenant_id order = t \<and> ord_cart_id order = crt_id cart \<and> ord_status order = ''placed''
        \<and> ord_payment_method order \<in> set payment_methods
        \<and> order_lines (db w') = order_lines (db w) @ new \<and> map line_copy new = map entry_copy entries
        \<and> sum_list (map line_total new) = sum_list (map entry_total entries)
        \<and> (\<forall>l \<in> set new. oln_order_id l = ord_id order \<and> oln_status l = ''active'')
        \<and> vendor_fulfilments (db w') = vendor_fulfilments (db w) @ fs
        \<and> distinct (map ful_vendor_id fs)
        \<and> set (map ful_vendor_id fs) = (\<lambda>(_, _, product). prd_vendor_id product) ` set entries
        \<and> (\<forall>f \<in> set fs. ful_order_id f = ord_id order \<and> ful_status f = ''placed''))
     \<and> open_carts (db w') t = []"
proof -
  from place_order_request [OF assms] obtain cart :: cart_row and address n l1 l2 where
    cart: "open_carts (db w) t = [cart]" "cart_line_rows (db w) (crt_id cart) \<noteq> []"
    and x: "opl_order_id x = n" and pm: "lower (strip m) \<in> set payment_methods"
    and w': "db w' = (placed_db n (clock w) t (crt_id cart) address (lower (strip m))
       (cart_line_rows (db w) (crt_id cart)) ((db w)\<lparr>authorization_audit_log := l1\<rparr>))\<lparr>audit_log := l2\<rparr>"
    by blast
  let ?es = "cart_line_rows (db w) (crt_id cart)"
  let ?new = "inserted_rows (order_line_of n) (Suc n) ?es"
  let ?fs = "inserted_rows (fulfilment_of n (clock w)) (Suc n + length ?es) (vendor_ids_of ?es)"
  have m: "map line_copy ?new = map entry_copy ?es" "map line_total ?new = map entry_total ?es"
    "map ful_vendor_id ?fs = vendor_ids_of ?es"
    using inserted_rows_map [of ful_vendor_id "fulfilment_of n (clock w)" id] by (simp_all add: inserted_rows_map order_line_of_copy)
  have l: "\<forall>l \<in> set ?new. oln_order_id l = n \<and> oln_status l = ''active''"
    "\<forall>f \<in> set ?fs. ful_order_id f = n \<and> ful_status f = ''placed''"
    by (auto dest!: set_inserted_rows simp: order_line_of_copy)
  have "open_carts (db w') t = []" by (rule place_order_leaves_no_cart [OF assms])
  then show ?thesis
    using cart x pm m l
    by (intro exI [of _ cart] exI [of _ "last (orders (db w'))"] exI [of _ ?new] exI [of _ ?fs])
       (simp add: w' placed_db_def Let_def)
qed

text \<open>
  Goods that must go somewhere carry an address: an order with a line to ship, dispatch or attend
  has an address, and any address an order has is an active one of the ordering tenant.
\<close>

theorem place_order_address:
  assumes "disk w = db w"
    and "request (place_order (build_authorization_service b) t u p a m rid) w = (Inr x, w')"
  shows "\<exists>order new. orders (db w') = orders (db w) @ [order] \<and> order_lines (db w') = order_lines (db w) @ new
     \<and> (list_ex (\<lambda>l. oln_fulfilment_type l \<in> set address_required) new \<longrightarrow> ord_address_id order \<noteq> None)
     \<and> (\<forall>i. ord_address_id order = Some i \<longrightarrow>
          (\<exists>row \<in> set (addresses (db w)). adr_id row = i \<and> adr_tenant_id row = t \<and> adr_status row = ''active''))"
proof -
  from place_order_request [OF assms] obtain cart :: cart_row and address n l1 l2 where
    adr: "case a of None \<Rightarrow> \<not> needs_address (cart_line_rows (db w) (crt_id cart)) \<and> address = None
      | Some i \<Rightarrow> \<exists>row. address = Some i \<and> row \<in> set (addresses (db w)) \<and> adr_id row = i
          \<and> adr_tenant_id row = t \<and> adr_status row = ''active''"
    and w': "db w' = (placed_db n (clock w) t (crt_id cart) address (lower (strip m))
       (cart_line_rows (db w) (crt_id cart)) ((db w)\<lparr>authorization_audit_log := l1\<rparr>))\<lparr>audit_log := l2\<rparr>"
    by blast
  let ?es = "cart_line_rows (db w) (crt_id cart)"
  let ?new = "inserted_rows (order_line_of n) (Suc n) ?es"
  have "needs_address ?es" if "list_ex (\<lambda>l. oln_fulfilment_type l \<in> set address_required) ?new"
    using that by (auto simp: needs_address_def list_ex_iff order_line_of_def split: prod.splits
        dest!: set_inserted_rows) (rule bexI [rotated], assumption, simp)
  with adr show ?thesis
    by (intro exI [of _ "last (orders (db w'))"] exI [of _ ?new])
       (auto simp: w' placed_db_def split: option.splits)
qed

text \<open>
  C20. A cart is ordered once: a second \<open>place_order\<close> of the tenant right after a successful one
  fails and changes no table but the authorization log.
\<close>

theorem place_order_once:
  assumes "disk w = db w"
    and "request (place_order (build_authorization_service b) t u p a m rid) w = (Inr x, w1)"
  shows "\<exists>e w2 l. request (place_order (build_authorization_service b) t u' p' a' m' rid') w1 = (Inl e, w2)
     \<and> db w2 = (db w1)\<lparr>authorization_audit_log := l\<rparr>"
proof -
  have none: "open_carts (db w1) t = []" by (rule place_order_leaves_no_cart [OF assms])
  from place_order_request [OF assms] have d: "disk w1 = db w1" by blast
  let ?m = "place_order (build_authorization_service b) t u' p' a' m' rid'"
  obtain r w2 where run: "request ?m w1 = (r, w2)" by fastforce
  show ?thesis
  proof (cases r)
    case (Inl e)
    with request_error [OF place_order_atomic] run d show ?thesis by metis
  next
    case (Inr y)
    from run have "request ?m w1 = (Inr y, w2)" by (simp add: Inr)
    from place_order_request [OF d this] none show ?thesis by auto
  qed
qed

text \<open>
  C19. Checkout does not fail without a reason: a permitted member of an active tenant, with a known
  payment method, a non-empty cart and an address of the tenant (where one is needed or given), gets
  the order.
\<close>

definition can_order :: "world \<Rightarrow> uuid \<Rightarrow> uuid \<Rightarrow> uuid option \<Rightarrow> string \<Rightarrow> string option \<Rightarrow> bool" where
  "can_order w t p a m rid \<longleftrightarrow>
     authz_keys (db w)
     \<and> may_use (sql_views (db w)) (public_command p t ''resource.create'' rid) (clock w)
     \<and> lower (strip m) \<in> set payment_methods
     \<and> (case open_carts (db w) t of [cart] \<Rightarrow>
          cart_line_rows (db w) (crt_id cart) \<noteq> []
          \<and> (case a of None \<Rightarrow> \<not> needs_address (cart_line_rows (db w) (crt_id cart))
             | Some i \<Rightarrow> (case get_row adr_id i (addresses (db w)) of None \<Rightarrow> False
                          | Some row \<Rightarrow> adr_tenant_id row = t \<and> adr_status row = ''active''))
        | _ \<Rightarrow> False)"

theorem place_order_succeeds:
  assumes "can_order w t p a m rid"
  shows "\<exists>x w'. request (place_order (build_authorization_service b) t u p a m rid) w = (Inr x, w')"
proof -
  have ok: "lower (strip m) \<in> set payment_methods" using assms by (simp add: can_order_def)
  obtain cart where cart: "open_carts (db w) t = [cart]" "cart_line_rows (db w) (crt_id cart) \<noteq> []"
    and adr: "case a of None \<Rightarrow> \<not> needs_address (cart_line_rows (db w) (crt_id cart))
        | Some i \<Rightarrow> (case get_row adr_id i (addresses (db w)) of None \<Rightarrow> False
                     | Some row \<Rightarrow> adr_tenant_id row = t \<and> adr_status row = ''active'')"
    using assms by (auto simp: can_order_def split: list.splits)
  obtain w1 l where req: "require_permission (build_authorization_service b) p t ''resource.create'' rid w
      = (Inr (), w1)" and db1: "db w1 = (db w)\<lparr>authorization_audit_log := l\<rparr>"
    using require_permission_passes [of w p t "''resource.create''" rid b] assms
    unfolding can_order_def by blast
  have c1: "open_cart t w1 = (Inr (Some cart), w1)"
    using cart(1) by (simp add: open_cart_ok open_carts_def db1)
  obtain z where a1: "order_address t (needs_address (cart_line_rows (db w1) (crt_id cart))) a w1 = (Inr z, w1)"
    using adr unfolding order_address_ok by (auto simp: db1 split: option.splits)
  have calls:
    "bindE (require_permission (build_authorization_service b) p t ''resource.create'' rid) f w = f () w1"
    "bindE (open_cart t) g w1 = g (Some cart) w1"
    "bindE (order_address t (needs_address (cart_line_rows (db w) (crt_id cart))) a) h w1 = h z w1"
    for f g h
    using req c1 a1 by (simp_all add: bindE_run db1)
  have "\<exists>x w2. place_order (build_authorization_service b) t u p a m rid w = (Inr x, w2)"
    unfolding place_order_def Let_def
    by (simp add: calls step_run ok cart(2) db1 ret_run)
  then obtain x w2 where "place_order (build_authorization_service b) t u p a m rid w = (Inr x, w2)"
    by blast
  then show ?thesis by (simp add: request_run)
qed

lemma shop_can_order: "can_order shop_world 31 1 (Some 601) '' UPI '' None"
  by code_simp

theorem place_order_succeeds_witness:
  "\<exists>x w'. request (place_order (build_authorization_service True) 31 11 1 (Some 601) '' UPI '' None) shop_world
       = (Inr x, w')"
  by (rule place_order_succeeds [OF shop_can_order])

lemma shop_order:
  obtains x w' where
    "request (place_order (build_authorization_service b) 31 11 1 (Some 601) '' UPI '' None) shop_world = (Inr x, w')"
  using place_order_succeeds [OF shop_can_order] by blast

lemma cart_inv_placed:
  assumes "cart_inv k d" and "k \<le> n'"
  shows "cart_inv n' (placed_db n now t c address m es d)"
proof -
  let ?u = "upd_row crt_id c (\<lambda>c. c\<lparr>crt_status := ''checked_out''\<rparr>)"
  have le: "length (filter (\<lambda>c. crt_tenant_id c = s \<and> crt_status c = ''open'') (?u cs))
      \<le> length (filter (\<lambda>c. crt_tenant_id c = s \<and> crt_status c = ''open'') cs)" for s cs
    by (induction cs) auto
  have ids: "map crt_id (?u cs) = map crt_id cs" for cs by simp
  have img: "crt_id ` set (?u cs) = crt_id ` set cs" for cs
    using arg_cong [OF ids [of cs], of set] by (simp only: set_map)
  have "\<forall>s. length (open_carts (placed_db n now t c address m es d) s) \<le> 1"
    using assms(1) le [of _ "carts d"]
    by (auto simp: cart_inv_def open_carts_def placed_db_def intro: le_trans)
  moreover have "\<forall>r \<in> set (?u (carts d)). crt_id r < n'"
    using assms by (fastforce simp: cart_inv_def set_upd_row)
  ultimately show ?thesis
    using assms by (fastforce simp: cart_inv_def placed_db_def img)
qed

lemma preserved_place_order:
  "preserved cart_inv (place_order (build_authorization_service b) t u p a m rid)"
proof (rule preserved_request [OF cart_inv_mono cart_inv_log place_order_atomic place_order_uuid])
  fix w x w'
  assume d: "disk w = db w" and inv: "cart_inv (next_uuid w) (db w)"
    and run: "request (place_order (build_authorization_service b) t u p a m rid) w = (Inr x, w')"
  from place_order_request [OF d run] obtain cart :: cart_row and address n l1 l2 where
      "next_uuid w \<le> n" and w': "db w' = (placed_db n (clock w) t (crt_id cart) address (lower (strip m))
         (cart_line_rows (db w) (crt_id cart)) ((db w)\<lparr>authorization_audit_log := l1\<rparr>))\<lparr>audit_log := l2\<rparr>"
      "next_uuid w' = Suc (Suc (n + length (cart_line_rows (db w) (crt_id cart))
       + length (vendor_ids_of (cart_line_rows (db w) (crt_id cart)))))"
      by blast
  moreover have "cart_inv (next_uuid w) ((db w)\<lparr>authorization_audit_log := l1\<rparr>)"
    by (rule cart_inv_same [OF _ _ inv]) simp_all
  ultimately have "cart_inv (next_uuid w') (placed_db n (clock w) t (crt_id cart) address (lower (strip m))
         (cart_line_rows (db w) (crt_id cart)) ((db w)\<lparr>authorization_audit_log := l1\<rparr>))"
    by (intro cart_inv_placed) auto
  then show "cart_inv (next_uuid w') (db w')"
    by (rule cart_inv_same [rotated 2]) (simp_all add: w'(1))
qed

theorem place_order_snapshot_witness:
  "\<exists>w' :: world. sum_list (map line_total (order_lines (db w'))) = 2250 \<and> open_carts (db w') 31 = []"
proof -
  obtain x w' where e: "request (place_order (build_authorization_service True) 31 11 1 (Some 601)
      '' UPI '' None) shop_world = (Inr x, w')" by (rule shop_order)
  have t: "open_carts shop_db 31 = [\<lparr>crt_id = 501, crt_tenant_id = 31, crt_status = ''open''\<rparr>]"
    "sum_list (map entry_total (cart_line_rows shop_db 501)) = 2250" "order_lines shop_db = []"
    by code_simp+
  have d: "disk shop_world = db shop_world" by simp
  from place_order_snapshot [OF d e] t
  have "sum_list (map line_total (order_lines (db w'))) = 2250 \<and> open_carts (db w') 31 = []"
    by (auto simp: Let_def)
  then show ?thesis by blast
qed

theorem place_order_address_witness:
  "\<exists>(w' :: world) order. orders (db w') = [order]
     \<and> (\<forall>i. ord_address_id order = Some i \<longrightarrow> (\<exists>row \<in> set (addresses shop_db). adr_id row = i))"
proof -
  obtain x w' where e: "request (place_order (build_authorization_service True) 31 11 1 (Some 601)
      '' UPI '' None) shop_world = (Inr x, w')" by (rule shop_order)
  have "orders shop_db = []" by code_simp
  moreover have d: "disk shop_world = db shop_world" by simp
  ultimately have "\<exists>order. orders (db w') = [order]
     \<and> (\<forall>i. ord_address_id order = Some i \<longrightarrow> (\<exists>row \<in> set (addresses shop_db). adr_id row = i))"
    using place_order_address [OF d e] by auto
  then show ?thesis by blast
qed

theorem place_order_once_witness:
  "\<exists>(w1 :: world) e w2. open_carts (db w1) 31 = []
     \<and> request (place_order (build_authorization_service True) 31 12 2 None ''card'' None) w1 = (Inl e, w2)"
proof -
  obtain x w' where e: "request (place_order (build_authorization_service True) 31 11 1 (Some 601)
      '' UPI '' None) shop_world = (Inr x, w')" by (rule shop_order)
  have o': "open_carts (db w') 31 = []"
    by (rule place_order_leaves_no_cart [OF _ e]) simp
  from place_order_once [OF _ e, of 12 2 None "''card''" None] o' show ?thesis by auto
qed

end
