(* ===== verification/Fulfilment.thy ===== *)
theory Fulfilment
  imports Checkout
begin

section \<open>Fulfilment\<close>

text \<open>
  Journeys J49 to J51 in \<open>CommerceService\<close>: every vendor of an order moves its own fulfilment through
  \<open>FULFILMENT_TRANSITIONS\<close>; the status of the order is rolled up from its fulfilments; a vendor's
  rejection or the buyer's cancellation leaves a pending refund of the vendor's line total, which the
  vendor issues. The views \<open>order_detail\<close> and \<open>list_vendor_orders\<close> read the result.
\<close>

definition fulfilment_transitions :: "(string \<times> string list) list" where
  "fulfilment_transitions =
     [(''placed'', [''confirmed'', ''cancelled'']),
      (''confirmed'', [''processing'']),
      (''processing'', [''ready_to_ship'', ''delayed'']),
      (''delayed'', [''ready_to_ship'']),
      (''ready_to_ship'', [''shipped'']),
      (''shipped'', [''delivered''])]"

definition allowed_next :: "string \<Rightarrow> string list" where
  "allowed_next status =
     (case map_of fulfilment_transitions status of None \<Rightarrow> [] | Some next \<Rightarrow> next)"

definition vendor_lines :: "database \<Rightarrow> uuid \<Rightarrow> uuid \<Rightarrow> order_line_row list" where
  "vendor_lines d order_id vendor =
     [line. line \<leftarrow> order_lines d, offering \<leftarrow> offerings d, product \<leftarrow> products d,
        off_id offering = oln_offering_id line \<and> prd_id product = off_product_id offering
        \<and> oln_order_id line = order_id \<and> prd_vendor_id product = vendor]"

definition vendor_line_total :: "database \<Rightarrow> uuid \<Rightarrow> uuid \<Rightarrow> money" where
  "vendor_line_total d order_id vendor = sum_list (map line_total (vendor_lines d order_id vendor))"

definition fulfilment_rows :: "database \<Rightarrow> uuid \<Rightarrow> uuid \<Rightarrow> vendor_fulfilment_row list" where
  "fulfilment_rows d order_id vendor =
     filter (\<lambda>f. ful_order_id f = order_id \<and> ful_vendor_id f = vendor) (vendor_fulfilments d)"

definition order_fulfilments :: "database \<Rightarrow> uuid \<Rightarrow> vendor_fulfilment_row list" where
  "order_fulfilments d order_id = filter (\<lambda>f. ful_order_id f = order_id) (vendor_fulfilments d)"

subsection \<open>Rolling up\<close>

definition rollup_status :: "string list \<Rightarrow> string" where
  "rollup_status statuses =
     (if list_all (\<lambda>s. s = ''cancelled'') statuses then ''cancelled''
      else if list_all (\<lambda>s. s = ''delivered'') statuses then ''delivered''
      else if list_ex (\<lambda>s. s = ''cancelled'') statuses \<and> list_ex (\<lambda>s. s \<noteq> ''cancelled'') statuses
        then ''partial''
      else if list_ex (\<lambda>s. s = ''delivered'') statuses \<and> list_ex (\<lambda>s. s \<noteq> ''delivered'') statuses
        then ''partial''
      else if list_all (\<lambda>s. s = ''placed'') statuses then ''placed''
      else ''processing'')"

definition rollup_order_status :: "uuid \<Rightarrow> unit op" where
  "rollup_order_status order_id =
     bindE (reads (\<lambda>d. get_row ord_id order_id (orders d))) (\<lambda>order.
     bindE (reads (\<lambda>d. map ful_status (order_fulfilments d order_id))) (\<lambda>statuses.
     if order = None \<or> statuses = [] then ret ()
     else modifies (orders_update (upd_row ord_id order_id
            (\<lambda>r. r\<lparr>ord_status := rollup_status statuses\<rparr>)))))"

subsection \<open>The vendor's side\<close>

definition moved_row ::
  "string \<Rightarrow> string \<Rightarrow> string \<Rightarrow> instant \<Rightarrow> vendor_fulfilment_row \<Rightarrow> vendor_fulfilment_row"
where
  "moved_row status courier tracking now row =
     (if status = ''shipped''
      then row\<lparr>ful_status := status, ful_courier := courier, ful_tracking_number := tracking,
               ful_updated_at := now\<rparr>
      else row\<lparr>ful_status := status, ful_updated_at := now\<rparr>)"

text \<open>The branch that writes the new status: a new row, or the attributes of the current one.\<close>

definition move_fulfilment ::
  "uuid \<Rightarrow> uuid \<Rightarrow> vendor_fulfilment_row option \<Rightarrow> string \<Rightarrow> string \<Rightarrow> string \<Rightarrow> vendor_fulfilment_row op"
where
  "move_fulfilment vendor order_id current status courier tracking =
     bindE utcnow (\<lambda>now.
     case current of
       None \<Rightarrow>
         bindE uuid4 (\<lambda>i.
         let row = \<lparr>ful_id = i, ful_order_id = order_id, ful_vendor_id = vendor, ful_status = status,
             ful_courier = (if status = ''shipped'' then courier else []),
             ful_tracking_number = (if status = ''shipped'' then tracking else []),
             ful_refund_status = ''none'', ful_refund_amount = None, ful_updated_at = now\<rparr>
         in bindE (modifies (vendor_fulfilments_update (\<lambda>rows. rows @ [row]))) (\<lambda>_. ret row))
     | Some row \<Rightarrow>
         let row' = moved_row status courier tracking now row
         in bindE (modifies (vendor_fulfilments_update (upd_row ful_id (ful_id row) (\<lambda>_. row')))) (\<lambda>_.
            ret row'))"

definition refund_pending :: "money \<Rightarrow> vendor_fulfilment_row \<Rightarrow> vendor_fulfilment_row" where
  "refund_pending amount row = row\<lparr>ful_refund_status := ''pending'', ful_refund_amount := Some amount\<rparr>"

definition reject_fulfilment ::
  "uuid \<Rightarrow> uuid \<Rightarrow> uuid \<Rightarrow> order_row \<Rightarrow> money \<Rightarrow> vendor_fulfilment_row \<Rightarrow> vendor_fulfilment_row op"
where
  "reject_fulfilment vendor order_id caller order amount row =
     (let row' = refund_pending amount row
      in bindE (modifies (vendor_fulfilments_update (upd_row ful_id (ful_id row) (\<lambda>_. row')))) (\<lambda>_.
         bindE (audit ''order.vendor_rejected'' (Some caller) (Some (ord_tenant_id order))
                  [(''order_id'', JUuid order_id), (''vendor_id'', JUuid vendor),
                   (''refund_amount'', JMoney amount)]) (\<lambda>_.
         ret row')))"

definition advance_vendor_order ::
  "uuid \<Rightarrow> uuid \<Rightarrow> uuid \<Rightarrow> string \<Rightarrow> string \<Rightarrow> string \<Rightarrow> vendor_fulfilment_row op"
where
  "advance_vendor_order vendor order_id caller status courier tracking_number =
     bindE (require_vendor_owner vendor caller) (\<lambda>_.
     bindE (reads (\<lambda>d. first_row (vendor_lines d order_id vendor))) (\<lambda>owned.
     bindE (raise_if (owned = None) (NotFoundError ''order not found'')) (\<lambda>_.
     bindE (reads (\<lambda>d. get_row ord_id order_id (orders d))) (\<lambda>found.
     bindE (the_or found (NotFoundError ''order not found'')) (\<lambda>order.
     bindE (reads (\<lambda>d. fulfilment_rows d order_id vendor)) (\<lambda>rows.
     bindE (one_or_none rows) (\<lambda>current.
     let current_status = (case current of None \<Rightarrow> ''placed'' | Some f \<Rightarrow> ful_status f) in
     bindE (raise_if (status \<notin> set (allowed_next current_status))
              (ValidationError (''cannot move an order from '' @ current_status @ '' to '' @ status))) (\<lambda>_.
     bindE (raise_if (status = ''shipped'' \<and> (strip courier = [] \<or> strip tracking_number = []))
              (ValidationError ''courier and tracking number are required'')) (\<lambda>_.
     bindE (move_fulfilment vendor order_id current status (strip courier) (strip tracking_number)) (\<lambda>row.
     bindE (reads (\<lambda>d. vendor_line_total d order_id vendor)) (\<lambda>amount.
     bindE (if status = ''cancelled'' then reject_fulfilment vendor order_id caller order amount row
            else ret row) (\<lambda>row'.
     bindE (audit ''order.fulfilment_updated'' (Some caller) (Some (ord_tenant_id order))
              [(''order_id'', JUuid order_id), (''vendor_id'', JUuid vendor),
               (''status'', JStr status)]) (\<lambda>_.
     bindE (rollup_order_status order_id) (\<lambda>_.
     bindE commit (\<lambda>_.
     ret row')))))))))))))))"

definition issue_vendor_reject_refund :: "uuid \<Rightarrow> uuid \<Rightarrow> uuid \<Rightarrow> vendor_fulfilment_row op" where
  "issue_vendor_reject_refund vendor order_id caller =
     bindE (require_vendor_owner vendor caller) (\<lambda>_.
     bindE (reads (\<lambda>d. fulfilment_rows d order_id vendor)) (\<lambda>rows.
     bindE (one_or_none rows) (\<lambda>found.
     bindE (the_or found (NotFoundError ''order not found'')) (\<lambda>fulfilment.
     bindE (raise_if (ful_status fulfilment \<noteq> ''cancelled'' \<or> ful_refund_status fulfilment \<noteq> ''pending'')
              (ConflictError ''refund is not pending for a cancelled vendor slice'')) (\<lambda>_.
     bindE (reads (\<lambda>d. get_row ord_id order_id (orders d))) (\<lambda>found_order.
     bindE (the_or found_order (NotFoundError ''order not found'')) (\<lambda>order.
     bindE utcnow (\<lambda>now.
     let row' = fulfilment\<lparr>ful_refund_status := ''refunded'', ful_updated_at := now\<rparr> in
     bindE (modifies (vendor_fulfilments_update (upd_row ful_id (ful_id fulfilment) (\<lambda>_. row')))) (\<lambda>_.
     bindE (audit ''order.vendor_reject_refunded'' (Some caller) (Some (ord_tenant_id order))
              [(''order_id'', JUuid order_id), (''vendor_id'', JUuid vendor),
               (''refund_amount'', case ful_refund_amount fulfilment of None \<Rightarrow> JNull
                                   | Some a \<Rightarrow> JMoney a)]) (\<lambda>_.
     bindE commit (\<lambda>_.
     ret row')))))))))))"

subsection \<open>Views of an order\<close>

record order_line_view =
  olv_line_id :: uuid
  olv_offering_id :: uuid
  olv_product_name :: string
  olv_plan_name :: string
  olv_quantity :: int
  olv_fulfilment_type :: string
  olv_billing_period :: string
  olv_unit_price :: money
  olv_status :: string
  olv_vendor_id :: uuid
  olv_vendor_name :: string
  olv_currency :: string

record timeline_step =
  tls_label :: string
  tls_at :: instant
  tls_done :: bool

record order_vendor_slice =
  osl_vendor_id :: uuid
  osl_vendor_name :: string
  osl_status :: string
  osl_courier :: string
  osl_tracking_number :: string
  osl_refund_status :: string
  osl_refund_amount :: "money option"
  osl_lines :: "order_line_view list"

record order_detail_view =
  odt_order_id :: uuid
  odt_status :: string
  odt_payment_method :: string
  odt_address_id :: "uuid option"
  odt_placed_at :: instant
  odt_lines :: "order_line_view list"
  odt_vendors :: "order_vendor_slice list"
  odt_address :: "address_view option"
  odt_timeline :: "timeline_step list"

definition order_line_view_of :: "order_line_row \<Rightarrow> vendor_profile_row \<Rightarrow> order_line_view" where
  "order_line_view_of line vendor =
     \<lparr>olv_line_id = oln_id line, olv_offering_id = oln_offering_id line,
      olv_product_name = oln_product_name line, olv_plan_name = oln_plan_name line,
      olv_quantity = oln_quantity line, olv_fulfilment_type = oln_fulfilment_type line,
      olv_billing_period = oln_billing_period line, olv_unit_price = oln_unit_price line,
      olv_status = oln_status line, olv_vendor_id = vnd_id vendor,
      olv_vendor_name = vnd_legal_name vendor,
      olv_currency = str_or (Some (oln_currency line)) ''INR''\<rparr>"

definition order_line_views :: "database \<Rightarrow> uuid \<Rightarrow> order_line_view list" where
  "order_line_views d order_id =
     [order_line_view_of line vendor. (line, vendor) \<leftarrow> sort_key (\<lambda>(line, _). oln_id line)
        [(line, vendor). line \<leftarrow> order_lines d, offering \<leftarrow> offerings d, product \<leftarrow> products d,
           vendor \<leftarrow> vendor_profiles d,
           off_id offering = oln_offering_id line \<and> prd_id product = off_product_id offering
           \<and> vnd_id vendor = prd_vendor_id product \<and> oln_order_id line = order_id]]"

text \<open>\<open>{row.vendor_id: row for row in ...}\<close>: a later row of the same vendor wins.\<close>

definition fulfilment_for :: "vendor_fulfilment_row list \<Rightarrow> uuid \<Rightarrow> vendor_fulfilment_row option" where
  "fulfilment_for rows vendor = map_of (rev (map (\<lambda>r. (ful_vendor_id r, r)) rows)) vendor"

definition new_slice :: "vendor_fulfilment_row option \<Rightarrow> order_line_view \<Rightarrow> order_vendor_slice" where
  "new_slice fulfilment view =
     \<lparr>osl_vendor_id = olv_vendor_id view, osl_vendor_name = olv_vendor_name view,
      osl_status = (case fulfilment of None \<Rightarrow> ''placed'' | Some f \<Rightarrow> ful_status f),
      osl_courier = (case fulfilment of None \<Rightarrow> [] | Some f \<Rightarrow> ful_courier f),
      osl_tracking_number = (case fulfilment of None \<Rightarrow> [] | Some f \<Rightarrow> ful_tracking_number f),
      osl_refund_status = (case fulfilment of None \<Rightarrow> ''none'' | Some f \<Rightarrow> ful_refund_status f),
      osl_refund_amount = (case fulfilment of None \<Rightarrow> None | Some f \<Rightarrow> ful_refund_amount f),
      osl_lines = [view]\<rparr>"

definition add_to_slices ::
  "vendor_fulfilment_row list \<Rightarrow> order_line_view \<Rightarrow> order_vendor_slice list \<Rightarrow> order_vendor_slice list"
where
  "add_to_slices rows view slices =
     (if list_ex (\<lambda>s. osl_vendor_id s = olv_vendor_id view) slices
      then map (\<lambda>s. if osl_vendor_id s = olv_vendor_id view
                    then s\<lparr>osl_lines := osl_lines s @ [view]\<rparr> else s) slices
      else slices @ [new_slice (fulfilment_for rows (olv_vendor_id view)) view])"

definition order_timeline :: "order_row \<Rightarrow> vendor_fulfilment_row list \<Rightarrow> timeline_step list" where
  "order_timeline order rows =
     (let at = ord_created_at order
      in [\<lparr>tls_label = ''Order Placed'', tls_at = at, tls_done = True\<rparr>,
          \<lparr>tls_label = ''Payment Confirmed'', tls_at = at, tls_done = True\<rparr>,
          (if ord_status order = ''cancelled''
           then \<lparr>tls_label = ''Cancelled'', tls_at = at, tls_done = True\<rparr>
           else if ord_status order = ''delivered''
           then \<lparr>tls_label = ''Delivered'', tls_at = at, tls_done = True\<rparr>
           else \<lparr>tls_label = ''Vendor Processing'', tls_at = at,
                 tls_done = list_ex (\<lambda>f. fulfilment_for rows (ful_vendor_id f) = Some f
                                         \<and> ful_status f \<noteq> ''placed'') rows\<rparr>)])"

definition order_detail_of :: "database \<Rightarrow> order_row \<Rightarrow> order_detail_view" where
  "order_detail_of d order =
     (let views = order_line_views d (ord_id order);
          rows = order_fulfilments d (ord_id order)
      in \<lparr>odt_order_id = ord_id order, odt_status = ord_status order,
          odt_payment_method = ord_payment_method order, odt_address_id = ord_address_id order,
          odt_placed_at = ord_created_at order, odt_lines = views,
          odt_vendors = fold (add_to_slices rows) views [],
          odt_address = (case ord_address_id order of None \<Rightarrow> None
             | Some i \<Rightarrow> map_option address_view_of (get_row adr_id i (addresses d))),
          odt_timeline = order_timeline order rows\<rparr>)"

definition order_detail :: "uuid \<Rightarrow> uuid \<Rightarrow> order_detail_view op" where
  "order_detail order_id caller =
     bindE (reads (\<lambda>d. get_row ord_id order_id (orders d))) (\<lambda>found.
     bindE (the_or found (NotFoundError ''order not found'')) (\<lambda>order.
     bindE (require_member (ord_tenant_id order) caller) (\<lambda>_.
     reads (\<lambda>d. order_detail_of d order))))"

subsection \<open>The buyer's side\<close>

definition cancelled_row :: "money \<Rightarrow> instant \<Rightarrow> vendor_fulfilment_row \<Rightarrow> vendor_fulfilment_row" where
  "cancelled_row amount now row =
     row\<lparr>ful_status := ''cancelled'', ful_refund_status := ''pending'',
         ful_refund_amount := Some amount, ful_updated_at := now\<rparr>"

definition cancel_order :: "uuid \<Rightarrow> uuid \<Rightarrow> uuid \<Rightarrow> order_detail_view op" where
  "cancel_order tenant order_id caller =
     bindE (require_member tenant caller) (\<lambda>_.
     bindE (reads (\<lambda>d. get_row ord_id order_id (orders d))) (\<lambda>found.
     bindE (the_or (case found of None \<Rightarrow> None
              | Some r \<Rightarrow> if ord_tenant_id r \<noteq> tenant then None else Some r)
              (NotFoundError ''order not found'')) (\<lambda>order.
     bindE (reads (\<lambda>d. order_fulfilments d order_id)) (\<lambda>fulfilments.
     bindE (raise_if (list_ex (\<lambda>f. ful_status f \<noteq> ''placed'') fulfilments)
              (ConflictError ''order can only be cancelled while all vendors are still placed'')) (\<lambda>_.
     bindE (for_each fulfilments (\<lambda>f.
              bindE (reads (\<lambda>d. vendor_line_total d order_id (ful_vendor_id f))) (\<lambda>amount.
              bindE utcnow (\<lambda>now.
              modifies (vendor_fulfilments_update (upd_row ful_id (ful_id f)
                (cancelled_row amount now))))))) (\<lambda>_.
     bindE (modifies (orders_update (upd_row ord_id order_id (\<lambda>r. r\<lparr>ord_status := ''cancelled''\<rparr>)))) (\<lambda>_.
     bindE (audit ''order.cancelled_by_buyer'' (Some caller) (Some tenant)
              [(''order_id'', JUuid order_id)]) (\<lambda>_.
     bindE commit (\<lambda>_.
     order_detail order_id caller)))))))))"

subsection \<open>The vendor's list\<close>

record vendor_order_line =
  vol_order_id :: uuid
  vol_line_id :: uuid
  vol_product_name :: string
  vol_quantity :: int
  vol_fulfilment_type :: string
  vol_unit_price :: money
  vol_total :: money
  vol_status :: string
  vol_placed_at :: instant
  vol_customer_name :: string
  vol_line1 :: string
  vol_city :: string
  vol_state :: string
  vol_pincode :: string
  vol_phone :: string
  vol_courier :: string
  vol_tracking_number :: string
  vol_currency :: string
  vol_refund_status :: string
  vol_refund_amount :: "money option"

definition vendor_order_line_of ::
  "order_line_row \<Rightarrow> order_row \<Rightarrow> tenant_row \<Rightarrow> address_row option \<Rightarrow> vendor_fulfilment_row option
    \<Rightarrow> vendor_order_line"
where
  "vendor_order_line_of line order tenant address fulfilment =
     \<lparr>vol_order_id = ord_id order, vol_line_id = oln_id line,
      vol_product_name = oln_product_name line, vol_quantity = oln_quantity line,
      vol_fulfilment_type = oln_fulfilment_type line, vol_unit_price = oln_unit_price line,
      vol_total = line_total line,
      vol_status = (case fulfilment of None \<Rightarrow> ''placed'' | Some f \<Rightarrow> ful_status f),
      vol_placed_at = ord_created_at order,
      vol_customer_name = (case address of None \<Rightarrow> ten_name tenant | Some a \<Rightarrow> adr_contact_name a),
      vol_line1 = (case address of None \<Rightarrow> [] | Some a \<Rightarrow> adr_line1 a),
      vol_city = (case address of None \<Rightarrow> [] | Some a \<Rightarrow> adr_city a),
      vol_state = (case address of None \<Rightarrow> [] | Some a \<Rightarrow> adr_state a),
      vol_pincode = (case address of None \<Rightarrow> [] | Some a \<Rightarrow> adr_pincode a),
      vol_phone = (case address of None \<Rightarrow> [] | Some a \<Rightarrow> adr_phone a),
      vol_courier = (case fulfilment of None \<Rightarrow> [] | Some f \<Rightarrow> ful_courier f),
      vol_tracking_number = (case fulfilment of None \<Rightarrow> [] | Some f \<Rightarrow> ful_tracking_number f),
      vol_currency = str_or (Some (oln_currency line)) ''INR'',
      vol_refund_status = (case fulfilment of None \<Rightarrow> ''none'' | Some f \<Rightarrow> ful_refund_status f),
      vol_refund_amount = (case fulfilment of None \<Rightarrow> None | Some f \<Rightarrow> ful_refund_amount f)\<rparr>"

text \<open>The addresses an outer join finds for an order.\<close>

definition address_join :: "database \<Rightarrow> order_row \<Rightarrow> address_row option list" where
  "address_join d order = outer (filter (\<lambda>a. ord_address_id order = Some (adr_id a)) (addresses d))"

definition status_filter :: "string option \<Rightarrow> vendor_fulfilment_row option \<Rightarrow> bool" where
  "status_filter status fulfilment =
     (case status of None \<Rightarrow> True
      | Some s \<Rightarrow>
          if s = [] then True
          else if strip s = ''placed''
          then (case fulfilment of None \<Rightarrow> True | Some f \<Rightarrow> ful_status f = ''placed'')
          else (case fulfilment of None \<Rightarrow> False | Some f \<Rightarrow> ful_status f = strip s))"

definition list_vendor_orders :: "uuid \<Rightarrow> uuid \<Rightarrow> string option \<Rightarrow> vendor_order_line list op" where
  "list_vendor_orders vendor caller status =
     bindE (require_vendor_owner vendor caller) (\<lambda>_.
     reads (\<lambda>d.
       [vendor_order_line_of line order tenant address fulfilment.
        (line, order, tenant, address, fulfilment) \<leftarrow> sort_desc (\<lambda>(_, order, _). ord_created_at order)
          [(line, order, tenant, address, fulfilment).
             line \<leftarrow> order_lines d, order \<leftarrow> orders d, offering \<leftarrow> offerings d, product \<leftarrow> products d,
             tenant \<leftarrow> tenants d, address \<leftarrow> address_join d order,
             fulfilment \<leftarrow> outer (fulfilment_rows d (ord_id order) vendor),
             ord_id order = oln_order_id line \<and> off_id offering = oln_offering_id line
             \<and> prd_id product = off_product_id offering \<and> ten_id tenant = ord_tenant_id order
             \<and> prd_vendor_id product = vendor \<and> status_filter status fulfilment]]))"

end
