(* ===== verification/Python_Values.thy ===== *)
theory Python_Values
  imports Commerce_Base
begin

section \<open>Values of Python and patterns of SQL\<close>

text \<open>
  What the services use of Python's and PostgreSQL's own functions: the civil calendar
  (\<open>datetime.replace\<close> in UTC), \<open>int\<close>, \<open>float\<close>, \<open>str\<close> and \<open>bool\<close> on JSON values, \<open>round(x, 1)\<close> of a
  mean, \<open>urlparse\<close> as far as the check of an image URL needs it, and \<open>LIKE\<close>. Text is Latin-1, so the
  decimal digits are the ASCII ones. A \<open>float\<close> is the decimal it was written as (binary rounding is
  not modelled there); numbers in JSON documents are integers or have at most two decimals.
\<close>

subsection \<open>The calendar\<close>

definition day_of_month :: "int \<Rightarrow> int" where
  "day_of_month day =
     (let doe = (day + 719468) mod 146097;
          yoe = (doe - doe div 1460 + doe div 36524 - doe div 146096) div 365;
          doy = doe - (365 * yoe + yoe div 4 - yoe div 100);
          mp = (5 * doy + 2) div 153
      in doy - (153 * mp + 2) div 5 + 1)"

definition month_start :: "instant \<Rightarrow> instant" where
  "month_start now = (let day = now div days 1 in days (day - (day_of_month day - 1)))"

subsection \<open>Python's \<open>int()\<close>\<close>

definition is_digit :: "char \<Rightarrow> bool" where
  "is_digit c = (let n = (of_char c :: nat) in 48 \<le> n \<and> n \<le> 57)"

definition digit_value :: "char \<Rightarrow> int" where
  "digit_value c = of_char c - 48"

fun parse_digits :: "int \<Rightarrow> string \<Rightarrow> int option" where
  "parse_digits acc [] = Some acc"
| "parse_digits acc [c] = (if is_digit c then Some (acc * 10 + digit_value c) else None)"
| "parse_digits acc (c # d # cs) =
     (if is_digit c then parse_digits (acc * 10 + digit_value c) (d # cs)
      else if c = CHR ''_'' \<and> is_digit d then parse_digits (acc * 10 + digit_value d) cs
      else None)"

definition parse_number :: "string \<Rightarrow> int option" where
  "parse_number s =
     (case s of [] \<Rightarrow> None
      | c # cs \<Rightarrow> if is_digit c \<and> length (filter is_digit s) \<le> 4300 then parse_digits 0 s else None)"

definition py_int_str :: "string \<Rightarrow> int option" where
  "py_int_str s =
     (case strip s of
        [] \<Rightarrow> None
      | c # cs \<Rightarrow> if c = CHR ''-'' then map_option uminus (parse_number cs)
                  else if c = CHR ''+'' then parse_number cs
                  else parse_number (c # cs))"

fun py_int :: "json \<Rightarrow> int option" where
  "py_int (JInt n) = Some n"
| "py_int (JBool b) = Some (if b then 1 else 0)"
| "py_int (JMoney a) = Some (sgn a * (\<bar>a\<bar> div 100))"
| "py_int (JStr s) = py_int_str s"
| "py_int _ = None"

subsection \<open>Truth, text and lists\<close>

fun truthy :: "json \<Rightarrow> bool" where
  "truthy JNull = False"
| "truthy (JBool b) = b"
| "truthy (JInt n) = (n \<noteq> 0)"
| "truthy (JStr s) = (s \<noteq> [])"
| "truthy (JUuid u) = True"
| "truthy (JMoney a) = (a \<noteq> 0)"
| "truthy (JList xs) = (xs \<noteq> [])"
| "truthy (JObj kvs) = (kvs \<noteq> [])"

text \<open>\<open>payload.get(key) or default\<close>.\<close>

definition get_or :: "payload \<Rightarrow> string \<Rightarrow> json \<Rightarrow> json" where
  "get_or doc key d =
     (case map_of doc key of None \<Rightarrow> d | Some v \<Rightarrow> if truthy v then v else d)"

definition digit_char :: "nat \<Rightarrow> char" where
  "digit_char n = char_of (48 + n)"

fun nat_str :: "nat \<Rightarrow> string" where
  "nat_str n = (if n < 10 then [digit_char n] else nat_str (n div 10) @ [digit_char (n mod 10)])"

declare nat_str.simps [simp del]

definition int_str :: "int \<Rightarrow> string" where
  "int_str n = (if n < 0 then ''-'' @ nat_str (nat (- n)) else nat_str (nat n))"

definition uuid_str :: "uuid \<Rightarrow> string" where
  "uuid_str u =
     (let h = hex_digits 32 u
      in take 8 h @ ''-'' @ take 4 (drop 8 h) @ ''-'' @ take 4 (drop 12 h) @ ''-''
         @ take 4 (drop 16 h) @ ''-'' @ drop 20 h)"

text \<open>\<open>repr\<close> of a \<open>float\<close> given in hundredths (below \<open>10 ^ 16\<close>, where \<open>repr\<close> has no exponent).\<close>

definition money_str :: "money \<Rightarrow> string" where
  "money_str a =
     (let c = nat \<bar>a\<bar>; r = c mod 100
      in (if a < 0 then ''-'' else []) @ nat_str (c div 100) @ ''.''
         @ (if r mod 10 = 0 then nat_str (r div 10) else [digit_char (r div 10), digit_char (r mod 10)]))"

fun comma_sep :: "string list \<Rightarrow> string" where
  "comma_sep [] = []"
| "comma_sep [s] = s"
| "comma_sep (s # t # ss) = s @ '', '' @ comma_sep (t # ss)"

fun py_repr :: "json \<Rightarrow> string" where
  "py_repr JNull = ''None''"
| "py_repr (JBool b) = (if b then ''True'' else ''False'')"
| "py_repr (JInt n) = int_str n"
| "py_repr (JStr s) = repr_str s"
| "py_repr (JUuid u) = repr_str (uuid_str u)"
| "py_repr (JMoney a) = money_str a"
| "py_repr (JList xs) = ''['' @ comma_sep (map py_repr xs) @ '']''"
| "py_repr (JObj kvs) = ''{'' @ comma_sep (map (\<lambda>(k, v). repr_str k @ '': '' @ py_repr v) kvs) @ ''}''"

fun py_str :: "json \<Rightarrow> string" where
  "py_str (JStr s) = s"
| "py_str (JUuid u) = uuid_str u"
| "py_str v = py_repr v"

text \<open>\<open>list(value)\<close>.\<close>

fun py_list :: "json \<Rightarrow> json list op" where
  "py_list (JList xs) = ret xs"
| "py_list (JStr s) = ret (map (\<lambda>c. JStr [c]) s)"
| "py_list (JUuid u) = ret (map (\<lambda>c. JStr [c]) (uuid_str u))"
| "py_list (JObj kvs) = ret (map (\<lambda>(k, _). JStr k) kvs)"
| "py_list _ = raise TypeError"

subsection \<open>Python's \<open>float()\<close>\<close>

datatype float_value = Decimal int int | Infinity bool | NaN

text \<open>\<open>Decimal m e\<close> is \<open>m * 10 ^ e\<close>, with \<open>m\<close> no multiple of ten unless it is zero.\<close>

function decimal :: "int \<Rightarrow> int \<Rightarrow> float_value" where
  "decimal m e = (if m = 0 then Decimal 0 0 else if m mod 10 = 0 then decimal (m div 10) (e + 1)
                  else Decimal m e)"
  by pat_completeness auto
termination by (relation "measure (\<lambda>(m, e). nat \<bar>m\<bar>)") auto

declare decimal.simps [simp del]

text \<open>Python's \<open>==\<close>: not a number is not equal to itself.\<close>

fun float_eq :: "float_value \<Rightarrow> float_value \<Rightarrow> bool" where
  "float_eq (Decimal m e) (Decimal n f) = (m = n \<and> e = f)"
| "float_eq (Infinity a) (Infinity b) = (a = b)"
| "float_eq _ _ = False"

fun digit_part :: "int \<Rightarrow> nat \<Rightarrow> string \<Rightarrow> int \<times> nat \<times> string" where
  "digit_part acc n [] = (acc, n, [])"
| "digit_part acc n [c] =
     (if is_digit c then (acc * 10 + digit_value c, Suc n, []) else (acc, n, [c]))"
| "digit_part acc n (c # d # cs) =
     (if is_digit c then digit_part (acc * 10 + digit_value c) (Suc n) (d # cs)
      else if c = CHR ''_'' \<and> 0 < n \<and> is_digit d then digit_part acc n (d # cs)
      else (acc, n, c # d # cs))"

definition signed :: "string \<Rightarrow> bool \<times> string" where
  "signed s = (case s of [] \<Rightarrow> (False, [])
     | c # cs \<Rightarrow> if c = CHR ''-'' then (True, cs) else if c = CHR ''+'' then (False, cs) else (False, c # cs))"

definition parse_exponent :: "string \<Rightarrow> int option" where
  "parse_exponent s =
     (case s of [] \<Rightarrow> Some 0
      | c # cs \<Rightarrow>
          if lower_char c = CHR ''e''
          then (case signed cs of (neg, ds) \<Rightarrow>
                  case digit_part 0 0 ds of (e, n, rest) \<Rightarrow>
                    if n = 0 \<or> rest \<noteq> [] then None else Some (if neg then - e else e))
          else None)"

definition parse_float :: "string \<Rightarrow> float_value option" where
  "parse_float s =
     (case signed (strip s) of (neg, body) \<Rightarrow>
        if lower body = ''inf'' \<or> lower body = ''infinity'' then Some (Infinity neg)
        else if lower body = ''nan'' then Some NaN
        else (case digit_part 0 0 body of (m, n, rest) \<Rightarrow>
          let (m', frac, rest') =
                (case rest of [] \<Rightarrow> (m, 0, [])
                 | c # cs \<Rightarrow> if c = CHR ''.''
                     then (case digit_part m 0 cs of (m', k, r) \<Rightarrow> (m', k, r)) else (m, 0, c # cs))
          in if n + frac = 0 then None
             else map_option (\<lambda>e. decimal (if neg then - m' else m') (e - int frac))
                    (parse_exponent rest')))"

fun py_float :: "json \<Rightarrow> float_value op" where
  "py_float (JInt n) = ret (decimal n 0)"
| "py_float (JBool b) = ret (decimal (if b then 1 else 0) 0)"
| "py_float (JMoney a) = ret (decimal a (-2))"
| "py_float (JStr s) = the_or (parse_float s) (ValueError ''could not convert string to float'')"
| "py_float (JUuid u) = the_or (parse_float (uuid_str u)) (ValueError ''could not convert string to float'')"
| "py_float _ = raise TypeError"

subsection \<open>The mean of ratings\<close>

text \<open>
  \<open>round(s / n, 1)\<close>, in tenths, for a mean of at least one half: the quotient is rounded to the nearest
  binary64 number (53 bits), and that number exactly to the nearest tenth, ties to even in both steps.
\<close>

definition round_half_even :: "int \<Rightarrow> int \<Rightarrow> int" where
  "round_half_even a b =
     (let q = a div b; r = 2 * (a mod b)
      in if r < b \<or> r = b \<and> even q then q else q + 1)"

fun scale_up :: "nat \<Rightarrow> int \<Rightarrow> int \<Rightarrow> nat" where
  "scale_up 0 s n = 0"
| "scale_up (Suc k) s n = (if s \<ge> n * 2 ^ 53 then 0 else Suc (scale_up k (2 * s) n))"

definition round1 :: "int \<Rightarrow> int \<Rightarrow> int" where
  "round1 s n =
     (let k = scale_up 60 s n - 1; m = round_half_even (s * 2 ^ k) n
      in round_half_even (10 * m) (2 ^ k))"

subsection \<open>\<open>LIKE\<close>\<close>

fun sql_like :: "string \<Rightarrow> string \<Rightarrow> bool" where
  "sql_like s [] = (s = [])"
| "sql_like s (p # ps) =
     (if p = CHR ''%'' then sql_like s ps \<or> (case s of [] \<Rightarrow> False | _ # s' \<Rightarrow> sql_like s' (p # ps))
      else if (of_char p :: nat) = 92
      then (case (ps, s) of (q # qs, c # s') \<Rightarrow> c = q \<and> sql_like s' qs | _ \<Rightarrow> False)
      else (case s of [] \<Rightarrow> False | c # s' \<Rightarrow> (p = CHR ''_'' \<or> c = p) \<and> sql_like s' ps))"

definition ilike_part :: "string \<Rightarrow> string \<Rightarrow> bool" where
  "ilike_part s q = sql_like (lower s) (''%'' @ lower q @ ''%'')"

subsection \<open>URLs\<close>

text \<open>
  The scheme and network location that \<open>urlparse\<close> finds: leading control characters and spaces are
  dropped, tabs and line breaks removed; the location ends at the first of \<open>/ ? #\<close>. \<open>None\<close> is the
  \<open>ValueError\<close> for unbalanced brackets (a bracketed host is not looked into).
\<close>

definition is_alpha :: "char \<Rightarrow> bool" where
  "is_alpha c = (let n = (of_char c :: nat) in 65 \<le> n \<and> n \<le> 90 \<or> 97 \<le> n \<and> n \<le> 122)"

definition scheme_char :: "char \<Rightarrow> bool" where
  "scheme_char c = (is_alpha c \<or> is_digit c \<or> c \<in> set ''+-.'')"

definition url_clean :: "string \<Rightarrow> string" where
  "url_clean s =
     filter (\<lambda>c. (of_char c :: nat) \<notin> {9, 10, 13}) (dropWhile (\<lambda>c. (of_char c :: nat) \<le> 32) s)"

definition split_scheme :: "string \<Rightarrow> string \<times> string" where
  "split_scheme s =
     (let pre = takeWhile (\<lambda>c. c \<noteq> CHR '':'') s
      in if length pre < length s \<and> pre \<noteq> [] \<and> is_alpha (hd pre) \<and> list_all scheme_char pre
         then (lower pre, drop (Suc (length pre)) s) else ([], s))"

definition url_netloc :: "string \<Rightarrow> string option" where
  "url_netloc rest =
     (if startswith rest ''//''
      then (let loc = takeWhile (\<lambda>c. c \<notin> set ''/?#'') (drop 2 rest)
            in if (CHR ''['' \<in> set loc) \<noteq> (CHR '']'' \<in> set loc) then None else Some loc)
      else Some [])"

definition https_url :: "string \<Rightarrow> bool option" where
  "https_url url =
     (case split_scheme (url_clean url) of (scheme, rest) \<Rightarrow>
        map_option (\<lambda>loc. scheme = ''https'' \<and> loc \<noteq> []) (url_netloc rest))"

subsection \<open>Slugs\<close>

definition slug_char :: "char \<Rightarrow> bool" where
  "slug_char c = (let n = (of_char c :: nat) in 97 \<le> n \<and> n \<le> 122 \<or> is_digit c)"

text \<open>\<open>_SLUG.match\<close> on stripped text: words of \<open>[a-z0-9]\<close> with single hyphens between them.\<close>

fun slug_from :: "bool \<Rightarrow> string \<Rightarrow> bool" where
  "slug_from in_word [] = in_word"
| "slug_from in_word (c # cs) =
     (if slug_char c then slug_from True cs else c = CHR ''-'' \<and> in_word \<and> slug_from False cs)"

definition is_slug :: "string \<Rightarrow> bool" where
  "is_slug s = slug_from False s"

text \<open>\<open>re.sub(r"[^a-z0-9]+", "-", s).strip("-")\<close>.\<close>

fun dash_runs :: "bool \<Rightarrow> string \<Rightarrow> string" where
  "dash_runs in_run [] = []"
| "dash_runs in_run (c # cs) =
     (if slug_char c then c # dash_runs False cs
      else if in_run then dash_runs True cs else CHR ''-'' # dash_runs True cs)"

definition strip_char :: "char \<Rightarrow> string \<Rightarrow> string" where
  "strip_char x s = rev (dropWhile (\<lambda>c. c = x) (rev (dropWhile (\<lambda>c. c = x) s)))"

end
