(* ===== verification/Returns.thy ===== *)
theory Returns
  imports Fulfilment Python_Values
begin

section \<open>Returns, refunds and reviews\<close>

text \<open>
  Journeys J46, J52 and J53 in \<open>CommerceService\<close>: a member asks for the return of an order line, the
  vendor approves it with an amount of at most the line total or rejects it, and issues the approved
  refund; a member reviews a line once. The amount is a \<open>Decimal\<close>, which may be finer than the
  hundredths of the column that stores it. \<open>next(...)\<close> over a list without the element raises
  \<open>StopIteration\<close>.
\<close>

definition refund_methods :: "string list" where
  "refund_methods = [''original'', ''wallet'', ''upi'']"

definition returnable_statuses :: "string list" where
  "returnable_statuses = [''placed'', ''fulfilled'', ''partial'', ''processing'', ''delivered'']"

record return_view =
  rvw_return_id :: uuid
  rvw_order_id :: uuid
  rvw_line_id :: uuid
  rvw_product_name :: string
  rvw_reason :: string
  rvw_status :: string

definition return_view_of :: "return_row \<Rightarrow> order_line_row \<Rightarrow> return_view" where
  "return_view_of item line =
     \<lparr>rvw_return_id = ret_id item, rvw_order_id = ret_order_id item, rvw_line_id = ret_line_id item,
      rvw_product_name = oln_product_name line, rvw_reason = ret_reason item,
      rvw_status = ret_status item\<rparr>"

definition requested_returns :: "database \<Rightarrow> uuid \<Rightarrow> return_row list" where
  "requested_returns d line_id =
     filter (\<lambda>r. ret_line_id r = line_id \<and> ret_status r = ''requested'') (returns d)"

definition order_line_of_order :: "order_row \<Rightarrow> uuid \<Rightarrow> order_line_row op" where
  "order_line_of_order order line_id =
     bindE (reads (\<lambda>d. get_row oln_id line_id (order_lines d))) (\<lambda>found.
     the_or (case found of None \<Rightarrow> None
             | Some l \<Rightarrow> if oln_order_id l \<noteq> ord_id order then None else Some l)
       (NotFoundError ''order line not found''))"

definition request_return :: "uuid \<Rightarrow> uuid \<Rightarrow> uuid \<Rightarrow> string \<Rightarrow> string \<Rightarrow> return_view op" where
  "request_return order_id caller line_id reason notes =
     bindE (reads (\<lambda>d. get_row ord_id order_id (orders d))) (\<lambda>found.
     bindE (the_or found (NotFoundError ''order not found'')) (\<lambda>order.
     bindE (require_member (ord_tenant_id order) caller) (\<lambda>_.
     bindE (raise_if (ord_status order \<notin> set returnable_statuses)
              (ValidationError ''order cannot accept a return in its current status'')) (\<lambda>_.
     bindE (order_line_of_order order line_id) (\<lambda>line.
     bindE (raise_if (strip reason = []) (ValidationError ''reason is required'')) (\<lambda>_.
     bindE (reads (\<lambda>d. requested_returns d (oln_id line))) (\<lambda>rows.
     bindE (one_or_none rows) (\<lambda>open_return.
     bindE (raise_if (open_return \<noteq> None)
              (ConflictError ''a return is already open for this line'')) (\<lambda>_.
     bindE uuid4 (\<lambda>i.
     bindE utcnow (\<lambda>now.
     let row = \<lparr>ret_id = i, ret_order_id = ord_id order, ret_line_id = oln_id line,
                ret_reason = strip reason, ret_notes = strip notes, ret_status = ''requested'',
                ret_refund_amount = None, ret_refund_currency = ''INR'', ret_refund_method = None,
                ret_vendor_notes = [], ret_decided_at = None, ret_refunded_at = None,
                ret_created_at = now\<rparr> in
     bindE (modifies (returns_update (\<lambda>rows. rows @ [row]))) (\<lambda>_.
     bindE (audit ''return.requested'' (Some caller) (Some (ord_tenant_id order))
              [(''return_id'', JUuid i), (''order_id'', JUuid (ord_id order)),
               (''line_id'', JUuid (oln_id line))]) (\<lambda>_.
     bindE commit (\<lambda>_.
     ret (return_view_of row line)))))))))))))))"

definition list_returns :: "uuid \<Rightarrow> uuid \<Rightarrow> return_view list op" where
  "list_returns tenant caller =
     bindE (require_member tenant caller) (\<lambda>_.
     reads (\<lambda>d.
       [return_view_of item line. (item, line) \<leftarrow> sort_desc (\<lambda>(item, _). ret_created_at item)
          [(item, line). item \<leftarrow> returns d, order \<leftarrow> orders d, line \<leftarrow> order_lines d,
             ord_id order = ret_order_id item \<and> oln_id line = ret_line_id item
             \<and> ord_tenant_id order = tenant]]))"

subsection \<open>The vendor's side\<close>

record vendor_return =
  vrt_return_id :: uuid
  vrt_order_id :: uuid
  vrt_line_id :: uuid
  vrt_product_name :: string
  vrt_reason :: string
  vrt_notes :: string
  vrt_status :: string
  vrt_created_at :: instant
  vrt_customer_name :: string
  vrt_quantity :: int
  vrt_amount :: money
  vrt_currency :: string
  vrt_refund_amount :: "float_value option"
  vrt_refund_currency :: string
  vrt_refund_method :: "string option"
  vrt_vendor_notes :: string
  vrt_decided_at :: "instant option"
  vrt_refunded_at :: "instant option"

definition vendor_return_of ::
  "return_row \<Rightarrow> order_line_row \<Rightarrow> tenant_row \<Rightarrow> address_row option \<Rightarrow> vendor_return"
where
  "vendor_return_of item line tenant address =
     \<lparr>vrt_return_id = ret_id item, vrt_order_id = ret_order_id item, vrt_line_id = ret_line_id item,
      vrt_product_name = oln_product_name line, vrt_reason = ret_reason item,
      vrt_notes = ret_notes item, vrt_status = ret_status item, vrt_created_at = ret_created_at item,
      vrt_customer_name = (case address of None \<Rightarrow> ten_name tenant | Some a \<Rightarrow> adr_contact_name a),
      vrt_quantity = oln_quantity line, vrt_amount = line_total line,
      vrt_currency = str_or (Some (oln_currency line)) ''INR'',
      vrt_refund_amount = map_option (\<lambda>a. decimal a (-2)) (ret_refund_amount item),
      vrt_refund_currency = str_or (Some (ret_refund_currency item)) ''INR'',
      vrt_refund_method = ret_refund_method item, vrt_vendor_notes = ret_vendor_notes item,
      vrt_decided_at = ret_decided_at item, vrt_refunded_at = ret_refunded_at item\<rparr>"

definition vendor_returns_of :: "database \<Rightarrow> uuid \<Rightarrow> vendor_return list" where
  "vendor_returns_of d vendor =
     [vendor_return_of item line tenant address.
      (item, line, tenant, address) \<leftarrow> sort_desc (\<lambda>(item, _). ret_created_at item)
        [(item, line, tenant, address).
           item \<leftarrow> returns d, line \<leftarrow> order_lines d, order \<leftarrow> orders d, offering \<leftarrow> offerings d,
           product \<leftarrow> products d, tenant \<leftarrow> tenants d, address \<leftarrow> address_join d order,
           oln_id line = ret_line_id item \<and> ord_id order = ret_order_id item
           \<and> off_id offering = oln_offering_id line \<and> prd_id product = off_product_id offering
           \<and> ten_id tenant = ord_tenant_id order \<and> prd_vendor_id product = vendor]]"

definition list_vendor_returns :: "uuid \<Rightarrow> uuid \<Rightarrow> vendor_return list op" where
  "list_vendor_returns vendor caller =
     bindE (require_vendor_owner vendor caller) (\<lambda>_. reads (\<lambda>d. vendor_returns_of d vendor))"

definition vendor_return_rows :: "database \<Rightarrow> uuid \<Rightarrow> uuid \<Rightarrow> (return_row \<times> order_line_row) list" where
  "vendor_return_rows d vendor return_id =
     [(item, line). item \<leftarrow> returns d, line \<leftarrow> order_lines d, offering \<leftarrow> offerings d, product \<leftarrow> products d,
        oln_id line = ret_line_id item \<and> off_id offering = oln_offering_id line
        \<and> prd_id product = off_product_id offering \<and> ret_id item = return_id
        \<and> prd_vendor_id product = vendor]"

definition vendor_return_row :: "uuid \<Rightarrow> uuid \<Rightarrow> (return_row \<times> order_line_row) op" where
  "vendor_return_row vendor return_id =
     bindE (reads (\<lambda>d. vendor_return_rows d vendor return_id)) (\<lambda>rows.
     bindE (one_or_none rows) (\<lambda>row.
     the_or row (NotFoundError ''return not found'')))"

definition listed_return :: "uuid \<Rightarrow> uuid \<Rightarrow> uuid \<Rightarrow> vendor_return op" where
  "listed_return vendor caller return_id =
     bindE (list_vendor_returns vendor caller) (\<lambda>items.
     the_or (find (\<lambda>item. vrt_return_id item = return_id) items) StopIteration)"

definition reject_return :: "uuid \<Rightarrow> uuid \<Rightarrow> uuid \<Rightarrow> unit op" where
  "reject_return vendor return_id caller =
     bindE (modifies (returns_update (upd_row ret_id return_id (\<lambda>r. r\<lparr>ret_status := ''rejected''\<rparr>)))) (\<lambda>_.
     audit ''return.rejected'' (Some caller) None
       [(''return_id'', JUuid return_id), (''vendor_id'', JUuid vendor)])"

text \<open>
  The route hands over \<open>Decimal(str(body.refund_amount))\<close>: the decimal \<open>m * 10 ^ e\<close> the client wrote,
  or an infinity or not a number, which the request model lets through. Comparing not a number raises
  \<open>decimal.InvalidOperation\<close>. The comparison with the line total is exact: \<open>cents_num m e / cents_den e\<close> is
  the amount in hundredths.
\<close>

definition cents_num :: "int \<Rightarrow> int \<Rightarrow> int" where
  "cents_num m e = m * 10 ^ nat (e + 2)"

definition cents_den :: "int \<Rightarrow> int" where
  "cents_den e = 10 ^ nat (- e - 2)"

fun refund_in_bounds :: "float_value \<Rightarrow> money \<Rightarrow> (int \<times> int) op" where
  "refund_in_bounds NaN limit = raise InvalidOperation"
| "refund_in_bounds (Infinity negative) limit =
     raise (ValidationError ''refund_amount must be greater than zero and at most the line total'')"
| "refund_in_bounds (Decimal m e) limit =
     (if m \<le> 0 \<or> cents_num m e > limit * cents_den e
      then raise (ValidationError ''refund_amount must be greater than zero and at most the line total'')
      else ret (m, e))"

text \<open>
  What the column \<open>Numeric(12, 2)\<close> keeps of the amount: PostgreSQL rounds to the nearest hundredth, ties
  away from zero.
\<close>

definition numeric_cents :: "int \<Rightarrow> int \<Rightarrow> money" where
  "numeric_cents m e =
     sgn (cents_num m e) * ((2 * \<bar>cents_num m e\<bar> + cents_den e) div (2 * cents_den e))"

text \<open>\<open>str\<close> of a positive \<open>Decimal\<close> with the digits of \<open>m\<close> and the exponent \<open>e\<close>.\<close>

definition decimal_str :: "int \<Rightarrow> int \<Rightarrow> string" where
  "decimal_str m e =
     (let digits = nat_str (nat m); left = e + int (length digits);
          dot = (if e \<le> 0 \<and> -6 < left then left else 1);
          body = (if dot \<le> 0 then ''0.'' @ replicate (nat (- dot)) (CHR ''0'') @ digits
                  else if int (length digits) \<le> dot
                  then digits @ replicate (nat (dot - int (length digits))) (CHR ''0'')
                  else take (nat dot) digits @ ''.'' @ drop (nat dot) digits)
      in if left = dot then body
         else body @ ''E'' @ (if 0 \<le> left - dot then ''+'' else []) @ int_str (left - dot))"

definition approve_return ::
  "uuid \<Rightarrow> uuid \<Rightarrow> uuid \<Rightarrow> order_line_row \<Rightarrow> float_value option \<Rightarrow> string option \<Rightarrow> unit op"
where
  "approve_return vendor return_id caller line refund_amount refund_method =
     bindE (the_or refund_amount (ValidationError ''refund_amount is required when approving'')) (\<lambda>amount.
     bindE (refund_in_bounds amount (line_total line)) (\<lambda>(m, e).
     let method = lower (strip (str_or refund_method [])) in
     bindE (raise_if (method \<notin> set refund_methods)
              (ValidationError ''refund_method must be one of original, upi, wallet'')) (\<lambda>_.
     bindE (modifies (returns_update (upd_row ret_id return_id (\<lambda>r.
              r\<lparr>ret_status := ''approved'', ret_refund_amount := Some (numeric_cents m e),
                ret_refund_currency := str_or (Some (oln_currency line)) ''INR'',
                ret_refund_method := Some method\<rparr>)))) (\<lambda>_.
     audit ''return.approved'' (Some caller) None
       [(''return_id'', JUuid return_id), (''vendor_id'', JUuid vendor),
        (''refund_amount'', JStr (decimal_str m e)), (''refund_method'', JStr method)]))))"

text \<open>
  The answer of an approval shows the amount that was asked for, as a \<open>float\<close>: the row in the session
  is not read again after the commit (\<open>expire_on_commit=False\<close>), so the rounding shows later.
\<close>

definition decided_answer :: "string \<Rightarrow> float_value option \<Rightarrow> vendor_return \<Rightarrow> vendor_return" where
  "decided_answer decision refund_amount item =
     (if decision = ''rejected'' then item
      else item\<lparr>vrt_refund_amount := map_option (case_float_value decimal Infinity NaN) refund_amount\<rparr>)"

definition decide_vendor_return ::
  "uuid \<Rightarrow> uuid \<Rightarrow> uuid \<Rightarrow> string \<Rightarrow> float_value option \<Rightarrow> string option \<Rightarrow> string option \<Rightarrow> vendor_return op"
where
  "decide_vendor_return vendor return_id caller decision refund_amount refund_method vendor_notes =
     bindE (require_vendor_owner vendor caller) (\<lambda>_.
     bindE (vendor_return_row vendor return_id) (\<lambda>(row, line).
     bindE (raise_if (ret_status row \<noteq> ''requested'')
              (ConflictError ''return is not awaiting review'')) (\<lambda>_.
     let cleaned = lower (strip decision) in
     bindE (raise_if (cleaned \<notin> {''approved'', ''rejected''})
              (ValidationError ''decision must be approved or rejected'')) (\<lambda>_.
     bindE utcnow (\<lambda>now.
     bindE (modifies (returns_update (upd_row ret_id (ret_id row) (\<lambda>r.
              r\<lparr>ret_vendor_notes := strip (str_or vendor_notes []), ret_decided_at := Some now\<rparr>)))) (\<lambda>_.
     bindE (if cleaned = ''rejected'' then reject_return vendor (ret_id row) caller
            else approve_return vendor (ret_id row) caller line refund_amount refund_method) (\<lambda>_.
     bindE commit (\<lambda>_.
     bindE (listed_return vendor caller return_id) (\<lambda>item.
     ret (decided_answer cleaned refund_amount item))))))))))"

definition issue_vendor_return_refund :: "uuid \<Rightarrow> uuid \<Rightarrow> uuid \<Rightarrow> vendor_return op" where
  "issue_vendor_return_refund vendor return_id caller =
     bindE (require_vendor_owner vendor caller) (\<lambda>_.
     bindE (vendor_return_row vendor return_id) (\<lambda>(row, _).
     bindE (raise_if (ret_status row \<noteq> ''approved'')
              (ConflictError ''return must be approved before refunding'')) (\<lambda>_.
     bindE utcnow (\<lambda>now.
     bindE (modifies (returns_update (upd_row ret_id (ret_id row) (\<lambda>r.
              r\<lparr>ret_status := ''refunded'', ret_refunded_at := Some now\<rparr>)))) (\<lambda>_.
     bindE (audit ''return.refunded'' (Some caller) None
              [(''return_id'', JUuid (ret_id row)), (''vendor_id'', JUuid vendor),
               (''refund_amount'', case ret_refund_amount row of None \<Rightarrow> JNull
                                   | Some a \<Rightarrow> JMoney a)]) (\<lambda>_.
     bindE commit (\<lambda>_.
     listed_return vendor caller return_id)))))))"

subsection \<open>Reviews\<close>

record created_review =
  crv_review_id :: uuid
  crv_order_id :: uuid
  crv_line_id :: uuid
  crv_product_name :: string
  crv_rating :: int
  crv_comment :: string

record vendor_review =
  vrv_review_id :: uuid
  vrv_customer_name :: string
  vrv_product_name :: string
  vrv_rating :: int
  vrv_comment :: string
  vrv_created_at :: instant

definition line_reviews :: "database \<Rightarrow> uuid \<Rightarrow> product_review_row list" where
  "line_reviews d line_id = filter (\<lambda>r. rev_line_id r = line_id) (product_reviews d)"

definition create_review ::
  "uuid \<Rightarrow> uuid \<Rightarrow> uuid \<Rightarrow> uuid \<Rightarrow> int \<Rightarrow> string \<Rightarrow> created_review op"
where
  "create_review tenant caller order_id line_id rating comment =
     bindE (require_member tenant caller) (\<lambda>_.
     bindE (raise_if (rating < 1 \<or> rating > 5)
              (ValidationError ''rating must be between 1 and 5'')) (\<lambda>_.
     bindE (reads (\<lambda>d. get_row ord_id order_id (orders d))) (\<lambda>found.
     bindE (the_or (case found of None \<Rightarrow> None
              | Some r \<Rightarrow> if ord_tenant_id r \<noteq> tenant then None else Some r)
              (NotFoundError ''order not found'')) (\<lambda>order.
     bindE (order_line_of_order order line_id) (\<lambda>line.
     bindE (reads (\<lambda>d. line_reviews d (oln_id line))) (\<lambda>rows.
     bindE (one_or_none rows) (\<lambda>existing.
     bindE (raise_if (existing \<noteq> None) (ConflictError ''this line already has a review'')) (\<lambda>_.
     bindE (reads (\<lambda>d. [product. product \<leftarrow> products d, offering \<leftarrow> offerings d,
              off_product_id offering = prd_id product \<and> off_id offering = oln_offering_id line])) (\<lambda>products.
     bindE (one_or_none products) (\<lambda>found_product.
     bindE (the_or found_product (NotFoundError ''product not found'')) (\<lambda>product.
     bindE uuid4 (\<lambda>i.
     bindE utcnow (\<lambda>now.
     bindE (modifies (product_reviews_update (\<lambda>rows. rows @
        [\<lparr>rev_id = i, rev_vendor_id = prd_vendor_id product, rev_product_id = prd_id product,
          rev_order_id = ord_id order, rev_line_id = oln_id line, rev_tenant_id = tenant,
          rev_rating = rating, rev_comment = strip comment, rev_created_at = now\<rparr>]))) (\<lambda>_.
     bindE (audit ''review.created'' (Some caller) (Some tenant)
              [(''review_id'', JUuid i), (''order_id'', JUuid (ord_id order)),
               (''line_id'', JUuid (oln_id line)), (''rating'', JInt rating)]) (\<lambda>_.
     bindE commit (\<lambda>_.
     ret \<lparr>crv_review_id = i, crv_order_id = ord_id order, crv_line_id = oln_id line,
          crv_product_name = oln_product_name line, crv_rating = rating,
          crv_comment = strip comment\<rparr>))))))))))))))))"

definition list_vendor_reviews :: "uuid \<Rightarrow> uuid \<Rightarrow> vendor_review list op" where
  "list_vendor_reviews vendor caller =
     bindE (require_vendor_owner vendor caller) (\<lambda>_.
     reads (\<lambda>d.
       [\<lparr>vrv_review_id = rev_id review,
         vrv_customer_name = (case address of None \<Rightarrow> ten_name tenant | Some a \<Rightarrow> adr_contact_name a),
         vrv_product_name = oln_product_name line, vrv_rating = rev_rating review,
         vrv_comment = rev_comment review, vrv_created_at = rev_created_at review\<rparr>.
        (review, line, tenant, address) \<leftarrow> sort_desc (\<lambda>(review, _). rev_created_at review)
          [(review, line, tenant, address).
             review \<leftarrow> product_reviews d, line \<leftarrow> order_lines d, order \<leftarrow> orders d, tenant \<leftarrow> tenants d,
             address \<leftarrow> address_join d order,
             oln_id line = rev_line_id review \<and> ord_id order = rev_order_id review
             \<and> ten_id tenant = rev_tenant_id review \<and> rev_vendor_id review = vendor]]))"

end
