(* ===== verification/Subscriptions.thy ===== *)
theory Subscriptions
  imports Fulfilment
begin

section \<open>Subscriptions\<close>

text \<open>
  Journey J47 in \<open>CommerceService\<close>: the recurring installations and order lines of a tenant, and
  scheduling the end of one of them.
\<close>

definition running :: "string list" where
  "running = [''active'', ''cancel_at_period_end'']"

record subscription_view =
  sbv_offering_id :: uuid
  sbv_product_name :: string
  sbv_plan_name :: string
  sbv_status :: string
  sbv_next_billing_at :: "instant option"

definition recurring_installs ::
  "database \<Rightarrow> uuid \<Rightarrow> (installation_row \<times> offering_row \<times> product_row) list"
where
  "recurring_installs d tenant =
     [(installation, offering, product).
        installation \<leftarrow> installations d, offering \<leftarrow> offerings d, product \<leftarrow> products d,
        off_id offering = ins_offering_id installation \<and> prd_id product = off_product_id offering
        \<and> ins_tenant_id installation = tenant \<and> ins_status installation \<in> set running
        \<and> off_billing_period offering \<noteq> ''one_time'']"

definition recurring_lines :: "database \<Rightarrow> uuid \<Rightarrow> (order_line_row \<times> offering_row) list" where
  "recurring_lines d tenant =
     [(line, offering).
        line \<leftarrow> order_lines d, order \<leftarrow> orders d, offering \<leftarrow> offerings d,
        ord_id order = oln_order_id line \<and> off_id offering = oln_offering_id line
        \<and> ord_tenant_id order = tenant \<and> oln_status line \<in> set running
        \<and> oln_billing_period line \<noteq> ''one_time'']"

definition list_subscriptions ::
  "authz_ports \<Rightarrow> uuid \<Rightarrow> uuid \<Rightarrow> string option \<Rightarrow> subscription_view list op"
where
  "list_subscriptions P tenant caller_principal request_id =
     bindE (require_permission P caller_principal tenant ''resource.read'' request_id) (\<lambda>_.
     bindE (reads (\<lambda>d. recurring_installs d tenant)) (\<lambda>installs.
     bindE (map_each installs (\<lambda>(installation, offering, product).
              bindE (next_bill (Some (ins_created_at installation)) (off_billing_period offering)) (\<lambda>next.
              ret \<lparr>sbv_offering_id = off_id offering, sbv_product_name = prd_name product,
                   sbv_plan_name = off_plan_name offering, sbv_status = ins_status installation,
                   sbv_next_billing_at = next\<rparr>))) (\<lambda>items.
     bindE (reads (\<lambda>d. recurring_lines d tenant)) (\<lambda>lines.
     let seen = map sbv_offering_id items in
     bindE (map_each (filter (\<lambda>(line, _). oln_offering_id line \<notin> set seen) lines) (\<lambda>(line, offering).
              bindE (next_bill None (off_billing_period offering)) (\<lambda>next.
              ret \<lparr>sbv_offering_id = oln_offering_id line, sbv_product_name = oln_product_name line,
                   sbv_plan_name = oln_plan_name line, sbv_status = oln_status line,
                   sbv_next_billing_at = next\<rparr>))) (\<lambda>more.
     ret (items @ more))))))"

definition active_installs :: "database \<Rightarrow> uuid \<Rightarrow> uuid \<Rightarrow> installation_row list" where
  "active_installs d tenant offering_id =
     filter (\<lambda>r. ins_tenant_id r = tenant \<and> ins_offering_id r = offering_id \<and> ins_status r = ''active'')
       (installations d)"

definition active_lines :: "database \<Rightarrow> uuid \<Rightarrow> uuid \<Rightarrow> order_line_row list" where
  "active_lines d tenant offering_id =
     [line. line \<leftarrow> order_lines d, order \<leftarrow> orders d,
        ord_id order = oln_order_id line \<and> ord_tenant_id order = tenant
        \<and> oln_offering_id line = offering_id \<and> oln_status line = ''active'']"

text \<open>The branch for an installation.\<close>

definition cancel_installation ::
  "uuid \<Rightarrow> uuid \<Rightarrow> uuid \<Rightarrow> installation_row \<Rightarrow> subscription_view op"
where
  "cancel_installation tenant caller_user offering_id installation =
     bindE (modifies (installations_update (upd_row ins_id (ins_id installation)
              (\<lambda>r. r\<lparr>ins_status := ''cancel_at_period_end''\<rparr>)))) (\<lambda>_.
     bindE (reads (\<lambda>d. get_row off_id offering_id (offerings d))) (\<lambda>offering.
     bindE (reads (\<lambda>d. case offering of None \<Rightarrow> None
              | Some off \<Rightarrow> get_row prd_id (off_product_id off) (products d))) (\<lambda>product.
     bindE (audit ''subscription.cancel_scheduled'' (Some caller_user) (Some tenant)
              [(''offering_id'', JUuid offering_id),
               (''installation_id'', JUuid (ins_id installation))]) (\<lambda>_.
     bindE commit (\<lambda>_.
     bindE (next_bill (Some (ins_created_at installation))
              (case offering of None \<Rightarrow> ''monthly'' | Some off \<Rightarrow> off_billing_period off)) (\<lambda>next.
     ret \<lparr>sbv_offering_id = offering_id,
          sbv_product_name = (case product of None \<Rightarrow> [] | Some p \<Rightarrow> prd_name p),
          sbv_plan_name = (case offering of None \<Rightarrow> [] | Some off \<Rightarrow> off_plan_name off),
          sbv_status = ''cancel_at_period_end'', sbv_next_billing_at = next\<rparr>))))))"

text \<open>The branch for an order line.\<close>

definition cancel_line :: "uuid \<Rightarrow> uuid \<Rightarrow> uuid \<Rightarrow> order_line_row \<Rightarrow> subscription_view op" where
  "cancel_line tenant caller_user offering_id line =
     bindE (modifies (order_lines_update (upd_row oln_id (oln_id line)
              (\<lambda>l. l\<lparr>oln_status := ''cancel_at_period_end''\<rparr>)))) (\<lambda>_.
     bindE (audit ''subscription.cancel_scheduled'' (Some caller_user) (Some tenant)
              [(''offering_id'', JUuid offering_id), (''line_id'', JUuid (oln_id line))]) (\<lambda>_.
     bindE commit (\<lambda>_.
     bindE (next_bill None (oln_billing_period line)) (\<lambda>next.
     ret \<lparr>sbv_offering_id = offering_id, sbv_product_name = oln_product_name line,
          sbv_plan_name = oln_plan_name line, sbv_status = ''cancel_at_period_end'',
          sbv_next_billing_at = next\<rparr>))))"

definition cancel_subscription ::
  "authz_ports \<Rightarrow> uuid \<Rightarrow> uuid \<Rightarrow> uuid \<Rightarrow> uuid \<Rightarrow> string option \<Rightarrow> subscription_view op"
where
  "cancel_subscription P tenant caller_user caller_principal offering_id request_id =
     bindE (require_permission P caller_principal tenant ''resource.create'' request_id) (\<lambda>_.
     bindE (reads (\<lambda>d. active_installs d tenant offering_id)) (\<lambda>installs.
     bindE (one_or_none installs) (\<lambda>installation.
     case installation of
       Some i \<Rightarrow> cancel_installation tenant caller_user offering_id i
     | None \<Rightarrow>
         bindE (reads (\<lambda>d. active_lines d tenant offering_id)) (\<lambda>lines.
         bindE (one_or_none lines) (\<lambda>found.
         bindE (the_or found (NotFoundError ''subscription not found'')) (\<lambda>line.
         cancel_line tenant caller_user offering_id line))))))"

end
