(* ===== verification/Fulfilment_Rules.thy ===== *)
theory Fulfilment_Rules
  imports Fulfilment
begin

section \<open>The fulfilment machine\<close>

text \<open>
  The abstract machine behind the status strings of a fulfilment, ordered by progress, with its step
  relation; the transition table of the source refines it. Then what each request does to the
  fulfilments, and the invariant that every request keeps.
\<close>

datatype fstate = Placed | Confirmed | Processing | Delayed | Ready_To_Ship | Shipped | Delivered | Cancelled

fun rank :: "fstate \<Rightarrow> nat" where
  "rank Placed = 0"
| "rank Confirmed = 1"
| "rank Processing = 2"
| "rank Delayed = 3"
| "rank Ready_To_Ship = 4"
| "rank Shipped = 5"
| "rank Delivered = 6"
| "rank Cancelled = 7"

lemma rank_inject [simp]: "rank s = rank t \<longleftrightarrow> s = t"
  by (cases s; cases t) simp_all

instantiation fstate :: linorder
begin

definition less_eq_fstate :: "fstate \<Rightarrow> fstate \<Rightarrow> bool" where
  "less_eq_fstate s t \<longleftrightarrow> rank s \<le> rank t"

definition less_fstate :: "fstate \<Rightarrow> fstate \<Rightarrow> bool" where
  "less_fstate s t \<longleftrightarrow> rank s < rank t"

instance
  by standard (auto simp: less_eq_fstate_def less_fstate_def)

end

inductive fmoves :: "fstate \<Rightarrow> fstate \<Rightarrow> bool" where
  confirm: "fmoves Placed Confirmed"
| reject: "fmoves Placed Cancelled"
| process: "fmoves Confirmed Processing"
| delay: "fmoves Processing Delayed"
| ready: "fmoves Processing Ready_To_Ship"
| resume: "fmoves Delayed Ready_To_Ship"
| ship: "fmoves Ready_To_Ship Shipped"
| deliver: "fmoves Shipped Delivered"

inductive_simps fmoves_from [simp]:
  "fmoves Placed t" "fmoves Confirmed t" "fmoves Processing t" "fmoves Delayed t"
  "fmoves Ready_To_Ship t" "fmoves Shipped t" "fmoves Delivered t" "fmoves Cancelled t"

lemma fmoves_less: "fmoves s t \<Longrightarrow> s < t"
  by (induction rule: fmoves.induct) (simp_all add: less_fstate_def)

lemma fmoves_le: "fmoves\<^sup>*\<^sup>* s t \<Longrightarrow> s \<le> t"
  by (induction rule: rtranclp_induct) (auto dest: fmoves_less)

lemma terminal_stuck:
  assumes "fmoves\<^sup>*\<^sup>* s t" and "s \<in> {Delivered, Cancelled}"
  shows "t = s"
  using assms by (induction rule: rtranclp_induct) auto

text \<open>The strings of the source.\<close>

fun status_of :: "fstate \<Rightarrow> string" where
  "status_of Placed = ''placed''"
| "status_of Confirmed = ''confirmed''"
| "status_of Processing = ''processing''"
| "status_of Delayed = ''delayed''"
| "status_of Ready_To_Ship = ''ready_to_ship''"
| "status_of Shipped = ''shipped''"
| "status_of Delivered = ''delivered''"
| "status_of Cancelled = ''cancelled''"

lemma status_of_inject [simp]: "status_of s = status_of t \<longleftrightarrow> s = t"
  by (cases s; cases t) simp_all

lemma known_statuses [simp]:
  "''placed'' \<in> range status_of" "''confirmed'' \<in> range status_of"
  "''processing'' \<in> range status_of" "''delayed'' \<in> range status_of"
  "''ready_to_ship'' \<in> range status_of" "''shipped'' \<in> range status_of"
  "''delivered'' \<in> range status_of" "''cancelled'' \<in> range status_of"
  by (metis rangeI status_of.simps)+

lemma allowed_next_status_of:
  "t' \<in> set (allowed_next (status_of s)) \<longleftrightarrow> (\<exists>t. t' = status_of t \<and> fmoves s t)"
  by (cases s) (auto simp: allowed_next_def fulfilment_transitions_def conj_disj_distribL ex_disj_distrib)

lemma allowed_next_known:
  assumes "t \<in> set (allowed_next s)"
  shows "\<exists>a b. s = status_of a \<and> t = status_of b \<and> fmoves a b"
proof -
  from assms obtain ts where "map_of fulfilment_transitions s = Some ts"
    by (cases "map_of fulfilment_transitions s") (auto simp: allowed_next_def)
  then have "s \<in> fst ` set fulfilment_transitions" by (force dest: map_of_SomeD)
  then have "s \<in> status_of ` {Placed, Confirmed, Processing, Delayed, Ready_To_Ship, Shipped}"
    by (auto simp: fulfilment_transitions_def)
  then obtain a where "s = status_of a" by blast
  with assms show ?thesis by (auto simp: allowed_next_status_of)
qed

subsection \<open>The roll-up\<close>

definition rolled :: "uuid \<Rightarrow> database \<Rightarrow> database" where
  "rolled order_id d =
     (if get_row ord_id order_id (orders d) = None \<or> order_fulfilments d order_id = [] then d
      else orders_update (upd_row ord_id order_id
             (\<lambda>r. r\<lparr>ord_status := rollup_status (map ful_status (order_fulfilments d order_id))\<rparr>)) d)"

lemma rollup_run [run_simps]: "rollup_order_status i w = (Inr (), w\<lparr>db := rolled i (db w)\<rparr>)"
  by (simp add: rollup_order_status_def rolled_def run_simps)

lemma step_ok_rollup [step_ok]:
  "bindE (rollup_order_status i) f w = (Inr y, w') \<longleftrightarrow> f () (w\<lparr>db := rolled i (db w)\<rparr>) = (Inr y, w')"
  by (simp add: bindE_run rollup_run)

lemma step_run_rollup [step_run]:
  "bindE (rollup_order_status i) f w = f () (w\<lparr>db := rolled i (db w)\<rparr>)"
  by (simp add: bindE_run rollup_run)

lemma rolled_fields [simp]:
  "vendor_fulfilments (rolled i d) = vendor_fulfilments d" "order_lines (rolled i d) = order_lines d"
  "order_fulfilments (rolled i d) o' = order_fulfilments d o'"
  "fulfilment_rows (rolled i d) o' v = fulfilment_rows d o' v"
  by (simp_all add: rolled_def order_fulfilments_def fulfilment_rows_def)

lemma rolled_status:
  assumes "get_row ord_id i (orders d) = Some r" and "order_fulfilments d i \<noteq> []"
  shows "get_row ord_id i (orders (rolled i d))
    = Some (r\<lparr>ord_status := rollup_status (map ful_status (order_fulfilments d i))\<rparr>)"
  using assms by (simp add: rolled_def get_row_upd_row)

subsection \<open>What the vendor's requests do\<close>

definition written ::
  "vendor_fulfilment_row option \<Rightarrow> vendor_fulfilment_row \<Rightarrow> vendor_fulfilment_row list \<Rightarrow> vendor_fulfilment_row list"
where
  "written current row rows =
     (case current of None \<Rightarrow> rows @ [row] | Some r \<Rightarrow> upd_row ful_id (ful_id r) (\<lambda>_. row) rows)"

definition next_row ::
  "uuid \<Rightarrow> instant \<Rightarrow> uuid \<Rightarrow> uuid \<Rightarrow> vendor_fulfilment_row option \<Rightarrow> string \<Rightarrow> string \<Rightarrow> string
    \<Rightarrow> vendor_fulfilment_row"
where
  "next_row n now vendor order_id current status courier tracking =
     (case current of
        None \<Rightarrow> \<lparr>ful_id = n, ful_order_id = order_id, ful_vendor_id = vendor, ful_status = status,
             ful_courier = (if status = ''shipped'' then courier else []),
             ful_tracking_number = (if status = ''shipped'' then tracking else []),
             ful_refund_status = ''none'', ful_refund_amount = None, ful_updated_at = now\<rparr>
      | Some row \<Rightarrow> moved_row status courier tracking now row)"

definition supply_after :: "'a option \<Rightarrow> uuid \<Rightarrow> uuid" where
  "supply_after current n = (case current of None \<Rightarrow> Suc n | Some _ \<Rightarrow> n)"

lemma move_fulfilment_run:
  "move_fulfilment v i current s c t w =
     (let row = next_row (next_uuid w) (clock w) v i current s c t
      in (Inr row, w\<lparr>next_uuid := supply_after current (next_uuid w),
                     db := vendor_fulfilments_update (written current row) (db w)\<rparr>))"
  by (simp add: move_fulfilment_def next_row_def written_def supply_after_def run_simps Let_def
      split: option.split)

lemma reject_fulfilment_run:
  "reject_fulfilment v i u order amount row w =
     (Inr (refund_pending amount row), w\<lparr>next_uuid := Suc (next_uuid w),
        db := (vendor_fulfilments_update (upd_row ful_id (ful_id row) (\<lambda>_. refund_pending amount row)) (db w))
          \<lparr>audit_log := audit_log (db w) @
             [\<lparr>aud_id = next_uuid w, aud_event_action = ''order.vendor_rejected'',
               aud_actor_user_id = Some u, aud_tenant_id = Some (ord_tenant_id order),
               aud_payload = [(''order_id'', JUuid i), (''vendor_id'', JUuid v),
                              (''refund_amount'', JMoney amount)],
               aud_created_at = clock w\<rparr>]\<rparr>\<rparr>)"
  by (simp add: reject_fulfilment_def Let_def run_simps)

lemma step_ok_move [step_ok]:
  "bindE (move_fulfilment v i current s c t) f w = (Inr y, w') \<longleftrightarrow>
     (let row = next_row (next_uuid w) (clock w) v i current s c t
      in f row (w\<lparr>next_uuid := supply_after current (next_uuid w),
                  db := vendor_fulfilments_update (written current row) (db w)\<rparr>)) = (Inr y, w')"
  by (simp add: bindE_run move_fulfilment_run Let_def)

lemma step_ok_reject [step_ok]:
  "bindE (if b then reject_fulfilment v i u order amount row else ret row) f w = (Inr y, w') \<longleftrightarrow>
     (\<exists>l n. f (if b then refund_pending amount row else row)
        (w\<lparr>next_uuid := n, db := (if b then vendor_fulfilments_update
              (upd_row ful_id (ful_id row) (\<lambda>_. refund_pending amount row)) (db w) else db w)\<lparr>audit_log := l\<rparr>\<rparr>)
        = (Inr y, w') \<and> next_uuid w \<le> n
      \<and> l = audit_log (db w) @ (if b then
             [\<lparr>aud_id = next_uuid w, aud_event_action = ''order.vendor_rejected'',
               aud_actor_user_id = Some u, aud_tenant_id = Some (ord_tenant_id order),
               aud_payload = [(''order_id'', JUuid i), (''vendor_id'', JUuid v),
                              (''refund_amount'', JMoney amount)],
               aud_created_at = clock w\<rparr>] else [])
      \<and> n = (if b then Suc (next_uuid w) else next_uuid w))"
  by (simp add: bindE_run reject_fulfilment_run ret_run)

lemma vendor_line_total_frame [simp]:
  "vendor_line_total (vendor_fulfilments_update f d) i v = vendor_line_total d i v"
  by (simp add: vendor_line_total_def vendor_lines_def)

lemma advance_okD:
  assumes "advance_vendor_order v i u s c t w = (Inr x, w')"
  shows "owns_vendor (db w) v u \<and> vendor_lines (db w) i v \<noteq> []
    \<and> (\<exists>order. get_row ord_id i (orders (db w)) = Some order)
    \<and> (\<exists>current. (case current of None \<Rightarrow> fulfilment_rows (db w) i v = []
                  | Some f \<Rightarrow> fulfilment_rows (db w) i v = [f])
        \<and> s \<in> set (allowed_next (case current of None \<Rightarrow> ''placed'' | Some f \<Rightarrow> ful_status f))
        \<and> (s = ''shipped'' \<longrightarrow> strip c \<noteq> [] \<and> strip t \<noteq> [])
        \<and> (let row = next_row (next_uuid w) (clock w) v i current s (strip c) (strip t) in
            x = (if s = ''cancelled'' then refund_pending (vendor_line_total (db w) i v) row else row)
            \<and> (\<exists>l. db w' = rolled i ((vendor_fulfilments_update
                 (\<lambda>rows. if s = ''cancelled'' then upd_row ful_id (ful_id row) (\<lambda>_. x) (written current row rows)
                         else written current row rows) (db w))\<lparr>audit_log := l\<rparr>))))
    \<and> disk w' = db w' \<and> next_uuid w < next_uuid w'"
proof -
  from assms obtain profile where own: "require_vendor_owner v u w = (Inr profile, w)"
    unfolding advance_vendor_order_def by (simp only: step_ok) blast
  have facts: "owns_vendor (db w) v u" using require_vendor_owner_okD(2) [OF own] .
  show ?thesis
    apply (rule conjI, rule facts)
    using assms unfolding advance_vendor_order_def Let_def
    apply (simp only: step_ok Let_def)
    apply (elim exE conjE, hypsubst)
    apply (rename_tac profile order current l n)
    apply (rule conjI, simp)
    apply (rule conjI, rule exI, assumption)
    apply (rule conjI, rule_tac x = current in exI)
     apply (simp add: comp_def cong: if_cong)
     apply (intro conjI impI; rule exI, rule refl)
    apply (simp add: supply_after_def split: option.split)
    done
qed

subsection \<open>The fulfilment invariant\<close>

text \<open>
  A well-formed fulfilment row: a known status; courier and tracking number from shipping on; a refund
  exactly when it is cancelled. Together: unique identifiers below the supply, and at most one row per
  order and vendor.
\<close>

definition fulfil_row_ok :: "vendor_fulfilment_row \<Rightarrow> bool" where
  "fulfil_row_ok f \<longleftrightarrow>
     ful_status f \<in> range status_of
     \<and> (ful_status f \<in> {''shipped'', ''delivered''} \<longrightarrow> ful_courier f \<noteq> [] \<and> ful_tracking_number f \<noteq> [])
     \<and> (if ful_status f = ''cancelled''
        then ful_refund_status f \<in> {''pending'', ''refunded''} \<and> ful_refund_amount f \<noteq> None
        else ful_refund_status f = ''none'' \<and> ful_refund_amount f = None)"

definition fulfil_inv :: "uuid \<Rightarrow> database \<Rightarrow> bool" where
  "fulfil_inv n d \<longleftrightarrow>
     distinct (map ful_id (vendor_fulfilments d))
     \<and> (\<forall>f \<in> set (vendor_fulfilments d). ful_id f < n \<and> fulfil_row_ok f
          \<and> ful_order_id f \<in> set (map ord_id (orders d)))
     \<and> (\<forall>i v. length (fulfilment_rows d i v) \<le> 1)
     \<and> (\<forall>i \<in> set (map ord_id (orders d)). i < n)"

lemma fulfil_inv_mono: "supply_mono fulfil_inv"
  by (fastforce simp: supply_mono_def fulfil_inv_def)

lemma fulfil_inv_same:
  "vendor_fulfilments d' = vendor_fulfilments d \<Longrightarrow> map ord_id (orders d') = map ord_id (orders d)
    \<Longrightarrow> fulfil_inv n d \<Longrightarrow> fulfil_inv n d'"
  by (simp only: fulfil_inv_def fulfilment_rows_def) blast

lemma fulfil_inv_log: "log_blind fulfil_inv"
  by (simp add: log_blind_def fulfil_inv_def fulfilment_rows_def)

lemma fulfil_inv_rolled: "fulfil_inv n (rolled i d) = fulfil_inv n d"
proof -
  have "map ord_id (orders (rolled i d)) = map ord_id (orders d)" by (simp add: rolled_def)
  then show ?thesis using fulfil_inv_same [of "rolled i d" d] fulfil_inv_same [of d "rolled i d"] by auto
qed

text \<open>The current row of an order and vendor, as \<open>scalar_one_or_none\<close> finds it.\<close>

definition is_current :: "database \<Rightarrow> uuid \<Rightarrow> uuid \<Rightarrow> vendor_fulfilment_row option \<Rightarrow> bool" where
  "is_current d i v current \<longleftrightarrow>
     (case current of None \<Rightarrow> fulfilment_rows d i v = [] | Some f \<Rightarrow> fulfilment_rows d i v = [f])"

lemma is_current_Some:
  assumes "is_current d i v (Some f)"
  shows "f \<in> set (vendor_fulfilments d) \<and> ful_order_id f = i \<and> ful_vendor_id f = v"
proof -
  have "f \<in> set (fulfilment_rows d i v)" using assms by (simp add: is_current_def)
  then show ?thesis by (simp add: fulfilment_rows_def)
qed

lemma row_by_id:
  "distinct (map ful_id rows) \<Longrightarrow> f \<in> set rows \<Longrightarrow> r \<in> set rows \<Longrightarrow> ful_id r = ful_id f \<Longrightarrow> r = f"
  by (meson distinct_map inj_on_def)

lemma fulfil_inv_written:
  assumes inv: "fulfil_inv n d" and cur: "is_current d i v current"
    and o': "i \<in> set (map ord_id (orders d))"
    and x: "ful_order_id x = i" "ful_vendor_id x = v" "fulfil_row_ok x"
      "ful_id x = (case current of None \<Rightarrow> n | Some f \<Rightarrow> ful_id f)"
  shows "fulfil_inv (Suc n) (vendor_fulfilments_update (written current x) d)"
proof (cases current)
  case None
  then show ?thesis
    using assms by (fastforce simp: fulfil_inv_def written_def fulfilment_rows_def is_current_def)
next
  case (Some f)
  let ?g = "\<lambda>r. if ful_id r = ful_id f then x else r"
  from is_current_Some cur Some have f: "f \<in> set (vendor_fulfilments d)" "ful_order_id f = i" "ful_vendor_id f = v"
    by auto
  from inv have ids: "distinct (map ful_id (vendor_fulfilments d))" by (simp add: fulfil_inv_def)
  have same: "ful_order_id (?g r) = ful_order_id r \<and> ful_vendor_id (?g r) = ful_vendor_id r
      \<and> ful_id (?g r) = ful_id r" if "r \<in> set (vendor_fulfilments d)" for r
    using row_by_id [OF ids f(1) that] x Some f(2,3) by auto
  have rows: "vendor_fulfilments (vendor_fulfilments_update (written current x) d) = map ?g (vendor_fulfilments d)"
    by (simp add: Some written_def upd_row_def)
  have "map ful_id (map ?g (vendor_fulfilments d)) = map ful_id (vendor_fulfilments d)"
    using same by simp
  then have "distinct (map ful_id (map ?g (vendor_fulfilments d)))" using ids by (simp only:)
  moreover have "length (filter (\<lambda>r. ful_order_id r = i' \<and> ful_vendor_id r = v') (map ?g (vendor_fulfilments d)))
      = length (filter (\<lambda>r. ful_order_id r = i' \<and> ful_vendor_id r = v') (vendor_fulfilments d))" for i' v'
    using same by (simp add: filter_map comp_def cong: filter_cong)
  moreover have "\<forall>r \<in> set (map ?g (vendor_fulfilments d)). ful_id r < Suc n \<and> fulfil_row_ok r
      \<and> ful_order_id r \<in> set (map ord_id (orders d))"
    using inv x(1,3,4) Some f(1) o' by (auto simp: fulfil_inv_def intro: less_SucI)
  ultimately show ?thesis
    using inv unfolding fulfil_inv_def rows fulfilment_rows_def by (fastforce intro: less_SucI)
qed

text \<open>A successful move, over the invariant: one well-formed row is written, for a step of the machine.\<close>

lemma next_row_simps [simp]:
  "ful_status (next_row n now v i current s c t) = s"
  "ful_id (next_row n now v i current s c t) = (case current of None \<Rightarrow> n | Some f \<Rightarrow> ful_id f)"
  "ful_order_id (next_row n now v i current s c t) = (case current of None \<Rightarrow> i | Some f \<Rightarrow> ful_order_id f)"
  "ful_vendor_id (next_row n now v i current s c t) = (case current of None \<Rightarrow> v | Some f \<Rightarrow> ful_vendor_id f)"
  "ful_refund_status (next_row n now v i current s c t) = (case current of None \<Rightarrow> ''none'' | Some f \<Rightarrow> ful_refund_status f)"
  "ful_refund_amount (next_row n now v i current s c t) = (case current of None \<Rightarrow> None | Some f \<Rightarrow> ful_refund_amount f)"
  by (simp_all add: next_row_def moved_row_def split: option.split)

lemma next_row_courier:
  "s = ''shipped'' \<Longrightarrow> ful_courier (next_row n now v i current s c t) = c"
  "s = ''shipped'' \<Longrightarrow> ful_tracking_number (next_row n now v i current s c t) = t"
  "s \<noteq> ''shipped'' \<Longrightarrow> ful_courier (next_row n now v i (Some f) s c t) = ful_courier f"
  "s \<noteq> ''shipped'' \<Longrightarrow> ful_tracking_number (next_row n now v i (Some f) s c t) = ful_tracking_number f"
  by (simp_all add: next_row_def moved_row_def split: option.split)

lemma refund_pending_simps [simp]:
  "ful_status (refund_pending a r) = ful_status r" "ful_id (refund_pending a r) = ful_id r"
  "ful_order_id (refund_pending a r) = ful_order_id r" "ful_vendor_id (refund_pending a r) = ful_vendor_id r"
  "ful_refund_status (refund_pending a r) = ''pending''" "ful_refund_amount (refund_pending a r) = Some a"
  "ful_courier (refund_pending a r) = ful_courier r"
  "ful_tracking_number (refund_pending a r) = ful_tracking_number r"
  by (simp_all add: refund_pending_def)

definition current_state :: "vendor_fulfilment_row option \<Rightarrow> string" where
  "current_state current = (case current of None \<Rightarrow> ''placed'' | Some f \<Rightarrow> ful_status f)"

lemma next_row_ok:
  assumes "\<And>f. current = Some f \<Longrightarrow> fulfil_row_ok f"
    and "current_state current = status_of a" and "s = status_of b" and "fmoves a b"
    and "s = ''shipped'' \<longrightarrow> c \<noteq> [] \<and> t \<noteq> []"
  shows "fulfil_row_ok (if s = ''cancelled'' then refund_pending m (next_row n now v i current s c t)
           else next_row n now v i current s c t)"
proof (cases current)
  case None
  then have "a = Placed" using assms(2) by (cases a) (simp_all add: current_state_def)
  then show ?thesis using assms(3,4) None by (auto simp: fulfil_row_ok_def)
next
  case (Some f)
  have "fulfil_row_ok f" "ful_status f = status_of a"
    using assms(1) [OF Some] assms(2) Some by (simp_all add: current_state_def)
  with assms(4) show ?thesis using assms(3,5) Some
    by (cases rule: fmoves.cases) (simp_all add: fulfil_row_ok_def next_row_courier)
qed

lemma written_twice:
  assumes "case current of None \<Rightarrow> \<forall>r \<in> set rows. ful_id r \<noteq> ful_id x | Some f \<Rightarrow> ful_id row = ful_id f"
    and "ful_id x = ful_id row"
  shows "upd_row ful_id (ful_id row) (\<lambda>_. x) (written current row rows) = written current x rows"
proof (cases current)
  case None
  then have "\<forall>r \<in> set rows. ful_id r \<noteq> ful_id row" using assms by simp
  then have "upd_row ful_id (ful_id row) (\<lambda>_. x) rows = rows" by (induction rows) auto
  then show ?thesis by (simp add: None written_def upd_row_def)
next
  case (Some f)
  then have "ful_id row = ful_id f" using assms by simp
  then show ?thesis by (simp add: Some written_def upd_row_def)
qed

lemma vendor_fulfilments_cong:
  "f (vendor_fulfilments d) = g (vendor_fulfilments d)
    \<Longrightarrow> vendor_fulfilments_update f d = vendor_fulfilments_update g d"
  by (rule database.equality) simp_all

lemma advance_effect:
  assumes inv: "fulfil_inv (next_uuid w) (db w)"
    and ok: "advance_vendor_order v i u s c t w = (Inr x, w')"
  shows "\<exists>current a b l. owns_vendor (db w) v u \<and> is_current (db w) i v current
    \<and> current_state current = status_of a \<and> s = status_of b \<and> fmoves a b
    \<and> ful_status x = s \<and> ful_order_id x = i \<and> ful_vendor_id x = v \<and> fulfil_row_ok x
    \<and> ful_id x = (case current of None \<Rightarrow> next_uuid w | Some f \<Rightarrow> ful_id f)
    \<and> (s = ''cancelled'' \<longrightarrow> ful_refund_amount x = Some (vendor_line_total (db w) i v))
    \<and> (s = ''shipped'' \<longrightarrow> ful_courier x = strip c \<and> ful_tracking_number x = strip t)
    \<and> (\<forall>f. current = Some f \<and> s \<noteq> ''shipped'' \<longrightarrow>
           ful_courier x = ful_courier f \<and> ful_tracking_number x = ful_tracking_number f)
    \<and> (\<exists>order. get_row ord_id i (orders (db w)) = Some order)
    \<and> db w' = rolled i ((vendor_fulfilments_update (written current x) (db w))\<lparr>audit_log := l\<rparr>)
    \<and> disk w' = db w' \<and> next_uuid w < next_uuid w'"
proof -
  from advance_okD [OF ok] obtain current l where
    own: "owns_vendor (db w) v u" and order: "\<exists>order. get_row ord_id i (orders (db w)) = Some order"
    and cur: "is_current (db w) i v current"
    and s: "s \<in> set (allowed_next (current_state current))"
    and ship: "s = ''shipped'' \<longrightarrow> strip c \<noteq> [] \<and> strip t \<noteq> []"
    and x: "x = (let row = next_row (next_uuid w) (clock w) v i current s (strip c) (strip t)
        in if s = ''cancelled'' then refund_pending (vendor_line_total (db w) i v) row else row)"
    and w': "db w' = rolled i ((vendor_fulfilments_update
         (\<lambda>rows. let row = next_row (next_uuid w) (clock w) v i current s (strip c) (strip t)
           in if s = ''cancelled'' then upd_row ful_id (ful_id row) (\<lambda>_. x) (written current row rows)
              else written current row rows) (db w))\<lparr>audit_log := l\<rparr>)"
      "disk w' = db w'" "next_uuid w < next_uuid w'"
    unfolding is_current_def current_state_def Let_def by (elim conjE exE) blast
  let ?row = "next_row (next_uuid w) (clock w) v i current s (strip c) (strip t)"
  from allowed_next_known [OF s] obtain a b where ab: "current_state current = status_of a" "s = status_of b"
    "fmoves a b" by blast
  have keys: "ful_order_id x = i" "ful_vendor_id x = v" "ful_status x = s" "ful_id x = ful_id ?row"
    using is_current_Some [of "db w" i v] cur by (auto simp: x Let_def split: option.split)
  have "fulfil_row_ok f" if "current = Some f" for f
    using inv cur is_current_Some that unfolding fulfil_inv_def by blast
  from next_row_ok [of current a s b "strip c" "strip t", OF this ab(1,2,3) ship]
  have rok: "fulfil_row_ok x" by (simp add: x Let_def)
  have "(if s = ''cancelled'' then upd_row ful_id (ful_id ?row) (\<lambda>_. x) (written current ?row rows)
              else written current ?row rows) = written current x rows"
    if "rows = vendor_fulfilments (db w)" for rows
  proof (cases "s = ''cancelled''")
    case True
    have "case current of None \<Rightarrow> \<forall>r \<in> set rows. ful_id r \<noteq> ful_id x | Some f \<Rightarrow> ful_id ?row = ful_id f"
      using inv keys(4) that by (fastforce simp: fulfil_inv_def split: option.split)
    from written_twice [OF this keys(4)] True show ?thesis by simp
  next
    case False
    then show ?thesis by (simp add: x Let_def)
  qed
  then have eq: "vendor_fulfilments_update (\<lambda>rows. if s = ''cancelled''
        then upd_row ful_id (ful_id ?row) (\<lambda>_. x) (written current ?row rows)
        else written current ?row rows) (db w)
      = vendor_fulfilments_update (written current x) (db w)"
    by (intro vendor_fulfilments_cong) simp
  have "db w' = rolled i ((vendor_fulfilments_update (written current x) (db w))\<lparr>audit_log := l\<rparr>)"
    using w'(1) unfolding Let_def eq .
  moreover have "s = ''cancelled'' \<longrightarrow> ful_refund_amount x = Some (vendor_line_total (db w) i v)"
    by (simp add: x Let_def)
  moreover have "s = ''shipped'' \<longrightarrow> ful_courier x = strip c \<and> ful_tracking_number x = strip t"
    "\<forall>f. current = Some f \<and> s \<noteq> ''shipped'' \<longrightarrow>
           ful_courier x = ful_courier f \<and> ful_tracking_number x = ful_tracking_number f"
    by (simp_all add: x Let_def next_row_courier)
  moreover have "ful_id x = (case current of None \<Rightarrow> next_uuid w | Some f \<Rightarrow> ful_id f)"
    by (simp add: keys(4))
  ultimately show ?thesis
    using own order cur ab keys(1,2,3) rok w'(2,3) by blast
qed

lemma refund_okD:
  assumes "issue_vendor_reject_refund v i u w = (Inr x, w')"
  shows "owns_vendor (db w) v u
    \<and> (\<exists>f l. is_current (db w) i v (Some f) \<and> ful_status f = ''cancelled'' \<and> ful_refund_status f = ''pending''
        \<and> x = f\<lparr>ful_refund_status := ''refunded'', ful_updated_at := clock w\<rparr>
        \<and> db w' = (vendor_fulfilments_update (written (Some f) x) (db w))\<lparr>audit_log := l\<rparr>)
    \<and> disk w' = db w' \<and> next_uuid w \<le> next_uuid w'"
proof -
  from assms obtain profile where own: "require_vendor_owner v u w = (Inr profile, w)"
    unfolding issue_vendor_reject_refund_def by (simp only: step_ok) blast
  show ?thesis
    apply (rule conjI, rule require_vendor_owner_okD(2) [OF own])
    using assms unfolding issue_vendor_reject_refund_def Let_def is_current_def written_def
    apply (simp only: step_ok)
    apply (elim exE conjE, hypsubst)
    apply (rename_tac profile found f order)
    apply (rule conjI, rule_tac x = f in exI)
     apply (simp, rule exI, rule refl)
    apply simp
    done
qed

definition cancel_body :: "uuid \<Rightarrow> uuid \<Rightarrow> uuid \<Rightarrow> unit op" where
  "cancel_body tenant order_id caller =
     bindE (require_member tenant caller) (\<lambda>_.
     bindE (reads (\<lambda>d. get_row ord_id order_id (orders d))) (\<lambda>found.
     bindE (the_or (case found of None \<Rightarrow> None
              | Some r \<Rightarrow> if ord_tenant_id r \<noteq> tenant then None else Some r)
              (NotFoundError ''order not found'')) (\<lambda>order.
     bindE (reads (\<lambda>d. order_fulfilments d order_id)) (\<lambda>fulfilments.
     bindE (raise_if (list_ex (\<lambda>f. ful_status f \<noteq> ''placed'') fulfilments)
              (ConflictError ''order can only be cancelled while all vendors are still placed'')) (\<lambda>_.
     bindE (for_each fulfilments (\<lambda>f.
              bindE (reads (\<lambda>d. vendor_line_total d order_id (ful_vendor_id f))) (\<lambda>amount.
              bindE utcnow (\<lambda>now.
              modifies (vendor_fulfilments_update (upd_row ful_id (ful_id f)
                (cancelled_row amount now))))))) (\<lambda>_.
     bindE (modifies (orders_update (upd_row ord_id order_id (\<lambda>r. r\<lparr>ord_status := ''cancelled''\<rparr>)))) (\<lambda>_.
     bindE (audit ''order.cancelled_by_buyer'' (Some caller) (Some tenant)
              [(''order_id'', JUuid order_id)]) (\<lambda>_.
     commit))))))))"

lemma cancel_order_split: "cancel_order t i u = bindE (cancel_body t i u) (\<lambda>_. order_detail i u)"
  by (simp add: cancel_order_def cancel_body_def bindE_assoc)

lemma cancel_loop_run:
  "for_each fs (\<lambda>f. bindE (reads (\<lambda>d. vendor_line_total d i (ful_vendor_id f))) (\<lambda>amount.
      bindE utcnow (\<lambda>now. modifies (vendor_fulfilments_update (upd_row ful_id (ful_id f)
        (cancelled_row amount now)))))) w
   = (Inr (), w\<lparr>db := vendor_fulfilments_update
        (fold (\<lambda>f. upd_row ful_id (ful_id f)
           (cancelled_row (vendor_line_total (db w) i (ful_vendor_id f)) (clock w))) fs) (db w)\<rparr>)"
proof (induction fs arbitrary: w)
  case (Cons f fs)
  show ?case
    by (subst for_each.simps(2), subst step_run_simple(1), subst step_run_simple(4),
        subst step_run_simple(1), subst step_run_simple(6), subst step_run_simple(5), subst Cons.IH)
       (simp add: comp_def)
qed (simp add: ret_run)

lemma reads_only_order_detail [reads_only_intros]: "reads_only (order_detail i u)"
  unfolding order_detail_def by (intro reads_only_intros)

definition cancelled_fulfilments ::
  "database \<Rightarrow> uuid \<Rightarrow> instant \<Rightarrow> vendor_fulfilment_row list \<Rightarrow> vendor_fulfilment_row list"
where
  "cancelled_fulfilments d i now rows =
     map (\<lambda>r. if ful_order_id r = i then cancelled_row (vendor_line_total d i (ful_vendor_id r)) now r else r) rows"

lemma cancel_fold:
  assumes "distinct (map ful_id (vendor_fulfilments d))"
  shows "fold (\<lambda>f. upd_row ful_id (ful_id f) (cancelled_row (vendor_line_total d i (ful_vendor_id f)) now))
      (order_fulfilments d i) (vendor_fulfilments d) = cancelled_fulfilments d i now (vendor_fulfilments d)"
proof -
  have "fold (\<lambda>f. upd_row ful_id (ful_id f) (cancelled_row (vendor_line_total d i (ful_vendor_id f)) now))
      (order_fulfilments d i) (vendor_fulfilments d)
    = map (\<lambda>r. case get_row ful_id (ful_id r) (order_fulfilments d i) of None \<Rightarrow> r
        | Some f \<Rightarrow> cancelled_row (vendor_line_total d i (ful_vendor_id f)) now r) (vendor_fulfilments d)"
    by (rule fold_upd_rows) (use assms in \<open>simp_all add: order_fulfilments_def distinct_map_filter cancelled_row_def\<close>)
  also have "\<dots> = cancelled_fulfilments d i now (vendor_fulfilments d)"
    using assms by (auto simp: cancelled_fulfilments_def order_fulfilments_def get_row_filter)
  finally show ?thesis .
qed

lemma cancel_body_okD:
  assumes "distinct (map ful_id (vendor_fulfilments (db w)))" and "cancel_body t i u w = (Inr x, w')"
  shows "db_active_member (db w) t u
    \<and> (\<exists>order. get_row ord_id i (orders (db w)) = Some order \<and> ord_tenant_id order = t)
    \<and> (\<forall>f \<in> set (order_fulfilments (db w) i). ful_status f = ''placed'')
    \<and> (\<exists>l. db w' = (orders_update (upd_row ord_id i (\<lambda>r. r\<lparr>ord_status := ''cancelled''\<rparr>))
         (vendor_fulfilments_update (\<lambda>rows. cancelled_fulfilments (db w) i (clock w) rows) (db w)))\<lparr>audit_log := l\<rparr>)
    \<and> disk w' = db w' \<and> next_uuid w \<le> next_uuid w'"
proof -
  from assms(2) obtain m where member: "require_member t u w = (Inr m, w)"
    unfolding cancel_body_def by (simp only: step_ok) blast
  have fold: "vendor_fulfilments_update
        (fold (\<lambda>f. upd_row ful_id (ful_id f) (cancelled_row (vendor_line_total (db w) i (ful_vendor_id f)) (clock w)))
          (order_fulfilments (db w) i)) (db w)
      = vendor_fulfilments_update (\<lambda>rows. cancelled_fulfilments (db w) i (clock w) rows) (db w)"
    by (rule vendor_fulfilments_cong) (rule cancel_fold [OF assms(1)])
  have loop: "bindE (for_each (order_fulfilments (db w) i) (\<lambda>f.
        bindE (reads (\<lambda>d. vendor_line_total d i (ful_vendor_id f))) (\<lambda>amount.
        bindE utcnow (\<lambda>now. modifies (vendor_fulfilments_update (upd_row ful_id (ful_id f)
          (cancelled_row amount now))))))) g w
      = g () (w\<lparr>db := vendor_fulfilments_update (\<lambda>rows. cancelled_fulfilments (db w) i (clock w) rows) (db w)\<rparr>)" for g
    by (simp only: bindE_run cancel_loop_run fold) simp
  show ?thesis
    apply (rule conjI, rule require_member_okD(2) [OF member])
    using assms(2) unfolding cancel_body_def
    apply (simp only: step_ok loop the_or_checked_ok commit_ok)
    apply (elim exE conjE, hypsubst)
    apply (simp add: list_ex_iff)
    apply (rule exI, rule refl)
    done
qed

subsection \<open>Every request keeps the invariant\<close>

lemma fulfil_ops_atomic:
  "atomic_but_log (advance_vendor_order v i u s c t)" "atomic_but_log (issue_vendor_reject_refund v i u)"
  "atomic_but_log (cancel_body tn i u)"
  unfolding advance_vendor_order_def issue_vendor_reject_refund_def cancel_body_def Let_def
    move_fulfilment_def reject_fulfilment_def rollup_order_status_def
  by (rule atomic_but_log_intros keeps_intros reads_only_keeps reads_only_checks reads_only_intros)+

lemma fulfil_ops_uuid:
  "keeps (uuid_ge n) (advance_vendor_order v i u s c t)" "keeps (uuid_ge n) (issue_vendor_reject_refund v i u)"
  "keeps (uuid_ge n) (cancel_body tn i u)"
  unfolding advance_vendor_order_def issue_vendor_reject_refund_def cancel_body_def Let_def
    move_fulfilment_def reject_fulfilment_def rollup_order_status_def
  by (rule keeps_intros reads_only_keeps reads_only_checks reads_only_intros)+

text \<open>
  The life of a fulfilment: it stays the same vendor's part of the same order, moves along the machine,
  its courier is fixed once shipped, its refund moves from none to pending to refunded, and the amount
  is fixed once there is one.
\<close>

fun refund_rank :: "string \<Rightarrow> nat" where
  "refund_rank s = (if s = ''refunded'' then 2 else if s = ''pending'' then 1 else 0)"

definition later :: "vendor_fulfilment_row \<Rightarrow> vendor_fulfilment_row \<Rightarrow> bool" where
  "later f f' \<longleftrightarrow>
     ful_id f' = ful_id f \<and> ful_order_id f' = ful_order_id f \<and> ful_vendor_id f' = ful_vendor_id f
     \<and> (\<exists>a b. ful_status f = status_of a \<and> ful_status f' = status_of b \<and> fmoves\<^sup>*\<^sup>* a b)
     \<and> (ful_status f \<in> {''shipped'', ''delivered''} \<longrightarrow>
          ful_courier f' = ful_courier f \<and> ful_tracking_number f' = ful_tracking_number f)
     \<and> refund_rank (ful_refund_status f) \<le> refund_rank (ful_refund_status f')
     \<and> (ful_refund_amount f \<noteq> None \<longrightarrow> ful_refund_amount f' = ful_refund_amount f)"

lemma later_refl: "fulfil_row_ok f \<Longrightarrow> later f f"
  by (auto simp: later_def fulfil_row_ok_def)

lemma shipped_stays:
  assumes "fmoves\<^sup>*\<^sup>* a b" and "a \<in> {Shipped, Delivered}"
  shows "b \<in> {Shipped, Delivered}"
  using assms by (induction rule: rtranclp_induct) auto

lemma status_shipped: "status_of s \<in> {''shipped'', ''delivered''} \<longleftrightarrow> s \<in> {Shipped, Delivered}"
  by (cases s) simp_all

lemma later_trans:
  assumes fg: "later f g" and gh: "later g h"
  shows "later f h"
proof -
  from fg obtain a b where ab: "ful_status f = status_of a" "ful_status g = status_of b" "fmoves\<^sup>*\<^sup>* a b"
    unfolding later_def by blast
  from gh ab(2) obtain c where bc: "ful_status h = status_of c" "fmoves\<^sup>*\<^sup>* b c"
    unfolding later_def by auto
  have shipped: "ful_status g \<in> {''shipped'', ''delivered''}" if "ful_status f \<in> {''shipped'', ''delivered''}"
    using shipped_stays [OF ab(3)] that unfolding ab(1,2) status_shipped by blast
  have "fmoves\<^sup>*\<^sup>* a c" using ab(3) bc(2) by (rule rtranclp_trans)
  then have "\<exists>a c. ful_status f = status_of a \<and> ful_status h = status_of c \<and> fmoves\<^sup>*\<^sup>* a c"
    using ab(1) bc(1) by blast
  moreover have "refund_rank (ful_refund_status f) \<le> refund_rank (ful_refund_status h)"
    by (rule order_trans [of _ "refund_rank (ful_refund_status g)"])
      (use fg gh in \<open>simp_all only: later_def\<close>)
  moreover have "ful_id h = ful_id f" "ful_order_id h = ful_order_id f" "ful_vendor_id h = ful_vendor_id f"
    using fg gh by (simp_all only: later_def)
  moreover have "ful_courier h = ful_courier f \<and> ful_tracking_number h = ful_tracking_number f"
    if "ful_status f \<in> {''shipped'', ''delivered''}"
    using fg gh that shipped [OF that] unfolding later_def by metis
  moreover have "ful_refund_amount h = ful_refund_amount f" if "ful_refund_amount f \<noteq> None"
    using fg gh that unfolding later_def by metis
  ultimately show ?thesis unfolding later_def [of f h] by blast
qed

definition continues :: "vendor_fulfilment_row list \<Rightarrow> vendor_fulfilment_row list \<Rightarrow> bool" where
  "continues fs rows \<longleftrightarrow> (\<forall>f \<in> set fs. \<exists>f' \<in> set rows. later f f')"

lemma continues_trans: "continues fs gs \<Longrightarrow> continues gs hs \<Longrightarrow> continues fs hs"
  unfolding continues_def using later_trans by blast

definition fulfil_hist :: "vendor_fulfilment_row list \<Rightarrow> uuid \<Rightarrow> database \<Rightarrow> bool" where
  "fulfil_hist fs n d \<longleftrightarrow> fulfil_inv n d \<and> continues fs (vendor_fulfilments d)"

lemma fulfil_hist_start: "fulfil_inv n d \<Longrightarrow> fulfil_hist (vendor_fulfilments d) n d"
  by (auto simp: fulfil_hist_def continues_def fulfil_inv_def intro: later_refl)

lemma fulfil_hist_mono: "supply_mono (fulfil_hist fs)"
  using fulfil_inv_mono by (simp add: supply_mono_def fulfil_hist_def)

lemma fulfil_hist_log: "log_blind (fulfil_hist fs)"
  using fulfil_inv_log by (simp add: log_blind_def fulfil_hist_def)

lemma fulfil_hist_same:
  assumes "vendor_fulfilments d' = vendor_fulfilments d" and "map ord_id (orders d') = map ord_id (orders d)"
    and "fulfil_hist fs n d"
  shows "fulfil_hist fs n d'"
  using assms fulfil_inv_same [OF assms(1,2)] by (simp add: fulfil_hist_def)

text \<open>A new row, and a later row in the place of the current one.\<close>

lemma continues_append: "continues fs rows \<Longrightarrow> continues fs (rows @ new)"
  by (auto simp: continues_def)

lemma continues_upd:
  assumes "\<forall>r \<in> set rows. fulfil_row_ok r" and "\<And>r. r \<in> set rows \<Longrightarrow> ful_id r = i \<Longrightarrow> later r (g r)"
    and "continues fs rows"
  shows "continues fs (upd_row ful_id i g rows)"
proof (rule continues_trans [OF assms(3)])
  show "continues rows (upd_row ful_id i g rows)"
    unfolding continues_def
  proof
    fix f assume f: "f \<in> set rows"
    show "\<exists>f' \<in> set (upd_row ful_id i g rows). later f f'"
    proof (cases "ful_id f = i")
      case True
      then have "g f \<in> set (upd_row ful_id i g rows)" using f by (force simp: upd_row_def)
      with assms(2) [OF f True] show ?thesis by blast
    next
      case False
      then have "f \<in> set (upd_row ful_id i g rows)" using f by (force simp: upd_row_def)
      moreover have "later f f" using assms(1) f by (blast intro: later_refl)
      ultimately show ?thesis by blast
    qed
  qed
qed

lemma continues_map:
  assumes "\<And>r. r \<in> set rows \<Longrightarrow> later r (g r)" and "continues fs rows"
  shows "continues fs (map g rows)"
  by (rule continues_trans [OF assms(2)]) (auto simp: continues_def intro: assms(1))

lemma continues_written:
  assumes inv: "fulfil_inv n d" and cur: "is_current d i v current"
    and x: "\<And>f. current = Some f \<Longrightarrow> later f x" and c: "continues fs (vendor_fulfilments d)"
  shows "continues fs (written current x (vendor_fulfilments d))"
proof (cases current)
  case None
  then show ?thesis using continues_append [OF c] by (simp add: written_def)
next
  case (Some f)
  have f: "f \<in> set (vendor_fulfilments d)" using is_current_Some cur Some by blast
  have "distinct (map ful_id (vendor_fulfilments d))" "\<forall>r \<in> set (vendor_fulfilments d). fulfil_row_ok r"
    using inv by (auto simp: fulfil_inv_def)
  with continues_upd [OF this(2) _ c, of "ful_id f" "\<lambda>_. x"] row_by_id [OF this(1) f] x [OF Some]
  show ?thesis by (auto simp: Some written_def)
qed

lemma written_later:
  assumes "current_state (Some f) = status_of a" and "s = status_of b" and "fmoves a b"
    and "fulfil_row_ok f" and "ful_status x = s" and "ful_id x = ful_id f"
    and "ful_order_id x = ful_order_id f" and "ful_vendor_id x = ful_vendor_id f"
    and "s \<noteq> ''shipped'' \<longrightarrow> ful_courier x = ful_courier f \<and> ful_tracking_number x = ful_tracking_number f"
  shows "later f x"
proof -
  have f: "ful_status f = status_of a" using assms(1) by (simp add: current_state_def)
  have "ful_status f \<noteq> ''cancelled''" "\<not> (ful_status f = ''shipped'' \<and> s = ''shipped'')"
    "ful_status f \<noteq> ''delivered''"
    using assms(3) unfolding f assms(2) by (cases rule: fmoves.cases; simp)+
  moreover have "\<exists>a b. ful_status f = status_of a \<and> ful_status x = status_of b \<and> fmoves\<^sup>*\<^sup>* a b"
    using assms(2,3,5) f by blast
  moreover have "s \<noteq> ''shipped''" if "ful_status f = ''shipped''"
    using calculation(2) that by blast
  ultimately show ?thesis
    using assms(4,5,6,7,8,9) by (simp add: later_def fulfil_row_ok_def)
qed

lemma preserved_advance: "preserved (fulfil_hist fs) (advance_vendor_order v i u s c t)"
proof (rule preservedI [OF fulfil_hist_mono fulfil_hist_log fulfil_ops_atomic(1) fulfil_ops_uuid(1)])
  fix w x w' assume hist: "fulfil_hist fs (next_uuid w) (db w)"
    and ok: "advance_vendor_order v i u s c t w = (Inr x, w')"
  have inv: "fulfil_inv (next_uuid w) (db w)" and con: "continues fs (vendor_fulfilments (db w))"
    using hist by (simp_all add: fulfil_hist_def)
  from advance_effect [OF inv ok] obtain current a b l order where
    cur: "is_current (db w) i v current"
    and step: "current_state current = status_of a" "s = status_of b" "fmoves a b"
    and xs: "ful_status x = s" "\<forall>f. current = Some f \<and> s \<noteq> ''shipped'' \<longrightarrow>
           ful_courier x = ful_courier f \<and> ful_tracking_number x = ful_tracking_number f"
    and x: "ful_order_id x = i" "ful_vendor_id x = v" "fulfil_row_ok x"
      "ful_id x = (case current of None \<Rightarrow> next_uuid w | Some f \<Rightarrow> ful_id f)"
    and order: "get_row ord_id i (orders (db w)) = Some order"
    and w': "db w' = rolled i ((vendor_fulfilments_update (written current x) (db w))\<lparr>audit_log := l\<rparr>)"
      "disk w' = db w'" "next_uuid w < next_uuid w'"
    by blast
  have "i \<in> set (map ord_id (orders (db w)))" using get_row_Some [OF order] by auto
  from fulfil_inv_written [OF inv cur this x]
  have "fulfil_inv (next_uuid w') (vendor_fulfilments_update (written current x) (db w))"
    using w'(3) by (auto intro: supply_monoD [OF fulfil_inv_mono])
  then have inv': "fulfil_inv (next_uuid w') (disk w')"
    unfolding w'(1,2) fulfil_inv_rolled by (rule fulfil_inv_same [rotated 2]) simp_all
  have "later f x" if f: "current = Some f" for f
  proof (rule written_later [OF _ step(2,3)])
    have g: "f \<in> set (vendor_fulfilments (db w))" "ful_order_id f = i" "ful_vendor_id f = v"
      using is_current_Some cur f by blast+
    then show "ful_order_id x = ful_order_id f" "ful_vendor_id x = ful_vendor_id f" using x by simp_all
    show "fulfil_row_ok f" using inv g(1) unfolding fulfil_inv_def by blast
  qed (use step(1) x(4) xs f in simp_all)
  from continues_written [OF inv cur this con] inv' show "fulfil_hist fs (next_uuid w') (disk w')"
    by (simp add: fulfil_hist_def w'(1,2))
qed

lemma preserved_refund: "preserved (fulfil_hist fs) (issue_vendor_reject_refund v i u)"
proof (rule preservedI [OF fulfil_hist_mono fulfil_hist_log fulfil_ops_atomic(2) fulfil_ops_uuid(2)])
  fix w x w' assume hist: "fulfil_hist fs (next_uuid w) (db w)"
    and ok: "issue_vendor_reject_refund v i u w = (Inr x, w')"
  have inv: "fulfil_inv (next_uuid w) (db w)" and con: "continues fs (vendor_fulfilments (db w))"
    using hist by (simp_all add: fulfil_hist_def)
  from refund_okD [OF ok] obtain f l where
    cur: "is_current (db w) i v (Some f)" and st: "ful_status f = ''cancelled''" "ful_refund_status f = ''pending''"
    and x: "x = f\<lparr>ful_refund_status := ''refunded'', ful_updated_at := clock w\<rparr>"
    and w': "db w' = (vendor_fulfilments_update (written (Some f) x) (db w))\<lparr>audit_log := l\<rparr>"
      "disk w' = db w'" "next_uuid w \<le> next_uuid w'"
    by blast
  have f: "f \<in> set (vendor_fulfilments (db w))" "ful_order_id f = i" "ful_vendor_id f = v"
    using is_current_Some [OF cur] by auto
  with inv have ok_f: "fulfil_row_ok f" "i \<in> set (map ord_id (orders (db w)))" "ful_id f < next_uuid w"
    unfolding fulfil_inv_def by blast+
  have "fulfil_row_ok x" using ok_f(1) st by (simp add: fulfil_row_ok_def x)
  have "later f x" using later_refl [OF ok_f(1)] st by (simp add: later_def x)
  have "fulfil_inv (next_uuid w) (vendor_fulfilments_update (written (Some f) x) (db w))"
    using fulfil_inv_written [OF inv cur ok_f(2), of x] \<open>fulfil_row_ok x\<close> f ok_f inv
    by (simp add: x) (auto simp: fulfil_inv_def written_def set_upd_row less_Suc_eq)
  then have "fulfil_inv (next_uuid w') (vendor_fulfilments_update (written (Some f) x) (db w))"
    using w'(3) by (rule supply_monoD [OF fulfil_inv_mono])
  then have "fulfil_inv (next_uuid w') (disk w')"
    unfolding w'(1,2) by (rule fulfil_inv_same [rotated 2]) simp_all
  moreover have "continues fs (written (Some f) x (vendor_fulfilments (db w)))"
    by (rule continues_written [OF inv cur _ con]) (use \<open>later f x\<close> in simp)
  ultimately show "fulfil_hist fs (next_uuid w') (disk w')"
    by (simp add: fulfil_hist_def w'(1,2))
qed

lemma fulfil_inv_cancelled:
  assumes inv: "fulfil_inv n d"
  shows "fulfil_inv n (vendor_fulfilments_update (\<lambda>rows. cancelled_fulfilments d i now rows) d)"
proof -
  let ?g = "\<lambda>r. if ful_order_id r = i then cancelled_row (vendor_line_total d i (ful_vendor_id r)) now r else r"
  have keys: "ful_id (?g r) = ful_id r" "ful_order_id (?g r) = ful_order_id r" "ful_vendor_id (?g r) = ful_vendor_id r"
    for r by (simp_all add: cancelled_row_def)
  have rows: "vendor_fulfilments (vendor_fulfilments_update (\<lambda>rows. cancelled_fulfilments d i now rows) d)
      = map ?g (vendor_fulfilments d)" by (simp add: cancelled_fulfilments_def)
  have ids: "map ful_id (map ?g (vendor_fulfilments d)) = map ful_id (vendor_fulfilments d)"
    using keys by simp
  have ok: "fulfil_row_ok (?g r)" if "fulfil_row_ok r" for r
    using that by (cases "ful_status r = ''cancelled''") (simp_all add: fulfil_row_ok_def cancelled_row_def)
  have len: "length (filter (\<lambda>r. ful_order_id r = i' \<and> ful_vendor_id r = v') (map ?g (vendor_fulfilments d)))
      = length (filter (\<lambda>r. ful_order_id r = i' \<and> ful_vendor_id r = v') (vendor_fulfilments d))" for i' v'
    using keys by (simp add: filter_map comp_def cong: filter_cong)
  show ?thesis
    unfolding fulfil_inv_def rows fulfilment_rows_def ids len
  proof (intro conjI)
    show "\<forall>f \<in> set (map ?g (vendor_fulfilments d)). ful_id f < n \<and> fulfil_row_ok f
        \<and> ful_order_id f \<in> set (map ord_id (orders (vendor_fulfilments_update
             (\<lambda>rows. cancelled_fulfilments d i now rows) d)))"
    proof
      fix f assume "f \<in> set (map ?g (vendor_fulfilments d))"
      then obtain r where r: "r \<in> set (vendor_fulfilments d)" and f: "f = ?g r" by auto
      from r inv have "ful_id r < n \<and> fulfil_row_ok r \<and> ful_order_id r \<in> set (map ord_id (orders d))"
        unfolding fulfil_inv_def by blast
      with ok keys show "ful_id f < n \<and> fulfil_row_ok f \<and> ful_order_id f \<in> set (map ord_id (orders
          (vendor_fulfilments_update (\<lambda>rows. cancelled_fulfilments d i now rows) d)))"
        unfolding f by simp
    qed
  qed (use inv in \<open>simp_all add: fulfil_inv_def fulfilment_rows_def\<close>)
qed

lemma continues_cancelled:
  assumes inv: "fulfil_inv n d" and con: "continues fs (vendor_fulfilments d)"
    and placed: "\<forall>f \<in> set (order_fulfilments d i). ful_status f = ''placed''"
  shows "continues fs (cancelled_fulfilments d i now (vendor_fulfilments d))"
  unfolding cancelled_fulfilments_def
proof (rule continues_map [OF _ con])
  fix r assume r: "r \<in> set (vendor_fulfilments d)"
  then have ok: "fulfil_row_ok r" using inv unfolding fulfil_inv_def by blast
  have "\<exists>a b. ''placed'' = status_of a \<and> ''cancelled'' = status_of b \<and> fmoves\<^sup>*\<^sup>* a b"
    by (rule exI [of _ Placed], rule exI [of _ Cancelled]) (simp add: r_into_rtranclp)
  moreover have "ful_status r = ''placed''" if "ful_order_id r = i"
    using placed r that by (simp add: order_fulfilments_def)
  ultimately show "later r (if ful_order_id r = i
      then cancelled_row (vendor_line_total d i (ful_vendor_id r)) now r else r)"
    using ok later_refl [OF ok] by (auto simp: later_def cancelled_row_def fulfil_row_ok_def)
qed

lemma preserved_cancel_body: "preserved (fulfil_hist fs) (cancel_body tn i u)"
proof (rule preservedI [OF fulfil_hist_mono fulfil_hist_log fulfil_ops_atomic(3) fulfil_ops_uuid(3)])
  fix w x w' assume hist: "fulfil_hist fs (next_uuid w) (db w)" and ok: "cancel_body tn i u w = (Inr x, w')"
  have inv: "fulfil_inv (next_uuid w) (db w)" and con: "continues fs (vendor_fulfilments (db w))"
    using hist by (simp_all add: fulfil_hist_def)
  have "distinct (map ful_id (vendor_fulfilments (db w)))" using inv by (simp add: fulfil_inv_def)
  from cancel_body_okD [OF this ok] obtain l where
    placed: "\<forall>f \<in> set (order_fulfilments (db w) i). ful_status f = ''placed''" and
    w': "db w' = (orders_update (upd_row ord_id i (\<lambda>r. r\<lparr>ord_status := ''cancelled''\<rparr>))
         (vendor_fulfilments_update (\<lambda>rows. cancelled_fulfilments (db w) i (clock w) rows) (db w)))\<lparr>audit_log := l\<rparr>"
      "disk w' = db w'" "next_uuid w \<le> next_uuid w'"
    by blast
  from fulfil_inv_cancelled [OF inv] w'(3)
  have "fulfil_inv (next_uuid w') (vendor_fulfilments_update (\<lambda>rows. cancelled_fulfilments (db w) i (clock w) rows) (db w))"
    by (rule supply_monoD [OF fulfil_inv_mono])
  then have "fulfil_inv (next_uuid w') (disk w')"
    unfolding w'(1,2) by (rule fulfil_inv_same [rotated 2]) simp_all
  with continues_cancelled [OF inv con placed] show "fulfil_hist fs (next_uuid w') (disk w')"
    by (simp add: fulfil_hist_def w'(1,2))
qed

lemma preserved_cancel: "preserved (fulfil_hist fs) (cancel_order tn i u)"
  unfolding cancel_order_split by (rule preserved_then_reads [OF preserved_cancel_body reads_only_order_detail])

lemma fulfil_inv_placed:
  assumes inv: "fulfil_inv k d" and le: "k \<le> n"
    and m: "m = Suc (Suc (n + length es + length (vendor_ids_of es)))"
  shows "fulfil_inv m (placed_db n now t c address method es d)"
proof -
  let ?new = "inserted_rows (fulfilment_of n now) (Suc n + length es) (vendor_ids_of es)"
  have old: "ful_order_id f \<noteq> n \<and> ful_id f < n" if "f \<in> set (vendor_fulfilments d)" for f
    using inv that le unfolding fulfil_inv_def by fastforce
  have new: "ful_order_id f = n \<and> fulfil_row_ok f \<and> n < ful_id f \<and> ful_id f < m" if "f \<in> set ?new" for f
    using set_inserted_rows [OF that] m by (auto simp: fulfil_row_ok_def)
  have "map ful_id (inserted_rows (fulfilment_of n now) a vs) = [a..<a + length vs]" for a vs
  proof (induction vs arbitrary: a)
    case (Cons v vs)
    then show ?case by (simp add: upt_conv_Cons del: upt_Suc)
  qed simp
  then have "distinct (map ful_id ?new)" by simp
  then have ids: "distinct (map ful_id (vendor_fulfilments d @ ?new))"
    using inv old new by (fastforce simp: fulfil_inv_def)
  have v: "distinct (map ful_vendor_id ?new)"
    using distinct_vendor_ids_of inserted_rows_map [of ful_vendor_id "fulfilment_of n now" id] by simp
  have one: "length (filter (\<lambda>f. ful_order_id f = i \<and> ful_vendor_id f = x) (vendor_fulfilments d @ ?new)) \<le> 1" for i x
  proof (cases "i = n")
    case True
    have "filter (\<lambda>f. ful_order_id f = i \<and> ful_vendor_id f = x) (vendor_fulfilments d) = []"
      using old True by (auto simp: filter_empty_conv)
    moreover have "length (filter (\<lambda>f. ful_order_id f = i \<and> ful_vendor_id f = x) ?new) \<le> Suc 0"
      by (rule length_filter_unique [of ful_vendor_id _ _ x, simplified One_nat_def, OF v]) simp
    ultimately show ?thesis by simp
  next
    case False
    then have "filter (\<lambda>f. ful_order_id f = i \<and> ful_vendor_id f = x) ?new = []"
      using new by (auto simp: filter_empty_conv)
    then show ?thesis using inv by (simp add: fulfil_inv_def fulfilment_rows_def)
  qed
  show ?thesis
    using ids one old new inv le m
    by (fastforce simp: fulfil_inv_def placed_db_def fulfilment_rows_def)
qed

lemma preserved_place_order_hist:
  "preserved (fulfil_hist fs) (place_order (build_authorization_service b) t u p a m rid)"
proof (rule preserved_request [OF fulfil_hist_mono fulfil_hist_log place_order_atomic place_order_uuid])
  fix w x w'
  assume d: "disk w = db w" and hist: "fulfil_hist fs (next_uuid w) (db w)"
    and run: "request (place_order (build_authorization_service b) t u p a m rid) w = (Inr x, w')"
  from place_order_request [OF d run] obtain cart :: cart_row and address n l1 l2 where
      n: "next_uuid w \<le> n" and
      w': "db w' = (placed_db n (clock w) t (crt_id cart) address (lower (strip m))
         (cart_line_rows (db w) (crt_id cart)) ((db w)\<lparr>authorization_audit_log := l1\<rparr>))\<lparr>audit_log := l2\<rparr>"
      "disk w' = db w'"
      "next_uuid w' = Suc (Suc (n + length (cart_line_rows (db w) (crt_id cart))
       + length (vendor_ids_of (cart_line_rows (db w) (crt_id cart)))))"
      by blast
  have "fulfil_inv (next_uuid w) ((db w)\<lparr>authorization_audit_log := l1\<rparr>)"
    by (rule fulfil_inv_same [of _ "db w"]) (use hist in \<open>simp_all add: fulfil_hist_def\<close>)
  from fulfil_inv_placed [OF this n w'(3)]
  have "fulfil_inv (next_uuid w') (db w')" by (rule fulfil_inv_same [rotated 2]) (simp_all add: w'(1))
  moreover have "continues fs (vendor_fulfilments (db w'))"
    using hist by (simp add: w'(1) placed_db_def fulfil_hist_def continues_append)
  ultimately show "fulfil_hist fs (next_uuid w') (db w')" by (simp add: fulfil_hist_def)
qed

end
