(* ===== verification/Order_Status.thy ===== *)
theory Order_Status
  imports Fulfilment_Rules
begin

section \<open>The status of an order\<close>

text \<open>
  The status of an order that has fulfilments is always the roll-up of their statuses, whatever the
  vendors and the buyer did, and what the roll-up says in terms of the fulfilments.
\<close>

definition rolled_order :: "database \<Rightarrow> order_row \<Rightarrow> bool" where
  "rolled_order d r \<longleftrightarrow> order_fulfilments d (ord_id r) \<noteq> []
     \<longrightarrow> ord_status r = rollup_status (map ful_status (order_fulfilments d (ord_id r)))"

definition rolled_up :: "uuid \<Rightarrow> database \<Rightarrow> bool" where
  "rolled_up n d \<longleftrightarrow> (\<forall>r \<in> set (orders d). rolled_order d r)"

lemma rolled_up_mono: "supply_mono rolled_up"
  by (simp add: supply_mono_def rolled_up_def)

lemma rolled_up_same:
  "orders d' = orders d \<Longrightarrow> map (\<lambda>f. (ful_order_id f, ful_status f)) (vendor_fulfilments d')
     = map (\<lambda>f. (ful_order_id f, ful_status f)) (vendor_fulfilments d) \<Longrightarrow> rolled_up n d \<Longrightarrow> rolled_up m d'"
proof -
  assume o': "orders d' = orders d" and m: "map (\<lambda>f. (ful_order_id f, ful_status f)) (vendor_fulfilments d')
     = map (\<lambda>f. (ful_order_id f, ful_status f)) (vendor_fulfilments d)" and up: "rolled_up n d"
  have eq: "map ful_status (order_fulfilments e i) = map snd (filter (\<lambda>p. fst p = i)
      (map (\<lambda>f. (ful_order_id f, ful_status f)) (vendor_fulfilments e)))" for e i
    by (simp add: order_fulfilments_def filter_map comp_def)
  have st: "map ful_status (order_fulfilments d' i) = map ful_status (order_fulfilments d i)" for i
    unfolding eq m ..
  have "order_fulfilments d' i = [] \<longleftrightarrow> order_fulfilments d i = []" for i
    using arg_cong [OF st, of "\<lambda>xs. xs = []"] by simp
  with up o' st show "rolled_up m d'" by (simp add: rolled_up_def rolled_order_def)
qed

lemma rolled_up_log: "log_blind rolled_up"
  unfolding log_blind_def by (intro allI impI, rule rolled_up_same [rotated 2]) simp_all

lemma rolled_up_rolled:
  assumes "\<And>r. r \<in> set (orders d) \<Longrightarrow> ord_id r \<noteq> i \<Longrightarrow> rolled_order d r"
  shows "rolled_up n (rolled i d)"
proof (cases "get_row ord_id i (orders d) = None \<or> order_fulfilments d i = []")
  case True
  have "rolled_order d r" if "r \<in> set (orders d)" "ord_id r = i" for r
    using True that get_row_None [of ord_id i "orders d"] by (auto simp: rolled_order_def)
  with assms True show ?thesis by (auto simp: rolled_up_def rolled_def)
next
  case False
  then have "rolled i d = orders_update (upd_row ord_id i
        (\<lambda>r. r\<lparr>ord_status := rollup_status (map ful_status (order_fulfilments d i))\<rparr>)) d"
    unfolding rolled_def by (rule if_not_P)
  then show ?thesis
    using assms by (auto simp: rolled_up_def set_upd_row rolled_order_def order_fulfilments_def)
qed

lemma order_fulfilments_written:
  assumes inv: "fulfil_inv n d" and cur: "is_current d i v current" and x: "ful_order_id x = i" and j: "j \<noteq> i"
  shows "order_fulfilments (vendor_fulfilments_update (written current x) d) j = order_fulfilments d j"
proof (cases current)
  case None
  then show ?thesis using x j by (simp add: order_fulfilments_def written_def)
next
  case (Some f)
  have f: "f \<in> set (vendor_fulfilments d)" "ful_order_id f = i" using is_current_Some cur Some by blast+
  have "distinct (map ful_id (vendor_fulfilments d))" using inv by (simp add: fulfil_inv_def)
  then have only: "r = f" if "r \<in> set (vendor_fulfilments d)" "ful_id r = ful_id f" for r
    using row_by_id f(1) that by blast
  have "filter (\<lambda>r. ful_order_id r = j) (upd_row ful_id (ful_id f) (\<lambda>_. x) rows) = filter (\<lambda>r. ful_order_id r = j) rows"
    if "\<forall>r \<in> set rows. ful_id r = ful_id f \<longrightarrow> r = f" for rows
    using that x j f(2) by (induction rows) auto
  with only show ?thesis by (simp add: order_fulfilments_def written_def Some)
qed

lemma preserved_and:
  assumes J: "preserved J m" and K: "supply_mono J" "log_blind J" "supply_mono K" "log_blind K"
    and at: "atomic_but_log m" and up: "\<And>n. keeps (uuid_ge n) m"
    and ok: "\<And>w x w'. disk w = db w \<Longrightarrow> J (next_uuid w) (db w) \<Longrightarrow> K (next_uuid w) (db w)
               \<Longrightarrow> m w = (Inr x, w') \<Longrightarrow> K (next_uuid w') (disk w')"
  shows "preserved (\<lambda>n d. J n d \<and> K n d) m"
proof (rule preservedI [OF _ _ at up])
  show "supply_mono (\<lambda>n d. J n d \<and> K n d)" using K(1,3) unfolding supply_mono_def by blast
  show "log_blind (\<lambda>n d. J n d \<and> K n d)" using K(2,4) unfolding log_blind_def by blast
next
  fix w x w' assume i: "J (next_uuid w) (db w) \<and> K (next_uuid w) (db w)" and d: "disk w = db w"
    and m: "m w = (Inr x, w')"
  from m have "request m w = (Inr x, w'\<lparr>db := disk w'\<rparr>)" by (simp add: request_run)
  from preservedD [OF J d _ this] i have "J (next_uuid w') (disk w')" by simp
  with ok [OF d _ _ m] i show "J (next_uuid w') (disk w') \<and> K (next_uuid w') (disk w')" by blast
qed

definition order_inv :: "uuid \<Rightarrow> database \<Rightarrow> bool" where
  "order_inv n d \<longleftrightarrow> fulfil_hist [] n d \<and> rolled_up n d"

lemma order_rules:
  assumes "preserved (fulfil_hist []) m" and "atomic_but_log m" and "\<And>n. keeps (uuid_ge n) m"
    and "\<And>w x w'. fulfil_hist [] (next_uuid w) (db w) \<Longrightarrow> rolled_up (next_uuid w) (db w)
           \<Longrightarrow> m w = (Inr x, w') \<Longrightarrow> rolled_up (next_uuid w') (disk w')"
  shows "preserved order_inv m"
proof -
  have "preserved (\<lambda>n d. fulfil_hist [] n d \<and> rolled_up n d) m"
    by (rule preserved_and [OF assms(1) fulfil_hist_mono fulfil_hist_log rolled_up_mono rolled_up_log assms(2,3)])
       (rule assms(4))
  moreover have "order_inv = (\<lambda>n d. fulfil_hist [] n d \<and> rolled_up n d)"
    by (intro ext) (simp add: order_inv_def)
  ultimately show ?thesis by simp
qed

lemma order_inv_mono: "supply_mono order_inv"
  using fulfil_hist_mono [of "[]"] rolled_up_mono by (simp add: supply_mono_def order_inv_def)

lemma order_inv_log: "log_blind order_inv"
  using fulfil_hist_log [of "[]"] rolled_up_log by (simp add: log_blind_def order_inv_def)

lemma rolled_advance: "preserved order_inv (advance_vendor_order v i u s c t)"
proof (rule order_rules [OF preserved_advance fulfil_ops_atomic(1) fulfil_ops_uuid(1)])
  fix w x w' assume "fulfil_hist [] (next_uuid w) (db w)" and up: "rolled_up (next_uuid w) (db w)"
    and ok: "advance_vendor_order v i u s c t w = (Inr x, w')"
  then have inv: "fulfil_inv (next_uuid w) (db w)" by (simp add: fulfil_hist_def)
  from advance_effect [OF inv ok] obtain current l where
    cur: "is_current (db w) i v current" and x: "ful_order_id x = i"
    and w': "db w' = rolled i ((vendor_fulfilments_update (written current x) (db w))\<lparr>audit_log := l\<rparr>)"
      "disk w' = db w'"
    by blast
  show "rolled_up (next_uuid w') (disk w')"
    unfolding w'(1,2)
  proof (rule rolled_up_rolled)
    let ?d = "(vendor_fulfilments_update (written current x) (db w))\<lparr>audit_log := l\<rparr>"
    fix r assume r: "r \<in> set (orders ?d)" "ord_id r \<noteq> i"
    have "order_fulfilments ?d (ord_id r) = order_fulfilments (db w) (ord_id r)"
      using order_fulfilments_written [OF inv cur x r(2)] by (simp add: order_fulfilments_def)
    with up r show "rolled_order ?d r" by (simp add: rolled_up_def rolled_order_def)
  qed
qed

lemma rolled_refund: "preserved order_inv (issue_vendor_reject_refund v i u)"
proof (rule order_rules [OF preserved_refund fulfil_ops_atomic(2) fulfil_ops_uuid(2)])
  fix w x w' assume "fulfil_hist [] (next_uuid w) (db w)" and up: "rolled_up (next_uuid w) (db w)"
    and ok: "issue_vendor_reject_refund v i u w = (Inr x, w')"
  then have ids: "distinct (map ful_id (vendor_fulfilments (db w)))"
    by (simp add: fulfil_hist_def fulfil_inv_def)
  from refund_okD [OF ok] obtain f l where
    cur: "is_current (db w) i v (Some f)"
    and x: "x = f\<lparr>ful_refund_status := ''refunded'', ful_updated_at := clock w\<rparr>"
    and w': "db w' = (vendor_fulfilments_update (written (Some f) x) (db w))\<lparr>audit_log := l\<rparr>"
      "disk w' = db w'"
    by blast
  have "r = f" if "r \<in> set (vendor_fulfilments (db w))" "ful_id r = ful_id f" for r
    using row_by_id [OF ids] is_current_Some [OF cur] that by blast
  then have "map (\<lambda>f. (ful_order_id f, ful_status f)) (written (Some f) x (vendor_fulfilments (db w)))
      = map (\<lambda>f. (ful_order_id f, ful_status f)) (vendor_fulfilments (db w))"
    by (auto simp: written_def upd_row_def x)
  then show "rolled_up (next_uuid w') (disk w')"
    unfolding w'(1,2) by (intro rolled_up_same [OF _ _ up]) simp_all
qed

lemma rollup_all_cancelled: "fs \<noteq> [] \<Longrightarrow> \<forall>s \<in> set fs. s = ''cancelled'' \<Longrightarrow> rollup_status fs = ''cancelled''"
  by (simp add: rollup_status_def list_all_iff)

lemma cancelled_status: "f = cancelled_row a now x \<Longrightarrow> ful_status f = ''cancelled''"
  by (simp add: cancelled_row_def)

lemma rolled_cancel: "preserved order_inv (cancel_order tn i u)"
  unfolding cancel_order_split
proof (rule preserved_then_reads [OF order_rules [OF _ fulfil_ops_atomic(3) fulfil_ops_uuid(3)]
      reads_only_order_detail])
  show "preserved (fulfil_hist []) (cancel_body tn i u)" by (rule preserved_cancel_body)
next
  fix w x w' assume h: "fulfil_hist [] (next_uuid w) (db w)" and up: "rolled_up (next_uuid w) (db w)"
    and ok: "cancel_body tn i u w = (Inr x, w')"
  from h have "distinct (map ful_id (vendor_fulfilments (db w)))"
    by (simp add: fulfil_hist_def fulfil_inv_def)
  from cancel_body_okD [OF this ok] obtain l where
    w': "db w' = (orders_update (upd_row ord_id i (\<lambda>r. r\<lparr>ord_status := ''cancelled''\<rparr>))
         (vendor_fulfilments_update (\<lambda>rows. cancelled_fulfilments (db w) i (clock w) rows) (db w)))\<lparr>audit_log := l\<rparr>"
      "disk w' = db w'"
    by blast
  have other: "order_fulfilments (db w') j = order_fulfilments (db w) j" if "j \<noteq> i" for j
  proof -
    have "filter (\<lambda>f. ful_order_id f = j) (cancelled_fulfilments d i now rows) = filter (\<lambda>f. ful_order_id f = j) rows"
      for d now rows
      using that by (induction rows) (auto simp: cancelled_fulfilments_def cancelled_row_def)
    then show ?thesis by (simp add: w'(1) order_fulfilments_def)
  qed
  have all: "\<forall>f \<in> set (order_fulfilments (db w') i). ful_status f = ''cancelled''"
  proof
    fix f assume "f \<in> set (order_fulfilments (db w') i)"
    then have "f \<in> set (cancelled_fulfilments (db w) i (clock w) (vendor_fulfilments (db w)))" "ful_order_id f = i"
      by (simp_all add: w'(1) order_fulfilments_def)
    then show "ful_status f = ''cancelled''"
      by (auto simp: cancelled_fulfilments_def cancelled_status split: if_splits)
  qed
  have "rolled_order (db w') r" if r: "r \<in> set (orders (db w'))" for r
  proof (cases "ord_id r = i")
    case True
    from r obtain q where "r = (if ord_id q = i then q\<lparr>ord_status := ''cancelled''\<rparr> else q)"
      by (auto simp: w'(1) set_upd_row)
    with True have "ord_status r = ''cancelled''" by (cases "ord_id q = i") simp_all
    with True all show ?thesis by (auto simp: rolled_order_def intro!: rollup_all_cancelled [symmetric])
  next
    case False
    then have "r \<in> set (orders (db w))" using r by (auto simp: w'(1) set_upd_row)
    with up False other show ?thesis by (simp add: rolled_up_def rolled_order_def)
  qed
  then show "rolled_up (next_uuid w') (disk w')" by (simp add: rolled_up_def w'(2))
qed

lemma rolled_place_order:
  "preserved order_inv (place_order (build_authorization_service b) t u p a m rid)"
proof (rule preserved_request [OF order_inv_mono order_inv_log place_order_atomic place_order_uuid])
  fix w x w'
  let ?m = "place_order (build_authorization_service b) t u p a m rid"
  assume d: "disk w = db w" and J: "order_inv (next_uuid w) (db w)" and run: "request ?m w = (Inr x, w')"
  from J have hist: "fulfil_hist [] (next_uuid w) (db w)" and up: "rolled_up (next_uuid w) (db w)"
    by (simp_all add: order_inv_def)
  have inv': "fulfil_hist [] (next_uuid w') (db w')"
    using preservedD [OF preserved_place_order_hist d hist run] by blast
  from place_order_request [OF d run] obtain cart :: cart_row and address n l1 l2 where
      n: "next_uuid w \<le> n" and es: "cart_line_rows (db w) (crt_id cart) \<noteq> []" and
      w': "db w' = (placed_db n (clock w) t (crt_id cart) address (lower (strip m))
         (cart_line_rows (db w) (crt_id cart)) ((db w)\<lparr>authorization_audit_log := l1\<rparr>))\<lparr>audit_log := l2\<rparr>"
      by blast
  have ids: "ord_id r < n" if "r \<in> set (orders (db w))" for r
    using hist n that by (fastforce simp: fulfil_hist_def fulfil_inv_def)
  have fids: "ful_order_id f < n" if "f \<in> set (vendor_fulfilments (db w))" for f
    using hist n that unfolding fulfil_hist_def fulfil_inv_def by fastforce
  let ?new = "inserted_rows (fulfilment_of n (clock w)) (Suc n + length (cart_line_rows (db w) (crt_id cart)))
      (vendor_ids_of (cart_line_rows (db w) (crt_id cart)))"
  have new: "\<forall>f \<in> set ?new. ful_order_id f = n \<and> ful_status f = ''placed''"
    by (auto dest!: set_inserted_rows)
  have ful: "vendor_fulfilments (db w') = vendor_fulfilments (db w) @ ?new" by (simp add: w' placed_db_def)
  have old: "order_fulfilments (db w') j = order_fulfilments (db w) j" if "j \<noteq> n" for j
    using that new unfolding order_fulfilments_def ful by (auto simp: filter_empty_conv)
  have mine: "order_fulfilments (db w') n = ?new"
  proof -
    have "filter (\<lambda>f. ful_order_id f = n) (vendor_fulfilments (db w)) = []"
      using fids by (auto simp: filter_empty_conv)
    moreover have "filter (\<lambda>f. ful_order_id f = n) ?new = ?new" using new unfolding filter_id_conv by blast
    ultimately show ?thesis unfolding order_fulfilments_def ful by (simp only: filter_append append_Nil)
  qed
  have st: "rollup_status (map ful_status ?new) = ''placed''" if "?new \<noteq> []"
    using new that by (cases ?new) (auto simp: rollup_status_def list_all_iff list_ex_iff)
  have "rolled_order (db w') r" if r: "r \<in> set (orders (db w'))" for r
  proof (cases "ord_id r = n")
    case True
    then have "r \<notin> set (orders (db w))" using ids by auto
    then have "r = last (orders (db w'))" using r by (simp add: w' placed_db_def)
    moreover have "ord_status (last (orders (db w'))) = ''placed''" by (simp add: w' placed_db_def)
    ultimately have "ord_status r = ''placed''" by (simp only:)
    with True mine st show ?thesis by (simp add: rolled_order_def)
  next
    case False
    then have "r \<in> set (orders (db w))" using r by (auto simp: w' placed_db_def)
    with up False old show ?thesis by (simp add: rolled_up_def rolled_order_def)
  qed
  then show "order_inv (next_uuid w') (db w')" using inv' by (simp add: order_inv_def rolled_up_def)
qed

text \<open>The roll-up in terms of the fulfilments.\<close>

lemma rollup_meaning:
  assumes "fs \<noteq> []"
  shows "(rollup_status fs = ''cancelled'') = (\<forall>s \<in> set fs. s = ''cancelled'')"
    and "(rollup_status fs = ''delivered'') = (\<forall>s \<in> set fs. s = ''delivered'')"
    and "(rollup_status fs = ''placed'') = (\<forall>s \<in> set fs. s = ''placed'')"
    and "(rollup_status fs = ''partial'') = (\<exists>s \<in> set fs. \<exists>s' \<in> set fs.
           s \<in> {''cancelled'', ''delivered''} \<and> s' \<noteq> s)"
    and "rollup_status fs \<in> {''placed'', ''processing'', ''partial'', ''delivered'', ''cancelled''}"
proof -
  obtain s fs' where fs: "fs = s # fs'" using assms by (cases fs) auto
  have no: "\<not> (\<forall>s \<in> set fs. s = ''cancelled'' \<and> s = ''delivered'')" using fs by simp
  show "(rollup_status fs = ''cancelled'') = (\<forall>s \<in> set fs. s = ''cancelled'')"
    by (auto simp: rollup_status_def list_all_iff list_ex_iff split: if_splits)
  show "(rollup_status fs = ''delivered'') = (\<forall>s \<in> set fs. s = ''delivered'')"
    by (auto simp: fs rollup_status_def list_all_iff list_ex_iff split: if_splits)
  show "(rollup_status fs = ''placed'') = (\<forall>s \<in> set fs. s = ''placed'')"
    by (auto simp: fs rollup_status_def list_all_iff list_ex_iff split: if_splits)
  have ex: "(\<exists>s \<in> set fs. \<exists>s' \<in> set fs. s \<in> {''cancelled'', ''delivered''} \<and> s' \<noteq> s)
      = ((''cancelled'' \<in> set fs \<and> (\<exists>s \<in> set fs. s \<noteq> ''cancelled''))
         \<or> (''delivered'' \<in> set fs \<and> (\<exists>s \<in> set fs. s \<noteq> ''delivered'')))" by blast
  have all: "list_all (\<lambda>s. s = c) fs \<longleftrightarrow> \<not> (\<exists>s \<in> set fs. s \<noteq> c)" for c by (auto simp: list_all_iff)
  have some: "list_ex (\<lambda>s. s = c) fs \<longleftrightarrow> c \<in> set fs" for c by (auto simp: list_ex_iff)
  have "''cancelled'' \<in> set fs \<Longrightarrow> \<exists>s \<in> set fs. s \<noteq> ''delivered''"
    "''delivered'' \<in> set fs \<Longrightarrow> \<exists>s \<in> set fs. s \<noteq> ''cancelled''"
    by (erule bexI [rotated], simp)+
  then show "(rollup_status fs = ''partial'') = (\<exists>s \<in> set fs. \<exists>s' \<in> set fs.
           s \<in> {''cancelled'', ''delivered''} \<and> s' \<noteq> s)"
    unfolding ex unfolding rollup_status_def all some list_ex_iff
    by (cases "\<exists>s \<in> set fs. s \<noteq> ''cancelled''"; cases "\<exists>s \<in> set fs. s \<noteq> ''delivered''")
       (simp_all, blast+)
  show "rollup_status fs \<in> {''placed'', ''processing'', ''partial'', ''delivered'', ''cancelled''}"
    by (simp add: rollup_status_def)
qed

end
