(* ===== verification/Returns_Rules.thy ===== *)
theory Returns_Rules
  imports Returns Subscriptions Order_Status
begin

section \<open>The life of a return\<close>

text \<open>
  The machine of a return (requested, then approved or rejected; refunded after approved), what each
  request does to the returns, and the invariant with the history that every request keeps.
\<close>

inductive rmoves :: "string \<Rightarrow> string \<Rightarrow> bool" where
  approve: "rmoves ''requested'' ''approved''"
| reject: "rmoves ''requested'' ''rejected''"
| refund: "rmoves ''approved'' ''refunded''"

inductive_simps rmoves_from [simp]:
  "rmoves ''requested'' t" "rmoves ''approved'' t" "rmoves ''rejected'' t" "rmoves ''refunded'' t"

lemma return_final:
  assumes "rmoves\<^sup>*\<^sup>* s t" and "s \<in> {''rejected'', ''refunded''}"
  shows "t = s"
  using assms by (induction rule: rtranclp_induct) auto

definition return_ok :: "order_line_row list \<Rightarrow> return_row \<Rightarrow> bool" where
  "return_ok ls r \<longleftrightarrow>
     ret_reason r \<noteq> []
     \<and> (\<exists>line \<in> set ls. oln_id line = ret_line_id r \<and> oln_order_id line = ret_order_id r
          \<and> (ret_status r \<in> {''approved'', ''refunded''} \<longrightarrow>
               (\<exists>a. ret_refund_amount r = Some a \<and> 0 \<le> a \<and> a \<le> line_total line)
               \<and> (\<exists>m. ret_refund_method r = Some m \<and> m \<in> set refund_methods)))
     \<and> (ret_status r \<in> {''requested'', ''rejected''} \<longrightarrow> ret_refund_amount r = None)
     \<and> (ret_refunded_at r \<noteq> None \<longleftrightarrow> ret_status r = ''refunded'')
     \<and> (ret_decided_at r = None \<longleftrightarrow> ret_status r = ''requested'')
     \<and> ret_status r \<in> {''requested'', ''approved'', ''rejected'', ''refunded''}"

definition return_inv :: "uuid \<Rightarrow> database \<Rightarrow> bool" where
  "return_inv n d \<longleftrightarrow>
     distinct (map ret_id (returns d)) \<and> distinct (map oln_id (order_lines d))
     \<and> (\<forall>r \<in> set (returns d). ret_id r < n \<and> return_ok (order_lines d) r)
     \<and> (\<forall>l \<in> set (order_lines d). oln_id l < n)
     \<and> (\<forall>i. length (requested_returns d i) \<le> 1)"

definition later_return :: "return_row \<Rightarrow> return_row \<Rightarrow> bool" where
  "later_return r r' \<longleftrightarrow>
     ret_id r' = ret_id r \<and> ret_order_id r' = ret_order_id r \<and> ret_line_id r' = ret_line_id r
     \<and> ret_reason r' = ret_reason r \<and> ret_notes r' = ret_notes r
     \<and> rmoves\<^sup>*\<^sup>* (ret_status r) (ret_status r')
     \<and> (ret_refund_amount r \<noteq> None \<longrightarrow> ret_refund_amount r' = ret_refund_amount r)
     \<and> (ret_decided_at r \<noteq> None \<longrightarrow> ret_decided_at r' = ret_decided_at r)"

lemma later_return_refl [simp]: "later_return r r"
  by (simp add: later_return_def)

lemma later_return_trans: "later_return r s \<Longrightarrow> later_return s t \<Longrightarrow> later_return r t"
  unfolding later_return_def by (elim conjE) (intro conjI impI; (erule (1) rtranclp_trans | simp))

definition return_hist :: "return_row list \<Rightarrow> uuid \<Rightarrow> database \<Rightarrow> bool" where
  "return_hist rs n d \<longleftrightarrow> return_inv n d \<and> (\<forall>r \<in> set rs. \<exists>r' \<in> set (returns d). later_return r r')"

lemma return_hist_start: "return_inv n d \<Longrightarrow> return_hist (returns d) n d"
  unfolding return_hist_def using later_return_refl by blast

lemma return_hist_mono: "supply_mono (return_hist rs)"
  by (fastforce simp: supply_mono_def return_hist_def return_inv_def)

lemma return_hist_depends: "depends_on (\<lambda>d. (returns d, order_lines d)) (return_hist rs)"
  by (simp add: depends_on_def return_hist_def return_inv_def requested_returns_def)

lemma return_hist_same:
  "return_hist rs n d \<Longrightarrow> returns d' = returns d \<Longrightarrow> order_lines d' = order_lines d \<Longrightarrow> return_hist rs n d'"
  using return_hist_depends [of rs] unfolding depends_on_def by blast

lemma return_hist_log: "log_blind (return_hist rs)"
  unfolding log_blind_def by (intro allI impI, erule return_hist_same) simp_all

text \<open>A new return on a line without an open one.\<close>

lemma return_hist_new:
  assumes h: "return_hist rs n d" and row: "ret_id row = n" "return_ok (order_lines d) row"
    and free: "requested_returns d (ret_line_id row) = []"
  shows "return_hist rs (Suc n) (returns_update (\<lambda>rows. rows @ [row]) d)"
proof -
  let ?d = "returns_update (\<lambda>rows. rows @ [row]) d"
  from h have inv: "return_inv n d" by (simp add: return_hist_def)
  have "length (requested_returns ?d i) \<le> 1" for i
    using inv free by (cases "i = ret_line_id row") (auto simp: return_inv_def requested_returns_def)
  then have "return_inv (Suc n) ?d"
    using inv row by (fastforce simp: return_inv_def)
  then show ?thesis using h by (auto simp: return_hist_def)
qed

text \<open>One return moves on.\<close>

lemma return_hist_move:
  assumes h: "return_hist rs n d" and r: "r \<in> set (returns d)"
    and ok: "return_ok (order_lines d) (f r)" "later_return r (f r)" "ret_status (f r) \<noteq> ''requested''"
  shows "return_hist rs n (returns_update (upd_row ret_id (ret_id r) f) d)"
proof -
  let ?g = "\<lambda>x. if ret_id x = ret_id r then f x else x"
  let ?d = "returns_update (upd_row ret_id (ret_id r) f) d"
  from h have inv: "return_inv n d" by (simp add: return_hist_def)
  then have ids: "distinct (map ret_id (returns d))" by (simp add: return_inv_def)
  have only: "x = r" if "x \<in> set (returns d)" "ret_id x = ret_id r" for x
    using ids r that by (meson distinct_map inj_onD)
  have g: "later_return x (?g x)" if "x \<in> set (returns d)" for x
    using only [OF that] ok(2) by auto
  have rows: "returns ?d = map ?g (returns d)" by (simp add: upd_row_def)
  have "map ret_id (returns ?d) = map ret_id (returns d)"
    unfolding rows using g by (simp add: later_return_def)
  then have "distinct (map ret_id (returns ?d))" using ids by (simp only:)
  moreover have "\<forall>x \<in> set (returns ?d). ret_id x < n \<and> return_ok (order_lines d) x"
  proof
    fix x assume "x \<in> set (returns ?d)"
    then obtain y where y: "y \<in> set (returns d)" "x = ?g y" unfolding rows by auto
    then have "return_ok (order_lines d) x" using inv ok(1) only [OF y(1)] by (auto simp: return_inv_def)
    moreover have "ret_id x = ret_id y" using g [OF y(1)] by (simp add: y(2) later_return_def)
    ultimately show "ret_id x < n \<and> return_ok (order_lines d) x" using inv y(1) by (simp add: return_inv_def)
  qed
  moreover have "length (requested_returns ?d i) \<le> 1" for i
  proof -
    have "length (filter (\<lambda>x. ret_line_id x = i \<and> ret_status x = ''requested'') (map ?g xs))
        \<le> length (filter (\<lambda>x. ret_line_id x = i \<and> ret_status x = ''requested'') xs)"
      if "set xs \<subseteq> set (returns d)" for xs
      using that
    proof (induction xs)
      case (Cons x xs)
      have "?g x = x \<or> ret_status (?g x) \<noteq> ''requested''"
        using only [of x] ok(3) Cons.prems by auto
      then show ?case using Cons by auto
    qed simp
    from this [of "returns d"] inv show ?thesis
      by (auto simp: return_inv_def requested_returns_def upd_row_def intro: order_trans)
  qed
  ultimately have "return_inv n ?d" using inv by (simp add: return_inv_def)
  moreover have "\<exists>x' \<in> set (returns ?d). later_return x x'" if x: "x \<in> set rs" for x
  proof -
    from h x obtain y where y: "y \<in> set (returns d)" "later_return x y" by (auto simp: return_hist_def)
    then have "?g y \<in> set (returns ?d)" unfolding rows by simp
    with later_return_trans [OF y(2) g [OF y(1)]] show ?thesis by blast
  qed
  ultimately show ?thesis by (simp add: return_hist_def)
qed

text \<open>Lines are added, or change their status only.\<close>

lemma return_hist_lines:
  assumes h: "return_hist rs n d" and le: "n \<le> m" and rets: "returns d' = returns d"
    and ids: "distinct (map oln_id (order_lines d'))" "\<forall>l \<in> set (order_lines d'). oln_id l < m"
    and kept: "\<And>l. l \<in> set (order_lines d) \<Longrightarrow> \<exists>l' \<in> set (order_lines d'). oln_id l' = oln_id l
                 \<and> oln_order_id l' = oln_order_id l \<and> line_total l' = line_total l"
  shows "return_hist rs m d'"
proof -
  have "return_ok (order_lines d') r" if "return_ok (order_lines d) r" for r
  proof -
    from that obtain l where l: "l \<in> set (order_lines d)" "oln_id l = ret_line_id r"
      "oln_order_id l = ret_order_id r" "ret_status r \<in> {''approved'', ''refunded''} \<longrightarrow>
               (\<exists>a. ret_refund_amount r = Some a \<and> 0 \<le> a \<and> a \<le> line_total l)
               \<and> (\<exists>m. ret_refund_method r = Some m \<and> m \<in> set refund_methods)"
      unfolding return_ok_def by blast
    from kept [OF l(1)] obtain l' where "l' \<in> set (order_lines d')" "oln_id l' = oln_id l"
      "oln_order_id l' = oln_order_id l" "line_total l' = line_total l" by blast
    with l that show ?thesis unfolding return_ok_def by (elim conjE) (intro conjI bexI [of _ l'], simp_all)
  qed
  then show ?thesis
    using h le rets ids by (fastforce simp: return_hist_def return_inv_def requested_returns_def)
qed

subsection \<open>What the requests do\<close>

lemma order_line_of_order_step [step_ok]:
  "bindE (order_line_of_order order i) f w = (Inr y, w')
     \<longleftrightarrow> (\<exists>l. get_row oln_id i (order_lines (db w)) = Some l \<and> oln_order_id l = ord_id order
          \<and> f l w = (Inr y, w'))"
  by (simp only: order_line_of_order_def step_ok the_or_checked_ok not_not)
     (metis (lifting))

text \<open>The stored amount of an approval is the amount asked for, to the nearest hundredth.\<close>

definition asked_within :: "float_value option \<Rightarrow> money \<Rightarrow> money \<Rightarrow> bool" where
  "asked_within asked limit stored \<longleftrightarrow>
     (\<exists>m e. asked = Some (Decimal m e) \<and> 0 < m \<and> cents_num m e \<le> limit * cents_den e
        \<and> stored = numeric_cents m e)"

lemma cents_den_pos [simp]: "0 < cents_den e"
  by (simp add: cents_den_def)

lemma cents_num_pos: "0 < m \<Longrightarrow> 0 < cents_num m e"
  by (simp add: cents_num_def)

lemma half_up:
  fixes n k :: int
  assumes "0 \<le> n" "0 < k"
  shows "2 * \<bar>n - (2 * n + k) div (2 * k) * k\<bar> \<le> k" and "(2 * n + k) div (2 * k) = 0 \<longleftrightarrow> 2 * n < k"
    and "n \<le> c * k \<Longrightarrow> (2 * n + k) div (2 * k) \<le> c" and "0 \<le> (2 * n + k) div (2 * k)"
proof -
  let ?q = "(2 * n + k) div (2 * k)" and ?r = "(2 * n + k) mod (2 * k)"
  have eq: "2 * n + k = 2 * (?q * k) + ?r" using mult_div_mod_eq [of "2 * k" "2 * n + k"] by (simp add: algebra_simps)
  have r: "0 \<le> ?r" "?r < 2 * k" using assms(2) by simp_all
  have "2 * (n - ?q * k) = ?r - k" using eq by (simp only: right_diff_distrib)
  with r have "- k \<le> 2 * (n - ?q * k)" "2 * (n - ?q * k) \<le> k" by simp_all
  then show "2 * \<bar>n - ?q * k\<bar> \<le> k" by (simp add: abs_if)
  show nonneg: "0 \<le> ?q" using assms by (simp add: pos_imp_zdiv_nonneg_iff)
  show "?q = 0 \<longleftrightarrow> 2 * n < k"
    using assms zdiv_eq_0_iff [of "2 * n + k" "2 * k"] by auto
  show "?q \<le> c" if "n \<le> c * k"
  proof (rule ccontr)
    assume "\<not> ?q \<le> c"
    then have "(c + 1) * k \<le> ?q * k" using assms(2) by (intro mult_right_mono) simp_all
    then have "c * k + k \<le> ?q * k" by (simp only: distrib_right mult_1)
    with eq r(1) that assms(2) show False by linarith
  qed
qed

lemma numeric_cents_rounds:
  assumes "0 < m"
  shows "2 * \<bar>cents_num m e - numeric_cents m e * cents_den e\<bar> \<le> cents_den e"
    and "numeric_cents m e = 0 \<longleftrightarrow> 2 * cents_num m e < cents_den e"
    and "cents_num m e \<le> c * cents_den e \<Longrightarrow> numeric_cents m e \<le> c" and "0 \<le> numeric_cents m e"
  using half_up [of "cents_num m e" "cents_den e"] cents_num_pos [OF assms, of e]
  by (simp_all add: numeric_cents_def)

lemma asked_within_bounds: "asked_within asked limit stored \<Longrightarrow> 0 \<le> stored \<and> stored \<le> limit"
  by (auto simp: asked_within_def numeric_cents_rounds)

lemma refund_in_bounds_step [step_ok]:
  "bindE (refund_in_bounds asked limit) f w = (Inr y, w')
     \<longleftrightarrow> (\<exists>m e. asked = Decimal m e \<and> 0 < m \<and> cents_num m e \<le> limit * cents_den e \<and> f (m, e) w = (Inr y, w'))"
  by (cases asked) (auto simp: bindE_run raise_def ret_def)

lemma reads_only_refund_in_bounds [reads_only_intros]: "reads_only (refund_in_bounds asked limit)"
  by (cases "(asked, limit)" rule: refund_in_bounds.cases) (auto intro!: reads_only_intros)

lemma reads_only_answer [reads_only_intros]: "reads_only m \<Longrightarrow> reads_only (bindE m (\<lambda>x. ret (f x)))"
  by (rule reads_only_intros | assumption)+

lemma reads_only_returns [reads_only_intros]:
  "reads_only (order_line_of_order order i)" "reads_only (vendor_return_row v i)"
  "reads_only (listed_return v u i)" "reads_only (list_returns t u)" "reads_only (list_vendor_returns v u)"
  "reads_only (list_vendor_reviews v u)"
  unfolding order_line_of_order_def vendor_return_row_def listed_return_def list_returns_def
    list_vendor_returns_def list_vendor_reviews_def
  by (intro reads_only_intros reads_only_checks reads_only_commerce)+

definition new_return ::
  "uuid \<Rightarrow> instant \<Rightarrow> order_row \<Rightarrow> order_line_row \<Rightarrow> string \<Rightarrow> string \<Rightarrow> return_row"
where
  "new_return i now order line reason notes =
     \<lparr>ret_id = i, ret_order_id = ord_id order, ret_line_id = oln_id line,
      ret_reason = reason, ret_notes = notes, ret_status = ''requested'',
      ret_refund_amount = None, ret_refund_currency = ''INR'', ret_refund_method = None,
      ret_vendor_notes = [], ret_decided_at = None, ret_refunded_at = None, ret_created_at = now\<rparr>"

lemma request_return_okD:
  assumes "request_return i u l reason notes w = (Inr x, w')"
  shows "\<exists>order line log. get_row ord_id i (orders (db w)) = Some order
     \<and> db_active_member (db w) (ord_tenant_id order) u
     \<and> ord_status order \<in> set returnable_statuses
     \<and> get_row oln_id l (order_lines (db w)) = Some line \<and> oln_order_id line = ord_id order
     \<and> strip reason \<noteq> [] \<and> requested_returns (db w) (oln_id line) = []
     \<and> db w' = (returns_update (\<lambda>rows. rows
            @ [new_return (next_uuid w) (clock w) order line (strip reason) (strip notes)]) (db w))\<lparr>audit_log := log\<rparr>
     \<and> disk w' = db w' \<and> next_uuid w' = Suc (Suc (next_uuid w))"
  using assms unfolding request_return_def Let_def new_return_def
  apply (simp only: step_ok)
  apply (elim exE conjE)
  apply (rule exI, rule exI, rule exI, rule conjI, assumption)
  apply (rule conjI, erule require_member_okD(2))
  apply (rule conjI, simp, rule conjI, assumption, rule conjI, assumption, rule conjI, assumption)
  apply (rule conjI, simp split: option.split_asm)
  apply simp
  done

lemma line_known:
  assumes "return_hist rs n d" and "l \<in> set (order_lines d)" and "l' \<in> set (order_lines d)"
    and "oln_id l' = oln_id l"
  shows "l' = l"
  using assms unfolding return_hist_def return_inv_def by (meson distinct_map inj_onD)

lemma return_ops_atomic:
  "atomic_but_log (request_return i u l r n)" "atomic_but_log (create_review t u i l k c)"
  unfolding request_return_def create_review_def Let_def
  by (rule atomic_but_log_intros keeps_intros reads_only_keeps reads_only_checks reads_only_returns reads_only_intros)+

lemma return_ops_uuid:
  "keeps (uuid_ge n) (request_return i u l r m)" "keeps (uuid_ge n) (create_review t u i l k c)"
  unfolding request_return_def create_review_def Let_def
  by (rule keeps_intros reads_only_keeps reads_only_checks reads_only_returns reads_only_intros)+

lemma preserved_request_return: "preserved (return_hist rs) (request_return i u l reason notes)"
proof (rule preservedI [OF return_hist_mono return_hist_log return_ops_atomic(1) return_ops_uuid(1)])
  fix w x w' assume h: "return_hist rs (next_uuid w) (db w)"
    and ok: "request_return i u l reason notes w = (Inr x, w')"
  from request_return_okD [OF ok] obtain order :: order_row and line log where
    l: "get_row oln_id l (order_lines (db w)) = Some line" "oln_order_id line = ord_id order"
    and new: "strip reason \<noteq> []" "requested_returns (db w) (oln_id line) = []"
    and w': "db w' = (returns_update (\<lambda>rows. rows
            @ [new_return (next_uuid w) (clock w) order line (strip reason) (strip notes)]) (db w))\<lparr>audit_log := log\<rparr>"
      "disk w' = db w'" "next_uuid w' = Suc (Suc (next_uuid w))"
    by blast
  let ?row = "new_return (next_uuid w) (clock w) order line (strip reason) (strip notes)"
  have "return_ok (order_lines (db w)) ?row"
    using get_row_Some [OF l(1)] l(2) new(1) by (auto simp: return_ok_def new_return_def)
  then have "return_hist rs (Suc (next_uuid w)) (returns_update (\<lambda>rows. rows @ [?row]) (db w))"
    by (rule return_hist_new [OF h, rotated]) (use new(2) in \<open>simp_all add: new_return_def\<close>)
  then have "return_hist rs (next_uuid w') (returns_update (\<lambda>rows. rows @ [?row]) (db w))"
    by (rule supply_monoD [OF return_hist_mono]) (simp add: w'(3))
  then show "return_hist rs (next_uuid w') (disk w')"
    by (rule return_hist_same) (simp_all add: w'(1,2))
qed

lemma bindE_case_prod: "bindE (case p of (a, b) \<Rightarrow> f a b) g = (case p of (a, b) \<Rightarrow> bindE (f a b) g)"
  by (cases p) simp

definition decide_body ::
  "uuid \<Rightarrow> uuid \<Rightarrow> uuid \<Rightarrow> string \<Rightarrow> float_value option \<Rightarrow> string option \<Rightarrow> string option \<Rightarrow> unit op"
where
  "decide_body vendor return_id caller decision refund_amount refund_method vendor_notes =
     bindE (require_vendor_owner vendor caller) (\<lambda>_.
     bindE (vendor_return_row vendor return_id) (\<lambda>(row, line).
     bindE (raise_if (ret_status row \<noteq> ''requested'')
              (ConflictError ''return is not awaiting review'')) (\<lambda>_.
     bindE (raise_if (lower (strip decision) \<notin> {''approved'', ''rejected''})
              (ValidationError ''decision must be approved or rejected'')) (\<lambda>_.
     bindE utcnow (\<lambda>now.
     bindE (modifies (returns_update (upd_row ret_id (ret_id row) (\<lambda>r.
              r\<lparr>ret_vendor_notes := strip (str_or vendor_notes []), ret_decided_at := Some now\<rparr>)))) (\<lambda>_.
     bindE (if lower (strip decision) = ''rejected'' then reject_return vendor (ret_id row) caller
            else approve_return vendor (ret_id row) caller line refund_amount refund_method) (\<lambda>_.
     commit)))))))"

definition refund_body :: "uuid \<Rightarrow> uuid \<Rightarrow> uuid \<Rightarrow> unit op" where
  "refund_body vendor return_id caller =
     bindE (require_vendor_owner vendor caller) (\<lambda>_.
     bindE (vendor_return_row vendor return_id) (\<lambda>(row, _).
     bindE (raise_if (ret_status row \<noteq> ''approved'')
              (ConflictError ''return must be approved before refunding'')) (\<lambda>_.
     bindE utcnow (\<lambda>now.
     bindE (modifies (returns_update (upd_row ret_id (ret_id row) (\<lambda>r.
              r\<lparr>ret_status := ''refunded'', ret_refunded_at := Some now\<rparr>)))) (\<lambda>_.
     bindE (audit ''return.refunded'' (Some caller) None
              [(''return_id'', JUuid (ret_id row)), (''vendor_id'', JUuid vendor),
               (''refund_amount'', case ret_refund_amount row of None \<Rightarrow> JNull
                                   | Some a \<Rightarrow> JMoney a)]) (\<lambda>_.
     commit))))))"

lemma return_splits:
  "decide_vendor_return v i u d a m n = bindE (decide_body v i u d a m n) (\<lambda>_.
     bindE (listed_return v u i) (\<lambda>item. ret (decided_answer (lower (strip d)) a item)))"
  "issue_vendor_return_refund v i u = bindE (refund_body v i u) (\<lambda>_. listed_return v u i)"
  by (simp_all add: decide_vendor_return_def decide_body_def issue_vendor_return_refund_def refund_body_def
      Let_def bindE_assoc bindE_case_prod)

lemma return_bodies_atomic:
  "atomic_but_log (decide_body v i u d a m n)" "atomic_but_log (refund_body v i u)"
  unfolding decide_body_def refund_body_def reject_return_def approve_return_def Let_def
  by (rule atomic_but_log_intros keeps_intros reads_only_keeps reads_only_checks reads_only_commerce
      reads_only_returns reads_only_intros)+

lemma return_bodies_uuid:
  "keeps (uuid_ge k) (decide_body v i u d a m n)" "keeps (uuid_ge k) (refund_body v i u)"
  unfolding decide_body_def refund_body_def reject_return_def approve_return_def Let_def
  by (rule keeps_intros reads_only_keeps reads_only_checks reads_only_commerce reads_only_returns
      reads_only_intros)+

lemma vendor_return_row_step [step_ok]:
  "bindE (vendor_return_row v i) f w = (Inr y, w')
     \<longleftrightarrow> (\<exists>row line. vendor_return_rows (db w) v i = [(row, line)] \<and> f (row, line) w = (Inr y, w'))"
  by (simp only: vendor_return_row_def step_ok) (auto split: option.splits)

lemma vendor_return_rowsD:
  assumes "vendor_return_rows d v i = [(row, line)]"
  shows "row \<in> set (returns d) \<and> line \<in> set (order_lines d) \<and> oln_id line = ret_line_id row \<and> ret_id row = i"
proof -
  have "(row, line) \<in> set (vendor_return_rows d v i)" using assms by simp
  then show ?thesis by (auto simp: vendor_return_rows_def split: if_splits)
qed

text \<open>The row a decision writes.\<close>

definition decided_row ::
  "instant \<Rightarrow> string \<Rightarrow> (money \<times> string \<times> string) option \<Rightarrow> return_row \<Rightarrow> return_row"
where
  "decided_row now notes refund r =
     (let r' = r\<lparr>ret_vendor_notes := notes, ret_decided_at := Some now\<rparr>
      in case refund of None \<Rightarrow> r'\<lparr>ret_status := ''rejected''\<rparr>
         | Some (a, currency, m) \<Rightarrow> r'\<lparr>ret_status := ''approved'', ret_refund_amount := Some a,
                ret_refund_currency := currency, ret_refund_method := Some m\<rparr>)"

lemma decided_row_fields [simp]:
  "ret_id (decided_row now s z r) = ret_id r" "ret_order_id (decided_row now s z r) = ret_order_id r"
  "ret_line_id (decided_row now s z r) = ret_line_id r" "ret_reason (decided_row now s z r) = ret_reason r"
  "ret_notes (decided_row now s z r) = ret_notes r" "ret_decided_at (decided_row now s z r) = Some now"
  "ret_refunded_at (decided_row now s z r) = ret_refunded_at r"
  "ret_status (decided_row now s None r) = ''rejected''"
  "ret_status (decided_row now s (Some q) r) = ''approved''"
  "ret_refund_amount (decided_row now s None r) = ret_refund_amount r"
  "ret_refund_amount (decided_row now s (Some (a, c, m)) r) = Some a"
  "ret_refund_method (decided_row now s (Some (a, c, m)) r) = Some m"
  by (simp_all add: decided_row_def Let_def split: option.split prod.split)

lemma upd_row_twice:
  "(\<And>r. key (g r) = key r) \<Longrightarrow> upd_row key k f (upd_row key k g rows) = upd_row key k (\<lambda>r. f (g r)) rows"
  by (simp add: upd_row_def comp_def)

lemma returns_update_twice: "returns_update f (returns_update g d) = returns_update (\<lambda>rows. f (g rows)) d"
  by (simp add: comp_def)

lemma decision_okD:
  assumes "(if b then reject_return v i u else approve_return v i u line a m) w = (Inr x, w')"
  shows "\<exists>refund log. (case refund of None \<Rightarrow> b
       | Some (amount, _, method) \<Rightarrow> \<not> b \<and> asked_within a (line_total line) amount
            \<and> method \<in> set refund_methods)
    \<and> db w' = (returns_update (upd_row ret_id i (\<lambda>r. (case refund of
           None \<Rightarrow> r\<lparr>ret_status := ''rejected''\<rparr>
         | Some (a, currency, m) \<Rightarrow> r\<lparr>ret_status := ''approved'', ret_refund_amount := Some a,
                ret_refund_currency := currency, ret_refund_method := Some m\<rparr>))) (db w))\<lparr>audit_log := log\<rparr>
    \<and> disk w' = disk w \<and> next_uuid w' = Suc (next_uuid w) \<and> clock w' = clock w"
proof (cases b)
  case True
  then have "reject_return v i u w = (Inr x, w')" using assms by simp
  then show ?thesis
    unfolding reject_return_def
    by (intro exI [of _ None] exI [of _ "audit_log (db w')"]) (auto simp: True bindE_run modifies_run audit_run)
next
  case False
  then have "approve_return v i u line a m w = (Inr x, w')" using assms by simp
  then show ?thesis
    unfolding approve_return_def Let_def
    apply (simp only: step_ok prod.case)
    apply (elim exE conjE)
    apply (rename_tac amount k e)
    apply (rule_tac x = "Some (numeric_cents k e, str_or (Some (oln_currency line)) ''INR'', lower (strip (str_or m [])))" in exI)
    apply (rule exI [of _ "audit_log (db w')"])
    apply (auto simp: False audit_run asked_within_def)
    done
qed

lemma decide_okD:
  assumes "decide_body v i u d a m n w = (Inr x, w')"
  shows "\<exists>row line refund log. owns_vendor (db w) v u \<and> vendor_return_rows (db w) v i = [(row, line)]
    \<and> ret_status row = ''requested''
    \<and> (case refund of None \<Rightarrow> lower (strip d) = ''rejected''
       | Some (amount, _, method) \<Rightarrow> lower (strip d) \<noteq> ''rejected'' \<and> asked_within a (line_total line) amount
            \<and> method \<in> set refund_methods)
    \<and> lower (strip d) \<in> {''approved'', ''rejected''}
    \<and> db w' = (returns_update (upd_row ret_id (ret_id row)
          (decided_row (clock w) (strip (str_or n [])) refund)) (db w))\<lparr>audit_log := log\<rparr>
    \<and> disk w' = db w' \<and> next_uuid w \<le> next_uuid w'"
proof -
  have eq: "returns_update (upd_row ret_id k (\<lambda>r. case z of
           None \<Rightarrow> r\<lparr>ret_status := ''rejected''\<rparr>
         | Some (a, currency, m) \<Rightarrow> r\<lparr>ret_status := ''approved'', ret_refund_amount := Some a,
                ret_refund_currency := currency, ret_refund_method := Some m\<rparr>))
       (returns_update (upd_row ret_id k (\<lambda>r. r\<lparr>ret_vendor_notes := s, ret_decided_at := Some t\<rparr>)) e)
      = returns_update (upd_row ret_id k (decided_row t s z)) e" for k z s t e
  proof -
    have "decided_row t s z = (\<lambda>r. case z of
           None \<Rightarrow> (r\<lparr>ret_vendor_notes := s, ret_decided_at := Some t\<rparr>)\<lparr>ret_status := ''rejected''\<rparr>
         | Some (a, currency, m) \<Rightarrow> (r\<lparr>ret_vendor_notes := s, ret_decided_at := Some t\<rparr>)
                \<lparr>ret_status := ''approved'', ret_refund_amount := Some a,
                ret_refund_currency := currency, ret_refund_method := Some m\<rparr>)"
      by (simp add: decided_row_def fun_eq_iff Let_def split: option.split)
    then show ?thesis unfolding returns_update_twice by (subst upd_row_twice) simp_all
  qed
  from assms obtain p row line w1 where own: "require_vendor_owner v u w = (Inr p, w)"
    and row: "vendor_return_rows (db w) v i = [(row, line)]" "\<not> ret_status row \<noteq> ''requested''"
    and d: "\<not> lower (strip d) \<notin> {''approved'', ''rejected''}"
    and step: "(if lower (strip d) = ''rejected'' then reject_return v (ret_id row) u
            else approve_return v (ret_id row) u line a m)
          (w\<lparr>db := returns_update (upd_row ret_id (ret_id row) (\<lambda>r.
              r\<lparr>ret_vendor_notes := strip (str_or n []), ret_decided_at := Some (clock w)\<rparr>)) (db w)\<rparr>) = (Inr (), w1)"
    and w': "w' = w1\<lparr>disk := db w1\<rparr>"
    unfolding decide_body_def
    by (simp only: step_ok prod.case step_ok_bind [of "if lower (strip d) = ''rejected'' then _ else _"] commit_ok) auto
  from decision_okD [OF step] obtain refund log where
    r: "case refund of None \<Rightarrow> lower (strip d) = ''rejected''
       | Some (amount, _, method) \<Rightarrow> lower (strip d) \<noteq> ''rejected'' \<and> asked_within a (line_total line) amount
            \<and> method \<in> set refund_methods"
    and w1: "db w1 = (returns_update (upd_row ret_id (ret_id row)
          (decided_row (clock w) (strip (str_or n [])) refund)) (db w))\<lparr>audit_log := log\<rparr>"
      "next_uuid w1 = Suc (next_uuid w)"
    by (auto simp: eq)
  show ?thesis
    by (rule exI [of _ row], rule exI [of _ line], rule exI [of _ refund], rule exI [of _ log])
       (use require_vendor_owner_okD(2) [OF own] row d r w1 w' in simp)
qed

lemma refund_body_okD:
  assumes "refund_body v i u w = (Inr x, w')"
  shows "\<exists>row line log. owns_vendor (db w) v u \<and> vendor_return_rows (db w) v i = [(row, line)]
    \<and> ret_status row = ''approved''
    \<and> db w' = (returns_update (upd_row ret_id (ret_id row)
          (\<lambda>r. r\<lparr>ret_status := ''refunded'', ret_refunded_at := Some (clock w)\<rparr>)) (db w))\<lparr>audit_log := log\<rparr>
    \<and> disk w' = db w' \<and> next_uuid w \<le> next_uuid w'"
  using assms unfolding refund_body_def
  apply (simp only: step_ok prod.case commit_ok)
  apply (elim exE conjE)
  apply (rule exI, rule exI, rule exI, rule conjI, erule require_vendor_owner_okD(2))
  apply (rule conjI, assumption)
  apply simp
  done

text \<open>Every request keeps the invariant and the history.\<close>

lemma moved_return:
  assumes h: "return_hist rs n d" and rows: "vendor_return_rows d v i = [(row, line)]"
    and f: "ret_id (f row) = ret_id row" "ret_order_id (f row) = ret_order_id row"
      "ret_line_id (f row) = ret_line_id row" "ret_reason (f row) = ret_reason row" "ret_notes (f row) = ret_notes row"
      "rmoves (ret_status row) (ret_status (f row))"
    and amount: "ret_refund_amount row \<noteq> None \<longrightarrow> ret_refund_amount (f row) = ret_refund_amount row"
    and decided: "ret_decided_at row \<noteq> None \<longrightarrow> ret_decided_at (f row) = ret_decided_at row"
    and ok: "return_ok (order_lines d) (f row)"
  shows "return_hist rs n ((returns_update (upd_row ret_id (ret_id row) f) d)\<lparr>audit_log := l\<rparr>)"
proof -
  have r: "row \<in> set (returns d)" using vendor_return_rowsD [OF rows] by blast
  have "later_return row (f row)" using f amount decided by (simp add: later_return_def r_into_rtranclp)
  moreover have "ret_status (f row) \<noteq> ''requested''" using f(6) by (auto elim: rmoves.cases)
  ultimately have "return_hist rs n (returns_update (upd_row ret_id (ret_id row) f) d)"
    by (intro return_hist_move [where f = f, OF h r ok])
  then show ?thesis by (rule return_hist_same) simp_all
qed

lemma known_return:
  assumes h: "return_hist rs n d" and rows: "vendor_return_rows d v i = [(row, line)]"
  shows "return_ok (order_lines d) row"
    and "\<And>l. l \<in> set (order_lines d) \<Longrightarrow> oln_id l = ret_line_id row \<Longrightarrow> l = line"
  using vendor_return_rowsD [OF rows] h line_known [OF h, of line]
  by (auto simp: return_hist_def return_inv_def)

lemma preserved_decide: "preserved (return_hist rs) (decide_vendor_return v i u d a m n)"
  unfolding return_splits
proof (rule preserved_then_reads [OF preservedI [OF return_hist_mono return_hist_log return_bodies_atomic(1)
      return_bodies_uuid(1)] reads_only_answer [OF reads_only_returns(3)]])
  fix w x w' assume h: "return_hist rs (next_uuid w) (db w)" and ok: "decide_body v i u d a m n w = (Inr x, w')"
  from decide_okD [OF ok] obtain row line refund log where
    rows: "vendor_return_rows (db w) v i = [(row, line)]" and st: "ret_status row = ''requested''"
    and r: "case refund of None \<Rightarrow> lower (strip d) = ''rejected''
       | Some (amount, _, method) \<Rightarrow> lower (strip d) \<noteq> ''rejected'' \<and> asked_within a (line_total line) amount
            \<and> method \<in> set refund_methods"
    and w': "db w' = (returns_update (upd_row ret_id (ret_id row)
          (decided_row (clock w) (strip (str_or n [])) refund)) (db w))\<lparr>audit_log := log\<rparr>"
      "disk w' = db w'" "next_uuid w \<le> next_uuid w'"
    by blast
  have "return_hist rs (next_uuid w) (db w')"
    unfolding w'(1)
  proof (rule moved_return [OF h rows])
    have ok: "return_ok (order_lines (db w)) row" and line: "line \<in> set (order_lines (db w))" "oln_id line = ret_line_id row"
      using known_return(1) [OF h rows] vendor_return_rowsD [OF rows] by auto
    have o': "oln_order_id line = ret_order_id row"
      using ok known_return(2) [OF h rows] unfolding return_ok_def by blast
    show "return_ok (order_lines (db w)) (decided_row (clock w) (strip (str_or n [])) refund row)"
    proof (cases refund)
      case None
      then show ?thesis using ok st line o' by (auto simp: return_ok_def)
    next
      case (Some q)
      then obtain amount c k where q: "refund = Some (amount, c, k)" by (cases q) auto
      show ?thesis
        unfolding return_ok_def q
      proof (intro conjI)
        show "\<exists>l \<in> set (order_lines (db w)). oln_id l = ret_line_id (decided_row (clock w) (strip (str_or n [])) (Some (amount, c, k)) row)
            \<and> oln_order_id l = ret_order_id (decided_row (clock w) (strip (str_or n [])) (Some (amount, c, k)) row)
            \<and> (ret_status (decided_row (clock w) (strip (str_or n [])) (Some (amount, c, k)) row) \<in> {''approved'', ''refunded''} \<longrightarrow>
               (\<exists>a. ret_refund_amount (decided_row (clock w) (strip (str_or n [])) (Some (amount, c, k)) row) = Some a \<and> 0 \<le> a \<and> a \<le> line_total l)
               \<and> (\<exists>m. ret_refund_method (decided_row (clock w) (strip (str_or n [])) (Some (amount, c, k)) row) = Some m \<and> m \<in> set refund_methods))"
          by (rule bexI [OF _ line(1)]) (use line(2) o' r q asked_within_bounds [of a "line_total line" amount] in simp)
      qed (use ok st in \<open>simp_all add: return_ok_def\<close>)
    qed
    show "rmoves (ret_status row) (ret_status (decided_row (clock w) (strip (str_or n [])) refund row))"
      using st by (cases refund) simp_all
    show "ret_refund_amount row \<noteq> None \<longrightarrow> ret_refund_amount (decided_row (clock w) (strip (str_or n [])) refund row)
        = ret_refund_amount row" "ret_decided_at row \<noteq> None \<longrightarrow>
        ret_decided_at (decided_row (clock w) (strip (str_or n [])) refund row) = ret_decided_at row"
      using ok st by (simp_all add: return_ok_def)
  qed simp_all
  from supply_monoD [OF return_hist_mono this w'(3)] show "return_hist rs (next_uuid w') (disk w')"
    by (simp add: w'(2))
qed

lemma preserved_return_refund: "preserved (return_hist rs) (issue_vendor_return_refund v i u)"
  unfolding return_splits
proof (rule preserved_then_reads [OF preservedI [OF return_hist_mono return_hist_log return_bodies_atomic(2)
      return_bodies_uuid(2)] reads_only_returns(3)])
  fix w x w' assume h: "return_hist rs (next_uuid w) (db w)" and ok: "refund_body v i u w = (Inr x, w')"
  from refund_body_okD [OF ok] obtain row line log where
    rows: "vendor_return_rows (db w) v i = [(row, line)]" and st: "ret_status row = ''approved''"
    and w': "db w' = (returns_update (upd_row ret_id (ret_id row)
          (\<lambda>r. r\<lparr>ret_status := ''refunded'', ret_refunded_at := Some (clock w)\<rparr>)) (db w))\<lparr>audit_log := log\<rparr>"
      "disk w' = db w'" "next_uuid w \<le> next_uuid w'"
    by blast
  have "return_hist rs (next_uuid w) (db w')"
    unfolding w'(1)
    by (rule moved_return [OF h rows])
       (use st known_return(1) [OF h rows] in \<open>auto simp: return_ok_def\<close>)
  from supply_monoD [OF return_hist_mono this w'(3)] show "return_hist rs (next_uuid w') (disk w')"
    by (simp add: w'(2))
qed

lemma preserved_place_order_returns:
  "preserved (return_hist rs) (place_order (build_authorization_service b) t u p a m rid)"
proof (rule preserved_request [OF return_hist_mono return_hist_log place_order_atomic place_order_uuid])
  fix w x w'
  assume d: "disk w = db w" and h: "return_hist rs (next_uuid w) (db w)"
    and run: "request (place_order (build_authorization_service b) t u p a m rid) w = (Inr x, w')"
  from place_order_request [OF d run] obtain cart :: cart_row and address n l1 l2 where
      n: "next_uuid w \<le> n" and
      w': "db w' = (placed_db n (clock w) t (crt_id cart) address (lower (strip m))
         (cart_line_rows (db w) (crt_id cart)) ((db w)\<lparr>authorization_audit_log := l1\<rparr>))\<lparr>audit_log := l2\<rparr>"
      "next_uuid w' = Suc (Suc (n + length (cart_line_rows (db w) (crt_id cart))
       + length (vendor_ids_of (cart_line_rows (db w) (crt_id cart)))))"
      by blast
  let ?es = "cart_line_rows (db w) (crt_id cart)"
  let ?new = "inserted_rows (order_line_of n) (Suc n) ?es"
  have ls: "order_lines (db w') = order_lines (db w) @ ?new" by (simp add: w' placed_db_def)
  have old: "oln_id l < n" if "l \<in> set (order_lines (db w))" for l
    using h n that by (fastforce simp: return_hist_def return_inv_def)
  have new: "Suc n \<le> oln_id l \<and> oln_id l < Suc n + length ?es" if "l \<in> set ?new" for l
    using set_inserted_rows [OF that] by (auto simp: order_line_of_def split: prod.splits)
  have "map oln_id (inserted_rows (order_line_of n) k es) = [k..<k + length es]" for k es
  proof (induction es arbitrary: k)
    case (Cons e es)
    have "oln_id (order_line_of n k e) = k" by (simp add: order_line_of_def split: prod.split)
    with Cons show ?case by (simp add: upt_conv_Cons del: upt_Suc)
  qed simp
  then have "distinct (map oln_id ?new)" by simp
  then have ids: "distinct (map oln_id (order_lines (db w')))"
    using h old new unfolding ls by (fastforce simp: return_hist_def return_inv_def)
  show "return_hist rs (next_uuid w') (db w')"
  proof (rule return_hist_lines [OF h])
    show "next_uuid w \<le> next_uuid w'" using n w'(2) by simp
    show "returns (db w') = returns (db w)" by (simp add: w'(1) placed_db_def)
    show "\<forall>l \<in> set (order_lines (db w')). oln_id l < next_uuid w'"
      using old new w'(2) unfolding ls by fastforce
    show "\<exists>l' \<in> set (order_lines (db w')). oln_id l' = oln_id l
        \<and> oln_order_id l' = oln_order_id l \<and> line_total l' = line_total l" if "l \<in> set (order_lines (db w))" for l
      using that unfolding ls by auto
  qed (rule ids)
qed

lemma reads_only_next_bill: "reads_only (next_bill z p)"
  unfolding next_bill_def Let_def by (intro reads_only_intros)

lemma line_cancelled:
  assumes h: "return_hist rs n d"
  shows "return_hist rs n (order_lines_update (upd_row oln_id i (\<lambda>l. l\<lparr>oln_status := s\<rparr>)) d)"
proof (rule return_hist_lines [OF h])
  let ?d = "order_lines_update (upd_row oln_id i (\<lambda>l. l\<lparr>oln_status := s\<rparr>)) d"
  have ids: "map oln_id (order_lines ?d) = map oln_id (order_lines d)" by simp
  with h show "distinct (map oln_id (order_lines ?d))"
    by (simp only: return_hist_def return_inv_def)
  show "\<forall>l \<in> set (order_lines ?d). oln_id l < n"
    using h by (auto simp: return_hist_def return_inv_def set_upd_row)
  show "\<exists>l' \<in> set (order_lines ?d). oln_id l' = oln_id l \<and> oln_order_id l' = oln_order_id l
      \<and> line_total l' = line_total l" if "l \<in> set (order_lines d)" for l
    by (rule bexI [of _ "if oln_id l = i then l\<lparr>oln_status := s\<rparr> else l"])
       (use that in \<open>auto simp: upd_row_def line_total_def\<close>)
qed simp_all

lemma preserved_cancel_subscription:
  "preserved (return_hist rs) (cancel_subscription (build_authorization_service b) t u p i rid)"
  unfolding cancel_subscription_def cancel_installation_def cancel_line_def
  by (rule preserved_both)
     (rule keeps_intros keeps_both_require [OF return_hist_mono return_hist_log]
        keeps_both_audit [OF return_hist_mono] keeps_both_uuid4 [OF return_hist_mono] keeps_both_modifies
        reads_only_next_bill reads_only_keeps line_cancelled
      | (assumption | erule return_hist_same, simp, simp))+

end
