(* ===== verification/Vendor_Insights.thy ===== *)
theory Vendor_Insights
  imports Fulfilment Python_Values "HOL-Library.Multiset"
begin

section \<open>Customers and payouts of a vendor\<close>

text \<open>
  The vendor's customer list and payout ledger in \<open>CommerceService\<close>. The start of
  the month and \<open>int(value)\<close> on the JSON value of a configuration row are those of \<open>Python_Values\<close>.
\<close>

definition customer_segment :: "nat \<Rightarrow> string" where
  "customer_segment order_count =
     (if order_count \<ge> 8 then ''VIP'' else if order_count \<ge> 3 then ''Regular'' else ''New'')"

record vendor_customer =
  vcu_tenant_id :: uuid
  vcu_customer_name :: string
  vcu_order_count :: nat
  vcu_total :: money
  vcu_last_order_at :: instant
  vcu_city :: string
  vcu_currency :: string
  vcu_segment :: string

definition vendor_payout_currency :: "uuid \<Rightarrow> uuid \<Rightarrow> string op" where
  "vendor_payout_currency vendor caller =
     bindE (require_vendor_owner vendor caller) (\<lambda>_.
     reads (\<lambda>d. case get_row vst_vendor_id vendor (vendor_settings d) of
         None \<Rightarrow> ''INR''
       | Some row \<Rightarrow> if vst_default_currency row = [] then ''INR''
                     else str_or (Some (upper (strip (vst_default_currency row)))) ''INR''))"

record bucket =
  bkt_tenant :: uuid
  bkt_name :: string
  bkt_city :: string
  bkt_orders :: "uuid list"
  bkt_total :: money
  bkt_last :: instant

definition customer_rows ::
  "database \<Rightarrow> uuid \<Rightarrow> (order_line_row \<times> order_row \<times> tenant_row \<times> address_row option) list"
where
  "customer_rows d vendor =
     [(line, order, tenant, address).
        line \<leftarrow> order_lines d, order \<leftarrow> orders d, offering \<leftarrow> offerings d, product \<leftarrow> products d,
        tenant \<leftarrow> tenants d, address \<leftarrow> address_join d order,
        ord_id order = oln_order_id line \<and> off_id offering = oln_offering_id line
        \<and> prd_id product = off_product_id offering \<and> ten_id tenant = ord_tenant_id order
        \<and> prd_vendor_id product = vendor]"

definition add_to_bucket ::
  "order_line_row \<Rightarrow> order_row \<Rightarrow> string \<Rightarrow> string \<Rightarrow> bucket \<Rightarrow> bucket"
where
  "add_to_bucket line order name city b =
     (let b' = b\<lparr>bkt_orders := List.insert (ord_id order) (bkt_orders b),
                 bkt_total := bkt_total b + line_total line\<rparr>
      in if ord_created_at order \<ge> bkt_last b
         then b'\<lparr>bkt_last := ord_created_at order, bkt_name := name, bkt_city := city\<rparr> else b')"

definition group_row ::
  "order_line_row \<times> order_row \<times> tenant_row \<times> address_row option \<Rightarrow> bucket list \<Rightarrow> bucket list"
where
  "group_row row grouped =
     (case row of (line, order, tenant, address) \<Rightarrow>
        let name = (case address of None \<Rightarrow> ten_name tenant | Some a \<Rightarrow> adr_contact_name a);
            city = (case address of None \<Rightarrow> [] | Some a \<Rightarrow> adr_city a)
        in if list_ex (\<lambda>b. bkt_tenant b = ten_id tenant) grouped
           then upd_row bkt_tenant (ten_id tenant) (add_to_bucket line order name city) grouped
           else grouped @ [\<lparr>bkt_tenant = ten_id tenant, bkt_name = name, bkt_city = city,
                            bkt_orders = [ord_id order], bkt_total = line_total line,
                            bkt_last = ord_created_at order\<rparr>])"

definition customer_of :: "string \<Rightarrow> bucket \<Rightarrow> vendor_customer" where
  "customer_of currency b =
     \<lparr>vcu_tenant_id = bkt_tenant b, vcu_customer_name = bkt_name b,
      vcu_order_count = length (bkt_orders b), vcu_total = bkt_total b,
      vcu_last_order_at = bkt_last b, vcu_city = bkt_city b, vcu_currency = currency,
      vcu_segment = customer_segment (length (bkt_orders b))\<rparr>"

definition list_vendor_customers :: "uuid \<Rightarrow> uuid \<Rightarrow> vendor_customer list op" where
  "list_vendor_customers vendor caller =
     bindE (require_vendor_owner vendor caller) (\<lambda>_.
     bindE (vendor_payout_currency vendor caller) (\<lambda>currency.
     reads (\<lambda>d. sort_desc vcu_last_order_at
       (map (customer_of currency) (fold group_row (customer_rows d vendor) [])))))"

subsection \<open>The commission\<close>

definition commission_rate_pct :: "database \<Rightarrow> int" where
  "commission_rate_pct d =
     (case find (\<lambda>r. cfg_key r = ''commission_rate_pct'') (platform_config d) of
        None \<Rightarrow> 10
      | Some row \<Rightarrow> (case py_int (cfg_value row) of None \<Rightarrow> 10 | Some n \<Rightarrow> n))"

subsection \<open>Payouts\<close>

definition settlement_id_for :: "uuid \<Rightarrow> string" where
  "settlement_id_for payout_id = ''SET-'' @ upper (hex_digits 6 payout_id)"

record payout_view =
  pyv_settlement_id :: string
  pyv_period :: string
  pyv_gross :: money
  pyv_platform_fee :: money
  pyv_net :: money
  pyv_status :: string

record payout_summary =
  pys_earned_this_month :: money
  pys_next_settlement :: "money option"
  pys_next_settlement_due_days :: "int option"
  pys_commission_this_month :: money
  pys_commission_rate_pct :: int
  pys_total_settled :: money

definition payout_view_of :: "payout_row \<Rightarrow> payout_view" where
  "payout_view_of row =
     \<lparr>pyv_settlement_id = settlement_id_for (pay_id row), pyv_period = pay_period row,
      pyv_gross = pay_gross row, pyv_platform_fee = pay_platform_fee row, pyv_net = pay_net row,
      pyv_status = pay_status row\<rparr>"

definition due_days :: "instant \<Rightarrow> instant option \<Rightarrow> int" where
  "due_days now created =
     (case created of None \<Rightarrow> 7 | Some c \<Rightarrow> max 0 (7 - max 0 ((now - c) div days 1)))"

definition in_month :: "instant \<Rightarrow> instant option \<Rightarrow> bool" where
  "in_month now created = (case created of None \<Rightarrow> False | Some c \<Rightarrow> c \<ge> month_start now)"

text \<open>One iteration of the loop over the ledger.\<close>

definition payout_step :: "instant \<Rightarrow> payout_row \<Rightarrow> payout_summary \<Rightarrow> payout_summary" where
  "payout_step now row s =
     (let s1 = (if in_month now (pay_created_at row)
                then s\<lparr>pys_earned_this_month := pys_earned_this_month s + pay_gross row,
                       pys_commission_this_month := pys_commission_this_month s + pay_platform_fee row\<rparr>
                else s)
      in if lower (pay_status row) = ''paid''
         then s1\<lparr>pys_total_settled := pys_total_settled s1 + pay_net row\<rparr>
         else if pys_next_settlement s1 = None
         then s1\<lparr>pys_next_settlement := Some (pay_net row),
                 pys_next_settlement_due_days := Some (due_days now (pay_created_at row))\<rparr>
         else s1)"

text \<open>
  \<open>ORDER BY created_at DESC, period DESC\<close>: PostgreSQL puts the rows without a \<open>created_at\<close> first.
\<close>

definition payout_before :: "payout_row \<Rightarrow> payout_row \<Rightarrow> bool" where
  "payout_before a b =
     (case (pay_created_at a, pay_created_at b) of
        (None, None) \<Rightarrow> pay_period b \<le> pay_period a
      | (None, Some _) \<Rightarrow> True
      | (Some _, None) \<Rightarrow> False
      | (Some x, Some y) \<Rightarrow> y < x \<or> x = y \<and> pay_period b \<le> pay_period a)"

fun insert_payout :: "payout_row \<Rightarrow> payout_row list \<Rightarrow> payout_row list" where
  "insert_payout r [] = [r]"
| "insert_payout r (s # rows) = (if payout_before r s then r # s # rows else s # insert_payout r rows)"

definition vendor_payout_rows :: "database \<Rightarrow> uuid \<Rightarrow> payout_row list" where
  "vendor_payout_rows d vendor =
     foldr insert_payout (filter (\<lambda>r. pay_vendor_id r = vendor) (payouts d)) []"

definition list_vendor_payouts :: "uuid \<Rightarrow> uuid \<Rightarrow> (payout_view list \<times> payout_summary) op" where
  "list_vendor_payouts vendor caller =
     bindE (require_vendor_owner vendor caller) (\<lambda>_.
     bindE (reads (\<lambda>d. vendor_payout_rows d vendor)) (\<lambda>rows.
     bindE utcnow (\<lambda>now.
     bindE (reads commission_rate_pct) (\<lambda>rate.
     let summary = fold (payout_step now) rows
           \<lparr>pys_earned_this_month = 0, pys_next_settlement = None, pys_next_settlement_due_days = None,
            pys_commission_this_month = 0, pys_commission_rate_pct = rate, pys_total_settled = 0\<rparr>
     in ret (map payout_view_of rows, summary)))))"

subsection \<open>The customer list\<close>

lemma reads_only_insights [reads_only_intros]:
  "reads_only (vendor_payout_currency v u)" "reads_only (list_vendor_customers v u)"
  "reads_only (list_vendor_payouts v u)"
  unfolding vendor_payout_currency_def list_vendor_customers_def list_vendor_payouts_def Let_def
  by (intro reads_only_intros reads_only_checks)+

definition row_tenant :: "order_line_row \<times> order_row \<times> tenant_row \<times> address_row option \<Rightarrow> uuid" where
  "row_tenant row = (case row of (_, _, tenant, _) \<Rightarrow> ten_id tenant)"

definition row_total :: "order_line_row \<times> order_row \<times> tenant_row \<times> address_row option \<Rightarrow> money" where
  "row_total row = (case row of (line, _) \<Rightarrow> line_total line)"

definition row_order :: "order_line_row \<times> order_row \<times> tenant_row \<times> address_row option \<Rightarrow> uuid" where
  "row_order row = (case row of (_, order, _, _) \<Rightarrow> ord_id order)"

lemma add_to_bucket_simps [simp]:
  "bkt_tenant (add_to_bucket line order n c b) = bkt_tenant b"
  "bkt_total (add_to_bucket line order n c b) = bkt_total b + line_total line"
  "bkt_orders (add_to_bucket line order n c b) = List.insert (ord_id order) (bkt_orders b)"
  by (simp_all add: add_to_bucket_def Let_def)

text \<open>What the grouping means: one bucket per tenant, with the tenant's rows summed up.\<close>

definition grouped_ok ::
  "(order_line_row \<times> order_row \<times> tenant_row \<times> address_row option) list \<Rightarrow> bucket list \<Rightarrow> bool"
where
  "grouped_ok rows bs \<longleftrightarrow>
     distinct (map bkt_tenant bs) \<and> set (map bkt_tenant bs) = row_tenant ` set rows
     \<and> (\<forall>b \<in> set bs. bkt_total b = sum_list (map row_total (filter (\<lambda>r. row_tenant r = bkt_tenant b) rows))
          \<and> distinct (bkt_orders b)
          \<and> set (bkt_orders b) = row_order ` {r \<in> set rows. row_tenant r = bkt_tenant b})"

lemma group_row_ok:
  assumes ok: "grouped_ok rows bs"
  shows "grouped_ok (rows @ [row]) (group_row row bs)"
proof -
  obtain line order tenant address where row: "row = (line, order, tenant, address)" by (cases row) auto
  have t: "row_tenant row = ten_id tenant" "row_total row = line_total line" "row_order row = ord_id order"
    by (simp_all add: row row_tenant_def row_total_def row_order_def)
  show ?thesis
  proof (cases "ten_id tenant \<in> bkt_tenant ` set bs")
    case True
    then have ex: "list_ex (\<lambda>b. bkt_tenant b = ten_id tenant) bs" by (auto simp: list_ex_iff)
    let ?f = "add_to_bucket line order
        (case address of None \<Rightarrow> ten_name tenant | Some a \<Rightarrow> adr_contact_name a)
        (case address of None \<Rightarrow> [] | Some a \<Rightarrow> adr_city a)"
    have g: "group_row row bs = upd_row bkt_tenant (ten_id tenant) ?f bs"
      by (simp add: group_row_def row ex Let_def)
    have "map bkt_tenant (group_row row bs) = map bkt_tenant bs" unfolding g by simp
    moreover have "bkt_tenant ` set bs = row_tenant ` set (rows @ [row])"
      using ok True t(1) unfolding grouped_ok_def by auto
    moreover have "\<forall>b \<in> set (group_row row bs).
        bkt_total b = sum_list (map row_total (filter (\<lambda>r. row_tenant r = bkt_tenant b) (rows @ [row])))
        \<and> distinct (bkt_orders b)
        \<and> set (bkt_orders b) = row_order ` {r \<in> set (rows @ [row]). row_tenant r = bkt_tenant b}"
    proof
      fix b assume "b \<in> set (group_row row bs)"
      then obtain b0 where b0: "b0 \<in> set bs" "b = (if bkt_tenant b0 = ten_id tenant then ?f b0 else b0)"
        unfolding g set_upd_row by blast
      have k: "bkt_total b0 = sum_list (map row_total (filter (\<lambda>r. row_tenant r = bkt_tenant b0) rows))"
        "distinct (bkt_orders b0)" "set (bkt_orders b0) = row_order ` {r \<in> set rows. row_tenant r = bkt_tenant b0}"
        using ok b0(1) unfolding grouped_ok_def by blast+
      show "bkt_total b = sum_list (map row_total (filter (\<lambda>r. row_tenant r = bkt_tenant b) (rows @ [row])))
        \<and> distinct (bkt_orders b)
        \<and> set (bkt_orders b) = row_order ` {r \<in> set (rows @ [row]). row_tenant r = bkt_tenant b}"
      proof -
        have "row_order ` {r \<in> set (rows @ [row]). row_tenant r = j} = (if j = ten_id tenant
            then insert (ord_id order) (row_order ` {r \<in> set rows. row_tenant r = j})
            else row_order ` {r \<in> set rows. row_tenant r = j})" for j
        proof -
          have "{r \<in> set (rows @ [row]). row_tenant r = j} = (if j = ten_id tenant
              then insert row {r \<in> set rows. row_tenant r = j} else {r \<in> set rows. row_tenant r = j})"
            using t(1) by auto
          then show ?thesis using t(3) by simp
        qed
        then show ?thesis using k t unfolding b0(2) by (cases "bkt_tenant b0 = ten_id tenant") simp_all
      qed
    qed
    ultimately show ?thesis using ok by (simp add: grouped_ok_def)
  next
    case False
    have ex: "\<not> list_ex (\<lambda>b. bkt_tenant b = ten_id tenant) bs"
    proof
      assume "list_ex (\<lambda>b. bkt_tenant b = ten_id tenant) bs"
      then obtain b where "b \<in> set bs" "bkt_tenant b = ten_id tenant" unfolding list_ex_iff by blast
      then have "ten_id tenant \<in> bkt_tenant ` set bs" using imageI [of b "set bs" bkt_tenant] by simp
      then show False using False by blast
    qed
    let ?n = "case address of None \<Rightarrow> ten_name tenant | Some a \<Rightarrow> adr_contact_name a"
    let ?c = "case address of None \<Rightarrow> [] | Some a \<Rightarrow> adr_city a"
    define b where "b = \<lparr>bkt_tenant = ten_id tenant, bkt_name = ?n, bkt_city = ?c,
      bkt_orders = [ord_id order], bkt_total = line_total line, bkt_last = ord_created_at order\<rparr>"
    have g: "group_row row bs = bs @ [b]" by (simp add: group_row_def row ex Let_def b_def)
    have b: "bkt_tenant b = ten_id tenant" "bkt_total b = line_total line" "bkt_orders b = [ord_id order]"
      by (simp_all add: b_def)
    have none: "row_tenant r \<noteq> ten_id tenant" if "r \<in> set rows" for r
      using imageI [OF that, of row_tenant] False ok unfolding grouped_ok_def by auto
    then have new: "filter (\<lambda>r. row_tenant r = ten_id tenant) rows = []"
      "{r \<in> set (rows @ [row]). row_tenant r = ten_id tenant} = {row}"
      using t(1) by (auto simp: filter_empty_conv)
    have apart: "bkt_tenant b0 \<noteq> ten_id tenant" if "b0 \<in> set bs" for b0
      using imageI [OF that, of bkt_tenant] False by auto
    have old: "{r \<in> set (rows @ [row]). row_tenant r = bkt_tenant b0} = {r \<in> set rows. row_tenant r = bkt_tenant b0}"
      if "b0 \<in> set bs" for b0
      using apart [OF that] t(1) by auto
    have "distinct (map bkt_tenant (bs @ [b]))" using ok False unfolding grouped_ok_def by (simp add: b)
    moreover have "set (map bkt_tenant (bs @ [b])) = row_tenant ` set (rows @ [row])"
      using ok unfolding grouped_ok_def by (simp add: b t)
    moreover have "\<forall>b0 \<in> set bs.
        bkt_total b0 = sum_list (map row_total (filter (\<lambda>r. row_tenant r = bkt_tenant b0) (rows @ [row])))
        \<and> distinct (bkt_orders b0)
        \<and> set (bkt_orders b0) = row_order ` {r \<in> set (rows @ [row]). row_tenant r = bkt_tenant b0}"
    proof
      fix b0 assume b0: "b0 \<in> set bs"
      have "bkt_total b0 = sum_list (map row_total (filter (\<lambda>r. row_tenant r = bkt_tenant b0) rows))
        \<and> distinct (bkt_orders b0)
        \<and> set (bkt_orders b0) = row_order ` {r \<in> set rows. row_tenant r = bkt_tenant b0}"
        using ok b0 unfolding grouped_ok_def by blast
      then show "bkt_total b0 = sum_list (map row_total (filter (\<lambda>r. row_tenant r = bkt_tenant b0) (rows @ [row])))
        \<and> distinct (bkt_orders b0)
        \<and> set (bkt_orders b0) = row_order ` {r \<in> set (rows @ [row]). row_tenant r = bkt_tenant b0}"
        unfolding old [OF b0] using apart [OF b0] t(1) by simp
    qed
    moreover have "bkt_total b = sum_list (map row_total (filter (\<lambda>r. row_tenant r = bkt_tenant b) (rows @ [row])))
        \<and> distinct (bkt_orders b)
        \<and> set (bkt_orders b) = row_order ` {r \<in> set (rows @ [row]). row_tenant r = bkt_tenant b}"
      unfolding b new(2) by (simp add: new(1) t)
    ultimately show ?thesis unfolding g grouped_ok_def by simp
  qed
qed

lemma grouped_fold: "grouped_ok pre bs \<Longrightarrow> grouped_ok (pre @ rows) (fold group_row rows bs)"
proof (induction rows arbitrary: pre bs)
  case (Cons r rows)
  from Cons.IH [OF group_row_ok [OF Cons.prems], of r] show ?case by simp
qed simp

text \<open>
  The customer list of a vendor accounts for every sale exactly once: one entry per tenant that
  bought from the vendor, whose total is the sum of that tenant's lines and whose order count is the
  number of its distinct orders, latest customers first.
\<close>

theorem vendor_customers_account:
  assumes "list_vendor_customers v u w = (Inr cs, w')"
  shows "w' = w \<and> owns_vendor (db w) v u
     \<and> distinct (map vcu_tenant_id cs)
     \<and> set (map vcu_tenant_id cs) = row_tenant ` set (customer_rows (db w) v)
     \<and> (\<forall>c \<in> set cs.
          vcu_total c = sum_list (map row_total (filter (\<lambda>r. row_tenant r = vcu_tenant_id c) (customer_rows (db w) v)))
          \<and> vcu_order_count c = card (row_order ` {r \<in> set (customer_rows (db w) v). row_tenant r = vcu_tenant_id c})
          \<and> vcu_segment c = customer_segment (vcu_order_count c))
     \<and> sorted_wrt (\<lambda>a b. vcu_last_order_at b \<le> vcu_last_order_at a) cs"
proof -
  let ?rows = "customer_rows (db w) v"
  let ?bs = "fold group_row ?rows []"
  from assms obtain p currency where own: "require_vendor_owner v u w = (Inr p, w)"
    and cs: "cs = sort_desc vcu_last_order_at (map (customer_of currency) ?bs)"
    unfolding list_vendor_customers_def
    by (simp only: step_ok step_ok_reads_only [OF reads_only_insights(1)]) blast
  have ok: "grouped_ok ?rows ?bs" using grouped_fold [of "[]" "[]" ?rows] by (simp add: grouped_ok_def)
  have m: "mset cs = mset (map (customer_of currency) ?bs)" by (simp add: cs sort_desc_def)
  have ids: "map vcu_tenant_id (map (customer_of currency) ?bs) = map bkt_tenant ?bs"
    by (simp add: customer_of_def comp_def)
  have "mset (map vcu_tenant_id cs) = mset (map bkt_tenant ?bs)"
    using m ids by (metis mset_map)
  then have "distinct (map vcu_tenant_id cs)" "set (map vcu_tenant_id cs) = row_tenant ` set ?rows"
    using ok unfolding grouped_ok_def by (metis mset_eq_imp_distinct_iff, metis set_mset_mset)
  moreover have "\<forall>c \<in> set cs.
          vcu_total c = sum_list (map row_total (filter (\<lambda>r. row_tenant r = vcu_tenant_id c) ?rows))
          \<and> vcu_order_count c = card (row_order ` {r \<in> set ?rows. row_tenant r = vcu_tenant_id c})
          \<and> vcu_segment c = customer_segment (vcu_order_count c)"
  proof
    fix c assume "c \<in> set cs"
    then obtain b where b: "b \<in> set ?bs" "c = customer_of currency b" by (auto simp: cs)
    from ok b(1) have k: "bkt_total b = sum_list (map row_total (filter (\<lambda>r. row_tenant r = bkt_tenant b) ?rows))"
      "distinct (bkt_orders b)" "set (bkt_orders b) = row_order ` {r \<in> set ?rows. row_tenant r = bkt_tenant b}"
      unfolding grouped_ok_def by blast+
    then show "vcu_total c = sum_list (map row_total (filter (\<lambda>r. row_tenant r = vcu_tenant_id c) ?rows))
          \<and> vcu_order_count c = card (row_order ` {r \<in> set ?rows. row_tenant r = vcu_tenant_id c})
          \<and> vcu_segment c = customer_segment (vcu_order_count c)"
      using distinct_card [OF k(2)] by (simp add: b(2) customer_of_def)
  qed
  moreover have "w' = w" using reads_onlyD [OF reads_only_insights(2) assms] .
  ultimately show ?thesis
    using require_vendor_owner_okD(2) [OF own] sort_desc_sorted by (simp add: cs)
qed

subsection \<open>The ledger\<close>

lemma payout_fold:
  "pys_earned_this_month (fold (payout_step now) rows s) = pys_earned_this_month s
     + sum_list (map pay_gross (filter (\<lambda>r. in_month now (pay_created_at r)) rows))"
  "pys_commission_this_month (fold (payout_step now) rows s) = pys_commission_this_month s
     + sum_list (map pay_platform_fee (filter (\<lambda>r. in_month now (pay_created_at r)) rows))"
  "pys_total_settled (fold (payout_step now) rows s) = pys_total_settled s
     + sum_list (map pay_net (filter (\<lambda>r. lower (pay_status r) = ''paid'') rows))"
  by (induction rows arbitrary: s) (simp_all add: payout_step_def Let_def)

lemma payout_step_next:
  "pys_next_settlement (payout_step now r s) = (if pys_next_settlement s = None \<and> lower (pay_status r) \<noteq> ''paid''
     then Some (pay_net r) else pys_next_settlement s)"
  "pys_next_settlement_due_days (payout_step now r s) =
     (if pys_next_settlement s = None \<and> lower (pay_status r) \<noteq> ''paid''
      then Some (due_days now (pay_created_at r)) else pys_next_settlement_due_days s)"
  by (cases "pys_next_settlement s"; simp add: payout_step_def Let_def)+

lemma payout_fold_next:
  "pys_next_settlement s = Some x \<Longrightarrow> pys_next_settlement (fold (payout_step now) rows s) = Some x
     \<and> pys_next_settlement_due_days (fold (payout_step now) rows s) = pys_next_settlement_due_days s"
  "pys_next_settlement s = None \<Longrightarrow>
     (pys_next_settlement (fold (payout_step now) rows s), pys_next_settlement_due_days (fold (payout_step now) rows s))
     = (case find (\<lambda>r. lower (pay_status r) \<noteq> ''paid'') rows of
          None \<Rightarrow> (None, pys_next_settlement_due_days s)
        | Some r \<Rightarrow> (Some (pay_net r), Some (due_days now (pay_created_at r))))"
proof -
  show some: "pys_next_settlement (fold (payout_step now) rows s) = Some x
     \<and> pys_next_settlement_due_days (fold (payout_step now) rows s) = pys_next_settlement_due_days s"
    if "pys_next_settlement s = Some x" for s x rows
    using that by (induction rows arbitrary: s) (simp_all add: payout_step_next)
  show "(pys_next_settlement (fold (payout_step now) rows s), pys_next_settlement_due_days (fold (payout_step now) rows s))
     = (case find (\<lambda>r. lower (pay_status r) \<noteq> ''paid'') rows of
          None \<Rightarrow> (None, pys_next_settlement_due_days s)
        | Some r \<Rightarrow> (Some (pay_net r), Some (due_days now (pay_created_at r))))"
    if "pys_next_settlement s = None"
    using that
  proof (induction rows arbitrary: s)
    case (Cons r rows)
    then show ?case
      by (cases "lower (pay_status r) = ''paid''") (simp_all add: payout_step_next some cong: option.case_cong)
  qed simp
qed

lemma insert_payout_mset: "mset (insert_payout r rows) = add_mset r (mset rows)"
  by (induction rows) auto

lemma payout_rows_mset: "mset (foldr insert_payout rows []) = mset rows"
  by (induction rows) (simp_all add: insert_payout_mset)

lemma due_days_bounds: "0 \<le> due_days now c \<and> due_days now c \<le> 7"
  by (simp add: due_days_def split: option.split)

text \<open>
  C26. The payout summary is the ledger, summed: earnings and commission are the sums over the vendor's
  rows of this month, the settled total is the sum of the paid rows, the next settlement is the first
  unpaid row with zero to seven days left, and the listing has every row of the vendor exactly once.
\<close>

theorem payout_summary_sums:
  assumes "list_vendor_payouts v u w = (Inr (views, s), w')"
  shows "w' = w \<and> owns_vendor (db w) v u
     \<and> (let rows = filter (\<lambda>r. pay_vendor_id r = v) (payouts (db w)) in
        mset views = image_mset payout_view_of (mset rows)
        \<and> pys_earned_this_month s = sum_list (map pay_gross (filter (\<lambda>r. in_month (clock w) (pay_created_at r)) rows))
        \<and> pys_commission_this_month s
            = sum_list (map pay_platform_fee (filter (\<lambda>r. in_month (clock w) (pay_created_at r)) rows))
        \<and> pys_total_settled s = sum_list (map pay_net (filter (\<lambda>r. lower (pay_status r) = ''paid'') rows))
        \<and> (pys_next_settlement s = None \<longleftrightarrow> (\<forall>r \<in> set rows. lower (pay_status r) = ''paid''))
        \<and> (\<forall>n. pys_next_settlement_due_days s = Some n \<longrightarrow> 0 \<le> n \<and> n \<le> 7))"
proof -
  let ?rows = "vendor_payout_rows (db w) v"
  let ?s0 = "\<lparr>pys_earned_this_month = 0, pys_next_settlement = None, pys_next_settlement_due_days = None,
            pys_commission_this_month = 0, pys_commission_rate_pct = commission_rate_pct (db w),
            pys_total_settled = 0\<rparr>"
  from assms obtain p where own: "require_vendor_owner v u w = (Inr p, w)"
    and res: "views = map payout_view_of ?rows" "s = fold (payout_step (clock w)) ?rows ?s0"
    unfolding list_vendor_payouts_def Let_def by (simp only: step_ok) auto
  let ?l = "filter (\<lambda>r. pay_vendor_id r = v) (payouts (db w))"
  have m: "mset ?rows = mset ?l" by (simp add: vendor_payout_rows_def payout_rows_mset)
  have sums: "sum_list (map f (filter Q ?rows)) = sum_list (map f (filter Q ?l))" for f :: "payout_row \<Rightarrow> int" and Q
  proof -
    have "mset (map f (filter Q ?rows)) = mset (map f (filter Q ?l))" by (simp only: mset_map mset_filter m)
    then show ?thesis by (metis sum_mset_sum_list)
  qed
  have set: "set ?rows = set ?l" using m by (rule mset_eq_setD)
  have nxt: "(pys_next_settlement s, pys_next_settlement_due_days s)
     = (case find (\<lambda>r. lower (pay_status r) \<noteq> ''paid'') ?rows of None \<Rightarrow> (None, None)
        | Some r \<Rightarrow> (Some (pay_net r), Some (due_days (clock w) (pay_created_at r))))"
    unfolding res(2) using payout_fold_next(2) [of ?s0 "clock w" ?rows] by (simp cong: option.case_cong)
  have "pys_next_settlement s = None \<longleftrightarrow> (\<forall>r \<in> set ?l. lower (pay_status r) = ''paid'')"
  proof -
    have "pys_next_settlement s = None \<longleftrightarrow> find (\<lambda>r. lower (pay_status r) \<noteq> ''paid'') ?rows = None"
      using nxt by (simp split: option.splits)
    then show ?thesis unfolding find_None_iff set by blast
  qed
  moreover have "\<forall>n. pys_next_settlement_due_days s = Some n \<longrightarrow> 0 \<le> n \<and> n \<le> 7"
    using nxt due_days_bounds by (auto split: option.splits)
  moreover have "mset views = image_mset payout_view_of (mset ?l)" by (simp add: res(1) m)
  ultimately show ?thesis
    using require_vendor_owner_okD(2) [OF own] reads_onlyD [OF reads_only_insights(3) assms]
    by (simp add: Let_def sums res(2) payout_fold)
qed

subsection \<open>A sample ledger\<close>

definition ledger_db :: database where
  "ledger_db = empty_db\<lparr>vendor_profiles := [\<lparr>vnd_id = 2, vnd_organization_id = 3, vnd_legal_name = [], vnd_tax_id = None,
      vnd_payout_bank_account = None, vnd_contact_email = [], vnd_business_doc_url = None, vnd_status = [],
      vnd_created_at = 0\<rparr>],
    org_memberships := [\<lparr>omb_id = 9, omb_organization_id = 3, omb_user_id = 5,
                          omb_role = ''owner'', omb_status = ''active''\<rparr>],
    tenants := [\<lparr>ten_id = 6, ten_organization_id = 3, ten_name = ''n'', ten_slug = [], ten_status = [], ten_created_at = 0\<rparr>],
    products := [\<lparr>prd_id = 10, prd_vendor_id = 2, prd_plugin_id = None, prd_name = [],
      prd_description = [], prd_category = [], prd_fulfilment_type = [], prd_status = [], prd_pa_status = ''live'',
      prd_pa_reject_reason = [], prd_archived_at = None, prd_created_at = 0, prd_updated_at = 0\<rparr>],
    offerings := [\<lparr>off_id = 4, off_product_id = 10, off_plan_name = [], off_billing_period = [],
      off_price_usd = 100, off_currency = [],
      off_included_transactions = None, off_overage_price_per_1k = None, off_status = [],
      off_created_at = 0\<rparr>],
    orders := [\<lparr>ord_id = 1, ord_tenant_id = 6, ord_cart_id = 0, ord_address_id = None,
        ord_payment_method = [], ord_status = [], ord_created_at = 10\<rparr>],
    order_lines := [\<lparr>oln_id = 11, oln_order_id = 1, oln_offering_id = 4, oln_product_name = [],
         oln_plan_name = [], oln_quantity = 2, oln_fulfilment_type = [],
         oln_billing_period = [], oln_unit_price = 100, oln_currency = [], oln_status = []\<rparr>],
    payouts := [\<lparr>pay_id = 14, pay_vendor_id = 2, pay_period = [], pay_gross = 200, pay_platform_fee = 20,
         pay_net = 180, pay_status = ''Paid'', pay_created_at = Some 5\<rparr>,
        \<lparr>pay_id = 15, pay_vendor_id = 2, pay_period = [], pay_gross = 100, pay_platform_fee = 10,
         pay_net = 90, pay_status = ''due'', pay_created_at = None\<rparr>]\<rparr>"

abbreviation ledger_world :: world where
  "ledger_world \<equiv> \<lparr>db = ledger_db, disk = ledger_db, clock = 1000, next_uuid = 1000\<rparr>"

lemma ledger_runs:
  "case list_vendor_customers 2 5 ledger_world of (Inl _, _) \<Rightarrow> False | (Inr cs, _) \<Rightarrow> map vcu_total cs = [200]"
  "case list_vendor_payouts 2 5 ledger_world of (Inl _, _) \<Rightarrow> False
   | (Inr (_, s), _) \<Rightarrow> pys_next_settlement s = Some 90 \<and> pys_earned_this_month s = 200"
  by code_simp+

theorem vendor_customers_account_witness:
  "\<exists>cs w'. list_vendor_customers 2 5 ledger_world = (Inr cs, w') \<and> map vcu_total cs = [200]
     \<and> owns_vendor ledger_db 2 5 \<and> distinct (map vcu_tenant_id cs)"
proof -
  from ledger_runs(1) obtain cs w' where
    e: "list_vendor_customers 2 5 ledger_world = (Inr cs, w')" "map vcu_total cs = [200]"
    by (auto split: prod.splits sum.splits)
  from vendor_customers_account [OF e(1)] e show ?thesis by auto
qed

theorem payout_summary_sums_witness:
  "\<exists>views s w'. list_vendor_payouts 2 5 ledger_world = (Inr (views, s), w')
     \<and> pys_next_settlement s = Some 90 \<and> length views = 2"
proof -
  from ledger_runs(2) obtain views s w' where
    e: "list_vendor_payouts 2 5 ledger_world = (Inr (views, s), w')" "pys_next_settlement s = Some 90"
    by (auto split: prod.splits sum.splits)
  from payout_summary_sums [OF e(1)]
  have "size (mset views) = size (mset (filter (\<lambda>r. pay_vendor_id r = 2) (payouts ledger_db)))"
    by (simp add: Let_def)
  then have "length views = 2" by (simp add: ledger_db_def)
  with e show ?thesis by auto
qed

end
