(* ===== verification/Shop.thy ===== *)
theory Shop
  imports Returns_Rules Vendor_Insights
begin

section \<open>The shop as one machine\<close>

text \<open>
  Every writing request of \<open>CommerceService\<close> as a call, the machine that serves calls in any order
  while the clock moves and the other services write their own tables, and the invariants of the
  components together over every run of that machine.
\<close>

datatype shop_call =
    Add_Wishlist uuid uuid uuid
  | Remove_Wishlist uuid uuid uuid
  | Add_Line uuid uuid uuid int
  | Update_Line uuid uuid uuid int
  | Remove_Line uuid uuid uuid
  | Create_Address uuid uuid string string string string string string string
  | Update_Address uuid uuid uuid "(string \<times> string option) list"
  | Delete_Address uuid uuid uuid
  | Place_Order uuid uuid uuid "uuid option" string "string option"
  | Advance_Order uuid uuid uuid string string string
  | Reject_Refund uuid uuid uuid
  | Cancel_Order uuid uuid uuid
  | Request_Return uuid uuid uuid string string
  | Decide_Return uuid uuid uuid string "float_value option" "string option" "string option"
  | Return_Refund uuid uuid uuid
  | Create_Review uuid uuid uuid uuid int string
  | Cancel_Subscription uuid uuid uuid uuid "string option"

fun serve :: "bool \<Rightarrow> shop_call \<Rightarrow> unit op" where
  "serve b (Add_Wishlist t u p) = silent (add_wishlist t u p)"
| "serve b (Remove_Wishlist t u p) = silent (remove_wishlist t u p)"
| "serve b (Add_Line t u i q) = silent (add_line t u i q)"
| "serve b (Update_Line t u l q) = silent (update_line t u l q)"
| "serve b (Remove_Line t u l) = silent (remove_line t u l)"
| "serve b (Create_Address t u s1 s2 s3 s4 s5 s6 s7) = silent (create_address t u s1 s2 s3 s4 s5 s6 s7)"
| "serve b (Update_Address t u a fs) = silent (update_address t u a fs)"
| "serve b (Delete_Address t u a) = silent (delete_address t u a)"
| "serve b (Place_Order t u p a m rid) = silent (place_order (build_authorization_service b) t u p a m rid)"
| "serve b (Advance_Order v i u s c t) = silent (advance_vendor_order v i u s c t)"
| "serve b (Reject_Refund v i u) = silent (issue_vendor_reject_refund v i u)"
| "serve b (Cancel_Order t i u) = silent (cancel_order t i u)"
| "serve b (Request_Return i u l r n) = silent (request_return i u l r n)"
| "serve b (Decide_Return v i u d a m n) = silent (decide_vendor_return v i u d a m n)"
| "serve b (Return_Refund v i u) = silent (issue_vendor_return_refund v i u)"
| "serve b (Create_Review t u i l k c) = silent (create_review t u i l k c)"
| "serve b (Cancel_Subscription t u p i rid) =
     silent (cancel_subscription (build_authorization_service b) t u p i rid)"

text \<open>The tables only the shop writes.\<close>

definition shop_tables where
  "shop_tables d = (carts d, cart_lines d, orders d, vendor_fulfilments d, order_lines d, returns d)"

inductive shop_step :: "bool \<Rightarrow> world \<Rightarrow> world \<Rightarrow> bool" for b where
  call: "request (serve b c) w = (r, w') \<Longrightarrow> shop_step b w w'"
| tick: "clock w \<le> t \<Longrightarrow> shop_step b w (w\<lparr>clock := t\<rparr>)"
| other: "shop_tables d = shop_tables (db w) \<Longrightarrow> next_uuid w \<le> n
    \<Longrightarrow> shop_step b w (w\<lparr>db := d, disk := d, next_uuid := n\<rparr>)"

subsection \<open>What each request leaves alone\<close>

definition cart_tables where "cart_tables d = (carts d, cart_lines d)"
definition order_tables where "order_tables d = (orders d, vendor_fulfilments d)"
definition return_tables where "return_tables d = (returns d, order_lines d)"

lemmas shop_table_defs = cart_tables_def order_tables_def return_tables_def

lemma keeps_same_tables_open_or_new_cart [keeps_intros]:
  "(\<And>f d. p (carts_update f d) = p d) \<Longrightarrow> keeps (same_tables p x) (open_or_new_cart t)"
  unfolding open_or_new_cart_def
  by (rule keeps_intros reads_only_keeps reads_only_commerce | assumption)+

lemma keeps_same_tables_assign_fields [keeps_intros]:
  "(\<And>f d. p (addresses_update f d) = p d) \<Longrightarrow> keeps (same_tables p x) (assign_fields fs row)"
  by (induction fs row rule: assign_fields.induct) (auto intro!: keeps_intros)

lemma cart_ops_leave:
  "leaves order_tables (add_line t u i q)" "leaves return_tables (add_line t u i q)"
  "leaves order_tables (update_line t u l q)" "leaves return_tables (update_line t u l q)"
  "leaves order_tables (remove_line t u l)" "leaves return_tables (remove_line t u l)"
  unfolding cart_ops_defs
  by (rule leaves_intro keeps_intros reads_only_keeps reads_only_checks reads_only_commerce reads_only_cart
      | (simp add: shop_table_defs; fail))+

lemma side_ops_leave:
  "leaves shop_tables (add_wishlist t u p)" "leaves shop_tables (remove_wishlist t u p)"
  "leaves shop_tables (create_address t u s1 s2 s3 s4 s5 s6 s7)" "leaves shop_tables (update_address t u a fs)"
  "leaves shop_tables (delete_address t u a)" "leaves shop_tables (create_review t u i l k c)"
  unfolding cart_ops_defs create_review_def
  by (rule leaves_intro keeps_intros reads_only_keeps reads_only_checks reads_only_commerce reads_only_cart
      reads_only_returns
      | (simp add: shop_tables_def; fail))+

lemma fulfil_ops_leave:
  "leaves cart_tables (advance_vendor_order v i u s c t)" "leaves return_tables (advance_vendor_order v i u s c t)"
  "leaves cart_tables (issue_vendor_reject_refund v i u)" "leaves return_tables (issue_vendor_reject_refund v i u)"
  "leaves cart_tables (cancel_order tn i u)" "leaves return_tables (cancel_order tn i u)"
  unfolding advance_vendor_order_def issue_vendor_reject_refund_def cancel_order_def Let_def
    move_fulfilment_def reject_fulfilment_def rollup_order_status_def
  by (rule leaves_intro keeps_intros reads_only_keeps reads_only_checks reads_only_commerce
      reads_only_order_detail
      | (simp add: shop_table_defs; fail))+

lemma return_ops_leave:
  "leaves cart_tables (request_return i u l r m)" "leaves order_tables (request_return i u l r m)"
  "leaves cart_tables (decide_vendor_return v i u d a k n)" "leaves order_tables (decide_vendor_return v i u d a k n)"
  "leaves cart_tables (issue_vendor_return_refund v i u)" "leaves order_tables (issue_vendor_return_refund v i u)"
  unfolding request_return_def decide_vendor_return_def issue_vendor_return_refund_def
    reject_return_def approve_return_def Let_def
  by (rule leaves_intro keeps_intros reads_only_keeps reads_only_checks reads_only_commerce
      reads_only_returns reads_only_refund_in_bounds
      | (simp add: shop_table_defs; fail))+

lemma subscription_leaves:
  "leaves cart_tables (cancel_subscription (build_authorization_service b) t u p i rid)"
  "leaves order_tables (cancel_subscription (build_authorization_service b) t u p i rid)"
  unfolding cancel_subscription_def cancel_installation_def cancel_line_def
  by (rule leaves_intro keeps_same_tables_require keeps_intros reads_only_keeps reads_only_next_bill
      | (simp add: shop_table_defs; fail))+

lemma serve_uuid: "keeps (uuid_ge n) (serve b c)"
proof -
  have s: "keeps (uuid_ge n) (cancel_subscription (build_authorization_service b) t u p i rid)" for t u p i rid
    unfolding cancel_subscription_def cancel_installation_def cancel_line_def
    by (rule keeps_intros reads_only_keeps reads_only_next_bill)+
  show ?thesis
    by (cases c)
       (auto simp: silent_def cancel_order_split return_splits reads_only_keeps reads_only_order_detail reads_only_returns
         intro!: keeps_bindE [OF _ keeps_ret] keeps_bindE s cart_ops_uuid place_order_uuid fulfil_ops_uuid return_ops_uuid
           return_bodies_uuid)
qed

subsection \<open>The invariants together\<close>

lemma depends_on_tables:
  "depends_on cart_tables cart_inv" "depends_on shop_tables cart_inv"
  "depends_on order_tables (fulfil_hist fs)" "depends_on shop_tables (fulfil_hist fs)"
  "depends_on order_tables order_inv" "depends_on shop_tables order_inv"
  "depends_on return_tables (return_hist rs)" "depends_on shop_tables (return_hist rs)"
proof -
  show "depends_on cart_tables cart_inv" "depends_on shop_tables cart_inv"
    unfolding depends_on_def shop_tables_def cart_tables_def using cart_inv_same by blast+
  have f: "fulfil_hist gs n d'" if "vendor_fulfilments d' = vendor_fulfilments d" "orders d' = orders d"
    "fulfil_hist gs n d" for n d d' gs
    using fulfil_hist_same [OF that(1) _ that(3)] that(2) by simp
  then show "depends_on order_tables (fulfil_hist fs)" "depends_on shop_tables (fulfil_hist fs)"
    unfolding depends_on_def shop_tables_def order_tables_def by blast+
  have "order_inv n d'" if "vendor_fulfilments d' = vendor_fulfilments d" "orders d' = orders d" "order_inv n d"
    for n d d'
    unfolding order_inv_def
  proof (rule conjI)
    show "fulfil_hist [] n d'" using f [OF that(1,2)] that(3) by (simp add: order_inv_def)
    show "rolled_up n d'" by (rule rolled_up_same [OF that(2), where n = n]) (use that in \<open>simp_all add: order_inv_def\<close>)
  qed
  then show "depends_on order_tables order_inv" "depends_on shop_tables order_inv"
    unfolding depends_on_def shop_tables_def order_tables_def by blast+
  show "depends_on return_tables (return_hist rs)" "depends_on shop_tables (return_hist rs)"
    unfolding depends_on_def shop_tables_def return_tables_def using return_hist_same by blast+
qed

lemma serve_leaves:
  assumes "leaves p (serve b c)" and "depends_on p J" and "supply_mono J"
  shows "preserved J (serve b c)"
  by (rule preserved_leaves [OF assms serve_uuid])

lemmas shop_leaves = cart_ops_leave side_ops_leave fulfil_ops_leave return_ops_leave subscription_leaves

lemma served_cart: "preserved cart_inv (serve b c)"
proof (cases c)
  case (Place_Order t u p a m rid)
  then show ?thesis by (simp add: preserved_silent preserved_place_order)
qed (use serve_leaves [of shop_tables b c cart_inv, OF _ depends_on_tables(2) cart_inv_mono]
       serve_leaves [of cart_tables b c cart_inv, OF _ depends_on_tables(1) cart_inv_mono] in
     \<open>simp_all add: preserved_silent preserved_add_line preserved_update_line preserved_remove_line
       leaves_silent shop_leaves\<close>)

lemma served_fulfil: "preserved (fulfil_hist fs) (serve b c)"
proof (cases c)
  case (Place_Order t u p a m rid)
  then show ?thesis by (simp add: preserved_silent preserved_place_order_hist)
qed (use serve_leaves [of shop_tables b c "fulfil_hist fs", OF _ depends_on_tables(4) fulfil_hist_mono]
       serve_leaves [of order_tables b c "fulfil_hist fs", OF _ depends_on_tables(3) fulfil_hist_mono] in
     \<open>simp_all add: preserved_silent preserved_advance preserved_refund preserved_cancel
       leaves_silent shop_leaves\<close>)

lemma served_order: "preserved order_inv (serve b c)"
proof (cases c)
  case (Place_Order t u p a m rid)
  then show ?thesis by (simp add: preserved_silent rolled_place_order)
qed (use serve_leaves [of shop_tables b c order_inv, OF _ depends_on_tables(6) order_inv_mono]
       serve_leaves [of order_tables b c order_inv, OF _ depends_on_tables(5) order_inv_mono] in
     \<open>simp_all add: preserved_silent rolled_advance rolled_refund rolled_cancel
       leaves_silent shop_leaves\<close>)

lemma served_return: "preserved (return_hist rs) (serve b c)"
proof (cases c)
  case (Place_Order t u p a m rid)
  then show ?thesis by (simp add: preserved_silent preserved_place_order_returns)
qed (use serve_leaves [of shop_tables b c "return_hist rs", OF _ depends_on_tables(8) return_hist_mono]
       serve_leaves [of return_tables b c "return_hist rs", OF _ depends_on_tables(7) return_hist_mono] in
     \<open>simp_all add: preserved_silent preserved_request_return preserved_decide preserved_return_refund
       preserved_cancel_subscription leaves_silent shop_leaves\<close>)

definition shop_inv ::
  "vendor_fulfilment_row list \<Rightarrow> return_row list \<Rightarrow> uuid \<Rightarrow> database \<Rightarrow> bool"
where
  "shop_inv fs rs n d \<longleftrightarrow> cart_inv n d \<and> fulfil_hist fs n d \<and> order_inv n d \<and> return_hist rs n d"

lemma served_shop: "preserved (shop_inv fs rs) (serve b c)"
proof -
  have "shop_inv fs rs = (\<lambda>n d. cart_inv n d \<and> fulfil_hist fs n d \<and> order_inv n d \<and> return_hist rs n d)"
    by (intro ext) (simp add: shop_inv_def)
  then show ?thesis
    by (simp add: preserved_conj served_cart served_fulfil served_order served_return)
qed

lemma shop_inv_mono: "supply_mono (shop_inv fs rs)"
  unfolding supply_mono_def shop_inv_def
  by (blast intro: supply_monoD [OF cart_inv_mono] supply_monoD [OF fulfil_hist_mono]
      supply_monoD [OF order_inv_mono] supply_monoD [OF return_hist_mono])

lemma depends_on_shop: "depends_on shop_tables (shop_inv fs rs)"
  using depends_on_tables(2,4,6,8) unfolding depends_on_def shop_inv_def by blast

definition at_rest :: "vendor_fulfilment_row list \<Rightarrow> return_row list \<Rightarrow> world \<Rightarrow> bool" where
  "at_rest fs rs w \<longleftrightarrow> disk w = db w \<and> shop_inv fs rs (next_uuid w) (db w)"

lemma at_rest_step:
  assumes "shop_step b w w'" and "at_rest fs rs w"
  shows "at_rest fs rs w'"
  using assms
proof (induction rule: shop_step.induct)
  case (call c w r w')
  then show ?case
    unfolding at_rest_def using preservedD [OF served_shop _ _ call.hyps] by blast
next
  case (other d w n)
  then have "shop_inv fs rs (next_uuid w) d"
    using depends_on_shop unfolding at_rest_def depends_on_def by metis
  then show ?case
    using supply_monoD [OF shop_inv_mono _ other.hyps(2)] by (simp add: at_rest_def)
qed (simp add: at_rest_def)

interpretation shop_runs: served_machine "shop_step b" "shop_inv fs rs" for b fs rs
  by unfold_locales (rule at_rest_step [unfolded at_rest_def])

lemma at_rest_run: "(shop_step b)\<^sup>*\<^sup>* w w' \<Longrightarrow> at_rest fs rs w \<Longrightarrow> at_rest fs rs w'"
  unfolding at_rest_def by (elim conjE) (rule shop_runs.run_keeps)

text \<open>A shop in order: what a run starts from.\<close>

definition shop_ok :: "world \<Rightarrow> bool" where
  "shop_ok w \<longleftrightarrow> disk w = db w \<and> cart_inv (next_uuid w) (db w) \<and> fulfil_inv (next_uuid w) (db w)
     \<and> rolled_up (next_uuid w) (db w) \<and> return_inv (next_uuid w) (db w)"

lemma shop_ok_at_rest:
  assumes "shop_ok w"
  shows "at_rest (vendor_fulfilments (db w)) (returns (db w)) w"
proof -
  have "fulfil_hist [] (next_uuid w) (db w)"
    using assms by (simp add: shop_ok_def fulfil_hist_def continues_def)
  with assms show ?thesis
    using fulfil_hist_start return_hist_start
    by (simp add: shop_ok_def at_rest_def shop_inv_def order_inv_def)
qed

lemma at_rest_ok: "at_rest fs rs w \<Longrightarrow> shop_ok w"
  by (simp add: at_rest_def shop_inv_def shop_ok_def fulfil_hist_def order_inv_def return_hist_def)

end
