(* ===== verification/Shop_Properties.thy ===== *)
theory Shop_Properties
  imports Shop
begin

section \<open>Properties of the shop\<close>

text \<open>
  What the machine of \<open>Shop\<close> guarantees over every run, and what single requests do. \<open>order_world\<close> is a
  sample shop with one order of two vendors, for the witnesses.
\<close>

definition order_db :: "string \<Rightarrow> string \<Rightarrow> database" where
  "order_db s1 s2 = shop_db\<lparr>
     orders := [\<lparr>ord_id = 701, ord_tenant_id = 31, ord_cart_id = 500, ord_address_id = Some 601,
        ord_payment_method = ''upi'', ord_status = rollup_status [s1, s2], ord_created_at = 10\<rparr>],
     order_lines :=
       [\<lparr>oln_id = 711, oln_order_id = 701, oln_offering_id = 401, oln_product_name = ''Kettle'',
         oln_plan_name = ''basic'', oln_quantity = 2, oln_fulfilment_type = ''SHIP_PHYSICAL'',
         oln_billing_period = ''one_time'', oln_unit_price = 1000, oln_currency = ''INR'', oln_status = ''active''\<rparr>,
        \<lparr>oln_id = 712, oln_order_id = 701, oln_offering_id = 402, oln_product_name = ''Kettle'',
         oln_plan_name = ''basic'', oln_quantity = 1, oln_fulfilment_type = ''DELIVER_DIGITAL'',
         oln_billing_period = ''monthly'', oln_unit_price = 250, oln_currency = ''INR'', oln_status = ''active''\<rparr>],
     vendor_fulfilments := [(fulfilment_of 701 10 721 201)\<lparr>ful_status := s1\<rparr>,
                            (fulfilment_of 701 10 722 202)\<lparr>ful_status := s2\<rparr>]\<rparr>"

abbreviation order_world :: world where
  "order_world \<equiv> world_of (order_db ''placed'' ''confirmed'')"

lemma order_world_ok: "shop_ok order_world"
proof -
  have c: "cart_inv 1000 (order_db ''placed'' ''confirmed'')"
    by (simp add: cart_inv_def open_carts_def order_db_def shop_db_def sample_line_def)
  have f: "fulfil_inv 1000 (order_db ''placed'' ''confirmed'')"
    by (simp add: fulfil_inv_def fulfilment_rows_def order_db_def fulfilment_of_def fulfil_row_ok_def)
  have r: "rolled_up 1000 (order_db ''placed'' ''confirmed'')"
    by (simp add: rolled_up_def rolled_order_def order_fulfilments_def order_db_def fulfilment_of_def)
  have t: "return_inv 1000 (order_db ''placed'' ''confirmed'')"
    by (simp add: return_inv_def order_db_def shop_db_def sample_db_def empty_db_def requested_returns_def)
  show ?thesis using c f r t by (simp add: shop_ok_def)
qed

text \<open>
  C17. The shop stays in order: through any interleaving of requests (successful or failed), clock ticks
  and writes of other services, every tenant keeps at most one open cart, every cart at most one line
  per offering, every order at most one fulfilment per vendor and every line at most one open return,
  and fulfilments, returns and order statuses stay consistent.
\<close>

theorem shop_stays_in_order:
  assumes "shop_ok w" and "(shop_step b)\<^sup>*\<^sup>* w w'"
  shows "shop_ok w'"
  by (rule at_rest_ok [OF at_rest_run [OF assms(2) shop_ok_at_rest [OF assms(1)]]])

lemma shop_stays_in_order':
  assumes "shop_ok w" and "request (serve b c) w = (r, w')"
  shows "shop_ok w'"
  using at_rest_ok [OF at_rest_step [OF shop_step.call [OF assms(2)] shop_ok_at_rest [OF assms(1)]]] .

theorem shop_stays_in_order_witness:
  "\<exists>r w'. request (serve True (Cancel_Order 31 701 12)) order_world = (r, w') \<and> shop_ok w'"
proof -
  obtain r w' where e: "request (serve True (Cancel_Order 31 701 12)) order_world = (r, w')" by fastforce
  have "(shop_step True)\<^sup>*\<^sup>* order_world w'" by (rule r_into_rtranclp) (rule shop_step.call [OF e])
  from shop_stays_in_order [OF order_world_ok this] e show ?thesis by blast
qed

text \<open>
  C21. A fulfilment only moves forward: over every run it stays the same vendor's part of the same
  order, its status follows the machine (a delivered or cancelled one never changes), its refund goes
  from none to pending to refunded and never back, and a refund amount once set never changes.
\<close>

theorem fulfilment_moves_forward:
  assumes "shop_ok w" and "(shop_step b)\<^sup>*\<^sup>* w w'" and "f \<in> set (vendor_fulfilments (db w))"
  shows "\<exists>f' \<in> set (vendor_fulfilments (db w')). ful_id f' = ful_id f \<and> ful_order_id f' = ful_order_id f
     \<and> ful_vendor_id f' = ful_vendor_id f
     \<and> (\<exists>s t. ful_status f = status_of s \<and> ful_status f' = status_of t \<and> fmoves\<^sup>*\<^sup>* s t \<and> s \<le> t
          \<and> (s \<in> {Delivered, Cancelled} \<longrightarrow> t = s))
     \<and> refund_rank (ful_refund_status f) \<le> refund_rank (ful_refund_status f')
     \<and> (ful_refund_amount f \<noteq> None \<longrightarrow> ful_refund_amount f' = ful_refund_amount f)"
proof -
  from at_rest_run [OF assms(2) shop_ok_at_rest [OF assms(1)]]
  have "continues (vendor_fulfilments (db w)) (vendor_fulfilments (db w'))"
    by (simp add: at_rest_def shop_inv_def fulfil_hist_def)
  with assms(3) obtain f' where f': "f' \<in> set (vendor_fulfilments (db w'))" "later f f'"
    unfolding continues_def by blast
  from f'(2) obtain s t where "ful_status f = status_of s" "ful_status f' = status_of t" "fmoves\<^sup>*\<^sup>* s t"
    unfolding later_def by blast
  with fmoves_le [OF this(3)] terminal_stuck [OF this(3)]
  have "\<exists>s t. ful_status f = status_of s \<and> ful_status f' = status_of t \<and> fmoves\<^sup>*\<^sup>* s t \<and> s \<le> t
          \<and> (s \<in> {Delivered, Cancelled} \<longrightarrow> t = s)" by blast
  with f' show ?thesis unfolding later_def by blast
qed

theorem fulfilment_moves_forward_witness:
  "\<exists>r w'. request (serve True (Cancel_Order 31 701 12)) order_world = (r, w')
     \<and> (\<exists>f' \<in> set (vendor_fulfilments (db w')). ful_id f' = 722 \<and> ful_vendor_id f' = 202)"
proof -
  let ?f = "(fulfilment_of 701 10 722 202)\<lparr>ful_status := ''confirmed''\<rparr>"
  obtain r w' where e: "request (serve True (Cancel_Order 31 701 12)) order_world = (r, w')" by fastforce
  have run: "(shop_step True)\<^sup>*\<^sup>* order_world w'" by (rule r_into_rtranclp) (rule shop_step.call [OF e])
  have "?f \<in> set (vendor_fulfilments (db order_world))" by (simp add: order_db_def)
  from fulfilment_moves_forward [OF order_world_ok run this]
  obtain f' where "f' \<in> set (vendor_fulfilments (db w'))" "ful_id f' = 722" "ful_vendor_id f' = 202" by auto
  with e show ?thesis by blast
qed

text \<open>
  C24. The status of an order is what its fulfilments say, over every run: cancelled, delivered or placed
  exactly when all of them are, partial exactly when some are cancelled (or delivered) and others not,
  and processing otherwise.
\<close>

theorem order_status_means:
  assumes "shop_ok w" and "(shop_step b)\<^sup>*\<^sup>* w w'" and "r \<in> set (orders (db w'))"
    and "fs = map ful_status (order_fulfilments (db w') (ord_id r))" and "fs \<noteq> []"
  shows "(ord_status r = ''cancelled'' \<longleftrightarrow> (\<forall>s \<in> set fs. s = ''cancelled''))
     \<and> (ord_status r = ''delivered'' \<longleftrightarrow> (\<forall>s \<in> set fs. s = ''delivered''))
     \<and> (ord_status r = ''placed'' \<longleftrightarrow> (\<forall>s \<in> set fs. s = ''placed''))
     \<and> (ord_status r = ''partial'' \<longleftrightarrow>
           (\<exists>s \<in> set fs. \<exists>s' \<in> set fs. s \<in> {''cancelled'', ''delivered''} \<and> s' \<noteq> s))
     \<and> ord_status r \<in> {''placed'', ''processing'', ''partial'', ''delivered'', ''cancelled''}"
proof -
  from at_rest_run [OF assms(2) shop_ok_at_rest [OF assms(1)]] have "rolled_up (next_uuid w') (db w')"
    by (simp add: at_rest_def shop_inv_def order_inv_def)
  with assms(3-5) have "ord_status r = rollup_status fs"
    by (auto simp: rolled_up_def rolled_order_def)
  then show ?thesis by (simp only:) (intro conjI rollup_meaning [OF assms(5)])
qed

theorem order_status_means_witness:
  "\<exists>r. get_row ord_id 701 (orders (db order_world)) = Some r \<and> ord_status r \<noteq> ''placed''"
proof -
  obtain r where r: "get_row ord_id 701 (orders (db order_world)) = Some r" by (simp add: order_db_def)
  have e: "[''placed'', ''confirmed''] = map ful_status (order_fulfilments (db order_world) (ord_id r))"
    using get_row_Some [OF r] by (simp add: order_fulfilments_def order_db_def)
  have "ord_status r \<noteq> ''placed''"
    using order_status_means [OF order_world_ok rtranclp.rtrancl_refl _ e] get_row_Some [OF r] by auto
  with r show ?thesis by blast
qed

subsection \<open>Single requests\<close>

lemma shop_okD:
  assumes "shop_ok w"
  shows "disk w = db w" and "fulfil_inv (next_uuid w) (db w)"
  using assms by (simp_all add: shop_ok_def)

lemma refund_is_pending:
  assumes "advance_vendor_order v i u s c t w = (Inr x, w')" and "s = ''cancelled''"
  shows "ful_refund_status x = ''pending''"
  using advance_okD [OF assms(1)] assms(2) by (auto simp: Let_def)

text \<open>
  C22. A vendor moves only its own part of an order, only along the machine: the move is a step from the
  current state (placed when there is no fulfilment yet), shipping records a courier and a tracking
  number, rejecting leaves a pending refund of exactly the vendor's line total, and the order then has
  the rolled-up status.
\<close>

theorem advance_follows_machine:
  assumes "shop_ok w" and "request (advance_vendor_order v i u s c t) w = (Inr x, w')"
  shows "owns_vendor (db w) v u
     \<and> (\<exists>a b. fmoves a b \<and> s = status_of b
          \<and> (case fulfilment_rows (db w) i v of [] \<Rightarrow> a = Placed | f # _ \<Rightarrow> ful_status f = status_of a))
     \<and> fulfilment_rows (db w') i v = [x] \<and> ful_status x = s
     \<and> (s = ''shipped'' \<longrightarrow> ful_courier x = strip c \<and> ful_courier x \<noteq> []
          \<and> ful_tracking_number x = strip t \<and> ful_tracking_number x \<noteq> [])
     \<and> (s = ''cancelled'' \<longrightarrow> ful_refund_status x = ''pending''
          \<and> ful_refund_amount x = Some (vendor_line_total (db w) i v))
     \<and> (\<exists>r. get_row ord_id i (orders (db w')) = Some r
          \<and> ord_status r = rollup_status (map ful_status (order_fulfilments (db w') i)))"
proof -
  from assms(2) obtain w2 where ok: "advance_vendor_order v i u s c t w = (Inr x, w2)"
    and w2: "w' = w2\<lparr>db := disk w2\<rparr>" by (auto simp: request_ok)
  from advance_effect [OF shop_okD(2) [OF assms(1)] ok] obtain current a b l order where
    own: "owns_vendor (db w) v u" and cur: "is_current (db w) i v current"
    and ab: "current_state current = status_of a" "s = status_of b" "fmoves a b"
    and x: "ful_status x = s" "ful_order_id x = i" "ful_vendor_id x = v" "fulfil_row_ok x"
    and amount: "s = ''cancelled'' \<longrightarrow> ful_refund_amount x = Some (vendor_line_total (db w) i v)"
    and ship: "s = ''shipped'' \<longrightarrow> ful_courier x = strip c \<and> ful_tracking_number x = strip t"
    and order: "get_row ord_id i (orders (db w)) = Some order"
    and w': "db w2 = rolled i ((vendor_fulfilments_update (written current x) (db w))\<lparr>audit_log := l\<rparr>)" "disk w2 = db w2"
    by blast
  have start: "case fulfilment_rows (db w) i v of [] \<Rightarrow> a = Placed | f # _ \<Rightarrow> ful_status f = status_of a"
  proof (cases current)
    case None
    then have "status_of Placed = status_of a" using ab(1) by (simp add: current_state_def)
    with None cur show ?thesis by (simp add: is_current_def del: status_of.simps)
  next
    case (Some f)
    then show ?thesis using cur ab(1) by (simp add: is_current_def current_state_def)
  qed
  let ?d = "(vendor_fulfilments_update (written current x) (db w))\<lparr>audit_log := l\<rparr>"
  have "x \<in> set (vendor_fulfilments (db w'))"
    using w' w2 is_current_Some [of "db w" i v] cur
    by (cases current) (auto simp: written_def set_upd_row)
  then have mem: "x \<in> set (fulfilment_rows (db w') i v)" "x \<in> set (order_fulfilments (db w') i)"
    using x(2,3) by (simp_all add: fulfilment_rows_def order_fulfilments_def)
  have "shop_ok w'"
  proof (rule shop_stays_in_order' [OF assms(1)])
    show "request (serve True (Advance_Order v i u s c t)) w = (Inr (), w')"
      using assms(2) by (simp add: silent_def request_run bindE_run ret_run split: prod.splits sum.splits)
  qed
  then have "length (fulfilment_rows (db w') i v) \<le> 1" by (simp add: shop_ok_def fulfil_inv_def)
  with mem(1) have one: "fulfilment_rows (db w') i v = [x]"
    by (cases "fulfilment_rows (db w') i v") auto
  have db': "db w' = rolled i ?d" using w' w2 by simp
  have "order_fulfilments ?d i \<noteq> []" using mem(2) unfolding db' by auto
  moreover have "get_row ord_id i (orders ?d) = Some order" using order by simp
  ultimately have "\<exists>r. get_row ord_id i (orders (db w')) = Some r
          \<and> ord_status r = rollup_status (map ful_status (order_fulfilments (db w') i))"
    unfolding db' rolled_fields using rolled_status by fastforce
  moreover have "s = ''shipped'' \<longrightarrow> ful_courier x \<noteq> [] \<and> ful_tracking_number x \<noteq> []"
    "s = ''cancelled'' \<longrightarrow> ful_refund_status x = ''pending''"
    using x(1,4) refund_is_pending [OF ok] by (auto simp: fulfil_row_ok_def)
  ultimately show ?thesis using own ab(2,3) start one x(1) amount ship by blast
qed

lemma advance_decides:
  assumes "require_vendor_owner v u w = (Inr p, w)" and "vendor_lines (db w) i v \<noteq> []"
    and "get_row ord_id i (orders (db w)) = Some order" and "length (fulfilment_rows (db w) i v) \<le> 1"
    and "current_state (first_row (fulfilment_rows (db w) i v)) = status_of a" and "disk w = db w"
  shows "if (\<exists>b. s = status_of b \<and> fmoves a b) \<and> (s = ''shipped'' \<longrightarrow> strip c \<noteq> [] \<and> strip t \<noteq> [])
         then \<exists>x w'. request (advance_vendor_order v i u s c t) w = (Inr x, w')
         else \<exists>m. request (advance_vendor_order v i u s c t) w = (Inl (ValidationError m), w)"
proof -
  let ?cur = "first_row (fulfilment_rows (db w) i v)"
  let ?go = "(\<exists>b. s = status_of b \<and> fmoves a b) \<and> (s = ''shipped'' \<longrightarrow> strip c \<noteq> [] \<and> strip t \<noteq> [])"
  have owner: "bindE (require_vendor_owner v u) f w = f p w" for f by (simp add: bindE_run assms(1))
  have rows: "bindE (one_or_none (fulfilment_rows (db w) i v)) f w = f ?cur w" for f
    using one_or_none_le1 [of "fulfilment_rows (db w) i v"] assms(4) by (simp add: bindE_run)
  have move: "bindE (move_fulfilment v i k s x y) f w1 =
     (let row = next_row (next_uuid w1) (clock w1) v i k s x y
      in f row (w1\<lparr>next_uuid := supply_after k (next_uuid w1),
                  db := vendor_fulfilments_update (written k row) (db w1)\<rparr>))" for k s x y f w1
    by (simp add: bindE_run move_fulfilment_run Let_def)
  have first: "first_row (vendor_lines (db w) i v) \<noteq> None"
    using assms(2) by (cases "vendor_lines (db w) i v") simp_all
  have allowed: "s \<in> set (allowed_next (status_of a)) \<longleftrightarrow> (\<exists>b. s = status_of b \<and> fmoves a b)"
    by (auto simp: allowed_next_status_of simp del: status_of.simps)
  have state: "(case ?cur of None \<Rightarrow> ''placed'' | Some f \<Rightarrow> ful_status f) = status_of a"
    using assms(5) by (simp add: current_state_def)
  have stop: "\<exists>m. advance_vendor_order v i u s c t w = (Inl (ValidationError m), w)" if "\<not> ?go"
    using that unfolding advance_vendor_order_def Let_def
    by (cases "s \<in> set (allowed_next (status_of a))")
       (auto simp: owner step_run first assms(2,3) rows state allowed simp del: status_of.simps)
  have go: "\<exists>x w'. advance_vendor_order v i u s c t w = (Inr x, w')" if "?go"
  proof -
    have tail: "\<exists>x w'. bindE (if q then reject_fulfilment v i u order m row else ret row) (\<lambda>y.
        bindE (audit A B C D) (\<lambda>_. bindE (rollup_order_status i) (\<lambda>_. bindE commit (\<lambda>_. ret y)))) w1
        = (Inr x, w')" for q m row A B C D w1
      by (cases q) (simp_all add: bindE_run reject_fulfilment_run audit_run rollup_run commit_run ret_run)
    from that have s: "s \<in> set (allowed_next (status_of a))"
      "\<not> (s = ''shipped'' \<and> (strip c = [] \<or> strip t = []))"
      unfolding allowed by blast+
    show ?thesis
      unfolding advance_vendor_order_def Let_def
      by (simp add: owner step_run first assms(2,3) rows state s move Let_def tail del: status_of.simps)
  qed
  show ?thesis
  proof (cases ?go)
    case True
    from go [OF True] show ?thesis by (subst if_P [OF True]) (auto simp: request_run)
  next
    case False
    from stop [OF False] assms(6) show ?thesis by (subst if_not_P [OF False]) (fastforce simp: request_run)
  qed
qed


lemma order_world_vendor: "require_vendor_owner 202 13 (world_of (order_db s t)) = (Inr
    \<lparr>vnd_id = 202, vnd_organization_id = 22, vnd_legal_name = ''Bits'', vnd_tax_id = None,
      vnd_payout_bank_account = None, vnd_contact_email = [], vnd_business_doc_url = None, vnd_status = ''active'',
      vnd_created_at = 0\<rparr>, world_of (order_db s t))"
  by (simp add: require_vendor_owner_def order_db_def shop_db_def sample_db_def step_run ret_run)

lemma order_world_lines: "vendor_lines (db order_world) 701 202 \<noteq> []"
  "get_row ord_id 701 (orders (db order_world)) = Some (hd (orders (db order_world)))"
  "length (fulfilment_rows (db order_world) 701 202) \<le> 1"
  "current_state (first_row (fulfilment_rows (db order_world) 701 202)) = status_of Confirmed"
  by (simp_all add: order_db_def vendor_lines_def shop_db_def sample_offering_def sample_product_def
      fulfilment_rows_def current_state_def)

lemma order_world_advance:
  "\<exists>x w'. request (advance_vendor_order 202 701 13 ''processing'' [] []) order_world = (Inr x, w')"
  using advance_decides [OF order_world_vendor order_world_lines, of "''processing''" "[]" "[]"]
    exI [of "\<lambda>b. ''processing'' = status_of b \<and> fmoves Confirmed b" Processing]
  by simp




theorem advance_follows_machine_witness:
  "\<exists>x w'. request (advance_vendor_order 202 701 13 ''processing'' [] []) order_world = (Inr x, w')
     \<and> ful_status x = ''processing''"
proof -
  from order_world_advance obtain x w' where
    e: "request (advance_vendor_order 202 701 13 ''processing'' [] []) order_world = (Inr x, w')" by blast
  from advance_follows_machine [OF order_world_ok e] e show ?thesis by blast
qed

text \<open>
  The refund of a rejected or cancelled part is issued at most once: after a successful refund, the
  same request fails in every later state of the shop, whatever happened in between.
\<close>

theorem reject_refund_once:
  assumes "shop_ok w" and "request (issue_vendor_reject_refund v i u) w = (Inr x, w1)"
    and "(shop_step b)\<^sup>*\<^sup>* w1 w2"
  shows "\<exists>e w3. request (issue_vendor_reject_refund v i u') w2 = (Inl e, w3)"
proof -
  from assms(2) obtain w0 where ok: "issue_vendor_reject_refund v i u w = (Inr x, w0)"
    and w1: "w1 = w0\<lparr>db := disk w0\<rparr>" by (auto simp: request_ok)
  have "request (serve b (Reject_Refund v i u)) w = (Inr (), w1)"
    using assms(2) by (simp add: silent_def request_run bindE_run ret_run split: prod.splits sum.splits)
  from shop_stays_in_order' [OF assms(1) this] have ok1: "shop_ok w1" .
  from refund_okD [OF ok] obtain f l where cur: "is_current (db w) i v (Some f)"
    and x: "x = f\<lparr>ful_refund_status := ''refunded'', ful_updated_at := clock w\<rparr>"
    and db: "db w0 = (vendor_fulfilments_update (written (Some f) x) (db w))\<lparr>audit_log := l\<rparr>" "disk w0 = db w0"
    by blast
  have f: "f \<in> set (vendor_fulfilments (db w))" "ful_order_id f = i" "ful_vendor_id f = v"
    using is_current_Some [OF cur] by auto
  then have "x \<in> set (vendor_fulfilments (db w1))" by (auto simp: w1 db written_def set_upd_row)
  moreover have run: "at_rest (vendor_fulfilments (db w1)) (returns (db w1)) w2"
    by (rule at_rest_run [OF assms(3) shop_ok_at_rest [OF ok1]])
  ultimately obtain x' where x': "x' \<in> set (vendor_fulfilments (db w2))" "later x x'"
    unfolding at_rest_def shop_inv_def fulfil_hist_def continues_def by blast
  then have st: "ful_refund_status x' = ''refunded''" "ful_order_id x' = i" "ful_vendor_id x' = v"
    using f by (auto simp: later_def x split: if_splits)
  have "length (fulfilment_rows (db w2) i v) \<le> 1"
    using at_rest_ok [OF run] by (simp add: shop_ok_def fulfil_inv_def)
  moreover have "x' \<in> set (fulfilment_rows (db w2) i v)" using x'(1) st by (simp add: fulfilment_rows_def)
  ultimately have one: "fulfilment_rows (db w2) i v = [x']"
    by (cases "fulfilment_rows (db w2) i v") auto
  obtain r w3 where run2: "request (issue_vendor_reject_refund v i u') w2 = (r, w3)" by fastforce
  show ?thesis
  proof (cases r)
    case (Inr y)
    with run2 obtain w4 where "issue_vendor_reject_refund v i u' w2 = (Inr y, w4)" by (auto simp: request_ok)
    from refund_okD [OF this] one st(1) show ?thesis by (auto simp: is_current_def)
  qed (use run2 in blast)
qed

text \<open>
  The buyer cancels all or nothing: a member of the ordering tenant can cancel only while every
  vendor is still at placed; then every part of the order is cancelled with a pending refund of that
  vendor's line total, the order is cancelled, and no other order's fulfilments change.
\<close>

theorem cancel_order_effect:
  assumes "shop_ok w" and "request (cancel_order t i u) w = (Inr x, w')"
  shows "db_active_member (db w) t u
     \<and> (\<exists>order. get_row ord_id i (orders (db w)) = Some order \<and> ord_tenant_id order = t)
     \<and> (\<forall>f \<in> set (order_fulfilments (db w) i). ful_status f = ''placed'')
     \<and> (\<exists>order. get_row ord_id i (orders (db w')) = Some order \<and> ord_status order = ''cancelled'')
     \<and> map ful_id (order_fulfilments (db w') i) = map ful_id (order_fulfilments (db w) i)
     \<and> (\<forall>f \<in> set (order_fulfilments (db w') i). ful_status f = ''cancelled''
          \<and> ful_refund_status f = ''pending''
          \<and> ful_refund_amount f = Some (vendor_line_total (db w) i (ful_vendor_id f)))
     \<and> (\<forall>j. j \<noteq> i \<longrightarrow> order_fulfilments (db w') j = order_fulfilments (db w) j)"
proof -
  from assms(2) obtain w0 where run: "cancel_order t i u w = (Inr x, w0)" and w': "w' = w0\<lparr>db := disk w0\<rparr>"
    by (auto simp: request_ok)
  then obtain w2 where ok: "cancel_body t i u w = (Inr (), w2)" and "order_detail i u w2 = (Inr x, w0)"
    by (auto simp: cancel_order_split ok_iff)
  then have w0: "w0 = w2" using reads_onlyD [OF reads_only_order_detail] by blast
  have "distinct (map ful_id (vendor_fulfilments (db w)))"
    using shop_okD(2) [OF assms(1)] by (simp add: fulfil_inv_def)
  from cancel_body_okD [OF this ok] obtain order l where
    facts: "db_active_member (db w) t u" "get_row ord_id i (orders (db w)) = Some order" "ord_tenant_id order = t"
      "\<forall>f \<in> set (order_fulfilments (db w) i). ful_status f = ''placed''"
    and db: "db w' = (orders_update (upd_row ord_id i (\<lambda>r. r\<lparr>ord_status := ''cancelled''\<rparr>))
         (vendor_fulfilments_update (\<lambda>rows. cancelled_fulfilments (db w) i (clock w) rows) (db w)))\<lparr>audit_log := l\<rparr>"
    unfolding w' w0 by auto
  have rows: "order_fulfilments (db w') j = (if j = i
      then map (\<lambda>r. cancelled_row (vendor_line_total (db w) i (ful_vendor_id r)) (clock w) r) (order_fulfilments (db w) i)
      else order_fulfilments (db w) j)" for j
  proof -
    have "filter (\<lambda>f. ful_order_id f = j) (cancelled_fulfilments d i now rows) = (if j = i
      then map (\<lambda>r. cancelled_row (vendor_line_total d i (ful_vendor_id r)) now r) (filter (\<lambda>f. ful_order_id f = i) rows)
      else filter (\<lambda>f. ful_order_id f = j) rows)" for d now rows
      by (induction rows) (auto simp: cancelled_fulfilments_def cancelled_row_def)
    then show ?thesis by (simp add: db order_fulfilments_def)
  qed
  have o': "get_row ord_id i (orders (db w')) = Some (order\<lparr>ord_status := ''cancelled''\<rparr>)"
    using facts(2) by (simp add: db get_row_upd_row)
  have "map ful_id (order_fulfilments (db w') i) = map ful_id (order_fulfilments (db w) i)"
    by (simp add: rows comp_def cancelled_row_def)
  moreover have "\<forall>f \<in> set (order_fulfilments (db w') i). ful_status f = ''cancelled''
          \<and> ful_refund_status f = ''pending''
          \<and> ful_refund_amount f = Some (vendor_line_total (db w) i (ful_vendor_id f))"
    unfolding rows by (simp add: cancelled_row_def)
  ultimately show ?thesis using facts o' rows by simp
qed

text \<open>
  A return only moves forward, over every run: it stays the return of the same line with the same
  reason, goes from requested to approved or rejected and from approved to refunded, keeps its decision
  and amount once made, and an approved or refunded amount is not negative and at most the line's total.
\<close>

theorem return_moves_forward:
  assumes "shop_ok w" and "(shop_step b)\<^sup>*\<^sup>* w w'" and "r \<in> set (returns (db w))"
  shows "\<exists>r' \<in> set (returns (db w')). ret_id r' = ret_id r \<and> ret_line_id r' = ret_line_id r
     \<and> ret_reason r' = ret_reason r \<and> rmoves\<^sup>*\<^sup>* (ret_status r) (ret_status r')
     \<and> (ret_status r \<in> {''rejected'', ''refunded''} \<longrightarrow> ret_status r' = ret_status r)
     \<and> (ret_refund_amount r \<noteq> None \<longrightarrow> ret_refund_amount r' = ret_refund_amount r)
     \<and> (ret_status r' \<in> {''approved'', ''refunded''} \<longrightarrow>
          (\<exists>line \<in> set (order_lines (db w')). oln_id line = ret_line_id r'
             \<and> (\<exists>a. ret_refund_amount r' = Some a \<and> 0 \<le> a \<and> a \<le> line_total line)))"
proof -
  from at_rest_run [OF assms(2) shop_ok_at_rest [OF assms(1)]]
  have "return_hist (returns (db w)) (next_uuid w') (db w')" by (simp add: at_rest_def shop_inv_def)
  with assms(3) obtain r' where r': "r' \<in> set (returns (db w'))" "later_return r r'" "return_ok (order_lines (db w')) r'"
    unfolding return_hist_def return_inv_def by blast
  from r'(2) have m: "rmoves\<^sup>*\<^sup>* (ret_status r) (ret_status r')" by (simp add: later_return_def)
  from r'(3) have "ret_status r' \<in> {''approved'', ''refunded''} \<longrightarrow>
          (\<exists>line \<in> set (order_lines (db w')). oln_id line = ret_line_id r'
             \<and> (\<exists>a. ret_refund_amount r' = Some a \<and> 0 \<le> a \<and> a \<le> line_total line))"
    unfolding return_ok_def by blast
  moreover have "ret_status r \<in> {''rejected'', ''refunded''} \<longrightarrow> ret_status r' = ret_status r"
    using return_final [OF m] by blast
  ultimately show ?thesis
    using r'(1,2) m unfolding later_return_def by blast
qed

text \<open>
  C25. A vendor decides a return only once and within bounds: the return was requested, is on a line of
  the vendor's own products, and is rejected without an amount, or approved with a known refund method
  after a finite amount was asked for that is positive and at most the line's total (exactly, however
  fine the decimal). What is stored is that amount to the nearest hundredth: between zero and the line's
  total, and zero only for less than half a hundredth, which the check lets pass.
\<close>

theorem return_decided_in_bounds:
  assumes "shop_ok w" and "request (decide_vendor_return v i u d a m n) w = (Inr x, w')"
  shows "owns_vendor (db w) v u
     \<and> (\<exists>row row' line. row \<in> set (returns (db w)) \<and> ret_id row = i \<and> ret_status row = ''requested''
          \<and> line \<in> set (order_lines (db w)) \<and> oln_id line = ret_line_id row
          \<and> get_row ret_id i (returns (db w')) = Some row' \<and> ret_decided_at row' = Some (clock w)
          \<and> (if lower (strip d) = ''rejected''
             then ret_status row' = ''rejected'' \<and> ret_refund_amount row' = None
             else ret_status row' = ''approved''
               \<and> (\<exists>k. ret_refund_method row' = Some k \<and> k \<in> {''original'', ''wallet'', ''upi''})
               \<and> (\<exists>q e c. a = Some (Decimal q e) \<and> 0 < q \<and> cents_num q e \<le> line_total line * cents_den e
                    \<and> ret_refund_amount row' = Some c \<and> 0 \<le> c \<and> c \<le> line_total line
                    \<and> 2 * \<bar>cents_num q e - c * cents_den e\<bar> \<le> cents_den e
                    \<and> (c = 0 \<longleftrightarrow> 2 * cents_num q e < cents_den e))))"
proof -
  from assms(2) obtain w0 where run: "decide_vendor_return v i u d a m n w = (Inr x, w0)"
    and w': "w' = w0\<lparr>db := disk w0\<rparr>" by (auto simp: request_ok)
  then obtain w2 y where ok: "decide_body v i u d a m n w = (Inr (), w2)" and "listed_return v u i w2 = (Inr y, w0)"
    by (auto simp: return_splits ok_iff ret_run)
  then have w0: "w0 = w2" using reads_onlyD [OF reads_only_returns(3)] by blast
  from decide_okD [OF ok] obtain row line refund log where own: "owns_vendor (db w) v u"
    and rows: "vendor_return_rows (db w) v i = [(row, line)]" and st: "ret_status row = ''requested''"
    and r: "case refund of None \<Rightarrow> lower (strip d) = ''rejected''
       | Some (amount, _, method) \<Rightarrow> lower (strip d) \<noteq> ''rejected'' \<and> asked_within a (line_total line) amount
            \<and> method \<in> set refund_methods"
    and db: "db w' = (returns_update (upd_row ret_id (ret_id row)
          (decided_row (clock w) (strip (str_or n [])) refund)) (db w))\<lparr>audit_log := log\<rparr>"
    unfolding w' w0 by auto
  let ?row' = "decided_row (clock w) (strip (str_or n [])) refund row"
  have mem: "row \<in> set (returns (db w))" "line \<in> set (order_lines (db w))" "oln_id line = ret_line_id row" "ret_id row = i"
    using vendor_return_rowsD [OF rows] by auto
  have inv: "return_inv (next_uuid w) (db w)" using assms(1) by (simp add: shop_ok_def)
  then have "get_row ret_id i (returns (db w)) = Some row"
    using get_row_unique [of ret_id "returns (db w)" row] mem by (simp add: return_inv_def)
  then have new: "get_row ret_id i (returns (db w')) = Some ?row'"
    using mem(4) by (simp add: db get_row_upd_row)
  have "ret_refund_amount row = None" using inv mem(1) st by (auto simp: return_inv_def return_ok_def)
  with r have "if lower (strip d) = ''rejected''
             then ret_status ?row' = ''rejected'' \<and> ret_refund_amount ?row' = None
             else ret_status ?row' = ''approved''
               \<and> (\<exists>k. ret_refund_method ?row' = Some k \<and> k \<in> {''original'', ''wallet'', ''upi''})
               \<and> (\<exists>c. ret_refund_amount ?row' = Some c \<and> asked_within a (line_total line) c)"
    by (cases refund) (auto simp: refund_methods_def)
  with own mem st new show ?thesis
    by (intro conjI exI [of _ row] exI [of _ ?row'] exI [of _ line])
       (fastforce simp: asked_within_def numeric_cents_rounds)+
qed

subsection \<open>Sample runs\<close>

lemma require_member_transfer:
  assumes "require_member t u w = (Inr x, w)" and "tenants (db w') = tenants (db w)"
    and "tenant_memberships (db w') = tenant_memberships (db w)"
  shows "require_member t u w' = (Inr x, w')"
  using assms(1)
  by (simp add: require_member_def active_membership_def step_run bindE_run reads_run the_or_run one_or_none_run
      raise_if_run assms(2,3) split: option.splits list.splits if_splits)

lemma cancel_order_runs:
  assumes m: "require_member t u w = (Inr y, w)" and o': "get_row ord_id i (orders (db w)) = Some order"
    and t: "ord_tenant_id order = t"
    and placed: "\<forall>f \<in> set (order_fulfilments (db w) i). ful_status f = ''placed''"
  shows "\<exists>x w'. request (cancel_order t i u) w = (Inr x, w')"
proof -
  have member: "bindE (require_member t u) f w = f y w" for f by (simp add: bindE_run m)
  have none: "\<not> list_ex (\<lambda>f. ful_status f \<noteq> ''placed'') (order_fulfilments (db w) i)"
    using placed by (auto simp: list_ex_iff)
  have loop: "bindE (for_each fs (\<lambda>f. bindE (reads (\<lambda>d. vendor_line_total d i (ful_vendor_id f))) (\<lambda>amount.
      bindE utcnow (\<lambda>now. modifies (vendor_fulfilments_update (upd_row ful_id (ful_id f)
        (cancelled_row amount now))))))) g w
   = g () (w\<lparr>db := vendor_fulfilments_update
        (fold (\<lambda>f. upd_row ful_id (ful_id f)
           (cancelled_row (vendor_line_total (db w) i (ful_vendor_id f)) (clock w))) fs) (db w)\<rparr>)" for g fs
    by (simp only: bindE_run cancel_loop_run) simp
  obtain w1 where body: "cancel_body t i u w = (Inr (), w1)"
    and w1: "tenants (db w1) = tenants (db w)" "tenant_memberships (db w1) = tenant_memberships (db w)"
      "\<exists>r. get_row ord_id i (orders (db w1)) = Some r \<and> ord_tenant_id r = t"
    unfolding cancel_body_def
    by (simp add: member step_run o' t none loop commit_run get_row_upd_row)
  from w1(3) obtain r where r: "get_row ord_id i (orders (db w1)) = Some r" "ord_tenant_id r = t" by blast
  have again: "bindE (require_member t u) f w1 = f y w1" for f
    by (simp add: bindE_run require_member_transfer [OF m w1(1,2)])
  have "order_detail i u w1 = (Inr (order_detail_of (db w1) r), w1)"
    by (simp add: order_detail_def step_run reads_run r again)
  with body show ?thesis by (simp add: cancel_order_split bindE_run request_run)
qed

definition small_line :: "uuid \<Rightarrow> order_line_row" where
  "small_line i = \<lparr>oln_id = i, oln_order_id = 1, oln_offering_id = 4, oln_product_name = [],
         oln_plan_name = [], oln_quantity = 2, oln_fulfilment_type = [],
         oln_billing_period = [], oln_unit_price = 100, oln_currency = [], oln_status = []\<rparr>"
definition return_db :: database where
  "return_db = empty_db\<lparr>vendor_profiles := [\<lparr>vnd_id = 2, vnd_organization_id = 3, vnd_legal_name = [], vnd_tax_id = None,
      vnd_payout_bank_account = None, vnd_contact_email = [], vnd_business_doc_url = None, vnd_status = [],
      vnd_created_at = 0\<rparr>],
    org_memberships := [\<lparr>omb_id = 9, omb_organization_id = 3, omb_user_id = 5,
                          omb_role = ''owner'', omb_status = ''active''\<rparr>],
    tenants := [\<lparr>ten_id = 6, ten_organization_id = 3, ten_name = [], ten_slug = [], ten_status = [], ten_created_at = 0\<rparr>],
    tenant_memberships := [\<lparr>tmb_id = 7, tmb_tenant_id = 6, tmb_user_id = 8, tmb_status = ''active''\<rparr>],
    products := [\<lparr>prd_id = 10, prd_vendor_id = 2, prd_plugin_id = None, prd_name = [],
      prd_description = [], prd_category = [], prd_fulfilment_type = [], prd_status = [], prd_pa_status = ''live'',
      prd_pa_reject_reason = [], prd_archived_at = None, prd_created_at = 0, prd_updated_at = 0\<rparr>],
    offerings := [\<lparr>off_id = 4, off_product_id = 10, off_plan_name = [], off_billing_period = [],
      off_price_usd = 100, off_currency = [],
      off_included_transactions = None, off_overage_price_per_1k = None, off_status = [],
      off_created_at = 0\<rparr>],
    orders := [\<lparr>ord_id = 1, ord_tenant_id = 6, ord_cart_id = 0, ord_address_id = None,
        ord_payment_method = [], ord_status = ''cancelled'', ord_created_at = 10\<rparr>],
    order_lines := [small_line 11],
    vendor_fulfilments := [\<lparr>ful_id = 13, ful_order_id = 1, ful_vendor_id = 2, ful_status = ''cancelled'',
       ful_courier = [], ful_tracking_number = [], ful_refund_status = ''pending'',
       ful_refund_amount = Some 200, ful_updated_at = 10\<rparr>],
    returns := [\<lparr>ret_id = 12, ret_order_id = 1, ret_line_id = 11, ret_reason = ''x'', ret_notes = [],
       ret_status = ''requested'', ret_refund_amount = None, ret_refund_currency = ''INR'',
       ret_refund_method = None, ret_vendor_notes = [], ret_decided_at = None, ret_refunded_at = None,
       ret_created_at = 20\<rparr>]\<rparr>"

abbreviation return_world :: world where
  "return_world \<equiv> world_of return_db"

lemma return_world_ok: "shop_ok return_world"
proof -
  have c: "cart_inv 1000 return_db"
    by (simp add: cart_inv_def open_carts_def return_db_def empty_db_def)
  have f: "fulfil_inv 1000 return_db"
    by (simp add: fulfil_inv_def fulfilment_rows_def return_db_def fulfil_row_ok_def)
  have r: "rolled_up 1000 return_db"
    by (simp add: rolled_up_def rolled_order_def order_fulfilments_def return_db_def rollup_status_def)
  have t: "return_inv 1000 return_db"
    by (simp add: return_inv_def return_db_def requested_returns_def return_ok_def small_line_def)
  show ?thesis using c f r t by (simp add: shop_ok_def)
qed

lemma return_world_runs:
  "case request (decide_vendor_return 2 12 5 ''approved'' (Some (Decimal 2 0)) (Some ''upi'') None) return_world of
     (Inl _, _) \<Rightarrow> False | (Inr r, _) \<Rightarrow> True"
  "case request (issue_vendor_reject_refund 2 1 5) return_world of (Inl _, _) \<Rightarrow> False | (Inr r, _) \<Rightarrow> True"
  "case request (create_review 6 8 1 11 5 ''x'') return_world of (Inl _, _) \<Rightarrow> False | (Inr r, _) \<Rightarrow> True"
  "case request (decide_vendor_return 2 12 5 ''approved'' (Some (Decimal 1 (-3))) (Some ''upi'') None) return_world of
     (Inl _, _) \<Rightarrow> False | (Inr r, _) \<Rightarrow> True"
  by code_simp+

theorem cancel_order_effect_witness:
  "\<exists>x w'. request (cancel_order 31 701 12) (world_of (order_db ''placed'' ''placed'')) = (Inr x, w')
     \<and> (\<forall>f \<in> set (order_fulfilments (db w') 701). ful_refund_status f = ''pending'')"
proof -
  let ?w = "world_of (order_db ''placed'' ''placed'')"
  have c: "cart_inv 1000 (order_db ''placed'' ''placed'')"
    by (simp add: cart_inv_def open_carts_def order_db_def shop_db_def sample_line_def)
  have f: "fulfil_inv 1000 (order_db ''placed'' ''placed'')"
    by (simp add: fulfil_inv_def fulfilment_rows_def order_db_def fulfilment_of_def fulfil_row_ok_def)
  have r: "rolled_up 1000 (order_db ''placed'' ''placed'')"
    by (simp add: rolled_up_def rolled_order_def order_fulfilments_def order_db_def fulfilment_of_def)
  have t: "return_inv 1000 (order_db ''placed'' ''placed'')"
    by (simp add: return_inv_def order_db_def shop_db_def sample_db_def empty_db_def requested_returns_def)
  have ok: "shop_ok ?w" using c f r t by (simp add: shop_ok_def)
  have m: "require_member 31 12 ?w = (Inr (), ?w)"
    by (simp add: require_member_def active_membership_def order_db_def shop_db_def sample_db_def step_run ret_run
        bindE_run reads_run the_or_run raise_if_run)
  have "\<exists>x w'. request (cancel_order 31 701 12) ?w = (Inr x, w')"
    by (rule cancel_order_runs [OF m, of 701 "hd (orders (db ?w))"])
       (simp_all add: order_db_def order_fulfilments_def fulfilment_of_def)
  then obtain x w' where e: "request (cancel_order 31 701 12) ?w = (Inr x, w')" by blast
  from cancel_order_effect [OF ok e] e show ?thesis by blast
qed

theorem reject_refund_once_witness:
  "\<exists>x w1 e w3. request (issue_vendor_reject_refund 2 1 5) return_world = (Inr x, w1)
     \<and> request (issue_vendor_reject_refund 2 1 5) w1 = (Inl e, w3)"
proof -
  from return_world_runs(2) obtain x w1 where
    e: "request (issue_vendor_reject_refund 2 1 5) return_world = (Inr x, w1)"
    by (auto split: prod.splits sum.splits)
  from reject_refund_once [OF return_world_ok e rtranclp.rtrancl_refl, of 5] e show ?thesis by blast
qed

theorem return_moves_forward_witness:
  "\<exists>r w'. request (serve True (Decide_Return 2 12 5 ''rejected'' None None None)) return_world = (r, w')
     \<and> (\<exists>r' \<in> set (returns (db w')). ret_id r' = 12 \<and> ret_line_id r' = 11)"
proof -
  obtain r w' where e: "request (serve True (Decide_Return 2 12 5 ''rejected'' None None None)) return_world = (r, w')"
    by fastforce
  have run: "(shop_step True)\<^sup>*\<^sup>* return_world w'" by (rule r_into_rtranclp) (rule shop_step.call [OF e])
  have "hd (returns return_db) \<in> set (returns (db return_world))" by (simp add: return_db_def)
  from return_moves_forward [OF return_world_ok run this]
  have "\<exists>r' \<in> set (returns (db w')). ret_id r' = 12 \<and> ret_line_id r' = 11" by (auto simp: return_db_def)
  with e show ?thesis by blast
qed

lemma whole_cents: "2 * \<bar>x - c\<bar> \<le> (1::int) \<longleftrightarrow> c = x"
  by arith

theorem return_decided_in_bounds_witness:
  "(\<exists>x w'. request (decide_vendor_return 2 12 5 ''approved'' (Some (Decimal 2 0)) (Some ''upi'') None) return_world = (Inr x, w')
     \<and> (\<exists>row'. get_row ret_id 12 (returns (db w')) = Some row' \<and> ret_refund_amount row' = Some 200))
   \<and> (\<exists>x w'. request (decide_vendor_return 2 12 5 ''approved'' (Some (Decimal 1 (-3))) (Some ''upi'') None) return_world = (Inr x, w')
     \<and> (\<exists>row'. get_row ret_id 12 (returns (db w')) = Some row' \<and> ret_refund_amount row' = Some 0))"
proof -
  have not_reject: "lower (strip ''approved'') \<noteq> ''rejected''" by code_simp
  from return_world_runs(1) obtain x w' where
    e: "request (decide_vendor_return 2 12 5 ''approved'' (Some (Decimal 2 0)) (Some ''upi'') None) return_world = (Inr x, w')"
    by (auto split: prod.splits sum.splits)
  from return_world_runs(4) obtain y w2 where
    f: "request (decide_vendor_return 2 12 5 ''approved'' (Some (Decimal 1 (-3))) (Some ''upi'') None) return_world = (Inr y, w2)"
    by (auto split: prod.splits sum.splits)
  from return_decided_in_bounds [OF return_world_ok e] not_reject
  have "\<exists>row'. get_row ret_id 12 (returns (db w')) = Some row' \<and> ret_refund_amount row' = Some 200"
    by (auto simp: cents_num_def cents_den_def whole_cents)
  moreover from return_decided_in_bounds [OF return_world_ok f] not_reject
  have "\<exists>row'. get_row ret_id 12 (returns (db w2)) = Some row' \<and> ret_refund_amount row' = Some 0"
    by (auto simp: cents_num_def cents_den_def)
  ultimately show ?thesis using e f by blast
qed

lemma create_review_okD:
  assumes "create_review t u i l k c w = (Inr x, w0)"
  shows "\<exists>order line p log. db_active_member (db w) t u \<and> 1 \<le> k \<and> k \<le> 5
    \<and> get_row ord_id i (orders (db w)) = Some order
    \<and> get_row oln_id l (order_lines (db w)) = Some line \<and> oln_order_id line = ord_id order
    \<and> line_reviews (db w) (oln_id line) = []
    \<and> [product. product \<leftarrow> products (db w), offering \<leftarrow> offerings (db w),
              off_product_id offering = prd_id product \<and> off_id offering = oln_offering_id line] = [p]
    \<and> db w0 = (product_reviews_update (\<lambda>rows. rows @
        [\<lparr>rev_id = next_uuid w, rev_vendor_id = prd_vendor_id p, rev_product_id = prd_id p,
          rev_order_id = ord_id order, rev_line_id = oln_id line, rev_tenant_id = t,
          rev_rating = k, rev_comment = strip c, rev_created_at = clock w\<rparr>]) (db w))\<lparr>audit_log := log\<rparr>
    \<and> disk w0 = db w0"
  using assms unfolding create_review_def
  apply (simp only: step_ok the_or_checked_ok)
  apply (elim exE conjE)
  apply (rule exI, rule exI, rule exI, rule exI, rule conjI, erule require_member_okD(2))
  apply (rule conjI, simp, rule conjI, simp, rule conjI, assumption, rule conjI, assumption, rule conjI, assumption)
  apply (rule conjI, simp split: option.split_asm)
  apply (rule conjI)
   apply (simp only: option.case)
  apply simp
  done

text \<open>
  A line is reviewed at most once, with one to five stars, by a member of the tenant that ordered it;
  the review names the vendor and product of the line's offering and no other table changes.
\<close>

theorem review_once:
  assumes "disk w = db w" and "request (create_review t u i l k c) w = (Inr x, w')"
  shows "db_active_member (db w) t u \<and> 1 \<le> k \<and> k \<le> 5 \<and> line_reviews (db w) l = []
     \<and> (\<exists>row log line. db w' = (db w)\<lparr>product_reviews := product_reviews (db w) @ [row], audit_log := log\<rparr>
          \<and> get_row oln_id l (order_lines (db w)) = Some line \<and> oln_order_id line = i
          \<and> line_reviews (db w') l = [row] \<and> rev_rating row = k \<and> rev_comment row = strip c
          \<and> rev_order_id row = i \<and> rev_tenant_id row = t
          \<and> (\<exists>p \<in> set (products (db w)). rev_product_id row = prd_id p \<and> rev_vendor_id row = prd_vendor_id p
               \<and> (\<exists>off \<in> set (offerings (db w)). off_id off = oln_offering_id line \<and> off_product_id off = prd_id p)))"
proof -
  from assms(2) obtain w0 where ok: "create_review t u i l k c w = (Inr x, w0)"
    and w': "w' = w0\<lparr>db := disk w0\<rparr>" by (auto simp: request_ok)
  from create_review_okD [OF ok] obtain order line p log where member: "db_active_member (db w) t u"
    and k: "1 \<le> k" "k \<le> 5" and order: "get_row ord_id i (orders (db w)) = Some order"
    and line: "get_row oln_id l (order_lines (db w)) = Some line" "oln_order_id line = ord_id order"
    and none: "line_reviews (db w) (oln_id line) = []"
    and p: "[product. product \<leftarrow> products (db w), offering \<leftarrow> offerings (db w),
              off_product_id offering = prd_id product \<and> off_id offering = oln_offering_id line] = [p]"
    and w0: "db w0 = (product_reviews_update (\<lambda>rows. rows @
        [\<lparr>rev_id = next_uuid w, rev_vendor_id = prd_vendor_id p, rev_product_id = prd_id p,
          rev_order_id = ord_id order, rev_line_id = oln_id line, rev_tenant_id = t,
          rev_rating = k, rev_comment = strip c, rev_created_at = clock w\<rparr>]) (db w))\<lparr>audit_log := log\<rparr>"
      "disk w0 = db w0"
    by blast
  let ?row = "\<lparr>rev_id = next_uuid w, rev_vendor_id = prd_vendor_id p, rev_product_id = prd_id p,
          rev_order_id = ord_id order, rev_line_id = oln_id line, rev_tenant_id = t,
          rev_rating = k, rev_comment = strip c, rev_created_at = clock w\<rparr>"
  have db: "db w' = (db w)\<lparr>product_reviews := product_reviews (db w) @ [?row], audit_log := log\<rparr>"
    using w0 by (simp add: w')
  have ids: "ord_id order = i" "oln_id line = l" using get_row_Some [OF order] get_row_Some [OF line(1)] by auto
  have "p \<in> set [product. product \<leftarrow> products (db w), offering \<leftarrow> offerings (db w),
              off_product_id offering = prd_id product \<and> off_id offering = oln_offering_id line]"
    unfolding p by simp
  then have "p \<in> set (products (db w)) \<and> (\<exists>off \<in> set (offerings (db w)). off_id off = oln_offering_id line
      \<and> off_product_id off = prd_id p)" by (auto split: if_splits)
  moreover have "line_reviews (db w') l = [?row]" using none ids by (simp add: db line_reviews_def)
  ultimately show ?thesis
    using member k none line ids db
    by (intro conjI exI [of _ ?row] exI [of _ log] exI [of _ line]) (auto intro!: bexI [of _ p])
qed

theorem review_once_witness:
  "\<exists>x w'. request (create_review 6 8 1 11 5 ''x'') return_world = (Inr x, w')
     \<and> (\<exists>row. line_reviews (db w') 11 = [row] \<and> rev_rating row = 5)"
proof -
  from return_world_runs(3) obtain x w' where
    e: "request (create_review 6 8 1 11 5 ''x'') return_world = (Inr x, w')"
    by (auto split: prod.splits sum.splits)
  have "disk return_world = db return_world" by simp
  from review_once [OF this e] e show ?thesis by blast
qed

end
