(* ===== verification/Catalog_Base.thy ===== *)
theory Catalog_Base
  imports Python_Values
begin

section \<open>The catalog service: shared lookups and checks\<close>

text \<open>
  The private helpers of \<open>CatalogService\<close> (\<open>marketplace/application/catalog_service.py\<close>): ownership,
  currencies, the review switch, the checks of pincodes and image URLs, the capabilities of the
  approved plugin version, and the product view the vendor's screens show. A write to a product row
  sets its \<open>updated_at\<close> (the column's \<open>onupdate\<close>) when it changes anything.
\<close>

definition allowed_currencies :: "string list" where
  "allowed_currencies = [''INR'', ''USD'', ''EUR'', ''AED'', ''GBP'']"

definition normalize_currency :: "string \<Rightarrow> string op" where
  "normalize_currency currency =
     (let code = upper (strip currency)
      in bindE (raise_if (code \<notin> set allowed_currencies)
                  (ValidationError ''currency must be one of AED, EUR, GBP, INR, USD'')) (\<lambda>_.
         ret code))"

definition normalize_optional_currency :: "string option \<Rightarrow> string option op" where
  "normalize_optional_currency currency =
     (case currency of
        None \<Rightarrow> ret None
      | Some c \<Rightarrow> if strip c = [] then ret None
                  else bindE (normalize_currency (strip c)) (\<lambda>code. ret (Some code)))"

definition default_currency :: "database \<Rightarrow> uuid \<Rightarrow> string" where
  "default_currency d vendor =
     (case get_row vst_vendor_id vendor (vendor_settings d) of
        None \<Rightarrow> ''INR''
      | Some row \<Rightarrow>
          if vst_default_currency row = [] then ''INR''
          else let code = upper (strip (vst_default_currency row))
               in if code \<in> set allowed_currencies then code else ''INR'')"

definition vendor_default_currency :: "uuid \<Rightarrow> string op" where
  "vendor_default_currency vendor = reads (\<lambda>d. default_currency d vendor)"

definition content_review_required :: "database \<Rightarrow> bool" where
  "content_review_required d =
     (case find (\<lambda>r. cfg_key r = ''product_content_review_required'') (platform_config d) of
        None \<Rightarrow> True
      | Some row \<Rightarrow> (case cfg_value row of
            JBool b \<Rightarrow> b
          | JStr s \<Rightarrow> lower s \<in> {''true'', ''1'', ''yes''}
          | v \<Rightarrow> truthy v))"

definition owned_product :: "uuid \<Rightarrow> uuid \<Rightarrow> product_row op" where
  "owned_product product_id user =
     bindE (reads (\<lambda>d. get_row prd_id product_id (products d))) (\<lambda>found.
     bindE (the_or found (NotFoundError ''product not found'')) (\<lambda>product.
     bindE (require_vendor_owner (prd_vendor_id product) user) (\<lambda>_.
     ret product)))"

definition touched :: "instant \<Rightarrow> (product_row \<Rightarrow> product_row) \<Rightarrow> product_row \<Rightarrow> product_row" where
  "touched now f p = (if f p = p then p else (f p)\<lparr>prd_updated_at := now\<rparr>)"

definition update_product_row :: "uuid \<Rightarrow> (product_row \<Rightarrow> product_row) \<Rightarrow> unit op" where
  "update_product_row i f =
     bindE utcnow (\<lambda>now. modifies (products_update (upd_row prd_id i (touched now f))))"

text \<open>Assigning a status to the offerings of a product that have one of the given statuses.\<close>

definition set_offerings :: "(offering_row \<Rightarrow> bool) \<Rightarrow> string \<Rightarrow> unit op" where
  "set_offerings P status =
     modifies (offerings_update (map (\<lambda>off. if P off then off\<lparr>off_status := status\<rparr> else off)))"

definition offering_of :: "uuid \<Rightarrow> string list \<Rightarrow> offering_row \<Rightarrow> bool" where
  "offering_of product_id statuses off = (off_product_id off = product_id \<and> off_status off \<in> set statuses)"

definition resolve_project :: "uuid \<Rightarrow> uuid option \<Rightarrow> uuid op" where
  "resolve_project tenant project_id =
     (case project_id of
        Some i \<Rightarrow>
          bindE (reads (\<lambda>d. get_row prj_id i (projects d))) (\<lambda>found.
          bindE (the_or (case found of None \<Rightarrow> None
                   | Some p \<Rightarrow> if prj_tenant_id p \<noteq> tenant then None else Some p)
                   (ValidationError ''project not found in tenant'')) (\<lambda>project.
          ret (prj_id project)))
      | None \<Rightarrow>
          bindE (reads (\<lambda>d. first_row (sort_key prj_created_at
                   (filter (\<lambda>p. prj_tenant_id p = tenant \<and> prj_status p = ''active'') (projects d))))) (\<lambda>found.
          bindE (the_or found (ValidationError ''project not found in tenant'')) (\<lambda>project.
          ret (prj_id project))))"

definition approved_capabilities :: "database \<Rightarrow> uuid option \<Rightarrow> string list" where
  "approved_capabilities d plugin_id =
     (case plugin_id of
        None \<Rightarrow> []
      | Some p \<Rightarrow> (case first_row (sort_desc pvr_created_at
                      (filter (\<lambda>v. pvr_plugin_id v = p \<and> pvr_status v = ''approved'') (plugin_versions d))) of
            None \<Rightarrow> []
          | Some v \<Rightarrow> sort (map pcp_scope
                          (filter (\<lambda>c. pcp_version_id c = pvr_id v) (plugin_capabilities d)))))"

subsection \<open>Stock, visibility and the checks of a listing\<close>

definition inventory_status :: "int \<Rightarrow> int \<Rightarrow> string" where
  "inventory_status available reorder_threshold =
     (if available < reorder_threshold then ''low_stock'' else ''ok'')"

definition product_stock_status :: "inventory_row list \<Rightarrow> string" where
  "product_stock_status rows =
     (if rows = [] then ''none''
      else if sum_list (map inv_available rows) \<le> 0 then ''none''
      else if list_ex (\<lambda>r. inv_available r < inv_reorder_threshold r) rows then ''low''
      else ''ok'')"

definition product_visibility :: "product_row \<Rightarrow> string list \<Rightarrow> bool \<Rightarrow> string" where
  "product_visibility product city_names has_published_offering =
     (if prd_status product = ''archived'' then ''hidden''
      else if prd_pa_status product = ''rejected'' then ''hidden''
      else if prd_pa_status product = ''pending_review'' then ''awaiting_pa''
      else if prd_fulfilment_type product = ''SHIP_PHYSICAL''
      then (if prd_pa_status product = ''live'' \<and> city_names \<noteq> [] then ''visible'' else ''hidden'')
      else if prd_pa_status product \<in> {''live'', ''not_submitted''} \<and> has_published_offering
      then ''visible'' else ''hidden'')"

record listing_snapshot =
  lsn_name :: string
  lsn_description :: string
  lsn_category :: string
  lsn_sku :: string
  lsn_brand :: string
  lsn_net_weight :: string
  lsn_mrp :: float_value
  lsn_image_urls :: "json list"

definition listing_snapshot_of :: "product_row \<Rightarrow> payload \<Rightarrow> listing_snapshot op" where
  "listing_snapshot_of product doc =
     bindE (py_float (get_or doc ''mrp_inr'' (JInt 0))) (\<lambda>mrp.
     bindE (py_list (get_or doc ''image_urls'' (JList []))) (\<lambda>urls.
     ret \<lparr>lsn_name = prd_name product, lsn_description = prd_description product,
          lsn_category = prd_category product, lsn_sku = py_str (get_or doc ''sku'' (JStr [])),
          lsn_brand = py_str (get_or doc ''brand'' (JStr [])),
          lsn_net_weight = py_str (get_or doc ''net_weight'' (JStr [])),
          lsn_mrp = mrp, lsn_image_urls = urls\<rparr>))"

definition same_listing :: "listing_snapshot \<Rightarrow> listing_snapshot \<Rightarrow> bool" where
  "same_listing a b =
     (lsn_name a = lsn_name b \<and> lsn_description a = lsn_description b \<and> lsn_category a = lsn_category b
      \<and> lsn_sku a = lsn_sku b \<and> lsn_brand a = lsn_brand b \<and> lsn_net_weight a = lsn_net_weight b
      \<and> float_eq (lsn_mrp a) (lsn_mrp b) \<and> lsn_image_urls a = lsn_image_urls b)"

definition is_pincode :: "string \<Rightarrow> bool" where
  "is_pincode pin = (length pin = 6 \<and> list_all is_digit pin)"

text \<open>\<open>_validate_pincodes\<close>: the loop with its \<open>seen\<close> set, which has the same elements as \<open>cleaned\<close>.\<close>

fun collect_pincodes :: "string list \<Rightarrow> string list \<Rightarrow> string list op" where
  "collect_pincodes cleaned [] = ret cleaned"
| "collect_pincodes cleaned (raw # rest) =
     (let pin = strip raw
      in bindE (raise_if (\<not> is_pincode pin) (ValidationError ''pincodes must be 6-digit numbers'')) (\<lambda>_.
         collect_pincodes (if pin \<in> set cleaned then cleaned else cleaned @ [pin]) rest))"

definition validate_pincodes :: "string list \<Rightarrow> string list op" where
  "validate_pincodes pincodes = collect_pincodes [] pincodes"

definition validate_image_url :: "string \<Rightarrow> string op" where
  "validate_image_url raw =
     (let url = strip raw
      in bindE (the_or (https_url url) (ValueError ''Invalid IPv6 URL'')) (\<lambda>ok.
         bindE (raise_if (\<not> ok) (ValidationError ''image_urls must be https URLs'')) (\<lambda>_.
         ret url)))"

definition validate_image_urls :: "string list \<Rightarrow> string list op" where
  "validate_image_urls image_urls =
     bindE (raise_if (length image_urls < 2 \<or> length image_urls > 5)
              (ValidationError ''image_urls must contain 2 to 5 items'')) (\<lambda>_.
     map_each image_urls validate_image_url)"

subsection \<open>The product view\<close>

record product_item =
  pit_product_id :: uuid
  pit_name :: string
  pit_fulfilment_type :: string
  pit_status :: string
  pit_category :: string
  pit_content :: payload
  pit_pa_status :: string
  pit_pa_reject_reason :: string
  pit_mrp_inr :: float_value
  pit_image_count :: nat
  pit_cities :: "string list"
  pit_stock_status :: string
  pit_visibility :: string
  pit_brand :: string
  pit_net_weight :: string
  pit_sku :: string
  pit_image_urls :: "json list"
  pit_currency :: string

definition product_payload :: "database \<Rightarrow> uuid \<Rightarrow> payload" where
  "product_payload d product_id =
     (case get_row pct_product_id product_id (product_contents d) of None \<Rightarrow> [] | Some c \<Rightarrow> pct_payload c)"

definition product_cities :: "database \<Rightarrow> uuid \<Rightarrow> string list" where
  "product_cities d product_id =
     sort [sct_city_name city. link \<leftarrow> product_service_cities d, city \<leftarrow> service_cities d,
             sct_id city = pcy_city_id link \<and> pcy_product_id link = product_id]"

definition enrich_product_item :: "product_row \<Rightarrow> product_item op" where
  "enrich_product_item row =
     bindE (reads (\<lambda>d. product_payload d (prd_id row))) (\<lambda>doc.
     bindE (reads (\<lambda>d. product_cities d (prd_id row))) (\<lambda>city_names.
     bindE (reads (\<lambda>d. product_stock_status
              (filter (\<lambda>s. inv_product_id s = prd_id row) (inventory d)))) (\<lambda>stock_status.
     bindE (reads (\<lambda>d. list_ex (offering_of (prd_id row) [''published'']) (offerings d))) (\<lambda>published.
     bindE (py_list (get_or doc ''image_urls'' (JList []))) (\<lambda>image_urls.
     bindE (py_float (get_or doc ''mrp_inr'' (JInt 0))) (\<lambda>mrp.
     ret \<lparr>pit_product_id = prd_id row, pit_name = prd_name row,
          pit_fulfilment_type = prd_fulfilment_type row, pit_status = prd_status row,
          pit_category = prd_category row, pit_content = doc, pit_pa_status = prd_pa_status row,
          pit_pa_reject_reason = prd_pa_reject_reason row, pit_mrp_inr = mrp,
          pit_image_count = length image_urls, pit_cities = city_names,
          pit_stock_status = stock_status,
          pit_visibility = product_visibility row city_names published,
          pit_brand = py_str (get_or doc ''brand'' (JStr [])),
          pit_net_weight = py_str (get_or doc ''net_weight'' (JStr [])),
          pit_sku = py_str (get_or doc ''sku'' (JStr [])), pit_image_urls = image_urls,
          pit_currency = py_str (get_or doc ''currency'' (JStr ''INR''))\<rparr>))))))"

definition enrich_product_items :: "product_row list \<Rightarrow> product_item list op" where
  "enrich_product_items rows = map_each rows enrich_product_item"

text \<open>The view of one product after a write: the row is read again.\<close>

definition product_item_of :: "uuid \<Rightarrow> product_item op" where
  "product_item_of product_id =
     bindE (reads (\<lambda>d. get_row prd_id product_id (products d))) (\<lambda>found.
     bindE (the_or found AssertionError) (\<lambda>row.
     enrich_product_item row))"

end
