(* ===== verification/Catalog_Cities.thy ===== *)
theory Catalog_Cities
  imports Catalog_Base
begin

section \<open>Service cities, warehouses and stock\<close>

text \<open>
  The part of \<open>CatalogService\<close> that says where a vendor delivers and what it has in stock: service
  cities with their pincodes and hub warehouses, warehouses, inventory rows, and the cities of a
  product.
\<close>

record service_city_view =
  scv_city_id :: uuid
  scv_city_name :: string
  scv_warehouse_id :: uuid
  scv_pincodes :: "string list"
  scv_currency :: "string option"
  scv_resolved_currency :: string

record product_city_view =
  pcv_product_id :: uuid
  pcv_product_name :: string
  pcv_category :: string
  pcv_cities :: "string list"
  pcv_status :: string

record warehouse_view =
  whv_warehouse_id :: uuid
  whv_name :: string
  whv_location :: string
  whv_capacity :: int
  whv_units_stored :: int
  whv_sku_count :: nat

record inventory_view =
  ivv_inventory_id :: uuid
  ivv_product_id :: uuid
  ivv_product_name :: string
  ivv_warehouse_id :: uuid
  ivv_warehouse_name :: string
  ivv_sku :: string
  ivv_available :: int
  ivv_reserved :: int
  ivv_reorder_threshold :: int

record city_inventory_view =
  civ_inventory_id :: uuid
  civ_product_id :: uuid
  civ_product_name :: string
  civ_city_id :: uuid
  civ_city_name :: string
  civ_sku :: string
  civ_available :: int
  civ_reserved :: int
  civ_reorder_threshold :: int
  civ_status :: string

subsection \<open>Service cities\<close>

definition pins_of_city :: "database \<Rightarrow> uuid \<Rightarrow> string list" where
  "pins_of_city d city_id =
     sort (map cpn_pincode (filter (\<lambda>p. cpn_city_id p = city_id) (city_pincodes d)))"

definition service_city_view_of :: "database \<Rightarrow> string \<Rightarrow> service_city_row \<Rightarrow> service_city_view" where
  "service_city_view_of d vendor_default city =
     \<lparr>scv_city_id = sct_id city, scv_city_name = sct_city_name city,
      scv_warehouse_id = sct_warehouse_id city, scv_pincodes = pins_of_city d (sct_id city),
      scv_currency = sct_currency city,
      scv_resolved_currency = str_or (sct_currency city) vendor_default\<rparr>"

definition list_service_cities :: "uuid \<Rightarrow> uuid \<Rightarrow> service_city_view list op" where
  "list_service_cities vendor caller =
     bindE (require_vendor_owner vendor caller) (\<lambda>_.
     bindE (vendor_default_currency vendor) (\<lambda>vendor_default.
     reads (\<lambda>d. map (service_city_view_of d vendor_default)
       (sort_key sct_city_name (filter (\<lambda>c. sct_vendor_id c = vendor) (service_cities d))))))"

definition cities_named :: "database \<Rightarrow> uuid \<Rightarrow> string \<Rightarrow> service_city_row list" where
  "cities_named d vendor name =
     filter (\<lambda>c. sct_vendor_id c = vendor \<and> sct_city_name c = name) (service_cities d)"

definition add_service_city :: "uuid \<Rightarrow> uuid \<Rightarrow> string \<Rightarrow> string option \<Rightarrow> service_city_view op" where
  "add_service_city vendor caller city_name currency =
     bindE (require_vendor_owner vendor caller) (\<lambda>_.
     let cleaned = strip city_name in
     bindE (raise_if (cleaned = []) (ValidationError ''city_name is required'')) (\<lambda>_.
     bindE (normalize_optional_currency currency) (\<lambda>city_currency.
     bindE (reads (\<lambda>d. cities_named d vendor cleaned)) (\<lambda>rows.
     bindE (one_or_none rows) (\<lambda>existing.
     bindE (raise_if (existing \<noteq> None) (ConflictError ''service city already exists'')) (\<lambda>_.
     bindE uuid4 (\<lambda>warehouse_id.
     bindE utcnow (\<lambda>now.
     bindE (modifies (warehouses_update (\<lambda>rows. rows @
        [\<lparr>whs_id = warehouse_id, whs_vendor_id = vendor, whs_name = cleaned @ '' Hub'',
          whs_location = cleaned, whs_capacity = 10000, whs_created_at = now\<rparr>]))) (\<lambda>_.
     bindE uuid4 (\<lambda>city_id.
     bindE (modifies (service_cities_update (\<lambda>rows. rows @
        [\<lparr>sct_id = city_id, sct_vendor_id = vendor, sct_city_name = cleaned,
          sct_warehouse_id = warehouse_id, sct_currency = city_currency\<rparr>]))) (\<lambda>_.
     bindE (audit ''vendor.service_city.added'' (Some caller) None
              [(''vendor_id'', JUuid vendor), (''city_name'', JStr cleaned),
               (''currency'', case city_currency of None \<Rightarrow> JNull | Some c \<Rightarrow> JStr c)]) (\<lambda>_.
     bindE commit (\<lambda>_.
     bindE (vendor_default_currency vendor) (\<lambda>vendor_default.
     ret \<lparr>scv_city_id = city_id, scv_city_name = cleaned, scv_warehouse_id = warehouse_id,
          scv_pincodes = [], scv_currency = city_currency,
          scv_resolved_currency = str_or city_currency vendor_default\<rparr>))))))))))))))"

definition owned_city :: "uuid \<Rightarrow> uuid \<Rightarrow> service_city_row op" where
  "owned_city vendor city_id =
     bindE (reads (\<lambda>d. get_row sct_id city_id (service_cities d))) (\<lambda>found.
     the_or (case found of None \<Rightarrow> None
             | Some c \<Rightarrow> if sct_vendor_id c \<noteq> vendor then None else Some c)
       (NotFoundError ''service city not found''))"

text \<open>The currency of the patch: nothing, blank and \<open>DEFAULT\<close> clear the override.\<close>

definition patched_currency :: "string option \<Rightarrow> string option op" where
  "patched_currency currency =
     (case currency of None \<Rightarrow> ret None
      | Some c \<Rightarrow> if strip c = [] \<or> upper (strip c) = ''DEFAULT'' then ret None
                  else bindE (normalize_currency c) (\<lambda>code. ret (Some code)))"

definition update_service_city :: "uuid \<Rightarrow> uuid \<Rightarrow> uuid \<Rightarrow> string option \<Rightarrow> service_city_view op" where
  "update_service_city vendor caller city_id currency =
     bindE (require_vendor_owner vendor caller) (\<lambda>_.
     bindE (owned_city vendor city_id) (\<lambda>city.
     bindE (patched_currency currency) (\<lambda>new_currency.
     bindE (modifies (service_cities_update (upd_row sct_id city_id
              (\<lambda>c. c\<lparr>sct_currency := new_currency\<rparr>)))) (\<lambda>_.
     bindE commit (\<lambda>_.
     bindE (vendor_default_currency vendor) (\<lambda>vendor_default.
     reads (\<lambda>d. service_city_view_of d vendor_default (city\<lparr>sct_currency := new_currency\<rparr>))))))))"

definition delete_service_city :: "uuid \<Rightarrow> uuid \<Rightarrow> uuid \<Rightarrow> unit op" where
  "delete_service_city vendor caller city_id =
     bindE (require_vendor_owner vendor caller) (\<lambda>_.
     bindE (owned_city vendor city_id) (\<lambda>city.
     bindE (reads (\<lambda>d. length (filter (\<lambda>s. inv_warehouse_id s = sct_warehouse_id city) (inventory d)))) (\<lambda>stock_count.
     bindE (raise_if (stock_count > 0) (ConflictError ''warehouse still has inventory'')) (\<lambda>_.
     bindE (modifies (product_service_cities_update (filter (\<lambda>l. pcy_city_id l \<noteq> city_id)))) (\<lambda>_.
     bindE (modifies (city_pincodes_update (filter (\<lambda>p. cpn_city_id p \<noteq> city_id)))) (\<lambda>_.
     bindE (modifies (service_cities_update (del_row sct_id city_id))) (\<lambda>_.
     bindE (modifies (warehouses_update (del_row whs_id (sct_warehouse_id city)))) (\<lambda>_.
     bindE (audit ''vendor.service_city.deleted'' (Some caller) None
              [(''vendor_id'', JUuid vendor), (''city_id'', JUuid city_id)]) (\<lambda>_.
     commit)))))))))"

definition set_city_pincodes :: "uuid \<Rightarrow> uuid \<Rightarrow> uuid \<Rightarrow> string list \<Rightarrow> service_city_view op" where
  "set_city_pincodes vendor caller city_id pincodes =
     bindE (require_vendor_owner vendor caller) (\<lambda>_.
     bindE (owned_city vendor city_id) (\<lambda>city.
     bindE (validate_pincodes pincodes) (\<lambda>cleaned.
     bindE (modifies (city_pincodes_update (filter (\<lambda>p. cpn_city_id p \<noteq> city_id)))) (\<lambda>_.
     bindE (insert_each city_pincodes_update
              (\<lambda>i pin. \<lparr>cpn_id = i, cpn_city_id = city_id, cpn_pincode = pin\<rparr>) cleaned) (\<lambda>_.
     bindE commit (\<lambda>_.
     ret \<lparr>scv_city_id = sct_id city, scv_city_name = sct_city_name city,
          scv_warehouse_id = sct_warehouse_id city, scv_pincodes = cleaned,
          scv_currency = None, scv_resolved_currency = ''INR''\<rparr>))))))"

subsection \<open>The cities of a product\<close>

definition list_product_city_assignments :: "uuid \<Rightarrow> uuid \<Rightarrow> product_city_view list op" where
  "list_product_city_assignments vendor caller =
     bindE (require_vendor_owner vendor caller) (\<lambda>_.
     reads (\<lambda>d. map (\<lambda>p. let cities = product_cities d (prd_id p) in
          \<lparr>pcv_product_id = prd_id p, pcv_product_name = prd_name p, pcv_category = prd_category p,
           pcv_cities = cities, pcv_status = (if cities \<noteq> [] then ''visible'' else ''hidden'')\<rparr>)
       (sort_key prd_name (filter (\<lambda>p. prd_vendor_id p = vendor
          \<and> prd_fulfilment_type p = ''SHIP_PHYSICAL'') (products d)))))"

text \<open>The given cities, checked to be the vendor's: a set of identifiers and their rows.\<close>

definition vendor_cities :: "uuid \<Rightarrow> uuid list \<Rightarrow> service_city_row list op" where
  "vendor_cities vendor city_ids =
     bindE (reads (\<lambda>d. filter (\<lambda>c. sct_vendor_id c = vendor \<and> sct_id c \<in> set city_ids)
              (service_cities d))) (\<lambda>rows.
     bindE (raise_if (length rows \<noteq> length (remdups city_ids))
              (ValidationError ''one or more cities do not belong to this vendor'')) (\<lambda>_.
     ret rows))"

definition replace_product_cities :: "uuid \<Rightarrow> uuid list \<Rightarrow> unit op" where
  "replace_product_cities product_id city_ids =
     modifies (product_service_cities_update (\<lambda>rows.
       filter (\<lambda>l. pcy_product_id l \<noteq> product_id) rows
       @ map (\<lambda>c. \<lparr>pcy_product_id = product_id, pcy_city_id = c\<rparr>) (remdups city_ids)))"

definition set_product_service_cities :: "uuid \<Rightarrow> uuid \<Rightarrow> uuid list \<Rightarrow> product_city_view op" where
  "set_product_service_cities product_id caller city_ids =
     bindE (owned_product product_id caller) (\<lambda>product.
     bindE (raise_if (prd_fulfilment_type product \<noteq> ''SHIP_PHYSICAL'')
              (ValidationError ''service cities apply only to SHIP_PHYSICAL products'')) (\<lambda>_.
     bindE (raise_if (city_ids = []) (ValidationError ''at least one city is required'')) (\<lambda>_.
     bindE (vendor_cities (prd_vendor_id product) city_ids) (\<lambda>cities.
     bindE (replace_product_cities product_id city_ids) (\<lambda>_.
     bindE commit (\<lambda>_.
     ret \<lparr>pcv_product_id = prd_id product, pcv_product_name = prd_name product,
          pcv_category = prd_category product, pcv_cities = sort (map sct_city_name cities),
          pcv_status = ''visible''\<rparr>))))))"

subsection \<open>Warehouses\<close>

definition warehouse_stock :: "database \<Rightarrow> uuid \<Rightarrow> uuid \<Rightarrow> inventory_row list" where
  "warehouse_stock d vendor warehouse_id =
     filter (\<lambda>s. inv_vendor_id s = vendor \<and> inv_warehouse_id s = warehouse_id) (inventory d)"

definition list_warehouses :: "uuid \<Rightarrow> uuid \<Rightarrow> warehouse_view list op" where
  "list_warehouses vendor caller =
     bindE (require_vendor_owner vendor caller) (\<lambda>_.
     reads (\<lambda>d. map (\<lambda>row. let stock = warehouse_stock d vendor (whs_id row) in
          \<lparr>whv_warehouse_id = whs_id row, whv_name = whs_name row, whv_location = whs_location row,
           whv_capacity = whs_capacity row,
           whv_units_stored = sum_list (map (\<lambda>s. inv_available s + inv_reserved s) stock),
           whv_sku_count = length stock\<rparr>)
       (sort_desc whs_created_at (filter (\<lambda>r. whs_vendor_id r = vendor) (warehouses d)))))"

definition create_warehouse :: "uuid \<Rightarrow> uuid \<Rightarrow> string \<Rightarrow> string \<Rightarrow> int \<Rightarrow> warehouse_view op" where
  "create_warehouse vendor caller name location capacity =
     bindE (require_vendor_owner vendor caller) (\<lambda>_.
     bindE (raise_if (strip name = [] \<or> strip location = [])
              (ValidationError ''name and location are required'')) (\<lambda>_.
     bindE (raise_if (capacity < 0) (ValidationError ''capacity must be zero or more'')) (\<lambda>_.
     bindE uuid4 (\<lambda>i.
     bindE utcnow (\<lambda>now.
     bindE (modifies (warehouses_update (\<lambda>rows. rows @
        [\<lparr>whs_id = i, whs_vendor_id = vendor, whs_name = strip name, whs_location = strip location,
          whs_capacity = capacity, whs_created_at = now\<rparr>]))) (\<lambda>_.
     bindE commit (\<lambda>_.
     ret \<lparr>whv_warehouse_id = i, whv_name = strip name, whv_location = strip location,
          whv_capacity = capacity, whv_units_stored = 0, whv_sku_count = 0\<rparr>)))))))"

definition owned_warehouse :: "uuid \<Rightarrow> uuid \<Rightarrow> warehouse_row op" where
  "owned_warehouse vendor warehouse_id =
     bindE (reads (\<lambda>d. get_row whs_id warehouse_id (warehouses d))) (\<lambda>found.
     the_or (case found of None \<Rightarrow> None
             | Some r \<Rightarrow> if whs_vendor_id r \<noteq> vendor then None else Some r)
       (NotFoundError ''warehouse not found''))"

definition update_warehouse :: "uuid \<Rightarrow> uuid \<Rightarrow> uuid \<Rightarrow> string \<Rightarrow> string \<Rightarrow> int \<Rightarrow> warehouse_view op" where
  "update_warehouse vendor warehouse_id caller name location capacity =
     bindE (require_vendor_owner vendor caller) (\<lambda>_.
     bindE (raise_if (strip name = [] \<or> strip location = [])
              (ValidationError ''name and location are required'')) (\<lambda>_.
     bindE (raise_if (capacity < 0) (ValidationError ''capacity must be zero or more'')) (\<lambda>_.
     bindE (owned_warehouse vendor warehouse_id) (\<lambda>_.
     bindE (modifies (warehouses_update (upd_row whs_id warehouse_id (\<lambda>r.
              r\<lparr>whs_name := strip name, whs_location := strip location, whs_capacity := capacity\<rparr>)))) (\<lambda>_.
     bindE commit (\<lambda>_.
     bindE (list_warehouses vendor caller) (\<lambda>listed.
     the_or (find (\<lambda>v. whv_warehouse_id v = warehouse_id) listed)
       (NotFoundError ''warehouse not found''))))))))"

subsection \<open>Inventory\<close>

definition list_inventory_by_city :: "uuid \<Rightarrow> uuid \<Rightarrow> city_inventory_view list op" where
  "list_inventory_by_city vendor caller =
     bindE (require_vendor_owner vendor caller) (\<lambda>_.
     reads (\<lambda>d.
       [\<lparr>civ_inventory_id = inv_id stock, civ_product_id = prd_id product,
         civ_product_name = prd_name product, civ_city_id = sct_id city,
         civ_city_name = sct_city_name city, civ_sku = inv_sku stock,
         civ_available = inv_available stock, civ_reserved = inv_reserved stock,
         civ_reorder_threshold = inv_reorder_threshold stock,
         civ_status = inventory_status (inv_available stock) (inv_reorder_threshold stock)\<rparr>.
        (stock, product, city) \<leftarrow>
          sort_key (\<lambda>(stock, product, city). [sct_city_name city, prd_name product, inv_sku stock])
            [(stock, product, city).
               stock \<leftarrow> inventory d, product \<leftarrow> products d, city \<leftarrow> service_cities d,
               prd_id product = inv_product_id stock \<and> sct_warehouse_id city = inv_warehouse_id stock
               \<and> inv_vendor_id stock = vendor \<and> sct_vendor_id city = vendor]]))"

definition list_inventory :: "uuid \<Rightarrow> uuid \<Rightarrow> inventory_view list op" where
  "list_inventory vendor caller =
     bindE (require_vendor_owner vendor caller) (\<lambda>_.
     reads (\<lambda>d.
       [\<lparr>ivv_inventory_id = inv_id stock, ivv_product_id = prd_id product,
         ivv_product_name = prd_name product, ivv_warehouse_id = whs_id warehouse,
         ivv_warehouse_name = whs_name warehouse, ivv_sku = inv_sku stock,
         ivv_available = inv_available stock, ivv_reserved = inv_reserved stock,
         ivv_reorder_threshold = inv_reorder_threshold stock\<rparr>.
        (stock, product, warehouse) \<leftarrow>
          sort_key (\<lambda>(stock, product, warehouse). [prd_name product, inv_sku stock])
            [(stock, product, warehouse).
               stock \<leftarrow> inventory d, product \<leftarrow> products d, warehouse \<leftarrow> warehouses d,
               prd_id product = inv_product_id stock \<and> whs_id warehouse = inv_warehouse_id stock
               \<and> inv_vendor_id stock = vendor]]))"

definition stock_rows :: "database \<Rightarrow> uuid \<Rightarrow> uuid \<Rightarrow> string \<Rightarrow> inventory_row list" where
  "stock_rows d warehouse_id product_id sku =
     filter (\<lambda>s. inv_warehouse_id s = warehouse_id \<and> inv_product_id s = product_id \<and> inv_sku s = sku)
       (inventory d)"

definition add_inventory ::
  "uuid \<Rightarrow> uuid \<Rightarrow> uuid \<Rightarrow> uuid \<Rightarrow> string \<Rightarrow> int \<Rightarrow> int option \<Rightarrow> inventory_view op"
where
  "add_inventory vendor caller product_id warehouse_id sku available reorder_threshold =
     bindE (require_vendor_owner vendor caller) (\<lambda>_.
     bindE (reads (\<lambda>d. get_row prd_id product_id (products d))) (\<lambda>found.
     bindE (the_or (case found of None \<Rightarrow> None
              | Some p \<Rightarrow> if prd_vendor_id p \<noteq> vendor then None else Some p)
              (NotFoundError ''product not found'')) (\<lambda>product.
     bindE (owned_warehouse vendor warehouse_id) (\<lambda>warehouse.
     let cleaned = strip sku in
     bindE (raise_if (cleaned = []) (ValidationError ''sku is required'')) (\<lambda>_.
     bindE (raise_if (available < 0) (ValidationError ''available cannot be negative'')) (\<lambda>_.
     bindE (reads (\<lambda>d. stock_rows d warehouse_id product_id cleaned)) (\<lambda>rows.
     bindE (one_or_none rows) (\<lambda>existing.
     bindE (raise_if (existing \<noteq> None) (ConflictError ''sku already recorded in this warehouse'')) (\<lambda>_.
     let threshold = (case reorder_threshold of None \<Rightarrow> 20 | Some n \<Rightarrow> n) in
     bindE (raise_if (threshold < 0) (ValidationError ''reorder_threshold must be zero or more'')) (\<lambda>_.
     bindE uuid4 (\<lambda>i.
     bindE (modifies (inventory_update (\<lambda>rows. rows @
        [\<lparr>inv_id = i, inv_vendor_id = vendor, inv_product_id = product_id,
          inv_warehouse_id = warehouse_id, inv_sku = cleaned, inv_available = available,
          inv_reserved = 0, inv_reorder_threshold = threshold\<rparr>]))) (\<lambda>_.
     bindE commit (\<lambda>_.
     ret \<lparr>ivv_inventory_id = i, ivv_product_id = prd_id product, ivv_product_name = prd_name product,
          ivv_warehouse_id = whs_id warehouse, ivv_warehouse_name = whs_name warehouse,
          ivv_sku = cleaned, ivv_available = available, ivv_reserved = 0,
          ivv_reorder_threshold = threshold\<rparr>)))))))))))))"

definition adjust_inventory :: "uuid \<Rightarrow> uuid \<Rightarrow> uuid \<Rightarrow> int \<Rightarrow> int option \<Rightarrow> inventory_view op" where
  "adjust_inventory vendor caller inventory_id available reorder_threshold =
     bindE (require_vendor_owner vendor caller) (\<lambda>_.
     bindE (raise_if (available < 0) (ValidationError ''available cannot be negative'')) (\<lambda>_.
     bindE (reads (\<lambda>d. get_row inv_id inventory_id (inventory d))) (\<lambda>found.
     bindE (the_or (case found of None \<Rightarrow> None
              | Some r \<Rightarrow> if inv_vendor_id r \<noteq> vendor then None else Some r)
              (NotFoundError ''inventory not found'')) (\<lambda>row.
     bindE (raise_if (case reorder_threshold of None \<Rightarrow> False | Some n \<Rightarrow> n < 0)
              (ValidationError ''reorder_threshold must be zero or more'')) (\<lambda>_.
     let row' = (case reorder_threshold of None \<Rightarrow> row\<lparr>inv_available := available\<rparr>
                 | Some n \<Rightarrow> row\<lparr>inv_available := available, inv_reorder_threshold := n\<rparr>) in
     bindE (modifies (inventory_update (upd_row inv_id inventory_id (\<lambda>_. row')))) (\<lambda>_.
     bindE commit (\<lambda>_.
     bindE (reads (\<lambda>d. get_row prd_id (inv_product_id row) (products d))) (\<lambda>found_product.
     bindE (reads (\<lambda>d. get_row whs_id (inv_warehouse_id row) (warehouses d))) (\<lambda>found_warehouse.
     bindE (the_or found_product (NotFoundError ''inventory not found'')) (\<lambda>product.
     bindE (the_or found_warehouse (NotFoundError ''inventory not found'')) (\<lambda>warehouse.
     ret \<lparr>ivv_inventory_id = inv_id row', ivv_product_id = prd_id product,
          ivv_product_name = prd_name product, ivv_warehouse_id = whs_id warehouse,
          ivv_warehouse_name = whs_name warehouse, ivv_sku = inv_sku row',
          ivv_available = inv_available row', ivv_reserved = inv_reserved row',
          ivv_reorder_threshold = inv_reorder_threshold row'\<rparr>)))))))))))"

end
