(* ===== verification/Catalog_Listing.thy ===== *)
theory Catalog_Listing
  imports Catalog_Cities
begin

section \<open>Products, offerings and their review\<close>

text \<open>
  The life of a listing in \<open>CatalogService\<close>: the vendor creates products and offerings, submits,
  edits, prices, archives and publishes them; the platform operator approves or rejects a product's
  content and suspends or reinstates a vendor. A product has a status (\<open>draft\<close>, \<open>published\<close>,
  \<open>archived\<close>) and a review status (\<open>not_submitted\<close>, \<open>pending_review\<close>, \<open>live\<close>, \<open>rejected\<close>), an
  offering a status of its own (\<open>draft\<close>, \<open>published\<close>, \<open>unpublished\<close>).
\<close>

record product_created =
  pcr_product_id :: uuid
  pcr_name :: string
  pcr_status :: string
  pcr_fulfilment_type :: string

record offering_created =
  ofc_offering_id :: uuid
  ofc_product_id :: uuid
  ofc_plan_name :: string
  ofc_status :: string

record offering_list_item =
  oli_offering_id :: uuid
  oli_product_id :: uuid
  oli_product_name :: string
  oli_plan_name :: string
  oli_status :: string
  oli_price_usd :: money
  oli_currency :: string

record suspend_result =
  sur_vendor_id :: uuid
  sur_status :: string
  sur_offerings_unpublished :: nat

record admin_product_item =
  api_product_id :: uuid
  api_name :: string
  api_vendor_id :: uuid
  api_vendor_name :: string
  api_category :: string
  api_status :: string
  api_pa_status :: string
  api_pa_reject_reason :: string
  api_fulfilment_type :: string
  api_submitted_at :: instant

subsection \<open>Creating products and offerings\<close>

text \<open>The category: the given one, else the plugin's.\<close>

definition plugin_category :: "uuid \<Rightarrow> uuid option \<Rightarrow> string \<Rightarrow> string op" where
  "plugin_category vendor plugin_id category =
     (case plugin_id of
        Some i \<Rightarrow>
          bindE (reads (\<lambda>d. get_row plg_id i (plugins d))) (\<lambda>found.
          bindE (the_or (case found of None \<Rightarrow> None
                   | Some p \<Rightarrow> if plg_vendor_id p \<noteq> Some vendor then None else Some p)
                   (NotFoundError ''plugin not found'')) (\<lambda>plugin.
          ret (if category = [] then strip (plg_category plugin) else category)))
      | None \<Rightarrow>
          bindE (raise_if (category = [])
                   (ValidationError ''category is required when plugin_id is omitted'')) (\<lambda>_.
          ret category))"

definition new_product ::
  "uuid \<Rightarrow> instant \<Rightarrow> uuid \<Rightarrow> uuid option \<Rightarrow> string \<Rightarrow> string \<Rightarrow> string \<Rightarrow> string \<Rightarrow> product_row"
where
  "new_product i now vendor plugin_id name description category ftype =
     \<lparr>prd_id = i, prd_vendor_id = vendor, prd_plugin_id = plugin_id, prd_name = name,
      prd_description = description, prd_category = category, prd_fulfilment_type = ftype,
      prd_status = ''draft'', prd_pa_status = ''not_submitted'', prd_pa_reject_reason = [],
      prd_archived_at = None, prd_created_at = now, prd_updated_at = now\<rparr>"

definition create_product ::
  "uuid \<Rightarrow> uuid \<Rightarrow> string \<Rightarrow> string \<Rightarrow> uuid option \<Rightarrow> string \<Rightarrow> payload option \<Rightarrow> string option
    \<Rightarrow> product_created op"
where
  "create_product vendor caller name description plugin_id ftype content category =
     bindE (require_vendor_owner vendor caller) (\<lambda>profile.
     bindE (raise_if (vnd_status profile \<noteq> ''verified'') (ForbiddenError ''vendor not verified'')) (\<lambda>_.
     bindE (raise_if (strip name = []) (ValidationError ''name is required'')) (\<lambda>_.
     bindE (raise_if (ftype \<notin> set fulfilment_types) (ValidationError ''unknown fulfilment_type'')) (\<lambda>_.
     bindE (raise_if (ftype \<in> set provision_types \<and> plugin_id = None)
              (ValidationError ''plugin_id is required for provision fulfilment types'')) (\<lambda>_.
     bindE (plugin_category vendor plugin_id (strip (str_or category []))) (\<lambda>resolved.
     bindE uuid4 (\<lambda>i.
     bindE utcnow (\<lambda>now.
     bindE (modifies (products_update (\<lambda>rows. rows @
        [new_product i now vendor plugin_id (strip name) (strip description) resolved ftype]))) (\<lambda>_.
     bindE (modifies (product_contents_update (\<lambda>rows. rows @
        [\<lparr>pct_product_id = i, pct_payload = (case content of None \<Rightarrow> [] | Some c \<Rightarrow> c)\<rparr>]))) (\<lambda>_.
     bindE (audit ''product.created'' (Some caller) None
              [(''product_id'', JUuid i),
               (''plugin_id'', case plugin_id of None \<Rightarrow> JNull | Some p \<Rightarrow> JUuid p),
               (''fulfilment_type'', JStr ftype)]) (\<lambda>_.
     bindE commit (\<lambda>_.
     ret \<lparr>pcr_product_id = i, pcr_name = strip name, pcr_status = ''draft'',
          pcr_fulfilment_type = ftype\<rparr>))))))))))))"

definition list_products :: "uuid \<Rightarrow> uuid \<Rightarrow> product_item list op" where
  "list_products vendor caller =
     bindE (require_vendor_owner vendor caller) (\<lambda>_.
     bindE (reads (\<lambda>d. sort_desc prd_created_at (filter (\<lambda>p. prd_vendor_id p = vendor) (products d)))) (\<lambda>rows.
     enrich_product_items rows))"

definition create_offering ::
  "uuid \<Rightarrow> uuid \<Rightarrow> string \<Rightarrow> string \<Rightarrow> money \<Rightarrow> int option \<Rightarrow> int option \<Rightarrow> string option
    \<Rightarrow> offering_created op"
where
  "create_offering product_id caller plan_name billing_period price_usd included overage currency =
     bindE (owned_product product_id caller) (\<lambda>product.
     bindE (raise_if (prd_status product = ''archived'')
              (ConflictError ''archived product cannot take a new offering'')) (\<lambda>_.
     bindE (raise_if (strip plan_name = [] \<or> strip billing_period = [])
              (ValidationError ''plan_name and billing_period are required'')) (\<lambda>_.
     bindE (raise_if (price_usd < 0) (ValidationError ''price_usd must be zero or greater'')) (\<lambda>_.
     bindE (case currency of
              None \<Rightarrow> vendor_default_currency (prd_vendor_id product)
            | Some c \<Rightarrow> if c = [] then vendor_default_currency (prd_vendor_id product)
                        else normalize_currency c) (\<lambda>offering_currency.
     bindE uuid4 (\<lambda>i.
     bindE utcnow (\<lambda>now.
     bindE (modifies (offerings_update (\<lambda>rows. rows @
        [\<lparr>off_id = i, off_product_id = product_id, off_plan_name = strip plan_name,
          off_billing_period = strip billing_period, off_price_usd = price_usd,
          off_currency = offering_currency, off_included_transactions = included,
          off_overage_price_per_1k = overage, off_status = ''draft'', off_created_at = now\<rparr>]))) (\<lambda>_.
     bindE (audit ''offering.created'' (Some caller) None
              [(''offering_id'', JUuid i), (''product_id'', JUuid product_id)]) (\<lambda>_.
     bindE commit (\<lambda>_.
     ret \<lparr>ofc_offering_id = i, ofc_product_id = product_id, ofc_plan_name = strip plan_name,
          ofc_status = ''draft''\<rparr>))))))))))"

definition list_offerings :: "uuid \<Rightarrow> uuid \<Rightarrow> offering_list_item list op" where
  "list_offerings vendor caller =
     bindE (require_vendor_owner vendor caller) (\<lambda>_.
     reads (\<lambda>d.
       [\<lparr>oli_offering_id = off_id offering, oli_product_id = prd_id product,
         oli_product_name = prd_name product, oli_plan_name = off_plan_name offering,
         oli_status = off_status offering, oli_price_usd = off_price_usd offering,
         oli_currency = str_or (Some (off_currency offering)) ''INR''\<rparr>.
        (offering, product) \<leftarrow> sort_desc (\<lambda>(offering, _). off_created_at offering)
          [(offering, product). offering \<leftarrow> offerings d, product \<leftarrow> products d,
             prd_id product = off_product_id offering \<and> prd_vendor_id product = vendor]]))"

definition update_offering_price :: "uuid \<Rightarrow> uuid \<Rightarrow> money \<Rightarrow> string option \<Rightarrow> offering_list_item op" where
  "update_offering_price offering_id caller price_usd currency =
     bindE (reads (\<lambda>d. get_row off_id offering_id (offerings d))) (\<lambda>found.
     bindE (the_or found (NotFoundError ''offering not found'')) (\<lambda>offering.
     bindE (owned_product (off_product_id offering) caller) (\<lambda>product.
     bindE (raise_if (prd_status product = ''archived'')
              (ConflictError ''archived product cannot be edited'')) (\<lambda>_.
     bindE (raise_if (price_usd < 0) (ValidationError ''price_usd must be zero or greater'')) (\<lambda>_.
     bindE (case currency of None \<Rightarrow> ret (off_currency offering) | Some c \<Rightarrow> normalize_currency c) (\<lambda>code.
     bindE (modifies (offerings_update (upd_row off_id offering_id (\<lambda>r.
              r\<lparr>off_price_usd := price_usd, off_currency := code\<rparr>)))) (\<lambda>_.
     bindE (audit ''offering.price_updated'' (Some caller) None
              [(''offering_id'', JUuid offering_id), (''product_id'', JUuid (prd_id product))]) (\<lambda>_.
     bindE commit (\<lambda>_.
     ret \<lparr>oli_offering_id = offering_id, oli_product_id = prd_id product,
          oli_product_name = prd_name product, oli_plan_name = off_plan_name offering,
          oli_status = off_status offering, oli_price_usd = price_usd,
          oli_currency = str_or (Some code) ''INR''\<rparr>)))))))))"

subsection \<open>Submitting and editing a listing\<close>

record listing_input =
  lin_name :: string
  lin_description :: string
  lin_category :: string
  lin_sku :: string
  lin_mrp_inr :: money
  lin_net_weight :: string
  lin_brand :: string
  lin_image_urls :: "string list"
  lin_attested :: bool
  lin_city_ids :: "uuid list"
  lin_fulfilment_type :: string
  lin_currency :: "string option"

definition check_listing :: "listing_input \<Rightarrow> unit op" where
  "check_listing l =
     bindE (raise_if (lin_fulfilment_type l \<notin> set fulfilment_types)
              (ValidationError ''unknown fulfilment_type'')) (\<lambda>_.
     bindE (raise_if (\<not> lin_attested l) (ValidationError ''authenticity_attested must be true'')) (\<lambda>_.
     bindE (raise_if (strip (lin_name l) = [] \<or> strip (lin_category l) = []
                      \<or> strip (lin_description l) = [] \<or> strip (lin_sku l) = [])
              (ValidationError ''name, category, description, and sku are required'')) (\<lambda>_.
     raise_if (lin_mrp_inr l \<le> 0) (ValidationError ''mrp_inr must be greater than zero''))))"

definition check_listing_cities :: "uuid \<Rightarrow> listing_input \<Rightarrow> unit op" where
  "check_listing_cities vendor l =
     (if lin_fulfilment_type l = ''SHIP_PHYSICAL''
      then bindE (raise_if (lin_city_ids l = [])
                    (ValidationError ''at least one service city is required'')) (\<lambda>_.
           bindE (vendor_cities vendor (lin_city_ids l)) (\<lambda>_. ret ()))
      else ret ())"

definition listed_product :: "uuid \<Rightarrow> uuid \<Rightarrow> uuid option \<Rightarrow> listing_input \<Rightarrow> uuid op" where
  "listed_product vendor caller product_id l =
     (case product_id of
        Some i \<Rightarrow>
          bindE (owned_product i caller) (\<lambda>product.
          bindE (raise_if (prd_vendor_id product \<noteq> vendor) (NotFoundError ''product not found'')) (\<lambda>_.
          bindE (raise_if (prd_status product = ''archived'')
                   (ConflictError ''archived product cannot be edited'')) (\<lambda>_.
          ret i)))
      | None \<Rightarrow>
          bindE uuid4 (\<lambda>i.
          bindE utcnow (\<lambda>now.
          bindE (modifies (products_update (\<lambda>rows. rows @
             [new_product i now vendor None (strip (lin_name l)) (strip (lin_description l))
                (strip (lin_category l)) (lin_fulfilment_type l)]))) (\<lambda>_.
          bindE (modifies (product_contents_update (\<lambda>rows. rows @
             [\<lparr>pct_product_id = i, pct_payload = []\<rparr>]))) (\<lambda>_.
          ret i)))))"

definition submitted_product :: "listing_input \<Rightarrow> product_row \<Rightarrow> product_row" where
  "submitted_product l p =
     p\<lparr>prd_name := strip (lin_name l), prd_description := strip (lin_description l),
       prd_category := strip (lin_category l), prd_fulfilment_type := lin_fulfilment_type l,
       prd_status := ''published'', prd_pa_status := ''pending_review'', prd_pa_reject_reason := []\<rparr>"

definition listing_payload :: "listing_input \<Rightarrow> string \<Rightarrow> string list \<Rightarrow> payload" where
  "listing_payload l currency images =
     [(''sku'', JStr (strip (lin_sku l))), (''brand'', JStr (strip (lin_brand l))),
      (''net_weight'', JStr (strip (lin_net_weight l))), (''mrp_inr'', JMoney (lin_mrp_inr l)),
      (''mrp_amount'', JMoney (lin_mrp_inr l)), (''currency'', JStr currency),
      (''image_urls'', JList (map JStr images)), (''authenticity_attested'', JBool True)]"

text \<open>Writing the content document: the row of the product, created when missing.\<close>

definition put_content :: "uuid \<Rightarrow> payload \<Rightarrow> unit op" where
  "put_content product_id doc =
     modifies (product_contents_update (\<lambda>rows.
       if get_row pct_product_id product_id rows = None
       then rows @ [\<lparr>pct_product_id = product_id, pct_payload = doc\<rparr>]
       else upd_row pct_product_id product_id (\<lambda>c. c\<lparr>pct_payload := doc\<rparr>) rows))"

definition standard_offerings :: "database \<Rightarrow> uuid \<Rightarrow> offering_row list" where
  "standard_offerings d product_id =
     filter (\<lambda>off. off_product_id off = product_id \<and> off_plan_name off = ''Standard'') (offerings d)"

definition put_standard_offering :: "uuid \<Rightarrow> money \<Rightarrow> string \<Rightarrow> unit op" where
  "put_standard_offering product_id price currency =
     bindE (reads (\<lambda>d. standard_offerings d product_id)) (\<lambda>rows.
     bindE (one_or_none rows) (\<lambda>found.
     case found of
       None \<Rightarrow>
         bindE uuid4 (\<lambda>i.
         bindE utcnow (\<lambda>now.
         modifies (offerings_update (\<lambda>rows. rows @
           [\<lparr>off_id = i, off_product_id = product_id, off_plan_name = ''Standard'',
             off_billing_period = ''one_time'', off_price_usd = price, off_currency = currency,
             off_included_transactions = None, off_overage_price_per_1k = None,
             off_status = ''draft'', off_created_at = now\<rparr>]))))
     | Some offering \<Rightarrow>
         modifies (offerings_update (upd_row off_id (off_id offering) (\<lambda>r.
           r\<lparr>off_billing_period := ''one_time'', off_price_usd := price,
             off_currency := currency, off_status := ''draft''\<rparr>)))))"

definition submit_product_listing ::
  "uuid \<Rightarrow> uuid \<Rightarrow> uuid option \<Rightarrow> listing_input \<Rightarrow> product_item op"
where
  "submit_product_listing vendor caller product_id l =
     bindE (require_vendor_owner vendor caller) (\<lambda>profile.
     bindE (raise_if (vnd_status profile \<noteq> ''verified'') (ForbiddenError ''vendor not verified'')) (\<lambda>_.
     bindE (check_listing l) (\<lambda>_.
     bindE (case lin_currency l of
              None \<Rightarrow> vendor_default_currency vendor
            | Some c \<Rightarrow> if c = [] then vendor_default_currency vendor else normalize_currency c) (\<lambda>currency.
     bindE (validate_image_urls (lin_image_urls l)) (\<lambda>images.
     bindE (check_listing_cities vendor l) (\<lambda>_.
     bindE (listed_product vendor caller product_id l) (\<lambda>i.
     bindE (update_product_row i (submitted_product l)) (\<lambda>_.
     bindE (put_content i (listing_payload l currency images)) (\<lambda>_.
     bindE (if lin_fulfilment_type l = ''SHIP_PHYSICAL'' then replace_product_cities i (lin_city_ids l)
            else ret ()) (\<lambda>_.
     bindE (put_standard_offering i (lin_mrp_inr l) currency) (\<lambda>_.
     bindE (audit ''product.listing_submitted'' (Some caller) None
              [(''product_id'', JUuid i), (''vendor_id'', JUuid vendor)]) (\<lambda>_.
     bindE commit (\<lambda>_.
     product_item_of i)))))))))))))"

definition resubmit_product :: "uuid \<Rightarrow> uuid \<Rightarrow> product_item op" where
  "resubmit_product product_id caller =
     bindE (owned_product product_id caller) (\<lambda>product.
     bindE (raise_if (prd_pa_status product \<noteq> ''rejected'')
              (ConflictError ''only rejected products can be resubmitted'')) (\<lambda>_.
     bindE (update_product_row product_id (\<lambda>p.
              p\<lparr>prd_pa_status := ''pending_review'', prd_pa_reject_reason := []\<rparr>)) (\<lambda>_.
     bindE (audit ''product.listing_resubmitted'' (Some caller) None
              [(''product_id'', JUuid product_id)]) (\<lambda>_.
     bindE commit (\<lambda>_.
     product_item_of product_id)))))"

definition edited_product ::
  "string option \<Rightarrow> string option \<Rightarrow> string option \<Rightarrow> product_row \<Rightarrow> product_row"
where
  "edited_product name description category p =
     (let p1 = (case name of None \<Rightarrow> p
                | Some n \<Rightarrow> if strip n = [] then p else p\<lparr>prd_name := strip n\<rparr>);
          p2 = (case description of None \<Rightarrow> p1 | Some s \<Rightarrow> p1\<lparr>prd_description := strip s\<rparr>)
      in case category of None \<Rightarrow> p2 | Some c \<Rightarrow> p2\<lparr>prd_category := strip c\<rparr>)"

text \<open>Back to review: a changed listing of a product that was live or rejected.\<close>

definition review_again :: "uuid \<Rightarrow> listing_snapshot \<Rightarrow> payload \<Rightarrow> product_row \<Rightarrow> unit op" where
  "review_again product_id prior doc edited =
     bindE (reads content_review_required) (\<lambda>required.
     if required \<and> prd_pa_status edited \<in> {''live'', ''rejected''}
     then bindE (listing_snapshot_of edited doc) (\<lambda>current.
          if \<not> same_listing current prior
          then bindE (update_product_row product_id (\<lambda>p.
                        p\<lparr>prd_pa_status := ''pending_review'', prd_pa_reject_reason := []\<rparr>)) (\<lambda>_.
               set_offerings (offering_of product_id [''published'']) ''draft'')
          else ret ())
     else ret ())"

definition update_product ::
  "uuid \<Rightarrow> uuid \<Rightarrow> string option \<Rightarrow> string option \<Rightarrow> string option \<Rightarrow> payload option \<Rightarrow> product_item op"
where
  "update_product product_id caller name description category content =
     bindE (owned_product product_id caller) (\<lambda>product.
     bindE (raise_if (prd_status product = ''archived'')
              (ConflictError ''archived product cannot be edited'')) (\<lambda>_.
     bindE (reads (\<lambda>d. product_payload d product_id)) (\<lambda>stored.
     bindE (listing_snapshot_of product stored) (\<lambda>prior.
     bindE (update_product_row product_id (edited_product name description category)) (\<lambda>_.
     bindE (case content of None \<Rightarrow> ret () | Some doc \<Rightarrow> put_content product_id doc) (\<lambda>_.
     bindE (review_again product_id prior (case content of None \<Rightarrow> stored | Some doc \<Rightarrow> doc)
              (edited_product name description category product)) (\<lambda>_.
     bindE (audit ''product.updated'' (Some caller) None [(''product_id'', JUuid product_id)]) (\<lambda>_.
     bindE commit (\<lambda>_.
     product_item_of product_id)))))))))"

text \<open>The item of an archived product: the other fields have the defaults of \<open>ProductItem\<close>.\<close>

definition archived_item :: "product_row \<Rightarrow> product_item" where
  "archived_item p =
     \<lparr>pit_product_id = prd_id p, pit_name = prd_name p, pit_fulfilment_type = prd_fulfilment_type p,
      pit_status = prd_status p, pit_category = prd_category p, pit_content = [],
      pit_pa_status = ''not_submitted'', pit_pa_reject_reason = [], pit_mrp_inr = Decimal 0 0,
      pit_image_count = 0, pit_cities = [], pit_stock_status = ''none'', pit_visibility = ''hidden'',
      pit_brand = [], pit_net_weight = [], pit_sku = [], pit_image_urls = [], pit_currency = ''INR''\<rparr>"

definition archive_product :: "uuid \<Rightarrow> uuid \<Rightarrow> product_item op" where
  "archive_product product_id caller =
     bindE (owned_product product_id caller) (\<lambda>product.
     bindE (raise_if (prd_status product = ''archived'') (ConflictError ''already archived'')) (\<lambda>_.
     bindE utcnow (\<lambda>now.
     let f = (\<lambda>p. p\<lparr>prd_status := ''archived'', prd_archived_at := Some now\<rparr>) in
     bindE (update_product_row product_id f) (\<lambda>_.
     bindE (set_offerings (offering_of product_id [''published'']) ''unpublished'') (\<lambda>_.
     bindE (audit ''product.archived'' (Some caller) None [(''product_id'', JUuid product_id)]) (\<lambda>_.
     bindE commit (\<lambda>_.
     ret (archived_item (f product)))))))))"

subsection \<open>Publishing\<close>

definition approved_versions :: "database \<Rightarrow> uuid option \<Rightarrow> plugin_version_row list" where
  "approved_versions d plugin_id =
     (case plugin_id of None \<Rightarrow> []
      | Some p \<Rightarrow> filter (\<lambda>v. pvr_plugin_id v = p \<and> pvr_status v = ''approved'') (plugin_versions d))"

definition queue_for_review :: "uuid \<Rightarrow> offering_row \<Rightarrow> product_row \<Rightarrow> offering_created op" where
  "queue_for_review caller offering product =
     bindE (update_product_row (prd_id product) (\<lambda>p.
              p\<lparr>prd_pa_status := ''pending_review'', prd_status := ''published''\<rparr>)) (\<lambda>_.
     bindE (audit ''product.content_review_queued'' (Some caller) None
              [(''offering_id'', JUuid (off_id offering)), (''product_id'', JUuid (prd_id product))]) (\<lambda>_.
     bindE commit (\<lambda>_.
     ret \<lparr>ofc_offering_id = off_id offering, ofc_product_id = prd_id product,
          ofc_plan_name = off_plan_name offering, ofc_status = ''pending_review''\<rparr>)))"

definition publish_now :: "uuid \<Rightarrow> offering_row \<Rightarrow> product_row \<Rightarrow> offering_created op" where
  "publish_now caller offering product =
     bindE (modifies (offerings_update (upd_row off_id (off_id offering)
              (\<lambda>r. r\<lparr>off_status := ''published''\<rparr>)))) (\<lambda>_.
     bindE (update_product_row (prd_id product) (\<lambda>p.
              p\<lparr>prd_status := if prd_status p = ''draft'' then ''published'' else prd_status p,
                prd_pa_status := ''live''\<rparr>)) (\<lambda>_.
     bindE (audit ''offering.published'' (Some caller) None
              [(''offering_id'', JUuid (off_id offering)), (''product_id'', JUuid (prd_id product))]) (\<lambda>_.
     bindE commit (\<lambda>_.
     ret \<lparr>ofc_offering_id = off_id offering, ofc_product_id = prd_id product,
          ofc_plan_name = off_plan_name offering, ofc_status = ''published''\<rparr>))))"

definition publish_offering :: "uuid \<Rightarrow> uuid \<Rightarrow> offering_created op" where
  "publish_offering offering_id caller =
     bindE (reads (\<lambda>d. get_row off_id offering_id (offerings d))) (\<lambda>found.
     bindE (the_or found (NotFoundError ''offering not found'')) (\<lambda>offering.
     bindE (owned_product (off_product_id offering) caller) (\<lambda>product.
     bindE (raise_if (off_status offering = ''published'') (ConflictError ''already published'')) (\<lambda>_.
     bindE (raise_if (off_status offering \<noteq> ''draft'') (ConflictError ''offering cannot be published'')) (\<lambda>_.
     bindE (reads (\<lambda>d. approved_versions d (prd_plugin_id product))) (\<lambda>versions.
     bindE (one_or_none versions) (\<lambda>approved.
     bindE (raise_if (approved = None) (ConflictError ''plugin version is not approved'')) (\<lambda>_.
     bindE (reads content_review_required) (\<lambda>review_required.
     if review_required \<and> prd_pa_status product \<noteq> ''live''
     then queue_for_review caller offering product
     else publish_now caller offering product)))))))))"

subsection \<open>The operator's decisions\<close>

definition admin_item ::
  "product_row \<Rightarrow> vendor_profile_row option \<Rightarrow> string \<Rightarrow> string \<Rightarrow> string \<Rightarrow> admin_product_item"
where
  "admin_item product profile status pa_status reason =
     \<lparr>api_product_id = prd_id product, api_name = prd_name product,
      api_vendor_id = prd_vendor_id product,
      api_vendor_name = (case profile of None \<Rightarrow> [] | Some v \<Rightarrow> vnd_legal_name v),
      api_category = prd_category product, api_status = status, api_pa_status = pa_status,
      api_pa_reject_reason = reason, api_fulfilment_type = prd_fulfilment_type product,
      api_submitted_at = prd_updated_at product\<rparr>"

definition pending_product :: "uuid \<Rightarrow> product_row op" where
  "pending_product product_id =
     bindE (reads (\<lambda>d. get_row prd_id product_id (products d))) (\<lambda>found.
     bindE (the_or found (NotFoundError ''product not found'')) (\<lambda>product.
     bindE (raise_if (prd_pa_status product \<noteq> ''pending_review'')
              (ConflictError ''product is not pending review'')) (\<lambda>_.
     ret product)))"

definition approve_product :: "uuid \<Rightarrow> uuid \<Rightarrow> admin_product_item op" where
  "approve_product product_id caller =
     bindE (require_platform_operator caller) (\<lambda>_.
     bindE (pending_product product_id) (\<lambda>product.
     bindE (reads (\<lambda>d. get_row vnd_id (prd_vendor_id product) (vendor_profiles d))) (\<lambda>profile.
     bindE (update_product_row product_id (\<lambda>p.
              p\<lparr>prd_pa_status := ''live'', prd_pa_reject_reason := [],
                prd_status := if prd_status p = ''draft'' then ''published'' else prd_status p\<rparr>)) (\<lambda>_.
     bindE (reads (\<lambda>d. length (filter (offering_of product_id [''draft'']) (offerings d)))) (\<lambda>n.
     bindE (set_offerings (offering_of product_id [''draft'']) ''published'') (\<lambda>_.
     bindE (audit ''product.content_approved'' (Some caller) None
              [(''product_id'', JUuid product_id), (''offerings_published'', JInt (int n))]) (\<lambda>_.
     bindE commit (\<lambda>_.
     ret (admin_item product profile ''published'' ''live'' [])))))))))"

definition reject_product :: "uuid \<Rightarrow> uuid \<Rightarrow> string \<Rightarrow> admin_product_item op" where
  "reject_product product_id caller reason =
     bindE (require_platform_operator caller) (\<lambda>_.
     bindE (raise_if (strip reason = []) (ValidationError ''reason is required'')) (\<lambda>_.
     bindE (pending_product product_id) (\<lambda>product.
     bindE (reads (\<lambda>d. get_row vnd_id (prd_vendor_id product) (vendor_profiles d))) (\<lambda>profile.
     bindE (update_product_row product_id (\<lambda>p.
              p\<lparr>prd_pa_status := ''rejected'', prd_pa_reject_reason := strip reason\<rparr>)) (\<lambda>_.
     bindE (set_offerings (offering_of product_id [''published'', ''draft'']) ''unpublished'') (\<lambda>_.
     bindE (audit ''product.content_rejected'' (Some caller) None
              [(''product_id'', JUuid product_id), (''reason'', JStr (strip reason))]) (\<lambda>_.
     bindE commit (\<lambda>_.
     ret (admin_item product profile (prd_status product) ''rejected'' (strip reason))))))))))"

definition reinstate_vendor :: "uuid \<Rightarrow> uuid \<Rightarrow> suspend_result op" where
  "reinstate_vendor vendor caller =
     bindE (require_platform_operator caller) (\<lambda>_.
     bindE (reads (\<lambda>d. get_row vnd_id vendor (vendor_profiles d))) (\<lambda>found.
     bindE (the_or found (NotFoundError ''vendor not found'')) (\<lambda>profile.
     bindE (raise_if (vnd_status profile \<noteq> ''suspended'') (ConflictError ''vendor is not suspended'')) (\<lambda>_.
     bindE (modifies (vendor_profiles_update (upd_row vnd_id vendor (\<lambda>v. v\<lparr>vnd_status := ''verified''\<rparr>)))) (\<lambda>_.
     bindE (audit ''vendor.reinstated'' (Some caller) None [(''vendor_id'', JUuid vendor)]) (\<lambda>_.
     bindE commit (\<lambda>_.
     ret \<lparr>sur_vendor_id = vendor, sur_status = ''verified'', sur_offerings_unpublished = 0\<rparr>)))))))"

text \<open>The published offerings of a vendor, by the join with its products.\<close>

definition vendor_published :: "database \<Rightarrow> uuid \<Rightarrow> offering_row list" where
  "vendor_published d vendor =
     [offering. offering \<leftarrow> offerings d, product \<leftarrow> products d,
        prd_id product = off_product_id offering \<and> prd_vendor_id product = vendor
        \<and> off_status offering = ''published'']"

definition unpublish_each :: "uuid \<Rightarrow> uuid \<Rightarrow> offering_row list \<Rightarrow> unit op" where
  "unpublish_each caller vendor rows =
     for_each rows (\<lambda>offering.
       bindE (modifies (offerings_update (upd_row off_id (off_id offering)
                (\<lambda>r. r\<lparr>off_status := ''unpublished''\<rparr>)))) (\<lambda>_.
       audit ''offering.unpublished'' (Some caller) None
         [(''offering_id'', JUuid (off_id offering)), (''vendor_id'', JUuid vendor)]))"

definition suspend_vendor :: "uuid \<Rightarrow> uuid \<Rightarrow> string \<Rightarrow> suspend_result op" where
  "suspend_vendor vendor caller reason =
     bindE (require_platform_operator caller) (\<lambda>_.
     bindE (raise_if (strip reason = []) (ValidationError ''reason is required'')) (\<lambda>_.
     bindE (reads (\<lambda>d. get_row vnd_id vendor (vendor_profiles d))) (\<lambda>found.
     bindE (the_or found (NotFoundError ''vendor not found'')) (\<lambda>profile.
     bindE (raise_if (vnd_status profile = ''suspended'') (ConflictError ''already suspended'')) (\<lambda>_.
     bindE (modifies (vendor_profiles_update (upd_row vnd_id vendor (\<lambda>v. v\<lparr>vnd_status := ''suspended''\<rparr>)))) (\<lambda>_.
     bindE (reads (\<lambda>d. vendor_published d vendor)) (\<lambda>found_offerings.
     bindE (unpublish_each caller vendor found_offerings) (\<lambda>_.
     bindE (audit ''vendor.suspended'' (Some caller) None
              [(''vendor_id'', JUuid vendor), (''reason'', JStr (strip reason)),
               (''offerings_unpublished'', JInt (int (length found_offerings)))]) (\<lambda>_.
     bindE commit (\<lambda>_.
     ret \<lparr>sur_vendor_id = vendor, sur_status = ''suspended'',
          sur_offerings_unpublished = length found_offerings\<rparr>))))))))))"

end
