(* ===== verification/Catalog_Public.thy ===== *)
theory Catalog_Public
  imports Catalog_Listing
begin

section \<open>The public catalog and the operator's overviews\<close>

text \<open>
  The reading side of \<open>CatalogService\<close>: the catalog with its filters, facets, ratings and stock, the
  product page, public reviews, and the operator's lists and counts. Optional filters are options;
  an empty string counts as not given, as in the source. An average rating is in tenths.
\<close>

definition given :: "string option \<Rightarrow> bool" where
  "given x = (case x of None \<Rightarrow> False | Some s \<Rightarrow> s \<noteq> [])"

definition physical_fulfilment :: "string list" where
  "physical_fulfilment = [''SHIP_PHYSICAL'']"

record catalog_query =
  cqy_category :: "string option"
  cqy_q :: "string option"
  cqy_vendor_id :: "uuid option"
  cqy_vendor_ids :: "uuid list"
  cqy_verified_only :: bool
  cqy_price_min :: "money option"
  cqy_price_max :: "money option"
  cqy_sort :: string
  cqy_pincode :: "string option"
  cqy_in_stock :: bool
  cqy_fulfilment :: "string option"

record catalog_card =
  ccd_offering_id :: uuid
  ccd_product_id :: uuid
  ccd_product_name :: string
  ccd_vendor_name :: string
  ccd_vendor_id :: uuid
  ccd_plan_name :: string
  ccd_price_usd :: money
  ccd_billing_period :: string
  ccd_fulfilment_type :: string
  ccd_category :: string
  ccd_currency :: string
  ccd_avg_rating :: int
  ccd_review_count :: nat
  ccd_in_stock :: bool

record vendor_facet =
  vfc_vendor_id :: uuid
  vfc_name :: string

type_synonym listing = "offering_row \<times> product_row \<times> vendor_profile_row"

subsection \<open>The query\<close>

definition has_city :: "database \<Rightarrow> uuid \<Rightarrow> bool" where
  "has_city d product_id = list_ex (\<lambda>l. pcy_product_id l = product_id) (product_service_cities d)"

definition serves_pincode :: "database \<Rightarrow> uuid \<Rightarrow> string \<Rightarrow> bool" where
  "serves_pincode d product_id pin =
     list_ex (\<lambda>l. pcy_product_id l = product_id
        \<and> list_ex (\<lambda>c. sct_id c = pcy_city_id l
             \<and> list_ex (\<lambda>p. cpn_city_id p = sct_id c \<and> cpn_pincode p = pin) (city_pincodes d))
            (service_cities d))
       (product_service_cities d)"

text \<open>The rows every visitor may see.\<close>

definition catalog_base :: "database \<Rightarrow> listing list" where
  "catalog_base d =
     [(offering, product, profile).
        offering \<leftarrow> offerings d, product \<leftarrow> products d, profile \<leftarrow> vendor_profiles d,
        prd_id product = off_product_id offering \<and> vnd_id profile = prd_vendor_id product
        \<and> off_status offering = ''published'' \<and> prd_status product = ''published''
        \<and> (content_review_required d \<longrightarrow> prd_pa_status product \<in> {''live'', ''not_submitted''})
        \<and> (prd_fulfilment_type product \<noteq> ''SHIP_PHYSICAL'' \<or> has_city d (prd_id product))]"

definition facet_match :: "catalog_query \<Rightarrow> listing \<Rightarrow> bool" where
  "facet_match query row =
     (case row of (offering, product, profile) \<Rightarrow>
        (given (cqy_category query) \<longrightarrow> cqy_category query = Some (prd_category product))
        \<and> (case cqy_q query of None \<Rightarrow> True
           | Some q \<Rightarrow> q = [] \<or> ilike_part (prd_name product) (strip q))
        \<and> (cqy_verified_only query \<longrightarrow> vnd_status profile = ''verified''))"

definition selected_vendors :: "catalog_query \<Rightarrow> uuid list" where
  "selected_vendors query =
     (case cqy_vendor_id query of None \<Rightarrow> cqy_vendor_ids query
      | Some v \<Rightarrow> if v \<in> set (cqy_vendor_ids query) then cqy_vendor_ids query
                  else cqy_vendor_ids query @ [v])"

fun split_commas :: "string \<Rightarrow> string list" where
  "split_commas [] = [[]]"
| "split_commas (c # cs) =
     (if c = CHR '','' then [] # split_commas cs
      else case split_commas cs of [] \<Rightarrow> [[c]] | s # ss \<Rightarrow> (c # s) # ss)"

definition fulfilment_modes :: "string option \<Rightarrow> string set" where
  "fulfilment_modes fulfilment =
     set (map (\<lambda>part. lower (strip part))
       (filter (\<lambda>part. strip part \<noteq> []) (split_commas (str_or fulfilment []))))"

definition fulfilment_match :: "string option \<Rightarrow> product_row \<Rightarrow> bool" where
  "fulfilment_match fulfilment product =
     (let modes = fulfilment_modes fulfilment
      in if modes = {''physical''} then prd_fulfilment_type product \<in> set physical_fulfilment
         else if modes = {''digital''} then prd_fulfilment_type product \<notin> set physical_fulfilment
         else True)"

definition pincode_match :: "database \<Rightarrow> string option \<Rightarrow> product_row \<Rightarrow> bool" where
  "pincode_match d pincode product =
     (let pin = strip (str_or pincode [])
      in pin = [] \<or> prd_fulfilment_type product \<notin> set physical_fulfilment
         \<or> serves_pincode d (prd_id product) pin)"

definition catalog_match :: "database \<Rightarrow> catalog_query \<Rightarrow> listing \<Rightarrow> bool" where
  "catalog_match d query row =
     (case row of (offering, product, profile) \<Rightarrow>
        facet_match query row
        \<and> (selected_vendors query = [] \<or> prd_vendor_id product \<in> set (selected_vendors query))
        \<and> (case cqy_price_min query of None \<Rightarrow> True | Some m \<Rightarrow> m \<le> off_price_usd offering)
        \<and> (case cqy_price_max query of None \<Rightarrow> True | Some m \<Rightarrow> off_price_usd offering \<le> m)
        \<and> fulfilment_match (cqy_fulfilment query) product
        \<and> pincode_match d (cqy_pincode query) product)"

definition catalog_order :: "string \<Rightarrow> listing list \<Rightarrow> listing list" where
  "catalog_order sort_by rows =
     (if sort_by = ''price_asc'' then sort_key (\<lambda>(offering, _). off_price_usd offering) rows
      else if sort_by = ''price_desc'' then sort_desc (\<lambda>(offering, _). off_price_usd offering) rows
      else sort_desc (\<lambda>(offering, _). off_created_at offering) rows)"

subsection \<open>Cards\<close>

definition mean_rating :: "int list \<Rightarrow> int" where
  "mean_rating ratings = (if ratings = [] then 0 else round1 (sum_list ratings) (int (length ratings)))"

definition product_ratings :: "database \<Rightarrow> uuid \<Rightarrow> int list" where
  "product_ratings d product_id =
     map rev_rating (filter (\<lambda>r. rev_product_id r = product_id) (product_reviews d))"

definition product_stock :: "database \<Rightarrow> uuid \<Rightarrow> int \<times> int" where
  "product_stock d product_id =
     (let rows = filter (\<lambda>s. inv_product_id s = product_id) (inventory d)
      in (sum_list (map inv_available rows), sum_list (map inv_reserved rows)))"

definition in_stock_now :: "database \<Rightarrow> product_row \<Rightarrow> bool" where
  "in_stock_now d product =
     (case product_stock d (prd_id product) of (available, reserved) \<Rightarrow>
        prd_fulfilment_type product \<notin> set physical_fulfilment \<or> available > reserved)"

definition card_of :: "database \<Rightarrow> listing \<Rightarrow> catalog_card" where
  "card_of d row =
     (case row of (offering, product, profile) \<Rightarrow>
        \<lparr>ccd_offering_id = off_id offering, ccd_product_id = prd_id product,
         ccd_product_name = prd_name product, ccd_vendor_name = vnd_legal_name profile,
         ccd_vendor_id = vnd_id profile, ccd_plan_name = off_plan_name offering,
         ccd_price_usd = off_price_usd offering, ccd_billing_period = off_billing_period offering,
         ccd_fulfilment_type = prd_fulfilment_type product, ccd_category = prd_category product,
         ccd_currency = str_or (Some (off_currency offering)) ''INR'',
         ccd_avg_rating = mean_rating (product_ratings d (prd_id product)),
         ccd_review_count = length (product_ratings d (prd_id product)),
         ccd_in_stock = in_stock_now d product\<rparr>)"

text \<open>The dict of vendors: one entry per vendor, in the order they are met first.\<close>

definition vendor_facets :: "listing list \<Rightarrow> vendor_facet list" where
  "vendor_facets rows =
     sort_key (\<lambda>f. lower (vfc_name f))
       (map (\<lambda>v. \<lparr>vfc_vendor_id = v,
            vfc_name = (case find (\<lambda>(_, _, profile). vnd_id profile = v) (rev rows) of
                          None \<Rightarrow> [] | Some (_, _, profile) \<Rightarrow> vnd_legal_name profile)\<rparr>)
         (rev (remdups (rev (map (\<lambda>(_, _, profile). vnd_id profile) rows)))))"

definition catalog_cards :: "database \<Rightarrow> catalog_query \<Rightarrow> catalog_card list" where
  "catalog_cards d query =
     [card_of d (offering, product, profile).
        (offering, product, profile) \<leftarrow>
          catalog_order (cqy_sort query) (filter (catalog_match d query) (catalog_base d)),
        cqy_in_stock query \<longrightarrow> in_stock_now d product]"

definition catalog :: "catalog_query \<Rightarrow> (catalog_card list \<times> vendor_facet list) op" where
  "catalog query =
     reads (\<lambda>d. (catalog_cards d query, vendor_facets (filter (facet_match query) (catalog_base d))))"

definition home_query :: catalog_query where
  "home_query =
     \<lparr>cqy_category = None, cqy_q = None, cqy_vendor_id = None, cqy_vendor_ids = [],
      cqy_verified_only = False, cqy_price_min = None, cqy_price_max = None, cqy_sort = ''newest'',
      cqy_pincode = None, cqy_in_stock = False, cqy_fulfilment = None\<rparr>"

definition home :: "(string \<times> catalog_card list) list op" where
  "home =
     bindE (catalog home_query) (\<lambda>(cards, _).
     ret [(''new'', take 8 cards), (''trending'', take 12 cards), (''sponsored'', [])])"

subsection \<open>The product page\<close>

record public_review =
  pbr_rating :: int
  pbr_comment :: string
  pbr_customer_name :: string
  pbr_created_at :: instant

record public_review_list =
  pvl_reviews :: "public_review list"
  pvl_avg_rating :: int
  pvl_review_count :: nat

definition list_public_reviews :: "uuid \<Rightarrow> public_review_list op" where
  "list_public_reviews product_id =
     bindE (published_product product_id) (\<lambda>_.
     reads (\<lambda>d.
       let reviews =
         [\<lparr>pbr_rating = rev_rating review, pbr_comment = rev_comment review,
           pbr_customer_name = (case address of None \<Rightarrow> ten_name tenant | Some a \<Rightarrow> adr_contact_name a),
           pbr_created_at = rev_created_at review\<rparr>.
          (review, tenant, address) \<leftarrow> sort_desc (\<lambda>(review, _). rev_created_at review)
            [(review, tenant, address).
               review \<leftarrow> product_reviews d, order \<leftarrow> orders d, tenant \<leftarrow> tenants d,
               address \<leftarrow> outer (filter (\<lambda>a. ord_address_id order = Some (adr_id a)) (addresses d)),
               ord_id order = rev_order_id review \<and> ten_id tenant = rev_tenant_id review
               \<and> rev_product_id review = product_id]]
       in \<lparr>pvl_reviews = reviews, pvl_avg_rating = mean_rating (map pbr_rating reviews),
           pvl_review_count = length reviews\<rparr>))"

record offering_detail =
  ofd_offering_id :: uuid
  ofd_plan_name :: string
  ofd_price_usd :: money
  ofd_billing_period :: string
  ofd_status :: string
  ofd_currency :: string

record product_detail_view =
  pdv_product_id :: uuid
  pdv_name :: string
  pdv_description :: string
  pdv_fulfilment_type :: string
  pdv_vendor_name :: string
  pdv_category :: string
  pdv_content :: payload
  pdv_capabilities :: "string list"
  pdv_offerings :: "offering_detail list"

definition offering_detail_of :: "offering_row \<Rightarrow> offering_detail" where
  "offering_detail_of row =
     \<lparr>ofd_offering_id = off_id row, ofd_plan_name = off_plan_name row,
      ofd_price_usd = off_price_usd row, ofd_billing_period = off_billing_period row,
      ofd_status = off_status row, ofd_currency = str_or (Some (off_currency row)) ''INR''\<rparr>"

text \<open>A physical product must have a service city: the query takes one row or none.\<close>

definition require_city :: "product_row \<Rightarrow> unit op" where
  "require_city product =
     (if prd_fulfilment_type product = ''SHIP_PHYSICAL''
      then bindE (reads (\<lambda>d. filter (\<lambda>l. pcy_product_id l = prd_id product) (product_service_cities d))) (\<lambda>rows.
           bindE (one_or_none rows) (\<lambda>has_cities.
           raise_if (has_cities = None) (NotFoundError ''product not found'')))
      else ret ())"

definition product_detail :: "uuid \<Rightarrow> product_detail_view op" where
  "product_detail product_id =
     bindE (published_product product_id) (\<lambda>product.
     bindE (reads content_review_required) (\<lambda>review_required.
     bindE (raise_if (review_required \<and> prd_pa_status product \<notin> {''live'', ''not_submitted''})
              (NotFoundError ''product not found'')) (\<lambda>_.
     bindE (require_city product) (\<lambda>_.
     reads (\<lambda>d.
       \<lparr>pdv_product_id = prd_id product, pdv_name = prd_name product,
        pdv_description = prd_description product, pdv_fulfilment_type = prd_fulfilment_type product,
        pdv_vendor_name = (case get_row vnd_id (prd_vendor_id product) (vendor_profiles d) of
                             None \<Rightarrow> [] | Some v \<Rightarrow> vnd_legal_name v),
        pdv_category = prd_category product, pdv_content = product_payload d (prd_id product),
        pdv_capabilities = approved_capabilities d (prd_plugin_id product),
        pdv_offerings = map offering_detail_of
          (filter (offering_of (prd_id product) [''published'']) (offerings d))\<rparr>)))))"

subsection \<open>The operator's overviews\<close>

record vendor_directory_item =
  vdi_vendor_id :: uuid
  vdi_legal_name :: string
  vdi_status :: string
  vdi_product_count :: nat
  vdi_active_installs :: nat
  vdi_plugin_count :: nat
  vdi_warehouse_count :: nat
  vdi_gmv_mtd :: money

definition active_install_count :: "database \<Rightarrow> uuid \<Rightarrow> nat" where
  "active_install_count d vendor =
     length [installation. product \<leftarrow> products d, offering \<leftarrow> offerings d, installation \<leftarrow> installations d,
       off_product_id offering = prd_id product \<and> ins_offering_id installation = off_id offering
       \<and> prd_vendor_id product = vendor \<and> ins_status installation = ''active'']"

definition gmv_since :: "database \<Rightarrow> instant \<Rightarrow> uuid \<Rightarrow> money" where
  "gmv_since d start vendor =
     sum_list [oln_unit_price line * oln_quantity line.
       line \<leftarrow> order_lines d, order \<leftarrow> orders d, offering \<leftarrow> offerings d, product \<leftarrow> products d,
       ord_id order = oln_order_id line \<and> off_id offering = oln_offering_id line
       \<and> prd_id product = off_product_id offering \<and> prd_vendor_id product = vendor
       \<and> ord_created_at order \<ge> start]"

definition list_vendors :: "uuid \<Rightarrow> string option \<Rightarrow> string option \<Rightarrow> vendor_directory_item list op" where
  "list_vendors caller status q =
     bindE (require_platform_operator caller) (\<lambda>_.
     bindE utcnow (\<lambda>now.
     reads (\<lambda>d. map (\<lambda>v.
       \<lparr>vdi_vendor_id = vnd_id v, vdi_legal_name = vnd_legal_name v, vdi_status = vnd_status v,
        vdi_product_count = length (filter (\<lambda>p. prd_vendor_id p = vnd_id v) (products d)),
        vdi_active_installs = active_install_count d (vnd_id v),
        vdi_plugin_count = length (filter (\<lambda>p. plg_vendor_id p = Some (vnd_id v)
           \<and> plg_owner_kind p = ''vendor'') (plugins d)),
        vdi_warehouse_count = length (filter (\<lambda>r. whs_vendor_id r = vnd_id v) (warehouses d)),
        vdi_gmv_mtd = gmv_since d (month_start now) (vnd_id v)\<rparr>)
       (sort_key vnd_legal_name (filter (\<lambda>v.
          (given status \<longrightarrow> status = Some (vnd_status v))
          \<and> (case q of None \<Rightarrow> True | Some s \<Rightarrow> strip s = [] \<or> ilike_part (vnd_legal_name v) (strip s)))
          (vendor_profiles d))))))"

record vendor_stats_view =
  vsv_active :: nat
  vsv_pending_verification :: nat
  vsv_suspended :: nat
  vsv_total_plugins :: nat

definition vendor_stats :: "uuid \<Rightarrow> vendor_stats_view op" where
  "vendor_stats caller =
     bindE (require_platform_operator caller) (\<lambda>_.
     reads (\<lambda>d. let count = (\<lambda>s. length (filter (\<lambda>v. vnd_status v = s) (vendor_profiles d))) in
       \<lparr>vsv_active = count ''verified'', vsv_pending_verification = count ''pending_verification'',
        vsv_suspended = count ''suspended'', vsv_total_plugins = length (plugins d)\<rparr>))"

definition list_admin_products ::
  "uuid \<Rightarrow> string option \<Rightarrow> string option \<Rightarrow> uuid option \<Rightarrow> admin_product_item list op"
where
  "list_admin_products caller pa_status q vendor =
     bindE (require_platform_operator caller) (\<lambda>_.
     reads (\<lambda>d.
       [admin_item product (Some profile) (prd_status product) (prd_pa_status product)
          (prd_pa_reject_reason product).
        (product, profile) \<leftarrow> sort_desc (\<lambda>(product, _). prd_updated_at product)
          [(product, profile). product \<leftarrow> products d, profile \<leftarrow> vendor_profiles d,
             vnd_id profile = prd_vendor_id product
             \<and> (given pa_status \<longrightarrow> pa_status = Some (prd_pa_status product))
             \<and> (case vendor of None \<Rightarrow> True | Some v \<Rightarrow> prd_vendor_id product = v)
             \<and> (case q of None \<Rightarrow> True
                | Some s \<Rightarrow> strip s = [] \<or> ilike_part (prd_name product) (strip s)
                            \<or> ilike_part (vnd_legal_name profile) (strip s))]]))"

record product_stats_view =
  psv_pending_review :: nat
  psv_live :: nat
  psv_rejected :: nat
  psv_not_submitted :: nat
  psv_warehouse_locations :: nat

definition product_stats :: "uuid \<Rightarrow> product_stats_view op" where
  "product_stats caller =
     bindE (require_platform_operator caller) (\<lambda>_.
     reads (\<lambda>d. let count = (\<lambda>s. length (filter (\<lambda>p. prd_pa_status p = s) (products d))) in
       \<lparr>psv_pending_review = count ''pending_review'', psv_live = count ''live'',
        psv_rejected = count ''rejected'', psv_not_submitted = count ''not_submitted'',
        psv_warehouse_locations = length (remdups (map whs_location (warehouses d)))\<rparr>))"

record location_summary_item =
  lsi_location :: string
  lsi_warehouse_count :: nat
  lsi_vendor_count :: nat
  lsi_units_stored :: int

text \<open>The rows of the outer join of warehouses and their stock.\<close>

definition location_rows :: "database \<Rightarrow> (warehouse_row \<times> inventory_row option) list" where
  "location_rows d =
     [(warehouse, stock). warehouse \<leftarrow> warehouses d,
        stock \<leftarrow> outer (filter (\<lambda>s. inv_warehouse_id s = whs_id warehouse) (inventory d))]"

definition locations_summary :: "uuid \<Rightarrow> location_summary_item list op" where
  "locations_summary caller =
     bindE (require_platform_operator caller) (\<lambda>_.
     reads (\<lambda>d. map (\<lambda>location.
       let rows = filter (\<lambda>(warehouse, _). whs_location warehouse = location) (location_rows d) in
       \<lparr>lsi_location = location, lsi_warehouse_count = length rows,
        lsi_vendor_count = length (remdups (map (\<lambda>(warehouse, _). whs_vendor_id warehouse) rows)),
        lsi_units_stored = sum_list (map (\<lambda>(_, stock). case stock of None \<Rightarrow> 0
           | Some s \<Rightarrow> inv_available s + inv_reserved s) rows)\<rparr>)
       (sort (remdups (map whs_location (warehouses d))))))"

end
