(* ===== verification/Outbox.thy ===== *)
theory Outbox
  imports Python_Values
begin

section \<open>The outbox and provisioning\<close>

text \<open>
  \<open>shared/infrastructure/outbox_processor.py\<close> and the two handlers of
  \<open>marketplace/application/provision.py\<close>. The notification sink is the list of recorded messages,
  returned by the handlers. A \<open>str(uuid)\<close> in a JSON payload is a \<open>JUuid\<close>; any other text given to
  \<open>UUID(...)\<close> is badly formed. An exception of a handler is caught by the processor and leaves what
  the handler wrote before it.
\<close>

definition payload_value :: "payload \<Rightarrow> string \<Rightarrow> json" where
  "payload_value p key = (case map_of p key of None \<Rightarrow> JNull | Some v \<Rightarrow> v)"

fun parse_uuid :: "json \<Rightarrow> uuid op" where
  "parse_uuid (JUuid u) = ret u"
| "parse_uuid _ = raise (ValueError ''badly formed hexadecimal UUID string'')"

subsection \<open>Scan and provision\<close>

definition handle_scan :: "payload \<Rightarrow> unit op" where
  "handle_scan p =
     (let version_id = payload_value p ''version_id''
      in if \<not> truthy version_id then ret ()
         else bindE (parse_uuid version_id) (\<lambda>i.
              modifies (plugin_versions_update (upd_row pvr_id i (\<lambda>v.
                if pvr_scan_status v = ''pending'' then v\<lparr>pvr_scan_status := ''passed''\<rparr> else v)))))"

definition instances_of :: "database \<Rightarrow> uuid \<Rightarrow> service_instance_row list" where
  "instances_of d installation_id =
     filter (\<lambda>s. sin_installation_id s = installation_id) (service_instances d)"

definition ensure_instance :: "uuid \<Rightarrow> unit op" where
  "ensure_instance i =
     bindE (reads (\<lambda>d. instances_of d i)) (\<lambda>rows.
     bindE (one_or_none rows) (\<lambda>existing.
     if existing = None
     then bindE uuid4 (\<lambda>n. modifies (service_instances_update (\<lambda>rows. rows @
            [\<lparr>sin_id = n, sin_installation_id = i, sin_status = ''active'', sin_external_ref = Some i\<rparr>])))
     else ret ()))"

definition handle_provision :: "payload \<Rightarrow> unit op" where
  "handle_provision p =
     (let installation_id = payload_value p ''installation_id''
      in bindE (raise_if (\<not> truthy installation_id) (ValueError ''installation_id required'')) (\<lambda>_.
         bindE (parse_uuid installation_id) (\<lambda>i.
         bindE (reads (\<lambda>d. get_row ins_id i (installations d))) (\<lambda>found.
         bindE (the_or found (ValueError ''installation not found'')) (\<lambda>installation.
         if ins_status installation = ''active'' then ret ()
         else bindE (raise_if (ins_status installation \<noteq> ''provisioning'')
                       (ValueError (''installation status '' @ ins_status installation))) (\<lambda>_.
              bindE (ensure_instance i) (\<lambda>_.
              modifies (installations_update (upd_row ins_id i (\<lambda>r. r\<lparr>ins_status := ''active''\<rparr>)))))))))) "

subsection \<open>The processor\<close>

record notice =
  ntc_channel :: string
  ntc_to :: json
  ntc_body :: payload

definition deliver_secret :: "string \<Rightarrow> payload \<Rightarrow> string list \<Rightarrow> notice list op" where
  "deliver_secret purpose p extra =
     (let secret_id = payload_value p ''delivery_secret_id''
      in bindE (raise_if (\<not> truthy secret_id) (ValueError ''delivery_secret_id required'')) (\<lambda>_.
         bindE (parse_uuid secret_id) (\<lambda>i.
         bindE (reads (\<lambda>d. get_row dsc_id i (delivery_secrets d))) (\<lambda>found.
         bindE (the_or (case found of None \<Rightarrow> None
                  | Some s \<Rightarrow> if dsc_purpose s \<noteq> purpose then None else Some s)
                  (ValueError ''delivery secret not found'')) (\<lambda>secret.
         if dsc_consumed_at secret \<noteq> None then ret []
         else bindE utcnow (\<lambda>now.
         let wipe = modifies (delivery_secrets_update (upd_row dsc_id i (\<lambda>s.
                      s\<lparr>dsc_secret_plain := None, dsc_consumed_at := Some now\<rparr>)))
         in if dsc_expires_at secret < now
            then bindE wipe (\<lambda>_. raise (ValueError ''delivery secret expired''))
            else bindE (raise_if (str_or (dsc_secret_plain secret) [] = [])
                          (ValueError ''delivery secret already wiped'')) (\<lambda>_.
                 bindE wipe (\<lambda>_.
                 ret [\<lparr>ntc_channel = purpose,
                       ntc_to = (case map_of p ''email'' of None \<Rightarrow> JStr [] | Some v \<Rightarrow> v),
                       ntc_body = (''secret'', JStr (str_or (dsc_secret_plain secret) []))
                          # map (\<lambda>k. (k, payload_value p k)) extra\<rparr>]))))))))"

definition handle_event :: "outbox_row \<Rightarrow> notice list op" where
  "handle_event row =
     (let p = obx_payload row
      in if obx_type row = ''send_verification_email''
         then deliver_secret ''verification_email'' p [''user_id'', ''verification_token_id'']
         else if obx_type row = ''send_password_reset_email''
         then deliver_secret ''password_reset_email'' p [''reset_token_id'']
         else if obx_type row = ''retry_keycloak_set_password''
         then ret [\<lparr>ntc_channel = ''keycloak_set_password_retry'', ntc_to = JStr ''keycloak'', ntc_body = p\<rparr>]
         else if obx_type row = ''scan_plugin_artifact'' then bindE (handle_scan p) (\<lambda>_. ret [])
         else if obx_type row = ''provision_service'' then bindE (handle_provision p) (\<lambda>_. ret [])
         else ret [])"

definition secret_keys :: "string list" where
  "secret_keys = [''otp_code'', ''reset_token'', ''secret'', ''password'']"

definition redacted :: "payload \<Rightarrow> payload" where
  "redacted p =
     filter (\<lambda>(k, _). k \<noteq> ''secret_redacted'') (filter (\<lambda>(k, _). k \<notin> set secret_keys) p)
     @ [(''secret_redacted'', JBool True)]"

definition processed_row :: "instant \<Rightarrow> outbox_row \<Rightarrow> outbox_row" where
  "processed_row now r =
     r\<lparr>obx_status := ''processed'', obx_processed_at := Some now, obx_payload := redacted (obx_payload r)\<rparr>"

definition failed_row :: "outbox_row \<Rightarrow> outbox_row" where
  "failed_row r =
     (let n = obx_retry_count r + 1
      in r\<lparr>obx_retry_count := n, obx_status := if n \<ge> 5 then ''dead'' else obx_status r\<rparr>)"

text \<open>One event: the notices it recorded, and whether it was processed.\<close>

definition process_event :: "outbox_row \<Rightarrow> (notice list \<times> bool) op" where
  "process_event row =
     catch
       (bindE (handle_event row) (\<lambda>notices.
        bindE utcnow (\<lambda>now.
        bindE (modifies (outbox_events_update (upd_row obx_id (obx_id row) (processed_row now)))) (\<lambda>_.
        ret (notices, True)))))
       (\<lambda>_. bindE (modifies (outbox_events_update (upd_row obx_id (obx_id row) failed_row))) (\<lambda>_.
            ret ([], False)))"

definition pending_events :: "database \<Rightarrow> outbox_row list" where
  "pending_events d = sort_key obx_created_at (filter (\<lambda>r. obx_status r = ''pending'') (outbox_events d))"

definition process_pending :: "nat \<Rightarrow> (notice list \<times> nat) op" where
  "process_pending limit =
     bindE (reads (\<lambda>d. take limit (pending_events d))) (\<lambda>rows.
     bindE (map_each rows process_event) (\<lambda>results.
     bindE commit (\<lambda>_.
     ret (concat (map fst results), length (filter snd results)))))"

end
