(* ===== verification/Catalog_Install.thy ===== *)
theory Catalog_Install
  imports Catalog_Public Outbox
begin

section \<open>Installing software\<close>

text \<open>
  \<open>install\<close>, \<open>list_entitlements\<close> and \<open>vendor_installs\<close> of \<open>CatalogService\<close>. \<open>temporal\<close> is
  \<open>settings.workflow_mode == "temporal"\<close>: then the provisioning is left to the outbox, otherwise it
  runs in the request. The offering name of an entitlement joins product and plan with a dash that is
  outside Latin-1, so the view keeps the two parts.
\<close>

record install_result =
  irs_installation_id :: uuid
  irs_offering_id :: uuid
  irs_tenant_id :: uuid
  irs_status :: string
  irs_entitlement_id :: uuid

record entitlement_item =
  eit_entitlement_id :: uuid
  eit_offering_name :: "string \<times> string"
  eit_status :: string
  eit_installation_status :: string
  eit_granted_at :: instant

record vendor_install_item =
  vii_installation_id :: uuid
  vii_tenant_name :: string
  vii_product_name :: string
  vii_fulfilment_type :: string
  vii_status :: string
  vii_since :: instant

text \<open>The offering of an installable product.\<close>

definition installable :: "uuid \<Rightarrow> uuid \<Rightarrow> (offering_row \<times> product_row) op" where
  "installable tenant_id offering_id =
     bindE (reads (\<lambda>d. get_row ten_id tenant_id (tenants d))) (\<lambda>found_tenant.
     bindE (raise_if (case found_tenant of None \<Rightarrow> True | Some t \<Rightarrow> ten_status t \<noteq> ''active'')
              (NotFoundError ''tenant not found'')) (\<lambda>_.
     bindE (published_offering offering_id) (\<lambda>(offering, product).
     bindE (reads content_review_required) (\<lambda>review_required.
     bindE (raise_if (review_required \<and> prd_pa_status product \<notin> {''live'', ''not_submitted''})
              (NotFoundError ''offering not found'')) (\<lambda>_.
     bindE (raise_if (prd_fulfilment_type product \<notin> set provision_types)
              (ConflictError ''this fulfilment type is ordered from the cart'')) (\<lambda>_.
     bindE (reads (\<lambda>d. get_row vnd_id (prd_vendor_id product) (vendor_profiles d))) (\<lambda>profile.
     bindE (raise_if (case profile of None \<Rightarrow> True | Some v \<Rightarrow> vnd_status v \<noteq> ''verified'')
              (ConflictError ''vendor is not accepting installs'')) (\<lambda>_.
     ret (offering, product)))))))))"

definition running_installs :: "database \<Rightarrow> uuid \<Rightarrow> uuid \<Rightarrow> installation_row list" where
  "running_installs d tenant offering_id =
     filter (\<lambda>r. ins_tenant_id r = tenant \<and> ins_offering_id r = offering_id
                 \<and> ins_status r \<in> {''provisioning'', ''active''}) (installations d)"

definition new_outbox_row :: "uuid \<Rightarrow> instant \<Rightarrow> string \<Rightarrow> payload \<Rightarrow> outbox_row" where
  "new_outbox_row i now kind p =
     \<lparr>obx_id = i, obx_type = kind, obx_payload = p, obx_status = ''pending'', obx_retry_count = 0,
      obx_created_at = now, obx_processed_at = None\<rparr>"

definition install ::
  "authz_ports \<Rightarrow> bool \<Rightarrow> uuid \<Rightarrow> uuid \<Rightarrow> uuid \<Rightarrow> uuid \<Rightarrow> uuid option \<Rightarrow> string list \<Rightarrow> string option
    \<Rightarrow> install_result op"
where
  "install P temporal tenant caller_user caller_principal offering_id project_id accepted_caps request_id =
     bindE (require_permission P caller_principal tenant ''resource.create'' request_id) (\<lambda>_.
     bindE (installable tenant offering_id) (\<lambda>(offering, product).
     bindE (resolve_project tenant project_id) (\<lambda>project.
     bindE (reads (\<lambda>d. approved_capabilities d (prd_plugin_id product))) (\<lambda>declared.
     let accepted = filter (\<lambda>s. s \<noteq> []) (map strip accepted_caps) in
     bindE (raise_if (set accepted \<noteq> set declared)
              (ConflictError ''accepted capabilities do not match the plugin version'')) (\<lambda>_.
     bindE (reads (\<lambda>d. running_installs d tenant offering_id)) (\<lambda>rows.
     bindE (one_or_none rows) (\<lambda>existing.
     bindE (raise_if (existing \<noteq> None) (ConflictError ''offering already installed'')) (\<lambda>_.
     bindE uuid4 (\<lambda>i.
     bindE uuid4 (\<lambda>e.
     bindE utcnow (\<lambda>now.
     bindE (modifies (installations_update (\<lambda>rows. rows @
        [\<lparr>ins_id = i, ins_offering_id = offering_id, ins_tenant_id = tenant, ins_project_id = project,
          ins_status = ''provisioning'', ins_accepted_capabilities = accepted, ins_created_at = now\<rparr>]))) (\<lambda>_.
     bindE (modifies (entitlements_update (\<lambda>rows. rows @
        [\<lparr>etl_id = e, etl_installation_id = i, etl_offering_id = offering_id, etl_tenant_id = tenant,
          etl_status = ''active'', etl_granted_at = now\<rparr>]))) (\<lambda>_.
     bindE uuid4 (\<lambda>o'.
     bindE (modifies (outbox_events_update (\<lambda>rows. rows @
        [new_outbox_row o' now ''provision_service'' [(''installation_id'', JUuid i)]]))) (\<lambda>_.
     bindE (if temporal then ret ()
            else bindE (handle_provision [(''installation_id'', JUuid i)]) (\<lambda>_.
                 modifies (outbox_events_update (upd_row obx_id o' (\<lambda>r. r\<lparr>obx_status := ''processed''\<rparr>))))) (\<lambda>_.
     bindE (audit ''installation.created'' (Some caller_user) (Some tenant)
              [(''installation_id'', JUuid i), (''entitlement_id'', JUuid e),
               (''offering_id'', JUuid offering_id)]) (\<lambda>_.
     bindE commit (\<lambda>_.
     ret \<lparr>irs_installation_id = i, irs_offering_id = offering_id, irs_tenant_id = tenant,
          irs_status = (if temporal then ''provisioning'' else ''active''),
          irs_entitlement_id = e\<rparr>))))))))))))))))))"

definition list_entitlements :: "authz_ports \<Rightarrow> uuid \<Rightarrow> uuid \<Rightarrow> string option \<Rightarrow> entitlement_item list op" where
  "list_entitlements P tenant caller_principal request_id =
     bindE (require_permission P caller_principal tenant ''resource.read'' request_id) (\<lambda>_.
     reads (\<lambda>d.
       [\<lparr>eit_entitlement_id = etl_id entitlement,
         eit_offering_name = (prd_name product, off_plan_name offering),
         eit_status = etl_status entitlement, eit_installation_status = ins_status installation,
         eit_granted_at = etl_granted_at entitlement\<rparr>.
        (entitlement, offering, product, installation) \<leftarrow>
          sort_desc (\<lambda>(entitlement, _). etl_granted_at entitlement)
            [(entitlement, offering, product, installation).
               entitlement \<leftarrow> entitlements d, offering \<leftarrow> offerings d, product \<leftarrow> products d,
               installation \<leftarrow> installations d,
               off_id offering = etl_offering_id entitlement \<and> prd_id product = off_product_id offering
               \<and> ins_id installation = etl_installation_id entitlement
               \<and> etl_tenant_id entitlement = tenant]]))"

definition vendor_installs :: "uuid \<Rightarrow> uuid \<Rightarrow> vendor_install_item list op" where
  "vendor_installs vendor caller =
     bindE (require_vendor_owner vendor caller) (\<lambda>_.
     reads (\<lambda>d.
       [\<lparr>vii_installation_id = ins_id installation, vii_tenant_name = ten_name tenant,
         vii_product_name = prd_name product, vii_fulfilment_type = prd_fulfilment_type product,
         vii_status = ins_status installation, vii_since = ins_created_at installation\<rparr>.
        (installation, product, tenant) \<leftarrow> sort_desc (\<lambda>(installation, _). ins_created_at installation)
          [(installation, product, tenant).
             installation \<leftarrow> installations d, offering \<leftarrow> offerings d, product \<leftarrow> products d,
             tenant \<leftarrow> tenants d,
             off_id offering = ins_offering_id installation \<and> prd_id product = off_product_id offering
             \<and> ten_id tenant = ins_tenant_id installation \<and> prd_vendor_id product = vendor]]))"

end
