(* ===== verification/Catalog_Views.thy ===== *)
theory Catalog_Views
  imports Catalog_Install "HOL-Library.Multiset"
begin

section \<open>What the catalog shows\<close>

text \<open>
  The catalog against an independent description of what is on sale, the pincodes of a city read back,
  and two pages that fail on data the service itself accepts.
\<close>

subsection \<open>Joins\<close>

text \<open>A join along keys finds at most one row, so it keeps the key of the table it starts from.\<close>

lemma length_concat_unique:
  assumes "distinct (map k xs)" and "\<And>x. f x \<noteq> [] \<Longrightarrow> k x = a" and "\<And>x. length (f x) \<le> Suc 0"
  shows "length (concat (map f xs)) \<le> Suc 0"
  using assms(1)
proof (induction xs)
  case (Cons x xs)
  show ?case
  proof (cases "f x = []")
    case False
    then have "k x = a" by (rule assms(2))
    with Cons.prems have "f y = []" if "y \<in> set xs" for y
      using that assms(2) [of y] by (cases "f y = []") (auto simp: image_iff)
    then have rest: "concat (map f xs) = []" by simp
    show ?thesis using assms(3) [of x] by (simp only: list.map concat.simps rest append_Nil2)
  next
    case True
    with Cons show ?thesis by simp
  qed
qed simp

lemma distinct_concat_keys:
  assumes "distinct (map g xs)" and "\<And>x. length (f x) \<le> Suc 0" and "\<And>x y. y \<in> set (f x) \<Longrightarrow> h y = g x"
  shows "distinct (map h (concat (map f xs)))"
  using assms(1)
proof (induction xs)
  case (Cons x xs)
  have "distinct (map h (f x))" using assms(2) [of x] by (cases "f x") auto
  moreover have "h y \<noteq> h z" if "y \<in> set (f x)" "z \<in> set (concat (map f xs))" for y z
  proof -
    from that(2) obtain x' where "x' \<in> set xs" "z \<in> set (f x')" by auto
    with that(1) Cons.prems assms(3) show ?thesis by (auto simp: image_iff)
  qed
  moreover have "distinct (map h (concat (map f xs)))" using Cons by simp
  ultimately show ?case by (auto simp: image_iff)
qed simp

subsection \<open>Cards\<close>

definition keyed_catalog :: "database \<Rightarrow> bool" where
  "keyed_catalog d \<longleftrightarrow> distinct (map off_id (offerings d)) \<and> distinct (map prd_id (products d))
     \<and> distinct (map vnd_id (vendor_profiles d))"

lemma catalog_base_iff:
  "(off, p, v) \<in> set (catalog_base d) \<longleftrightarrow>
     off \<in> set (offerings d) \<and> p \<in> set (products d) \<and> v \<in> set (vendor_profiles d)
     \<and> prd_id p = off_product_id off \<and> vnd_id v = prd_vendor_id p
     \<and> off_status off = ''published'' \<and> prd_status p = ''published''
     \<and> (content_review_required d \<longrightarrow> prd_pa_status p \<in> {''live'', ''not_submitted''})
     \<and> (prd_fulfilment_type p \<noteq> ''SHIP_PHYSICAL'' \<or> has_city d (prd_id p))"
  by (auto simp: catalog_base_def)

lemma catalog_base_distinct:
  assumes "keyed_catalog d"
  shows "distinct (map (\<lambda>(off, _). off_id off) (catalog_base d))"
  unfolding catalog_base_def
proof (rule distinct_concat_keys [where g = off_id])
  let ?P = "\<lambda>offering product profile. prd_id product = off_product_id offering \<and> vnd_id profile = prd_vendor_id product
        \<and> off_status offering = ''published'' \<and> prd_status product = ''published''
        \<and> (content_review_required d \<longrightarrow> prd_pa_status product \<in> {''live'', ''not_submitted''})
        \<and> (prd_fulfilment_type product \<noteq> ''SHIP_PHYSICAL'' \<or> has_city d (prd_id product))"
  show "distinct (map off_id (offerings d))" using assms by (simp add: keyed_catalog_def)
  show "length (concat (map (\<lambda>product. concat (map (\<lambda>profile.
      if ?P offering product profile then [(offering, product, profile)] else []) (vendor_profiles d))) (products d)))
      \<le> Suc 0" for offering
  proof (rule length_concat_unique [where k = prd_id and a = "off_product_id offering"])
    show "distinct (map prd_id (products d))" using assms by (simp add: keyed_catalog_def)
    show "prd_id product = off_product_id offering"
      if "concat (map (\<lambda>profile. if ?P offering product profile then [(offering, product, profile)] else [])
            (vendor_profiles d)) \<noteq> []" for product
      using that by (auto split: if_splits)
    show "length (concat (map (\<lambda>profile. if ?P offering product profile then [(offering, product, profile)] else [])
            (vendor_profiles d))) \<le> Suc 0" for product
      by (rule length_concat_unique [where k = vnd_id and a = "prd_vendor_id product"])
         (use assms in \<open>auto simp: keyed_catalog_def split: if_splits\<close>)
  qed
qed (auto split: if_splits)

lemma catalog_order_mset [simp]: "mset (catalog_order s rows) = mset rows"
  by (simp add: catalog_order_def sort_desc_def)

lemma set_catalog_order [simp]: "set (catalog_order s rows) = set rows"
  by (rule mset_eq_setD) simp

lemma catalog_order_distinct:
  "distinct (map f rows) \<Longrightarrow> distinct (map f (catalog_order s rows))"
  by (rule mset_eq_imp_distinct_iff [THEN iffD1, of "map f rows"]) simp_all

lemma catalog_order_sorted:
  "s = ''price_asc'' \<Longrightarrow> sorted (map (\<lambda>(off, _). off_price_usd off) (catalog_order s rows))"
  "s = ''price_desc'' \<Longrightarrow>
     sorted_wrt (\<lambda>(a, _) (b, _). off_price_usd b \<le> off_price_usd a) (catalog_order s rows)"
  using sort_desc_sorted [of "\<lambda>(off, _). off_price_usd off" rows]
  by (auto simp: catalog_order_def case_prod_unfold)

lemma catalog_cards_map:
  "catalog_cards d query = map (card_of d) (filter (\<lambda>(_, p, _). cqy_in_stock query \<longrightarrow> in_stock_now d p)
     (catalog_order (cqy_sort query) (filter (catalog_match d query) (catalog_base d))))"
proof -
  have "[card_of d (off, p, v). (off, p, v) \<leftarrow> rows, P p] = map (card_of d) (filter (\<lambda>(_, p, _). P p) rows)"
    for rows :: "listing list" and P
    by (induction rows) auto
  then show ?thesis unfolding catalog_cards_def .
qed

lemma catalog_cards_iff:
  "c \<in> set (catalog_cards d query) \<longleftrightarrow>
     (\<exists>off p v. (off, p, v) \<in> set (catalog_base d) \<and> catalog_match d query (off, p, v)
        \<and> (cqy_in_stock query \<longrightarrow> in_stock_now d p) \<and> c = card_of d (off, p, v))"
  by (auto simp: catalog_cards_map)

lemma vendor_facets_ids: "set (map vfc_vendor_id (vendor_facets rows)) = (\<lambda>(_, _, v). vnd_id v) ` set rows"
  by (force simp: vendor_facets_def)


text \<open>
  \<open>on_sale\<close>: an offering a visitor may see, with its product and vendor. It is published and so is its
  product, nobody is waiting for a review (or has refused the product), and a physical product is
  delivered somewhere.
\<close>

definition on_sale :: "database \<Rightarrow> offering_row \<Rightarrow> product_row \<Rightarrow> vendor_profile_row \<Rightarrow> bool" where
  "on_sale d off p v \<longleftrightarrow>
     p \<in> set (products d) \<and> prd_id p = off_product_id off
     \<and> v \<in> set (vendor_profiles d) \<and> vnd_id v = prd_vendor_id p
     \<and> off_status off = ''published'' \<and> prd_status p = ''published''
     \<and> (content_review_required d \<longrightarrow> prd_pa_status p = ''live'' \<or> prd_pa_status p = ''not_submitted'')
     \<and> (prd_fulfilment_type p = ''SHIP_PHYSICAL'' \<longrightarrow>
          (\<exists>l \<in> set (product_service_cities d). pcy_product_id l = prd_id p))"

lemma catalog_base_on_sale:
  "(off, p, v) \<in> set (catalog_base d) \<longleftrightarrow> off \<in> set (offerings d) \<and> on_sale d off p v"
  by (auto simp: catalog_base_iff on_sale_def has_city_def list_ex_iff)

lemma card_of_simps [simp]:
  "ccd_offering_id (card_of d (off, p, v)) = off_id off"
  "ccd_product_id (card_of d (off, p, v)) = prd_id p"
  "ccd_vendor_id (card_of d (off, p, v)) = vnd_id v"
  "ccd_price_usd (card_of d (off, p, v)) = off_price_usd off"
  "ccd_in_stock (card_of d (off, p, v)) = in_stock_now d p"
  by (simp_all add: card_of_def)

lemma catalog_match_facet: "catalog_match d query row \<Longrightarrow> facet_match query row"
  by (cases row) (simp add: catalog_match_def)

lemma catalog_match_price:
  "catalog_match d query (off, p, v) \<Longrightarrow> cqy_price_min query = Some m \<Longrightarrow> m \<le> off_price_usd off"
  "catalog_match d query (off, p, v) \<Longrightarrow> cqy_price_max query = Some m \<Longrightarrow> off_price_usd off \<le> m"
  by (simp_all add: catalog_match_def)

lemma catalog_cards_sorted:
  "cqy_sort query = ''price_asc'' \<Longrightarrow> sorted (map ccd_price_usd (catalog_cards d query))"
  "cqy_sort query = ''price_desc'' \<Longrightarrow>
     sorted_wrt (\<lambda>a b. b \<le> a) (map ccd_price_usd (catalog_cards d query))"
proof -
  let ?rows = "catalog_order (cqy_sort query) (filter (catalog_match d query) (catalog_base d))"
  let ?Q = "\<lambda>(_, p, _). cqy_in_stock query \<longrightarrow> in_stock_now d p"
  have price: "ccd_price_usd (card_of d row) = (\<lambda>(off, _). off_price_usd off) row" for row
    by (cases row) simp
  show "sorted (map ccd_price_usd (catalog_cards d query))" if "cqy_sort query = ''price_asc''"
  proof -
    have "sorted (map (\<lambda>(off, _). off_price_usd off) (filter ?Q ?rows))"
      by (rule sorted_filter) (rule catalog_order_sorted(1) [OF that])
    then show ?thesis by (simp add: catalog_cards_map price comp_def)
  qed
  show "sorted_wrt (\<lambda>a b. b \<le> a) (map ccd_price_usd (catalog_cards d query))"
    if "cqy_sort query = ''price_desc''"
  proof -
    have "sorted_wrt (\<lambda>(a, _) (b, _). off_price_usd b \<le> off_price_usd a) (filter ?Q ?rows)"
      by (rule sorted_wrt_filter) (rule catalog_order_sorted(2) [OF that])
    then show ?thesis by (simp add: catalog_cards_map sorted_wrt_map price case_prod_unfold)
  qed
qed

text \<open>
  C29. The catalog shows exactly what is on sale: for every filter it has one card for each offering on
  sale that matches, with prices inside the bounds and in the order asked for, and the vendor of every
  card is among the facets.
\<close>

theorem catalog_shows_exactly:
  assumes "keyed_catalog (db w)" and "catalog query w = (Inr (cards, facets), w')"
  shows "w' = w \<and> distinct (map ccd_offering_id cards)
     \<and> (\<forall>off \<in> set (offerings (db w)). off_id off \<in> ccd_offering_id ` set cards \<longleftrightarrow>
          (\<exists>p v. on_sale (db w) off p v \<and> catalog_match (db w) query (off, p, v)
             \<and> (cqy_in_stock query \<longrightarrow> in_stock_now (db w) p)))
     \<and> (\<forall>c \<in> set cards. \<exists>off p v. off \<in> set (offerings (db w)) \<and> on_sale (db w) off p v
          \<and> c = card_of (db w) (off, p, v))
     \<and> (\<forall>c \<in> set cards. (\<forall>m. cqy_price_min query = Some m \<longrightarrow> m \<le> ccd_price_usd c)
          \<and> (\<forall>m. cqy_price_max query = Some m \<longrightarrow> ccd_price_usd c \<le> m))
     \<and> (cqy_sort query = ''price_asc'' \<longrightarrow> sorted (map ccd_price_usd cards))
     \<and> (cqy_sort query = ''price_desc'' \<longrightarrow> sorted_wrt (\<lambda>a b. b \<le> a) (map ccd_price_usd cards))
     \<and> ccd_vendor_id ` set cards \<subseteq> vfc_vendor_id ` set facets"
proof -
  let ?d = "db w"
  have w': "w' = w" and cards: "cards = catalog_cards ?d query"
    and facets: "facets = vendor_facets (filter (facet_match query) (catalog_base ?d))"
    using assms(2) by (auto simp: catalog_def reads_run)
  have "distinct (map ccd_offering_id cards)"
  proof -
    have "distinct (map (\<lambda>(off, _). off_id off) (filter (catalog_match ?d query) (catalog_base ?d)))"
      by (rule distinct_map_filter) (rule catalog_base_distinct [OF assms(1)])
    from distinct_map_filter [OF catalog_order_distinct [OF this]]
    have "distinct (map (\<lambda>(off, _). off_id off) (filter (\<lambda>(_, p, _). cqy_in_stock query \<longrightarrow> in_stock_now ?d p)
        (catalog_order (cqy_sort query) (filter (catalog_match ?d query) (catalog_base ?d)))))" .
    moreover have "ccd_offering_id (card_of ?d row) = (\<lambda>(off, _). off_id off) row" for row
      by (cases row) simp
    ultimately show ?thesis by (simp add: cards catalog_cards_map comp_def)
  qed
  moreover have "off_id off \<in> ccd_offering_id ` set cards \<longleftrightarrow>
      (\<exists>p v. on_sale ?d off p v \<and> catalog_match ?d query (off, p, v)
             \<and> (cqy_in_stock query \<longrightarrow> in_stock_now ?d p))" if off: "off \<in> set (offerings ?d)" for off
  proof
    assume "off_id off \<in> ccd_offering_id ` set cards"
    then obtain off' p v where c: "off' \<in> set (offerings ?d)" "on_sale ?d off' p v"
      "catalog_match ?d query (off', p, v)" "cqy_in_stock query \<longrightarrow> in_stock_now ?d p" "off_id off = off_id off'"
      by (auto simp: cards catalog_cards_iff catalog_base_on_sale)
    from assms(1) have "inj_on off_id (set (offerings ?d))" by (simp add: keyed_catalog_def distinct_map)
    with off c(1,5) have "off' = off" by (auto dest: inj_onD)
    with c show "\<exists>p v. on_sale ?d off p v \<and> catalog_match ?d query (off, p, v)
             \<and> (cqy_in_stock query \<longrightarrow> in_stock_now ?d p)" by blast
  next
    assume "\<exists>p v. on_sale ?d off p v \<and> catalog_match ?d query (off, p, v)
             \<and> (cqy_in_stock query \<longrightarrow> in_stock_now ?d p)"
    then obtain p v where "card_of ?d (off, p, v) \<in> set cards"
      using off unfolding cards catalog_cards_iff catalog_base_on_sale by blast
    then show "off_id off \<in> ccd_offering_id ` set cards" by (rule rev_image_eqI) simp
  qed
  moreover have "\<exists>off p v. off \<in> set (offerings ?d) \<and> on_sale ?d off p v \<and> c = card_of ?d (off, p, v)"
    and "(\<forall>m. cqy_price_min query = Some m \<longrightarrow> m \<le> ccd_price_usd c)
          \<and> (\<forall>m. cqy_price_max query = Some m \<longrightarrow> ccd_price_usd c \<le> m)"
    and "ccd_vendor_id c \<in> vfc_vendor_id ` set facets" if "c \<in> set cards" for c
  proof -
    from that obtain off p v where c: "(off, p, v) \<in> set (catalog_base ?d)"
      "catalog_match ?d query (off, p, v)" "c = card_of ?d (off, p, v)"
      unfolding cards catalog_cards_iff by blast
    then show "\<exists>off p v. off \<in> set (offerings ?d) \<and> on_sale ?d off p v \<and> c = card_of ?d (off, p, v)"
      unfolding catalog_base_on_sale by blast
    show "(\<forall>m. cqy_price_min query = Some m \<longrightarrow> m \<le> ccd_price_usd c)
          \<and> (\<forall>m. cqy_price_max query = Some m \<longrightarrow> ccd_price_usd c \<le> m)"
      using catalog_match_price [OF c(2)] by (simp add: c(3))
    have "(off, p, v) \<in> set (filter (facet_match query) (catalog_base ?d))"
      using c(1) catalog_match_facet [OF c(2)] by simp
    then have "vnd_id v \<in> set (map vfc_vendor_id facets)"
      unfolding facets vendor_facets_ids by (rule rev_image_eqI) simp
    then show "ccd_vendor_id c \<in> vfc_vendor_id ` set facets" by (simp add: c(3))
  qed
  ultimately show ?thesis using w' catalog_cards_sorted [of query ?d] by (simp add: cards subset_iff image_iff) blast
qed


subsection \<open>Reading back the pincodes of a city\<close>

lemma reads_only_catalog [reads_only_intros]:
  "reads_only (vendor_default_currency v)" "reads_only (normalize_currency c)"
  "reads_only (normalize_optional_currency oc)" "reads_only (owned_product i u)"
  "reads_only (owned_city v i)" "reads_only (owned_warehouse v i)" "reads_only (vendor_cities v is)"
  "reads_only (resolve_project t pr)" "reads_only (patched_currency oc)" "reads_only (pending_product i)"
  unfolding vendor_default_currency_def normalize_currency_def normalize_optional_currency_def
    owned_product_def owned_city_def owned_warehouse_def vendor_cities_def resolve_project_def
    patched_currency_def pending_product_def Let_def
  by (intro reads_only_intros reads_only_checks)+

lemmas step_ok_catalog [step_ok] =
  step_ok_reads_only [OF reads_only_catalog(1)] step_ok_reads_only [OF reads_only_catalog(2)]
  step_ok_reads_only [OF reads_only_catalog(3)] step_ok_reads_only [OF reads_only_catalog(4)]
  step_ok_reads_only [OF reads_only_catalog(5)] step_ok_reads_only [OF reads_only_catalog(6)]
  step_ok_reads_only [OF reads_only_catalog(7)] step_ok_reads_only [OF reads_only_catalog(8)]
  step_ok_reads_only [OF reads_only_catalog(9)] step_ok_reads_only [OF reads_only_catalog(10)]

lemma owned_city_okD:
  "owned_city v i w = (Inr c, w') \<Longrightarrow> get_row sct_id i (service_cities (db w)) = Some c \<and> sct_vendor_id c = v"
  unfolding owned_city_def by (simp only: step_ok the_or_checked_ok) simp

lemma owned_product_okD:
  assumes "owned_product i u w = (Inr p, w')"
  shows "get_row prd_id i (products (db w)) = Some p \<and> owns_vendor (db w) (prd_vendor_id p) u"
proof -
  from assms obtain v where p: "get_row prd_id i (products (db w)) = Some p"
    and v: "require_vendor_owner (prd_vendor_id p) u w = (Inr v, w)"
    unfolding owned_product_def by (simp only: step_ok) blast
  from p require_vendor_owner_okD(2) [OF v] show ?thesis by simp
qed

lemma reads_only_collect [reads_only_intros]: "reads_only (collect_pincodes acc raws)"
  by (induction acc raws rule: collect_pincodes.induct) (auto simp: Let_def intro!: reads_only_intros)

lemma reads_only_validate_pincodes [reads_only_intros]: "reads_only (validate_pincodes raws)"
  unfolding validate_pincodes_def by (rule reads_only_collect)

lemmas step_ok_pincodes [step_ok] = step_ok_reads_only [OF reads_only_validate_pincodes]

lemma collect_pincodes_ok:
  assumes "collect_pincodes acc raws w = (Inr pins, w')" and "distinct acc"
  shows "distinct pins \<and> set pins = set acc \<union> strip ` set raws \<and> (\<forall>raw \<in> set raws. is_pincode (strip raw))"
  using assms
proof (induction acc raws rule: collect_pincodes.induct)
  case (1 acc)
  then show ?case by (simp add: step_ok)
next
  case (2 acc raw rest)
  let ?acc = "if strip raw \<in> set acc then acc else acc @ [strip raw]"
  from "2.prems"(1) have "is_pincode (strip raw)" "collect_pincodes ?acc rest w = (Inr pins, w')"
    by (simp_all add: Let_def step_ok)
  moreover have "distinct ?acc" using "2.prems"(2) by auto
  ultimately show ?case using "2.IH" [of "strip raw"] by auto
qed

definition pin_row :: "uuid \<Rightarrow> uuid \<Rightarrow> string \<Rightarrow> city_pincode_row" where
  "pin_row city_id i pin = \<lparr>cpn_id = i, cpn_city_id = city_id, cpn_pincode = pin\<rparr>"

lemma set_city_pincodes_okD:
  assumes "set_city_pincodes v u i raws w = (Inr x, w')"
  shows "owns_vendor (db w) v u \<and> (\<exists>c. get_row sct_id i (service_cities (db w)) = Some c \<and> sct_vendor_id c = v)
     \<and> (\<exists>pins n. distinct pins \<and> set pins = strip ` set raws \<and> (\<forall>raw \<in> set raws. is_pincode (strip raw))
          \<and> db w' = (db w)\<lparr>city_pincodes := filter (\<lambda>p. cpn_city_id p \<noteq> i) (city_pincodes (db w))
                             @ inserted_rows (pin_row i) n pins\<rparr> \<and> disk w' = db w')"
proof -
  have ins: "insert_each city_pincodes_update (\<lambda>j pin. \<lparr>cpn_id = j, cpn_city_id = i, cpn_pincode = pin\<rparr>)
      = insert_each city_pincodes_update (pin_row i)"
    by (intro arg_cong [of _ _ "insert_each city_pincodes_update"] ext) (simp add: pin_row_def)
  from assms obtain p c pins where own: "require_vendor_owner v u w = (Inr p, w)"
    and c: "owned_city v i w = (Inr c, w)" and pins: "validate_pincodes raws w = (Inr pins, w)"
    and rest: "bindE (insert_each city_pincodes_update (pin_row i) pins) (\<lambda>_. bindE commit (\<lambda>_.
       ret \<lparr>scv_city_id = sct_id c, scv_city_name = sct_city_name c, scv_warehouse_id = sct_warehouse_id c,
            scv_pincodes = pins, scv_currency = None, scv_resolved_currency = ''INR''\<rparr>))
       (w\<lparr>db := city_pincodes_update (filter (\<lambda>p. cpn_city_id p \<noteq> i)) (db w)\<rparr>) = (Inr x, w')"
    unfolding set_city_pincodes_def ins by (simp only: step_ok) blast
  have "insert_each city_pincodes_update (pin_row i) pins w0 = (Inr (), w0\<lparr>next_uuid := next_uuid w0 + length pins,
      db := city_pincodes_update (\<lambda>rows. rows @ inserted_rows (pin_row i) (next_uuid w0) pins) (db w0)\<rparr>)" for w0
    by (rule insert_each_run) simp_all
  with rest have w': "db w' = (db w)\<lparr>city_pincodes := filter (\<lambda>p. cpn_city_id p \<noteq> i) (city_pincodes (db w))
      @ inserted_rows (pin_row i) (next_uuid w) pins\<rparr>" "disk w' = db w'"
    by (auto simp: bindE_run run_simps)
  from collect_pincodes_ok [OF pins [unfolded validate_pincodes_def]]
  have "distinct pins \<and> set pins = strip ` set raws \<and> (\<forall>raw \<in> set raws. is_pincode (strip raw))" by simp
  with w' owned_city_okD [OF c] require_vendor_owner_okD(2) [OF own] show ?thesis by blast
qed

lemma inserted_pins:
  "map cpn_pincode (inserted_rows (pin_row i) n pins) = pins"
  "p \<in> set (inserted_rows (pin_row i) n pins) \<Longrightarrow> cpn_city_id p = i"
  by (induction pins arbitrary: n) (auto simp: pin_row_def)

lemma pins_after:
  assumes "city_pincodes d' = filter (\<lambda>p. cpn_city_id p \<noteq> i) (city_pincodes d) @ inserted_rows (pin_row i) n pins"
  shows "pins_of_city d' j = (if j = i then sort pins else pins_of_city d j)"
proof -
  have new: "filter (\<lambda>p. cpn_city_id p = j) (inserted_rows (pin_row i) n pins)
      = (if j = i then inserted_rows (pin_row i) n pins else [])"
    using inserted_pins(2) [of _ i n pins] by (auto simp: filter_id_conv filter_empty_conv)
  have old: "filter (\<lambda>p. cpn_city_id p \<noteq> i \<and> cpn_city_id p = j) (city_pincodes d)
      = (if j = i then [] else filter (\<lambda>p. cpn_city_id p = j) (city_pincodes d))"
    by (auto simp: filter_empty_conv intro!: filter_cong)
  show ?thesis using inserted_pins(1) [of i n pins] by (simp add: pins_of_city_def assms new old)
qed

lemma list_service_cities_ok:
  "list_service_cities v u w = (Inr views, w') \<Longrightarrow> w' = w \<and> views = map (service_city_view_of (db w) (default_currency (db w) v))
     (sort_key sct_city_name (filter (\<lambda>c. sct_vendor_id c = v) (service_cities (db w))))"
  unfolding list_service_cities_def vendor_default_currency_def by (simp only: step_ok) blast

text \<open>
  The pincodes of a city read back as they were set: after a successful \<open>set_city_pincodes\<close>, every
  given pincode had six digits, the listing shows the city with exactly the given pincodes, trimmed,
  each once and in order, and the pincodes of all other cities are what they were.
\<close>

theorem pincodes_read_back:
  assumes "request (set_city_pincodes v u i raws) w = (Inr x, w1)"
    and "list_service_cities v u' w1 = (Inr views, w2)"
  shows "(\<forall>raw \<in> set raws. is_pincode (strip raw))
     \<and> (\<exists>view \<in> set views. scv_city_id view = i \<and> set (scv_pincodes view) = strip ` set raws
          \<and> sorted (scv_pincodes view) \<and> distinct (scv_pincodes view))
     \<and> (\<forall>view \<in> set views. scv_city_id view \<noteq> i \<longrightarrow>
          scv_pincodes view = pins_of_city (db w) (scv_city_id view))"
proof -
  from assms(1) obtain w0 where ok: "set_city_pincodes v u i raws w = (Inr x, w0)" and w1: "w1 = w0\<lparr>db := disk w0\<rparr>"
    by (auto simp: request_ok)
  from set_city_pincodes_okD [OF ok] obtain c pins n where
    c: "get_row sct_id i (service_cities (db w)) = Some c" "sct_vendor_id c = v"
    and pins: "distinct pins" "set pins = strip ` set raws" "\<forall>raw \<in> set raws. is_pincode (strip raw)"
    and w0: "db w0 = (db w)\<lparr>city_pincodes := filter (\<lambda>p. cpn_city_id p \<noteq> i) (city_pincodes (db w))
                             @ inserted_rows (pin_row i) n pins\<rparr>" "disk w0 = db w0"
    by blast
  have db: "db w1 = (db w)\<lparr>city_pincodes := filter (\<lambda>p. cpn_city_id p \<noteq> i) (city_pincodes (db w))
                             @ inserted_rows (pin_row i) n pins\<rparr>"
    using w0 by (simp add: w1)
  have after: "pins_of_city (db w1) j = (if j = i then sort pins else pins_of_city (db w) j)" for j
    by (rule pins_after [where n = n]) (simp add: db)
  have views: "views = map (service_city_view_of (db w1) (default_currency (db w1) v))
     (sort_key sct_city_name (filter (\<lambda>c. sct_vendor_id c = v) (service_cities (db w))))"
    using list_service_cities_ok [OF assms(2)] by (simp add: db)
  have "c \<in> set (service_cities (db w))" "sct_id c = i" using get_row_Some [OF c(1)] by auto
  then have "service_city_view_of (db w1) (default_currency (db w1) v) c \<in> set views" using c(2) by (simp add: views)
  moreover have "scv_pincodes (service_city_view_of (db w1) (default_currency (db w1) v) c) = sort pins"
    "scv_city_id (service_city_view_of (db w1) (default_currency (db w1) v) c) = i"
    using \<open>sct_id c = i\<close> by (simp_all add: service_city_view_of_def after)
  ultimately show ?thesis using pins
    by (auto simp: views service_city_view_of_def after intro!: bexI [of _ "service_city_view_of (db w1) (default_currency (db w1) v) c"])
qed


subsection \<open>Two pages that fail\<close>

lemma set_product_service_cities_okD:
  assumes "set_product_service_cities i u cs w = (Inr x, w')"
  shows "\<exists>p. get_row prd_id i (products (db w)) = Some p \<and> owns_vendor (db w) (prd_vendor_id p) u
     \<and> prd_fulfilment_type p = ''SHIP_PHYSICAL''
     \<and> db w' = (db w)\<lparr>product_service_cities := filter (\<lambda>l. pcy_product_id l \<noteq> i) (product_service_cities (db w))
         @ map (\<lambda>c. \<lparr>pcy_product_id = i, pcy_city_id = c\<rparr>) (remdups cs)\<rparr> \<and> disk w' = db w'"
  using assms unfolding set_product_service_cities_def replace_product_cities_def
  apply (simp only: step_ok)
  apply (elim exE conjE)
  apply (rule exI, rule conjI, erule owned_product_okD [THEN conjunct1])
  apply (rule conjI, erule owned_product_okD [THEN conjunct2])
  apply simp
  done

text \<open>
  A product delivered to two cities has no page: once its owner has set two or more service cities
  on a published and reviewed product, the catalog still offers it, but \<open>product_detail\<close> fails with an
  internal error, because it expects at most one city row.
\<close>

theorem two_cities_no_page:
  assumes "request (set_product_service_cities i u cs) w = (Inr x, w')" and "2 \<le> card (set cs)"
    and "get_row prd_id i (products (db w)) = Some p" and "prd_status p = ''published''"
    and "prd_pa_status p = ''live''"
  shows "product_detail i w' = (Inl MultipleResultsFound, w') \<and> http_status MultipleResultsFound = 500
     \<and> (\<forall>off v. off \<in> set (offerings (db w')) \<and> off_product_id off = i \<and> off_status off = ''published''
          \<and> get_row vnd_id (prd_vendor_id p) (vendor_profiles (db w')) = Some v \<longrightarrow> on_sale (db w') off p v)"
proof -
  from assms(1) obtain w0 where ok: "set_product_service_cities i u cs w = (Inr x, w0)" and w': "w' = w0\<lparr>db := disk w0\<rparr>"
    by (auto simp: request_ok)
  from set_product_service_cities_okD [OF ok] assms(3)
  have ft: "prd_fulfilment_type p = ''SHIP_PHYSICAL''"
    and w0: "db w0 = (db w)\<lparr>product_service_cities := filter (\<lambda>l. pcy_product_id l \<noteq> i) (product_service_cities (db w))
         @ map (\<lambda>c. \<lparr>pcy_product_id = i, pcy_city_id = c\<rparr>) (remdups cs)\<rparr>" "disk w0 = db w0" by auto
  have db: "db w' = (db w)\<lparr>product_service_cities := filter (\<lambda>l. pcy_product_id l \<noteq> i) (product_service_cities (db w))
         @ map (\<lambda>c. \<lparr>pcy_product_id = i, pcy_city_id = c\<rparr>) (remdups cs)\<rparr>" using w0 by (simp add: w')
  have id: "prd_id p = i" using get_row_Some [OF assms(3)] by simp
  let ?rows = "filter (\<lambda>l. pcy_product_id l = prd_id p) (product_service_cities (db w'))"
  have rows: "?rows = map (\<lambda>c. \<lparr>pcy_product_id = i, pcy_city_id = c\<rparr>) (remdups cs)"
    by (simp add: db id filter_empty_conv filter_map comp_def)
  then have len: "2 \<le> length ?rows" using assms(2) by (simp add: length_remdups_card_conv)
  then obtain a b rest where "?rows = a # b # rest" by (cases ?rows; cases "tl ?rows") auto
  then have "one_or_none ?rows w' = (Inl MultipleResultsFound, w')" by (simp add: raise_run)
  moreover have "published_product i w' = (Inr p, w')" using assms(3,4) by (simp add: published_product_ok db)
  ultimately have "product_detail i w' = (Inl MultipleResultsFound, w')"
    using assms(5) ft by (simp add: product_detail_def require_city_def step_run bindE_run reads_run raise_if_run)
  moreover have "on_sale (db w') off p v" if "off \<in> set (offerings (db w'))" "off_product_id off = i"
      "off_status off = ''published''" "get_row vnd_id (prd_vendor_id p) (vendor_profiles (db w')) = Some v" for off v
  proof -
    from len obtain l where "l \<in> set ?rows" by (cases ?rows) auto
    then have "\<exists>l \<in> set (product_service_cities (db w')). pcy_product_id l = prd_id p" by auto
    moreover have "p \<in> set (products (db w'))" using get_row_Some [OF assms(3)] by (simp add: db)
    ultimately show ?thesis using that assms(4,5) get_row_Some [OF that(4)] id by (auto simp: on_sale_def)
  qed
  ultimately show ?thesis by simp
qed

lemma py_list_err: "py_list v w = (Inl e, w') \<Longrightarrow> http_status e = 500"
  by (cases v) (auto simp: run_simps)

lemma py_float_err: "py_float v w = (Inl e, w') \<Longrightarrow> http_status e = 500"
  by (cases v) (auto simp: run_simps split: option.splits)

lemma enrich_err: "enrich_product_item p w = (Inl e, w') \<Longrightarrow> http_status e = 500"
  unfolding enrich_product_item_def
  by (auto simp: err_iff reads_run ret_run ok_iff dest: py_list_err py_float_err)

lemma reads_only_py [reads_only_intros]: "reads_only (py_list v)" "reads_only (py_float v)"
  by (cases v; auto intro!: reads_only_intros)+

lemma reads_only_enrich [reads_only_intros]: "reads_only (enrich_product_item p)"
  unfolding enrich_product_item_def by (intro reads_only_intros)

lemma enrich_bad_mrp:
  assumes "get_or (product_payload (db w) (prd_id p)) ''mrp_inr'' (JInt 0) = JStr s" and "parse_float s = None"
  shows "\<exists>e. enrich_product_item p w = (Inl e, w) \<and> http_status e = 500"
proof -
  have "enrich_product_item p w \<noteq> (Inr y, w')" for y w'
    using assms unfolding enrich_product_item_def
    by (auto simp: step_ok step_ok_reads_only [OF reads_only_py(1)] step_ok_reads_only [OF reads_only_py(2)])
  then obtain e w' where e: "enrich_product_item p w = (Inl e, w')"
    by (metis (no_types) obj_sumE prod.exhaust)
  with reads_onlyD [OF reads_only_enrich e] enrich_err [OF e] show ?thesis by blast
qed

lemma map_each_fails:
  assumes "p \<in> set ps" and "\<And>x. reads_only (f x)" and "\<exists>e. f p w = (Inl e, w) \<and> Q e"
    and "\<And>x e w'. f x w = (Inl e, w') \<Longrightarrow> Q e"
  shows "\<exists>e. map_each ps f w = (Inl e, w) \<and> Q e"
  using assms(1)
proof (induction ps)
  case (Cons x ps)
  obtain r w1 where x: "f x w = (r, w1)" by fastforce
  have w1: "w1 = w" by (rule reads_onlyD [OF assms(2) x])
  show ?case
  proof (cases r)
    case (Inl e)
    with x w1 assms(4) [of x e w1] show ?thesis by (simp add: bindE_run)
  next
    case (Inr y)
    with x w1 assms(3) have "p \<noteq> x" by auto
    with Cons obtain e where "map_each ps f w = (Inl e, w)" "Q e" by auto
    with x w1 Inr show ?thesis by (simp add: bindE_run)
  qed
qed simp

lemma reads_only_plugin_category [reads_only_intros]: "reads_only (plugin_category v i c)"
  unfolding plugin_category_def by (intro reads_only_intros)

lemmas step_ok_plugin_category [step_ok] = step_ok_reads_only [OF reads_only_plugin_category]

lemma create_product_okD:
  assumes "create_product v u name description plugin ftype content category w = (Inr x, w')"
  shows "\<exists>profile cat log. require_vendor_owner v u w = (Inr profile, w) \<and> vnd_status profile = ''verified''
     \<and> db w' = (product_contents_update (\<lambda>rows. rows @
            [\<lparr>pct_product_id = next_uuid w, pct_payload = (case content of None \<Rightarrow> [] | Some c \<Rightarrow> c)\<rparr>])
          (products_update (\<lambda>rows. rows @
            [new_product (next_uuid w) (clock w) v plugin (strip name) (strip description) cat ftype])
          (db w)))\<lparr>audit_log := log\<rparr> \<and> disk w' = db w'"
  using assms unfolding create_product_def Let_def
  apply (simp only: step_ok)
  apply (elim exE conjE)
  apply (rule exI, rule exI, rule exI, rule conjI, assumption)
  apply simp
  done

lemma require_vendor_owner_transfer:
  assumes "require_vendor_owner v u w = (Inr p, w)"
    and "vendor_profiles (db w') = vendor_profiles (db w)" and "org_memberships (db w') = org_memberships (db w)"
  shows "require_vendor_owner v u w' = (Inr p, w')"
proof -
  from assms(1) obtain m where m: "get_row vnd_id v (vendor_profiles (db w)) = Some p"
    "one_or_none (filter (\<lambda>m. omb_organization_id m = vnd_organization_id p \<and> omb_user_id m = u
       \<and> omb_role m = ''owner'' \<and> omb_status m = ''active'') (org_memberships (db w))) w = (Inr (Some m), w)"
    unfolding require_vendor_owner_def by (auto simp: ok_iff)
  then have "filter (\<lambda>m. omb_organization_id m = vnd_organization_id p \<and> omb_user_id m = u
       \<and> omb_role m = ''owner'' \<and> omb_status m = ''active'') (org_memberships (db w)) = [m]"
    by (auto simp: ok_iff)
  with m(1) show ?thesis by (simp add: require_vendor_owner_def assms(2,3) run_simps)
qed

text \<open>
  One malformed document hides a whole shop: a product may be created with any content document, but
  when its \<open>mrp_inr\<close> is a text that is no number, the vendor's product list fails with an internal error
  from then on.
\<close>

theorem bad_content_hides_products:
  assumes "request (create_product v u name description plugin ftype (Some doc) category) w = (Inr x, w')"
    and "get_or doc ''mrp_inr'' (JInt 0) = JStr s" and "parse_float s = None"
    and "\<forall>c \<in> set (product_contents (db w)). pct_product_id c < next_uuid w"
  shows "\<exists>e. list_products v u w' = (Inl e, w') \<and> http_status e = 500"
proof -
  from assms(1) obtain w0 where ok: "create_product v u name description plugin ftype (Some doc) category w = (Inr x, w0)"
    and w': "w' = w0\<lparr>db := disk w0\<rparr>" by (auto simp: request_ok)
  from create_product_okD [OF ok] obtain profile cat log where own: "require_vendor_owner v u w = (Inr profile, w)"
    and w0: "db w0 = (product_contents_update (\<lambda>rows. rows @
            [\<lparr>pct_product_id = next_uuid w, pct_payload = (case Some doc of None \<Rightarrow> [] | Some c \<Rightarrow> c)\<rparr>])
          (products_update (\<lambda>rows. rows @
            [new_product (next_uuid w) (clock w) v plugin (strip name) (strip description) cat ftype])
          (db w)))\<lparr>audit_log := log\<rparr>" "disk w0 = db w0" by blast
  let ?p = "new_product (next_uuid w) (clock w) v plugin (strip name) (strip description) cat ftype"
  have db: "db w' = (db w)\<lparr>products := products (db w) @ [?p],
          product_contents := product_contents (db w) @ [\<lparr>pct_product_id = next_uuid w, pct_payload = doc\<rparr>],
          audit_log := log\<rparr>" using w0 by (simp add: w')
  have own': "require_vendor_owner v u w' = (Inr profile, w')"
    by (rule require_vendor_owner_transfer [OF own]) (simp_all add: db)
  have "get_row pct_product_id (next_uuid w) (product_contents (db w)) = None"
    using assms(4) by (auto simp: get_row_None)
  then have "product_payload (db w') (prd_id ?p) = doc"
    by (simp add: product_payload_def db get_row_append new_product_def)
  with assms(2,3) have "\<exists>e. enrich_product_item ?p w' = (Inl e, w') \<and> http_status e = 500"
    by (intro enrich_bad_mrp) simp_all
  moreover have "?p \<in> set (sort_desc prd_created_at (filter (\<lambda>p. prd_vendor_id p = v) (products (db w'))))"
    by (simp add: db new_product_def)
  ultimately have "\<exists>e. enrich_product_items (sort_desc prd_created_at
      (filter (\<lambda>p. prd_vendor_id p = v) (products (db w')))) w' = (Inl e, w') \<and> http_status e = 500"
    unfolding enrich_product_items_def by (intro map_each_fails reads_only_enrich) (auto dest: enrich_err)
  then show ?thesis by (simp add: list_products_def step_run step_run_bind [where m = "require_vendor_owner v u", OF own'])
qed


subsection \<open>A sample catalog\<close>

text \<open>A verified vendor (2, owned by user 5) with one physical product in two cities.\<close>

definition catalog_product :: "string \<Rightarrow> string \<Rightarrow> product_row" where
  "catalog_product status pa_status =
     \<lparr>prd_id = 10, prd_vendor_id = 2, prd_plugin_id = None, prd_name = ''n'', prd_description = [],
      prd_category = [], prd_fulfilment_type = ''SHIP_PHYSICAL'', prd_status = status,
      prd_pa_status = pa_status, prd_pa_reject_reason = [], prd_archived_at = None,
      prd_created_at = 0, prd_updated_at = 0\<rparr>"

definition catalog_offering :: "uuid \<Rightarrow> string \<Rightarrow> offering_row" where
  "catalog_offering i status =
     \<lparr>off_id = i, off_product_id = 10, off_plan_name = [], off_billing_period = [], off_price_usd = 100,
      off_currency = [], off_included_transactions = None, off_overage_price_per_1k = None,
      off_status = status, off_created_at = 0\<rparr>"

definition catalog_city :: "uuid \<Rightarrow> string \<Rightarrow> service_city_row" where
  "catalog_city i name =
     \<lparr>sct_id = i, sct_vendor_id = 2, sct_city_name = name, sct_warehouse_id = 40, sct_currency = None\<rparr>"

definition catalog_db :: "product_row \<Rightarrow> offering_row list \<Rightarrow> database" where
  "catalog_db product offs = empty_db\<lparr>
     vendor_profiles := [\<lparr>vnd_id = 2, vnd_organization_id = 3, vnd_legal_name = ''v'', vnd_tax_id = None,
       vnd_payout_bank_account = None, vnd_contact_email = [], vnd_business_doc_url = None,
       vnd_status = ''verified'', vnd_created_at = 0\<rparr>],
     organizations := [\<lparr>org_id = 1, org_name = [], org_slug = [], org_type = [], org_participation = [],
       org_is_platform_operator = True, org_keycloak_realm_ref = None, org_status = ''active'', org_created_at = 0\<rparr>],
     org_memberships := [\<lparr>omb_id = 9, omb_organization_id = 3, omb_user_id = 5,
                           omb_role = ''owner'', omb_status = ''active''\<rparr>,
                         \<lparr>omb_id = 8, omb_organization_id = 1, omb_user_id = 7,
                           omb_role = ''owner'', omb_status = ''active''\<rparr>],
     products := [product], offerings := offs,
     service_cities := [catalog_city 20 ''a'', catalog_city 21 ''b''],
     product_service_cities := [\<lparr>pcy_product_id = 10, pcy_city_id = 20\<rparr>]\<rparr>"

abbreviation fresh_world :: "database \<Rightarrow> world" where
  "fresh_world d \<equiv> \<lparr>db = d, disk = d, clock = 1000, next_uuid = 1000\<rparr>"

abbreviation catalog_world :: world where
  "catalog_world \<equiv> fresh_world (catalog_db (catalog_product ''published'' ''live'') [catalog_offering 4 ''published''])"

lemma catalog_world_runs:
  "case catalog home_query catalog_world of (Inl _, _) \<Rightarrow> False | (Inr (cards, _), _) \<Rightarrow> map ccd_offering_id cards = [4]"
  "case request (set_product_service_cities 10 5 [20, 21, 20]) catalog_world of (Inl _, _) \<Rightarrow> False | (Inr _, _) \<Rightarrow> True"
  "case request (create_product 2 5 ''k'' [] None ''SHIP_PHYSICAL'' (Some [(''mrp_inr'', JStr ''x'')]) (Some ''c''))
     catalog_world of (Inl _, _) \<Rightarrow> False | (Inr _, _) \<Rightarrow> True"
  "case request (set_city_pincodes 2 5 20 ['' 411001'', ''411001'']) catalog_world of (Inl _, _) \<Rightarrow> False
   | (Inr _, w1) \<Rightarrow> (case list_service_cities 2 5 w1 of (Inl _, _) \<Rightarrow> False | (Inr _, _) \<Rightarrow> True)"
  by code_simp+

theorem catalog_shows_exactly_witness:
  "\<exists>cards facets w'. catalog home_query catalog_world = (Inr (cards, facets), w')
     \<and> map ccd_offering_id cards = [4] \<and> ccd_vendor_id ` set cards \<subseteq> vfc_vendor_id ` set facets"
proof -
  from catalog_world_runs(1) obtain cards facets w' where
    e: "catalog home_query catalog_world = (Inr (cards, facets), w')" "map ccd_offering_id cards = [4]"
    by (auto split: prod.splits sum.splits)
  have k: "keyed_catalog (db catalog_world)"
    by (simp add: keyed_catalog_def catalog_db_def catalog_product_def)
  from catalog_shows_exactly [OF k e(1)]
  have "ccd_vendor_id ` set cards \<subseteq> vfc_vendor_id ` set facets" by (elim conjE)
  with e show ?thesis by (intro exI conjI)
qed

theorem pincodes_read_back_witness:
  "\<exists>x w1 views w2. request (set_city_pincodes 2 5 20 ['' 411001'', ''411001'']) catalog_world = (Inr x, w1)
     \<and> list_service_cities 2 5 w1 = (Inr views, w2)
     \<and> (\<exists>view \<in> set views. scv_city_id view = 20 \<and> set (scv_pincodes view) = {''411001''})"
proof -
  from catalog_world_runs(4) obtain x w1 views w2 where
    e: "request (set_city_pincodes 2 5 20 ['' 411001'', ''411001'']) catalog_world = (Inr x, w1)"
      "list_service_cities 2 5 w1 = (Inr views, w2)"
    by (auto split: prod.splits sum.splits)
  have "strip ` set ['' 411001'', ''411001''] = {''411001''}" by code_simp
  with pincodes_read_back [OF e] e show ?thesis by auto
qed

theorem two_cities_no_page_witness:
  "\<exists>x w'. request (set_product_service_cities 10 5 [20, 21, 20]) catalog_world = (Inr x, w')
     \<and> product_detail 10 w' = (Inl MultipleResultsFound, w')"
proof -
  from catalog_world_runs(2) obtain x w' where
    e: "request (set_product_service_cities 10 5 [20, 21, 20]) catalog_world = (Inr x, w')"
    by (auto split: prod.splits sum.splits)
  have p: "get_row prd_id 10 (products (db catalog_world)) = Some (catalog_product ''published'' ''live'')"
    by (simp add: catalog_db_def catalog_product_def)
  have "2 \<le> card (set [20, 21, 20 :: uuid])" by (simp add: card_insert_if)
  from two_cities_no_page [OF e this p] have "product_detail 10 w' = (Inl MultipleResultsFound, w')"
    by (simp add: catalog_product_def)
  with e show ?thesis by (intro exI conjI)
qed

theorem bad_content_hides_products_witness:
  "\<exists>x w' e. request (create_product 2 5 ''k'' [] None ''SHIP_PHYSICAL'' (Some [(''mrp_inr'', JStr ''x'')]) (Some ''c''))
       catalog_world = (Inr x, w')
     \<and> list_products 2 5 w' = (Inl e, w') \<and> http_status e = 500"
proof -
  from catalog_world_runs(3) obtain x w' where
    e: "request (create_product 2 5 ''k'' [] None ''SHIP_PHYSICAL'' (Some [(''mrp_inr'', JStr ''x'')]) (Some ''c''))
          catalog_world = (Inr x, w')"
    by (auto split: prod.splits sum.splits)
  have "get_or [(''mrp_inr'', JStr ''x'')] ''mrp_inr'' (JInt 0) = JStr ''x''" "parse_float ''x'' = None"
    by code_simp+
  from bad_content_hides_products [OF e this] e show ?thesis by (auto simp: catalog_db_def empty_db_def)
qed

end
