(* ===== verification/Catalog_Review.thy ===== *)
theory Catalog_Review
  imports Catalog_Views Invariants
begin

section \<open>The content review of products\<close>

text \<open>
  The review machine over \<open>pa_status\<close> and its refinement by the requests of \<open>CatalogService\<close>: a vendor can
  only send a product to review, and only an operator's decision takes it out of it. \<open>operator\<close> says
  whether the decisions are among the moves.
\<close>

inductive review_move :: "bool \<Rightarrow> string \<Rightarrow> string \<Rightarrow> bool" for operator where
  submit: "review_move operator s ''pending_review''"
| approve: "operator \<Longrightarrow> review_move operator ''pending_review'' ''live''"
| reject: "operator \<Longrightarrow> review_move operator ''pending_review'' ''rejected''"

abbreviation review_path :: "bool \<Rightarrow> string \<Rightarrow> string \<Rightarrow> bool" where
  "review_path operator \<equiv> (review_move operator)\<^sup>*\<^sup>*"

lemma review_path_mono: "review_path False s t \<Longrightarrow> review_path b s t"
proof (induction rule: rtranclp_induct)
  case (step t u)
  from step(2) have "review_move b t u" by cases (auto intro: review_move.intros)
  with step(3) show ?case by (rule rtranclp.rtrancl_into_rtrancl)
qed simp

lemma review_path_vendor: "review_path False s t \<Longrightarrow> t = s \<or> t = ''pending_review''"
  by (induction rule: rtranclp_induct) (auto elim: review_move.cases)

lemma review_path_submit: "review_path b s ''pending_review''"
  by (rule r_into_rtranclp) (rule review_move.submit)

text \<open>A later row of the same product.\<close>

definition reviewed :: "bool \<Rightarrow> product_row \<Rightarrow> product_row \<Rightarrow> bool" where
  "reviewed operator p q \<longleftrightarrow>
     prd_id q = prd_id p \<and> prd_vendor_id q = prd_vendor_id p
     \<and> review_path operator (prd_pa_status p) (prd_pa_status q)"

text \<open>
  The history of the products since the rows \<open>ps\<close>: while the review is required, every product of \<open>ps\<close> is
  still there, followed by path, and every other one was created since, outside the review.
\<close>

definition review_hist :: "bool \<Rightarrow> product_row list \<Rightarrow> uuid \<Rightarrow> database \<Rightarrow> bool" where
  "review_hist operator ps n d \<longleftrightarrow>
     content_review_required d \<and> distinct (map prd_id (products d)) \<and> (\<forall>q \<in> set (products d). prd_id q < n)
     \<and> (\<forall>p \<in> set ps. prd_id p < n \<and> (\<exists>q \<in> set (products d). reviewed operator p q))
     \<and> (\<forall>q \<in> set (products d). (\<exists>p \<in> set ps. reviewed operator p q)
          \<or> prd_id q \<notin> prd_id ` set ps \<and> review_path operator ''not_submitted'' (prd_pa_status q))"

lemma reviewed_refl: "reviewed b p p"
  by (simp add: reviewed_def)

lemma review_hist_mono: "supply_mono (review_hist b ps)"
  unfolding supply_mono_def review_hist_def by (auto intro: less_le_trans)

lemma review_hist_start:
  assumes "content_review_required d" and "distinct (map prd_id (products d))"
    and "\<forall>q \<in> set (products d). prd_id q < n"
  shows "review_hist b (products d) n d"
  unfolding review_hist_def using assms reviewed_refl by blast

text \<open>The products and the platform's switch, all the history depends on.\<close>

definition review_tables where
  "review_tables d = (products d, platform_config d)"

lemma review_required_same: "platform_config d' = platform_config d \<Longrightarrow> content_review_required d' = content_review_required d"
  by (simp add: content_review_required_def)

lemma review_hist_same:
  assumes "review_tables d' = review_tables d"
  shows "review_hist b ps n d' = review_hist b ps n d"
proof -
  have p: "products d' = products d" and c: "platform_config d' = platform_config d"
    using assms by (simp_all add: review_tables_def)
  show ?thesis unfolding review_hist_def p review_required_same [OF c] by (rule refl)
qed

lemma depends_on_review: "depends_on review_tables (review_hist b ps)"
  unfolding depends_on_def using review_hist_same by blast

lemma review_hist_log: "log_blind (review_hist b ps)"
  using depends_on_review [of b ps] unfolding depends_on_def log_blind_def review_tables_def by simp

lemma review_hist_audit: "review_hist b ps n d \<Longrightarrow> review_hist b ps n (d\<lparr>audit_log := l\<rparr>)"
  using depends_on_review [of b ps] unfolding depends_on_def review_tables_def by simp

text \<open>A change of rows along the path keeps the history.\<close>

lemma reviewed_trans: "reviewed b p q \<Longrightarrow> reviewed b q r \<Longrightarrow> reviewed b p r"
  unfolding reviewed_def by auto

lemma review_hist_map:
  assumes J: "review_hist b ps n d" and f: "\<And>p. p \<in> set (products d) \<Longrightarrow> reviewed b p (f p)"
  shows "review_hist b ps n (products_update (map f) d)"
proof -
  have ids: "map prd_id (map f (products d)) = map prd_id (products d)"
    using f by (auto simp: reviewed_def)
  have stay: "\<exists>q \<in> set (map f (products d)). reviewed b p q" if "p \<in> set ps" for p
  proof -
    from J that obtain q where "q \<in> set (products d)" "reviewed b p q" unfolding review_hist_def by blast
    then show ?thesis using f reviewed_trans by (auto intro!: bexI [of _ q])
  qed
  have split: "(\<exists>p \<in> set ps. reviewed b p q)
        \<or> prd_id q \<notin> prd_id ` set ps \<and> review_path b ''not_submitted'' (prd_pa_status q)"
    if "q \<in> set (products d)" for q
    using J that unfolding review_hist_def by blast
  have from_q: "(\<exists>p \<in> set ps. reviewed b p (f q))
      \<or> prd_id (f q) \<notin> prd_id ` set ps \<and> review_path b ''not_submitted'' (prd_pa_status (f q))"
    if "q \<in> set (products d)" for q
    using split [OF that]
  proof (elim disjE bexE conjE)
    fix p assume "p \<in> set ps" "reviewed b p q"
    then show ?thesis using reviewed_trans [OF _ f [OF that]] by blast
  next
    assume "prd_id q \<notin> prd_id ` set ps" "review_path b ''not_submitted'' (prd_pa_status q)"
    then show ?thesis using f [OF that] rtranclp_trans [of "review_move b"] unfolding reviewed_def by simp
  qed
  have less: "prd_id (f q) < n" if "q \<in> set (products d)" for q
    using J f [OF that] that by (simp add: review_hist_def reviewed_def)
  have rest: "content_review_required (products_update (map f) d) = content_review_required d"
    "products (products_update (map f) d) = map f (products d)"
    by (simp_all add: content_review_required_def)
  show ?thesis
    unfolding review_hist_def rest
  proof (intro conjI ballI)
    show "content_review_required d" using J by (simp add: review_hist_def)
    show "distinct (map prd_id (map f (products d)))" using J unfolding ids by (simp add: review_hist_def)
    show "prd_id p < n" if "p \<in> set ps" for p using J that by (simp add: review_hist_def)
  qed (use stay from_q less in auto)
qed

lemma review_hist_new:
  assumes J: "review_hist b ps n d" and p: "prd_id p = n" "prd_pa_status p = ''not_submitted''"
  shows "review_hist b ps (Suc n) (products_update (\<lambda>rows. rows @ [p]) d)"
proof -
  have "n \<notin> prd_id ` set ps" "n \<notin> prd_id ` set (products d)"
    using J unfolding review_hist_def by auto
  moreover have "\<forall>q \<in> set (products d). prd_id q < Suc n" "\<forall>q \<in> set ps. prd_id q < Suc n"
    using J unfolding review_hist_def by (auto intro: less_SucI)
  moreover have "content_review_required (products_update (\<lambda>rows. rows @ [p]) d) = content_review_required d"
    by (simp add: content_review_required_def)
  ultimately show ?thesis
    using J p unfolding review_hist_def by auto
qed

subsection \<open>Requests and the history\<close>

lemma keeps_review_update:
  assumes "\<And>p. prd_id (f p) = prd_id p \<and> prd_vendor_id (f p) = prd_vendor_id p
             \<and> (prd_pa_status (f p) = prd_pa_status p \<or> prd_pa_status (f p) = ''pending_review'')"
  shows "keeps (both (review_hist b ps)) (update_product_row i f)"
proof -
  have m: "reviewed b p (if prd_id p = i then touched now f p else p)" for p now
    using assms [of p] by (auto simp: reviewed_def touched_def intro: review_path_submit)
  show ?thesis
    unfolding update_product_row_def upd_row_def
    by (intro keeps_bindE keeps_utcnow keeps_both_modifies) (rule review_hist_map, assumption, rule m)
qed

lemma keeps_review_create:
  assumes "\<And>i now. prd_id (mk i now) = i \<and> prd_pa_status (mk i now) = ''not_submitted''"
    and k: "\<And>i now. keeps (both (review_hist b ps)) (k i now)"
  shows "keeps (both (review_hist b ps))
    (bindE uuid4 (\<lambda>i. bindE utcnow (\<lambda>now. bindE (modifies (products_update (\<lambda>rows. rows @ [mk i now]))) (\<lambda>_. k i now))))"
proof (rule keepsI)
  fix w assume J: "both (review_hist b ps) w"
  let ?row = "mk (next_uuid w) (clock w)"
  let ?w = "w\<lparr>next_uuid := Suc (next_uuid w), db := products_update (\<lambda>rows. rows @ [?row]) (db w)\<rparr>"
  have "review_hist b ps (Suc (next_uuid w)) (products_update (\<lambda>rows. rows @ [?row]) (db w))"
    using J assms(1) by (intro review_hist_new) (simp_all add: both_def)
  moreover have "review_hist b ps (Suc (next_uuid w)) (disk w)"
    using J by (auto simp: both_def intro: supply_monoD [OF review_hist_mono])
  ultimately have "both (review_hist b ps) ?w" by (simp add: both_def)
  with k have "both (review_hist b ps) (snd (k (next_uuid w) (clock w) ?w))" by (simp add: keeps_def)
  then show "both (review_hist b ps) (snd (bindE uuid4 (\<lambda>i. bindE utcnow (\<lambda>now.
      bindE (modifies (products_update (\<lambda>rows. rows @ [mk i now]))) (\<lambda>_. k i now))) w))"
    by (simp add: step_run)
qed

lemma keeps_review_same:
  "(\<And>d. review_tables (f d) = review_tables d) \<Longrightarrow> keeps (both (review_hist b ps)) (modifies f)"
  using depends_on_review [of b ps] by (intro keeps_both_modifies) (auto simp: depends_on_def)

lemmas keeps_review = keeps_review_create keeps_both_uuid4 [OF review_hist_mono]
  keeps_both_audit [OF review_hist_mono review_hist_audit]

lemma reads_only_listing [reads_only_intros]:
  "reads_only (validate_image_url s)" "reads_only (validate_image_urls us)" "reads_only (check_listing l)"
  "reads_only (check_listing_cities v l)" "reads_only (product_item_of i)"
  "reads_only (listing_snapshot_of p doc)"
  unfolding validate_image_urls_def check_listing_def check_listing_cities_def
    product_item_of_def listing_snapshot_of_def validate_image_url_def Let_def
  by (intro reads_only_intros)+

lemma edited_product_same:
  "prd_id (edited_product n s c p) = prd_id p" "prd_vendor_id (edited_product n s c p) = prd_vendor_id p"
  "prd_pa_status (edited_product n s c p) = prd_pa_status p"
  by (simp_all add: edited_product_def Let_def split: option.split)

lemma edited_keeps_status: "prd_status (edited_product n s c p) = prd_status p"
  by (simp add: edited_product_def Let_def split: option.split)

text \<open>The requests that move no product, or only towards the review.\<close>

lemma review_requests:
  "keeps (both (review_hist b ps)) (create_product v u name desc plugin ftype content category)"
  "keeps (both (review_hist b ps)) (submit_product_listing v u pid l)"
  "keeps (both (review_hist b ps)) (resubmit_product i u)"
  "keeps (both (review_hist b ps)) (update_product i u oname odesc ocat ocontent)"
  "keeps (both (review_hist b ps)) (archive_product i u)"
  unfolding create_product_def submit_product_listing_def resubmit_product_def update_product_def
    archive_product_def listed_product_def put_content_def replace_product_cities_def
    put_standard_offering_def review_again_def set_offerings_def Let_def
  by (rule keeps_review keeps_review_update keeps_review_same keeps_intros reads_only_keeps reads_only_checks reads_only_catalog
        reads_only_listing reads_only_plugin_category
      | (simp add: review_tables_def edited_product_same submitted_product_def new_product_def; fail))+

lemma reads_only_parse [reads_only_intros]: "reads_only (parse_uuid v)"
  by (cases v) (auto intro: reads_only_intros)

lemma keeps_same_tables_insert_each:
  "(\<And>f d. p (U f d) = p d) \<Longrightarrow> keeps (same_tables p x) (insert_each U mk xs)"
  unfolding insert_each_def by (intro keeps_for_each keeps_bindE keeps_same_tables) 

text \<open>The requests that leave the products alone.\<close>

lemma review_leaves:
  "leaves review_tables (add_service_city v u name ocur)" "leaves review_tables (update_service_city v u i ocur)"
  "leaves review_tables (delete_service_city v u i)" "leaves review_tables (set_city_pincodes v u i pins)"
  "leaves review_tables (set_product_service_cities i u cities)"
  "leaves review_tables (create_warehouse v u name loc cap)" "leaves review_tables (update_warehouse v i u name loc cap)"
  "leaves review_tables (add_inventory v u p wh sku avail thr)" "leaves review_tables (adjust_inventory v u i avail thr)"
  "leaves review_tables (create_offering i u plan period price incl over ocur)"
  "leaves review_tables (update_offering_price i u price ocur)"
  "leaves review_tables (reinstate_vendor v u)" "leaves review_tables (suspend_vendor v u reason)"
  unfolding add_service_city_def update_service_city_def delete_service_city_def set_city_pincodes_def
    set_product_service_cities_def create_warehouse_def update_warehouse_def add_inventory_def
    adjust_inventory_def create_offering_def update_offering_price_def reinstate_vendor_def
    suspend_vendor_def unpublish_each_def replace_product_cities_def list_warehouses_def Let_def
  by (rule leaves_intro keeps_same_tables_insert_each keeps_intros reads_only_keeps reads_only_checks reads_only_catalog
        reads_only_validate_pincodes
      | (simp add: review_tables_def; fail))+

lemma install_leaves:
  "leaves review_tables (install (build_authorization_service b) temporal t u p i proj caps rid)"
  unfolding install_def installable_def handle_provision_def ensure_instance_def Let_def
  by (rule leaves_intro keeps_same_tables_require keeps_intros reads_only_keeps reads_only_catalog reads_only_commerce
        reads_only_parse
      | (simp add: review_tables_def; fail))+

subsection \<open>The decisions and the publication\<close>

lemma pending_product_okD:
  "pending_product i w = (Inr p, w') \<Longrightarrow>
     w' = w \<and> get_row prd_id i (products (db w)) = Some p \<and> prd_pa_status p = ''pending_review''"
  unfolding pending_product_def by (simp add: step_ok)

lemma approve_product_okD:
  assumes "approve_product i u w = (Inr x, w')"
  shows "\<exists>p log. require_platform_operator u w = (Inr (), w)
     \<and> get_row prd_id i (products (db w)) = Some p \<and> prd_pa_status p = ''pending_review''
     \<and> db w' = (offerings_update (map (\<lambda>r. if offering_of i [''draft''] r then r\<lparr>off_status := ''published''\<rparr> else r))
          (products_update (upd_row prd_id i (touched (clock w) (\<lambda>p.
              p\<lparr>prd_pa_status := ''live'', prd_pa_reject_reason := [],
                prd_status := if prd_status p = ''draft'' then ''published'' else prd_status p\<rparr>)))
           (db w)))\<lparr>audit_log := log\<rparr> \<and> disk w' = db w' \<and> next_uuid w \<le> next_uuid w'"
  using assms unfolding approve_product_def update_product_row_def set_offerings_def Let_def
  apply (simp only: step_ok)
  apply (elim exE conjE)
  apply (drule pending_product_okD)
  apply (elim conjE)
  apply (rule exI, rule exI, rule conjI, simp)
  apply (rule conjI, assumption, rule conjI, assumption)
  apply simp
  done

lemma reject_product_okD:
  assumes "reject_product i u reason w = (Inr x, w')"
  shows "\<exists>p log. require_platform_operator u w = (Inr (), w) \<and> strip reason \<noteq> []
     \<and> get_row prd_id i (products (db w)) = Some p \<and> prd_pa_status p = ''pending_review''
     \<and> db w' = (offerings_update (map (\<lambda>r. if offering_of i [''published'', ''draft''] r
            then r\<lparr>off_status := ''unpublished''\<rparr> else r))
          (products_update (upd_row prd_id i (touched (clock w) (\<lambda>p.
              p\<lparr>prd_pa_status := ''rejected'', prd_pa_reject_reason := strip reason\<rparr>)))
           (db w)))\<lparr>audit_log := log\<rparr> \<and> disk w' = db w' \<and> next_uuid w \<le> next_uuid w'"
  using assms unfolding reject_product_def update_product_row_def set_offerings_def Let_def
  apply (simp only: step_ok)
  apply (elim exE conjE)
  apply (drule pending_product_okD)
  apply (elim conjE)
  apply (rule exI, rule exI, rule conjI, simp)
  apply (rule conjI, assumption, rule conjI, assumption, rule conjI, assumption)
  apply simp
  done

text \<open>A publication goes to review, or is done at once.\<close>

definition queued :: "database \<Rightarrow> product_row \<Rightarrow> bool" where
  "queued d p = (content_review_required d \<and> prd_pa_status p \<noteq> ''live'')"

definition publish_fields :: "bool \<Rightarrow> product_row \<Rightarrow> product_row" where
  "publish_fields q p =
     (if q then p\<lparr>prd_pa_status := ''pending_review'', prd_status := ''published''\<rparr>
      else p\<lparr>prd_status := if prd_status p = ''draft'' then ''published'' else prd_status p,
             prd_pa_status := ''live''\<rparr>)"

definition publish_offerings :: "bool \<Rightarrow> uuid \<Rightarrow> offering_row list \<Rightarrow> offering_row list" where
  "publish_offerings q i rows = (if q then rows else upd_row off_id i (\<lambda>r. r\<lparr>off_status := ''published''\<rparr>) rows)"

lemma publish_offering_okD:
  assumes "publish_offering i u w = (Inr x, w')"
  shows "\<exists>off p log. get_row off_id i (offerings (db w)) = Some off \<and> off_status off = ''draft''
     \<and> get_row prd_id (off_product_id off) (products (db w)) = Some p
     \<and> owns_vendor (db w) (prd_vendor_id p) u
     \<and> db w' = (products_update (upd_row prd_id (prd_id p) (touched (clock w) (publish_fields (queued (db w) p))))
           (offerings_update (publish_offerings (queued (db w) p) i) (db w)))\<lparr>audit_log := log\<rparr>
     \<and> disk w' = db w' \<and> next_uuid w \<le> next_uuid w'"
proof -
  from assms obtain off p v where o: "get_row off_id i (offerings (db w)) = Some off" "off_status off = ''draft''"
    and p: "owned_product (off_product_id off) u w = (Inr p, w)"
    and run: "(if content_review_required (db w) \<and> prd_pa_status p \<noteq> ''live''
        then queue_for_review u off p else publish_now u off p) w = (Inr x, w')"
    unfolding publish_offering_def by (simp only: step_ok) blast
  have id_update: "offerings_update (\<lambda>rows. rows) d = d" for d :: database by (cases d) simp
  have i: "off_id off = i" using get_row_Some [OF o(1)] by simp
  have "\<exists>log. db w' = (products_update (upd_row prd_id (prd_id p) (touched (clock w) (publish_fields (queued (db w) p))))
           (offerings_update (publish_offerings (queued (db w) p) i) (db w)))\<lparr>audit_log := log\<rparr>
     \<and> disk w' = db w' \<and> next_uuid w \<le> next_uuid w'"
  proof (cases "queued (db w) p")
    case True
    then have f: "publish_fields (queued (db w) p) = (\<lambda>p. p\<lparr>prd_pa_status := ''pending_review'', prd_status := ''published''\<rparr>)"
      "publish_offerings (queued (db w) p) i = (\<lambda>rows. rows)" by (simp_all add: fun_eq_iff publish_fields_def publish_offerings_def)
    from run True have "queue_for_review u off p w = (Inr x, w')" by (simp add: queued_def)
    then show ?thesis
      unfolding queue_for_review_def update_product_row_def f by (simp only: step_ok) (elim exE conjE, rule exI, simp add: id_update)
  next
    case False
    then have f: "publish_fields (queued (db w) p) = (\<lambda>p. p\<lparr>prd_status := if prd_status p = ''draft'' then ''published'' else prd_status p,
             prd_pa_status := ''live''\<rparr>)"
      "publish_offerings (queued (db w) p) i = upd_row off_id i (\<lambda>r. r\<lparr>off_status := ''published''\<rparr>)"
      by (simp_all add: fun_eq_iff publish_fields_def publish_offerings_def)
    from run False have "publish_now u off p w = (Inr x, w')" by (auto simp: queued_def)
    then show ?thesis
      unfolding publish_now_def update_product_row_def f i by (simp only: step_ok) (elim exE conjE, rule exI, simp)
  qed
  with o owned_product_okD [OF p] show ?thesis by blast
qed

lemma decisions_atomic:
  "atomic_but_log (approve_product i u)" "atomic_but_log (reject_product i u reason)"
  "atomic_but_log (publish_offering i u)"
  unfolding approve_product_def reject_product_def publish_offering_def queue_for_review_def publish_now_def
    update_product_row_def set_offerings_def Let_def
  by (rule atomic_but_log_intros keeps_intros reads_only_keeps reads_only_checks reads_only_catalog)+

lemma decisions_uuid:
  "keeps (uuid_ge n) (approve_product i u)" "keeps (uuid_ge n) (reject_product i u reason)"
  "keeps (uuid_ge n) (publish_offering i u)"
  unfolding approve_product_def reject_product_def publish_offering_def queue_for_review_def publish_now_def
    update_product_row_def set_offerings_def Let_def
  by (rule keeps_intros reads_only_keeps reads_only_checks reads_only_catalog)+

text \<open>A decision moves the row it was taken for, and no other.\<close>

lemma review_hist_row:
  assumes J: "review_hist b ps n d" and p: "get_row prd_id i (products d) = Some p"
    and f: "reviewed b p (f p)" and d': "review_tables d' = review_tables (products_update (upd_row prd_id i f) d)"
  shows "review_hist b ps n d'"
proof -
  have "distinct (map prd_id (products d))" using J by (simp add: review_hist_def)
  then have "q = p" if "q \<in> set (products d)" "prd_id q = i" for q
    using p that by (metis get_row_unique option.inject)
  then have "review_hist b ps n (products_update (upd_row prd_id i f) d)"
    unfolding upd_row_def using J f by (intro review_hist_map) (auto simp: reviewed_refl)
  then show ?thesis using review_hist_same [OF d'] by simp
qed

lemma preserved_approve: "preserved (review_hist True ps) (approve_product i u)"
proof (rule preservedI [OF review_hist_mono review_hist_log decisions_atomic(1) decisions_uuid(1)])
  fix w x w' assume J: "review_hist True ps (next_uuid w) (db w)" and run: "approve_product i u w = (Inr x, w')"
  let ?f = "touched (clock w) (\<lambda>p. p\<lparr>prd_pa_status := ''live'', prd_pa_reject_reason := [],
                prd_status := if prd_status p = ''draft'' then ''published'' else prd_status p\<rparr>)"
  from approve_product_okD [OF run] obtain p log where
    p: "get_row prd_id i (products (db w)) = Some p" "prd_pa_status p = ''pending_review''"
    and d: "db w' = (offerings_update (map (\<lambda>r. if offering_of i [''draft''] r then r\<lparr>off_status := ''published''\<rparr> else r))
        (products_update (upd_row prd_id i ?f) (db w)))\<lparr>audit_log := log\<rparr>" "disk w' = db w'" "next_uuid w \<le> next_uuid w'"
    by blast
  have "reviewed True p (?f p)"
    using p(2) by (auto simp: reviewed_def touched_def intro: r_into_rtranclp review_move.approve)
  then have "review_hist True ps (next_uuid w) (db w')"
    by (intro review_hist_row [OF J p(1)]) (simp_all add: d(1) review_tables_def)
  then show "review_hist True ps (next_uuid w') (disk w')"
    using supply_monoD [OF review_hist_mono _ d(3)] d(2) by simp
qed

lemma preserved_reject: "preserved (review_hist True ps) (reject_product i u reason)"
proof (rule preservedI [OF review_hist_mono review_hist_log decisions_atomic(2) decisions_uuid(2)])
  fix w x w' assume J: "review_hist True ps (next_uuid w) (db w)" and run: "reject_product i u reason w = (Inr x, w')"
  let ?f = "touched (clock w) (\<lambda>p. p\<lparr>prd_pa_status := ''rejected'', prd_pa_reject_reason := strip reason\<rparr>)"
  from reject_product_okD [OF run] obtain p log where
    p: "get_row prd_id i (products (db w)) = Some p" "prd_pa_status p = ''pending_review''"
    and d: "db w' = (offerings_update (map (\<lambda>r. if offering_of i [''published'', ''draft''] r
            then r\<lparr>off_status := ''unpublished''\<rparr> else r))
        (products_update (upd_row prd_id i ?f) (db w)))\<lparr>audit_log := log\<rparr>" "disk w' = db w'" "next_uuid w \<le> next_uuid w'"
    by blast
  have "reviewed True p (?f p)"
    using p(2) by (auto simp: reviewed_def touched_def intro: r_into_rtranclp review_move.reject)
  then have "review_hist True ps (next_uuid w) (db w')"
    by (intro review_hist_row [OF J p(1)]) (simp_all add: d(1) review_tables_def)
  then show "review_hist True ps (next_uuid w') (disk w')"
    using supply_monoD [OF review_hist_mono _ d(3)] d(2) by simp
qed

lemma preserved_publish: "preserved (review_hist b ps) (publish_offering i u)"
proof (rule preservedI [OF review_hist_mono review_hist_log decisions_atomic(3) decisions_uuid(3)])
  fix w x w' assume J: "review_hist b ps (next_uuid w) (db w)" and run: "publish_offering i u w = (Inr x, w')"
  from publish_offering_okD [OF run] obtain off :: offering_row and p log where
    p: "get_row prd_id (off_product_id off) (products (db w)) = Some p"
    and d: "db w' = (products_update (upd_row prd_id (prd_id p) (touched (clock w) (publish_fields (queued (db w) p))))
           (offerings_update (publish_offerings (queued (db w) p) i) (db w)))\<lparr>audit_log := log\<rparr>"
      "disk w' = db w'" "next_uuid w \<le> next_uuid w'"
    by blast
  have id: "prd_id p = off_product_id off" using get_row_Some [OF p] by simp
  have "content_review_required (db w)" using J by (simp add: review_hist_def)
  then have "reviewed b p (touched (clock w) (publish_fields (queued (db w) p)) p)"
    by (cases "prd_pa_status p = ''live''")
       (auto simp: queued_def publish_fields_def reviewed_def touched_def intro: review_path_submit)
  then have "review_hist b ps (next_uuid w) (db w')"
    by (intro review_hist_row [OF J p]) (simp_all add: d(1) review_tables_def id)
  then show "review_hist b ps (next_uuid w') (disk w')"
    using supply_monoD [OF review_hist_mono _ d(3)] d(2) by simp
qed

end
