(* ===== verification/Catalog_Machine.thy ===== *)
theory Catalog_Machine
  imports Catalog_Review
begin

section \<open>The catalog as a machine\<close>

text \<open>
  Every writing request of \<open>CatalogService\<close> as a call, served in any order while the clock moves and the
  other services write their own tables. \<open>b\<close> and \<open>temporal\<close> are the wiring of the authorization service and
  the workflow mode.
\<close>

datatype catalog_call =
    Create_Product uuid uuid string string "uuid option" string "payload option" "string option"
  | Submit_Listing uuid uuid "uuid option" listing_input
  | Resubmit_Product uuid uuid
  | Update_Product uuid uuid "string option" "string option" "string option" "payload option"
  | Archive_Product uuid uuid
  | Create_Offering uuid uuid string string money "int option" "int option" "string option"
  | Update_Price uuid uuid money "string option"
  | Publish_Offering uuid uuid
  | Approve_Product uuid uuid
  | Reject_Product uuid uuid string
  | Suspend_Vendor uuid uuid string
  | Reinstate_Vendor uuid uuid
  | Add_City uuid uuid string "string option"
  | Update_City uuid uuid uuid "string option"
  | Delete_City uuid uuid uuid
  | Set_Pincodes uuid uuid uuid "string list"
  | Set_Product_Cities uuid uuid "uuid list"
  | Create_Warehouse uuid uuid string string int
  | Update_Warehouse uuid uuid uuid string string int
  | Add_Inventory uuid uuid uuid uuid string int "int option"
  | Adjust_Inventory uuid uuid uuid int "int option"
  | Install uuid uuid uuid uuid "uuid option" "string list" "string option"

fun answer :: "bool \<Rightarrow> bool \<Rightarrow> catalog_call \<Rightarrow> unit op" where
  "answer b temporal (Create_Product v u name desc plugin ftype content category) =
     silent (create_product v u name desc plugin ftype content category)"
| "answer b temporal (Submit_Listing v u p l) = silent (submit_product_listing v u p l)"
| "answer b temporal (Resubmit_Product p u) = silent (resubmit_product p u)"
| "answer b temporal (Update_Product p u name desc category content) =
     silent (update_product p u name desc category content)"
| "answer b temporal (Archive_Product p u) = silent (archive_product p u)"
| "answer b temporal (Create_Offering p u plan period price incl over cur) =
     silent (create_offering p u plan period price incl over cur)"
| "answer b temporal (Update_Price i u price cur) = silent (update_offering_price i u price cur)"
| "answer b temporal (Publish_Offering i u) = silent (publish_offering i u)"
| "answer b temporal (Approve_Product p u) = silent (approve_product p u)"
| "answer b temporal (Reject_Product p u reason) = silent (reject_product p u reason)"
| "answer b temporal (Suspend_Vendor v u reason) = silent (suspend_vendor v u reason)"
| "answer b temporal (Reinstate_Vendor v u) = silent (reinstate_vendor v u)"
| "answer b temporal (Add_City v u name cur) = silent (add_service_city v u name cur)"
| "answer b temporal (Update_City v u i cur) = silent (update_service_city v u i cur)"
| "answer b temporal (Delete_City v u i) = silent (delete_service_city v u i)"
| "answer b temporal (Set_Pincodes v u i pins) = silent (set_city_pincodes v u i pins)"
| "answer b temporal (Set_Product_Cities p u cities) = silent (set_product_service_cities p u cities)"
| "answer b temporal (Create_Warehouse v u name loc cap) = silent (create_warehouse v u name loc cap)"
| "answer b temporal (Update_Warehouse v i u name loc cap) = silent (update_warehouse v i u name loc cap)"
| "answer b temporal (Add_Inventory v u p wh sku n thr) = silent (add_inventory v u p wh sku n thr)"
| "answer b temporal (Adjust_Inventory v u i n thr) = silent (adjust_inventory v u i n thr)"
| "answer b temporal (Install t u p i proj caps rid) =
     silent (install (build_authorization_service b) temporal t u p i proj caps rid)"

text \<open>The tables that only the catalog writes, and the platform's review switch, held fixed.\<close>

definition catalog_tables where
  "catalog_tables d = (review_tables d, offerings d, product_contents d, service_cities d, city_pincodes d,
     product_service_cities d, warehouses d, inventory d)"

inductive catalog_step :: "bool \<Rightarrow> bool \<Rightarrow> world \<Rightarrow> world \<Rightarrow> bool" for b temporal where
  call: "request (answer b temporal c) w = (r, w') \<Longrightarrow> catalog_step b temporal w w'"
| tick: "clock w \<le> t \<Longrightarrow> catalog_step b temporal w (w\<lparr>clock := t\<rparr>)"
| other: "catalog_tables d = catalog_tables (db w) \<Longrightarrow> next_uuid w \<le> n
    \<Longrightarrow> catalog_step b temporal w (w\<lparr>db := d, disk := d, next_uuid := n\<rparr>)"

subsection \<open>The review over a run\<close>

lemma answer_uuid: "keeps (uuid_ge n) (answer b temporal c)"
proof -
  have i: "keeps (uuid_ge n) (install (build_authorization_service b) temporal t u p i proj caps rid)" for t u p i proj caps rid
    unfolding install_def installable_def handle_provision_def ensure_instance_def Let_def
    by (rule keeps_intros reads_only_keeps reads_only_catalog reads_only_commerce reads_only_parse)+
  show ?thesis
    by (cases c; simp only: answer.simps silent_def;
        (unfold create_product_def submit_product_listing_def resubmit_product_def update_product_def
            archive_product_def listed_product_def put_content_def replace_product_cities_def update_product_row_def
            put_standard_offering_def review_again_def set_offerings_def
            add_service_city_def update_service_city_def delete_service_city_def set_city_pincodes_def
            set_product_service_cities_def create_warehouse_def update_warehouse_def add_inventory_def
            adjust_inventory_def create_offering_def update_offering_price_def reinstate_vendor_def
            suspend_vendor_def unpublish_each_def list_warehouses_def Let_def)?;
        (rule i decisions_uuid keeps_intros reads_only_keeps reads_only_checks reads_only_catalog
            reads_only_validate_pincodes reads_only_listing reads_only_plugin_category)+)
qed

lemma answered_leaves:
  assumes "leaves review_tables m" and "\<And>n. keeps (uuid_ge n) (silent m)"
  shows "preserved (review_hist op ps) (silent m)"
  by (rule preserved_leaves [OF leaves_silent [OF assms(1)] depends_on_review review_hist_mono assms(2)])

lemma answered_review:
  assumes "op \<or> \<not> (\<exists>p u. c = Approve_Product p u) \<and> \<not> (\<exists>p u reason. c = Reject_Product p u reason)"
  shows "preserved (review_hist op ps) (answer b temporal c)"
  using answer_uuid [of _ b temporal c] assms
  by (cases c)
     (auto intro: answered_leaves review_leaves install_leaves preserved_silent [OF preserved_publish]
        preserved_silent [OF preserved_both [OF review_requests(1)]]
        preserved_silent [OF preserved_both [OF review_requests(2)]]
        preserved_silent [OF preserved_both [OF review_requests(3)]]
        preserved_silent [OF preserved_both [OF review_requests(4)]]
        preserved_silent [OF preserved_both [OF review_requests(5)]]
        preserved_silent [OF preserved_approve] preserved_silent [OF preserved_reject])

text \<open>A catalog at rest, with its history since the products \<open>ps\<close>.\<close>

definition catalog_ok :: "world \<Rightarrow> bool" where
  "catalog_ok w \<longleftrightarrow> disk w = db w \<and> content_review_required (db w)
     \<and> distinct (map prd_id (products (db w))) \<and> (\<forall>p \<in> set (products (db w)). prd_id p < next_uuid w)"

definition reviewed_since :: "product_row list \<Rightarrow> world \<Rightarrow> bool" where
  "reviewed_since ps w \<longleftrightarrow> disk w = db w \<and> review_hist True ps (next_uuid w) (db w)"

lemma reviewed_since_step:
  assumes "catalog_step b temporal w w'" and "reviewed_since ps w"
  shows "reviewed_since ps w'"
  using assms
proof (induction rule: catalog_step.induct)
  case (call c w r w')
  then show ?case
    unfolding reviewed_since_def using preservedD [OF answered_review [of True] _ _ call.hyps] by blast
next
  case (other d w n)
  then have "review_hist True ps (next_uuid w) d"
    using depends_on_review unfolding reviewed_since_def depends_on_def catalog_tables_def by blast
  then show ?case
    using supply_monoD [OF review_hist_mono _ other.hyps(2)] by (simp add: reviewed_since_def)
qed (simp add: reviewed_since_def)

interpretation catalog_runs: served_machine "catalog_step b temporal" "review_hist True ps" for b temporal ps
  by unfold_locales (rule reviewed_since_step [unfolded reviewed_since_def])

lemma reviewed_since_run:
  "(catalog_step b temporal)\<^sup>*\<^sup>* w w' \<Longrightarrow> reviewed_since ps w \<Longrightarrow> reviewed_since ps w'"
  unfolding reviewed_since_def by (elim conjE) (rule catalog_runs.run_keeps)

lemma catalog_ok_start: "catalog_ok w \<Longrightarrow> reviewed_since (products (db w)) w"
  by (simp add: catalog_ok_def reviewed_since_def review_hist_start)

lemma reviewed_since_ok: "reviewed_since ps w \<Longrightarrow> catalog_ok w"
  by (simp add: reviewed_since_def catalog_ok_def review_hist_def)

lemma catalog_ok_run: "(catalog_step b temporal)\<^sup>*\<^sup>* w w' \<Longrightarrow> catalog_ok w \<Longrightarrow> catalog_ok w'"
  by (rule reviewed_since_ok [OF reviewed_since_run [OF _ catalog_ok_start]])

text \<open>
  C27. The content review is followed: over any run of the catalog every product stays with its vendor, and its
  review status moves along the review machine only.
\<close>

theorem review_follows_machine:
  assumes "(catalog_step b temporal)\<^sup>*\<^sup>* w w'" and "catalog_ok w"
    and "get_row prd_id i (products (db w)) = Some p"
  shows "\<exists>q. get_row prd_id i (products (db w')) = Some q \<and> prd_vendor_id q = prd_vendor_id p
      \<and> review_path True (prd_pa_status p) (prd_pa_status q)"
proof -
  have J: "review_hist True (products (db w)) (next_uuid w') (db w')"
    using reviewed_since_run [OF assms(1) catalog_ok_start [OF assms(2)]] by (simp add: reviewed_since_def)
  from get_row_Some [OF assms(3)] have p: "p \<in> set (products (db w))" "prd_id p = i" by blast+
  with J obtain q where q: "q \<in> set (products (db w'))" "reviewed True p q"
    unfolding review_hist_def by blast
  have "distinct (map prd_id (products (db w')))" using J by (simp add: review_hist_def)
  from get_row_unique [OF this q(1)] q(2) p(2) show ?thesis by (auto simp: reviewed_def)
qed

text \<open>The product is live.\<close>

definition live :: "uuid \<Rightarrow> world \<Rightarrow> bool" where
  "live i w \<longleftrightarrow> (\<exists>p \<in> set (products (db w)). prd_id p = i \<and> prd_pa_status p = ''live'')"

lemma live_by_vendor:
  assumes "review_hist False (products (db w)) n (db w')" and "live i w'"
  shows "live i w"
proof -
  from assms(2) obtain q where q: "q \<in> set (products (db w'))" "prd_id q = i" "prd_pa_status q = ''live''"
    unfolding live_def by blast
  with assms(1) consider p where "p \<in> set (products (db w))" "reviewed False p q"
    | "review_path False ''not_submitted'' ''live''"
    unfolding review_hist_def by metis
  then show ?thesis
  proof cases
    case 1
    with q review_path_vendor [of "prd_pa_status p" "''live''"] have "prd_id p = i" "prd_pa_status p = ''live''"
      by (auto simp: reviewed_def)
    with 1(1) show ?thesis unfolding live_def by blast
  next
    case 2
    then show ?thesis using review_path_vendor [of "''not_submitted''" "''live''"] by simp
  qed
qed

text \<open>An operator's approval of the product.\<close>

definition approval :: "uuid \<Rightarrow> world \<Rightarrow> world \<Rightarrow> bool" where
  "approval i w w' \<longleftrightarrow> (\<exists>u x. request (approve_product i u) w = (Inr x, w')
     \<and> operator_membership_org_ids (db w) u \<noteq> [])"

lemma touched_fields [simp]:
  "prd_id (touched now f p) = prd_id (f p)" "prd_vendor_id (touched now f p) = prd_vendor_id (f p)"
  "prd_pa_status (touched now f p) = prd_pa_status (f p)" "prd_status (touched now f p) = prd_status (f p)"
  by (auto simp: touched_def)

lemma live_updated:
  assumes "\<And>p. prd_id (f p) = prd_id p" and "products (db w') = upd_row prd_id j f (products (db w))"
    and "live i w'" and "i \<noteq> j \<or> (\<forall>p. prd_pa_status (f p) \<noteq> ''live'')"
  shows "live i w"
proof -
  from assms(3) obtain q' where q': "q' \<in> set (upd_row prd_id j f (products (db w)))" "prd_id q' = i" "prd_pa_status q' = ''live''"
    unfolding live_def assms(2) by blast
  from q'(1) [unfolded set_upd_row] obtain p where p: "p \<in> set (products (db w))"
    and q: "q' = (if prd_id p = j then f p else p)" by blast
  note q'(2,3) [unfolded q]
  with assms(1,4) have "prd_id p = i" "prd_pa_status p = ''live''"
    by (auto split: if_split_asm)
  with p show ?thesis unfolding live_def by blast
qed

lemma live_failed:
  assumes "atomic_but_log m" and "request m w = (Inl e, w')" and "disk w = db w" and "live i w'"
  shows "live i w"
  using request_error [OF assms(1,2)] assms(3,4) by (auto simp: live_def)

lemma live_silent: "request (silent m) w = (r, w') \<Longrightarrow> \<exists>r'. request m w = (r', w')"
  by (auto simp: silent_def request_run bindE_run ret_run split: prod.splits sum.splits)

lemma live_approved:
  assumes "request (approve_product j u) w = (r, w')" and "disk w = db w" and "live i w'" and "\<not> live i w"
  shows "approval i w w'"
proof (cases r)
  case (Inl e)
  with live_failed [OF decisions_atomic(1) assms(1) [unfolded Inl] assms(2,3)] assms(4) show ?thesis by blast
next
  case (Inr x)
  with assms(1) obtain w1 where ok: "approve_product j u w = (Inr x, w1)" and w': "w' = w1\<lparr>db := disk w1\<rparr>"
    by (auto simp: request_ok)
  let ?f = "touched (clock w) (\<lambda>p. p\<lparr>prd_pa_status := ''live'', prd_pa_reject_reason := [],
                prd_status := if prd_status p = ''draft'' then ''published'' else prd_status p\<rparr>)"
  from approve_product_okD [OF ok] have op: "require_platform_operator u w = (Inr (), w)"
    and d: "products (db w1) = upd_row prd_id j ?f (products (db w))" "disk w1 = db w1" by auto
  have "i = j"
    by (rule ccontr) (use live_updated [of ?f w' j w i] assms(3,4) d in \<open>simp add: w'\<close>)
  moreover from op have "operator_membership_org_ids (db w) u \<noteq> []"
    by (auto simp: require_platform_operator_def step_ok first_row_def split: list.splits)
  ultimately show ?thesis using assms(1) Inr by (auto simp: approval_def)
qed

lemma live_rejected:
  assumes "request (reject_product j u reason) w = (r, w')" and "disk w = db w" and "live i w'"
  shows "live i w"
proof (cases r)
  case (Inl e)
  show ?thesis by (rule live_failed [OF decisions_atomic(2) assms(1) [unfolded Inl] assms(2,3)])
next
  case (Inr x)
  with assms(1) obtain w1 where ok: "reject_product j u reason w = (Inr x, w1)" and w': "w' = w1\<lparr>db := disk w1\<rparr>"
    by (auto simp: request_ok)
  let ?f = "touched (clock w) (\<lambda>p. p\<lparr>prd_pa_status := ''rejected'', prd_pa_reject_reason := strip reason\<rparr>)"
  from reject_product_okD [OF ok] have d: "products (db w1) = upd_row prd_id j ?f (products (db w))" "disk w1 = db w1"
    by auto
  show ?thesis
    by (rule live_updated [of ?f w' j w i]) (use d assms(3) in \<open>simp_all add: w'\<close>)
qed

lemma live_step:
  assumes "catalog_step b temporal w w'" and "catalog_ok w" and "live i w'" and "\<not> live i w"
  shows "approval i w w'"
  using assms(1)
proof cases
  case (call c r)
  have d: "disk w = db w" and J: "review_hist False (products (db w)) (next_uuid w) (db w)"
    using assms(2) by (simp_all add: catalog_ok_def review_hist_start)
  have "(\<exists>p u. c = Approve_Product p u) \<or> (\<exists>p u reason. c = Reject_Product p u reason)"
  proof (rule ccontr)
    assume "\<not> ?thesis"
    then have "preserved (review_hist False (products (db w))) (answer b temporal c)"
      by (intro answered_review) blast
    from live_by_vendor [OF conjunct2 [OF preservedD [OF this d J call]] assms(3)] assms(4) show False by blast
  qed
  then show ?thesis
  proof (elim disjE exE)
    fix p u assume "c = Approve_Product p u"
    with call live_silent obtain r' where "request (approve_product p u) w = (r', w')" by fastforce
    from live_approved [OF this d assms(3,4)] show ?thesis .
  next
    fix p u reason assume "c = Reject_Product p u reason"
    with call live_silent obtain r' where "request (reject_product p u reason) w = (r', w')" by fastforce
    from live_rejected [OF this d assms(3)] assms(4) show ?thesis by blast
  qed
qed (use assms in \<open>auto simp: live_def catalog_tables_def review_tables_def\<close>)

text \<open>
  C28. No product goes live without an operator: when over a run under the review a product becomes live, at
  some point of the run a platform operator approved it.
\<close>

theorem live_needs_operator:
  assumes "(catalog_step b temporal)\<^sup>*\<^sup>* w w'" and "catalog_ok w" and "live i w'" and "\<not> live i w"
  shows "\<exists>w1 w2. (catalog_step b temporal)\<^sup>*\<^sup>* w w1 \<and> approval i w1 w2 \<and> (catalog_step b temporal)\<^sup>*\<^sup>* w2 w'"
  using assms(1,3)
proof (induction rule: rtranclp_induct)
  case (step y z)
  show ?case
  proof (cases "live i y")
    case True
    with step.IH step.hyps(2) show ?thesis by (meson rtranclp.rtrancl_into_rtrancl)
  next
    case False
    from live_step [OF step.hyps(2) catalog_ok_run [OF step.hyps(1) assms(2)] step.prems False]
    show ?thesis using step.hyps(1) by blast
  qed
qed (use assms(4) in blast)

end
