(* ===== verification/Catalog_Decisions.thy ===== *)
theory Catalog_Decisions
  imports Catalog_Machine
begin

section \<open>Suspension and rejection\<close>

text \<open>
  What the operator's decisions do to the offerings: a suspended vendor's shop is closed at once, and a
  rejection closes the offerings of a product for good.
\<close>

lemma database_offerings_id: "offerings_update (\<lambda>rows. rows) d = d" for d :: database
  by (cases d) simp

subsection \<open>Suspending a vendor\<close>

definition unpublished_in :: "uuid set \<Rightarrow> offering_row \<Rightarrow> offering_row" where
  "unpublished_in ids r = (if off_id r \<in> ids then r\<lparr>off_status := ''unpublished''\<rparr> else r)"

lemma unpublish_loop:
  "\<exists>log n. unpublish_each u v offs w
    = (Inr (), w\<lparr>next_uuid := n, db := (offerings_update (map (unpublished_in (off_id ` set offs))) (db w))\<lparr>audit_log := log\<rparr>\<rparr>)
    \<and> next_uuid w \<le> n"
proof (induction offs arbitrary: w)
  case Nil
  have "map (unpublished_in {}) = (\<lambda>rows. rows)" by (simp add: fun_eq_iff unpublished_in_def map_idI)
  then have "(offerings_update (map (unpublished_in (off_id ` set []))) (db w))\<lparr>audit_log := audit_log (db w)\<rparr> = db w"
    by (simp add: database_offerings_id)
  then show ?case
    by (intro exI [of _ "audit_log (db w)"] exI [of _ "next_uuid w"]) (simp add: ret_run unpublish_each_def)
next
  case (Cons off offs)
  let ?w = "w\<lparr>next_uuid := Suc (next_uuid w), db := (offerings_update (upd_row off_id (off_id off)
      (\<lambda>r. r\<lparr>off_status := ''unpublished''\<rparr>)) (db w))\<lparr>audit_log := audit_log (db w) @
        [\<lparr>aud_id = next_uuid w, aud_event_action = ''offering.unpublished'', aud_actor_user_id = Some u, aud_tenant_id = None,
          aud_payload = [(''offering_id'', JUuid (off_id off)), (''vendor_id'', JUuid v)], aud_created_at = clock w\<rparr>]\<rparr>\<rparr>"
  have both: "map (unpublished_in (off_id ` set offs)) (upd_row off_id (off_id off) (\<lambda>r. r\<lparr>off_status := ''unpublished''\<rparr>) rows)
      = map (unpublished_in (off_id ` set (off # offs))) rows" for rows
    by (simp add: upd_row_def unpublished_in_def)
  have step: "unpublish_each u v (off # offs) w = unpublish_each u v offs ?w"
    unfolding unpublish_each_def by (simp only: for_each.simps step_run) simp
  from Cons.IH [of ?w] obtain log n where
    "unpublish_each u v offs ?w
     = (Inr (), ?w\<lparr>next_uuid := n, db := (offerings_update (map (unpublished_in (off_id ` set offs))) (db ?w))\<lparr>audit_log := log\<rparr>\<rparr>)"
    "Suc (next_uuid w) \<le> n" by auto
  then show ?case
    unfolding step by (intro exI [of _ log] exI [of _ n]) (simp add: both comp_def del: list.set)
qed

text \<open>The offerings of the vendor that are on display.\<close>

lemma vendor_published_ids:
  "off_id ` set (vendor_published d v)
    = {off_id r | r. r \<in> set (offerings d) \<and> off_status r = ''published''
        \<and> (\<exists>p \<in> set (products d). prd_id p = off_product_id r \<and> prd_vendor_id p = v)}"
  unfolding vendor_published_def by auto

lemma length_concat_filter:
  assumes "\<And>x. length (f x) = (if P x then 1 else 0)"
  shows "length (concat (map f xs)) = length (filter P xs)"
  by (induction xs) (simp_all add: assms)

lemma vendor_published_length:
  assumes "distinct (map prd_id (products d))"
  shows "length (vendor_published d v) = length (filter (\<lambda>r. off_status r = ''published''
      \<and> (\<exists>p \<in> set (products d). prd_id p = off_product_id r \<and> prd_vendor_id p = v)) (offerings d))"
proof -
  have one: "length (concat (map (\<lambda>p. if prd_id p = k \<and> prd_vendor_id p = v \<and> s then [r] else []) ps))
      = (if s \<and> (\<exists>p \<in> set ps. prd_id p = k \<and> prd_vendor_id p = v) then 1 else 0)"
    if "distinct (map prd_id ps)" for k s and r :: offering_row and ps :: "product_row list"
    using that
  proof (induction ps)
    case (Cons p ps)
    then have none: "\<forall>q \<in> set ps. prd_id q \<noteq> k" if "prd_id p = k" using that by (force simp: image_iff)
    have IH: "length (concat (map (\<lambda>p. if prd_id p = k \<and> prd_vendor_id p = v \<and> s then [r] else []) ps))
      = (if s \<and> (\<exists>p \<in> set ps. prd_id p = k \<and> prd_vendor_id p = v) then 1 else 0)"
      using Cons by simp
    show ?case
    proof (cases "prd_id p = k \<and> prd_vendor_id p = v \<and> s")
      case True
      with none have "\<not> (\<exists>q \<in> set ps. prd_id q = k \<and> prd_vendor_id q = v)" by blast
      with IH True show ?thesis by simp
    next
      case False
      then have "(s \<and> (\<exists>q \<in> set (p # ps). prd_id q = k \<and> prd_vendor_id q = v))
          = (s \<and> (\<exists>q \<in> set ps. prd_id q = k \<and> prd_vendor_id q = v))" by auto
      with IH False show ?thesis by simp
    qed
  qed simp
  show ?thesis unfolding vendor_published_def
    by (rule length_concat_filter) (rule one [OF assms])
qed

lemma suspend_vendor_okD:
  assumes "suspend_vendor v u reason w = (Inr x, w')"
  shows "\<exists>log. require_platform_operator u w = (Inr (), w) \<and> strip reason \<noteq> []
     \<and> db w' = (offerings_update (map (unpublished_in (off_id ` set (vendor_published (db w) v))))
          (vendor_profiles_update (upd_row vnd_id v (\<lambda>p. p\<lparr>vnd_status := ''suspended''\<rparr>)) (db w)))\<lparr>audit_log := log\<rparr>
     \<and> disk w' = db w' \<and> sur_offerings_unpublished x = length (vendor_published (db w) v)"
proof -
  let ?w = "w\<lparr>db := vendor_profiles_update (upd_row vnd_id v (\<lambda>p. p\<lparr>vnd_status := ''suspended''\<rparr>)) (db w)\<rparr>"
  have same: "vendor_published (db ?w) v = vendor_published (db w) v"
    by (simp add: vendor_published_def)
  obtain log n where loop: "unpublish_each u v (vendor_published (db w) v) ?w
     = (Inr (), ?w\<lparr>next_uuid := n, db := (offerings_update (map (unpublished_in (off_id ` set (vendor_published (db w) v))))
          (db ?w))\<lparr>audit_log := log\<rparr>\<rparr>)"
    using unpublish_loop [of u v "vendor_published (db w) v" ?w] by blast
  from assms have check: "require_platform_operator u w = (Inr (), w)" "strip reason \<noteq> []"
    and run: "bindE (unpublish_each u v (vendor_published (db w) v)) (\<lambda>_.
       bindE (audit ''vendor.suspended'' (Some u) None
              [(''vendor_id'', JUuid v), (''reason'', JStr (strip reason)),
               (''offerings_unpublished'', JInt (int (length (vendor_published (db w) v))))]) (\<lambda>_.
       bindE commit (\<lambda>_.
       ret \<lparr>sur_vendor_id = v, sur_status = ''suspended'',
            sur_offerings_unpublished = length (vendor_published (db w) v)\<rparr>))) ?w = (Inr x, w')"
    unfolding suspend_vendor_def by (simp_all only: step_ok same) (elim exE conjE, (assumption | simp))+
  from run have "\<exists>log. db w' = (offerings_update (map (unpublished_in (off_id ` set (vendor_published (db w) v)))) (db ?w))\<lparr>audit_log := log\<rparr>
     \<and> disk w' = db w' \<and> sur_offerings_unpublished x = length (vendor_published (db w) v)"
    unfolding step_run_bind [where m = "unpublish_each u v (vendor_published (db w) v)", OF loop]
    by (simp only: step_ok) (elim exE conjE, rule exI, auto)
  with check show ?thesis by simp
qed

text \<open>
  C30. Suspending a vendor closes its shop: all and only the published offerings of its products are
  unpublished, every other offering is left as it was, and the result counts them.
\<close>

theorem suspend_closes_shop:
  assumes "request (suspend_vendor v u reason) w = (Inr x, w')" and "distinct (map off_id (offerings (db w)))"
    and "distinct (map prd_id (products (db w)))"
  shows "offerings (db w') = map (\<lambda>r. if off_status r = ''published''
          \<and> (\<exists>p \<in> set (products (db w)). prd_id p = off_product_id r \<and> prd_vendor_id p = v)
        then r\<lparr>off_status := ''unpublished''\<rparr> else r) (offerings (db w))
    \<and> sur_offerings_unpublished x = length (filter (\<lambda>r. off_status r = ''published''
        \<and> (\<exists>p \<in> set (products (db w)). prd_id p = off_product_id r \<and> prd_vendor_id p = v)) (offerings (db w)))"
proof -
  from assms(1) obtain w1 where ok: "suspend_vendor v u reason w = (Inr x, w1)" and w': "w' = w1\<lparr>db := disk w1\<rparr>"
    by (auto simp: request_ok)
  let ?ids = "off_id ` set (vendor_published (db w) v)"
  let ?P = "\<lambda>r. off_status r = ''published'' \<and> (\<exists>p \<in> set (products (db w)). prd_id p = off_product_id r \<and> prd_vendor_id p = v)"
  from suspend_vendor_okD [OF ok] have offs: "offerings (db w') = map (unpublished_in ?ids) (offerings (db w))"
    and n: "sur_offerings_unpublished x = length (vendor_published (db w) v)"
    by (auto simp: w')
  have "off_id r \<in> ?ids \<longleftrightarrow> ?P r" if r: "r \<in> set (offerings (db w))" for r
  proof
    assume "off_id r \<in> ?ids"
    then obtain q where q: "off_id r = off_id q" "q \<in> set (offerings (db w))" "?P q"
      unfolding vendor_published_ids by blast
    moreover have "q = r" using assms(2) r q(1,2) by (metis get_row_unique option.inject)
    ultimately show "?P r" by simp
  qed (use r in \<open>unfold vendor_published_ids, blast\<close>)
  then have "offerings (db w') = map (\<lambda>r. if ?P r then r\<lparr>off_status := ''unpublished''\<rparr> else r) (offerings (db w))"
    unfolding offs by (intro map_cong refl) (simp add: unpublished_in_def)
  with n vendor_published_length [OF assms(3), of v] show ?thesis by simp
qed

subsection \<open>Rejecting a product\<close>

lemma resubmit_product_ok:
  assumes "request (resubmit_product i u) w = (Inr x, w')"
  shows "offerings (db w') = offerings (db w)"
proof -
  from assms obtain w1 where ok: "resubmit_product i u w = (Inr x, w1)" and w': "w' = w1\<lparr>db := disk w1\<rparr>"
    by (auto simp: request_ok)
  from ok have "offerings (disk w1) = offerings (db w)"
    unfolding resubmit_product_def update_product_row_def
    apply (simp only: step_ok)
    apply (elim exE conjE)
    apply (drule reads_onlyD [OF reads_only_listing(5)])
    apply simp
    done
  then show ?thesis by (simp add: w')
qed

text \<open>
  C31. A rejection is final for the offerings of a product: they are unpublished, and when the vendor resubmits
  the product and the operator then approves it, none of them comes back, although the product is live; nor
  can the vendor publish one again.
\<close>

theorem rejected_stays_unsold:
  assumes "request (reject_product i u reason) w = (Inr x1, w1)"
    and "request (resubmit_product i u') w1 = (Inr x2, w2)"
    and "request (approve_product i u'') w2 = (Inr x3, w3)"
    and "get_row off_id j (offerings (db w)) = Some off" and "off_product_id off = i"
    and "off_status off \<in> {''draft'', ''published'', ''unpublished''}"
  shows "\<exists>r e w4. get_row off_id j (offerings (db w3)) = Some r \<and> off_status r = ''unpublished''
     \<and> request (publish_offering j u') w3 = (Inl e, w4)"
proof -
  let ?g = "\<lambda>r. if offering_of i [''published'', ''draft''] r then r\<lparr>off_status := ''unpublished''\<rparr> else r"
  let ?h = "\<lambda>r. if offering_of i [''draft''] r then r\<lparr>off_status := ''published''\<rparr> else r"
  from assms(1) reject_product_okD have o1: "offerings (db w1) = map ?g (offerings (db w))"
    by (fastforce simp: request_ok)
  from assms(3) approve_product_okD have o3: "offerings (db w3) = map ?h (offerings (db w2))"
    by (fastforce simp: request_ok)
  have find_map: "get_row off_id j (map f rows) = map_option f (get_row off_id j rows)"
    if "\<And>r. off_id (f r) = off_id r" for f and rows :: "offering_row list"
    using that by (induction rows) auto
  have "get_row off_id j (offerings (db w3)) = Some (?h (?g off))"
    unfolding o3 resubmit_product_ok [OF assms(2)] o1 using assms(4) by (simp add: find_map)
  moreover have st: "off_status (?h (?g off)) = ''unpublished''"
    using assms(5,6) by (auto simp: offering_of_def)
  moreover have "\<exists>e w4. request (publish_offering j u') w3 = (Inl e, w4)"
  proof (cases "publish_offering j u' w3")
    case (Pair r w4)
    show ?thesis
    proof (cases r)
      case (Inr y)
      with publish_offering_okD [of j u' w3 y w4] Pair calculation show ?thesis by auto
    qed (use Pair in \<open>auto simp: request_run\<close>)
  qed
  ultimately show ?thesis by blast
qed

subsection \<open>A product through the review\<close>

abbreviation pending_world :: world where
  "pending_world \<equiv> fresh_world (catalog_db (catalog_product ''published'' ''pending_review'') [catalog_offering 4 ''draft''])"

lemma pending_world_ok: "catalog_ok pending_world" "\<not> live 10 pending_world"
  "get_row prd_id 10 (products (db pending_world)) = Some (catalog_product ''published'' ''pending_review'')"
  by (simp_all add: catalog_ok_def live_def content_review_required_def catalog_db_def catalog_product_def empty_db_def)

lemma pending_world_runs:
  "case request (answer True True (Approve_Product 10 7)) pending_world of (Inl _, _) \<Rightarrow> False
   | (Inr _, w1) \<Rightarrow> map prd_pa_status (products (db w1)) = [''live''] \<and> map prd_id (products (db w1)) = [10]"
  "case request (reject_product 10 7 ''r'') pending_world of (Inl _, _) \<Rightarrow> False
   | (Inr _, w1) \<Rightarrow> (case request (resubmit_product 10 5) w1 of (Inl _, _) \<Rightarrow> False
     | (Inr _, w2) \<Rightarrow> (case request (approve_product 10 7) w2 of (Inl _, _) \<Rightarrow> False | (Inr _, _) \<Rightarrow> True))"
  "case request (suspend_vendor 2 7 ''r'') catalog_world of (Inl _, _) \<Rightarrow> False
   | (Inr x, w1) \<Rightarrow> sur_offerings_unpublished x = 1"
  by code_simp+

lemma pending_world_approved:
  obtains w' where "(catalog_step True True)\<^sup>*\<^sup>* pending_world w'" "live 10 w'"
proof -
  from pending_world_runs(1) obtain x w' where run: "request (answer True True (Approve_Product 10 7)) pending_world = (Inr x, w')"
    and p: "map prd_pa_status (products (db w')) = [''live'']" "map prd_id (products (db w')) = [10]"
    by (auto split: prod.splits sum.splits)
  have "live 10 w'" using p by (auto simp: live_def map_eq_Cons_conv)
  with that show thesis using catalog_step.call [OF run] by blast
qed

theorem review_follows_machine_witness:
  "\<exists>w' q. (catalog_step True True)\<^sup>*\<^sup>* pending_world w' \<and> live 10 w'
     \<and> get_row prd_id 10 (products (db w')) = Some q \<and> review_path True ''pending_review'' (prd_pa_status q)"
proof -
  obtain w' where run: "(catalog_step True True)\<^sup>*\<^sup>* pending_world w'" "live 10 w'" by (rule pending_world_approved)
  have "prd_pa_status (catalog_product ''published'' ''pending_review'') = ''pending_review''"
    by (simp add: catalog_product_def)
  with review_follows_machine [OF run(1) pending_world_ok(1,3)] run show ?thesis by metis
qed

theorem live_needs_operator_witness:
  "\<exists>w1 w2. (catalog_step True True)\<^sup>*\<^sup>* pending_world w1 \<and> approval 10 w1 w2"
proof -
  obtain w' where run: "(catalog_step True True)\<^sup>*\<^sup>* pending_world w'" "live 10 w'" by (rule pending_world_approved)
  from live_needs_operator [OF run(1) pending_world_ok(1) run(2) pending_world_ok(2)] show ?thesis by blast
qed

theorem suspend_closes_shop_witness:
  "\<exists>x w'. request (suspend_vendor 2 7 ''r'') catalog_world = (Inr x, w')
     \<and> offerings (db w') = [catalog_offering 4 ''unpublished''] \<and> sur_offerings_unpublished x = 1"
proof -
  from pending_world_runs(3) obtain x w' where run: "request (suspend_vendor 2 7 ''r'') catalog_world = (Inr x, w')"
    by (auto split: prod.splits sum.splits)
  have d: "distinct (map off_id (offerings (db catalog_world)))" "distinct (map prd_id (products (db catalog_world)))"
    by (simp_all add: catalog_db_def)
  have "offerings (db w') = [catalog_offering 4 ''unpublished'']" "sur_offerings_unpublished x = 1"
    using suspend_closes_shop [OF run d] by (simp_all add: catalog_db_def catalog_offering_def catalog_product_def)
  with run show ?thesis by blast
qed

theorem rejected_stays_unsold_witness:
  "\<exists>w3 r e w4. get_row off_id 4 (offerings (db w3)) = Some r \<and> off_status r = ''unpublished''
     \<and> request (publish_offering 4 5) w3 = (Inl e, w4)"
proof -
  from pending_world_runs(2) obtain x1 w1 x2 w2 x3 w3 where
    run: "request (reject_product 10 7 ''r'') pending_world = (Inr x1, w1)"
      "request (resubmit_product 10 5) w1 = (Inr x2, w2)" "request (approve_product 10 7) w2 = (Inr x3, w3)"
    by (auto split: prod.splits sum.splits)
  have o: "get_row off_id 4 (offerings (db pending_world)) = Some (catalog_offering 4 ''draft'')"
    by (simp add: catalog_db_def catalog_offering_def)
  show ?thesis
    using rejected_stays_unsold [OF run o] by (auto simp: catalog_offering_def)
qed

end
