(* ===== verification/Install_Rules.thy ===== *)
theory Install_Rules
  imports Catalog_Machine Shop_Samples
begin

section \<open>Installing once\<close>

text \<open>
  What a successful \<open>install\<close> leaves behind, in both workflow modes: one running installation of the offering
  for the tenant, with the capabilities the approved version declares, and an active entitlement.
\<close>

lemma installable_okD:
  assumes "installable t i w = (Inr (off, p), w')"
  shows "w' = w \<and> get_row off_id i (offerings (db w)) = Some off \<and> off_status off = ''published''
    \<and> get_row prd_id (off_product_id off) (products (db w)) = Some p \<and> prd_status p = ''published''
    \<and> (content_review_required (db w) \<longrightarrow> prd_pa_status p \<in> {''live'', ''not_submitted''})
    \<and> prd_fulfilment_type p \<in> set provision_types
    \<and> (\<exists>v. get_row vnd_id (prd_vendor_id p) (vendor_profiles (db w)) = Some v \<and> vnd_status v = ''verified'')
    \<and> (\<exists>tn. get_row ten_id t (tenants (db w)) = Some tn \<and> ten_status tn = ''active'')"
  using assms unfolding installable_def
  by (auto simp: step_ok ok_iff published_offering_def the_or_checked_ok case_prod_unfold split: option.splits)

lemma reads_only_installable [reads_only_intros]: "reads_only (installable t i)"
  unfolding installable_def by (intro reads_only_intros reads_only_commerce)

text \<open>Provisioning a fresh installation succeeds and creates its one service instance.\<close>

definition instance_row :: "uuid \<Rightarrow> uuid \<Rightarrow> service_instance_row" where
  "instance_row n i = \<lparr>sin_id = n, sin_installation_id = i, sin_status = ''active'', sin_external_ref = Some i\<rparr>"

lemma handle_provision_fresh:
  assumes "get_row ins_id i (installations (db w)) = Some row" and "ins_status row = ''provisioning''"
    and "instances_of (db w) i = []"
  shows "handle_provision [(''installation_id'', JUuid i)] w = (Inr (), w\<lparr>next_uuid := Suc (next_uuid w),
     db := installations_update (upd_row ins_id i (\<lambda>r. r\<lparr>ins_status := ''active''\<rparr>))
       (service_instances_update (\<lambda>rows. rows @ [instance_row (next_uuid w) i]) (db w))\<rparr>)"
  using assms by (simp add: handle_provision_def ensure_instance_def payload_value_def run_simps instance_row_def)

definition new_installation :: "uuid \<Rightarrow> uuid \<Rightarrow> uuid \<Rightarrow> uuid \<Rightarrow> string list \<Rightarrow> instant \<Rightarrow> installation_row" where
  "new_installation i offering tenant project caps now =
     \<lparr>ins_id = i, ins_offering_id = offering, ins_tenant_id = tenant, ins_project_id = project,
      ins_status = ''provisioning'', ins_accepted_capabilities = caps, ins_created_at = now\<rparr>"

definition new_entitlement :: "uuid \<Rightarrow> uuid \<Rightarrow> uuid \<Rightarrow> uuid \<Rightarrow> instant \<Rightarrow> entitlement_row" where
  "new_entitlement e i offering tenant now =
     \<lparr>etl_id = e, etl_installation_id = i, etl_offering_id = offering, etl_tenant_id = tenant,
      etl_status = ''active'', etl_granted_at = now\<rparr>"

text \<open>The end of an installation: its provisioning, in the request or left to the outbox, and the result.\<close>

definition install_rest :: "bool \<Rightarrow> uuid \<Rightarrow> uuid \<Rightarrow> uuid \<Rightarrow> uuid \<Rightarrow> install_result op" where
  "install_rest temporal u t i n =
     bindE (if temporal then ret ()
            else bindE (handle_provision [(''installation_id'', JUuid n)]) (\<lambda>_.
                 modifies (outbox_events_update (upd_row obx_id (Suc (Suc n)) (\<lambda>r. r\<lparr>obx_status := ''processed''\<rparr>))))) (\<lambda>_.
     bindE (audit ''installation.created'' (Some u) (Some t)
              [(''installation_id'', JUuid n), (''entitlement_id'', JUuid (Suc n)),
               (''offering_id'', JUuid i)]) (\<lambda>_.
     bindE commit (\<lambda>_.
     ret \<lparr>irs_installation_id = n, irs_offering_id = i, irs_tenant_id = t,
          irs_status = (if temporal then ''provisioning'' else ''active''),
          irs_entitlement_id = Suc n\<rparr>)))"

definition installed_db :: "uuid \<Rightarrow> instant \<Rightarrow> uuid \<Rightarrow> uuid \<Rightarrow> uuid \<Rightarrow> string list \<Rightarrow> database \<Rightarrow> database" where
  "installed_db n now i t project caps d =
     outbox_events_update (\<lambda>rows. rows @ [new_outbox_row (Suc (Suc n)) now ''provision_service'' [(''installation_id'', JUuid n)]])
       (entitlements_update (\<lambda>rows. rows @ [new_entitlement (Suc n) n i t now])
         (installations_update (\<lambda>rows. rows @ [new_installation n i t project caps now]) d))"

lemma no_row: "(case v of None \<Rightarrow> xs = [] | Some x \<Rightarrow> xs = [x]) \<Longrightarrow> \<not> v \<noteq> None \<Longrightarrow> xs = []"
  by (cases v) auto

lemma install_steps:
  assumes "install P temporal t u p i proj caps rid w = (Inr x, w')"
  shows "\<exists>w1 off prd project. require_permission P p t ''resource.create'' rid w = (Inr (), w1)
     \<and> installable t i w1 = (Inr (off, prd), w1) \<and> resolve_project t proj w1 = (Inr project, w1)
     \<and> running_installs (db w1) t i = []
     \<and> set (filter (\<lambda>s. s \<noteq> []) (map strip caps)) = set (approved_capabilities (db w1) (prd_plugin_id prd))
     \<and> install_rest temporal u t i (next_uuid w1)
         (w1\<lparr>next_uuid := Suc (Suc (Suc (next_uuid w1))), db := installed_db (next_uuid w1) (clock w1) i t project
             (filter (\<lambda>s. s \<noteq> []) (map strip caps)) (db w1)\<rparr>) = (Inr x, w')"
  using assms unfolding install_def Let_def
  apply (simp only: step_ok step_ok_reads_only [OF reads_only_installable] split_paired_Ex prod.case)
  apply (elim exE conjE)
  apply (rule exI, rule exI, rule exI, rule exI, rule conjI, assumption, rule conjI, assumption,
      rule conjI, assumption)
  apply (rule conjI, erule (1) no_row, rule conjI, blast)
  apply (cases temporal; simp add: install_rest_def installed_db_def new_entitlement_def new_installation_def)
  done

lemma install_okD:
  assumes "install (build_authorization_service b) temporal t u p i proj caps rid w = (Inr x, w')"
    and fresh: "\<forall>r \<in> set (installations (db w)). ins_id r < next_uuid w"
      "\<forall>s \<in> set (service_instances (db w)). sin_installation_id s < next_uuid w"
  shows "\<exists>w1 off prd project. require_permission (build_authorization_service b) p t ''resource.create'' rid w = (Inr (), w1)
     \<and> installable t i w1 = (Inr (off, prd), w1) \<and> running_installs (db w1) t i = []
     \<and> set (filter (\<lambda>s. s \<noteq> []) (map strip caps)) = set (approved_capabilities (db w1) (prd_plugin_id prd))
     \<and> disk w' = db w'
     \<and> irs_installation_id x = next_uuid w1 \<and> irs_entitlement_id x = Suc (next_uuid w1)
     \<and> irs_status x = (if temporal then ''provisioning'' else ''active'')
     \<and> installations (db w') = installations (db w1) @
         [(new_installation (next_uuid w1) i t project (filter (\<lambda>s. s \<noteq> []) (map strip caps)) (clock w1))
            \<lparr>ins_status := if temporal then ''provisioning'' else ''active''\<rparr>]
     \<and> entitlements (db w') = entitlements (db w1) @ [new_entitlement (Suc (next_uuid w1)) (next_uuid w1) i t (clock w1)]
     \<and> service_instances (db w') = service_instances (db w1)
         @ (if temporal then [] else [instance_row (Suc (Suc (Suc (next_uuid w1)))) (next_uuid w1)])"
proof -
  let ?caps = "filter (\<lambda>s. s \<noteq> []) (map strip caps)"
  from install_steps [OF assms(1)] obtain w1 off prd project where
    perm: "require_permission (build_authorization_service b) p t ''resource.create'' rid w = (Inr (), w1)"
    and inst: "installable t i w1 = (Inr (off, prd), w1)" "running_installs (db w1) t i = []"
      "set ?caps = set (approved_capabilities (db w1) (prd_plugin_id prd))"
    and run: "install_rest temporal u t i (next_uuid w1) (w1\<lparr>next_uuid := Suc (Suc (Suc (next_uuid w1))),
         db := installed_db (next_uuid w1) (clock w1) i t project ?caps (db w1)\<rparr>) = (Inr x, w')"
    by blast
  let ?w = "w1\<lparr>next_uuid := Suc (Suc (Suc (next_uuid w1))), db := installed_db (next_uuid w1) (clock w1) i t project ?caps (db w1)\<rparr>"
  let ?new = "new_installation (next_uuid w1) i t project ?caps (clock w1)"
  from require_permission_frame [OF perm] have s: "installations (db w1) = installations (db w)"
    "service_instances (db w1) = service_instances (db w)" "next_uuid w \<le> next_uuid w1"
    by (auto simp: same_but_log_def)
  have old: "ins_id r \<noteq> next_uuid w1" if "r \<in> set (installations (db w1))" for r
    using fresh(1) that s(1,3) by fastforce
  then have "get_row ins_id (next_uuid w1) (installations (db w1)) = None" by (simp add: get_row_None)
  then have row: "get_row ins_id (next_uuid w1) (installations (db ?w)) = Some ?new"
    by (simp add: get_row_append new_installation_def installed_db_def)
  have "sin_installation_id r \<noteq> next_uuid w1" if "r \<in> set (service_instances (db w1))" for r
    using fresh(2) that s(2,3) by fastforce
  then have no: "instances_of (db ?w) (next_uuid w1) = []"
    by (simp add: instances_of_def filter_empty_conv installed_db_def)
  have stat: "ins_status ?new = ''provisioning''" by (simp add: new_installation_def)
  have upd: "upd_row ins_id (next_uuid w1) (\<lambda>r. r\<lparr>ins_status := ''active''\<rparr>) (installations (db w1) @ [?new])
    = installations (db w1) @ [?new\<lparr>ins_status := ''active''\<rparr>]"
    using old by (simp add: upd_row_def map_idI new_installation_def)
  have keep: "?new\<lparr>ins_status := ''provisioning''\<rparr> = ?new" by (simp add: new_installation_def)
  have "disk w' = db w' \<and> irs_installation_id x = next_uuid w1 \<and> irs_entitlement_id x = Suc (next_uuid w1)
     \<and> irs_status x = (if temporal then ''provisioning'' else ''active'')
     \<and> installations (db w') = installations (db w1) @ [?new\<lparr>ins_status := if temporal then ''provisioning'' else ''active''\<rparr>]
     \<and> entitlements (db w') = entitlements (db w1) @ [new_entitlement (Suc (next_uuid w1)) (next_uuid w1) i t (clock w1)]
     \<and> service_instances (db w') = service_instances (db w1)
         @ (if temporal then [] else [instance_row (Suc (Suc (Suc (next_uuid w1)))) (next_uuid w1)])"
  proof (cases temporal)
    case True
    with run show ?thesis
      unfolding install_rest_def by (auto simp: step_ok installed_db_def keep)
  next
    case False
    with run show ?thesis
      unfolding install_rest_def
      by (simp only: if_False step_ok step_run_bind [where m = "handle_provision [(''installation_id'', JUuid (next_uuid w1))]",
            OF handle_provision_fresh [OF row stat no]])
         (elim exE conjE, clarify, simp add: installed_db_def upd comp_def)
  qed
  with perm inst show ?thesis by blast
qed

text \<open>
  C32. Installing grants exactly one installation: a successful install needed an active tenant, a published
  offering of a verified vendor and the consent to exactly the declared capabilities; afterwards the tenant has
  one running installation of the offering and an active entitlement to it, and unless the workflow engine
  provisions it later it is active with its one service instance.
\<close>

theorem install_grants_one:
  assumes "request (install (build_authorization_service b) temporal t u p i proj caps rid) w = (Inr x, w')"
    and "\<forall>r \<in> set (installations (db w)). ins_id r < next_uuid w"
    and "\<forall>s \<in> set (service_instances (db w)). sin_installation_id s < next_uuid w"
  shows "\<exists>off prd row e. get_row off_id i (offerings (db w)) = Some off \<and> off_status off = ''published''
     \<and> get_row prd_id (off_product_id off) (products (db w)) = Some prd
     \<and> prd_fulfilment_type prd \<in> set provision_types
     \<and> set (ins_accepted_capabilities row) = set (approved_capabilities (db w) (prd_plugin_id prd))
     \<and> running_installs (db w) t i = [] \<and> running_installs (db w') t i = [row]
     \<and> ins_id row = irs_installation_id x
     \<and> ins_status row = (if temporal then ''provisioning'' else ''active'')
     \<and> length (instances_of (db w') (ins_id row)) = (if temporal then 0 else 1)
     \<and> entitlements (db w') = entitlements (db w) @ [e] \<and> etl_installation_id e = ins_id row
     \<and> etl_tenant_id e = t \<and> etl_status e = ''active''"
proof -
  let ?caps = "filter (\<lambda>s. s \<noteq> []) (map strip caps)"
  from assms(1) obtain w0 where ok: "install (build_authorization_service b) temporal t u p i proj caps rid w = (Inr x, w0)"
    and w': "w' = w0\<lparr>db := disk w0\<rparr>" by (auto simp: request_ok)
  from install_okD [OF ok assms(2,3)] obtain w1 off prd project where
    perm: "require_permission (build_authorization_service b) p t ''resource.create'' rid w = (Inr (), w1)"
    and inst: "installable t i w1 = (Inr (off, prd), w1)" and none: "running_installs (db w1) t i = []"
    and caps: "set ?caps = set (approved_capabilities (db w1) (prd_plugin_id prd))"
    and d: "disk w0 = db w0" "irs_installation_id x = next_uuid w1"
    and rows: "installations (db w0) = installations (db w1) @
         [(new_installation (next_uuid w1) i t project ?caps (clock w1))
            \<lparr>ins_status := if temporal then ''provisioning'' else ''active''\<rparr>]"
      "entitlements (db w0) = entitlements (db w1) @ [new_entitlement (Suc (next_uuid w1)) (next_uuid w1) i t (clock w1)]"
      "service_instances (db w0) = service_instances (db w1)
         @ (if temporal then [] else [instance_row (Suc (Suc (Suc (next_uuid w1)))) (next_uuid w1)])"
    by blast
  from require_permission_frame [OF perm] obtain l where s: "db w1 = (db w)\<lparr>authorization_audit_log := l\<rparr>"
    "next_uuid w \<le> next_uuid w1"
    by (auto simp: same_but_log_def)
  let ?row = "(new_installation (next_uuid w1) i t project ?caps (clock w1))
      \<lparr>ins_status := if temporal then ''provisioning'' else ''active''\<rparr>"
  have d': "db w' = db w0" using d w' by simp
  have "running_installs (db w') t i = [?row]"
    using none unfolding running_installs_def d' rows(1) by (simp add: new_installation_def)
  moreover have "filter (\<lambda>r. sin_installation_id r = next_uuid w1) (service_instances (db w)) = []"
    using assms(3) s(2) by (fastforce simp: filter_empty_conv)
  then have "length (instances_of (db w') (next_uuid w1)) = (if temporal then 0 else 1)"
    unfolding instances_of_def d' rows(3) by (simp add: s(1) instance_row_def)
  moreover have "approved_capabilities (db w1) (prd_plugin_id prd) = approved_capabilities (db w) (prd_plugin_id prd)"
    by (simp add: s(1) approved_capabilities_def split: option.split)
  moreover have "running_installs (db w) t i = []" using none by (simp add: running_installs_def s(1))
  ultimately show ?thesis
    using installable_okD [OF inst] caps
    by (intro exI [of _ off] exI [of _ prd] exI [of _ ?row]
          exI [of _ "new_entitlement (Suc (next_uuid w1)) (next_uuid w1) i t (clock w1)"])
       (simp add: d' rows(2) s(1) d(2) new_installation_def new_entitlement_def)
qed

text \<open>The sample tenant installing an offering of a plugin with one declared capability.\<close>

definition install_db :: database where
  "install_db = sample_db\<lparr>
     projects := [\<lparr>prj_id = 35, prj_tenant_id = 31, prj_name = ''p'', prj_status = ''active'', prj_created_at = 0\<rparr>],
     vendor_profiles := [\<lparr>vnd_id = 201, vnd_organization_id = 21, vnd_legal_name = ''Acme'', vnd_tax_id = None,
       vnd_payout_bank_account = None, vnd_contact_email = [], vnd_business_doc_url = None,
       vnd_status = ''verified'', vnd_created_at = 0\<rparr>],
     products := [(sample_product 303 201 ''PROVISION_SOFTWARE'')\<lparr>prd_plugin_id := Some 900\<rparr>],
     offerings := [sample_offering 403 303 ''monthly'' 900],
     plugin_versions := [\<lparr>pvr_id = 901, pvr_plugin_id = 900, pvr_version = ''1'', pvr_artifact_url = [],
       pvr_changelog = [], pvr_sbom_url = [], pvr_status = ''approved'', pvr_scan_status = ''passed'',
       pvr_risk_level = ''low'', pvr_decided_by = None, pvr_decided_at = None, pvr_claimed_by = None,
       pvr_claimed_at = None, pvr_review_notes = [], pvr_created_at = 0\<rparr>],
     plugin_capabilities := [\<lparr>pcp_id = 902, pcp_version_id = 901, pcp_scope = ''net'', pcp_justification = []\<rparr>]\<rparr>"

lemma install_db_runs:
  "case request (install (build_authorization_service True) False 31 11 1 403 None ['' net''] None) (world_of install_db) of
     (Inl _, _) \<Rightarrow> False | (Inr _, _) \<Rightarrow> True"
  by code_simp

theorem install_grants_one_witness:
  "\<exists>x w' row. request (install (build_authorization_service True) False 31 11 1 403 None ['' net''] None) (world_of install_db)
       = (Inr x, w')
     \<and> running_installs (db w') 31 403 = [row] \<and> ins_status row = ''active''
     \<and> set (ins_accepted_capabilities row) = {''net''}"
proof -
  from install_db_runs obtain x w' where
    run: "request (install (build_authorization_service True) False 31 11 1 403 None ['' net''] None) (world_of install_db) = (Inr x, w')"
    by (auto split: prod.splits sum.splits)
  have fresh: "\<forall>r \<in> set (installations (db (world_of install_db))). ins_id r < next_uuid (world_of install_db)"
    "\<forall>s \<in> set (service_instances (db (world_of install_db))). sin_installation_id s < next_uuid (world_of install_db)"
    by (simp_all add: install_db_def sample_db_def empty_db_def)
  have caps: "approved_capabilities install_db (Some 900) = [''net'']" by code_simp
  from install_grants_one [OF run fresh] obtain off prd row where
    o: "get_row off_id 403 (offerings install_db) = Some off" "get_row prd_id (off_product_id off) (products install_db) = Some prd"
    and r: "set (ins_accepted_capabilities row) = set (approved_capabilities install_db (prd_plugin_id prd))"
      "running_installs (db w') 31 403 = [row]" "ins_status row = ''active''" by auto
  from o have "prd_plugin_id prd = Some 900" by (auto simp: install_db_def sample_offering_def sample_product_def)
  with r caps run show ?thesis by auto
qed

end
