(* ===== verification/Outbox_Rules.thy ===== *)
theory Outbox_Rules
  imports Outbox Invariants
begin

section \<open>The outbox drains, and secrets leave it once\<close>

text \<open>
  A handler leaves the outbox alone, so each event taken by the processor is either processed or has one
  more failed attempt: the work left decreases with every call. A delivered secret is consumed by its
  delivery.
\<close>

definition outbox_frame :: "outbox_row list \<Rightarrow> instant \<Rightarrow> world \<Rightarrow> bool" where
  "outbox_frame rows now w \<longleftrightarrow> outbox_events (db w) = rows \<and> clock w = now"

lemma keeps_outbox_frame [keeps_intros]:
  "(\<And>d. outbox_events (f d) = outbox_events d) \<Longrightarrow> keeps (outbox_frame rows now) (modifies f)"
  "keeps (outbox_frame rows now) uuid4"
  by (simp_all add: keeps_def outbox_frame_def run_simps)

lemma reads_only_parse_uuid [reads_only_intros]: "reads_only (parse_uuid v)"
  by (cases v) (auto intro: reads_only_intros)

lemma handle_event_frame: "keeps (outbox_frame rows now) (handle_event row)"
  unfolding handle_event_def deliver_secret_def handle_scan_def handle_provision_def ensure_instance_def Let_def
  by (rule keeps_intros reads_only_keeps reads_only_parse_uuid | (simp; fail))+

lemma process_event_cases:
  obtains ns w1 where "handle_event row w = (Inr ns, w1)"
    "process_event row w = (Inr (ns, True), w1\<lparr>db := outbox_events_update
        (upd_row obx_id (obx_id row) (processed_row (clock w))) (db w1)\<rparr>)"
    "outbox_events (db w1) = outbox_events (db w)" "clock w1 = clock w"
  | e w1 where "handle_event row w = (Inl e, w1)"
    "process_event row w = (Inr ([], False), w1\<lparr>db := outbox_events_update
        (upd_row obx_id (obx_id row) failed_row) (db w1)\<rparr>)"
    "outbox_events (db w1) = outbox_events (db w)" "clock w1 = clock w"
proof -
  obtain r w1 where h: "handle_event row w = (r, w1)" by fastforce
  have "outbox_frame (outbox_events (db w)) (clock w) w" by (simp add: outbox_frame_def)
  from keepsD [OF handle_event_frame this h] have f: "outbox_events (db w1) = outbox_events (db w)" "clock w1 = clock w"
    by (simp_all add: outbox_frame_def)
  show thesis
  proof (cases r)
    case (Inr ns)
    with h f show ?thesis by (intro that(1) [of ns w1]) (simp_all add: process_event_def run_simps)
  next
    case (Inl e)
    with h f show ?thesis by (intro that(2) [of e w1]) (simp_all add: process_event_def run_simps)
  qed
qed

subsection \<open>The work left\<close>

definition attempts_left :: "outbox_row \<Rightarrow> nat" where
  "attempts_left r = (if obx_status r = ''pending'' then max 1 (nat (5 - obx_retry_count r)) else 0)"

definition outbox_work :: "database \<Rightarrow> nat" where
  "outbox_work d = sum_list (map attempts_left (outbox_events d))"

text \<open>Each event is worked on: after its turn the row has less work left.\<close>

lemma attempts_after:
  "attempts_left (processed_row now r) = 0"
  "obx_status r = ''pending'' \<Longrightarrow> attempts_left (failed_row r) < attempts_left r"
  "attempts_left (failed_row r) \<le> attempts_left r"
  by (auto simp: attempts_left_def processed_row_def failed_row_def Let_def)

lemma work_upd_row:
  assumes "\<And>r. attempts_left (f r) \<le> attempts_left r"
  shows "sum_list (map attempts_left (upd_row obx_id i f rows)) \<le> sum_list (map attempts_left rows)"
    and "\<exists>r \<in> set rows. obx_id r = i \<and> attempts_left (f r) < attempts_left r \<Longrightarrow>
      sum_list (map attempts_left (upd_row obx_id i f rows)) < sum_list (map attempts_left rows)"
proof -
  show le: "sum_list (map attempts_left (upd_row obx_id i f rows)) \<le> sum_list (map attempts_left rows)" for rows
    by (induction rows) (auto intro: add_mono assms)
  show "sum_list (map attempts_left (upd_row obx_id i f rows)) < sum_list (map attempts_left rows)"
    if "\<exists>r \<in> set rows. obx_id r = i \<and> attempts_left (f r) < attempts_left r"
    using that
  proof (induction rows)
    case (Cons r rows)
    show ?case
    proof (cases "obx_id r = i \<and> attempts_left (f r) < attempts_left r")
      case True
      with le [of rows] show ?thesis by simp
    next
      case False
      with Cons have "sum_list (map attempts_left (upd_row obx_id i f rows)) < sum_list (map attempts_left rows)" by auto
      with assms [of r] show ?thesis by simp
    qed
  qed simp
qed

lemma process_event_work:
  assumes "process_event row w = (x, w')"
  shows "outbox_work (db w') \<le> outbox_work (db w)"
    and "row \<in> set (outbox_events (db w)) \<Longrightarrow> obx_status row = ''pending'' \<Longrightarrow> outbox_work (db w') < outbox_work (db w)"
proof -
  obtain f where f: "\<And>r. attempts_left (f r) \<le> attempts_left r"
      "obx_status row = ''pending'' \<Longrightarrow> attempts_left (f row) < attempts_left row"
    and after: "outbox_events (db w') = upd_row obx_id (obx_id row) f (outbox_events (db w))"
  proof (cases row w rule: process_event_cases)
    case (1 ns w1)
    have "0 < attempts_left row" if "obx_status row = ''pending''" using that by (simp add: attempts_left_def)
    with 1 assms show ?thesis by (intro that [of "processed_row (clock w)"]) (auto simp: attempts_after)
  next
    case (2 e w1)
    with assms show ?thesis by (intro that [of failed_row]) (auto simp: attempts_after)
  qed
  show "outbox_work (db w') \<le> outbox_work (db w)"
    unfolding outbox_work_def after by (rule work_upd_row(1) [OF f(1)])
  show "outbox_work (db w') < outbox_work (db w)" if "row \<in> set (outbox_events (db w))" "obx_status row = ''pending''"
    unfolding outbox_work_def after
    by (rule work_upd_row(2) [OF f(1)]) (use that f(2) in blast)
qed

lemma process_events_total:
  "\<exists>xs w'. map_each rows process_event w = (Inr xs, w') \<and> outbox_work (db w') \<le> outbox_work (db w)"
proof (induction rows arbitrary: w)
  case (Cons row rows)
  obtain x w1 where x: "process_event row w = (Inr x, w1)" by (cases row w rule: process_event_cases) auto
  from Cons.IH [of w1] obtain xs w' where "map_each rows process_event w1 = (Inr xs, w')"
    "outbox_work (db w') \<le> outbox_work (db w1)" by blast
  with x process_event_work(1) [OF x] show ?case by (auto simp: bindE_run ret_run)
qed (simp add: ret_run)

lemma process_pending_work:
  assumes "0 < limit"
  shows "\<exists>ns k w'. request (process_pending limit) w = (Inr (ns, k), w')
     \<and> (pending_events (db w) = [] \<longrightarrow> pending_events (db w') = [])
     \<and> (pending_events (db w) \<noteq> [] \<longrightarrow> outbox_work (db w') < outbox_work (db w))"
proof -
  let ?rows = "take limit (pending_events (db w))"
  obtain xs w1 where run: "map_each ?rows process_event w = (Inr xs, w1)"
    and less: "pending_events (db w) \<noteq> [] \<longrightarrow> outbox_work (db w1) < outbox_work (db w)"
  proof (cases "pending_events (db w)")
    case Nil
    then show ?thesis by (intro that [of "[]" w]) (simp_all add: ret_run)
  next
    case (Cons row rest)
    with assms obtain rows where rows: "?rows = row # rows" by (cases limit) auto
    have "row \<in> set (pending_events (db w))" using Cons by simp
    then have row: "row \<in> set (outbox_events (db w))" "obx_status row = ''pending''"
      by (simp_all add: pending_events_def)
    obtain x w0 where x: "process_event row w = (Inr x, w0)" by (cases row w rule: process_event_cases) auto
    obtain xs w1 where xs: "map_each rows process_event w0 = (Inr xs, w1)" "outbox_work (db w1) \<le> outbox_work (db w0)"
      using process_events_total by blast
    show ?thesis
      by (rule that [of "x # xs" w1])
         (use x xs rows process_event_work(2) [OF x row] in \<open>auto simp: bindE_run ret_run\<close>)
  qed
  have "request (process_pending limit) w
      = (Inr (concat (map fst xs), length (filter snd xs)), w1\<lparr>disk := db w1\<rparr>)"
    using run by (simp add: request_run process_pending_def bindE_run reads_run commit_run ret_run)
  moreover have "pending_events (db w1) = []" if "pending_events (db w) = []"
    using run that by (simp add: ret_run)
  ultimately show ?thesis using less by auto
qed

text \<open>Calling the processor again and again, with nothing else writing.\<close>

fun drain :: "nat \<Rightarrow> nat \<Rightarrow> world \<Rightarrow> world" where
  "drain limit 0 w = w"
| "drain limit (Suc k) w = drain limit k (snd (request (process_pending limit) w))"

text \<open>
  C33. The outbox drains: every call of the processor returns, and after as many calls as there are attempts
  left no event is pending, whatever the handlers do.
\<close>

theorem outbox_drains:
  assumes "0 < limit" and "outbox_work (db w) \<le> k"
  shows "pending_events (db (drain limit k w)) = []"
  using assms(2)
proof (induction k arbitrary: w)
  case 0
  have "obx_status r \<noteq> ''pending''" if "r \<in> set (outbox_events (db w))" for r
  proof -
    have "attempts_left r = 0" using 0 that by (simp add: outbox_work_def)
    then show ?thesis by (auto simp: attempts_left_def max_def split: if_split_asm)
  qed
  then have "filter (\<lambda>r. obx_status r = ''pending'') (outbox_events (db w)) = []"
    unfolding filter_empty_conv by blast
  then show ?case by (simp add: pending_events_def)
next
  case (Suc k)
  from process_pending_work [OF assms(1), of w] obtain ns n w' where
    run: "request (process_pending limit) w = (Inr (ns, n), w')"
    and none: "pending_events (db w) = [] \<longrightarrow> pending_events (db w') = []"
    and less: "pending_events (db w) \<noteq> [] \<longrightarrow> outbox_work (db w') < outbox_work (db w)" by blast
  show ?case
  proof (cases "pending_events (db w) = []")
    case False
    with less Suc.prems have "outbox_work (db w') \<le> k" by simp
    with Suc.IH run show ?thesis by simp
  next
    case True
    have idle: "pending_events (db (drain limit j v)) = []" if "pending_events (db v) = []" for j v
      using that
    proof (induction j arbitrary: v)
      case (Suc j)
      from process_pending_work [OF assms(1), of v] obtain ns n v' where
        "request (process_pending limit) v = (Inr (ns, n), v')"
        "pending_events (db v) = [] \<longrightarrow> pending_events (db v') = []" by blast
      with Suc show ?case by simp
    qed simp
    show ?thesis by (rule idle [OF True])
  qed
qed

subsection \<open>Secrets\<close>

definition open_secrets :: "database \<Rightarrow> nat" where
  "open_secrets d = length (filter (\<lambda>s. dsc_consumed_at s = None) (delivery_secrets d))"

definition secret_notice :: "notice \<Rightarrow> bool" where
  "secret_notice n = (ntc_channel n \<in> {''verification_email'', ''password_reset_email''})"

text \<open>A processed event carries no secret in its payload.\<close>

definition clean_outbox :: "database \<Rightarrow> bool" where
  "clean_outbox d \<longleftrightarrow> (\<forall>r \<in> set (outbox_events d). obx_status r = ''processed''
     \<longrightarrow> (\<forall>k \<in> set secret_keys. map_of (obx_payload r) k = None))"

definition wiped :: "instant \<Rightarrow> delivery_secret_row \<Rightarrow> delivery_secret_row" where
  "wiped now s = s\<lparr>dsc_secret_plain := None, dsc_consumed_at := Some now\<rparr>"

lemma wiped_consumed [simp]: "dsc_consumed_at (wiped now s) = Some now"
  by (simp add: wiped_def)

lemma open_secrets_wiped:
  "length (filter (\<lambda>s. dsc_consumed_at s = None) (upd_row dsc_id i (wiped now) rows))
     \<le> length (filter (\<lambda>s. dsc_consumed_at s = None) rows)"
  "get_row dsc_id i rows = Some s \<Longrightarrow> dsc_consumed_at s = None \<Longrightarrow>
     length (filter (\<lambda>s. dsc_consumed_at s = None) (upd_row dsc_id i (wiped now) rows))
     < length (filter (\<lambda>s. dsc_consumed_at s = None) rows)"
proof -
  show le: "length (filter (\<lambda>s. dsc_consumed_at s = None) (upd_row dsc_id i (wiped now) rows))
     \<le> length (filter (\<lambda>s. dsc_consumed_at s = None) rows)" for rows
    by (induction rows) auto
  show "get_row dsc_id i rows = Some s \<Longrightarrow> dsc_consumed_at s = None \<Longrightarrow>
     length (filter (\<lambda>s. dsc_consumed_at s = None) (upd_row dsc_id i (wiped now) rows))
     < length (filter (\<lambda>s. dsc_consumed_at s = None) rows)"
  proof (induction rows)
    case (Cons r rows)
    with le [of rows] show ?case by (auto simp: less_Suc_eq_le split: if_split_asm)
  qed simp
qed

lemma deliver_secret_once:
  assumes "deliver_secret purpose p extra w = (r, w')"
  shows "(case r of Inl _ \<Rightarrow> 0 | Inr ns \<Rightarrow> length ns) + open_secrets (db w') \<le> open_secrets (db w)"
proof -
  have wipe: "modifies (delivery_secrets_update (upd_row dsc_id i (\<lambda>s. s\<lparr>dsc_secret_plain := None, dsc_consumed_at := Some now\<rparr>))) v
      = (Inr (), v\<lparr>db := delivery_secrets_update (upd_row dsc_id i (wiped now)) (db v)\<rparr>)" for i now v
    by (simp add: run_simps wiped_def [abs_def])
  show ?thesis
  proof (cases "payload_value p ''delivery_secret_id''")
    case (JUuid i)
    show ?thesis
    proof (cases "get_row dsc_id i (delivery_secrets (db w))")
      case (Some s)
      show ?thesis
        using assms JUuid Some open_secrets_wiped(1) [of i "clock w" "delivery_secrets (db w)"]
          open_secrets_wiped(2) [OF Some, of "clock w"]
        by (auto simp: deliver_secret_def Let_def bindE_run ret_run raise_run raise_if_run the_or_run reads_run
              utcnow_run wipe open_secrets_def split: if_split_asm sum.splits)
    qed (use assms JUuid in \<open>auto simp: deliver_secret_def Let_def run_simps split: if_split_asm\<close>)
  qed (use assms in \<open>auto simp: deliver_secret_def Let_def run_simps split: if_split_asm sum.splits\<close>)
qed

definition secrets_frame :: "delivery_secret_row list \<Rightarrow> world \<Rightarrow> bool" where
  "secrets_frame rows w \<longleftrightarrow> delivery_secrets (db w) = rows"

lemma keeps_secrets_frame [keeps_intros]:
  "(\<And>d. delivery_secrets (f d) = delivery_secrets d) \<Longrightarrow> keeps (secrets_frame rows) (modifies f)"
  "keeps (secrets_frame rows) uuid4"
  by (simp_all add: keeps_def secrets_frame_def run_simps)

lemma handle_event_shape:
  "(\<exists>purpose extra. handle_event row = deliver_secret purpose (obx_payload row) extra)
   \<or> (\<exists>m \<in> {handle_scan (obx_payload row), handle_provision (obx_payload row)}. handle_event row = bindE m (\<lambda>_. ret []))
   \<or> (\<exists>ns. handle_event row = ret ns \<and> filter secret_notice ns = [])"
proof -
  consider "obx_type row = ''send_verification_email''" | "obx_type row = ''send_password_reset_email''"
    | "obx_type row = ''retry_keycloak_set_password''" | "obx_type row = ''scan_plugin_artifact''"
    | "obx_type row = ''provision_service''"
    | "handle_event row = ret []"
    unfolding handle_event_def Let_def by argo
  then show ?thesis
  proof cases
    case 1
    then have "handle_event row = deliver_secret ''verification_email'' (obx_payload row) [''user_id'', ''verification_token_id'']"
      by (simp add: handle_event_def)
    then show ?thesis by blast
  next
    case 2
    then have "handle_event row = deliver_secret ''password_reset_email'' (obx_payload row) [''reset_token_id'']"
      by (simp add: handle_event_def)
    then show ?thesis by blast
  next
    case 3
    then have "handle_event row = ret [\<lparr>ntc_channel = ''keycloak_set_password_retry'', ntc_to = JStr ''keycloak'',
        ntc_body = obx_payload row\<rparr>]" by (simp add: handle_event_def)
    moreover have "filter secret_notice [\<lparr>ntc_channel = ''keycloak_set_password_retry'', ntc_to = JStr ''keycloak'',
        ntc_body = obx_payload row\<rparr>] = []" by (simp add: secret_notice_def)
    ultimately show ?thesis by blast
  next
    case 4
    then have "handle_event row = bindE (handle_scan (obx_payload row)) (\<lambda>_. ret [])" by (simp add: handle_event_def)
    then show ?thesis by blast
  next
    case 5
    then have "handle_event row = bindE (handle_provision (obx_payload row)) (\<lambda>_. ret [])" by (simp add: handle_event_def)
    then show ?thesis by blast
  next
    case 6
    moreover have "filter secret_notice [] = []" by simp
    ultimately show ?thesis by blast
  qed
qed

lemma handle_event_secrets:
  assumes "handle_event row w = (r, w')"
  shows "(case r of Inl _ \<Rightarrow> 0 | Inr ns \<Rightarrow> length (filter secret_notice ns)) + open_secrets (db w') \<le> open_secrets (db w)"
proof -
  have few: "(case q of Inl _ \<Rightarrow> 0 | Inr ns \<Rightarrow> length (filter secret_notice ns)) \<le> (case q of Inl _ \<Rightarrow> 0 | Inr ns \<Rightarrow> length ns)"
    for q :: "error + notice list" by (cases q) simp_all
  have secrets: "open_secrets (db v') = open_secrets (db v)" if "keeps (secrets_frame (delivery_secrets (db v))) m"
      "m v = (q, v')" for m :: "unit op" and v q v'
    using keepsD [OF that(1) _ that(2)] by (simp add: open_secrets_def secrets_frame_def)
  have scan: "keeps (secrets_frame x) (handle_scan p)" for x p
    unfolding handle_scan_def Let_def
    by (rule keeps_intros reads_only_keeps reads_only_parse_uuid | (simp; fail))+
  have provision: "keeps (secrets_frame x) (handle_provision p)" for x p
    unfolding handle_provision_def ensure_instance_def Let_def
    by (rule keeps_intros reads_only_keeps reads_only_parse_uuid | (simp; fail))+
  consider purpose extra where "handle_event row = deliver_secret purpose (obx_payload row) extra"
    | m where "m \<in> {handle_scan (obx_payload row), handle_provision (obx_payload row)}"
        "handle_event row = bindE m (\<lambda>_. ret [])"
    | ns where "handle_event row = ret ns" "filter secret_notice ns = []"
    using handle_event_shape [of row] by blast
  then show ?thesis
  proof cases
    case (1 purpose extra)
    with deliver_secret_once [of purpose "obx_payload row" extra w r w'] assms few [of r] show ?thesis by simp
  next
    case (2 m)
    obtain q w1 where q: "m w = (q, w1)" by fastforce
    have "open_secrets (db w1) = open_secrets (db w)" by (rule secrets [where m = m and v = w, OF _ q]) (use 2(1) scan provision in auto)
    with q assms show ?thesis by (auto simp: 2(2) bindE_run ret_run split: sum.splits)
  next
    case (3 ns)
    with assms have "r = Inr ns" "w' = w" by (simp_all add: ret_run)
    with 3(2) show ?thesis by simp
  qed
qed

lemma redacted_clean: "k \<in> set secret_keys \<Longrightarrow> map_of (redacted p) k = None"
proof -
  assume "k \<in> set secret_keys"
  moreover from this have "k \<noteq> ''secret_redacted''" by (auto simp: secret_keys_def)
  ultimately show ?thesis by (auto simp: redacted_def map_add_def map_of_eq_None_iff split: option.split)
qed

lemma process_event_secrets:
  assumes "process_event row w = (Inr (ns, ok), w')"
  shows "length (filter secret_notice ns) + open_secrets (db w') \<le> open_secrets (db w)"
    and "clean_outbox (db w) \<Longrightarrow> clean_outbox (db w')"
proof -
  show "length (filter secret_notice ns) + open_secrets (db w') \<le> open_secrets (db w)"
    by (cases row w rule: process_event_cases)
       (use assms handle_event_secrets [of row w] in \<open>fastforce simp: open_secrets_def\<close>)+
  assume c: "clean_outbox (db w)"
  show "clean_outbox (db w')"
  proof (cases row w rule: process_event_cases)
    case (1 ns' w1)
    with assms c show ?thesis
      by (auto simp: clean_outbox_def set_upd_row processed_row_def redacted_clean split: if_splits)
  next
    case (2 e w1)
    have "map_of (obx_payload r) k = None" if "r \<in> set (outbox_events (db w))" "obx_status (failed_row r) = ''processed''"
      "k \<in> set secret_keys" for r k
      using c that by (auto simp: clean_outbox_def failed_row_def Let_def split: if_split_asm)
    with 2 assms c show ?thesis
      by (auto simp: clean_outbox_def set_upd_row failed_row_def Let_def split: if_splits)
  qed
qed

lemma process_events_secrets:
  assumes "map_each rows process_event w = (Inr xs, w')"
  shows "length (filter secret_notice (concat (map fst xs))) + open_secrets (db w') \<le> open_secrets (db w)
    \<and> (clean_outbox (db w) \<longrightarrow> clean_outbox (db w'))"
  using assms
proof (induction rows arbitrary: w xs)
  case (Cons row rows)
  then obtain ns ok w1 ys where x: "process_event row w = (Inr (ns, ok), w1)"
    and ys: "map_each rows process_event w1 = (Inr ys, w')" "xs = (ns, ok) # ys"
    by (auto simp: ok_iff)
  from process_event_secrets [OF x] Cons.IH [OF ys(1)] show ?case by (auto simp: ys(2))
qed (simp add: ret_run)

text \<open>
  C34. Secrets leave the outbox once: every notice with a secret that a call of the processor sends consumes a
  delivery secret that was open, and an event it has processed keeps no secret in its payload.
\<close>

theorem secrets_leave_once:
  assumes "clean_outbox (db w)"
  shows "\<exists>ns k w'. request (process_pending limit) w = (Inr (ns, k), w')
    \<and> length (filter secret_notice ns) + open_secrets (db w') \<le> open_secrets (db w) \<and> clean_outbox (db w')"
proof -
  obtain xs w1 where run: "map_each (take limit (pending_events (db w))) process_event w = (Inr xs, w1)"
    using process_events_total by blast
  have "request (process_pending limit) w
      = (Inr (concat (map fst xs), length (filter snd xs)), w1\<lparr>disk := db w1\<rparr>)"
    using run by (simp add: request_run process_pending_def bindE_run reads_run commit_run ret_run)
  with process_events_secrets [OF run] assms show ?thesis by auto
qed

subsection \<open>A sample outbox\<close>

text \<open>One open secret with its event, and a provisioning whose installation is gone.\<close>

definition outbox_db :: database where
  "outbox_db = empty_db\<lparr>
     delivery_secrets := [\<lparr>dsc_id = 5, dsc_purpose = ''verification_email'',
       dsc_secret_plain = Some ''123456'', dsc_expires_at = 2000, dsc_consumed_at = None\<rparr>],
     outbox_events :=
       [\<lparr>obx_id = 1, obx_type = ''send_verification_email'',
         obx_payload = [(''email'', JStr ''a''), (''delivery_secret_id'', JUuid 5), (''otp_code'', JStr ''123456'')],
         obx_status = ''pending'', obx_retry_count = 0,
         obx_created_at = 1, obx_processed_at = None\<rparr>,
        \<lparr>obx_id = 2, obx_type = ''provision_service'', obx_payload = [(''installation_id'', JUuid 7)],
         obx_status = ''pending'', obx_retry_count = 3, obx_created_at = 2, obx_processed_at = None\<rparr>]\<rparr>"

abbreviation outbox_world :: world where
  "outbox_world \<equiv> \<lparr>db = outbox_db, disk = outbox_db, clock = 1000, next_uuid = 1000\<rparr>"

theorem outbox_drains_witness: "pending_events (db (drain 1 7 outbox_world)) = []"
proof -
  have "outbox_work (db outbox_world) \<le> 7"
    by (simp add: outbox_work_def attempts_left_def outbox_db_def empty_db_def)
  then show ?thesis by (rule outbox_drains [rotated]) simp
qed

lemma outbox_world_runs:
  "case request (process_pending 10) outbox_world of (Inl _, _) \<Rightarrow> False
   | (Inr (ns, k), w1) \<Rightarrow> filter secret_notice ns \<noteq> [] \<and> k = 1"
  by code_simp

theorem secrets_leave_once_witness:
  "\<exists>ns k w'. request (process_pending 10) outbox_world = (Inr (ns, k), w') \<and> filter secret_notice ns \<noteq> []
    \<and> open_secrets (db w') = 0 \<and> clean_outbox (db w')"
proof -
  have "clean_outbox (db outbox_world)" by (simp add: clean_outbox_def outbox_db_def)
  from secrets_leave_once [OF this, of 10] obtain ns k w' where
    run: "request (process_pending 10) outbox_world = (Inr (ns, k), w')"
    and less: "length (filter secret_notice ns) + open_secrets (db w') \<le> open_secrets (db outbox_world)"
    and clean: "clean_outbox (db w')" by blast
  have some: "filter secret_notice ns \<noteq> []" using outbox_world_runs run by simp
  have "open_secrets (db outbox_world) = 1" by (simp add: open_secrets_def outbox_db_def)
  with less some have "open_secrets (db w') = 0" by (cases "filter secret_notice ns") simp_all
  with run some clean show ?thesis by blast
qed

end
