(* ===== verification/Vendor_Service.thy ===== *)
theory Vendor_Service
  imports Catalog_Base
begin

section \<open>The vendor service\<close>

text \<open>
  \<open>VendorService\<close> of \<open>vendor/application/vendor_service.py\<close>: eligibility and registration of an
  organization as a vendor, the decision on its verification, the settings with the masked bank account,
  and support requests. Where the source adds a row to the session before its checks and commits after
  them, the model keeps that order; an exception drops it. The \<open>_EMAIL\<close> and \<open>_IFSC\<close> patterns are
  applied to stripped text, so \<open>$\<close> is the end of the text.
\<close>

definition mask_account :: "string \<Rightarrow> string" where
  "mask_account value =
     (if length value \<le> 4 then value
      else replicate (length value - 4) (CHR ''X'') @ drop (length value - 4) value)"

definition requirements :: "string list" where
  "requirements = [''business_registration_doc'', ''bank_account'', ''tax_id'']"

subsection \<open>The patterns\<close>

definition email_char :: "char \<Rightarrow> bool" where
  "email_char c = (c \<noteq> CHR ''@'' \<and> \<not> is_space c)"

definition is_email :: "string \<Rightarrow> bool" where
  "is_email s =
     (let name = takeWhile (\<lambda>c. c \<noteq> CHR ''@'') s; domain = drop (Suc (length name)) s
      in length name < length s \<and> name \<noteq> [] \<and> list_all email_char name \<and> list_all email_char domain
         \<and> CHR ''.'' \<in> set (butlast (tl domain)))"

definition is_capital :: "char \<Rightarrow> bool" where
  "is_capital c = (let n = (of_char c :: nat) in 65 \<le> n \<and> n \<le> 90)"

definition is_ifsc :: "string \<Rightarrow> bool" where
  "is_ifsc s =
     (length s = 11 \<and> list_all is_capital (take 4 s) \<and> s ! 4 = CHR ''0''
      \<and> list_all (\<lambda>c. is_capital c \<or> is_digit c) (drop 5 s))"

subsection \<open>Views\<close>

record eligibility_result =
  elr_eligible :: bool
  elr_reasons :: "string list"
  elr_requirements :: "string list"
  elr_vendor_id :: "uuid option"
  elr_vendor_status :: "string option"
  elr_submitted_at :: "instant option"
  elr_verification_id :: "uuid option"
  elr_verification_status :: "string option"
  elr_notes :: "string option"

record vendor_profile_view =
  vpv_vendor_id :: uuid
  vpv_org_id :: uuid
  vpv_status :: string
  vpv_legal_name :: string

record vendor_register_result =
  vrr_vendor_id :: uuid
  vrr_org_id :: uuid
  vrr_status :: string
  vrr_verification_id :: uuid

record verification_view =
  vfs_vendor_id :: uuid
  vfs_status :: string
  vfs_submitted_at :: instant
  vfs_verification_id :: "uuid option"
  vfs_verification_status :: "string option"
  vfs_notes :: "string option"

record queued_verification =
  qvf_verification_id :: uuid
  qvf_vendor_id :: uuid
  qvf_legal_name :: string
  qvf_contact_email :: string
  qvf_org_id :: uuid
  qvf_status :: string
  qvf_submitted_at :: instant
  qvf_business_doc_url :: "string option"

record vendor_settings_view =
  vsv_vendor_id :: uuid
  vsv_status :: string
  vsv_legal_name :: string
  vsv_tax_id :: "string option"
  vsv_support_email :: string
  vsv_bank_account_name :: string
  vsv_bank_account_number :: string
  vsv_bank_ifsc :: string
  vsv_notify_install :: bool
  vsv_notify_payout :: bool
  vsv_default_currency :: string

record support_request_view =
  srv_request_id :: uuid
  srv_subject :: string
  srv_message :: string
  srv_status :: string
  srv_created_at :: instant

record verification_decision =
  vdc_verification_id :: uuid
  vdc_vendor_id :: uuid
  vdc_status :: string
  vdc_decided_by :: uuid
  vdc_decided_at :: instant

subsection \<open>Checks and lookups\<close>

definition require_org_owner :: "uuid \<Rightarrow> uuid \<Rightarrow> organization_row op" where
  "require_org_owner org user =
     bindE (reads (\<lambda>d. get_row org_id org (organizations d))) (\<lambda>found.
     bindE (the_or found (NotFoundError ''organization not found'')) (\<lambda>row.
     bindE (reads (\<lambda>d. filter (\<lambda>m. omb_organization_id m = org \<and> omb_user_id m = user
               \<and> omb_role m = ''owner'' \<and> omb_status m = ''active'') (org_memberships d))) (\<lambda>rows.
     bindE (one_or_none rows) (\<lambda>membership.
     bindE (raise_if (membership = None) (ForbiddenError ''org owner required'')) (\<lambda>_.
     ret row)))))"

definition require_operator_member :: "uuid \<Rightarrow> unit op" where
  "require_operator_member user =
     bindE (reads (\<lambda>d. first_row (operator_membership_org_ids d user))) (\<lambda>row.
     raise_if (row = None) (ForbiddenError ''platform operator required''))"

definition profile_of_org :: "uuid \<Rightarrow> vendor_profile_row option op" where
  "profile_of_org org =
     bindE (reads (\<lambda>d. filter (\<lambda>v. vnd_organization_id v = org) (vendor_profiles d))) (\<lambda>rows.
     one_or_none rows)"

definition latest_verification :: "database \<Rightarrow> uuid \<Rightarrow> verification_row option" where
  "latest_verification d vendor =
     first_row (sort_desc vrf_created_at (filter (\<lambda>v. vrf_vendor_id v = vendor) (vendor_verifications d)))"

subsection \<open>Eligibility and registration\<close>

definition eligibility :: "uuid \<Rightarrow> uuid \<Rightarrow> eligibility_result op" where
  "eligibility org caller =
     bindE (require_org_owner org caller) (\<lambda>_.
     bindE (profile_of_org org) (\<lambda>vendor.
     bindE (reads (\<lambda>d. Option.bind vendor (\<lambda>v. latest_verification d (vnd_id v)))) (\<lambda>verification.
     let reasons = (if vendor = None then [] else [''Organization already has a vendor profile'']);
         eligible = (reasons = [])
     in ret \<lparr>elr_eligible = eligible, elr_reasons = reasons,
             elr_requirements = (if eligible then requirements else []),
             elr_vendor_id = map_option vnd_id vendor, elr_vendor_status = map_option vnd_status vendor,
             elr_submitted_at = map_option vnd_created_at vendor,
             elr_verification_id = map_option vrf_id verification,
             elr_verification_status = map_option vrf_status verification,
             elr_notes = Option.bind verification vrf_notes\<rparr>)))"

definition profile_for_org :: "uuid \<Rightarrow> uuid \<Rightarrow> vendor_profile_view op" where
  "profile_for_org org caller =
     bindE (require_org_owner org caller) (\<lambda>_.
     bindE (profile_of_org org) (\<lambda>found.
     bindE (the_or found (NotFoundError ''vendor not found'')) (\<lambda>vendor.
     ret \<lparr>vpv_vendor_id = vnd_id vendor, vpv_org_id = vnd_organization_id vendor,
          vpv_status = vnd_status vendor, vpv_legal_name = vnd_legal_name vendor\<rparr>)))"

text \<open>\<open>not x or not x.strip()\<close>.\<close>

definition blank :: "string option \<Rightarrow> bool" where
  "blank x = (case x of None \<Rightarrow> True | Some s \<Rightarrow> s = [] \<or> strip s = [])"

definition register ::
  "uuid \<Rightarrow> uuid \<Rightarrow> string \<Rightarrow> string option \<Rightarrow> string option \<Rightarrow> string \<Rightarrow> string option
    \<Rightarrow> vendor_register_result op"
where
  "register org caller legal_name tax_id payout_bank_account contact_email business_doc_url =
     bindE (require_org_owner org caller) (\<lambda>_.
     bindE (profile_of_org org) (\<lambda>existing.
     bindE (raise_if (existing \<noteq> None) (ConflictError ''org already has a vendor profile'')) (\<lambda>_.
     let name = strip legal_name; email = lower (strip contact_email) in
     bindE (raise_if (name = [] \<or> email = [] \<or> CHR ''@'' \<notin> set email)
              (ValidationError ''legal_name and contact_email are required'')) (\<lambda>_.
     bindE (raise_if (blank business_doc_url) (ValidationError ''missing required document'')) (\<lambda>_.
     bindE (raise_if (blank tax_id) (ValidationError ''tax_id is required'')) (\<lambda>_.
     bindE (raise_if (blank payout_bank_account) (ValidationError ''payout_bank_account is required'')) (\<lambda>_.
     bindE uuid4 (\<lambda>v.
     bindE utcnow (\<lambda>now.
     bindE (modifies (vendor_profiles_update (\<lambda>rows. rows @
       [\<lparr>vnd_id = v, vnd_organization_id = org, vnd_legal_name = name,
         vnd_tax_id = map_option strip tax_id,
         vnd_payout_bank_account = map_option strip payout_bank_account, vnd_contact_email = email,
         vnd_business_doc_url = map_option strip business_doc_url, vnd_status = ''pending_verification'',
         vnd_created_at = now\<rparr>]))) (\<lambda>_.
     bindE uuid4 (\<lambda>f.
     bindE (modifies (vendor_verifications_update (\<lambda>rows. rows @
       [\<lparr>vrf_id = f, vrf_vendor_id = v, vrf_status = ''queued'', vrf_notes = None, vrf_decided_by = None,
         vrf_decided_at = None, vrf_created_at = now\<rparr>]))) (\<lambda>_.
     bindE (modifies (organizations_update (upd_row org_id org
              (\<lambda>o'. o'\<lparr>org_participation := ''consumer_and_vendor''\<rparr>)))) (\<lambda>_.
     bindE (audit ''vendor.registered'' (Some caller) None
              [(''vendor_id'', JUuid v), (''org_id'', JUuid org), (''verification_id'', JUuid f)]) (\<lambda>_.
     bindE commit (\<lambda>_.
     ret \<lparr>vrr_vendor_id = v, vrr_org_id = org, vrr_status = ''pending_verification'',
          vrr_verification_id = f\<rparr>)))))))))))))))"

subsection \<open>Verification\<close>

definition get_verification :: "uuid \<Rightarrow> uuid \<Rightarrow> verification_view op" where
  "get_verification vendor_id caller =
     bindE (reads (\<lambda>d. get_row vnd_id vendor_id (vendor_profiles d))) (\<lambda>found.
     bindE (the_or found (NotFoundError ''vendor not found'')) (\<lambda>vendor.
     bindE (require_org_owner (vnd_organization_id vendor) caller) (\<lambda>_.
     bindE (reads (\<lambda>d. latest_verification d vendor_id)) (\<lambda>verification.
     ret \<lparr>vfs_vendor_id = vnd_id vendor, vfs_status = vnd_status vendor,
          vfs_submitted_at = vnd_created_at vendor,
          vfs_verification_id = map_option vrf_id verification,
          vfs_verification_status = map_option vrf_status verification,
          vfs_notes = Option.bind verification vrf_notes\<rparr>))))"

definition list_queued :: "uuid \<Rightarrow> queued_verification list op" where
  "list_queued caller =
     bindE (require_operator_member caller) (\<lambda>_.
     reads (\<lambda>d.
       [\<lparr>qvf_verification_id = vrf_id verification, qvf_vendor_id = vnd_id profile,
         qvf_legal_name = vnd_legal_name profile, qvf_contact_email = vnd_contact_email profile,
         qvf_org_id = vnd_organization_id profile, qvf_status = vrf_status verification,
         qvf_submitted_at = vrf_created_at verification,
         qvf_business_doc_url = vnd_business_doc_url profile\<rparr>.
        (verification, profile) \<leftarrow> sort_key (\<lambda>(verification, _). vrf_created_at verification)
          [(verification, profile). verification \<leftarrow> vendor_verifications d, profile \<leftarrow> vendor_profiles d,
             vnd_id profile = vrf_vendor_id verification
             \<and> vrf_status verification \<in> {''queued'', ''pending''}]]))"

definition decided_verification :: "string \<Rightarrow> string option \<Rightarrow> uuid \<Rightarrow> instant \<Rightarrow> verification_row \<Rightarrow> verification_row"
where
  "decided_verification decision notes caller now v =
     v\<lparr>vrf_status := decision, vrf_notes := notes, vrf_decided_by := Some caller,
       vrf_decided_at := Some now\<rparr>"

definition leave_vendor_role :: "uuid \<Rightarrow> unit op" where
  "leave_vendor_role org =
     bindE (reads (\<lambda>d. get_row org_id org (organizations d))) (\<lambda>found.
     if (case found of None \<Rightarrow> False | Some o' \<Rightarrow> org_participation o' = ''consumer_and_vendor'')
     then modifies (organizations_update (upd_row org_id org (\<lambda>o'. o'\<lparr>org_participation := ''consumer''\<rparr>)))
     else ret ())"

definition decide_verification :: "uuid \<Rightarrow> uuid \<Rightarrow> string \<Rightarrow> string option \<Rightarrow> verification_decision op" where
  "decide_verification verification_id caller decision notes =
     bindE (require_operator_member caller) (\<lambda>_.
     bindE (raise_if (decision \<notin> {''approved'', ''rejected''})
              (ValidationError ''decision must be approved or rejected'')) (\<lambda>_.
     bindE (reads (\<lambda>d. get_row vrf_id verification_id (vendor_verifications d))) (\<lambda>found.
     bindE (the_or found (NotFoundError ''verification not found'')) (\<lambda>verification.
     bindE (raise_if (vrf_status verification \<notin> {''queued'', ''pending''})
              (ConflictError ''already decided'')) (\<lambda>_.
     bindE (reads (\<lambda>d. get_row vnd_id (vrf_vendor_id verification) (vendor_profiles d))) (\<lambda>found_vendor.
     bindE (the_or found_vendor (NotFoundError ''vendor not found'')) (\<lambda>vendor.
     bindE utcnow (\<lambda>now.
     bindE (modifies (vendor_verifications_update (upd_row vrf_id verification_id
              (decided_verification decision notes caller now)))) (\<lambda>_.
     bindE (modifies (vendor_profiles_update (upd_row vnd_id (vnd_id vendor) (\<lambda>v.
              v\<lparr>vnd_status := (if decision = ''approved'' then ''verified'' else ''rejected'')\<rparr>)))) (\<lambda>_.
     bindE (if decision = ''approved'' then ret ()
            else leave_vendor_role (vnd_organization_id vendor)) (\<lambda>_.
     bindE (audit ''vendor.verification_decided'' (Some caller) None
              [(''verification_id'', JUuid verification_id), (''vendor_id'', JUuid (vnd_id vendor)),
               (''decision'', JStr decision)]) (\<lambda>_.
     bindE commit (\<lambda>_.
     ret \<lparr>vdc_verification_id = vrf_id verification, vdc_vendor_id = vnd_id vendor,
          vdc_status = decision, vdc_decided_by = caller, vdc_decided_at = now\<rparr>)))))))))))))"

subsection \<open>Settings\<close>

definition settings_view :: "vendor_profile_row \<Rightarrow> vendor_settings_row option \<Rightarrow> vendor_settings_view" where
  "settings_view vendor row =
     \<lparr>vsv_vendor_id = vnd_id vendor, vsv_status = vnd_status vendor,
      vsv_legal_name = vnd_legal_name vendor, vsv_tax_id = vnd_tax_id vendor,
      vsv_support_email = (case row of None \<Rightarrow> [] | Some r \<Rightarrow> vst_support_email r),
      vsv_bank_account_name = (case row of None \<Rightarrow> [] | Some r \<Rightarrow> vst_bank_account_name r),
      vsv_bank_account_number = (case row of None \<Rightarrow> [] | Some r \<Rightarrow> mask_account (vst_bank_account_number r)),
      vsv_bank_ifsc = (case row of None \<Rightarrow> [] | Some r \<Rightarrow> vst_bank_ifsc r),
      vsv_notify_install = (case row of None \<Rightarrow> True | Some r \<Rightarrow> vst_notify_install r),
      vsv_notify_payout = (case row of None \<Rightarrow> True | Some r \<Rightarrow> vst_notify_payout r),
      vsv_default_currency = (case row of None \<Rightarrow> ''INR''
         | Some r \<Rightarrow> if vst_default_currency r = [] then ''INR'' else vst_default_currency r)\<rparr>"

definition get_settings :: "uuid \<Rightarrow> uuid \<Rightarrow> vendor_settings_view op" where
  "get_settings vendor_id caller =
     bindE (require_vendor_owner vendor_id caller) (\<lambda>vendor.
     bindE (reads (\<lambda>d. get_row vst_vendor_id vendor_id (vendor_settings d))) (\<lambda>row.
     ret (settings_view vendor row)))"

text \<open>The optional arguments of \<open>update_settings\<close>.\<close>

record settings_input =
  sti_support_email :: "string option"
  sti_bank_account_name :: "string option"
  sti_bank_account_number :: "string option"
  sti_bank_ifsc :: "string option"
  sti_notify_install :: "bool option"
  sti_notify_payout :: "bool option"
  sti_default_currency :: "string option"

definition new_settings :: "uuid \<Rightarrow> instant \<Rightarrow> vendor_settings_row" where
  "new_settings vendor now =
     \<lparr>vst_vendor_id = vendor, vst_support_email = [], vst_bank_account_name = [],
      vst_bank_account_number = [], vst_bank_ifsc = [], vst_notify_install = True,
      vst_notify_payout = True, vst_default_currency = ''INR'', vst_updated_at = now\<rparr>"

text \<open>One argument each: absent, it leaves the row as it is.\<close>

definition set_email :: "string option \<Rightarrow> vendor_settings_row \<Rightarrow> vendor_settings_row op" where
  "set_email arg row =
     (case arg of None \<Rightarrow> ret row
      | Some s \<Rightarrow> let email = strip s in
          bindE (raise_if (\<not> is_email email) (ValidationError ''invalid email'')) (\<lambda>_.
          ret (row\<lparr>vst_support_email := email\<rparr>)))"

definition set_account_name :: "string option \<Rightarrow> vendor_settings_row \<Rightarrow> vendor_settings_row op" where
  "set_account_name arg row =
     (case arg of None \<Rightarrow> ret row
      | Some s \<Rightarrow> let name = strip s in
          bindE (raise_if (name = []) (ValidationError ''bank account name is required'')) (\<lambda>_.
          ret (row\<lparr>vst_bank_account_name := name\<rparr>)))"

definition set_account_number :: "string option \<Rightarrow> vendor_settings_row \<Rightarrow> vendor_settings_row op" where
  "set_account_number arg row =
     (case arg of None \<Rightarrow> ret row
      | Some s \<Rightarrow> let number = strip s in
          if number \<noteq> mask_account (vst_bank_account_number row)
          then bindE (raise_if (length number < 4) (ValidationError ''bank account number is invalid'')) (\<lambda>_.
               ret (row\<lparr>vst_bank_account_number := number\<rparr>))
          else ret row)"

definition set_ifsc :: "string option \<Rightarrow> vendor_settings_row \<Rightarrow> vendor_settings_row op" where
  "set_ifsc arg row =
     (case arg of None \<Rightarrow> ret row
      | Some s \<Rightarrow> let ifsc = upper (strip s) in
          bindE (raise_if (\<not> is_ifsc ifsc) (ValidationError ''invalid IFSC'')) (\<lambda>_.
          ret (row\<lparr>vst_bank_ifsc := ifsc\<rparr>)))"

definition set_notices :: "bool option \<Rightarrow> bool option \<Rightarrow> vendor_settings_row \<Rightarrow> vendor_settings_row" where
  "set_notices on_install on_payout row =
     (let row1 = (case on_install of None \<Rightarrow> row | Some b \<Rightarrow> row\<lparr>vst_notify_install := b\<rparr>)
      in case on_payout of None \<Rightarrow> row1 | Some b \<Rightarrow> row1\<lparr>vst_notify_payout := b\<rparr>)"

definition set_currency :: "string option \<Rightarrow> vendor_settings_row \<Rightarrow> vendor_settings_row op" where
  "set_currency arg row =
     (case arg of None \<Rightarrow> ret row
      | Some s \<Rightarrow> let code = upper (strip s) in
          bindE (raise_if (code \<notin> set allowed_currencies)
                   (ValidationError ''default_currency must be one of AED, EUR, GBP, INR, USD'')) (\<lambda>_.
          ret (row\<lparr>vst_default_currency := code\<rparr>)))"

definition apply_settings :: "settings_input \<Rightarrow> vendor_settings_row \<Rightarrow> vendor_settings_row op" where
  "apply_settings i row =
     bindE (set_email (sti_support_email i) row) (\<lambda>r1.
     bindE (set_account_name (sti_bank_account_name i) r1) (\<lambda>r2.
     bindE (set_account_number (sti_bank_account_number i) r2) (\<lambda>r3.
     bindE (set_ifsc (sti_bank_ifsc i) r3) (\<lambda>r4.
     set_currency (sti_default_currency i)
       (set_notices (sti_notify_install i) (sti_notify_payout i) r4)))))"

definition update_settings :: "uuid \<Rightarrow> uuid \<Rightarrow> settings_input \<Rightarrow> vendor_settings_view op" where
  "update_settings vendor_id caller i =
     bindE (require_vendor_owner vendor_id caller) (\<lambda>vendor.
     bindE (reads (\<lambda>d. get_row vst_vendor_id vendor_id (vendor_settings d))) (\<lambda>found.
     bindE utcnow (\<lambda>now.
     let row = (case found of None \<Rightarrow> new_settings (vnd_id vendor) now | Some r \<Rightarrow> r) in
     bindE (if found = None then modifies (vendor_settings_update (\<lambda>rows. rows @ [row])) else ret ()) (\<lambda>_.
     bindE (apply_settings i row) (\<lambda>r.
     let row' = r\<lparr>vst_updated_at := now\<rparr> in
     bindE (modifies (vendor_settings_update (upd_row vst_vendor_id (vst_vendor_id row) (\<lambda>_. row')))) (\<lambda>_.
     bindE (audit ''vendor.settings_updated'' (Some caller) None
              [(''vendor_id'', JUuid (vnd_id vendor))]) (\<lambda>_.
     bindE commit (\<lambda>_.
     ret (settings_view vendor (Some row'))))))))))"

subsection \<open>Support requests\<close>

definition support_request_view_of :: "support_request_row \<Rightarrow> support_request_view" where
  "support_request_view_of row =
     \<lparr>srv_request_id = spr_id row, srv_subject = spr_subject row, srv_message = spr_message row,
      srv_status = spr_status row, srv_created_at = spr_created_at row\<rparr>"

definition create_support_request :: "uuid \<Rightarrow> uuid \<Rightarrow> string \<Rightarrow> string \<Rightarrow> support_request_view op" where
  "create_support_request vendor_id caller subject message =
     bindE (require_vendor_owner vendor_id caller) (\<lambda>_.
     let subject' = strip subject; message' = strip message in
     bindE (raise_if (subject' = [] \<or> message' = [])
              (ValidationError ''subject and message are required'')) (\<lambda>_.
     bindE utcnow (\<lambda>created_at.
     bindE uuid4 (\<lambda>i.
     let row = \<lparr>spr_id = i, spr_vendor_id = vendor_id, spr_subject = subject', spr_message = message',
                spr_status = ''open'', spr_created_at = created_at\<rparr> in
     bindE (modifies (support_requests_update (\<lambda>rows. rows @ [row]))) (\<lambda>_.
     bindE (audit ''vendor.support_requested'' (Some caller) None
              [(''vendor_id'', JUuid vendor_id), (''request_id'', JUuid i)]) (\<lambda>_.
     bindE commit (\<lambda>_.
     ret (support_request_view_of row))))))))"

definition list_support_requests :: "uuid \<Rightarrow> uuid \<Rightarrow> support_request_view list op" where
  "list_support_requests vendor_id caller =
     bindE (require_vendor_owner vendor_id caller) (\<lambda>_.
     reads (\<lambda>d. map support_request_view_of
       (sort_desc spr_created_at (filter (\<lambda>r. spr_vendor_id r = vendor_id) (support_requests d)))))"

end
