(* ===== verification/Vendor_Rules.thy ===== *)
theory Vendor_Rules
  imports Vendor_Service Catalog_Machine
begin

section \<open>What holds of vendors\<close>

text \<open>
  The tables of the vendor service stay well formed and its decisions final over any run of its writing
  requests, of the suspensions and reinstatements of the catalog service, and of writes of the other
  services to their own tables.
\<close>

subsection \<open>Reading requests and frames\<close>

lemma reads_only_vendor [reads_only_intros]:
  "reads_only (require_org_owner org u)" "reads_only (require_operator_member u)"
  "reads_only (profile_of_org org)"
  by (auto simp: require_org_owner_def require_operator_member_def profile_of_org_def intro!: reads_only_intros)

lemma reads_only_settings [reads_only_intros]:
  "reads_only (set_email a row)" "reads_only (set_account_name a row)" "reads_only (set_account_number a row)"
  "reads_only (set_ifsc a row)" "reads_only (set_currency a row)"
  by (auto simp: set_email_def set_account_name_def set_account_number_def set_ifsc_def set_currency_def Let_def
      intro!: reads_only_intros)

lemma reads_only_apply [reads_only_intros]: "reads_only (apply_settings i row)"
  unfolding apply_settings_def by (rule reads_only_intros)+

lemma reads_only_vendor_requests [reads_only_intros]:
  "reads_only (eligibility org u)" "reads_only (profile_for_org org u)" "reads_only (get_verification v u)"
  "reads_only (list_queued u)" "reads_only (get_settings v u)" "reads_only (list_support_requests v u)"
  unfolding eligibility_def profile_for_org_def get_verification_def list_queued_def get_settings_def
    list_support_requests_def Let_def
  by (rule reads_only_intros | simp)+

lemmas step_ok_vendor [step_ok] =
  step_ok_reads_only [OF reads_only_vendor(1)] step_ok_reads_only [OF reads_only_vendor(2)]
  step_ok_reads_only [OF reads_only_vendor(3)] step_ok_reads_only [OF reads_only_apply]

lemma same_organizations:
  assumes "m w = (Inr (), w)"
  shows "\<exists>f. m w = (Inr (), w\<lparr>db := organizations_update f (db w)\<rparr>)"
  by (rule exI [of _ "\<lambda>rows. rows"]) (use assms in \<open>cases w, cases "db w", simp\<close>)

lemma leave_vendor_role_run:
  "\<exists>f. leave_vendor_role org w = (Inr (), w\<lparr>db := organizations_update f (db w)\<rparr>)"
proof (cases "case get_row org_id org (organizations (db w)) of None \<Rightarrow> False
                | Some o' \<Rightarrow> org_participation o' = ''consumer_and_vendor''")
  case True
  then show ?thesis unfolding leave_vendor_role_def by (auto simp: run_simps)
next
  case False
  then have "leave_vendor_role org w = (Inr (), w)" unfolding leave_vendor_role_def by (simp add: run_simps)
  then show ?thesis by (rule same_organizations)
qed

lemma total_leave_vendor_role: "total_op (leave_vendor_role org)"
  unfolding total_op_def using leave_vendor_role_run by metis

lemma vendor_atomic:
  "atomic_but_log (register org u name tax bank email doc)"
  "atomic_but_log (decide_verification i u dec notes)"
  "atomic_but_log (update_settings v u inp)"
  "atomic_but_log (create_support_request v u subj msg)"
  unfolding register_def decide_verification_def update_settings_def create_support_request_def
    leave_vendor_role_def Let_def
  by (rule atomic_but_log_intros keeps_intros reads_only_keeps reads_only_vendor reads_only_checks reads_only_apply
      | (simp; fail))+

lemma vendor_uuid:
  "keeps (uuid_ge n) (register org u name tax bank email doc)"
  "keeps (uuid_ge n) (decide_verification i u dec notes)"
  "keeps (uuid_ge n) (update_settings v u inp)"
  "keeps (uuid_ge n) (create_support_request v u subj msg)"
  unfolding register_def decide_verification_def update_settings_def create_support_request_def
    leave_vendor_role_def Let_def
  by (rule keeps_intros reads_only_keeps reads_only_vendor reads_only_checks reads_only_apply | (simp; fail))+

subsection \<open>Requests that returned\<close>

lemma require_org_owner_okD:
  assumes "require_org_owner org u w = (Inr r, w')"
  shows "w' = w" and "get_row org_id org (organizations (db w)) = Some r"
    and "\<exists>m \<in> set (org_memberships (db w)). omb_organization_id m = org \<and> omb_user_id m = u
           \<and> omb_role m = ''owner'' \<and> omb_status m = ''active''"
proof -
  show "w' = w" "get_row org_id org (organizations (db w)) = Some r"
    using assms by (auto simp: require_org_owner_def ok_iff)
  from assms obtain m where "filter (\<lambda>m. omb_organization_id m = org \<and> omb_user_id m = u
      \<and> omb_role m = ''owner'' \<and> omb_status m = ''active'') (org_memberships (db w)) = [m]"
    by (auto simp: require_org_owner_def ok_iff)
  then have "m \<in> set (filter (\<lambda>m. omb_organization_id m = org \<and> omb_user_id m = u
      \<and> omb_role m = ''owner'' \<and> omb_status m = ''active'') (org_memberships (db w)))" by simp
  then show "\<exists>m \<in> set (org_memberships (db w)). omb_organization_id m = org \<and> omb_user_id m = u
           \<and> omb_role m = ''owner'' \<and> omb_status m = ''active''" by auto
qed

lemma register_okD:
  assumes "register org u name tax bank email doc w = (Inr x, w')"
  shows "\<exists>v f log. filter (\<lambda>v. vnd_organization_id v = org) (vendor_profiles (db w)) = []
     \<and> strip name \<noteq> [] \<and> CHR ''@'' \<in> set (lower (strip email)) \<and> \<not> blank doc \<and> \<not> blank tax \<and> \<not> blank bank
     \<and> v = next_uuid w \<and> f = Suc v
     \<and> db w' = (organizations_update (upd_row org_id org (\<lambda>o'. o'\<lparr>org_participation := ''consumer_and_vendor''\<rparr>))
          (vendor_verifications_update (\<lambda>rows. rows @
             [\<lparr>vrf_id = f, vrf_vendor_id = v, vrf_status = ''queued'', vrf_notes = None, vrf_decided_by = None,
               vrf_decided_at = None, vrf_created_at = clock w\<rparr>])
          (vendor_profiles_update (\<lambda>rows. rows @
             [\<lparr>vnd_id = v, vnd_organization_id = org, vnd_legal_name = strip name,
               vnd_tax_id = map_option strip tax, vnd_payout_bank_account = map_option strip bank,
               vnd_contact_email = lower (strip email), vnd_business_doc_url = map_option strip doc,
               vnd_status = ''pending_verification'', vnd_created_at = clock w\<rparr>]) (db w))))\<lparr>audit_log := log\<rparr>
     \<and> disk w' = db w' \<and> f < next_uuid w'"
  using assms unfolding register_def profile_of_org_def Let_def
  apply (simp only: step_ok)
  apply (elim exE conjE)
  apply (rule exI, rule exI, rule exI, rule conjI)
   apply (simp split: option.splits)
  apply (rule conjI, simp)
  apply (rule conjI, simp)
  apply (rule conjI, assumption, rule conjI, assumption, rule conjI, assumption)
  apply (rule conjI, rule refl, rule conjI, rule refl)
  apply simp
  done

lemma decide_verification_okD:
  assumes "decide_verification i u dec notes w = (Inr x, w')"
  shows "\<exists>f v g log. require_operator_member u w = (Inr (), w) \<and> dec \<in> {''approved'', ''rejected''}
     \<and> get_row vrf_id i (vendor_verifications (db w)) = Some f \<and> vrf_status f \<in> {''queued'', ''pending''}
     \<and> get_row vnd_id (vrf_vendor_id f) (vendor_profiles (db w)) = Some v
     \<and> db w' = (organizations_update g
          (vendor_profiles_update (upd_row vnd_id (vnd_id v) (\<lambda>v.
              v\<lparr>vnd_status := (if dec = ''approved'' then ''verified'' else ''rejected'')\<rparr>))
          (vendor_verifications_update (upd_row vrf_id i (decided_verification dec notes u (clock w)))
             (db w))))\<lparr>audit_log := log\<rparr>
     \<and> disk w' = db w' \<and> next_uuid w \<le> next_uuid w'"
proof -
  have org: "\<exists>g. (if b then ret () else leave_vendor_role org') w1 = (Inr (), w1\<lparr>db := organizations_update g (db w1)\<rparr>)"
    for b org' w1
  proof (cases b)
    case True
    then have "(if b then ret () else leave_vendor_role org') w1 = (Inr (), w1)" by (simp add: ret_run)
    then show ?thesis by (rule same_organizations)
  qed (simp add: leave_vendor_role_run)
  from assms obtain f v where op: "require_operator_member u w = (Inr (), w)" "dec \<in> {''approved'', ''rejected''}"
    and f: "get_row vrf_id i (vendor_verifications (db w)) = Some f" "vrf_status f \<in> {''queued'', ''pending''}"
    and v: "get_row vnd_id (vrf_vendor_id f) (vendor_profiles (db w)) = Some v"
    and run: "bindE (if dec = ''approved'' then ret () else leave_vendor_role (vnd_organization_id v)) (\<lambda>_.
       bindE (audit ''vendor.verification_decided'' (Some u) None
              [(''verification_id'', JUuid i), (''vendor_id'', JUuid (vnd_id v)), (''decision'', JStr dec)]) (\<lambda>_.
       bindE commit (\<lambda>_.
       ret \<lparr>vdc_verification_id = vrf_id f, vdc_vendor_id = vnd_id v, vdc_status = dec, vdc_decided_by = u,
            vdc_decided_at = clock w\<rparr>)))
      (w\<lparr>db := vendor_profiles_update (upd_row vnd_id (vnd_id v) (\<lambda>v.
              v\<lparr>vnd_status := (if dec = ''approved'' then ''verified'' else ''rejected'')\<rparr>))
          (vendor_verifications_update (upd_row vrf_id i (decided_verification dec notes u (clock w))) (db w))\<rparr>)
      = (Inr x, w')" (is "bindE ?m _ ?w = _")
    unfolding decide_verification_def by (simp_all only: step_ok) (elim exE conjE, simp)
  obtain g where g: "?m ?w = (Inr (), ?w\<lparr>db := organizations_update g (db ?w)\<rparr>)" using org by blast
  show ?thesis
    using run op f v unfolding step_run_bind [where m = ?m, OF g]
    apply (simp only: step_ok)
    apply (elim exE conjE)
    apply (rule exI [of _ f], rule exI [of _ v], rule exI [of _ g])
    apply (simp split del: if_split)
    apply (rule exI, rule refl)
    done
qed

lemma set_fields_world:
  "set_email a row w1 = (Inr r, w2) \<Longrightarrow> set_email a row w = (Inr r, w)"
  "set_account_name a row w1 = (Inr r, w2) \<Longrightarrow> set_account_name a row w = (Inr r, w)"
  "set_account_number a row w1 = (Inr r, w2) \<Longrightarrow> set_account_number a row w = (Inr r, w)"
  "set_ifsc a row w1 = (Inr r, w2) \<Longrightarrow> set_ifsc a row w = (Inr r, w)"
  "set_currency a row w1 = (Inr r, w2) \<Longrightarrow> set_currency a row w = (Inr r, w)"
  by (auto simp: set_email_def set_account_name_def set_account_number_def set_ifsc_def set_currency_def
      Let_def ok_iff run_simps split: option.splits if_splits)

lemma apply_settings_world:
  "apply_settings i row w1 = (Inr r, w2) \<Longrightarrow> apply_settings i row w = (Inr r, w)"
proof -
  assume "apply_settings i row w1 = (Inr r, w2)"
  then obtain r1 v1 r2 v2 r3 v3 r4 v4 where s: "set_email (sti_support_email i) row w1 = (Inr r1, v1)"
    "set_account_name (sti_bank_account_name i) r1 v1 = (Inr r2, v2)"
    "set_account_number (sti_bank_account_number i) r2 v2 = (Inr r3, v3)"
    "set_ifsc (sti_bank_ifsc i) r3 v3 = (Inr r4, v4)"
    "set_currency (sti_default_currency i) (set_notices (sti_notify_install i) (sti_notify_payout i) r4) v4 = (Inr r, w2)"
    unfolding apply_settings_def bindE_ok by blast
  show ?thesis
    by (simp add: apply_settings_def bindE_run set_fields_world(1) [OF s(1)] set_fields_world(2) [OF s(2)]
        set_fields_world(3) [OF s(3)] set_fields_world(4) [OF s(4)] set_fields_world(5) [OF s(5)])
qed

lemma update_settings_okD:
  assumes "update_settings v u i w = (Inr x, w')"
  shows "\<exists>p row r log. require_vendor_owner v u w = (Inr p, w)
     \<and> row = (case get_row vst_vendor_id v (vendor_settings (db w)) of None \<Rightarrow> new_settings (vnd_id p) (clock w) | Some r \<Rightarrow> r)
     \<and> apply_settings i row w = (Inr r, w) \<and> x = settings_view p (Some (r\<lparr>vst_updated_at := clock w\<rparr>))
     \<and> db w' = (vendor_settings_update (\<lambda>rows.
           upd_row vst_vendor_id (vst_vendor_id row) (\<lambda>_. r\<lparr>vst_updated_at := clock w\<rparr>)
             (if get_row vst_vendor_id v (vendor_settings (db w)) = None then rows @ [row] else rows))
           (db w))\<lparr>audit_log := log\<rparr>
     \<and> disk w' = db w' \<and> next_uuid w \<le> next_uuid w'"
proof (cases "get_row vst_vendor_id v (vendor_settings (db w))")
  case None
  with assms show ?thesis unfolding update_settings_def Let_def
    apply (simp only: step_ok if_True simp_thms option.case)
    apply (elim exE conjE)
    apply (drule apply_settings_world [where w = w])
    apply (rule exI, rule exI, rule exI, rule exI, rule conjI, assumption)
    apply (rule conjI, rule refl, rule conjI, assumption)
    apply (simp add: comp_def)
    done
next
  case (Some r0)
  with assms show ?thesis unfolding update_settings_def Let_def
    apply (simp only: step_ok if_False simp_thms option.case option.simps)
    apply (elim exE conjE)
    apply (rule exI, rule exI, rule exI, rule exI, rule conjI, assumption)
    apply (rule conjI, rule refl, rule conjI, assumption)
    apply simp
    done
qed

lemma create_support_okD:
  assumes "create_support_request v u subj msg w = (Inr x, w')"
  shows "\<exists>log. strip subj \<noteq> [] \<and> strip msg \<noteq> []
     \<and> db w' = (support_requests_update (\<lambda>rows. rows @
         [\<lparr>spr_id = next_uuid w, spr_vendor_id = v, spr_subject = strip subj, spr_message = strip msg,
           spr_status = ''open'', spr_created_at = clock w\<rparr>]) (db w))\<lparr>audit_log := log\<rparr>
     \<and> disk w' = db w' \<and> next_uuid w < next_uuid w'"
  using assms unfolding create_support_request_def Let_def
  apply (simp only: step_ok)
  apply (elim exE conjE)
  apply (rule exI, rule conjI, simp)
  apply simp
  done

end
