(* ===== verification/Vendor_Types.thy ===== *)
theory Vendor_Types
  imports Vendor_Rules
begin

section \<open>The types of the vendor tables\<close>

text \<open>
  Which values the columns of the vendor tables hold and how their rows belong together, and that every
  change the requests make keeps it so. Text that was validated is in normal form: validating it again
  does not change it.
\<close>

subsection \<open>Text in normal form\<close>

lemma strip_fixed_last:
  assumes "strip s = s" and "s \<noteq> []"
  shows "\<not> is_space (last s)"
proof
  assume sp: "is_space (last s)"
  let ?d = "dropWhile is_space s"
  have "length (dropWhile is_space (rev ?d)) < length s"
  proof (cases "?d = []")
    case True
    show ?thesis using assms(2) unfolding True by simp
  next
    case False
    then have "last ?d = last s" by (metis dropWhile_eq_Cons_conv last_appendR takeWhile_dropWhile_id)
    with False sp have "is_space (hd (rev ?d))" by (simp add: hd_rev)
    then have "length (dropWhile is_space (rev ?d)) < length (rev ?d)"
      using False by (cases "rev ?d") (auto simp: le_imp_less_Suc length_dropWhile_le)
    moreover have "length ?d \<le> length s" by (rule length_dropWhile_le)
    ultimately show ?thesis by simp
  qed
  then have "length (strip s) < length s" by (simp add: strip_def)
  with assms(1) show False by simp
qed

lemma strip_fixed:
  assumes "s \<noteq> [] \<Longrightarrow> \<not> is_space (hd s)" and "s \<noteq> [] \<Longrightarrow> \<not> is_space (last s)"
  shows "strip s = s"
proof (cases "s = []")
  case False
  have "dropWhile is_space s = s" using assms(1) [OF False] by (cases s) auto
  moreover have "dropWhile is_space (rev s) = rev s"
    using assms(2) [OF False] False by (cases "rev s") (auto simp: hd_rev [symmetric])
  ultimately show ?thesis by (simp add: strip_def)
qed simp

lemma strip_no_space: "list_all (\<lambda>c. \<not> is_space c) s \<Longrightarrow> strip s = s"
  by (rule strip_fixed) (auto simp: list_all_iff)

lemma strip_mask:
  assumes "strip n = n"
  shows "strip (mask_account n) = mask_account n"
proof (cases "length n \<le> 4")
  case True
  with assms show ?thesis by (simp add: mask_account_def)
next
  case False
  have "\<not> is_space (CHR ''X'')" by (simp add: is_space_def Let_def)
  moreover have "\<not> is_space (last n)" by (rule strip_fixed_last [OF assms]) (use False in auto)
  moreover have "length n - 4 = Suc (length n - 5)" using False by simp
  ultimately show ?thesis
    using False by (intro strip_fixed) (auto simp: mask_account_def)
qed

lemma capital_fixed: "is_capital c \<or> is_digit c \<Longrightarrow> upper_char c = c \<and> \<not> is_space c"
  by (auto simp: is_capital_def is_digit_def upper_char_def is_space_def Let_def)

lemma set_around:
  assumes "k < length s" and "c \<in> set s"
  shows "c \<in> set (take k s) \<or> c = s ! k \<or> c \<in> set (drop (Suc k) s)"
proof -
  have "c \<in> set (take k s @ s ! k # drop (Suc k) s)"
    using assms(2) unfolding id_take_nth_drop [OF assms(1), symmetric] .
  then show ?thesis by auto
qed

lemma ifsc_chars:
  assumes "is_ifsc s" and "c \<in> set s"
  shows "is_capital c \<or> is_digit c"
proof -
  have "4 < length s" using assms(1) by (simp add: is_ifsc_def)
  from set_around [OF this assms(2)]
  consider "c \<in> set (take 4 s)" | "c = s ! 4" | "c \<in> set (drop 5 s)" by (auto simp: numeral_eq_Suc)
  then show ?thesis
  proof cases
    case 2
    with assms(1) have "c = CHR ''0''" by (simp only: is_ifsc_def)
    then show ?thesis by (simp add: is_digit_def Let_def)
  qed (use assms(1) in \<open>simp_all only: is_ifsc_def list_all_iff\<close>, blast+)
qed

lemma ifsc_fixed:
  assumes "is_ifsc s"
  shows "upper (strip s) = s"
proof -
  from ifsc_chars [OF assms] have c: "upper_char c = c \<and> \<not> is_space c" if "c \<in> set s" for c
    using capital_fixed that by blast
  then have "strip s = s" by (intro strip_no_space) (simp add: list_all_iff)
  moreover have "map upper_char s = s" by (rule map_idI) (use c in blast)
  ultimately show ?thesis by (simp add: upper_def)
qed

lemma email_fixed:
  assumes "is_email s"
  shows "strip s = s"
proof (rule strip_no_space, unfold list_all_iff, rule ballI)
  fix c assume c: "c \<in> set s"
  let ?n = "takeWhile (\<lambda>c. c \<noteq> CHR ''@'') s"
  from assms have len: "length ?n < length s" and all: "list_all email_char ?n" "list_all email_char (drop (Suc (length ?n)) s)"
    by (simp_all add: is_email_def Let_def)
  have take: "take (length ?n) s = ?n" by (metis takeWhile_eq_take)
  from set_around [OF len c] show "\<not> is_space c"
  proof (elim disjE)
    assume "c = s ! length ?n"
    then have "c = CHR ''@''" using nth_length_takeWhile [OF len] by simp
    then show ?thesis by (simp add: is_space_def Let_def)
  next
    assume "c \<in> set (take (length ?n) s)"
    with all(1) show ?thesis unfolding take list_all_iff email_char_def by blast
  next
    assume "c \<in> set (drop (Suc (length ?n)) s)"
    with all(2) show ?thesis unfolding list_all_iff email_char_def by blast
  qed
qed

lemma currency_fixed: "c \<in> set allowed_currencies \<Longrightarrow> upper (strip c) = c"
  by (auto simp: allowed_currencies_def strip_def upper_def upper_char_def is_space_def Let_def)

subsection \<open>The types of the tables\<close>

definition profile_typed :: "vendor_profile_row \<Rightarrow> bool" where
  "profile_typed p \<longleftrightarrow>
     vnd_status p \<in> {''pending_verification'', ''verified'', ''rejected'', ''suspended''}
     \<and> vnd_legal_name p \<noteq> [] \<and> strip (vnd_legal_name p) = vnd_legal_name p
     \<and> CHR ''@'' \<in> set (vnd_contact_email p)
     \<and> \<not> blank (vnd_tax_id p) \<and> \<not> blank (vnd_payout_bank_account p) \<and> \<not> blank (vnd_business_doc_url p)"

definition verification_typed :: "verification_row \<Rightarrow> bool" where
  "verification_typed f \<longleftrightarrow>
     vrf_status f = ''queued'' \<and> vrf_decided_by f = None \<and> vrf_decided_at f = None \<and> vrf_notes f = None
     \<or> vrf_status f \<in> {''approved'', ''rejected''} \<and> vrf_decided_by f \<noteq> None \<and> vrf_decided_at f \<noteq> None"

definition settings_typed :: "vendor_settings_row \<Rightarrow> bool" where
  "settings_typed s \<longleftrightarrow>
     (vst_support_email s = [] \<or> is_email (vst_support_email s))
     \<and> strip (vst_bank_account_name s) = vst_bank_account_name s
     \<and> (vst_bank_account_number s = []
        \<or> 4 \<le> length (vst_bank_account_number s) \<and> strip (vst_bank_account_number s) = vst_bank_account_number s)
     \<and> (vst_bank_ifsc s = [] \<or> is_ifsc (vst_bank_ifsc s))
     \<and> vst_default_currency s \<in> set allowed_currencies"

definition support_typed :: "support_request_row \<Rightarrow> bool" where
  "support_typed r \<longleftrightarrow> spr_status r = ''open'' \<and> strip (spr_subject r) \<noteq> [] \<and> strip (spr_message r) \<noteq> []"

text \<open>A vendor that waits has a verification in the queue, a rejected vendor a rejected one.\<close>

definition statuses_agree :: "vendor_profile_row \<Rightarrow> verification_row \<Rightarrow> bool" where
  "statuses_agree p f \<longleftrightarrow>
     (vnd_status p = ''pending_verification'' \<longrightarrow> vrf_status f = ''queued'')
     \<and> (vnd_status p = ''rejected'' \<longrightarrow> vrf_status f = ''rejected'')"

definition vendor_typed :: "uuid \<Rightarrow> database \<Rightarrow> bool" where
  "vendor_typed n d \<longleftrightarrow>
     (\<forall>p \<in> set (vendor_profiles d). profile_typed p \<and> vnd_id p < n)
     \<and> (\<forall>f \<in> set (vendor_verifications d). verification_typed f \<and> vrf_id f < n)
     \<and> (\<forall>s \<in> set (vendor_settings d). settings_typed s)
     \<and> (\<forall>r \<in> set (support_requests d). support_typed r)
     \<and> map vrf_vendor_id (vendor_verifications d) = map vnd_id (vendor_profiles d)
     \<and> distinct (map vnd_id (vendor_profiles d)) \<and> distinct (map vnd_organization_id (vendor_profiles d))
     \<and> distinct (map vrf_id (vendor_verifications d)) \<and> distinct (map vst_vendor_id (vendor_settings d))
     \<and> (\<forall>p \<in> set (vendor_profiles d). \<forall>f \<in> set (vendor_verifications d).
          vrf_vendor_id f = vnd_id p \<longrightarrow> statuses_agree p f)"

text \<open>What may happen to a verification.\<close>

definition verification_moved :: "verification_row \<Rightarrow> verification_row \<Rightarrow> bool" where
  "verification_moved f g \<longleftrightarrow>
     g = f \<or> vrf_id g = vrf_id f \<and> vrf_vendor_id g = vrf_vendor_id f \<and> vrf_created_at g = vrf_created_at f
       \<and> vrf_status f = ''queued'' \<and> vrf_status g \<in> {''approved'', ''rejected''}
       \<and> vrf_decided_by g \<noteq> None \<and> vrf_decided_at g \<noteq> None"

definition vendor_hist :: "verification_row list \<Rightarrow> uuid \<Rightarrow> database \<Rightarrow> bool" where
  "vendor_hist fs n d \<longleftrightarrow> vendor_typed n d
     \<and> (\<forall>f \<in> set fs. \<exists>g \<in> set (vendor_verifications d). verification_moved f g)"

definition vendor_tables where
  "vendor_tables d = (vendor_profiles d, vendor_verifications d, vendor_settings d, support_requests d)"

lemma vendor_hist_mono: "supply_mono (vendor_hist fs)"
proof -
  have "vendor_typed n' d" if "n \<le> n'" "vendor_typed n d" for n n' d
  proof -
    have "a < n'" if "a < n" for a using that \<open>n \<le> n'\<close> by simp
    with that(2) show ?thesis unfolding vendor_typed_def by blast
  qed
  then show ?thesis unfolding supply_mono_def vendor_hist_def by blast
qed

lemma vendor_hist_same: "vendor_tables d' = vendor_tables d \<Longrightarrow> vendor_hist fs n d' = vendor_hist fs n d"
  by (simp add: vendor_tables_def vendor_hist_def vendor_typed_def)

lemma vendor_hist_log: "log_blind (vendor_hist fs)"
proof -
  have "vendor_hist fs n (d\<lparr>authorization_audit_log := l\<rparr>) = vendor_hist fs n d" for n d l
    by (rule vendor_hist_same) (simp add: vendor_tables_def)
  then show ?thesis unfolding log_blind_def by blast
qed

lemma depends_on_vendor: "depends_on vendor_tables (vendor_hist fs)"
  unfolding depends_on_def using vendor_hist_same by blast

lemma vendor_hist_start: "vendor_typed n d \<Longrightarrow> vendor_hist (vendor_verifications d) n d"
  by (auto simp: vendor_hist_def verification_moved_def)

lemma blank_strip [simp]: "blank (map_option strip x) = blank x"
  by (cases x) (auto simp: blank_def)

lemma profile_typed_status:
  "profile_typed p \<Longrightarrow> s \<in> {''pending_verification'', ''verified'', ''rejected'', ''suspended''}
    \<Longrightarrow> profile_typed (p\<lparr>vnd_status := s\<rparr>)"
  by (simp add: profile_typed_def)

lemma vendor_typedD:
  assumes "vendor_typed n d"
  shows "p \<in> set (vendor_profiles d) \<Longrightarrow> profile_typed p \<and> vnd_id p < n"
    and "f \<in> set (vendor_verifications d) \<Longrightarrow> verification_typed f \<and> vrf_id f < n"
    and "s \<in> set (vendor_settings d) \<Longrightarrow> settings_typed s"
    and "r \<in> set (support_requests d) \<Longrightarrow> support_typed r"
    and "p \<in> set (vendor_profiles d) \<Longrightarrow> f \<in> set (vendor_verifications d) \<Longrightarrow> vrf_vendor_id f = vnd_id p
           \<Longrightarrow> statuses_agree p f"
  using assms unfolding vendor_typed_def by blast+

lemma vendor_hist_register:
  assumes J: "vendor_hist fs n d"
    and free: "filter (\<lambda>v. vnd_organization_id v = org) (vendor_profiles d) = []"
    and p: "profile_typed p" "vnd_status p = ''pending_verification''" "vnd_id p = v" "vnd_organization_id p = org"
    and f: "verification_typed f" "vrf_status f = ''queued''" "vrf_vendor_id f = v"
    and new: "n \<le> v" "n \<le> vrf_id f" "v < m" "vrf_id f < m"
    and d': "vendor_tables d' = (vendor_profiles d @ [p], vendor_verifications d @ [f], vendor_settings d, support_requests d)"
  shows "vendor_hist fs m d'"
proof -
  have t: "vendor_profiles d' = vendor_profiles d @ [p]" "vendor_verifications d' = vendor_verifications d @ [f]"
    "vendor_settings d' = vendor_settings d" "support_requests d' = support_requests d"
    using d' by (simp_all add: vendor_tables_def)
  have T: "vendor_typed n d" using J by (simp add: vendor_hist_def)
  have pair: "map vrf_vendor_id (vendor_verifications d) = map vnd_id (vendor_profiles d)"
    using T by (simp add: vendor_typed_def)
  have old: "vnd_id q < n" if "q \<in> set (vendor_profiles d)" for q
    using T that by (auto simp: vendor_typed_def)
  have oldf: "vrf_id g < n" if "g \<in> set (vendor_verifications d)" for g
    using T that by (auto simp: vendor_typed_def)
  have "set (map vrf_vendor_id (vendor_verifications d)) = set (map vnd_id (vendor_profiles d))" using pair by simp
  then have oldv: "vrf_vendor_id g < n" if "g \<in> set (vendor_verifications d)" for g
    using that old by (metis (no_types, lifting) image_eqI image_iff list.set_map)
  have ag: "statuses_agree q g" if "q \<in> set (vendor_profiles d')" "g \<in> set (vendor_verifications d')"
    "vrf_vendor_id g = vnd_id q" for q g
  proof (cases "q = p \<or> g = f")
    case True
    have "g = f \<and> q = p"
    proof (rule ccontr)
      assume "\<not> (g = f \<and> q = p)"
      with True that have "q = p \<and> g \<in> set (vendor_verifications d) \<or> g = f \<and> q \<in> set (vendor_profiles d)"
        by (auto simp: t)
      then show False using oldv old new that(3) p(3) f(3) by fastforce
    qed
    then show ?thesis using p f by (simp add: statuses_agree_def)
  next
    case False
    with that T show ?thesis by (auto simp: vendor_typed_def t)
  qed
  have "vendor_typed m d'"
    unfolding vendor_typed_def
  proof (intro conjI)
    show "\<forall>q \<in> set (vendor_profiles d'). profile_typed q \<and> vnd_id q < m"
      using T old p new by (fastforce simp: t vendor_typed_def)
    show "\<forall>g \<in> set (vendor_verifications d'). verification_typed g \<and> vrf_id g < m"
      using T oldf f new by (fastforce simp: t vendor_typed_def)
    show "distinct (map vnd_id (vendor_profiles d'))"
      using T old p new by (fastforce simp: t vendor_typed_def)
    show "distinct (map vrf_id (vendor_verifications d'))"
      using T oldf new by (fastforce simp: t vendor_typed_def)
    show "distinct (map vnd_organization_id (vendor_profiles d'))"
      using T free p(4) by (auto simp: t vendor_typed_def filter_empty_conv)
    show "\<forall>q \<in> set (vendor_profiles d'). \<forall>g \<in> set (vendor_verifications d').
          vrf_vendor_id g = vnd_id q \<longrightarrow> statuses_agree q g" using ag by blast
  qed (use T pair p f in \<open>simp_all add: t vendor_typed_def\<close>)
  moreover have "\<forall>f0 \<in> set fs. \<exists>g \<in> set (vendor_verifications d'). verification_moved f0 g"
    using J by (auto simp: vendor_hist_def t)
  ultimately show ?thesis by (simp add: vendor_hist_def)
qed

lemma verification_moved_trans:
  "verification_moved f g \<Longrightarrow> verification_moved g h \<Longrightarrow> verification_moved f h"
  by (auto simp: verification_moved_def)

lemma vendor_hist_decide:
  assumes J: "vendor_hist fs n d"
    and f: "get_row vrf_id i (vendor_verifications d) = Some f" "vrf_status f \<in> {''queued'', ''pending''}"
    and v: "get_row vnd_id (vrf_vendor_id f) (vendor_profiles d) = Some v"
    and dec: "dec \<in> {''approved'', ''rejected''}"
    and d': "vendor_tables d' = (upd_row vnd_id (vnd_id v) (\<lambda>v.
              v\<lparr>vnd_status := (if dec = ''approved'' then ''verified'' else ''rejected'')\<rparr>) (vendor_profiles d),
            upd_row vrf_id i (decided_verification dec notes u now) (vendor_verifications d),
            vendor_settings d, support_requests d)"
  shows "vendor_hist fs n d'"
proof -
  let ?s = "if dec = ''approved'' then ''verified'' else ''rejected''"
  let ?v = "\<lambda>v. v\<lparr>vnd_status := ?s\<rparr>" let ?f = "decided_verification dec notes u now"
  have t: "vendor_profiles d' = upd_row vnd_id (vnd_id v) ?v (vendor_profiles d)"
    "vendor_verifications d' = upd_row vrf_id i ?f (vendor_verifications d)"
    "vendor_settings d' = vendor_settings d" "support_requests d' = support_requests d"
    using d' by (simp_all add: vendor_tables_def)
  have T: "vendor_typed n d" using J by (simp add: vendor_hist_def)
  note fs = get_row_Some [OF f(1)]
  note vs = get_row_Some [OF v]
  have queued: "vrf_status f = ''queued''"
    using T fs f(2) by (auto simp: vendor_typed_def verification_typed_def)
  have "distinct (map vrf_vendor_id (vendor_verifications d))" using T by (simp add: vendor_typed_def)
  then have one: "g = f" if "g \<in> set (vendor_verifications d)" "vrf_vendor_id g = vrf_vendor_id f" for g
    using that fs by (auto simp: distinct_map inj_on_def)
  have onei: "g = f" if "g \<in> set (vendor_verifications d)" "vrf_id g = i" for g
    using that fs T by (auto simp: vendor_typed_def distinct_map inj_on_def)
  have fields: "vrf_id (?f g) = vrf_id g" "vrf_vendor_id (?f g) = vrf_vendor_id g" "vrf_status (?f g) = dec"
    "verification_typed (?f g)" for g
    using dec by (auto simp: decided_verification_def verification_typed_def)
  have moved: "verification_moved g (if vrf_id g = i then ?f g else g)" if "g \<in> set (vendor_verifications d)" for g
    using onei [OF that] queued dec by (auto simp: verification_moved_def decided_verification_def)
  have "vendor_typed n d'"
    unfolding vendor_typed_def
  proof (intro conjI ballI impI)
    fix q g assume q: "q \<in> set (vendor_profiles d')" and g: "g \<in> set (vendor_verifications d')" "vrf_vendor_id g = vnd_id q"
    from q obtain q0 where q0: "q0 \<in> set (vendor_profiles d)" "q = (if vnd_id q0 = vnd_id v then ?v q0 else q0)"
      by (auto simp: t set_upd_row)
    from g obtain g0 where g0: "g0 \<in> set (vendor_verifications d)" "g = (if vrf_id g0 = i then ?f g0 else g0)"
      by (auto simp: t set_upd_row)
    have "vrf_vendor_id g = vrf_vendor_id g0" "vnd_id q = vnd_id q0" using q0(2) g0(2) by (simp_all add: fields)
    with g(2) have ids: "vrf_vendor_id g0 = vnd_id q0" by simp
    show "statuses_agree q g"
    proof (cases "vnd_id q0 = vnd_id v")
      case True
      with ids vs one [OF g0(1)] have "g0 = f" by simp
      with True q0 g0 fs show ?thesis using dec by (auto simp: statuses_agree_def fields)
    next
      case False
      with ids vs have "g0 \<noteq> f" by auto
      with onei [OF g0(1)] g0 have "g = g0" by auto
      with False q0 ids g0 T show ?thesis by (auto simp: vendor_typed_def)
    qed
  next
    show "distinct (map vnd_id (vendor_profiles d'))" "distinct (map vnd_organization_id (vendor_profiles d'))"
      "distinct (map vrf_id (vendor_verifications d'))" "distinct (map vst_vendor_id (vendor_settings d'))"
      "map vrf_vendor_id (vendor_verifications d') = map vnd_id (vendor_profiles d')"
      using T by (simp_all add: t vendor_typed_def fields)
  next
    fix q assume "q \<in> set (vendor_profiles d')"
    then obtain q0 where q0: "q0 \<in> set (vendor_profiles d)" "q = (if vnd_id q0 = vnd_id v then ?v q0 else q0)"
      by (auto simp: t set_upd_row)
    from vendor_typedD(1) [OF T q0(1)] show "profile_typed q" "vnd_id q < n"
      unfolding q0(2) by (simp_all add: profile_typed_status)
  next
    fix g assume "g \<in> set (vendor_verifications d')"
    then obtain g0 where g0: "g0 \<in> set (vendor_verifications d)" "g = (if vrf_id g0 = i then ?f g0 else g0)"
      by (auto simp: t set_upd_row)
    from vendor_typedD(2) [OF T g0(1)] show "verification_typed g" "vrf_id g < n"
      unfolding g0(2) by (simp_all add: fields)
  next
    fix s assume "s \<in> set (vendor_settings d')"
    then show "settings_typed s" unfolding t by (rule vendor_typedD(3) [OF T])
  next
    fix r assume "r \<in> set (support_requests d')"
    then show "support_typed r" unfolding t by (rule vendor_typedD(4) [OF T])
  qed
  moreover have "\<exists>g \<in> set (vendor_verifications d'). verification_moved f0 g" if f0: "f0 \<in> set fs" for f0
  proof -
    from J f0 obtain g where g: "g \<in> set (vendor_verifications d)" "verification_moved f0 g"
      by (auto simp: vendor_hist_def)
    have "(if vrf_id g = i then ?f g else g) \<in> set (vendor_verifications d')"
      unfolding t set_upd_row using g(1) by blast
    with verification_moved_trans [OF g(2) moved [OF g(1)]] show ?thesis by blast
  qed
  ultimately show ?thesis by (simp add: vendor_hist_def)
qed

lemma vendor_hist_status:
  assumes J: "vendor_hist fs n d" and s: "s \<in> {''verified'', ''suspended''}"
    and d': "vendor_tables d' = (upd_row vnd_id v (\<lambda>v. v\<lparr>vnd_status := s\<rparr>) (vendor_profiles d),
            vendor_verifications d, vendor_settings d, support_requests d)"
  shows "vendor_hist fs n d'"
proof -
  have t: "vendor_profiles d' = upd_row vnd_id v (\<lambda>v. v\<lparr>vnd_status := s\<rparr>) (vendor_profiles d)"
    "vendor_verifications d' = vendor_verifications d"
    "vendor_settings d' = vendor_settings d" "support_requests d' = support_requests d"
    using d' by (simp_all add: vendor_tables_def)
  have T: "vendor_typed n d" using J by (simp add: vendor_hist_def)
  have agree: "statuses_agree (p\<lparr>vnd_status := s\<rparr>) f" for p f using s by (auto simp: statuses_agree_def)
  have rows: "\<exists>q0 \<in> set (vendor_profiles d). q = (if vnd_id q0 = v then q0\<lparr>vnd_status := s\<rparr> else q0)"
    if "q \<in> set (vendor_profiles d')" for q using that unfolding t set_upd_row .
  have "vendor_typed n d'"
    unfolding vendor_typed_def
  proof (intro conjI ballI impI)
    fix q assume "q \<in> set (vendor_profiles d')"
    from rows [OF this] obtain q0 where q0: "q0 \<in> set (vendor_profiles d)"
      "q = (if vnd_id q0 = v then q0\<lparr>vnd_status := s\<rparr> else q0)" by blast
    from vendor_typedD(1) [OF T q0(1)] s show "profile_typed q" "vnd_id q < n"
      unfolding q0(2) by (auto simp: profile_typed_status)
    fix f assume "f \<in> set (vendor_verifications d')" "vrf_vendor_id f = vnd_id q"
    with vendor_typedD(5) [OF T q0(1)] agree show "statuses_agree q f"
      unfolding q0(2) t by (auto split: if_splits)
  qed (use T in \<open>simp_all add: t vendor_typed_def\<close>)
  with J show ?thesis by (simp add: vendor_hist_def t)
qed

lemma apply_settings_typed:
  assumes "apply_settings i row w = (Inr r, w')" and "settings_typed row"
  shows "settings_typed r" and "vst_vendor_id r = vst_vendor_id row"
proof -
  have email: "settings_typed r1 \<and> vst_vendor_id r1 = vst_vendor_id r0"
    if "set_email a r0 w = (Inr r1, w2)" "settings_typed r0" for a r0 r1 w w2
    using that by (auto simp: set_email_def Let_def ok_iff settings_typed_def split: option.splits)
  have name: "settings_typed r1 \<and> vst_vendor_id r1 = vst_vendor_id r0"
    if "set_account_name a r0 w = (Inr r1, w2)" "settings_typed r0" for a r0 r1 w w2
    using that by (auto simp: set_account_name_def Let_def ok_iff settings_typed_def split: option.splits)
  have number: "settings_typed r1 \<and> vst_vendor_id r1 = vst_vendor_id r0"
    if "set_account_number a r0 w = (Inr r1, w2)" "settings_typed r0" for a r0 r1 w w2
    using that by (auto simp: set_account_number_def Let_def ok_iff settings_typed_def
        split: option.splits if_splits)
  have ifsc: "settings_typed r1 \<and> vst_vendor_id r1 = vst_vendor_id r0"
    if "set_ifsc a r0 w = (Inr r1, w2)" "settings_typed r0" for a r0 r1 w w2
    using that by (auto simp: set_ifsc_def Let_def ok_iff settings_typed_def split: option.splits)
  have notices: "settings_typed (set_notices a b r0) \<and> vst_vendor_id (set_notices a b r0) = vst_vendor_id r0"
    if "settings_typed r0" for a b r0
    using that by (auto simp: set_notices_def Let_def settings_typed_def split: option.splits)
  have currency: "settings_typed r1 \<and> vst_vendor_id r1 = vst_vendor_id r0"
    if "set_currency a r0 w = (Inr r1, w2)" "settings_typed r0" for a r0 r1 w w2
    using that by (auto simp: set_currency_def Let_def ok_iff settings_typed_def split: option.splits)
  from assms(1) obtain r1 w1 r2 w2 r3 w3 r4 w4 where
    "set_email (sti_support_email i) row w = (Inr r1, w1)"
    "set_account_name (sti_bank_account_name i) r1 w1 = (Inr r2, w2)"
    "set_account_number (sti_bank_account_number i) r2 w2 = (Inr r3, w3)"
    "set_ifsc (sti_bank_ifsc i) r3 w3 = (Inr r4, w4)"
    "set_currency (sti_default_currency i) (set_notices (sti_notify_install i) (sti_notify_payout i) r4) w4 = (Inr r, w')"
    unfolding apply_settings_def bindE_ok by blast
  with email [OF this(1) assms(2)] show "settings_typed r" "vst_vendor_id r = vst_vendor_id row"
    by (metis name number ifsc notices currency)+
qed

lemma new_settings_typed: "settings_typed (new_settings v now)"
  by (simp add: settings_typed_def new_settings_def allowed_currencies_def)

lemma settings_typed_updated [simp]: "settings_typed (r\<lparr>vst_updated_at := now\<rparr>) = settings_typed r"
  by (simp add: settings_typed_def)

end
