(* ===== verification/Vendor_Machine.thy ===== *)
theory Vendor_Machine
  imports Vendor_Types Samples
begin

section \<open>Vendors over a run\<close>

text \<open>
  The writing requests of \<open>VendorService\<close>, with the suspensions and reinstatements of \<open>CatalogService\<close>, as
  calls served in any order. The typing of the vendor tables is kept, a decided verification stays as it
  is, and a vendor that is never suspended has the status of its verification. Saving a settings form unchanged keeps the bank account although the form shows a masked number.
\<close>

datatype vendor_call =
    Register uuid uuid string "string option" "string option" string "string option"
  | Decide uuid uuid string "string option"
  | Save_Settings uuid uuid settings_input
  | Ask_Support uuid uuid string string
  | Suspend uuid uuid string
  | Reinstate uuid uuid

fun answer_vendor :: "vendor_call \<Rightarrow> unit op" where
  "answer_vendor (Register org u name tax bank email doc) = silent (register org u name tax bank email doc)"
| "answer_vendor (Decide i u dec notes) = silent (decide_verification i u dec notes)"
| "answer_vendor (Save_Settings v u i) = silent (update_settings v u i)"
| "answer_vendor (Ask_Support v u subj msg) = silent (create_support_request v u subj msg)"
| "answer_vendor (Suspend v u reason) = silent (suspend_vendor v u reason)"
| "answer_vendor (Reinstate v u) = silent (reinstate_vendor v u)"

inductive vendor_step :: "world \<Rightarrow> world \<Rightarrow> bool" where
  call: "request (answer_vendor c) w = (r, w') \<Longrightarrow> vendor_step w w'"
| tick: "clock w \<le> t \<Longrightarrow> vendor_step w (w\<lparr>clock := t\<rparr>)"
| other: "vendor_tables d = vendor_tables (db w) \<Longrightarrow> next_uuid w \<le> n
    \<Longrightarrow> vendor_step w (w\<lparr>db := d, disk := d, next_uuid := n\<rparr>)"

subsection \<open>Every request keeps the types\<close>

lemma preserved_register: "preserved (vendor_hist fs) (register org u name tax bank email doc)"
proof (rule preservedI [OF vendor_hist_mono vendor_hist_log vendor_atomic(1) vendor_uuid(1)])
  fix w x w' assume J: "vendor_hist fs (next_uuid w) (db w)" and run: "register org u name tax bank email doc w = (Inr x, w')"
  let ?v = "\<lparr>vnd_id = next_uuid w, vnd_organization_id = org, vnd_legal_name = strip name,
               vnd_tax_id = map_option strip tax, vnd_payout_bank_account = map_option strip bank,
               vnd_contact_email = lower (strip email), vnd_business_doc_url = map_option strip doc,
               vnd_status = ''pending_verification'', vnd_created_at = clock w\<rparr>"
  let ?f = "\<lparr>vrf_id = Suc (next_uuid w), vrf_vendor_id = next_uuid w, vrf_status = ''queued'', vrf_notes = None,
               vrf_decided_by = None, vrf_decided_at = None, vrf_created_at = clock w\<rparr>"
  from register_okD [OF run] obtain log where
    free: "filter (\<lambda>v. vnd_organization_id v = org) (vendor_profiles (db w)) = []"
    and ok: "strip name \<noteq> []" "CHR ''@'' \<in> set (lower (strip email))" "\<not> blank doc" "\<not> blank tax" "\<not> blank bank"
    and d: "db w' = (organizations_update (upd_row org_id org (\<lambda>o'. o'\<lparr>org_participation := ''consumer_and_vendor''\<rparr>))
          (vendor_verifications_update (\<lambda>rows. rows @ [?f])
          (vendor_profiles_update (\<lambda>rows. rows @ [?v]) (db w))))\<lparr>audit_log := log\<rparr>"
      "disk w' = db w'" "Suc (next_uuid w) < next_uuid w'"
    by blast
  show "vendor_hist fs (next_uuid w') (disk w')"
    unfolding d(2)
    by (rule vendor_hist_register [OF J free, of ?v "next_uuid w" ?f])
       (use ok d(1,3) in \<open>simp_all add: profile_typed_def verification_typed_def vendor_tables_def\<close>)
qed

lemma preserved_decide_verification: "preserved (vendor_hist fs) (decide_verification i u dec notes)"
proof (rule preservedI [OF vendor_hist_mono vendor_hist_log vendor_atomic(2) vendor_uuid(2)])
  fix w x w' assume J: "vendor_hist fs (next_uuid w) (db w)" and run: "decide_verification i u dec notes w = (Inr x, w')"
  from decide_verification_okD [OF run] obtain f v g log where
    f: "get_row vrf_id i (vendor_verifications (db w)) = Some f" "vrf_status f \<in> {''queued'', ''pending''}"
    and v: "get_row vnd_id (vrf_vendor_id f) (vendor_profiles (db w)) = Some v"
    and dec: "dec \<in> {''approved'', ''rejected''}"
    and d: "db w' = (organizations_update g
          (vendor_profiles_update (upd_row vnd_id (vnd_id v) (\<lambda>v.
              v\<lparr>vnd_status := (if dec = ''approved'' then ''verified'' else ''rejected'')\<rparr>))
          (vendor_verifications_update (upd_row vrf_id i (decided_verification dec notes u (clock w)))
             (db w))))\<lparr>audit_log := log\<rparr>"
      "disk w' = db w'" "next_uuid w \<le> next_uuid w'"
    by blast
  have "vendor_hist fs (next_uuid w) (db w')"
    by (rule vendor_hist_decide [OF J f v dec, of _ "notes" u "clock w"]) (simp add: d(1) vendor_tables_def)
  then show "vendor_hist fs (next_uuid w') (disk w')"
    using supply_monoD [OF vendor_hist_mono _ d(3)] d(2) by simp
qed

lemma vendor_hist_settings:
  assumes J: "vendor_hist fs n d" and s: "\<forall>s \<in> set rows. settings_typed s" "distinct (map vst_vendor_id rows)"
    and d': "vendor_tables d' = (vendor_profiles d, vendor_verifications d, rows, support_requests d)"
  shows "vendor_hist fs n d'"
proof -
  have t: "vendor_profiles d' = vendor_profiles d" "vendor_verifications d' = vendor_verifications d"
    "vendor_settings d' = rows" "support_requests d' = support_requests d"
    using d' by (simp_all add: vendor_tables_def)
  with J s show ?thesis unfolding vendor_hist_def vendor_typed_def t by blast
qed

lemma vendor_hist_support:
  assumes J: "vendor_hist fs n d" and r: "\<forall>r \<in> set rows. support_typed r"
    and d': "vendor_tables d' = (vendor_profiles d, vendor_verifications d, vendor_settings d, rows)"
  shows "vendor_hist fs n d'"
proof -
  have t: "vendor_profiles d' = vendor_profiles d" "vendor_verifications d' = vendor_verifications d"
    "vendor_settings d' = vendor_settings d" "support_requests d' = rows"
    using d' by (simp_all add: vendor_tables_def)
  with J r show ?thesis unfolding vendor_hist_def vendor_typed_def t by blast
qed

lemma preserved_settings: "preserved (vendor_hist fs) (update_settings v u i)"
proof (rule preservedI [OF vendor_hist_mono vendor_hist_log vendor_atomic(3) vendor_uuid(3)])
  fix w x w' assume J: "vendor_hist fs (next_uuid w) (db w)" and run: "update_settings v u i w = (Inr x, w')"
  from update_settings_okD [OF run] obtain p row r log where
    own: "require_vendor_owner v u w = (Inr p, w)"
    and row: "row = (case get_row vst_vendor_id v (vendor_settings (db w)) of None \<Rightarrow> new_settings (vnd_id p) (clock w) | Some r \<Rightarrow> r)"
    and r: "apply_settings i row w = (Inr r, w)"
    and d: "db w' = (vendor_settings_update (\<lambda>rows.
           upd_row vst_vendor_id (vst_vendor_id row) (\<lambda>_. r\<lparr>vst_updated_at := clock w\<rparr>)
             (if get_row vst_vendor_id v (vendor_settings (db w)) = None then rows @ [row] else rows))
           (db w))\<lparr>audit_log := log\<rparr>"
      "disk w' = db w'" "next_uuid w \<le> next_uuid w'"
    by blast
  let ?old = "vendor_settings (db w)"
  let ?rows = "if get_row vst_vendor_id v ?old = None then ?old @ [row] else ?old"
  have T: "vendor_typed (next_uuid w) (db w)" using J by (simp add: vendor_hist_def)
  have p: "vnd_id p = v" using get_row_Some [OF require_vendor_owner_okD(3) [OF own]] by simp
  have row_typed: "settings_typed row \<and> vst_vendor_id row = v"
  proof (cases "get_row vst_vendor_id v ?old")
    case None
    then show ?thesis using new_settings_typed by (simp add: row p) (simp add: new_settings_def)
  next
    case (Some r0)
    from vendor_typedD(3) [OF T] get_row_Some [OF Some] Some show ?thesis by (simp add: row)
  qed
  have r_typed: "settings_typed r" "vst_vendor_id r = v"
    using apply_settings_typed [OF r] row_typed by simp_all
  have rows: "\<forall>s \<in> set ?rows. settings_typed s" using vendor_typedD(3) [OF T] row_typed by auto
  have dist: "distinct (map vst_vendor_id ?rows)"
    using T row_typed by (auto simp: vendor_typed_def get_row_None)
  have "vendor_hist fs (next_uuid w) (db w')"
  proof (rule vendor_hist_settings [OF J])
    show "\<forall>s \<in> set (upd_row vst_vendor_id v (\<lambda>_. r\<lparr>vst_updated_at := clock w\<rparr>) ?rows). settings_typed s"
      using rows r_typed by (auto simp: set_upd_row)
    have "map vst_vendor_id (upd_row vst_vendor_id v (\<lambda>_. r\<lparr>vst_updated_at := clock w\<rparr>) ?rows) = map vst_vendor_id ?rows"
      unfolding upd_row_def map_map by (rule map_cong) (auto simp: r_typed)
    with dist show "distinct (map vst_vendor_id (upd_row vst_vendor_id v (\<lambda>_. r\<lparr>vst_updated_at := clock w\<rparr>) ?rows))" by simp
  qed (use row_typed in \<open>simp add: d(1) vendor_tables_def\<close>)
  then show "vendor_hist fs (next_uuid w') (disk w')"
    using supply_monoD [OF vendor_hist_mono _ d(3)] d(2) by simp
qed

lemma preserved_support: "preserved (vendor_hist fs) (create_support_request v u subj msg)"
proof (rule preservedI [OF vendor_hist_mono vendor_hist_log vendor_atomic(4) vendor_uuid(4)])
  fix w x w' assume J: "vendor_hist fs (next_uuid w) (db w)" and run: "create_support_request v u subj msg w = (Inr x, w')"
  let ?r = "\<lparr>spr_id = next_uuid w, spr_vendor_id = v, spr_subject = strip subj, spr_message = strip msg,
           spr_status = ''open'', spr_created_at = clock w\<rparr>"
  from create_support_okD [OF run] obtain log where ok: "strip subj \<noteq> []" "strip msg \<noteq> []"
    and d: "db w' = (support_requests_update (\<lambda>rows. rows @ [?r]) (db w))\<lparr>audit_log := log\<rparr>"
      "disk w' = db w'" "next_uuid w < next_uuid w'"
    by blast
  have "support_typed ?r" using ok by (simp add: support_typed_def)
  moreover have "vendor_typed (next_uuid w) (db w)" using J by (simp add: vendor_hist_def)
  ultimately have "vendor_hist fs (next_uuid w) (db w')"
    by (intro vendor_hist_support [OF J, of "support_requests (db w) @ [?r]"])
       (auto simp: d(1) vendor_tables_def dest: vendor_typedD(4))
  then show "vendor_hist fs (next_uuid w') (disk w')"
    using supply_monoD [OF vendor_hist_mono _ less_imp_le [OF d(3)]] d(2) by simp
qed

lemma keeps_vendor_status:
  assumes "s \<in> {''verified'', ''suspended''}"
  shows "keeps (both (vendor_hist fs)) (modifies (vendor_profiles_update (upd_row vnd_id v (\<lambda>v. v\<lparr>vnd_status := s\<rparr>))))"
  by (rule keeps_both_modifies, erule vendor_hist_status [OF _ assms]) (simp add: vendor_tables_def)

lemma keeps_vendor_other:
  assumes "\<And>d. vendor_tables (f d) = vendor_tables d"
  shows "keeps (both (vendor_hist fs)) (modifies f)"
  by (rule keeps_both_modifies) (simp add: vendor_hist_same [OF assms])

lemma keeps_vendor_audit: "keeps (both (vendor_hist fs)) (audit a u t p)"
  by (rule keeps_both_audit [OF vendor_hist_mono])
     (erule vendor_hist_same [THEN iffD2, rotated], simp add: vendor_tables_def)

lemma preserved_suspend: "preserved (vendor_hist fs) (suspend_vendor v u reason)"
  by (rule preserved_both, unfold suspend_vendor_def unpublish_each_def)
     (rule keeps_intros reads_only_keeps reads_only_checks keeps_vendor_audit
       keeps_vendor_status keeps_vendor_other | (simp add: vendor_tables_def; fail))+

lemma preserved_reinstate: "preserved (vendor_hist fs) (reinstate_vendor v u)"
  by (rule preserved_both, unfold reinstate_vendor_def)
     (rule keeps_intros reads_only_keeps reads_only_checks keeps_vendor_audit
       keeps_vendor_status keeps_vendor_other | (simp add: vendor_tables_def; fail))+

lemma answer_vendor_preserved: "preserved (vendor_hist fs) (answer_vendor c)"
  by (cases c) (simp_all add: preserved_silent preserved_register preserved_decide_verification preserved_settings
      preserved_support preserved_suspend preserved_reinstate)

subsection \<open>Runs\<close>

definition vendor_ok :: "world \<Rightarrow> bool" where
  "vendor_ok w \<longleftrightarrow> disk w = db w \<and> vendor_typed (next_uuid w) (db w)"

definition vendor_since :: "verification_row list \<Rightarrow> world \<Rightarrow> bool" where
  "vendor_since fs w \<longleftrightarrow> disk w = db w \<and> vendor_hist fs (next_uuid w) (db w)"

lemma vendor_since_step:
  assumes "vendor_step w w'" and "vendor_since fs w"
  shows "vendor_since fs w'"
  using assms(1)
proof cases
  case (call c r)
  have "disk w = db w" "vendor_hist fs (next_uuid w) (db w)" using assms(2) by (simp_all add: vendor_since_def)
  from preservedD [OF answer_vendor_preserved this call] show ?thesis by (simp add: vendor_since_def)
next
  case (tick t)
  with assms(2) show ?thesis by (simp add: vendor_since_def)
next
  case (other d n)
  have "vendor_hist fs (next_uuid w) d"
    using assms(2) vendor_hist_same [OF other(2)] by (simp add: vendor_since_def)
  from supply_monoD [OF vendor_hist_mono this other(3)] show ?thesis by (simp add: vendor_since_def other(1))
qed

interpretation vendor_runs: served_machine vendor_step "vendor_hist fs" for fs
  by unfold_locales (rule vendor_since_step [unfolded vendor_since_def])

lemma vendor_since_run:
  assumes "vendor_step\<^sup>*\<^sup>* w w'" and "vendor_ok w"
  shows "vendor_since (vendor_verifications (db w)) w'"
  unfolding vendor_since_def
  by (rule vendor_runs.run_keeps [OF assms(1)]) (use assms(2) vendor_hist_start in \<open>simp_all add: vendor_ok_def\<close>)

lemma vendor_called: "vendor_step w (snd (request (answer_vendor c) w))"
  by (rule vendor_step.call) (rule prod.collapse [symmetric])

subsection \<open>Vendors that are never suspended\<close>

text \<open>
  Suspending sets the status of the vendor only, and reinstating sets it to verified whatever the verification says.
  A vendor that is spared of both has the status of its verification at all times.
\<close>

definition same_status :: "vendor_profile_row \<Rightarrow> verification_row \<Rightarrow> bool" where
  "same_status p f \<longleftrightarrow>
     (vnd_status p, vrf_status f) \<in> {(''pending_verification'', ''queued''), (''verified'', ''approved''),
        (''rejected'', ''rejected'')}"

definition settled :: "uuid \<Rightarrow> database \<Rightarrow> bool" where
  "settled v d \<longleftrightarrow>
     (\<forall>p \<in> set (vendor_profiles d). \<forall>f \<in> set (vendor_verifications d).
        vnd_id p = v \<and> vrf_vendor_id f = v \<longrightarrow> same_status p f)"

fun suspends :: "uuid \<Rightarrow> vendor_call \<Rightarrow> bool" where
  "suspends v (Suspend v' u reason) = (v' = v)"
| "suspends v (Reinstate v' u) = (v' = v)"
| "suspends v c = False"

inductive spared_step :: "uuid \<Rightarrow> world \<Rightarrow> world \<Rightarrow> bool" for v where
  call: "\<not> suspends v c \<Longrightarrow> request (answer_vendor c) w = (r, w') \<Longrightarrow> spared_step v w w'"
| tick: "clock w \<le> t \<Longrightarrow> spared_step v w (w\<lparr>clock := t\<rparr>)"
| other: "vendor_tables d = vendor_tables (db w) \<Longrightarrow> next_uuid w \<le> n
    \<Longrightarrow> spared_step v w (w\<lparr>db := d, disk := d, next_uuid := n\<rparr>)"

abbreviation settled_typed :: "uuid \<Rightarrow> uuid \<Rightarrow> database \<Rightarrow> bool" where
  "settled_typed v n d \<equiv> vendor_hist [] n d \<and> settled v d"

lemma settled_same: "vendor_tables d' = vendor_tables d \<Longrightarrow> settled v d' = settled v d"
  by (simp add: vendor_tables_def settled_def)

lemma settled_mono: "supply_mono (settled_typed v)"
  using vendor_hist_mono [of "[]"] unfolding supply_mono_def by blast

lemma settled_log: "log_blind (settled_typed v)"
  using vendor_hist_log [of "[]"] by (simp add: log_blind_def settled_def)

lemma settled_depends: "depends_on vendor_tables (settled_typed v)"
  using depends_on_vendor [of "[]"] settled_same unfolding depends_on_def by blast

text \<open>A handler of which the successful runs keep a vendor settled.\<close>

lemma preserved_settled:
  assumes J: "preserved (vendor_hist []) m" and at: "atomic_but_log m" "\<And>n. keeps (uuid_ge n) m"
    and ok: "\<And>w x w'. vendor_typed (next_uuid w) (db w) \<Longrightarrow> settled v (db w) \<Longrightarrow> m w = (Inr x, w') \<Longrightarrow> settled v (disk w')"
  shows "preserved (settled_typed v) m"
proof (rule preservedI [OF settled_mono settled_log at])
  fix w x w' assume w: "settled_typed v (next_uuid w) (db w)" "disk w = db w" and m: "m w = (Inr x, w')"
  from m have "request m w = (Inr x, w'\<lparr>db := disk w'\<rparr>)" by (simp add: request_run)
  from preservedD [OF J w(2) _ this] w(1) have "vendor_hist [] (next_uuid w') (disk w')" by simp
  moreover have "settled v (disk w')" using ok [OF _ _ m] w(1) by (simp add: vendor_hist_def)
  ultimately show "settled_typed v (next_uuid w') (disk w')" by simp
qed

lemma settled_new_vendor:
  assumes T: "vendor_typed n d" and s: "settled v d"
    and p: "n \<le> vnd_id p" "vnd_status p = ''pending_verification''" and f: "vrf_vendor_id f = vnd_id p" "vrf_status f = ''queued''"
    and d': "vendor_profiles d' = vendor_profiles d @ [p]" "vendor_verifications d' = vendor_verifications d @ [f]"
  shows "settled v d'"
proof -
  have old: "vnd_id q < n" if "q \<in> set (vendor_profiles d)" for q using vendor_typedD(1) [OF T that] by simp
  have "set (map vrf_vendor_id (vendor_verifications d)) = set (map vnd_id (vendor_profiles d))"
    using T by (simp add: vendor_typed_def)
  then have oldf: "vrf_vendor_id g < n" if "g \<in> set (vendor_verifications d)" for g
    using that old by (metis (no_types, lifting) image_eqI image_iff list.set_map)
  show ?thesis
    unfolding settled_def
  proof (intro ballI impI, elim conjE)
    fix q g assume q: "q \<in> set (vendor_profiles d')" "vnd_id q = v"
      and g: "g \<in> set (vendor_verifications d')" "vrf_vendor_id g = v"
    show "same_status q g"
    proof (cases "v < n")
      case True
      with q g p(1) f(1) have "q \<in> set (vendor_profiles d)" "g \<in> set (vendor_verifications d)" by (auto simp: d')
      with s q g show ?thesis by (simp add: settled_def)
    next
      case False
      have "q \<notin> set (vendor_profiles d)" using old [of q] q(2) False by blast
      moreover have "g \<notin> set (vendor_verifications d)" using oldf [of g] g(2) False by blast
      ultimately have "q = p" "g = f" using q(1) g(1) by (auto simp: d')
      with p f show ?thesis by (simp add: same_status_def)
    qed
  qed
qed

lemma settled_decided:
  assumes T: "vendor_typed n d" and s: "settled v d"
    and f: "get_row vrf_id i (vendor_verifications d) = Some f"
    and p: "get_row vnd_id (vrf_vendor_id f) (vendor_profiles d) = Some p"
    and h: "\<And>g. vrf_vendor_id (h g) = vrf_vendor_id g" "\<And>g. vrf_status (h g) = dec"
    and dec: "dec \<in> {''approved'', ''rejected''}"
    and d': "vendor_profiles d' = upd_row vnd_id (vnd_id p) (\<lambda>v.
          v\<lparr>vnd_status := (if dec = ''approved'' then ''verified'' else ''rejected'')\<rparr>) (vendor_profiles d)"
      "vendor_verifications d' = upd_row vrf_id i h (vendor_verifications d)"
  shows "settled v d'"
  unfolding settled_def
proof (intro ballI impI, elim conjE)
  fix q g assume q: "q \<in> set (vendor_profiles d')" "vnd_id q = v"
    and g: "g \<in> set (vendor_verifications d')" "vrf_vendor_id g = v"
  note fs = get_row_Some [OF f] and ps = get_row_Some [OF p]
  from q(1) obtain q0 where q0: "q0 \<in> set (vendor_profiles d)" "q = (if vnd_id q0 = vnd_id p
      then q0\<lparr>vnd_status := (if dec = ''approved'' then ''verified'' else ''rejected'')\<rparr> else q0)"
    by (auto simp: d' set_upd_row)
  from g(1) obtain g0 where g0: "g0 \<in> set (vendor_verifications d)" "g = (if vrf_id g0 = i then h g0 else g0)"
    by (auto simp: d' set_upd_row)
  have ids: "vnd_id q0 = v" "vrf_vendor_id g0 = v" using q(2) g(2) q0(2) g0(2) h(1) by (auto split: if_splits)
  have "map vrf_vendor_id (vendor_verifications d) = map vnd_id (vendor_profiles d)" "distinct (map vnd_id (vendor_profiles d))"
    and idf: "distinct (map vrf_id (vendor_verifications d))" using T by (simp_all add: vendor_typed_def)
  then have "distinct (map vrf_vendor_id (vendor_verifications d))" by (simp only:)
  with idf fs g0(1) have same: "vrf_vendor_id g0 = vrf_vendor_id f \<longleftrightarrow> g0 = f" "vrf_id g0 = i \<longleftrightarrow> g0 = f"
    by (auto simp: distinct_map dest: inj_onD)
  show "same_status q g"
  proof (cases "v = vnd_id p")
    case True
    with same ids ps have "vrf_id g0 = i" by simp
    with True q0(2) g0(2) ids dec h(2) show ?thesis by (auto simp: same_status_def)
  next
    case False
    with same ids ps q0(2) g0(2) have "q = q0" "g = g0" by auto
    with s ids q0(1) g0(1) show ?thesis by (simp add: settled_def)
  qed
qed

lemma settled_register: "preserved (settled_typed v) (register org u name tax bank email doc)"
proof (rule preserved_settled [OF preserved_register vendor_atomic(1) vendor_uuid(1)])
  fix w x w' assume w: "vendor_typed (next_uuid w) (db w)" "settled v (db w)"
    and run: "register org u name tax bank email doc w = (Inr x, w')"
  from register_okD [OF run] show "settled v (disk w')"
    by (elim exE conjE) (rule settled_new_vendor [OF w], simp_all)
qed

lemma settled_decide: "preserved (settled_typed v) (decide_verification i u dec notes)"
proof (rule preserved_settled [OF preserved_decide_verification vendor_atomic(2) vendor_uuid(2)])
  fix w x w' assume w: "vendor_typed (next_uuid w) (db w)" "settled v (db w)"
    and run: "decide_verification i u dec notes w = (Inr x, w')"
  from decide_verification_okD [OF run] obtain f p g log where
    f: "get_row vrf_id i (vendor_verifications (db w)) = Some f"
    and p: "get_row vnd_id (vrf_vendor_id f) (vendor_profiles (db w)) = Some p"
    and dec: "dec \<in> {''approved'', ''rejected''}"
    and d: "db w' = (organizations_update g
          (vendor_profiles_update (upd_row vnd_id (vnd_id p) (\<lambda>v.
              v\<lparr>vnd_status := (if dec = ''approved'' then ''verified'' else ''rejected'')\<rparr>))
          (vendor_verifications_update (upd_row vrf_id i (decided_verification dec notes u (clock w)))
             (db w))))\<lparr>audit_log := log\<rparr>" "disk w' = db w'"
    by blast
  show "settled v (disk w')"
    by (rule settled_decided [OF w f p _ _ dec, of "decided_verification dec notes u (clock w)"])
       (simp_all add: d decided_verification_def)
qed

lemma settled_forms: "preserved (settled_typed v) (update_settings s u i)"
    "preserved (settled_typed v) (create_support_request s u subj msg)"
proof -
  show "preserved (settled_typed v) (update_settings s u i)"
  proof (rule preserved_settled [OF preserved_settings vendor_atomic(3) vendor_uuid(3)])
    fix w x w' assume "settled v (db w)" and "update_settings s u i w = (Inr x, w')"
    with update_settings_okD [OF this(2)] show "settled v (disk w')" by (elim exE conjE) (simp add: settled_def)
  qed
  show "preserved (settled_typed v) (create_support_request s u subj msg)"
  proof (rule preserved_settled [OF preserved_support vendor_atomic(4) vendor_uuid(4)])
    fix w x w' assume "settled v (db w)" and "create_support_request s u subj msg w = (Inr x, w')"
    with create_support_okD [OF this(2)] show "settled v (disk w')" by (elim exE conjE) (simp add: settled_def)
  qed
qed

lemma keeps_other_status:
  assumes "s \<in> {''verified'', ''suspended''}" and "v' \<noteq> v"
  shows "keeps (both (settled_typed v)) (modifies (vendor_profiles_update (upd_row vnd_id v' (\<lambda>v. v\<lparr>vnd_status := s\<rparr>))))"
proof (rule keeps_both_modifies, elim conjE, intro conjI)
  fix n d assume J: "vendor_hist [] n d" and "settled v d"
  show "vendor_hist [] n (vendor_profiles_update (upd_row vnd_id v' (\<lambda>v. v\<lparr>vnd_status := s\<rparr>)) d)"
    by (rule vendor_hist_status [OF J assms(1)]) (simp add: vendor_tables_def)
  show "settled v (vendor_profiles_update (upd_row vnd_id v' (\<lambda>v. v\<lparr>vnd_status := s\<rparr>)) d)"
    using \<open>settled v d\<close> assms(2) by (auto simp: settled_def set_upd_row split: if_split_asm)
qed

lemma settled_typed_same:
  assumes "vendor_tables d' = vendor_tables d" and "settled_typed v n d"
  shows "settled_typed v n d'"
  using assms(2) by (simp only: vendor_hist_same [OF assms(1)] settled_same [OF assms(1)])

lemma keeps_settled_other:
  assumes "\<And>d. vendor_tables (f d) = vendor_tables d"
  shows "keeps (both (settled_typed v)) (modifies f)"
  by (rule keeps_both_modifies) (rule settled_typed_same [OF assms])

lemma keeps_settled_audit: "keeps (both (settled_typed v)) (audit a u t p)"
  by (rule keeps_both_audit [OF settled_mono], rule settled_typed_same) (simp_all add: vendor_tables_def)

lemma settled_suspend:
  assumes "v' \<noteq> v"
  shows "preserved (settled_typed v) (suspend_vendor v' u reason)" "preserved (settled_typed v) (reinstate_vendor v' u)"
  unfolding suspend_vendor_def reinstate_vendor_def unpublish_each_def
  by (rule preserved_both,
      (rule keeps_intros reads_only_keeps reads_only_checks keeps_settled_audit keeps_other_status assms
         keeps_settled_other | (simp add: vendor_tables_def; fail))+)+

lemma answer_spared: "\<not> suspends v c \<Longrightarrow> preserved (settled_typed v) (answer_vendor c)"
  by (cases c) (simp_all add: preserved_silent settled_register settled_decide settled_forms settled_suspend)

interpretation spared_runs: served_machine "spared_step v" "settled_typed v" for v
proof (unfold_locales, goal_cases)
  case (1 w w')
  from 1(1) show ?case
  proof cases
    case (call c r)
    from preservedD [OF answer_spared [OF call(1)] _ _ call(2)] 1(2) show ?thesis by blast
  next
    case (tick t)
    with 1(2) show ?thesis by simp
  next
    case (other d n)
    with 1(2) settled_depends [of v] have "settled_typed v (next_uuid w) d" unfolding depends_on_def by metis
    from supply_monoD [OF settled_mono this other(3)] show ?thesis by (simp add: other(1))
  qed
qed

text \<open>A small world: an organization with its owner, and a platform operator.\<close>

definition vendor_db :: database where
  "vendor_db = empty_db\<lparr>organizations := [sample_org 1 False, sample_org 2 True],
     org_memberships := [\<lparr>omb_id = 5, omb_organization_id = 1, omb_user_id = 3, omb_role = ''owner'', omb_status = ''active''\<rparr>,
                         \<lparr>omb_id = 6, omb_organization_id = 2, omb_user_id = 4, omb_role = ''owner'', omb_status = ''active''\<rparr>]\<rparr>"

definition vendor_world :: world where
  "vendor_world = \<lparr>db = vendor_db, disk = vendor_db, clock = 0, next_uuid = 10\<rparr>"

definition registered_world :: world where
  "registered_world = snd (request (answer_vendor
     (Register 1 3 '' Acme '' (Some ''T'') (Some ''12'') ''A@b'' (Some ''d''))) vendor_world)"

lemma registered_step: "vendor_step vendor_world registered_world"
  unfolding registered_world_def by (rule vendor_called)

lemma vendor_world_ok: "vendor_ok vendor_world"
  by (simp add: vendor_ok_def vendor_typed_def vendor_world_def vendor_db_def empty_db_def)

text \<open>
  C35. The vendor tables keep their types over every run: statuses are the documented ones, names and
  documents are not blank, e-mail, IFSC code, account number and currency are empty or well formed, every
  vendor has its own organization and exactly one verification, a vendor that waits has a queued one and a
  rejected vendor a rejected one. A vendor that is not suspended or reinstated in the run (in particular any
  vendor registered in it) has exactly the status of its verification: pending and queued, verified and
  approved, or rejected and rejected.
\<close>

theorem vendor_tables_typed:
  assumes "vendor_ok w"
  shows "(vendor_step\<^sup>*\<^sup>* w w' \<longrightarrow> vendor_typed (next_uuid w') (db w'))
    \<and> ((spared_step v)\<^sup>*\<^sup>* w w' \<and> settled v (db w) \<longrightarrow>
         vendor_typed (next_uuid w') (db w') \<and> settled v (db w'))"
proof (intro conjI impI)
  assume "vendor_step\<^sup>*\<^sup>* w w'"
  from vendor_since_run [OF this assms] show "vendor_typed (next_uuid w') (db w')"
    by (simp add: vendor_since_def vendor_hist_def)
next
  assume run: "(spared_step v)\<^sup>*\<^sup>* w w' \<and> settled v (db w)"
  then have "settled_typed v (next_uuid w) (db w)" "disk w = db w"
    using assms by (simp_all add: vendor_ok_def vendor_hist_def)
  from spared_runs.run_keeps [OF conjunct1 [OF run] this(2,1)]
  show "vendor_typed (next_uuid w') (db w')" "settled v (db w')" by (simp_all add: vendor_hist_def)
qed

lemma registered_rows:
  "map vnd_status (vendor_profiles (db registered_world)) = [''pending_verification'']"
  by code_simp

lemma registered_spared: "spared_step 10 vendor_world registered_world"
  unfolding registered_world_def by (rule spared_step.call [OF _ prod.collapse [symmetric]]) simp

lemma vendor_tables_typed_witness:
  "vendor_typed (next_uuid registered_world) (db registered_world) \<and> settled 10 (db registered_world)
    \<and> vendor_profiles (db registered_world) \<noteq> []"
proof -
  have "settled 10 (db vendor_world)" by (simp add: settled_def vendor_world_def vendor_db_def empty_db_def)
  with vendor_tables_typed [OF vendor_world_ok, of registered_world 10] registered_step registered_spared
  show ?thesis using registered_rows by (cases "vendor_profiles (db registered_world)") auto
qed

text \<open>
  C36. A decision on a vendor's verification is final: over any run every verification stays with its vendor,
  moves at most once, from queued to approved or rejected with the reviewer and the time recorded, and never
  changes after that.
\<close>

theorem decision_is_final:
  assumes "vendor_step\<^sup>*\<^sup>* w w'" and "vendor_ok w" and "f \<in> set (vendor_verifications (db w))"
  shows "\<exists>g \<in> set (vendor_verifications (db w')). verification_moved f g"
  using vendor_since_run [OF assms(1,2)] assms(3) by (simp add: vendor_since_def vendor_hist_def)

definition queued_row :: verification_row where
  "queued_row = \<lparr>vrf_id = 6, vrf_vendor_id = 5, vrf_status = ''queued'', vrf_notes = None,
     vrf_decided_by = None, vrf_decided_at = None, vrf_created_at = 0\<rparr>"

definition queued_world :: world where
  "queued_world = (let d = vendor_db\<lparr>vendor_verifications := [queued_row],
       vendor_profiles := [\<lparr>vnd_id = 5, vnd_organization_id = 1, vnd_legal_name = ''A'', vnd_tax_id = Some ''T'',
         vnd_payout_bank_account = Some ''1'', vnd_contact_email = ''a@b'', vnd_business_doc_url = Some ''d'',
         vnd_status = ''pending_verification'', vnd_created_at = 0\<rparr>]\<rparr>
     in vendor_world\<lparr>db := d, disk := d\<rparr>)"

definition rejected_world :: world where
  "rejected_world = snd (request (answer_vendor (Decide 6 4 ''rejected'' None)) queued_world)"

lemma rejected_step: "vendor_step queued_world rejected_world"
  unfolding rejected_world_def by (rule vendor_called)

lemma rejected_statuses:
  "map vrf_status (vendor_verifications (db rejected_world)) = [''rejected'']"
  by code_simp

lemma decision_is_final_witness:
  "(\<exists>g \<in> set (vendor_verifications (db rejected_world)). verification_moved queued_row g)
   \<and> map vrf_status (vendor_verifications (db rejected_world)) = [''rejected'']"
proof -
  have "vendor_typed (next_uuid queued_world) (db queued_world)" by code_simp
  then have "vendor_ok queued_world" by (simp add: vendor_ok_def queued_world_def Let_def)
  moreover have "queued_row \<in> set (vendor_verifications (db queued_world))" by (simp add: queued_world_def Let_def)
  ultimately show ?thesis
    using decision_is_final [OF r_into_rtranclp [of vendor_step, OF rejected_step]] rejected_statuses by blast
qed

end
