(* ===== verification/Vendor_Properties.thy ===== *)
theory Vendor_Properties
  imports Vendor_Machine Catalog_Decisions
begin

section \<open>What vendors can rely on, and what they cannot\<close>

text \<open>
  Saving the settings form as it was shown changes nothing but the time of the change, although the form
  holds a masked account number. A suspension followed by a reinstatement makes any vendor verified, a
  rejected one included.
\<close>

text \<open>The form with the values of a view.\<close>

definition form_of :: "vendor_settings_view \<Rightarrow> settings_input" where
  "form_of view =
     \<lparr>sti_support_email = Some (vsv_support_email view), sti_bank_account_name = Some (vsv_bank_account_name view),
      sti_bank_account_number = Some (vsv_bank_account_number view), sti_bank_ifsc = Some (vsv_bank_ifsc view),
      sti_notify_install = Some (vsv_notify_install view), sti_notify_payout = Some (vsv_notify_payout view),
      sti_default_currency = Some (vsv_default_currency view)\<rparr>"

definition filled :: "vendor_settings_row \<Rightarrow> bool" where
  "filled r \<longleftrightarrow> vst_support_email r \<noteq> [] \<and> vst_bank_account_name r \<noteq> [] \<and> vst_bank_ifsc r \<noteq> []"

lemma apply_own_form:
  assumes t: "settings_typed r" and f: "filled r"
  shows "apply_settings (form_of (settings_view p (Some r))) r w = (Inr r, w)"
proof -
  have c: "vst_default_currency r \<noteq> []" using t by (auto simp: settings_typed_def allowed_currencies_def)
  have e: "is_email (vst_support_email r)" "is_ifsc (vst_bank_ifsc r)" "vst_default_currency r \<in> set allowed_currencies"
    "strip (vst_bank_account_name r) = vst_bank_account_name r"
    using t f by (auto simp: settings_typed_def filled_def)
  have "strip (vst_bank_account_number r) = vst_bank_account_number r" using t by (auto simp: settings_typed_def)
  note n = strip_mask [OF this]
  show ?thesis
    using f c
    by (simp add: apply_settings_def form_of_def settings_view_def set_email_def set_account_name_def
        set_account_number_def set_ifsc_def set_notices_def set_currency_def Let_def run_simps
        email_fixed [OF e(1)] ifsc_fixed [OF e(2)] currency_fixed [OF e(3)] e n filled_def)
qed

text \<open>
  C37. Saving the settings form as it was read succeeds, shows the same values again and leaves every setting
  as it is, the bank account number included although the form shows it masked; only the time of the last
  change moves.
\<close>

theorem settings_save_again:
  assumes "vendor_ok w" and "request (get_settings v u) w = (Inr view, w1)"
    and "get_row vst_vendor_id v (vendor_settings (db w)) = Some r" and "filled r"
  shows "\<exists>w2. request (update_settings v u (form_of view)) w1 = (Inr view, w2)
     \<and> vendor_settings (db w2) = upd_row vst_vendor_id v (\<lambda>r. r\<lparr>vst_updated_at := clock w\<rparr>) (vendor_settings (db w))"
proof -
  have d: "disk w = db w" and T: "vendor_typed (next_uuid w) (db w)" using assms(1) by (simp_all add: vendor_ok_def)
  from assms(2) obtain p where own: "require_vendor_owner v u w = (Inr p, w)" and view: "view = settings_view p (Some r)"
    and w1: "w1 = w"
    unfolding get_settings_def request_ok by (simp only: step_ok assms(3)) (auto simp: d)
  note r = get_row_Some [OF assms(3)]
  have "settings_typed r" using vendor_typedD(3) [OF T] r by blast
  note same = apply_own_form [OF this assms(4), of p w, folded view]
  have run: "\<exists>w2. request (update_settings v u (form_of view)) w = (Inr (settings_view p (Some (r\<lparr>vst_updated_at := clock w\<rparr>))), w2)
     \<and> vendor_settings (db w2) = upd_row vst_vendor_id v (\<lambda>_. r\<lparr>vst_updated_at := clock w\<rparr>) (vendor_settings (db w))"
    unfolding update_settings_def Let_def
    by (simp add: request_run bindE_run reads_run utcnow_run ret_run modifies_run audit_run commit_run
        own assms(3) same r)
  have "upd_row vst_vendor_id v (\<lambda>_. r\<lparr>vst_updated_at := clock w\<rparr>) (vendor_settings (db w))
      = upd_row vst_vendor_id v (\<lambda>r. r\<lparr>vst_updated_at := clock w\<rparr>) (vendor_settings (db w))"
    unfolding upd_row_def
  proof (rule map_cong [OF refl])
    fix s assume "s \<in> set (vendor_settings (db w))"
    with r T have "vst_vendor_id s = v \<Longrightarrow> s = r" by (auto simp: vendor_typed_def distinct_map inj_on_def)
    then show "(if vst_vendor_id s = v then r\<lparr>vst_updated_at := clock w\<rparr> else s)
        = (if vst_vendor_id s = v then s\<lparr>vst_updated_at := clock w\<rparr> else s)" by simp
  qed
  moreover have "settings_view p (Some (r\<lparr>vst_updated_at := clock w\<rparr>)) = view"
    by (simp add: view settings_view_def)
  ultimately show ?thesis using run unfolding w1 by simp
qed

text \<open>
  A platform operator who suspends and then reinstates a rejected vendor makes it verified: no approval is
  asked for, and its verification stays rejected.
\<close>

theorem rejected_vendor_reinstated:
  assumes "disk w = db w" and "operator_membership_org_ids (db w) u \<noteq> []" and "strip reason \<noteq> []"
    and "get_row vnd_id v (vendor_profiles (db w)) = Some p" and "vnd_status p = ''rejected''"
  shows "\<exists>x1 w1 x2 w2. request (suspend_vendor v u reason) w = (Inr x1, w1)
     \<and> request (reinstate_vendor v u) w1 = (Inr x2, w2)
     \<and> get_row vnd_id v (vendor_profiles (db w2)) = Some (p\<lparr>vnd_status := ''verified''\<rparr>)
     \<and> vendor_verifications (db w2) = vendor_verifications (db w)"
proof -
  have op: "require_platform_operator u w' = (Inr (), w')"
    if "operator_membership_org_ids (db w') u \<noteq> []" for w'
    using that by (cases "operator_membership_org_ids (db w') u") (auto simp: require_platform_operator_def run_simps)
  let ?w = "w\<lparr>db := vendor_profiles_update (upd_row vnd_id v (\<lambda>v. v\<lparr>vnd_status := ''suspended''\<rparr>)) (db w)\<rparr>"
  obtain log n where loop: "unpublish_each u v (vendor_published (db ?w) v) ?w
     = (Inr (), ?w\<lparr>next_uuid := n, db := (offerings_update (map (unpublished_in (off_id ` set (vendor_published (db ?w) v))))
          (db ?w))\<lparr>audit_log := log\<rparr>\<rparr>)"
    using unpublish_loop [of u v "vendor_published (db ?w) v" ?w] by blast
  obtain x1 w1 where s: "request (suspend_vendor v u reason) w = (Inr x1, w1)"
    and w1: "disk w1 = db w1" "vendor_profiles (db w1) = upd_row vnd_id v (\<lambda>v. v\<lparr>vnd_status := ''suspended''\<rparr>) (vendor_profiles (db w))"
      "vendor_verifications (db w1) = vendor_verifications (db w)"
      "operator_membership_org_ids (db w1) u = operator_membership_org_ids (db w) u"
    using assms(3-5) op [OF assms(2)] loop
    by (auto simp: suspend_vendor_def request_run bindE_run run_simps operator_membership_org_ids_def)
  have p1: "get_row vnd_id v (vendor_profiles (db w1)) = Some (p\<lparr>vnd_status := ''suspended''\<rparr>)"
    by (simp add: w1(2) get_row_upd_row assms(4))
  have "operator_membership_org_ids (db w1) u \<noteq> []" using assms(2) w1(4) by simp
  from op [OF this] p1 obtain x2 w2 where r: "request (reinstate_vendor v u) w1 = (Inr x2, w2)"
    and w2: "vendor_profiles (db w2) = upd_row vnd_id v (\<lambda>v. v\<lparr>vnd_status := ''verified''\<rparr>) (vendor_profiles (db w1))"
      "vendor_verifications (db w2) = vendor_verifications (db w1)"
    by (auto simp: reinstate_vendor_def request_run bindE_run run_simps)
  have "get_row vnd_id v (vendor_profiles (db w2)) = Some (p\<lparr>vnd_status := ''verified''\<rparr>)"
    by (simp add: w2(1) get_row_upd_row p1)
  with s r w1(3) w2(2) show ?thesis by auto
qed

text \<open>A vendor with settings, and a rejected vendor.\<close>

definition settings_row :: vendor_settings_row where
  "settings_row = \<lparr>vst_vendor_id = 7, vst_support_email = ''a@b.c'', vst_bank_account_name = ''Ann'',
     vst_bank_account_number = ''123456'', vst_bank_ifsc = ''HDFC0000001'', vst_notify_install = False,
     vst_notify_payout = True, vst_default_currency = ''USD'', vst_updated_at = 0\<rparr>"

definition settings_world :: world where
  "settings_world = (let d = vendor_db\<lparr>
     vendor_profiles := [\<lparr>vnd_id = 7, vnd_organization_id = 1, vnd_legal_name = ''Acme'', vnd_tax_id = Some ''T'',
       vnd_payout_bank_account = Some ''12'', vnd_contact_email = ''a@b'', vnd_business_doc_url = Some ''d'',
       vnd_status = ''rejected'', vnd_created_at = 0\<rparr>],
     vendor_verifications := [\<lparr>vrf_id = 8, vrf_vendor_id = 7, vrf_status = ''rejected'', vrf_notes = None,
       vrf_decided_by = Some 4, vrf_decided_at = Some 0, vrf_created_at = 0\<rparr>],
     vendor_settings := [settings_row]\<rparr>
     in \<lparr>db = d, disk = d, clock = 1, next_uuid = 10\<rparr>)"

lemma settings_world_ok: "vendor_ok settings_world"
  unfolding vendor_ok_def vendor_typed_def profile_typed_def verification_typed_def settings_typed_def
  by code_simp

lemma settings_shown:
  "case request (get_settings 7 3) settings_world of
     (Inl e, _) \<Rightarrow> False | (Inr view, _) \<Rightarrow> vsv_bank_account_number view = ''XX3456''"
  by code_simp

lemma settings_save_again_witness:
  "\<exists>view w1 w2. vsv_bank_account_number view = ''XX3456''
     \<and> request (update_settings 7 3 (form_of view)) w1 = (Inr view, w2)
     \<and> map vst_bank_account_number (vendor_settings (db w2)) = [''123456'']"
proof -
  from settings_shown obtain view w1 where g: "request (get_settings 7 3) settings_world = (Inr view, w1)"
    and v: "vsv_bank_account_number view = ''XX3456''" by (auto split: prod.splits sum.splits)
  have row: "get_row vst_vendor_id 7 (vendor_settings (db settings_world)) = Some settings_row" "filled settings_row"
    "vendor_settings (db settings_world) = [settings_row]"
    by (simp_all add: settings_world_def settings_row_def filled_def Let_def)
  from settings_save_again [OF settings_world_ok g row(1,2)] obtain w2
    where w2: "request (update_settings 7 3 (form_of view)) w1 = (Inr view, w2)"
      "vendor_settings (db w2) = upd_row vst_vendor_id 7 (\<lambda>r. r\<lparr>vst_updated_at := clock settings_world\<rparr>) [settings_row]"
    unfolding row(3) by blast
  have "map vst_bank_account_number (vendor_settings (db w2)) = [''123456'']"
    unfolding w2(2) by (simp add: settings_row_def)
  with v w2(1) show ?thesis by (intro exI conjI)
qed

lemma rejected_vendor_reinstated_witness:
  "\<exists>w1 x2 w2. request (reinstate_vendor 7 4) w1 = (Inr x2, w2)
     \<and> map_option vnd_status (get_row vnd_id 7 (vendor_profiles (db w2))) = Some ''verified''
     \<and> map vrf_status (vendor_verifications (db w2)) = [''rejected'']"
proof -
  have d: "disk settings_world = db settings_world" by (simp add: settings_world_def Let_def)
  have op: "operator_membership_org_ids (db settings_world) 4 \<noteq> []" "strip ''r'' \<noteq> []" by code_simp+
  obtain p where p: "get_row vnd_id 7 (vendor_profiles (db settings_world)) = Some p" "vnd_status p = ''rejected''"
    by (simp add: settings_world_def Let_def)
  have v: "map vrf_status (vendor_verifications (db settings_world)) = [''rejected'']"
    by (simp add: settings_world_def Let_def)
  from rejected_vendor_reinstated [OF d op p] v show ?thesis by fastforce
qed

end
