(* ===== verification/Plugin_Service.thy ===== *)
theory Plugin_Service
  imports Catalog_Base
begin

section \<open>The plugin service: vendors and reviewers\<close>

text \<open>
  \<open>PluginService\<close> of \<open>marketplace/application/plugin_service.py\<close>: the vendor's portal, the registration of
  plugins and the submission of versions, the capabilities a version asks for and the risk level derived from
  them, and the review by platform operators. The standard plugins are in \<open>Plugin_Standard\<close>. A write to a
  plugin row sets its \<open>updated_at\<close> when it changes anything.
\<close>

subsection \<open>Text\<close>

fun contains :: "string \<Rightarrow> string \<Rightarrow> bool" where
  "contains [] t = (t = [])"
| "contains (c # cs) t = (startswith (c # cs) t \<or> contains cs t)"

definition high_risk_tokens :: "string list" where
  "high_risk_tokens = [''payment'', ''payments'', ''webhook'', ''webhooks'', ''oauth'', ''oauth2'']"

definition medium_risk_tokens :: "string list" where
  "medium_risk_tokens = [''pii'', ''identity'', ''network'', ''storage'', ''secret'', ''secrets'']"

definition risk_level_for_scopes :: "string list \<Rightarrow> string" where
  "risk_level_for_scopes scopes =
     (let lowered = map lower scopes
      in if list_ex (\<lambda>scope. list_ex (contains scope) high_risk_tokens) lowered then ''high''
         else if list_ex (\<lambda>scope. list_ex (contains scope) medium_risk_tokens) lowered then ''medium''
         else ''low'')"

definition derived_slug :: "string \<Rightarrow> string" where
  "derived_slug s = strip_char (CHR ''-'') (dash_runs False (lower (strip s)))"

subsection \<open>A free slug\<close>

text \<open>The candidates of the loop in \<open>submit_plugin_bundle\<close>: the base, then \<open>base-1\<close>, \<open>base-2\<close> and so on.\<close>

definition slug_candidate :: "string \<Rightarrow> nat \<Rightarrow> string" where
  "slug_candidate base suffix = (if suffix = 0 then base else base @ ''-'' @ nat_str suffix)"

definition str_nat :: "string \<Rightarrow> nat" where
  "str_nat s = foldl (\<lambda>n c. n * 10 + (of_char c - 48)) 0 s"

lemma digit_char_value: "n < 10 \<Longrightarrow> (of_char (digit_char n) :: nat) = 48 + n"
  by (simp add: digit_char_def)

lemma str_nat_nat_str [simp]: "str_nat (nat_str n) = n"
proof (induction n rule: nat_str.induct)
  case (1 n)
  show ?case
  proof (cases "n < 10")
    case True
    then show ?thesis by (simp add: nat_str.simps [of n] str_nat_def digit_char_value)
  next
    case False
    have "str_nat (nat_str n) = str_nat (nat_str (n div 10)) * 10 + n mod 10"
      using False by (simp add: nat_str.simps [of n] str_nat_def digit_char_value)
    with 1 [OF False] show ?thesis by simp
  qed
qed

lemma inj_slug_candidate: "inj (slug_candidate base)"
proof (rule injI)
  fix j k assume e: "slug_candidate base j = slug_candidate base k"
  have "j = 0 \<longleftrightarrow> k = 0" using e by (auto simp: slug_candidate_def split: if_splits)
  moreover have "j = k" if "j \<noteq> 0" "k \<noteq> 0"
  proof -
    from e that have "nat_str j = nat_str k" by (simp add: slug_candidate_def)
    then have "str_nat (nat_str j) = str_nat (nat_str k)" by simp
    then show ?thesis by simp
  qed
  ultimately show "j = k" by blast
qed

lemma finite_taken_suffixes: "finite {j. k \<le> j \<and> slug_candidate base j \<in> set taken}"
proof (rule finite_subset)
  show "{j. k \<le> j \<and> slug_candidate base j \<in> set taken} \<subseteq> slug_candidate base -` set taken" by auto
qed (rule finite_vimageI [OF finite_set inj_slug_candidate])

function free_slug :: "string list \<Rightarrow> string \<Rightarrow> nat \<Rightarrow> string" where
  "free_slug taken base suffix =
     (if slug_candidate base suffix \<in> set taken then free_slug taken base (Suc suffix)
      else slug_candidate base suffix)"
  by pat_completeness auto

termination
proof (relation "measure (\<lambda>(taken, base, k). card {j. k \<le> j \<and> slug_candidate base j \<in> set taken})")
  fix taken base suffix assume t: "slug_candidate base suffix \<in> set taken"
  have "{j. Suc suffix \<le> j \<and> slug_candidate base j \<in> set taken}
      \<subset> {j. suffix \<le> j \<and> slug_candidate base j \<in> set taken}"
  proof
    have "suffix \<in> {j. suffix \<le> j \<and> slug_candidate base j \<in> set taken}" using t by simp
    moreover have "suffix \<notin> {j. Suc suffix \<le> j \<and> slug_candidate base j \<in> set taken}" by simp
    ultimately show "{j. Suc suffix \<le> j \<and> slug_candidate base j \<in> set taken}
      \<noteq> {j. suffix \<le> j \<and> slug_candidate base j \<in> set taken}" by blast
  qed auto
  from psubset_card_mono [OF finite_taken_suffixes this]
  show "((taken, base, Suc suffix), taken, base, suffix)
      \<in> measure (\<lambda>(taken, base, k). card {j. k \<le> j \<and> slug_candidate base j \<in> set taken})" by simp
qed simp

declare free_slug.simps [simp del]

subsection \<open>Views\<close>

record portal_summary =
  pos_vendor_id :: uuid
  pos_status :: string
  pos_product_count :: nat
  pos_offering_count :: nat
  pos_active_installs :: nat
  pos_pending_plugin_reviews :: nat

record plugin_created =
  pcr_plugin_id :: uuid
  pcr_slug :: string
  pcr_status :: string
  pcr_vendor_id :: uuid

record plugin_list_item =
  pli_plugin_id :: uuid
  pli_name :: string
  pli_slug :: string
  pli_status :: string
  pli_latest_version :: "string option"
  pli_latest_version_status :: "string option"
  pli_category :: string
  pli_short_description :: string
  pli_review_notes :: string
  pli_submitted_at :: "instant option"
  pli_changelog :: string

record version_created =
  vcr_version_id :: uuid
  vcr_plugin_id :: uuid
  vcr_version :: string
  vcr_status :: string

record version_view =
  vvw_version_id :: uuid
  vvw_version :: string
  vvw_status :: string
  vvw_scan_status :: string
  vvw_submitted_at :: instant
  vvw_decided_at :: "instant option"
  vvw_artifact_url :: string
  vvw_changelog :: string
  vvw_sbom_url :: string
  vvw_review_notes :: string

record plugin_submit_result =
  psr_plugin_id :: uuid
  psr_version_id :: uuid
  psr_slug :: string
  psr_version :: string
  psr_status :: string

record pending_review =
  pdr_version_id :: uuid
  pdr_plugin_id :: uuid
  pdr_plugin_slug :: string
  pdr_version :: string
  pdr_status :: string
  pdr_vendor_id :: "uuid option"
  pdr_vendor_name :: string
  pdr_claimed_by :: "uuid option"
  pdr_submitted_at :: instant
  pdr_risk_level :: string
  pdr_decided_by :: "uuid option"
  pdr_decided_at :: "instant option"
  pdr_review_notes :: string

record plugin_review_stats =
  prs_pending :: nat
  prs_in_review :: nat
  prs_published :: nat
  prs_rejected :: nat
  prs_standard_plugins :: nat

record plugin_review_detail =
  pvd_version_id :: uuid
  pvd_plugin_slug :: string
  pvd_version :: string
  pvd_version_status :: string
  pvd_scan_status :: string
  pvd_sbom_url :: string
  pvd_changelog :: string
  pvd_artifact_url :: string
  pvd_requested_capabilities :: "string list"
  pvd_claimed_by :: "uuid option"
  pvd_review_notes :: string
  pvd_risk_level :: string

record claim_result =
  clr_version_id :: uuid
  clr_claimed_by :: uuid
  clr_claimed_at :: instant

record decision_result =
  dcr_version_id :: uuid
  dcr_status :: string
  dcr_decided_by :: uuid
  dcr_decided_at :: instant

subsection \<open>Shared steps\<close>

definition touched_plugin :: "instant \<Rightarrow> (plugin_row \<Rightarrow> plugin_row) \<Rightarrow> plugin_row \<Rightarrow> plugin_row" where
  "touched_plugin now f p = (if f p = p then p else (f p)\<lparr>plg_updated_at := now\<rparr>)"

definition update_plugin :: "uuid \<Rightarrow> (plugin_row \<Rightarrow> plugin_row) \<Rightarrow> unit op" where
  "update_plugin i f =
     bindE utcnow (\<lambda>now. modifies (plugins_update (upd_row plg_id i (touched_plugin now f))))"

definition update_version :: "uuid \<Rightarrow> (plugin_version_row \<Rightarrow> plugin_version_row) \<Rightarrow> unit op" where
  "update_version i f = modifies (plugin_versions_update (upd_row pvr_id i f))"

definition find_version :: "uuid \<Rightarrow> plugin_version_row op" where
  "find_version i =
     bindE (reads (\<lambda>d. get_row pvr_id i (plugin_versions d))) (\<lambda>found.
     the_or found (NotFoundError ''plugin version not found''))"

definition find_plugin :: "uuid \<Rightarrow> plugin_row op" where
  "find_plugin i =
     bindE (reads (\<lambda>d. get_row plg_id i (plugins d))) (\<lambda>found.
     the_or found (NotFoundError ''plugin not found''))"

definition verified_vendor :: "uuid \<Rightarrow> uuid \<Rightarrow> unit op" where
  "verified_vendor vendor caller =
     bindE (require_vendor_owner vendor caller) (\<lambda>profile.
     raise_if (vnd_status profile \<noteq> ''verified'') (ForbiddenError ''vendor not verified''))"

text \<open>\<open>select(PluginRow.id).where(PluginRow.slug == slug)\<close>, with \<open>scalar_one_or_none\<close>.\<close>

definition slug_taken :: "string \<Rightarrow> bool op" where
  "slug_taken slug =
     bindE (reads (\<lambda>d. map plg_id (filter (\<lambda>p. plg_slug p = slug) (plugins d)))) (\<lambda>rows.
     bindE (one_or_none rows) (\<lambda>taken.
     ret (taken \<noteq> None)))"

definition new_plugin :: "uuid \<Rightarrow> instant \<Rightarrow> uuid option \<Rightarrow> string \<Rightarrow> string \<Rightarrow> string \<Rightarrow> string \<Rightarrow> string \<Rightarrow> string \<Rightarrow> json list \<Rightarrow> plugin_row"
where
  "new_plugin i now vendor kind name slug category description status reqs =
     \<lparr>plg_id = i, plg_vendor_id = vendor, plg_owner_kind = kind, plg_name = name, plg_slug = slug,
      plg_category = category, plg_short_description = description, plg_status = status,
      plg_requirements = reqs, plg_created_at = now, plg_updated_at = now\<rparr>"

definition insert_vendor_plugin :: "uuid \<Rightarrow> uuid \<Rightarrow> string \<Rightarrow> string \<Rightarrow> string \<Rightarrow> string \<Rightarrow> uuid op" where
  "insert_vendor_plugin vendor caller name slug category description =
     bindE uuid4 (\<lambda>i.
     bindE utcnow (\<lambda>now.
     bindE (modifies (plugins_update (\<lambda>rows. rows @
        [new_plugin i now (Some vendor) ''vendor'' name slug category description ''draft'' []]))) (\<lambda>_.
     bindE (audit ''plugin.registered'' (Some caller) None
              [(''plugin_id'', JUuid i), (''vendor_id'', JUuid vendor), (''slug'', JStr slug)]) (\<lambda>_.
     ret i))))"

definition new_version :: "uuid \<Rightarrow> instant \<Rightarrow> uuid \<Rightarrow> string \<Rightarrow> string \<Rightarrow> string \<Rightarrow> string \<Rightarrow> plugin_version_row" where
  "new_version i now plugin version artifact changelog sbom =
     \<lparr>pvr_id = i, pvr_plugin_id = plugin, pvr_version = version, pvr_artifact_url = artifact,
      pvr_changelog = changelog, pvr_sbom_url = sbom, pvr_status = ''pending_review'',
      pvr_scan_status = ''pending'', pvr_risk_level = ''low'', pvr_decided_by = None, pvr_decided_at = None,
      pvr_claimed_by = None, pvr_claimed_at = None, pvr_review_notes = [], pvr_created_at = now\<rparr>"

text \<open>The version, its scan in the outbox, the audit entry and the commit: both submissions end so.\<close>

definition insert_version :: "uuid \<Rightarrow> uuid \<Rightarrow> string \<Rightarrow> string \<Rightarrow> string \<Rightarrow> string \<Rightarrow> uuid op" where
  "insert_version plugin caller version artifact changelog sbom =
     bindE (reads (\<lambda>d. map pvr_id (filter (\<lambda>v. pvr_plugin_id v = plugin \<and> pvr_version v = version)
              (plugin_versions d)))) (\<lambda>rows.
     bindE (one_or_none rows) (\<lambda>exists.
     bindE (raise_if (exists \<noteq> None) (ConflictError ''version already submitted'')) (\<lambda>_.
     bindE uuid4 (\<lambda>i.
     bindE utcnow (\<lambda>now.
     bindE (modifies (plugin_versions_update (\<lambda>rows. rows @
        [new_version i now plugin version artifact changelog sbom]))) (\<lambda>_.
     bindE uuid4 (\<lambda>o'.
     bindE (modifies (outbox_events_update (\<lambda>rows. rows @
        [\<lparr>obx_id = o', obx_type = ''scan_plugin_artifact'',
          obx_payload = [(''version_id'', JUuid i), (''plugin_id'', JUuid plugin)], obx_status = ''pending'',
          obx_retry_count = 0, obx_created_at = now, obx_processed_at = None\<rparr>]))) (\<lambda>_.
     bindE (audit ''plugin_version.submitted'' (Some caller) None
              [(''version_id'', JUuid i), (''plugin_id'', JUuid plugin), (''version'', JStr version)]) (\<lambda>_.
     bindE commit (\<lambda>_.
     ret i))))))))))"

subsection \<open>Vendors\<close>

definition portal :: "uuid \<Rightarrow> uuid \<Rightarrow> portal_summary op" where
  "portal vendor caller =
     bindE (require_vendor_owner vendor caller) (\<lambda>profile.
     reads (\<lambda>d.
       \<lparr>pos_vendor_id = vnd_id profile, pos_status = vnd_status profile,
        pos_product_count = length (filter (\<lambda>p. prd_vendor_id p = vendor) (products d)),
        pos_offering_count = length [offering. offering \<leftarrow> offerings d, product \<leftarrow> products d,
          prd_id product = off_product_id offering \<and> prd_vendor_id product = vendor],
        pos_active_installs = length [installation. installation \<leftarrow> installations d, offering \<leftarrow> offerings d,
          product \<leftarrow> products d, off_id offering = ins_offering_id installation
          \<and> prd_id product = off_product_id offering \<and> prd_vendor_id product = vendor
          \<and> ins_status installation = ''active''],
        pos_pending_plugin_reviews = length [version. version \<leftarrow> plugin_versions d, plugin \<leftarrow> plugins d,
          plg_id plugin = pvr_plugin_id version \<and> plg_vendor_id plugin = Some vendor
          \<and> pvr_status version = ''pending_review'']\<rparr>))"

definition register_plugin :: "uuid \<Rightarrow> uuid \<Rightarrow> string \<Rightarrow> string \<Rightarrow> string \<Rightarrow> string \<Rightarrow> plugin_created op" where
  "register_plugin vendor caller name slug category short_description =
     bindE (verified_vendor vendor caller) (\<lambda>_.
     let name' = strip name; slug' = lower (strip slug); category' = strip category in
     bindE (raise_if (name' = [] \<or> category' = []) (ValidationError ''name and category are required'')) (\<lambda>_.
     bindE (raise_if (\<not> is_slug slug')
              (ValidationError ''slug must be lowercase letters, numbers, and hyphens'')) (\<lambda>_.
     bindE (slug_taken slug') (\<lambda>taken.
     bindE (raise_if taken (ConflictError ''slug taken'')) (\<lambda>_.
     bindE (insert_vendor_plugin vendor caller name' slug' category' (strip short_description)) (\<lambda>i.
     bindE commit (\<lambda>_.
     ret \<lparr>pcr_plugin_id = i, pcr_slug = slug', pcr_status = ''draft'', pcr_vendor_id = vendor\<rparr>)))))))"

definition submit_version :: "uuid \<Rightarrow> uuid \<Rightarrow> string \<Rightarrow> string \<Rightarrow> string \<Rightarrow> string \<Rightarrow> version_created op" where
  "submit_version plugin_id caller version artifact_url changelog sbom_url =
     bindE (find_plugin plugin_id) (\<lambda>plugin.
     bindE (the_or (if plg_owner_kind plugin = ''platform'' then None else plg_vendor_id plugin)
              (ForbiddenError ''use standard plugin APIs for platform-owned plugins'')) (\<lambda>vendor.
     bindE (require_vendor_owner vendor caller) (\<lambda>_.
     let version' = strip version; artifact = strip artifact_url; sbom = strip sbom_url in
     bindE (raise_if (version' = [] \<or> artifact = [])
              (ValidationError ''version and artifact_url are required'')) (\<lambda>_.
     bindE (insert_version plugin_id caller version' artifact (strip changelog) sbom) (\<lambda>i.
     ret \<lparr>vcr_version_id = i, vcr_plugin_id = plugin_id, vcr_version = version',
          vcr_status = ''pending_review''\<rparr>)))))"

text \<open>The plugin a bundle goes to: an existing one of the vendor, or a new one under a free slug.\<close>

definition bundle_plugin ::
  "uuid \<Rightarrow> uuid \<Rightarrow> string \<Rightarrow> string \<Rightarrow> string \<Rightarrow> uuid option \<Rightarrow> string option \<Rightarrow> (uuid \<times> string) op"
where
  "bundle_plugin vendor caller name category description plugin_id slug =
     (case plugin_id of
        Some i \<Rightarrow>
          bindE (reads (\<lambda>d. get_row plg_id i (plugins d))) (\<lambda>found.
          bindE (the_or (case found of None \<Rightarrow> None
                   | Some p \<Rightarrow> if plg_vendor_id p \<noteq> Some vendor \<or> plg_owner_kind p \<noteq> ''vendor'' then None else Some p)
                   (NotFoundError ''plugin not found'')) (\<lambda>plugin.
          bindE (update_plugin i (\<lambda>p. p\<lparr>plg_short_description :=
                     (if strip description \<noteq> [] then strip description else plg_short_description p),
                   plg_category := category\<rparr>)) (\<lambda>_.
          ret (i, plg_slug plugin))))
      | None \<Rightarrow>
          let base = derived_slug (str_or slug name) in
          bindE (raise_if (base = []) (ValidationError ''could not derive slug from name'')) (\<lambda>_.
          bindE (reads (\<lambda>d. free_slug (map plg_slug (plugins d)) base 0)) (\<lambda>candidate.
          bindE (insert_vendor_plugin vendor caller name candidate category (strip description)) (\<lambda>i.
          ret (i, candidate)))))"

definition submit_plugin_bundle ::
  "uuid \<Rightarrow> uuid \<Rightarrow> string \<Rightarrow> string \<Rightarrow> string \<Rightarrow> string \<Rightarrow> string \<Rightarrow> string \<Rightarrow> uuid option \<Rightarrow> string option
    \<Rightarrow> plugin_submit_result op"
where
  "submit_plugin_bundle vendor caller name version category description artifact_url sbom_url plugin_id slug =
     bindE (verified_vendor vendor caller) (\<lambda>_.
     let name' = strip name; category' = strip category;
         version' = dropWhile (\<lambda>c. c = CHR ''v'') (strip version); artifact = strip artifact_url in
     bindE (raise_if (name' = [] \<or> category' = [] \<or> version' = [] \<or> artifact = [])
              (ValidationError ''name, category, version, and artifact_url are required'')) (\<lambda>_.
     bindE (bundle_plugin vendor caller name' category' description plugin_id slug) (\<lambda>(i, slug').
     bindE (insert_version i caller version' artifact (strip description) (strip sbom_url)) (\<lambda>v.
     ret \<lparr>psr_plugin_id = i, psr_version_id = v, psr_slug = slug', psr_version = version',
          psr_status = ''pending_review''\<rparr>))))"

fun collect_scopes :: "string list \<Rightarrow> (string \<times> string) list \<Rightarrow> string list op" where
  "collect_scopes scopes [] = ret scopes"
| "collect_scopes scopes ((scope, justification) # rest) =
     (let cleaned = strip scope
      in bindE (raise_if (cleaned = []) (ValidationError ''capability scope is required'')) (\<lambda>_.
         bindE (raise_if (cleaned \<in> set scopes) (ValidationError ''duplicate capability scope'')) (\<lambda>_.
         collect_scopes (scopes @ [cleaned]) rest)))"

definition new_capability :: "uuid \<Rightarrow> uuid \<Rightarrow> string \<times> string \<Rightarrow> plugin_capability_row" where
  "new_capability version i c =
     \<lparr>pcp_id = i, pcp_version_id = version, pcp_scope = strip (fst c), pcp_justification = strip (snd c)\<rparr>"

definition declare_capabilities :: "uuid \<Rightarrow> uuid \<Rightarrow> (string \<times> string) list \<Rightarrow> nat op" where
  "declare_capabilities version_id caller capabilities =
     bindE (find_version version_id) (\<lambda>version.
     bindE (find_plugin (pvr_plugin_id version)) (\<lambda>plugin.
     bindE (the_or (plg_vendor_id plugin) (ForbiddenError ''vendor admin required'')) (\<lambda>vendor.
     bindE (require_vendor_owner vendor caller) (\<lambda>_.
     bindE (raise_if (pvr_status version \<in> {''approved'', ''rejected''})
              (ConflictError ''capabilities are frozen after a decision'')) (\<lambda>_.
     bindE (raise_if (capabilities = []) (ValidationError ''at least one capability is required'')) (\<lambda>_.
     bindE (collect_scopes [] capabilities) (\<lambda>scopes.
     bindE (modifies (plugin_capabilities_update (filter (\<lambda>c. pcp_version_id c \<noteq> version_id)))) (\<lambda>_.
     bindE (insert_each plugin_capabilities_update (new_capability version_id) capabilities) (\<lambda>_.
     bindE (update_version version_id (\<lambda>v. v\<lparr>pvr_risk_level := risk_level_for_scopes scopes\<rparr>)) (\<lambda>_.
     bindE (audit ''plugin_capabilities.declared'' (Some caller) None
              [(''version_id'', JUuid version_id), (''capability_count'', JInt (int (length scopes))),
               (''risk_level'', JStr (risk_level_for_scopes scopes))]) (\<lambda>_.
     bindE commit (\<lambda>_.
     ret (length scopes)))))))))))))"

text \<open>The latest version of a plugin, whatever its status.\<close>

definition latest_plugin_version :: "database \<Rightarrow> uuid \<Rightarrow> plugin_version_row option" where
  "latest_plugin_version d plugin =
     find (\<lambda>v. pvr_plugin_id v = plugin) (sort_desc pvr_created_at (plugin_versions d))"

definition list_plugins :: "uuid \<Rightarrow> uuid \<Rightarrow> plugin_list_item list op" where
  "list_plugins vendor caller =
     bindE (require_vendor_owner vendor caller) (\<lambda>_.
     reads (\<lambda>d.
       [(let latest = latest_plugin_version d (plg_id plugin)
         in \<lparr>pli_plugin_id = plg_id plugin, pli_name = plg_name plugin, pli_slug = plg_slug plugin,
             pli_status = plg_status plugin, pli_latest_version = map_option pvr_version latest,
             pli_latest_version_status = map_option pvr_status latest, pli_category = plg_category plugin,
             pli_short_description = plg_short_description plugin,
             pli_review_notes = (case latest of None \<Rightarrow> [] | Some v \<Rightarrow> pvr_review_notes v),
             pli_submitted_at = map_option pvr_created_at latest,
             pli_changelog = (case latest of None \<Rightarrow> [] | Some v \<Rightarrow> pvr_changelog v)\<rparr>).
        plugin \<leftarrow> sort_desc plg_created_at
          (filter (\<lambda>p. plg_vendor_id p = Some vendor \<and> plg_owner_kind p = ''vendor'') (plugins d))]))"

definition version_view_of :: "plugin_version_row \<Rightarrow> version_view" where
  "version_view_of row =
     \<lparr>vvw_version_id = pvr_id row, vvw_version = pvr_version row, vvw_status = pvr_status row,
      vvw_scan_status = pvr_scan_status row, vvw_submitted_at = pvr_created_at row,
      vvw_decided_at = pvr_decided_at row, vvw_artifact_url = pvr_artifact_url row,
      vvw_changelog = pvr_changelog row, vvw_sbom_url = pvr_sbom_url row,
      vvw_review_notes = pvr_review_notes row\<rparr>"

definition owner_or_operator :: "uuid \<Rightarrow> uuid \<Rightarrow> unit op" where
  "owner_or_operator vendor caller =
     catch (bindE (require_vendor_owner vendor caller) (\<lambda>_. ret ()))
       (\<lambda>e. case e of ForbiddenError _ \<Rightarrow> require_platform_operator caller | _ \<Rightarrow> raise e)"

definition list_versions :: "uuid \<Rightarrow> uuid \<Rightarrow> (uuid \<times> version_view list) op" where
  "list_versions plugin_id caller =
     bindE (find_plugin plugin_id) (\<lambda>plugin.
     bindE (case if plg_owner_kind plugin = ''platform'' then None else plg_vendor_id plugin of
              None \<Rightarrow> require_platform_operator caller
            | Some vendor \<Rightarrow> owner_or_operator vendor caller) (\<lambda>_.
     reads (\<lambda>d. (plugin_id, map version_view_of
       (sort_desc pvr_created_at (filter (\<lambda>v. pvr_plugin_id v = plugin_id) (plugin_versions d)))))))"

subsection \<open>Reviewers\<close>

definition review_statuses :: "string option \<Rightarrow> string list" where
  "review_statuses status =
     (if status = Some ''published'' then [''approved'']
      else case status of None \<Rightarrow> [''pending_review'', ''changes_requested''] | Some s \<Rightarrow> [s])"

text \<open>\<open>ORDER BY decided_at DESC NULLS LAST\<close>.\<close>

definition decided_last :: "('r \<Rightarrow> instant option) \<Rightarrow> 'r list \<Rightarrow> 'r list" where
  "decided_last f rows =
     sort_desc (\<lambda>r. case f r of None \<Rightarrow> 0 | Some t \<Rightarrow> t) (filter (\<lambda>r. f r \<noteq> None) rows)
     @ filter (\<lambda>r. f r = None) rows"

definition review_matches ::
  "bool option \<Rightarrow> string option \<Rightarrow> string option \<Rightarrow> plugin_version_row \<Rightarrow> plugin_row \<Rightarrow> vendor_profile_row option \<Rightarrow> bool"
where
  "review_matches claimed risk q version plugin vendor =
     ((case claimed of None \<Rightarrow> True | Some b \<Rightarrow> (pvr_claimed_by version \<noteq> None) = b)
      \<and> (case risk of None \<Rightarrow> True | Some r \<Rightarrow> pvr_risk_level version = r)
      \<and> (case q of None \<Rightarrow> True
         | Some t \<Rightarrow> t = [] \<or> list_ex (\<lambda>s. ilike_part s (strip t))
             [plg_slug plugin, plg_name plugin, (case vendor of None \<Rightarrow> [] | Some v \<Rightarrow> vnd_legal_name v),
              pvr_version version]))"

definition list_pending_reviews ::
  "uuid \<Rightarrow> string option \<Rightarrow> bool option \<Rightarrow> string option \<Rightarrow> string option \<Rightarrow> pending_review list op"
where
  "list_pending_reviews caller status claimed risk q =
     bindE (require_platform_operator caller) (\<lambda>_.
     bindE (raise_if (case status of None \<Rightarrow> False
              | Some s \<Rightarrow> s \<notin> {''pending_review'', ''changes_requested'', ''approved'', ''rejected'', ''published''})
              (ValidationError ''status must be one of pending_review, changes_requested, approved, rejected, published'')) (\<lambda>_.
     bindE (raise_if (case risk of None \<Rightarrow> False | Some r \<Rightarrow> r \<notin> {''low'', ''medium'', ''high''})
              (ValidationError ''risk must be low, medium, or high'')) (\<lambda>_.
     reads (\<lambda>d.
       let rows = [(version, plugin, vendor). version \<leftarrow> plugin_versions d, plugin \<leftarrow> plugins d,
                     plg_id plugin = pvr_plugin_id version \<and> pvr_status version \<in> set (review_statuses status)
                     \<and> plg_owner_kind plugin = ''vendor'',
                     vendor \<leftarrow> outer (filter (\<lambda>v. Some (vnd_id v) = plg_vendor_id plugin) (vendor_profiles d)),
                     review_matches claimed risk q version plugin vendor];
           ordered = (if status \<in> {Some ''approved'', Some ''rejected'', Some ''published''}
                      then decided_last (\<lambda>(version, _). pvr_decided_at version) rows
                      else sort_key (\<lambda>(version, _). pvr_created_at version) rows)
       in [\<lparr>pdr_version_id = pvr_id version, pdr_plugin_id = plg_id plugin, pdr_plugin_slug = plg_slug plugin,
            pdr_version = pvr_version version,
            pdr_status = (if status = Some ''published'' \<and> pvr_status version = ''approved'' then ''published''
                          else pvr_status version),
            pdr_vendor_id = map_option vnd_id vendor,
            pdr_vendor_name = (case vendor of None \<Rightarrow> ''Platform'' | Some v \<Rightarrow> vnd_legal_name v),
            pdr_claimed_by = pvr_claimed_by version, pdr_submitted_at = pvr_created_at version,
            pdr_risk_level = str_or (Some (pvr_risk_level version)) ''low'',
            pdr_decided_by = pvr_decided_by version, pdr_decided_at = pvr_decided_at version,
            pdr_review_notes = pvr_review_notes version\<rparr>.
           (version, plugin, vendor) \<leftarrow> ordered]))))"

definition vendor_version_count :: "database \<Rightarrow> (plugin_version_row \<Rightarrow> bool) \<Rightarrow> nat" where
  "vendor_version_count d criteria =
     length [version. version \<leftarrow> plugin_versions d, plugin \<leftarrow> plugins d,
       plg_id plugin = pvr_plugin_id version \<and> plg_owner_kind plugin = ''vendor'' \<and> criteria version]"

definition awaits_review :: "plugin_version_row \<Rightarrow> bool" where
  "awaits_review v = (pvr_status v \<in> {''pending_review'', ''changes_requested''})"

definition review_stats :: "uuid \<Rightarrow> plugin_review_stats op" where
  "review_stats caller =
     bindE (require_platform_operator caller) (\<lambda>_.
     reads (\<lambda>d.
       \<lparr>prs_pending = vendor_version_count d (\<lambda>v. awaits_review v \<and> pvr_claimed_by v = None),
        prs_in_review = vendor_version_count d (\<lambda>v. awaits_review v \<and> pvr_claimed_by v \<noteq> None),
        prs_published = vendor_version_count d (\<lambda>v. pvr_status v = ''approved''),
        prs_rejected = vendor_version_count d (\<lambda>v. pvr_status v = ''rejected''),
        prs_standard_plugins = length (filter (\<lambda>p. plg_owner_kind p = ''platform'') (plugins d))\<rparr>))"

definition review_detail :: "uuid \<Rightarrow> uuid \<Rightarrow> plugin_review_detail op" where
  "review_detail version_id caller =
     bindE (require_platform_operator caller) (\<lambda>_.
     bindE (find_version version_id) (\<lambda>version.
     bindE (find_plugin (pvr_plugin_id version)) (\<lambda>plugin.
     bindE (reads (\<lambda>d. map pcp_scope (filter (\<lambda>c. pcp_version_id c = pvr_id version) (plugin_capabilities d)))) (\<lambda>capabilities.
     ret \<lparr>pvd_version_id = pvr_id version, pvd_plugin_slug = plg_slug plugin, pvd_version = pvr_version version,
          pvd_version_status = pvr_status version, pvd_scan_status = pvr_scan_status version,
          pvd_sbom_url = pvr_sbom_url version, pvd_changelog = pvr_changelog version,
          pvd_artifact_url = pvr_artifact_url version, pvd_requested_capabilities = capabilities,
          pvd_claimed_by = pvr_claimed_by version, pvd_review_notes = pvr_review_notes version,
          pvd_risk_level = str_or (Some (pvr_risk_level version)) ''low''\<rparr>))))"

definition claim_version :: "uuid \<Rightarrow> uuid \<Rightarrow> claim_result op" where
  "claim_version version_id caller =
     bindE (require_platform_operator caller) (\<lambda>_.
     bindE (find_version version_id) (\<lambda>version.
     bindE (raise_if (\<not> awaits_review version) (ConflictError ''version is not awaiting review'')) (\<lambda>_.
     bindE (raise_if (pvr_claimed_by version \<noteq> None \<and> pvr_claimed_by version \<noteq> Some caller)
              (ConflictError ''already claimed by another reviewer'')) (\<lambda>_.
     bindE utcnow (\<lambda>now.
     bindE (update_version version_id (\<lambda>v. v\<lparr>pvr_claimed_by := Some caller, pvr_claimed_at := Some now\<rparr>)) (\<lambda>_.
     bindE (audit ''plugin_version.claimed'' (Some caller) None [(''version_id'', JUuid version_id)]) (\<lambda>_.
     bindE commit (\<lambda>_.
     ret \<lparr>clr_version_id = pvr_id version, clr_claimed_by = caller, clr_claimed_at = now\<rparr>))))))))"

definition require_claim :: "plugin_version_row \<Rightarrow> uuid \<Rightarrow> unit op" where
  "require_claim version caller =
     raise_if (pvr_claimed_by version \<noteq> None \<and> pvr_claimed_by version \<noteq> Some caller)
       (ConflictError ''version is claimed by another reviewer'')"

definition request_changes :: "uuid \<Rightarrow> uuid \<Rightarrow> string \<Rightarrow> decision_result op" where
  "request_changes version_id caller notes_text =
     bindE (require_platform_operator caller) (\<lambda>_.
     let text = strip notes_text in
     bindE (raise_if (text = []) (ValidationError ''notes are required'')) (\<lambda>_.
     bindE (find_version version_id) (\<lambda>version.
     bindE (raise_if (pvr_status version \<noteq> ''pending_review'')
              (ConflictError ''version is not pending review'')) (\<lambda>_.
     bindE (require_claim version caller) (\<lambda>_.
     bindE utcnow (\<lambda>now.
     bindE (update_version version_id (\<lambda>v. v\<lparr>pvr_status := ''changes_requested'', pvr_review_notes := text\<rparr>)) (\<lambda>_.
     bindE (audit ''plugin_version.changes_requested'' (Some caller) None
              [(''version_id'', JUuid version_id), (''notes'', JStr text)]) (\<lambda>_.
     bindE commit (\<lambda>_.
     ret \<lparr>dcr_version_id = pvr_id version, dcr_status = ''changes_requested'', dcr_decided_by = caller,
          dcr_decided_at = now\<rparr>)))))))))"

definition decide_version :: "uuid \<Rightarrow> uuid \<Rightarrow> string \<Rightarrow> string option \<Rightarrow> decision_result op" where
  "decide_version version_id caller decision notes_text =
     bindE (require_platform_operator caller) (\<lambda>_.
     bindE (raise_if (decision \<notin> {''approved'', ''rejected''})
              (ValidationError ''decision must be approved or rejected'')) (\<lambda>_.
     bindE (find_version version_id) (\<lambda>version.
     bindE (raise_if (\<not> awaits_review version) (ConflictError ''version is not awaiting review'')) (\<lambda>_.
     bindE (require_claim version caller) (\<lambda>_.
     bindE (find_plugin (pvr_plugin_id version)) (\<lambda>plugin.
     bindE utcnow (\<lambda>now.
     bindE (update_version version_id (\<lambda>v. v\<lparr>pvr_status := decision, pvr_decided_by := Some caller,
              pvr_decided_at := Some now, pvr_review_notes := strip (str_or notes_text [])\<rparr>)) (\<lambda>_.
     bindE (if decision = ''approved'' \<and> plg_status plugin = ''draft''
            then update_plugin (plg_id plugin) (\<lambda>p. p\<lparr>plg_status := ''active''\<rparr>) else ret ()) (\<lambda>_.
     bindE (audit (''plugin_version.'' @ decision) (Some caller) None
              [(''version_id'', JUuid version_id), (''plugin_id'', JUuid (plg_id plugin)),
               (''decision'', JStr decision), (''notes'', JStr (str_or notes_text []))]) (\<lambda>_.
     bindE commit (\<lambda>_.
     ret \<lparr>dcr_version_id = pvr_id version, dcr_status = decision, dcr_decided_by = caller,
          dcr_decided_at = now\<rparr>)))))))))))"

end
