(* ===== verification/Plugin_Standard.thy ===== *)
theory Plugin_Standard
  imports Plugin_Service
begin

section \<open>The plugin service: standard plugins\<close>

text \<open>
  The plugins the platform itself provides, one per fulfilment category (\<open>PluginService\<close>, continued): their
  creation, editing and deletion by platform operators and their activation by vendors. Deleting a plugin
  that a vendor has activated violates the foreign key of \<open>vendor_plugin_activations\<close> (migration 0023, without
  \<open>ON DELETE\<close>), which the database reports when the deletion is flushed.
\<close>

definition standard_plugin_categories :: "string list" where
  "standard_plugin_categories =
     [''SHIP_PHYSICAL'', ''DELIVER_DIGITAL'', ''LICENSE_SOFTWARE'', ''PROVISION_SOFTWARE'',
      ''PROVISION_CLOUD'', ''STREAM_LMS_COURSE'', ''DELIVER_MULTIMEDIA'', ''DISPATCH_SERVICE'',
      ''BOOK_APPOINTMENT'']"

record vendor_standard_plugin_view =
  vsp_plugin_id :: uuid
  vsp_name :: string
  vsp_slug :: string
  vsp_category :: string
  vsp_short_description :: string
  vsp_version :: "string option"
  vsp_tags :: "string list"
  vsp_vendor_count :: nat
  vsp_activation_status :: string

record standard_plugin_view =
  spv_plugin_id :: "uuid option"
  spv_category :: string
  spv_name :: "string option"
  spv_slug :: "string option"
  spv_status :: "string option"
  spv_short_description :: "string option"
  spv_version :: "string option"
  spv_requirements :: "json list"
  spv_updated_at :: "instant option"

record standard_plugin_created =
  spc_plugin_id :: uuid
  spc_slug :: string
  spc_category :: string
  spc_status :: string
  spc_version :: string

subsection \<open>Vendors\<close>

definition standard_query :: "database \<Rightarrow> string option \<Rightarrow> string option \<Rightarrow> plugin_row list" where
  "standard_query d q category =
     filter (\<lambda>p. (case category of None \<Rightarrow> True | Some c \<Rightarrow> strip c = [] \<or> plg_category p = strip c)
                \<and> (case q of None \<Rightarrow> True | Some t \<Rightarrow> strip t = []
                     \<or> list_ex (\<lambda>s. ilike_part s (strip t))
                         [plg_name p, plg_slug p, plg_short_description p, plg_category p]))
       (sort_key plg_name (filter (\<lambda>p. plg_owner_kind p = ''platform'' \<and> plg_status p = ''active'') (plugins d)))"

definition dashed :: "string \<Rightarrow> string" where
  "dashed s = map (\<lambda>c. if c = CHR ''_'' then CHR ''-'' else c) (lower s)"

definition plugin_tags :: "plugin_row \<Rightarrow> string list" where
  "plugin_tags p =
     dashed (plg_category p) # (if plg_slug p = [] then [] else [takeWhile (\<lambda>c. c \<noteq> CHR ''-'') (plg_slug p)])"

definition activation_of :: "database \<Rightarrow> uuid \<Rightarrow> uuid \<Rightarrow> activation_row list" where
  "activation_of d vendor plugin =
     filter (\<lambda>a. act_vendor_id a = vendor \<and> act_plugin_id a = plugin) (vendor_plugin_activations d)"

definition vendor_standard_view :: "database \<Rightarrow> uuid \<Rightarrow> plugin_row \<Rightarrow> vendor_standard_plugin_view" where
  "vendor_standard_view d vendor p =
     \<lparr>vsp_plugin_id = plg_id p, vsp_name = plg_name p, vsp_slug = plg_slug p, vsp_category = plg_category p,
      vsp_short_description = plg_short_description p,
      vsp_version = map_option pvr_version (find (\<lambda>v. pvr_plugin_id v = plg_id p)
         (sort_desc pvr_created_at (filter (\<lambda>v. pvr_status v = ''approved'') (plugin_versions d)))),
      vsp_tags = plugin_tags p,
      vsp_vendor_count = length (filter (\<lambda>a. act_plugin_id a = plg_id p \<and> act_status a = ''active'')
         (vendor_plugin_activations d)),
      vsp_activation_status = (case first_row (rev (activation_of d vendor (plg_id p))) of
         None \<Rightarrow> ''inactive'' | Some a \<Rightarrow> act_status a)\<rparr>"

definition list_vendor_standard_plugins ::
  "uuid \<Rightarrow> uuid \<Rightarrow> string option \<Rightarrow> string option \<Rightarrow> vendor_standard_plugin_view list op"
where
  "list_vendor_standard_plugins vendor caller q category =
     bindE (require_vendor_owner vendor caller) (\<lambda>_.
     reads (\<lambda>d. map (vendor_standard_view d vendor) (standard_query d q category)))"

text \<open>The listing after a write, searched for the plugin.\<close>

definition vendor_view_of :: "uuid \<Rightarrow> uuid \<Rightarrow> uuid \<Rightarrow> vendor_standard_plugin_view op" where
  "vendor_view_of vendor caller plugin_id =
     bindE (list_vendor_standard_plugins vendor caller None None) (\<lambda>items.
     the_or (find (\<lambda>i. vsp_plugin_id i = plugin_id) items) (NotFoundError ''standard plugin not found''))"

definition activate_standard_plugin :: "uuid \<Rightarrow> uuid \<Rightarrow> uuid \<Rightarrow> vendor_standard_plugin_view op" where
  "activate_standard_plugin vendor caller plugin_id =
     bindE (verified_vendor vendor caller) (\<lambda>_.
     bindE (reads (\<lambda>d. get_row plg_id plugin_id (plugins d))) (\<lambda>found.
     bindE (raise_if (case found of None \<Rightarrow> True
              | Some p \<Rightarrow> plg_owner_kind p \<noteq> ''platform'' \<or> plg_status p \<noteq> ''active'')
              (NotFoundError ''standard plugin not found'')) (\<lambda>_.
     bindE (reads (\<lambda>d. activation_of d vendor plugin_id)) (\<lambda>rows.
     bindE (one_or_none rows) (\<lambda>row.
     bindE utcnow (\<lambda>now.
     bindE (case row of
              None \<Rightarrow> bindE uuid4 (\<lambda>i. modifies (vendor_plugin_activations_update (\<lambda>rows. rows @
                [\<lparr>act_id = i, act_vendor_id = vendor, act_plugin_id = plugin_id, act_status = ''active'',
                  act_activated_at = now, act_updated_at = now\<rparr>])))
            | Some a \<Rightarrow> modifies (vendor_plugin_activations_update (upd_row act_id (act_id a)
                (\<lambda>a. a\<lparr>act_status := ''active'', act_activated_at := now, act_updated_at := now\<rparr>)))) (\<lambda>_.
     bindE (audit ''standard_plugin.activated'' (Some caller) None
              [(''vendor_id'', JUuid vendor), (''plugin_id'', JUuid plugin_id)]) (\<lambda>_.
     bindE commit (\<lambda>_.
     vendor_view_of vendor caller plugin_id)))))))))"

definition deactivate_standard_plugin :: "uuid \<Rightarrow> uuid \<Rightarrow> uuid \<Rightarrow> vendor_standard_plugin_view op" where
  "deactivate_standard_plugin vendor caller plugin_id =
     bindE (require_vendor_owner vendor caller) (\<lambda>_.
     bindE (reads (\<lambda>d. get_row plg_id plugin_id (plugins d))) (\<lambda>found.
     bindE (raise_if (case found of None \<Rightarrow> True | Some p \<Rightarrow> plg_owner_kind p \<noteq> ''platform'')
              (NotFoundError ''standard plugin not found'')) (\<lambda>_.
     bindE (reads (\<lambda>d. activation_of d vendor plugin_id)) (\<lambda>rows.
     bindE (one_or_none rows) (\<lambda>found_row.
     bindE (the_or found_row (ConflictError ''plugin is not activated'')) (\<lambda>row.
     bindE utcnow (\<lambda>now.
     bindE (modifies (vendor_plugin_activations_update (upd_row act_id (act_id row)
              (\<lambda>a. a\<lparr>act_status := ''inactive'', act_updated_at := now\<rparr>)))) (\<lambda>_.
     bindE (audit ''standard_plugin.deactivated'' (Some caller) None
              [(''vendor_id'', JUuid vendor), (''plugin_id'', JUuid plugin_id)]) (\<lambda>_.
     bindE commit (\<lambda>_.
     vendor_view_of vendor caller plugin_id))))))))))"

subsection \<open>Operators\<close>

definition standard_view :: "database \<Rightarrow> string \<Rightarrow> standard_plugin_view" where
  "standard_view d category =
     (case find (\<lambda>p. plg_category p = category) (rev (filter (\<lambda>p. plg_owner_kind p = ''platform'') (plugins d))) of
        None \<Rightarrow>
          \<lparr>spv_plugin_id = None, spv_category = category, spv_name = None, spv_slug = None, spv_status = None,
           spv_short_description = None, spv_version = None, spv_requirements = [], spv_updated_at = None\<rparr>
      | Some p \<Rightarrow>
          \<lparr>spv_plugin_id = Some (plg_id p), spv_category = plg_category p, spv_name = Some (plg_name p),
           spv_slug = Some (plg_slug p), spv_status = Some (plg_status p),
           spv_short_description = Some (plg_short_description p),
           spv_version = map_option pvr_version (latest_plugin_version d (plg_id p)),
           spv_requirements = plg_requirements p, spv_updated_at = Some (plg_updated_at p)\<rparr>)"

definition list_standard_plugins :: "uuid \<Rightarrow> standard_plugin_view list op" where
  "list_standard_plugins caller =
     bindE (require_platform_operator caller) (\<lambda>_.
     reads (\<lambda>d. map (standard_view d) standard_plugin_categories))"

definition create_standard_plugin ::
  "uuid \<Rightarrow> string \<Rightarrow> string \<Rightarrow> string \<Rightarrow> string \<Rightarrow> string \<Rightarrow> string \<Rightarrow> string \<Rightarrow> json list option \<Rightarrow> bool
    \<Rightarrow> standard_plugin_created op"
where
  "create_standard_plugin caller name slug category short_description version artifact_url changelog reqs publish =
     bindE (require_platform_operator caller) (\<lambda>_.
     let name' = strip name; slug' = lower (strip slug); category' = strip category;
         version' = strip version; artifact = strip artifact_url in
     bindE (raise_if (category' \<notin> set standard_plugin_categories)
              (ValidationError ''unsupported standard plugin category'')) (\<lambda>_.
     bindE (raise_if (name' = [] \<or> version' = [] \<or> artifact = [])
              (ValidationError ''name, version, and artifact_url are required'')) (\<lambda>_.
     bindE (raise_if (\<not> is_slug slug')
              (ValidationError ''slug must be lowercase letters, numbers, and hyphens'')) (\<lambda>_.
     bindE (reads (\<lambda>d. filter (\<lambda>p. plg_owner_kind p = ''platform'' \<and> plg_category p = category') (plugins d))) (\<lambda>rows.
     bindE (one_or_none rows) (\<lambda>existing.
     bindE (raise_if (existing \<noteq> None) (ConflictError ''standard plugin already exists for category'')) (\<lambda>_.
     bindE (slug_taken slug') (\<lambda>taken.
     bindE (raise_if taken (ConflictError ''slug taken'')) (\<lambda>_.
     let status = (if publish then ''active'' else ''draft'') in
     bindE uuid4 (\<lambda>i.
     bindE utcnow (\<lambda>now.
     bindE (modifies (plugins_update (\<lambda>rows. rows @
        [new_plugin i now None ''platform'' name' slug' category' (strip short_description) status
           (case reqs of None \<Rightarrow> [] | Some r \<Rightarrow> r)]))) (\<lambda>_.
     bindE uuid4 (\<lambda>v.
     bindE (modifies (plugin_versions_update (\<lambda>rows. rows @
        [(new_version v now i version' artifact (strip changelog) ''platform://standard-plugin'')
           \<lparr>pvr_status := ''approved'', pvr_scan_status := ''passed'', pvr_decided_by := Some caller,
            pvr_decided_at := Some now, pvr_review_notes := ''platform standard plugin''\<rparr>]))) (\<lambda>_.
     bindE (audit ''standard_plugin.created'' (Some caller) None
              [(''plugin_id'', JUuid i), (''category'', JStr category'), (''slug'', JStr slug'),
               (''status'', JStr status)]) (\<lambda>_.
     bindE commit (\<lambda>_.
     ret \<lparr>spc_plugin_id = i, spc_slug = slug', spc_category = category', spc_status = status,
          spc_version = version'\<rparr>))))))))))))))))"

definition require_standard_plugin :: "uuid \<Rightarrow> uuid \<Rightarrow> plugin_row op" where
  "require_standard_plugin plugin_id caller =
     bindE (require_platform_operator caller) (\<lambda>_.
     bindE (reads (\<lambda>d. get_row plg_id plugin_id (plugins d))) (\<lambda>found.
     the_or (case found of None \<Rightarrow> None
             | Some p \<Rightarrow> if plg_owner_kind p \<noteq> ''platform'' then None else Some p)
       (NotFoundError ''standard plugin not found'')))"

definition operator_view_of :: "uuid \<Rightarrow> uuid \<Rightarrow> standard_plugin_view op" where
  "operator_view_of caller plugin_id =
     bindE (list_standard_plugins caller) (\<lambda>views.
     the_or (find (\<lambda>v. spv_plugin_id v = Some plugin_id) views) (NotFoundError ''plugin not found''))"

definition edited_plugin :: "string option \<Rightarrow> string option \<Rightarrow> json list option \<Rightarrow> plugin_row \<Rightarrow> plugin_row" where
  "edited_plugin name short_description reqs p =
     (let p1 = (case name of None \<Rightarrow> p | Some n \<Rightarrow> p\<lparr>plg_name := strip n\<rparr>);
          p2 = (case short_description of None \<Rightarrow> p1 | Some s \<Rightarrow> p1\<lparr>plg_short_description := strip s\<rparr>)
      in case reqs of None \<Rightarrow> p2 | Some r \<Rightarrow> p2\<lparr>plg_requirements := r\<rparr>)"

definition update_standard_plugin ::
  "uuid \<Rightarrow> uuid \<Rightarrow> string option \<Rightarrow> string option \<Rightarrow> json list option \<Rightarrow> standard_plugin_view op"
where
  "update_standard_plugin plugin_id caller name short_description reqs =
     bindE (require_standard_plugin plugin_id caller) (\<lambda>plugin.
     bindE (raise_if (case name of None \<Rightarrow> False | Some n \<Rightarrow> strip n = [])
              (ValidationError ''name is required'')) (\<lambda>_.
     bindE (update_plugin plugin_id (edited_plugin name short_description reqs)) (\<lambda>_.
     bindE (audit ''standard_plugin.updated'' (Some caller) None [(''plugin_id'', JUuid (plg_id plugin))]) (\<lambda>_.
     bindE commit (\<lambda>_.
     operator_view_of caller (plg_id plugin))))))"

definition set_standard_plugin_status :: "uuid \<Rightarrow> uuid \<Rightarrow> string \<Rightarrow> standard_plugin_view op" where
  "set_standard_plugin_status plugin_id caller status =
     bindE (raise_if (status \<notin> {''active'', ''unpublished'', ''deprecated'', ''draft''})
              (ValidationError ''invalid status'')) (\<lambda>_.
     bindE (require_standard_plugin plugin_id caller) (\<lambda>plugin.
     bindE (update_plugin plugin_id (\<lambda>p. p\<lparr>plg_status := status\<rparr>)) (\<lambda>_.
     bindE (audit (''standard_plugin.'' @ status) (Some caller) None
              [(''plugin_id'', JUuid (plg_id plugin)), (''status'', JStr status)]) (\<lambda>_.
     bindE commit (\<lambda>_.
     operator_view_of caller (plg_id plugin))))))"

definition delete_versions :: "plugin_version_row list \<Rightarrow> unit op" where
  "delete_versions versions =
     for_each versions (\<lambda>version.
       bindE (modifies (plugin_capabilities_update (filter (\<lambda>c. pcp_version_id c \<noteq> pvr_id version)))) (\<lambda>_.
       modifies (plugin_versions_update (del_row pvr_id (pvr_id version)))))"

definition delete_standard_plugin :: "uuid \<Rightarrow> uuid \<Rightarrow> unit op" where
  "delete_standard_plugin plugin_id caller =
     bindE (require_standard_plugin plugin_id caller) (\<lambda>plugin.
     bindE (reads (\<lambda>d. length (filter (\<lambda>p. prd_plugin_id p = Some plugin_id) (products d)))) (\<lambda>product_count.
     bindE (raise_if (product_count > 0) (ConflictError ''standard plugin is in use; deprecate instead'')) (\<lambda>_.
     bindE (reads (\<lambda>d. length [installation. installation \<leftarrow> installations d, offering \<leftarrow> offerings d,
              product \<leftarrow> products d, off_id offering = ins_offering_id installation
              \<and> prd_id product = off_product_id offering \<and> prd_plugin_id product = Some plugin_id])) (\<lambda>install_count.
     bindE (raise_if (install_count > 0) (ConflictError ''standard plugin is in use; deprecate instead'')) (\<lambda>_.
     bindE (reads (\<lambda>d. filter (\<lambda>v. pvr_plugin_id v = plugin_id) (plugin_versions d))) (\<lambda>versions.
     bindE (delete_versions versions) (\<lambda>_.
     bindE (modifies (plugins_update (del_row plg_id (plg_id plugin)))) (\<lambda>_.
     bindE (audit ''standard_plugin.deleted'' (Some caller) None [(''plugin_id'', JUuid plugin_id)]) (\<lambda>_.
     bindE (reads (\<lambda>d. list_ex (\<lambda>a. act_plugin_id a = plugin_id) (vendor_plugin_activations d))) (\<lambda>referenced.
     bindE (raise_if referenced IntegrityError) (\<lambda>_.
     commit)))))))))))"

end
