(* ===== verification/Plugin_Types.thy ===== *)
theory Plugin_Types
  imports Plugin_Standard Invariants
begin

section \<open>The types of the plugin tables\<close>

text \<open>
  What the rows of \<open>plugins\<close>, \<open>plugin_versions\<close> and \<open>plugin_capabilities\<close> have to do with each other, what may
  happen to a version under review, and how the changes the requests make respect both.
\<close>

definition standard_plugins :: "database \<Rightarrow> plugin_row list" where
  "standard_plugins d = filter (\<lambda>p. plg_owner_kind p = ''platform'') (plugins d)"

definition scopes_of :: "database \<Rightarrow> uuid \<Rightarrow> string list" where
  "scopes_of d i = map pcp_scope (filter (\<lambda>c. pcp_version_id c = i) (plugin_capabilities d))"

definition decided :: "plugin_version_row \<Rightarrow> bool" where
  "decided v \<longleftrightarrow> pvr_status v \<in> {''approved'', ''rejected''}"

definition version_typed :: "plugin_version_row \<Rightarrow> bool" where
  "version_typed v \<longleftrightarrow>
     pvr_status v \<in> {''pending_review'', ''changes_requested'', ''approved'', ''rejected''}
     \<and> (decided v \<longleftrightarrow> pvr_decided_by v \<noteq> None)
     \<and> (decided v \<longrightarrow> pvr_claimed_by v = None \<or> pvr_claimed_by v = pvr_decided_by v)"

definition plugin_typed :: "uuid \<Rightarrow> database \<Rightarrow> bool" where
  "plugin_typed n d \<longleftrightarrow>
     distinct (map plg_id (plugins d)) \<and> (\<forall>p \<in> set (plugins d). plg_id p < n)
     \<and> distinct (map plg_slug (plugins d)) \<and> (\<forall>p \<in> set (plugins d). is_slug (plg_slug p))
     \<and> distinct (map plg_category (standard_plugins d))
     \<and> distinct (map pvr_id (plugin_versions d)) \<and> (\<forall>v \<in> set (plugin_versions d). pvr_id v < n)
     \<and> (\<forall>v \<in> set (plugin_versions d). pvr_plugin_id v < n)
     \<and> distinct (map (\<lambda>v. (pvr_plugin_id v, pvr_version v)) (plugin_versions d))
     \<and> (\<forall>v \<in> set (plugin_versions d). version_typed v)
     \<and> (\<forall>c \<in> set (plugin_capabilities d). pcp_version_id c < n)
     \<and> (\<forall>v \<in> set (plugin_versions d). distinct (scopes_of d (pvr_id v))
          \<and> pvr_risk_level v = risk_level_for_scopes (scopes_of d (pvr_id v)))"

subsection \<open>The review of a version\<close>

text \<open>
  The abstract machine: a version under review is claimed, sent back with notes, rated and decided, the last
  two by nobody but the reviewer who claimed it, if any; a decided version only waits for its scan.
\<close>

inductive version_move :: "plugin_version_row \<Rightarrow> plugin_version_row \<Rightarrow> bool" where
  claim: "\<not> decided v \<Longrightarrow> pvr_claimed_by v \<in> {None, Some u}
    \<Longrightarrow> version_move v (v\<lparr>pvr_claimed_by := Some u, pvr_claimed_at := Some t\<rparr>)"
| send_back: "pvr_status v = ''pending_review'' \<Longrightarrow> pvr_claimed_by v \<in> {None, Some u}
    \<Longrightarrow> version_move v (v\<lparr>pvr_status := ''changes_requested'', pvr_review_notes := text\<rparr>)"
| decide: "\<not> decided v \<Longrightarrow> pvr_claimed_by v \<in> {None, Some u} \<Longrightarrow> s \<in> {''approved'', ''rejected''}
    \<Longrightarrow> version_move v (v\<lparr>pvr_status := s, pvr_decided_by := Some u, pvr_decided_at := Some t,
          pvr_review_notes := text\<rparr>)"
| rate: "\<not> decided v \<Longrightarrow> version_move v (v\<lparr>pvr_risk_level := risk\<rparr>)"
| scan: "pvr_scan_status v = ''pending'' \<Longrightarrow> version_move v (v\<lparr>pvr_scan_status := ''passed''\<rparr>)"

abbreviation version_path :: "plugin_version_row \<Rightarrow> plugin_version_row \<Rightarrow> bool" where
  "version_path \<equiv> version_move\<^sup>*\<^sup>*"

text \<open>What a version is about never changes.\<close>

lemma version_move_fixed:
  "version_move v w \<Longrightarrow> pvr_id w = pvr_id v \<and> pvr_plugin_id w = pvr_plugin_id v \<and> pvr_version w = pvr_version v
     \<and> pvr_artifact_url w = pvr_artifact_url v \<and> pvr_sbom_url w = pvr_sbom_url v"
  by (erule version_move.cases) simp_all

lemma version_path_fixed:
  "version_path v w \<Longrightarrow> pvr_id w = pvr_id v \<and> pvr_plugin_id w = pvr_plugin_id v \<and> pvr_version w = pvr_version v
     \<and> pvr_artifact_url w = pvr_artifact_url v \<and> pvr_sbom_url w = pvr_sbom_url v"
  by (induction rule: rtranclp_induct) (auto dest: version_move_fixed)

text \<open>After the decision only the scan status moves.\<close>

definition same_decision :: "plugin_version_row \<Rightarrow> plugin_version_row \<Rightarrow> bool" where
  "same_decision v w \<longleftrightarrow> w = v\<lparr>pvr_scan_status := pvr_scan_status w\<rparr>"

lemma version_move_decided:
  assumes "version_move v w" and "decided v"
  shows "same_decision v w" and "decided w"
  using assms by (auto elim!: version_move.cases simp: decided_def same_decision_def)

lemma version_path_decided:
  assumes "version_path v w" and "decided v"
  shows "same_decision v w \<and> decided w"
  using assms(1)
proof (induction rule: rtranclp_induct)
  case base
  show ?case using assms(2) by (simp add: same_decision_def)
next
  case (step x y)
  from version_move_decided [OF step(2)] step(3) have "same_decision x y" "decided y" by blast+
  with step(3) show ?case unfolding same_decision_def by (cases v, cases x, cases y) simp
qed

text \<open>Every step of the machine keeps the types of the row.\<close>

lemma version_move_typed: "version_move v w \<Longrightarrow> version_typed v \<Longrightarrow> version_typed w"
  by (erule version_move.cases) (auto simp: version_typed_def decided_def)

lemma version_path_typed: "version_path v w \<Longrightarrow> version_typed v \<Longrightarrow> version_typed w"
  by (induction rule: rtranclp_induct) (auto dest: version_move_typed)

subsection \<open>The history of the versions\<close>

definition capabilities_of :: "database \<Rightarrow> uuid \<Rightarrow> plugin_capability_row list" where
  "capabilities_of d i = filter (\<lambda>c. pcp_version_id c = i) (plugin_capabilities d)"

text \<open>
  The versions \<open>vs\<close> of vendor plugins are all still there, followed along the machine, and the capabilities
  of a decided one are still those of \<open>caps\<close>.
\<close>

definition version_kept :: "(uuid \<Rightarrow> plugin_capability_row list) \<Rightarrow> database \<Rightarrow> plugin_version_row \<Rightarrow> bool" where
  "version_kept caps d v \<longleftrightarrow>
     (\<exists>w \<in> set (plugin_versions d). version_path v w)
     \<and> (\<exists>p \<in> set (plugins d). plg_id p = pvr_plugin_id v \<and> plg_owner_kind p = ''vendor'')
     \<and> (decided v \<longrightarrow> capabilities_of d (pvr_id v) = caps (pvr_id v))"

definition plugin_hist ::
  "(uuid \<Rightarrow> plugin_capability_row list) \<Rightarrow> plugin_version_row list \<Rightarrow> uuid \<Rightarrow> database \<Rightarrow> bool"
where
  "plugin_hist caps vs n d \<longleftrightarrow> plugin_typed n d \<and> (\<forall>v \<in> set vs. version_kept caps d v)"

definition plugin_tables where
  "plugin_tables d = (plugins d, plugin_versions d, plugin_capabilities d)"

lemma plugin_hist_same: "plugin_tables d' = plugin_tables d \<Longrightarrow> plugin_hist caps vs n d' = plugin_hist caps vs n d"
  by (simp add: plugin_tables_def plugin_hist_def plugin_typed_def version_kept_def capabilities_of_def
      scopes_of_def standard_plugins_def)

lemma plugin_hist_mono: "supply_mono (plugin_hist caps vs)"
proof -
  have "plugin_typed n' d" if "n \<le> n'" "plugin_typed n d" for n n' d
  proof -
    have "a < n'" if "a < n" for a using that \<open>n \<le> n'\<close> by simp
    with that(2) show ?thesis unfolding plugin_typed_def by blast
  qed
  then show ?thesis unfolding supply_mono_def plugin_hist_def by blast
qed

lemma plugin_hist_log: "log_blind (plugin_hist caps vs)"
proof -
  have "plugin_hist caps vs n (d\<lparr>authorization_audit_log := l\<rparr>) = plugin_hist caps vs n d" for n d l
    by (rule plugin_hist_same) (simp add: plugin_tables_def)
  then show ?thesis unfolding log_blind_def by blast
qed

lemma plugin_typedD:
  assumes "plugin_typed n d"
  shows "distinct (map plg_id (plugins d))" and "distinct (map plg_slug (plugins d))"
    and "distinct (map pvr_id (plugin_versions d))"
    and "p \<in> set (plugins d) \<Longrightarrow> plg_id p < n \<and> is_slug (plg_slug p)"
    and "v \<in> set (plugin_versions d) \<Longrightarrow> pvr_id v < n \<and> pvr_plugin_id v < n \<and> version_typed v
      \<and> distinct (scopes_of d (pvr_id v)) \<and> pvr_risk_level v = risk_level_for_scopes (scopes_of d (pvr_id v))"
    and "c \<in> set (plugin_capabilities d) \<Longrightarrow> pcp_version_id c < n"
  using assms unfolding plugin_typed_def by blast+

lemma risk_of_nothing [simp]: "risk_level_for_scopes [] = ''low''"
  by (simp add: risk_level_for_scopes_def)

lemma plugin_hist_add_plugin:
  assumes J: "plugin_hist caps vs n d" and id: "n \<le> plg_id p" "plg_id p < m"
    and slug: "plg_slug p \<notin> plg_slug ` set (plugins d)" "is_slug (plg_slug p)"
    and cat: "plg_owner_kind p = ''platform'' \<Longrightarrow> plg_category p \<notin> plg_category ` set (standard_plugins d)"
    and d': "plugin_tables d' = (plugins d @ [p], plugin_versions d, plugin_capabilities d)"
  shows "plugin_hist caps vs m d'"
proof -
  have t: "plugins d' = plugins d @ [p]" "plugin_versions d' = plugin_versions d"
    "plugin_capabilities d' = plugin_capabilities d"
    using d' by (simp_all add: plugin_tables_def)
  have T: "plugin_typed n d" using J by (simp add: plugin_hist_def)
  have s: "scopes_of d' = scopes_of d" by (simp add: scopes_of_def t fun_eq_iff)
  have k: "capabilities_of d' = capabilities_of d" by (simp add: capabilities_of_def t fun_eq_iff)
  have std: "standard_plugins d' = standard_plugins d @ (if plg_owner_kind p = ''platform'' then [p] else [])"
    by (simp add: standard_plugins_def t)
  have new: "plg_id p \<notin> plg_id ` set (plugins d)" using plugin_typedD(4) [OF T] id by fastforce
  have lt: "a < m" if "a < n" for a using that id by simp
  have "plugin_typed m d'"
    unfolding plugin_typed_def t s
  proof (intro conjI)
    show "distinct (map plg_category (standard_plugins d'))"
      using T cat unfolding std plugin_typed_def by auto
    show "\<forall>q \<in> set (plugins d @ [p]). plg_id q < m" using plugin_typedD(4) [OF T] id by fastforce
    show "\<forall>q \<in> set (plugins d @ [p]). is_slug (plg_slug q)" using plugin_typedD(4) [OF T] slug by auto
    show "\<forall>v \<in> set (plugin_versions d). pvr_id v < m" "\<forall>v \<in> set (plugin_versions d). pvr_plugin_id v < m"
      using plugin_typedD(5) [OF T] lt by blast+
    show "\<forall>c \<in> set (plugin_capabilities d). pcp_version_id c < m" using plugin_typedD(6) [OF T] lt by blast
  qed (use T new slug in \<open>simp_all add: plugin_typed_def\<close>)
  moreover have "version_kept caps d' v" if "version_kept caps d v" for v
    using that unfolding version_kept_def t k by auto
  ultimately show ?thesis using J unfolding plugin_hist_def by blast
qed

lemma plugin_hist_edit_plugin:
  assumes J: "plugin_hist caps vs n d"
    and f: "\<And>p. plg_id (f p) = plg_id p \<and> plg_slug (f p) = plg_slug p \<and> plg_owner_kind (f p) = plg_owner_kind p"
    and cat: "\<And>p. p \<in> set (plugins d) \<Longrightarrow> plg_id p = i \<Longrightarrow> plg_owner_kind p = ''platform'' \<Longrightarrow> plg_category (f p) = plg_category p"
    and d': "plugin_tables d' = (upd_row plg_id i f (plugins d), plugin_versions d, plugin_capabilities d)"
  shows "plugin_hist caps vs n d'"
proof -
  have t: "plugins d' = upd_row plg_id i f (plugins d)" "plugin_versions d' = plugin_versions d"
    "plugin_capabilities d' = plugin_capabilities d"
    using d' by (simp_all add: plugin_tables_def)
  have T: "plugin_typed n d" using J by (simp add: plugin_hist_def)
  have s: "scopes_of d' = scopes_of d" by (simp add: scopes_of_def t fun_eq_iff)
  have k: "capabilities_of d' = capabilities_of d" by (simp add: capabilities_of_def t fun_eq_iff)
  have maps: "map plg_id (plugins d') = map plg_id (plugins d)" "map plg_slug (plugins d') = map plg_slug (plugins d)"
    unfolding t using f by (simp_all add: map_key_upd_row)
  have "map plg_category (filter (\<lambda>p. plg_owner_kind p = ''platform'') (upd_row plg_id i f ps))
      = map plg_category (filter (\<lambda>p. plg_owner_kind p = ''platform'') ps)"
    if "set ps \<subseteq> set (plugins d)" for ps
    using that by (induction ps) (use f cat in auto)
  then have cats: "map plg_category (standard_plugins d') = map plg_category (standard_plugins d)"
    by (simp add: standard_plugins_def t)
  have rows: "\<exists>p \<in> set (plugins d). plg_id q = plg_id p \<and> plg_slug q = plg_slug p"
    if "q \<in> set (plugins d')" for q
    using that f unfolding t set_upd_row by (metis (full_types))
  have "plugin_typed n d'"
    unfolding plugin_typed_def maps cats s
  proof (intro conjI)
    show "\<forall>q \<in> set (plugins d'). plg_id q < n" using rows plugin_typedD(4) [OF T] by metis
    show "\<forall>q \<in> set (plugins d'). is_slug (plg_slug q)" using rows plugin_typedD(4) [OF T] by metis
  qed (use T in \<open>simp_all add: plugin_typed_def t\<close>)
  moreover have "version_kept caps d' v" if kept: "version_kept caps d v" for v
  proof -
    from kept obtain p where p: "p \<in> set (plugins d)" "plg_id p = pvr_plugin_id v" "plg_owner_kind p = ''vendor''"
      unfolding version_kept_def by blast
    then have "(if plg_id p = i then f p else p) \<in> set (plugins d')" unfolding t set_upd_row by blast
    with p f have "\<exists>q \<in> set (plugins d'). plg_id q = pvr_plugin_id v \<and> plg_owner_kind q = ''vendor''" by metis
    with kept show ?thesis unfolding version_kept_def t(2) k by blast
  qed
  ultimately show ?thesis using J unfolding plugin_hist_def by blast
qed

lemma plugin_hist_add_version:
  assumes J: "plugin_hist caps vs n d" and id: "n \<le> pvr_id v" "pvr_id v < m" "pvr_plugin_id v < n"
    and pair: "\<forall>w \<in> set (plugin_versions d). \<not> (pvr_plugin_id w = pvr_plugin_id v \<and> pvr_version w = pvr_version v)"
    and v: "version_typed v" "pvr_risk_level v = ''low''"
    and d': "plugin_tables d' = (plugins d, plugin_versions d @ [v], plugin_capabilities d)"
  shows "plugin_hist caps vs m d'"
proof -
  have t: "plugins d' = plugins d" "plugin_versions d' = plugin_versions d @ [v]"
    "plugin_capabilities d' = plugin_capabilities d"
    using d' by (simp_all add: plugin_tables_def)
  have T: "plugin_typed n d" using J by (simp add: plugin_hist_def)
  have s: "scopes_of d' = scopes_of d" by (simp add: scopes_of_def t fun_eq_iff)
  have k: "capabilities_of d' = capabilities_of d" by (simp add: capabilities_of_def t fun_eq_iff)
  have std: "standard_plugins d' = standard_plugins d" by (simp add: standard_plugins_def t)
  have new: "pvr_id v \<notin> pvr_id ` set (plugin_versions d)" using plugin_typedD(5) [OF T] id by fastforce
  have none: "scopes_of d (pvr_id v) = []"
    using plugin_typedD(6) [OF T] id by (fastforce simp: scopes_of_def filter_empty_conv)
  have "plugin_typed m d'"
    unfolding plugin_typed_def t s std
  proof (intro conjI)
    show "\<forall>q \<in> set (plugins d). plg_id q < m" using plugin_typedD(4) [OF T] id by fastforce
    show "\<forall>w \<in> set (plugin_versions d @ [v]). pvr_id w < m" "\<forall>w \<in> set (plugin_versions d @ [v]). pvr_plugin_id w < m"
      using plugin_typedD(5) [OF T] id by fastforce+
    show "\<forall>w \<in> set (plugin_versions d @ [v]). version_typed w" using plugin_typedD(5) [OF T] v by auto
    show "\<forall>w \<in> set (plugin_versions d @ [v]). distinct (scopes_of d (pvr_id w))
        \<and> pvr_risk_level w = risk_level_for_scopes (scopes_of d (pvr_id w))"
      using plugin_typedD(5) [OF T] v none by auto
    show "\<forall>c \<in> set (plugin_capabilities d). pcp_version_id c < m" using plugin_typedD(6) [OF T] id by fastforce
    show "distinct (map (\<lambda>w. (pvr_plugin_id w, pvr_version w)) (plugin_versions d @ [v]))"
      using T pair by (auto simp: plugin_typed_def)
  qed (use T new in \<open>simp_all add: plugin_typed_def\<close>)
  moreover have "version_kept caps d' w" if "version_kept caps d w" for w
    using that unfolding version_kept_def t k by auto
  ultimately show ?thesis using J unfolding plugin_hist_def by blast
qed

text \<open>A version that moves: one row, along the machine.\<close>

lemma version_moved_rows:
  assumes dist: "distinct (map pvr_id rows)" and path: "\<And>v. v \<in> set rows \<Longrightarrow> pvr_id v = i \<Longrightarrow> version_path v (f v)"
  shows "map pvr_id (upd_row pvr_id i f rows) = map pvr_id rows"
    and "map (\<lambda>v. (pvr_plugin_id v, pvr_version v)) (upd_row pvr_id i f rows)
      = map (\<lambda>v. (pvr_plugin_id v, pvr_version v)) rows"
    and "v \<in> set rows \<Longrightarrow> \<exists>w \<in> set (upd_row pvr_id i f rows). version_path v w"
proof -
  have fixed: "pvr_id (f v) = pvr_id v \<and> pvr_plugin_id (f v) = pvr_plugin_id v \<and> pvr_version (f v) = pvr_version v"
    if "v \<in> set rows" "pvr_id v = i" for v
    using version_path_fixed [OF path [OF that]] by simp
  show "map pvr_id (upd_row pvr_id i f rows) = map pvr_id rows"
    unfolding upd_row_def map_map by (rule map_cong) (auto simp: fixed)
  show "map (\<lambda>v. (pvr_plugin_id v, pvr_version v)) (upd_row pvr_id i f rows) = map (\<lambda>v. (pvr_plugin_id v, pvr_version v)) rows"
    unfolding upd_row_def map_map by (rule map_cong) (auto simp: fixed)
  show "\<exists>w \<in> set (upd_row pvr_id i f rows). version_path v w" if v: "v \<in> set rows"
  proof -
    have "(if pvr_id v = i then f v else v) \<in> set (upd_row pvr_id i f rows)" unfolding set_upd_row using v by blast
    moreover have "version_path v (if pvr_id v = i then f v else v)" using path [OF v] by simp
    ultimately show ?thesis by blast
  qed
qed

lemma plugin_hist_move:
  assumes J: "plugin_hist caps vs n d"
    and path: "\<And>v. v \<in> set (plugin_versions d) \<Longrightarrow> pvr_id v = i \<Longrightarrow> version_path v (f v)"
    and scopes: "\<And>k. k \<noteq> i \<Longrightarrow> capabilities_of d' k = capabilities_of d k"
    and risk: "\<And>v. v \<in> set (plugin_versions d) \<Longrightarrow> pvr_id v = i \<Longrightarrow> distinct (scopes_of d' i)
        \<and> pvr_risk_level (f v) = risk_level_for_scopes (scopes_of d' i)"
    and frozen: "\<And>v. v \<in> set (plugin_versions d) \<Longrightarrow> pvr_id v = i \<Longrightarrow> decided v \<Longrightarrow> capabilities_of d' i = capabilities_of d i"
    and fresh: "\<And>c. c \<in> set (plugin_capabilities d') \<Longrightarrow> pcp_version_id c < n"
    and d': "plugins d' = plugins d" "plugin_versions d' = upd_row pvr_id i f (plugin_versions d)"
  shows "plugin_hist caps vs n d'"
proof -
  have T: "plugin_typed n d" using J by (simp add: plugin_hist_def)
  note dist = plugin_typedD(3) [OF T]
  have m1: "map pvr_id (plugin_versions d') = map pvr_id (plugin_versions d)"
    unfolding d'(2) by (rule version_moved_rows(1) [OF dist]) (rule path)
  have m2: "map (\<lambda>v. (pvr_plugin_id v, pvr_version v)) (plugin_versions d')
      = map (\<lambda>v. (pvr_plugin_id v, pvr_version v)) (plugin_versions d)"
    unfolding d'(2) by (rule version_moved_rows(2) [OF dist]) (rule path)
  have m4: "\<exists>w \<in> set (plugin_versions d'). version_path v w" if "v \<in> set (plugin_versions d)" for v
    unfolding d'(2) by (rule version_moved_rows(3) [OF dist _ that]) (rule path)
  have sc: "scopes_of d' k = scopes_of d k" if "k \<noteq> i" for k
    using scopes [OF that] by (simp add: scopes_of_def capabilities_of_def)
  have std: "standard_plugins d' = standard_plugins d" by (simp add: standard_plugins_def d'(1))
  have rows: "pvr_id w < n \<and> pvr_plugin_id w < n \<and> version_typed w \<and> distinct (scopes_of d' (pvr_id w))
      \<and> pvr_risk_level w = risk_level_for_scopes (scopes_of d' (pvr_id w))" if w: "w \<in> set (plugin_versions d')" for w
  proof -
    from w obtain v where v: "v \<in> set (plugin_versions d)" "w = (if pvr_id v = i then f v else v)"
      unfolding d'(2) set_upd_row by blast
    have "version_path v w" using path [OF v(1)] v(2) by simp
    with version_path_fixed version_path_typed plugin_typedD(5) [OF T v(1)]
    have "pvr_id w = pvr_id v" "pvr_id w < n" "pvr_plugin_id w < n" "version_typed w" by metis+
    moreover have "distinct (scopes_of d' (pvr_id v)) \<and> pvr_risk_level w = risk_level_for_scopes (scopes_of d' (pvr_id v))"
      using plugin_typedD(5) [OF T v(1)] risk [OF v(1)] sc v(2) by (cases "pvr_id v = i") simp_all
    ultimately show ?thesis by simp
  qed
  have "plugin_typed n d'"
    unfolding plugin_typed_def d'(1) m1 m2 std
  proof (intro conjI)
    show "\<forall>w \<in> set (plugin_versions d'). pvr_id w < n" "\<forall>w \<in> set (plugin_versions d'). pvr_plugin_id w < n"
      "\<forall>w \<in> set (plugin_versions d'). version_typed w"
      "\<forall>w \<in> set (plugin_versions d'). distinct (scopes_of d' (pvr_id w))
        \<and> pvr_risk_level w = risk_level_for_scopes (scopes_of d' (pvr_id w))"
      using rows by blast+
    show "\<forall>c \<in> set (plugin_capabilities d'). pcp_version_id c < n" using fresh by blast
  qed (use T in \<open>simp_all add: plugin_typed_def\<close>)
  moreover have "version_kept caps d' v" if kept: "version_kept caps d v" for v
  proof -
    from kept obtain w where w: "w \<in> set (plugin_versions d)" "version_path v w" unfolding version_kept_def by blast
    from m4 [OF w(1)] obtain w' where w': "w' \<in> set (plugin_versions d')" "version_path w w'" by blast
    have "capabilities_of d' (pvr_id v) = caps (pvr_id v)" if dec: "decided v"
    proof -
      have "pvr_id w = pvr_id v" "decided w" using version_path_fixed version_path_decided w(2) dec by blast+
      then have "capabilities_of d' (pvr_id v) = capabilities_of d (pvr_id v)"
        using frozen [OF w(1)] scopes by (cases "pvr_id v = i") simp_all
      with kept dec show ?thesis unfolding version_kept_def by simp
    qed
    moreover have "version_path v w'" using w(2) w'(2) by (rule rtranclp_trans)
    ultimately show ?thesis using kept w'(1) unfolding version_kept_def d'(1) by blast
  qed
  ultimately show ?thesis using J unfolding plugin_hist_def by blast
qed

lemma plugin_hist_move_only:
  assumes J: "plugin_hist caps vs n d"
    and path: "\<And>v. v \<in> set (plugin_versions d) \<Longrightarrow> pvr_id v = i \<Longrightarrow> version_path v (f v)"
    and risk: "\<And>v. pvr_risk_level (f v) = pvr_risk_level v"
    and d': "plugin_tables d' = (plugins d, upd_row pvr_id i f (plugin_versions d), plugin_capabilities d)"
  shows "plugin_hist caps vs n d'"
proof -
  have t: "plugins d' = plugins d" "plugin_versions d' = upd_row pvr_id i f (plugin_versions d)"
    "plugin_capabilities d' = plugin_capabilities d"
    using d' by (simp_all add: plugin_tables_def)
  have k: "capabilities_of d' = capabilities_of d" "scopes_of d' = scopes_of d"
    by (simp_all add: capabilities_of_def scopes_of_def t fun_eq_iff)
  have T: "plugin_typed n d" using J by (simp add: plugin_hist_def)
  show ?thesis
    by (rule plugin_hist_move [OF J path]) (use plugin_typedD(5,6) [OF T] t k risk in auto)
qed

text \<open>A standard plugin that is deleted with its versions and their capabilities.\<close>

lemma plugin_hist_delete:
  assumes J: "plugin_hist caps vs n d" and i: "get_row plg_id i (plugins d) = Some p" "plg_owner_kind p = ''platform''"
    and d': "plugin_tables d' = (del_row plg_id i (plugins d), filter (\<lambda>v. pvr_plugin_id v \<noteq> i) (plugin_versions d),
        filter (\<lambda>c. pcp_version_id c \<notin> pvr_id ` set (filter (\<lambda>v. pvr_plugin_id v = i) (plugin_versions d))) (plugin_capabilities d))"
  shows "plugin_hist caps vs n d'"
proof -
  let ?gone = "pvr_id ` set (filter (\<lambda>v. pvr_plugin_id v = i) (plugin_versions d))"
  have t: "plugins d' = del_row plg_id i (plugins d)" "plugin_versions d' = filter (\<lambda>v. pvr_plugin_id v \<noteq> i) (plugin_versions d)"
    "plugin_capabilities d' = filter (\<lambda>c. pcp_version_id c \<notin> ?gone) (plugin_capabilities d)"
    using d' by (simp_all add: plugin_tables_def)
  have T: "plugin_typed n d" using J by (simp add: plugin_hist_def)
  have stays: "pvr_id v \<notin> ?gone" if "v \<in> set (plugin_versions d)" "pvr_plugin_id v \<noteq> i" for v
    using that plugin_typedD(3) [OF T] by (auto simp: distinct_map inj_on_def)
  have k: "capabilities_of d' j = capabilities_of d j" if "j \<notin> ?gone" for j
    using that unfolding capabilities_of_def t filter_filter by (intro filter_cong) auto
  have sc: "scopes_of d' j = scopes_of d j" if "j \<notin> ?gone" for j
    using k [OF that] by (simp add: scopes_of_def capabilities_of_def)
  have sub: "set (plugins d') \<subseteq> set (plugins d)" by (auto simp: t)
  have "standard_plugins d' = filter (\<lambda>q. plg_id q \<noteq> i) (standard_plugins d)"
    by (simp add: standard_plugins_def t del_row_def conj_commute)
  then have "distinct (map plg_category (standard_plugins d'))"
    using T by (simp add: plugin_typed_def distinct_map_filter)
  moreover have "distinct (map plg_id (plugins d'))" "distinct (map plg_slug (plugins d'))"
    using T by (simp_all add: t del_row_def plugin_typed_def distinct_map_filter)
  ultimately have "plugin_typed n d'"
    unfolding plugin_typed_def
  proof (intro conjI)
    show "distinct (map pvr_id (plugin_versions d'))"
      "distinct (map (\<lambda>v. (pvr_plugin_id v, pvr_version v)) (plugin_versions d'))"
      using T by (simp_all add: t plugin_typed_def distinct_map_filter)
    show "\<forall>q \<in> set (plugins d'). plg_id q < n" "\<forall>q \<in> set (plugins d'). is_slug (plg_slug q)"
      using sub plugin_typedD(4) [OF T] by blast+
    show "\<forall>w \<in> set (plugin_versions d'). pvr_id w < n" "\<forall>w \<in> set (plugin_versions d'). pvr_plugin_id w < n"
      "\<forall>w \<in> set (plugin_versions d'). version_typed w"
      using plugin_typedD(5) [OF T] by (simp_all add: t)
    show "\<forall>c \<in> set (plugin_capabilities d'). pcp_version_id c < n"
      using plugin_typedD(6) [OF T] by (simp add: t)
    show "\<forall>w \<in> set (plugin_versions d'). distinct (scopes_of d' (pvr_id w))
        \<and> pvr_risk_level w = risk_level_for_scopes (scopes_of d' (pvr_id w))"
    proof
      fix w assume "w \<in> set (plugin_versions d')"
      then have w: "w \<in> set (plugin_versions d)" "pvr_plugin_id w \<noteq> i" by (simp_all add: t)
      show "distinct (scopes_of d' (pvr_id w)) \<and> pvr_risk_level w = risk_level_for_scopes (scopes_of d' (pvr_id w))"
        using plugin_typedD(5) [OF T w(1)] unfolding sc [OF stays [OF w]] by blast
    qed
  qed
  moreover have "version_kept caps d' v" if kept: "version_kept caps d v" for v
  proof -
    from kept obtain w q where w: "w \<in> set (plugin_versions d)" "version_path v w"
      and q: "q \<in> set (plugins d)" "plg_id q = pvr_plugin_id v" "plg_owner_kind q = ''vendor''"
      unfolding version_kept_def by blast
    have "q \<noteq> p" using q(3) i(2) by auto
    moreover have "p \<in> set (plugins d)" "plg_id p = i" using get_row_Some [OF i(1)] by simp_all
    ultimately have "pvr_plugin_id v \<noteq> i"
      using q(1,2) plugin_typedD(1) [OF T] by (auto simp: distinct_map inj_on_def)
    moreover have f: "pvr_plugin_id w = pvr_plugin_id v" "pvr_id w = pvr_id v" using version_path_fixed [OF w(2)] by simp_all
    ultimately have "w \<in> set (plugin_versions d')" "q \<in> set (plugins d')" "pvr_id v \<notin> ?gone"
      using w(1) q stays [OF w(1)] by (simp_all add: t)
    with kept w(2) q k show ?thesis unfolding version_kept_def by metis
  qed
  ultimately show ?thesis using J unfolding plugin_hist_def by blast
qed

end
