(* ===== verification/Plugin_Rules.thy ===== *)
theory Plugin_Rules
  imports Plugin_Types
begin

section \<open>The plugin requests\<close>

text \<open>
  What every writing request of \<open>PluginService\<close> has checked and changed when it returned, that it changed
  nothing when it raised, and that it keeps the types and the history of the plugin tables.
\<close>

subsection \<open>Frames\<close>

lemma reads_only_plugin [reads_only_intros]:
  "reads_only (find_version i)" "reads_only (find_plugin i)" "reads_only (verified_vendor v u)"
  "reads_only (slug_taken s)" "reads_only (require_claim r u)" "reads_only (require_standard_plugin i u)"
  "reads_only (list_vendor_standard_plugins v u q c)" "reads_only (vendor_view_of v u i)"
  "reads_only (list_standard_plugins u)" "reads_only (operator_view_of u i)"
  by (auto simp: find_version_def find_plugin_def verified_vendor_def slug_taken_def require_claim_def
      require_standard_plugin_def list_vendor_standard_plugins_def vendor_view_of_def
      list_standard_plugins_def operator_view_of_def intro!: reads_only_intros)

lemma reads_only_scopes [reads_only_intros]: "reads_only (collect_scopes acc cs)"
  by (induction acc cs rule: collect_scopes.induct) (auto simp: Let_def intro!: reads_only_intros)

lemmas step_ok_plugin [step_ok] =
  step_ok_reads_only [OF reads_only_plugin(1)] step_ok_reads_only [OF reads_only_plugin(2)]
  step_ok_reads_only [OF reads_only_plugin(3)] step_ok_reads_only [OF reads_only_plugin(4)]
  step_ok_reads_only [OF reads_only_plugin(5)] step_ok_reads_only [OF reads_only_plugin(6)]
  step_ok_reads_only [OF reads_only_plugin(7)] step_ok_reads_only [OF reads_only_plugin(8)]
  step_ok_reads_only [OF reads_only_plugin(9)] step_ok_reads_only [OF reads_only_plugin(10)]
  step_ok_reads_only [OF reads_only_scopes]

lemma keeps_disk_inserts [keeps_intros]:
  "keeps (disk_but_log d) (insert_each U mk xs)" "keeps (disk_but_log d) (insert_vendor_plugin v u n s c t)"
  "keeps (disk_but_log d) (update_plugin i f)" "keeps (disk_but_log d) (update_version i g)"
  "keeps (disk_but_log d) (delete_versions vs)"
  unfolding insert_vendor_plugin_def update_plugin_def update_version_def delete_versions_def
  by (rule keeps_intros)+

lemma keeps_disk_bundle [keeps_intros]: "keeps (disk_but_log d) (bundle_plugin v u n c t i s)"
  unfolding bundle_plugin_def Let_def by (rule keeps_intros)+

lemma atomic_insert_version: "atomic_but_log (insert_version p u v a c s)"
  unfolding insert_version_def by (rule atomic_but_log_intros keeps_intros)+

lemma atomic_then_ret: "atomic_but_log m \<Longrightarrow> atomic_but_log (bindE m (\<lambda>x. ret (g x)))"
  by (auto simp: atomic_but_log_def err_iff)

lemma plugin_atomic:
  "atomic_but_log (register_plugin v u n s c t)"
  "atomic_but_log (submit_version i u ver a c b)"
  "atomic_but_log (submit_plugin_bundle v u n ver c t a b pid sl)"
  "atomic_but_log (declare_capabilities i u caps)"
  "atomic_but_log (claim_version i u)"
  "atomic_but_log (request_changes i u txt)"
  "atomic_but_log (decide_version i u dec txt2)"
  "atomic_but_log (create_standard_plugin u n s c t ver a cl reqs pub)"
  "atomic_but_log (delete_standard_plugin i u)"
  unfolding register_plugin_def submit_version_def submit_plugin_bundle_def declare_capabilities_def
    claim_version_def request_changes_def decide_version_def create_standard_plugin_def delete_standard_plugin_def
    Let_def
  by (rule atomic_then_ret atomic_insert_version atomic_but_log_intros keeps_intros reads_only_keeps reads_only_checks
      reads_only_plugin reads_only_scopes)+

lemma keeps_uuid_inserts [keeps_intros]:
  "keeps (uuid_ge k) (insert_each U mk xs)" "keeps (uuid_ge k) (insert_vendor_plugin v u n s c t)"
  "keeps (uuid_ge k) (update_plugin i f)" "keeps (uuid_ge k) (update_version i g)"
  "keeps (uuid_ge k) (delete_versions vs)" "keeps (uuid_ge k) (insert_version p u w a b e)"
  unfolding insert_vendor_plugin_def update_plugin_def update_version_def delete_versions_def insert_version_def
  by (rule keeps_intros)+

lemma keeps_uuid_bundle [keeps_intros]: "keeps (uuid_ge k) (bundle_plugin v u n c t i s)"
  unfolding bundle_plugin_def Let_def by (rule keeps_intros)+

lemma plugin_uuid:
  "keeps (uuid_ge k) (register_plugin v u n s c t)"
  "keeps (uuid_ge k) (submit_version i u ver a c b)"
  "keeps (uuid_ge k) (submit_plugin_bundle v u n ver c t a b pid sl)"
  "keeps (uuid_ge k) (declare_capabilities i u caps)"
  "keeps (uuid_ge k) (claim_version i u)"
  "keeps (uuid_ge k) (request_changes i u txt)"
  "keeps (uuid_ge k) (decide_version i u dec txt2)"
  "keeps (uuid_ge k) (create_standard_plugin u n s c t ver a cl reqs pub)"
  "keeps (uuid_ge k) (delete_standard_plugin i u)"
  "keeps (uuid_ge k) (update_standard_plugin i u nm sd reqs2)"
  "keeps (uuid_ge k) (set_standard_plugin_status i u st)"
  "keeps (uuid_ge k) (activate_standard_plugin v u i)"
  "keeps (uuid_ge k) (deactivate_standard_plugin v u i)"
  unfolding register_plugin_def submit_version_def submit_plugin_bundle_def declare_capabilities_def
    claim_version_def request_changes_def decide_version_def create_standard_plugin_def delete_standard_plugin_def
    update_standard_plugin_def set_standard_plugin_status_def activate_standard_plugin_def
    deactivate_standard_plugin_def Let_def
  by (rule keeps_intros reads_only_keeps reads_only_checks reads_only_plugin reads_only_scopes)+

subsection \<open>Requests that returned\<close>

lemma find_okD:
  "find_version i w = (Inr v, w') \<Longrightarrow> get_row pvr_id i (plugin_versions (db w)) = Some v"
  "find_plugin j w = (Inr p, w') \<Longrightarrow> get_row plg_id j (plugins (db w)) = Some p"
  by (auto simp: find_version_def find_plugin_def ok_iff)

lemma insert_vendor_plugin_okD:
  assumes "insert_vendor_plugin v u n s c t w = (Inr i, w')"
  shows "\<exists>log. i = next_uuid w \<and> w' = w\<lparr>next_uuid := Suc (Suc (next_uuid w)),
     db := (plugins_update (\<lambda>rows. rows @ [new_plugin (next_uuid w) (clock w) (Some v) ''vendor'' n s c t ''draft'' []])
       (db w))\<lparr>audit_log := log\<rparr>\<rparr>"
  using assms unfolding insert_vendor_plugin_def by (auto simp: step_ok)

lemma insert_version_okD:
  assumes "insert_version p u ver a c b w = (Inr i, w')"
  shows "\<exists>log out. (\<forall>v \<in> set (plugin_versions (db w)). \<not> (pvr_plugin_id v = p \<and> pvr_version v = ver))
     \<and> i = next_uuid w \<and> i < next_uuid w' \<and> disk w' = db w'
     \<and> db w' = (outbox_events_update out (plugin_versions_update (\<lambda>rows. rows @ [new_version i (clock w) p ver a c b])
         (db w)))\<lparr>audit_log := log\<rparr>"
  using assms unfolding insert_version_def
  apply (simp only: step_ok)
  apply (elim exE conjE)
  apply (rule exI, rule exI, rule conjI)
   apply (auto simp: filter_empty_conv split: option.splits)[1]
  apply (rule conjI, simp, rule conjI, simp, rule conjI, simp)
  apply simp
  done

lemma slug_taken_okD:
  assumes "slug_taken s w = (Inr b, w')"
  shows "b \<longleftrightarrow> s \<in> plg_slug ` set (plugins (db w))"
proof -
  let ?rows = "filter (\<lambda>p. plg_slug p = s) (plugins (db w))"
  have "?rows = [] \<longleftrightarrow> s \<notin> plg_slug ` set (plugins (db w))" by (auto simp: filter_empty_conv)
  moreover have "b \<longleftrightarrow> ?rows \<noteq> []" using assms unfolding slug_taken_def
    by (simp only: step_ok) (auto split: option.splits)
  ultimately show ?thesis by simp
qed

lemma register_plugin_okD:
  assumes "register_plugin v u n s c t w = (Inr x, w')"
  shows "\<exists>log. is_slug (lower (strip s)) \<and> lower (strip s) \<notin> plg_slug ` set (plugins (db w))
     \<and> db w' = (plugins_update (\<lambda>rows. rows @ [new_plugin (next_uuid w) (clock w) (Some v) ''vendor'' (strip n)
          (lower (strip s)) (strip c) (strip t) ''draft'' []]) (db w))\<lparr>audit_log := log\<rparr>
     \<and> disk w' = db w' \<and> next_uuid w < next_uuid w'"
  using assms unfolding register_plugin_def Let_def
  apply (simp only: step_ok step_ok_bind [of "insert_vendor_plugin v u _ _ _ _"])
  apply (elim exE conjE)
  apply (drule slug_taken_okD, drule insert_vendor_plugin_okD)
  apply (elim exE conjE)
  apply (rule exI, rule conjI, simp, rule conjI, simp)
  apply simp
  done

lemma submit_version_okD:
  assumes "submit_version i u ver a c b w = (Inr x, w')"
  shows "\<exists>p log out. get_row plg_id i (plugins (db w)) = Some p
     \<and> (\<forall>v \<in> set (plugin_versions (db w)). \<not> (pvr_plugin_id v = i \<and> pvr_version v = strip ver))
     \<and> next_uuid w < next_uuid w' \<and> disk w' = db w'
     \<and> db w' = (outbox_events_update out (plugin_versions_update (\<lambda>rows. rows @
         [new_version (next_uuid w) (clock w) i (strip ver) (strip a) (strip c) (strip b)]) (db w)))\<lparr>audit_log := log\<rparr>"
  using assms unfolding submit_version_def Let_def
  apply (simp only: step_ok step_ok_bind [of "insert_version _ _ _ _ _ _"])
  apply (elim exE conjE)
  apply (drule insert_version_okD, drule find_okD(2))
  apply (elim exE conjE)
  apply (rule exI, rule exI, rule exI, rule conjI, assumption, rule conjI, assumption, rule conjI, simp, rule conjI, simp)
  apply simp
  done

lemma claim_version_okD:
  assumes "claim_version i u w = (Inr x, w')"
  shows "\<exists>v log. get_row pvr_id i (plugin_versions (db w)) = Some v \<and> awaits_review v
     \<and> pvr_claimed_by v \<in> {None, Some u}
     \<and> db w' = (plugin_versions_update (upd_row pvr_id i (\<lambda>v. v\<lparr>pvr_claimed_by := Some u, pvr_claimed_at := Some (clock w)\<rparr>))
          (db w))\<lparr>audit_log := log\<rparr>
     \<and> disk w' = db w' \<and> next_uuid w \<le> next_uuid w'"
  using assms unfolding claim_version_def update_version_def
  apply (simp only: step_ok)
  apply (elim exE conjE)
  apply (drule find_okD(1))
  apply (rule exI, rule exI, rule conjI, assumption, rule conjI, simp, rule conjI, blast)
  apply simp
  done

lemma request_changes_okD:
  assumes "request_changes i u txt w = (Inr x, w')"
  shows "\<exists>v log. get_row pvr_id i (plugin_versions (db w)) = Some v \<and> pvr_status v = ''pending_review''
     \<and> pvr_claimed_by v \<in> {None, Some u}
     \<and> db w' = (plugin_versions_update (upd_row pvr_id i (\<lambda>v. v\<lparr>pvr_status := ''changes_requested'', pvr_review_notes := strip txt\<rparr>))
          (db w))\<lparr>audit_log := log\<rparr>
     \<and> disk w' = db w' \<and> next_uuid w \<le> next_uuid w'"
  using assms unfolding request_changes_def require_claim_def update_version_def Let_def
  apply (simp only: step_ok)
  apply (elim exE conjE)
  apply (drule find_okD(1))
  apply (rule exI, rule exI, rule conjI, assumption, rule conjI, simp, rule conjI, blast)
  apply simp
  done

lemma decide_version_okD:
  assumes "decide_version i u dec txt w = (Inr x, w')"
  shows "\<exists>v p log. get_row pvr_id i (plugin_versions (db w)) = Some v \<and> awaits_review v
     \<and> pvr_claimed_by v \<in> {None, Some u} \<and> dec \<in> {''approved'', ''rejected''}
     \<and> get_row plg_id (pvr_plugin_id v) (plugins (db w)) = Some p
     \<and> db w' = (plugins_update (if dec = ''approved'' \<and> plg_status p = ''draft''
             then upd_row plg_id (plg_id p) (touched_plugin (clock w) (\<lambda>p. p\<lparr>plg_status := ''active''\<rparr>)) else (\<lambda>rows. rows))
         (plugin_versions_update (upd_row pvr_id i (\<lambda>v. v\<lparr>pvr_status := dec, pvr_decided_by := Some u,
              pvr_decided_at := Some (clock w), pvr_review_notes := strip (str_or txt [])\<rparr>))
          (db w)))\<lparr>audit_log := log\<rparr>
     \<and> disk w' = db w' \<and> next_uuid w \<le> next_uuid w'"
proof -
  have same: "plugins_update (\<lambda>rows. rows) d = d" for d :: database by (cases d) simp
  have cond: "bindE (if b then update_plugin j g else ret ()) f w1 = (Inr y, w2)
     \<longleftrightarrow> f () (w1\<lparr>db := plugins_update (if b then upd_row plg_id j (touched_plugin (clock w1) g) else (\<lambda>rows. rows)) (db w1)\<rparr>)
        = (Inr y, w2)" for b j g f w1 w2 and y :: decision_result
    by (simp add: update_plugin_def bindE_run utcnow_run modifies_run ret_run same)
  show ?thesis
    using assms unfolding decide_version_def require_claim_def update_version_def
    apply (simp only: step_ok cond)
    apply (elim exE conjE)
    apply (drule find_okD(1), drule find_okD(2))
    apply (rule exI, rule exI, rule exI, rule conjI, assumption, rule conjI, simp, rule conjI, blast, rule conjI, simp)
    apply (rule conjI, assumption)
    apply (simp cong: if_cong)
    done
qed

lemma bundle_plugin_okD:
  assumes "bundle_plugin v u n c t pid sl w = (Inr y, w')"
  shows "disk w' = disk w \<and> clock w' = clock w \<and> (\<exists>log f. next_uuid w \<le> next_uuid w'
      \<and> db w' = (plugins_update f (db w))\<lparr>audit_log := log\<rparr>
      \<and> (case pid of
           None \<Rightarrow> f (plugins (db w)) = plugins (db w) @ [new_plugin (next_uuid w) (clock w) (Some v) ''vendor'' n
               (free_slug (map plg_slug (plugins (db w))) (derived_slug (str_or sl n)) 0) c (strip t) ''draft'' []]
             \<and> next_uuid w < next_uuid w' \<and> fst y = next_uuid w \<and> derived_slug (str_or sl n) \<noteq> []
             \<and> snd y = free_slug (map plg_slug (plugins (db w))) (derived_slug (str_or sl n)) 0
         | Some i \<Rightarrow> (\<exists>p g. get_row plg_id i (plugins (db w)) = Some p \<and> plg_owner_kind p = ''vendor''
             \<and> f (plugins (db w)) = upd_row plg_id i g (plugins (db w)) \<and> fst y = i
             \<and> (\<forall>p. plg_id (g p) = plg_id p \<and> plg_slug (g p) = plg_slug p \<and> plg_owner_kind (g p) = plg_owner_kind p))))"
proof (cases pid)
  case None
  from assms [unfolded bundle_plugin_def None option.case Let_def] obtain i where
    b: "derived_slug (str_or sl n) \<noteq> []" and y: "y = (i, free_slug (map plg_slug (plugins (db w))) (derived_slug (str_or sl n)) 0)"
    and ins: "insert_vendor_plugin v u n (free_slug (map plg_slug (plugins (db w))) (derived_slug (str_or sl n)) 0) c (strip t) w = (Inr i, w')"
    by (simp only: step_ok step_ok_bind [of "insert_vendor_plugin v u _ _ _ _"]) blast
  from insert_vendor_plugin_okD [OF ins] b y None show ?thesis by fastforce
next
  case (Some i)
  let ?g = "touched_plugin (clock w) (\<lambda>p. p\<lparr>plg_short_description :=
      (if strip t \<noteq> [] then strip t else plg_short_description p), plg_category := c\<rparr>)"
  from assms [unfolded bundle_plugin_def Some option.case Let_def update_plugin_def] obtain p where
    p: "get_row plg_id i (plugins (db w)) = Some p" "plg_owner_kind p = ''vendor''"
    and y: "y = (i, plg_slug p)" and w': "w' = w\<lparr>db := plugins_update (upd_row plg_id i ?g) (db w)\<rparr>"
    by (simp only: step_ok) (auto split: option.splits if_splits)
  have log: "db w' = (plugins_update (upd_row plg_id i ?g) (db w))\<lparr>audit_log := audit_log (db w)\<rparr>"
    by (simp add: w')
  have g: "plg_id (?g q) = plg_id q \<and> plg_slug (?g q) = plg_slug q \<and> plg_owner_kind (?g q) = plg_owner_kind q" for q
    by (simp add: touched_plugin_def)
  show ?thesis
    unfolding Some option.case
    by (intro conjI exI [of _ "audit_log (db w)"] exI [of _ "upd_row plg_id i ?g"] exI [of _ p] exI [of _ ?g] allI)
       (use p y g in \<open>simp_all add: w'\<close>)
qed

lemma collect_scopes_okD:
  assumes "collect_scopes acc cs w = (Inr scopes, w')" and "distinct acc"
  shows "scopes = acc @ map (\<lambda>c. strip (fst c)) cs \<and> distinct scopes"
  using assms
proof (induction acc cs arbitrary: w rule: collect_scopes.induct)
  case (2 acc scope j rest)
  from 2(2) have "strip scope \<notin> set acc" and rest: "collect_scopes (acc @ [strip scope]) rest w = (Inr scopes, w')"
    by (simp_all add: Let_def step_ok)
  with 2(3) have "distinct (acc @ [strip scope])" by simp
  from 2(1) [OF refl rest this] show ?case
    by (elim conjE) (simp only: list.map fst_conv append_assoc append_Cons append_Nil)
qed (simp add: ok_iff)

lemma step_ok_insert_capabilities:
  "bindE (insert_each plugin_capabilities_update mk cs) f w = (Inr y, w')
    \<longleftrightarrow> f () (w\<lparr>next_uuid := next_uuid w + length cs,
         db := plugin_capabilities_update (\<lambda>rows. rows @ inserted_rows mk (next_uuid w) cs) (db w)\<rparr>) = (Inr y, w')"
proof -
  have "insert_each plugin_capabilities_update mk cs w = (Inr (), w\<lparr>next_uuid := next_uuid w + length cs,
         db := plugin_capabilities_update (\<lambda>rows. rows @ inserted_rows mk (next_uuid w) cs) (db w)\<rparr>)"
  proof (rule insert_each_run)
    fix f g and d :: database
    show "plugin_capabilities_update f (plugin_capabilities_update g d) = plugin_capabilities_update (\<lambda>rows. f (g rows)) d"
      by (cases d) simp
  next
    fix d :: database
    show "plugin_capabilities_update (\<lambda>rows. rows) d = d" by (cases d) simp
  qed
  then show ?thesis by (simp add: bindE_run)
qed

lemma declare_capabilities_okD:
  assumes "declare_capabilities i u cs w = (Inr x, w')"
  shows "\<exists>v log. get_row pvr_id i (plugin_versions (db w)) = Some v \<and> \<not> decided v
     \<and> distinct (map (\<lambda>c. strip (fst c)) cs)
     \<and> db w' = (plugin_versions_update (upd_row pvr_id i (\<lambda>v. v\<lparr>pvr_risk_level := risk_level_for_scopes (map (\<lambda>c. strip (fst c)) cs)\<rparr>))
         (plugin_capabilities_update (\<lambda>rows. filter (\<lambda>c. pcp_version_id c \<noteq> i) rows @ inserted_rows (new_capability i) (next_uuid w) cs)
          (db w)))\<lparr>audit_log := log\<rparr>
     \<and> disk w' = db w' \<and> next_uuid w \<le> next_uuid w'"
  using assms unfolding declare_capabilities_def update_version_def
  apply (simp only: step_ok step_ok_insert_capabilities)
  apply (elim exE conjE)
  apply (drule find_okD(1), drule find_okD(2))
  apply (drule collect_scopes_okD, simp)
  apply (rule exI, rule exI, rule conjI, assumption, rule conjI, simp add: decided_def, rule conjI, simp)
  apply (simp add: comp_def)
  done

lemma nothing_found:
  "(case z of None \<Rightarrow> filter P xs = [] | Some y \<Rightarrow> filter P xs = [y]) \<Longrightarrow> \<not> z \<noteq> None \<Longrightarrow> \<forall>x \<in> set xs. \<not> P x"
  by (simp add: filter_empty_conv)

lemma create_standard_okD:
  assumes "create_standard_plugin u n s c t ver a cl reqs pub w = (Inr x, w')"
  shows "\<exists>p v log. plg_id p = next_uuid w \<and> pvr_id v = Suc (next_uuid w) \<and> pvr_plugin_id v = next_uuid w
     \<and> plg_owner_kind p = ''platform'' \<and> is_slug (plg_slug p) \<and> plg_slug p \<notin> plg_slug ` set (plugins (db w))
     \<and> plg_category p \<notin> plg_category ` set (standard_plugins (db w)) \<and> plg_category p \<in> set standard_plugin_categories
     \<and> version_typed v \<and> pvr_risk_level v = ''low''
     \<and> db w' = (plugin_versions_update (\<lambda>rows. rows @ [v]) (plugins_update (\<lambda>rows. rows @ [p]) (db w)))\<lparr>audit_log := log\<rparr>
     \<and> disk w' = db w' \<and> Suc (next_uuid w) < next_uuid w'"
  using assms unfolding create_standard_plugin_def Let_def
  apply (simp only: step_ok)
  apply (elim exE conjE)
  apply (drule slug_taken_okD)
  apply (drule nothing_found, assumption)
  apply (rule exI [of _ "new_plugin (next_uuid w) (clock w) None ''platform'' (strip n) (lower (strip s)) (strip c) (strip t)
      (if pub then ''active'' else ''draft'') (case reqs of None \<Rightarrow> [] | Some r \<Rightarrow> r)"])
  apply (rule exI [of _ "(new_version (Suc (next_uuid w)) (clock w) (next_uuid w) (strip ver) (strip a) (strip cl) ''platform://standard-plugin'')
           \<lparr>pvr_status := ''approved'', pvr_scan_status := ''passed'', pvr_decided_by := Some u,
            pvr_decided_at := Some (clock w), pvr_review_notes := ''platform standard plugin''\<rparr>"])
  apply (rule exI)
  apply (rule conjI, simp add: new_plugin_def, rule conjI, simp add: new_version_def, rule conjI, simp add: new_version_def)
  apply (rule conjI, simp add: new_plugin_def, rule conjI, simp add: new_plugin_def, rule conjI, simp add: new_plugin_def)
  apply (rule conjI, force simp: new_plugin_def standard_plugins_def)
  apply (rule conjI, simp add: new_plugin_def, rule conjI, simp add: version_typed_def decided_def new_version_def)
  apply (rule conjI, simp add: new_version_def)
  apply simp
  done

lemma delete_versions_run:
  "delete_versions vs w = (Inr (), w\<lparr>db := plugin_versions_update (filter (\<lambda>v. pvr_id v \<notin> pvr_id ` set vs))
     (plugin_capabilities_update (filter (\<lambda>c. pcp_version_id c \<notin> pvr_id ` set vs)) (db w))\<rparr>)"
proof (induction vs arbitrary: w)
  case Nil
  then show ?case by (cases w, cases "db w") (simp add: delete_versions_def ret_run)
next
  case (Cons v vs)
  let ?w = "w\<lparr>db := plugin_versions_update (del_row pvr_id (pvr_id v))
     (plugin_capabilities_update (filter (\<lambda>c. pcp_version_id c \<noteq> pvr_id v)) (db w))\<rparr>"
  have "delete_versions (v # vs) w = delete_versions vs ?w"
    by (simp add: delete_versions_def bindE_run modifies_run)
  also have "\<dots> = (Inr (), w\<lparr>db := plugin_versions_update (filter (\<lambda>x. pvr_id x \<notin> pvr_id ` set (v # vs)))
     (plugin_capabilities_update (filter (\<lambda>c. pcp_version_id c \<notin> pvr_id ` set (v # vs))) (db w))\<rparr>)"
    unfolding Cons by (simp add: del_row_def comp_def conj_commute)
  finally show ?case .
qed

lemma delete_standard_okD:
  assumes "delete_standard_plugin i u w = (Inr x, w')"
  shows "\<exists>p log. get_row plg_id i (plugins (db w)) = Some p \<and> plg_owner_kind p = ''platform''
     \<and> (\<forall>a \<in> set (vendor_plugin_activations (db w)). act_plugin_id a \<noteq> i)
     \<and> db w' = (plugins_update (del_row plg_id i)
         (plugin_versions_update (filter (\<lambda>v. pvr_id v \<notin> pvr_id ` set (filter (\<lambda>v. pvr_plugin_id v = i) (plugin_versions (db w)))))
         (plugin_capabilities_update (filter (\<lambda>c. pcp_version_id c \<notin> pvr_id ` set (filter (\<lambda>v. pvr_plugin_id v = i) (plugin_versions (db w)))))
         (db w))))\<lparr>audit_log := log\<rparr>
     \<and> disk w' = db w' \<and> next_uuid w \<le> next_uuid w'"
proof -
  have step: "bindE (delete_versions vs) f w1 = (Inr y, w2)
    \<longleftrightarrow> f () (w1\<lparr>db := plugin_versions_update (filter (\<lambda>v. pvr_id v \<notin> pvr_id ` set vs))
     (plugin_capabilities_update (filter (\<lambda>c. pcp_version_id c \<notin> pvr_id ` set vs)) (db w1))\<rparr>) = (Inr y, w2)"
    for vs f w1 w2 and y :: unit
    by (simp add: bindE_run delete_versions_run)
  have commit: "commit w1 = (Inr y, w2) \<longleftrightarrow> w2 = w1\<lparr>disk := db w1\<rparr>" for w1 w2 y by (auto simp: commit_run)
  from assms obtain p where p: "get_row plg_id i (plugins (db w)) = Some p" "plg_owner_kind p = ''platform''"
    and run: "require_standard_plugin i u w = (Inr p, w)"
    unfolding delete_standard_plugin_def require_standard_plugin_def
    by (simp only: step_ok bindE_assoc) (auto simp: ok_iff split: option.splits if_splits)
  have "plg_id p = i" using get_row_Some [OF p(1)] by simp
  with assms p show ?thesis unfolding delete_standard_plugin_def step_run_bind [where m = "require_standard_plugin i u", OF run]
    apply (simp only: step_ok step commit)
    apply (elim exE conjE)
    apply (rule exI [of _ p], rule exI, rule conjI, simp, rule conjI, simp, rule conjI)
     apply (simp add: list_ex_iff)
    apply simp
    done
qed

end
