(* ===== verification/Plugin_Slugs.thy ===== *)
theory Plugin_Slugs
  imports Plugin_Service
begin

section \<open>Slugs\<close>

text \<open>
  The slug derived from a name matches the pattern the service asks for, and the search for a free one ends
  with the first candidate that is not taken, which matches it too.
\<close>

text \<open>A slug that may still end with a hyphen.\<close>

fun loose :: "bool \<Rightarrow> string \<Rightarrow> bool" where
  "loose in_word [] = True"
| "loose in_word (c # cs) =
     (if slug_char c then loose True cs else c = CHR ''-'' \<and> in_word \<and> loose False cs)"

lemma hyphen_no_char [simp]: "\<not> slug_char (CHR ''-'')"
  by (simp add: slug_char_def is_digit_def Let_def)

lemma slug_from_loose:
  "slug_from b s \<longleftrightarrow> loose b s \<and> (if s = [] then b else last s \<noteq> CHR ''-'')"
  by (induction b s rule: slug_from.induct) auto

lemma loose_prefix: "loose b (s @ t) \<Longrightarrow> loose b s"
  by (induction b s rule: loose.induct) (auto split: if_splits)

lemma loose_dash_runs: "loose (\<not> r) (dash_runs r s)"
  by (induction r s rule: dash_runs.induct) auto

lemma loose_no_leading:
  assumes "loose False s"
  shows "dropWhile (\<lambda>c. c = CHR ''-'') s = s"
proof (cases s)
  case (Cons c cs)
  with assms have "slug_char c" by (metis loose.simps(2))
  then have "c \<noteq> CHR ''-''" using hyphen_no_char by blast
  with Cons show ?thesis by simp
qed simp

lemma loose_leading:
  assumes "loose True s"
  shows "loose False (dropWhile (\<lambda>c. c = CHR ''-'') s)"
proof (cases s)
  case (Cons c cs)
  show ?thesis
  proof (cases "c = CHR ''-''")
    case True
    with assms Cons have "loose False cs" by simp
    with loose_no_leading True Cons show ?thesis by simp
  next
    case False
    with assms have "slug_char c" unfolding Cons by (metis loose.simps(2))
    with assms False show ?thesis unfolding Cons by simp
  qed
qed simp

lemma derived_slug_is_slug:
  assumes "derived_slug s \<noteq> []"
  shows "is_slug (derived_slug s)"
proof -
  let ?u = "dropWhile (\<lambda>c. c = CHR ''-'') (dash_runs False (lower (strip s)))"
  have d: "derived_slug s = rev (dropWhile (\<lambda>c. c = CHR ''-'') (rev ?u))"
    by (simp add: derived_slug_def strip_char_def)
  have "loose True (dash_runs False (lower (strip s)))" using loose_dash_runs [of False "lower (strip s)"] by simp
  then have u: "loose False ?u" by (rule loose_leading)
  have "?u = derived_slug s @ rev (takeWhile (\<lambda>c. c = CHR ''-'') (rev ?u))"
    unfolding d rev_append [symmetric] takeWhile_dropWhile_id rev_rev_ident by (rule refl)
  with u have "loose False (derived_slug s)" by (metis loose_prefix)
  moreover have "dropWhile (\<lambda>c. c = CHR ''-'') (rev ?u) \<noteq> []" using assms by (simp add: d)
  then have "hd (dropWhile (\<lambda>c. c = CHR ''-'') (rev ?u)) \<noteq> CHR ''-''" by (rule hd_dropWhile)
  then have "last (derived_slug s) \<noteq> CHR ''-''" by (simp add: d last_rev)
  ultimately show ?thesis using assms by (simp add: is_slug_def slug_from_loose)
qed

lemma slug_from_append: "slug_from b s \<Longrightarrow> slug_from b (s @ t) = slug_from True t"
  by (induction b s rule: slug_from.induct) (auto split: if_splits)

lemma slug_from_word: "list_all slug_char s \<Longrightarrow> slug_from b s = (b \<or> s \<noteq> [])"
  by (induction s arbitrary: b) auto

lemma nat_str_word: "list_all slug_char (nat_str n) \<and> nat_str n \<noteq> []"
proof (induction n rule: nat_str.induct)
  case (1 n)
  have digit: "slug_char (digit_char m)" if "m < 10" for m
    using that by (simp add: slug_char_def is_digit_def digit_char_value)
  show ?case using 1 digit [of "n mod 10"] digit [of n] by (cases "n < 10") (simp_all add: nat_str.simps [of n])
qed

lemma candidate_is_slug:
  assumes "is_slug base"
  shows "is_slug (slug_candidate base k)"
  using assms nat_str_word [of k] slug_from_word [of "nat_str k" False]
  by (simp add: slug_candidate_def is_slug_def slug_from_append)

text \<open>The search returns the first free candidate.\<close>

lemma free_slug_first:
  "\<exists>k \<ge> j. free_slug taken base j = slug_candidate base k \<and> slug_candidate base k \<notin> set taken
     \<and> (\<forall>i. j \<le> i \<and> i < k \<longrightarrow> slug_candidate base i \<in> set taken)"
proof (induction taken base j rule: free_slug.induct)
  case (1 taken base j)
  show ?case
  proof (cases "slug_candidate base j \<in> set taken")
    case True
    from 1 [OF True] obtain k where k: "Suc j \<le> k" "free_slug taken base (Suc j) = slug_candidate base k"
      "slug_candidate base k \<notin> set taken" "\<forall>i. Suc j \<le> i \<and> i < k \<longrightarrow> slug_candidate base i \<in> set taken" by blast
    have "free_slug taken base j = slug_candidate base k" using True k(2) by (simp add: free_slug.simps [of taken base j])
    moreover have "slug_candidate base i \<in> set taken" if "j \<le> i" "i < k" for i
      using that k(4) True by (cases "i = j") auto
    ultimately show ?thesis using k(1,3) by (intro exI [of _ k]) auto
  next
    case False
    then show ?thesis by (intro exI [of _ j]) (auto simp: free_slug.simps [of taken base j])
  qed
qed

lemma free_slug_fresh: "free_slug taken base j \<notin> set taken"
  using free_slug_first [of j taken base] by auto

lemma free_slug_is_slug: "is_slug base \<Longrightarrow> is_slug (free_slug taken base j)"
  using free_slug_first [of j taken base] candidate_is_slug by metis

end
