(* ===== verification/Plugin_Machine.thy ===== *)
theory Plugin_Machine
  imports Plugin_Rules Plugin_Slugs Outbox_Rules Samples
begin

section \<open>Plugins over a run\<close>

text \<open>
  Every writing request of \<open>PluginService\<close> as a call, served in any order, with the scans the outbox runs and
  the writes of other services to their own tables: the plugin tables stay consistent and every version of a
  vendor's plugin follows the abstract review machine of \<open>Plugin_Types\<close>.
\<close>

subsection \<open>Every request keeps the tables consistent\<close>

lemma preserved_register_plugin: "preserved (plugin_hist k vs) (register_plugin v u n s c t)"
proof (rule preservedI [OF plugin_hist_mono plugin_hist_log plugin_atomic(1) plugin_uuid(1)])
  fix w x w' assume J: "plugin_hist k vs (next_uuid w) (db w)" and run: "register_plugin v u n s c t w = (Inr x, w')"
  let ?p = "new_plugin (next_uuid w) (clock w) (Some v) ''vendor'' (strip n) (lower (strip s)) (strip c) (strip t) ''draft'' []"
  from register_plugin_okD [OF run] obtain log where
    slug: "is_slug (lower (strip s))" "lower (strip s) \<notin> plg_slug ` set (plugins (db w))"
    and d: "db w' = (plugins_update (\<lambda>rows. rows @ [?p]) (db w))\<lparr>audit_log := log\<rparr>" "disk w' = db w'" "next_uuid w < next_uuid w'"
    by blast
  show "plugin_hist k vs (next_uuid w') (disk w')"
    unfolding d(2)
    by (rule plugin_hist_add_plugin [OF J, of ?p]) (use slug d(1,3) in \<open>simp_all add: new_plugin_def plugin_tables_def\<close>)
qed

lemma new_version_typed: "version_typed (new_version i now p ver a c b)" "pvr_risk_level (new_version i now p ver a c b) = ''low''"
  "pvr_id (new_version i now p ver a c b) = i" "pvr_plugin_id (new_version i now p ver a c b) = p"
  "pvr_version (new_version i now p ver a c b) = ver"
  by (simp_all add: new_version_def version_typed_def decided_def)

lemma plugin_hist_new_version:
  assumes "plugin_hist k vs n d" and "n \<le> i" "i < m" "p < n"
    and "\<forall>v \<in> set (plugin_versions d). \<not> (pvr_plugin_id v = p \<and> pvr_version v = ver)"
    and "plugin_tables d' = (plugins d, plugin_versions d @ [new_version i now p ver a c b], plugin_capabilities d)"
  shows "plugin_hist k vs m d'"
  by (rule plugin_hist_add_version [OF assms(1), of "new_version i now p ver a c b"])
     (use assms in \<open>simp_all add: new_version_typed\<close>)

lemma preserved_submit_version: "preserved (plugin_hist k vs) (submit_version i u ver a c b)"
proof (rule preservedI [OF plugin_hist_mono plugin_hist_log plugin_atomic(2) plugin_uuid(2)])
  fix w x w' assume J: "plugin_hist k vs (next_uuid w) (db w)" and run: "submit_version i u ver a c b w = (Inr x, w')"
  from submit_version_okD [OF run] obtain log out and p :: plugin_row where
    p: "get_row plg_id i (plugins (db w)) = Some p"
    and fresh: "\<forall>v \<in> set (plugin_versions (db w)). \<not> (pvr_plugin_id v = i \<and> pvr_version v = strip ver)"
    and d: "next_uuid w < next_uuid w'" "disk w' = db w'"
      "db w' = (outbox_events_update out (plugin_versions_update (\<lambda>rows. rows @
         [new_version (next_uuid w) (clock w) i (strip ver) (strip a) (strip c) (strip b)]) (db w)))\<lparr>audit_log := log\<rparr>"
    by blast
  have "plugin_typed (next_uuid w) (db w)" using J by (simp add: plugin_hist_def)
  then have "i < next_uuid w" using plugin_typedD(4) get_row_Some [OF p] by blast
  from plugin_hist_new_version [OF J order_refl d(1) this fresh] show "plugin_hist k vs (next_uuid w') (disk w')"
    unfolding d(2) by (simp add: d(3) plugin_tables_def)
qed

lemma preserved_bundle: "preserved (plugin_hist k vs) (submit_plugin_bundle v u n ver c t a b pid sl)"
proof (rule preservedI [OF plugin_hist_mono plugin_hist_log plugin_atomic(3) plugin_uuid(3)])
  fix w x w' assume J: "plugin_hist k vs (next_uuid w) (db w)" and d0: "disk w = db w"
    and run: "submit_plugin_bundle v u n ver c t a b pid sl w = (Inr x, w')"
  from run obtain y w1 j where chosen: "bundle_plugin v u (strip n) (strip c) t pid sl w = (Inr y, w1)"
    and ins: "insert_version (fst y) u (dropWhile (\<lambda>c. c = CHR ''v'') (strip ver)) (strip a) (strip t) (strip b) w1 = (Inr j, w')"
    unfolding submit_plugin_bundle_def Let_def
    by (simp only: step_ok step_ok_bind [of "bundle_plugin _ _ _ _ _ _ _"] step_ok_bind [of "insert_version _ _ _ _ _ _"] split_beta)
       blast
  from bundle_plugin_okD [OF chosen] obtain log f where up: "next_uuid w \<le> next_uuid w1"
    and d1: "db w1 = (plugins_update f (db w))\<lparr>audit_log := log\<rparr>"
    and f: "case pid of
           None \<Rightarrow> f (plugins (db w)) = plugins (db w) @ [new_plugin (next_uuid w) (clock w) (Some v) ''vendor'' (strip n)
               (free_slug (map plg_slug (plugins (db w))) (derived_slug (str_or sl (strip n))) 0) (strip c) (strip t) ''draft'' []]
             \<and> next_uuid w < next_uuid w1 \<and> fst y = next_uuid w \<and> derived_slug (str_or sl (strip n)) \<noteq> []
             \<and> snd y = free_slug (map plg_slug (plugins (db w))) (derived_slug (str_or sl (strip n))) 0
         | Some i \<Rightarrow> (\<exists>p g. get_row plg_id i (plugins (db w)) = Some p \<and> plg_owner_kind p = ''vendor''
             \<and> f (plugins (db w)) = upd_row plg_id i g (plugins (db w)) \<and> fst y = i
             \<and> (\<forall>p. plg_id (g p) = plg_id p \<and> plg_slug (g p) = plg_slug p \<and> plg_owner_kind (g p) = plg_owner_kind p))"
    by blast
  have J1: "plugin_hist k vs (next_uuid w1) (db w1)"
  proof (cases pid)
    case None
    let ?slug = "free_slug (map plg_slug (plugins (db w))) (derived_slug (str_or sl (strip n))) 0"
    let ?p = "new_plugin (next_uuid w) (clock w) (Some v) ''vendor'' (strip n) ?slug (strip c) (strip t) ''draft'' []"
    have "?slug \<notin> plg_slug ` set (plugins (db w))"
      using free_slug_fresh [of "map plg_slug (plugins (db w))"] by simp
    moreover have "is_slug ?slug" using f None derived_slug_is_slug free_slug_is_slug by simp
    ultimately show ?thesis
      by (intro plugin_hist_add_plugin [OF J, of ?p]) (use f None d1 in \<open>simp_all add: new_plugin_def plugin_tables_def\<close>)
  next
    case (Some i)
    with f obtain p g where p: "get_row plg_id i (plugins (db w)) = Some p" "plg_owner_kind p = ''vendor''"
      and g: "f (plugins (db w)) = upd_row plg_id i g (plugins (db w))"
        "\<forall>p. plg_id (g p) = plg_id p \<and> plg_slug (g p) = plg_slug p \<and> plg_owner_kind (g p) = plg_owner_kind p"
      by auto
    have T: "plugin_typed (next_uuid w) (db w)" using J by (simp add: plugin_hist_def)
    have "plugin_hist k vs (next_uuid w) (db w1)"
    proof (rule plugin_hist_edit_plugin [OF J, of g i])
      fix q assume "q \<in> set (plugins (db w))" "plg_id q = i"
      with get_row_Some [OF p(1)] plugin_typedD(1) [OF T] have "q = p" by (auto simp: distinct_map inj_on_def)
      moreover assume "plg_owner_kind q = ''platform''"
      ultimately show "plg_category (g q) = plg_category q" using p(2) by simp
    qed (use g d1 in \<open>simp_all add: plugin_tables_def\<close>)
    from supply_monoD [OF plugin_hist_mono this up] show ?thesis .
  qed
  from insert_version_okD [OF ins] obtain log2 out where
    "\<forall>v \<in> set (plugin_versions (db w1)). \<not> (pvr_plugin_id v = fst y \<and> pvr_version v = dropWhile (\<lambda>c. c = CHR ''v'') (strip ver))"
    "next_uuid w1 < next_uuid w'" "disk w' = db w'"
    "db w' = (outbox_events_update out (plugin_versions_update (\<lambda>rows. rows @
       [new_version (next_uuid w1) (clock w1) (fst y) (dropWhile (\<lambda>c. c = CHR ''v'') (strip ver)) (strip a) (strip t) (strip b)])
         (db w1)))\<lparr>audit_log := log2\<rparr>" by blast
  moreover have "fst y < next_uuid w1"
  proof (cases pid)
    case (Some i)
    with f obtain p where "get_row plg_id i (plugins (db w)) = Some p" "fst y = i" by auto
    moreover have "plugin_typed (next_uuid w) (db w)" using J by (simp add: plugin_hist_def)
    ultimately have "fst y < next_uuid w" using plugin_typedD(4) get_row_Some by metis
    with up show ?thesis by simp
  qed (use f in simp)
  ultimately show "plugin_hist k vs (next_uuid w') (disk w')"
    by (intro plugin_hist_new_version [OF J1 order_refl]) (auto simp: plugin_tables_def)
qed

lemma preserved_declare: "preserved (plugin_hist k vs) (declare_capabilities i u cs)"
proof (rule preservedI [OF plugin_hist_mono plugin_hist_log plugin_atomic(4) plugin_uuid(4)])
  fix w x w' assume J: "plugin_hist k vs (next_uuid w) (db w)" and run: "declare_capabilities i u cs w = (Inr x, w')"
  let ?scopes = "map (\<lambda>c. strip (fst c)) cs"
  let ?new = "inserted_rows (new_capability i) (next_uuid w) cs"
  from declare_capabilities_okD [OF run] obtain v log where
    v: "get_row pvr_id i (plugin_versions (db w)) = Some v" "\<not> decided v" and dist: "distinct ?scopes"
    and d: "db w' = (plugin_versions_update (upd_row pvr_id i (\<lambda>v. v\<lparr>pvr_risk_level := risk_level_for_scopes ?scopes\<rparr>))
         (plugin_capabilities_update (\<lambda>rows. filter (\<lambda>c. pcp_version_id c \<noteq> i) rows @ ?new) (db w)))\<lparr>audit_log := log\<rparr>"
      "disk w' = db w'" "next_uuid w \<le> next_uuid w'"
    by blast
  have T: "plugin_typed (next_uuid w) (db w)" using J by (simp add: plugin_hist_def)
  note vs = get_row_Some [OF v(1)]
  have one: "q = v" if "q \<in> set (plugin_versions (db w))" "pvr_id q = i" for q
    using that vs plugin_typedD(3) [OF T] by (auto simp: distinct_map inj_on_def)
  have new: "map pcp_scope (inserted_rows (new_capability i) m cs) = ?scopes"
    "\<forall>c \<in> set (inserted_rows (new_capability i) m cs). pcp_version_id c = i" for m
    by (induction cs arbitrary: m) (auto simp: new_capability_def)
  have caps: "capabilities_of (db w') j = (if j = i then ?new else capabilities_of (db w) j)" for j
    using new(2) [of "next_uuid w"] by (auto simp: capabilities_of_def d(1) filter_empty_conv intro!: filter_cong filter_True)
  then have scopes: "scopes_of (db w') i = ?scopes"
    using new(1) [of "next_uuid w"] by (simp add: scopes_of_def capabilities_of_def)
  have "plugin_hist k vs (next_uuid w) (db w')"
  proof (rule plugin_hist_move [OF J, of i "\<lambda>v. v\<lparr>pvr_risk_level := risk_level_for_scopes ?scopes\<rparr>"])
    fix q assume q: "q \<in> set (plugin_versions (db w))" "pvr_id q = i"
    show "version_path q (q\<lparr>pvr_risk_level := risk_level_for_scopes ?scopes\<rparr>)"
      using one [OF q] v(2) by (intro r_into_rtranclp version_move.rate) simp
    show "distinct (scopes_of (db w') i)
        \<and> pvr_risk_level (q\<lparr>pvr_risk_level := risk_level_for_scopes ?scopes\<rparr>) = risk_level_for_scopes (scopes_of (db w') i)"
      by (simp add: scopes dist)
    show "capabilities_of (db w') i = capabilities_of (db w) i" if "decided q" using one [OF q] v(2) that by simp
  next
    fix c assume "c \<in> set (plugin_capabilities (db w'))"
    then have "c \<in> set (plugin_capabilities (db w)) \<or> c \<in> set ?new" by (auto simp: d(1))
    moreover have "i < next_uuid w" using plugin_typedD(5) [OF T] vs by blast
    ultimately show "pcp_version_id c < next_uuid w" using plugin_typedD(6) [OF T] new(2) [of "next_uuid w"] by auto
  next
    fix j assume "j \<noteq> i"
    then show "capabilities_of (db w') j = capabilities_of (db w) j" by (simp only: caps if_False)
  qed (simp_all add: d(1))
  then show "plugin_hist k vs (next_uuid w') (disk w')"
    using supply_monoD [OF plugin_hist_mono _ d(3)] d(2) by simp
qed

text \<open>The three requests of a reviewer move the version they are about.\<close>

lemma plugin_hist_reviewed:
  assumes J: "plugin_hist k vs n d" and v: "get_row pvr_id i (plugin_versions d) = Some v"
    and move: "version_move v (f v)" and risk: "\<And>v. pvr_risk_level (f v) = pvr_risk_level v"
    and d': "plugin_tables d' = (plugins d, upd_row pvr_id i f (plugin_versions d), plugin_capabilities d)"
  shows "plugin_hist k vs n d'"
proof (rule plugin_hist_move_only [OF J _ risk d'])
  have T: "plugin_typed n d" using J by (simp add: plugin_hist_def)
  fix q assume "q \<in> set (plugin_versions d)" "pvr_id q = i"
  with get_row_Some [OF v] plugin_typedD(3) [OF T] have "q = v" by (auto simp: distinct_map inj_on_def)
  with move show "version_path q (f q)" by (simp add: r_into_rtranclp)
qed

lemma preserved_claim: "preserved (plugin_hist k vs) (claim_version i u)"
proof (rule preservedI [OF plugin_hist_mono plugin_hist_log plugin_atomic(5) plugin_uuid(5)])
  fix w x w' assume J: "plugin_hist k vs (next_uuid w) (db w)" and run: "claim_version i u w = (Inr x, w')"
  let ?f = "\<lambda>v. v\<lparr>pvr_claimed_by := Some u, pvr_claimed_at := Some (clock w)\<rparr>"
  from claim_version_okD [OF run] obtain v log where
    v: "get_row pvr_id i (plugin_versions (db w)) = Some v" "awaits_review v" "pvr_claimed_by v \<in> {None, Some u}"
    and d: "db w' = (plugin_versions_update (upd_row pvr_id i ?f) (db w))\<lparr>audit_log := log\<rparr>"
      "disk w' = db w'" "next_uuid w \<le> next_uuid w'" by blast
  have "version_move v (?f v)" using v(2,3) by (intro version_move.claim) (auto simp: awaits_review_def decided_def)
  then have "plugin_hist k vs (next_uuid w) (db w')"
    by (rule plugin_hist_reviewed [OF J v(1)]) (simp_all add: d(1) plugin_tables_def)
  then show "plugin_hist k vs (next_uuid w') (disk w')"
    using supply_monoD [OF plugin_hist_mono _ d(3)] d(2) by simp
qed

lemma preserved_changes: "preserved (plugin_hist k vs) (request_changes i u txt)"
proof (rule preservedI [OF plugin_hist_mono plugin_hist_log plugin_atomic(6) plugin_uuid(6)])
  fix w x w' assume J: "plugin_hist k vs (next_uuid w) (db w)" and run: "request_changes i u txt w = (Inr x, w')"
  let ?f = "\<lambda>v. v\<lparr>pvr_status := ''changes_requested'', pvr_review_notes := strip txt\<rparr>"
  from request_changes_okD [OF run] obtain v log where
    v: "get_row pvr_id i (plugin_versions (db w)) = Some v" "pvr_status v = ''pending_review''" "pvr_claimed_by v \<in> {None, Some u}"
    and d: "db w' = (plugin_versions_update (upd_row pvr_id i ?f) (db w))\<lparr>audit_log := log\<rparr>"
      "disk w' = db w'" "next_uuid w \<le> next_uuid w'" by blast
  have "version_move v (?f v)" using v(2,3) by (intro version_move.send_back)
  then have "plugin_hist k vs (next_uuid w) (db w')"
    by (rule plugin_hist_reviewed [OF J v(1)]) (simp_all add: d(1) plugin_tables_def)
  then show "plugin_hist k vs (next_uuid w') (disk w')"
    using supply_monoD [OF plugin_hist_mono _ d(3)] d(2) by simp
qed

lemma preserved_decide_version: "preserved (plugin_hist k vs) (decide_version i u dec txt)"
proof (rule preservedI [OF plugin_hist_mono plugin_hist_log plugin_atomic(7) plugin_uuid(7)])
  fix w x w' assume J: "plugin_hist k vs (next_uuid w) (db w)" and run: "decide_version i u dec txt w = (Inr x, w')"
  let ?f = "\<lambda>v. v\<lparr>pvr_status := dec, pvr_decided_by := Some u, pvr_decided_at := Some (clock w),
      pvr_review_notes := strip (str_or txt [])\<rparr>"
  let ?g = "touched_plugin (clock w) (\<lambda>p. p\<lparr>plg_status := ''active''\<rparr>)"
  from decide_version_okD [OF run] obtain v log and p :: plugin_row where
    v: "get_row pvr_id i (plugin_versions (db w)) = Some v" "awaits_review v" "pvr_claimed_by v \<in> {None, Some u}"
    and dec: "dec \<in> {''approved'', ''rejected''}"
    and d: "db w' = (plugins_update (if dec = ''approved'' \<and> plg_status p = ''draft'' then upd_row plg_id (plg_id p) ?g else (\<lambda>rows. rows))
         (plugin_versions_update (upd_row pvr_id i ?f) (db w)))\<lparr>audit_log := log\<rparr>"
      "disk w' = db w'" "next_uuid w \<le> next_uuid w'" by blast
  let ?d = "plugin_versions_update (upd_row pvr_id i ?f) (db w)"
  have "version_move v (?f v)" using v(2,3) dec by (intro version_move.decide) (auto simp: awaits_review_def decided_def)
  then have J1: "plugin_hist k vs (next_uuid w) ?d"
    by (rule plugin_hist_reviewed [OF J v(1)]) (simp_all add: plugin_tables_def)
  have "plugin_hist k vs (next_uuid w) (db w')"
  proof (cases "dec = ''approved'' \<and> plg_status p = ''draft''")
    case True
    then show ?thesis
      by (intro plugin_hist_edit_plugin [OF J1, of ?g "plg_id p"]) (simp_all add: d(1) touched_plugin_def plugin_tables_def)
  next
    case False
    then have "plugin_tables (db w') = plugin_tables ?d" by (auto simp: d(1) plugin_tables_def)
    from plugin_hist_same [OF this] J1 show ?thesis by simp
  qed
  then show "plugin_hist k vs (next_uuid w') (disk w')"
    using supply_monoD [OF plugin_hist_mono _ d(3)] d(2) by simp
qed

lemma preserved_create_standard: "preserved (plugin_hist k vs) (create_standard_plugin u n s c t ver a cl reqs pub)"
proof (rule preservedI [OF plugin_hist_mono plugin_hist_log plugin_atomic(8) plugin_uuid(8)])
  fix w x w' assume J: "plugin_hist k vs (next_uuid w) (db w)"
    and run: "create_standard_plugin u n s c t ver a cl reqs pub w = (Inr x, w')"
  from create_standard_okD [OF run] obtain v log and p :: plugin_row where
    ids: "plg_id p = next_uuid w" "pvr_id v = Suc (next_uuid w)" "pvr_plugin_id v = next_uuid w"
    and p: "is_slug (plg_slug p)" "plg_slug p \<notin> plg_slug ` set (plugins (db w))"
      "plg_category p \<notin> plg_category ` set (standard_plugins (db w))"
    and v: "version_typed v" "pvr_risk_level v = ''low''"
    and d: "db w' = (plugin_versions_update (\<lambda>rows. rows @ [v]) (plugins_update (\<lambda>rows. rows @ [p]) (db w)))\<lparr>audit_log := log\<rparr>"
      "disk w' = db w'" "Suc (next_uuid w) < next_uuid w'" by blast
  have T: "plugin_typed (next_uuid w) (db w)" using J by (simp add: plugin_hist_def)
  let ?d = "plugins_update (\<lambda>rows. rows @ [p]) (db w)"
  have J1: "plugin_hist k vs (Suc (next_uuid w)) ?d"
    by (rule plugin_hist_add_plugin [OF J, of p]) (use ids p in \<open>simp_all add: plugin_tables_def\<close>)
  have "\<forall>r \<in> set (plugin_versions (db w)). pvr_plugin_id r \<noteq> next_uuid w"
    using plugin_typedD(5) [OF T] by fastforce
  then show "plugin_hist k vs (next_uuid w') (disk w')"
    unfolding d(2)
    by (intro plugin_hist_add_version [OF J1, of v]) (use ids v d in \<open>simp_all add: plugin_tables_def\<close>)
qed

lemma preserved_delete: "preserved (plugin_hist k vs) (delete_standard_plugin i u)"
proof (rule preservedI [OF plugin_hist_mono plugin_hist_log plugin_atomic(9) plugin_uuid(9)])
  fix w x w' assume J: "plugin_hist k vs (next_uuid w) (db w)" and run: "delete_standard_plugin i u w = (Inr x, w')"
  let ?gone = "pvr_id ` set (filter (\<lambda>v. pvr_plugin_id v = i) (plugin_versions (db w)))"
  from delete_standard_okD [OF run] obtain log and p :: plugin_row where
    p: "get_row plg_id i (plugins (db w)) = Some p" "plg_owner_kind p = ''platform''"
    and d: "db w' = (plugins_update (del_row plg_id i) (plugin_versions_update (filter (\<lambda>v. pvr_id v \<notin> ?gone))
         (plugin_capabilities_update (filter (\<lambda>c. pcp_version_id c \<notin> ?gone)) (db w))))\<lparr>audit_log := log\<rparr>"
      "disk w' = db w'" "next_uuid w \<le> next_uuid w'" by blast
  have "plugin_typed (next_uuid w) (db w)" using J by (simp add: plugin_hist_def)
  from plugin_typedD(3) [OF this]
  have "pvr_id v \<in> ?gone \<longleftrightarrow> pvr_plugin_id v = i" if "v \<in> set (plugin_versions (db w))" for v
    using that by (auto simp: distinct_map inj_on_def)
  then have "filter (\<lambda>v. pvr_id v \<notin> ?gone) (plugin_versions (db w)) = filter (\<lambda>v. pvr_plugin_id v \<noteq> i) (plugin_versions (db w))"
    by (intro filter_cong) simp_all
  then have "plugin_hist k vs (next_uuid w) (db w')"
    by (intro plugin_hist_delete [OF J p]) (simp add: d(1) plugin_tables_def)
  then show "plugin_hist k vs (next_uuid w') (disk w')"
    using supply_monoD [OF plugin_hist_mono _ d(3)] d(2) by simp
qed

text \<open>The requests that read once more after the commit.\<close>

lemma keeps_plugin_edit:
  assumes "\<And>p. plg_id (f p) = plg_id p \<and> plg_slug (f p) = plg_slug p \<and> plg_owner_kind (f p) = plg_owner_kind p
     \<and> plg_category (f p) = plg_category p"
  shows "keeps (both (plugin_hist k vs)) (update_plugin i f)"
  unfolding update_plugin_def
  by (intro keeps_bindE keeps_utcnow keeps_both_modifies, erule plugin_hist_edit_plugin)
     (use assms in \<open>simp_all add: touched_plugin_def plugin_tables_def\<close>)

lemma keeps_plugin_other:
  assumes "\<And>d. plugin_tables (f d) = plugin_tables d"
  shows "keeps (both (plugin_hist k vs)) (modifies f)"
  by (rule keeps_both_modifies) (simp add: plugin_hist_same [OF assms])

lemma keeps_plugin_audit: "keeps (both (plugin_hist k vs)) (audit a u t p)"
  by (rule keeps_both_audit [OF plugin_hist_mono])
     (erule plugin_hist_same [THEN iffD2, rotated], simp add: plugin_tables_def)

lemma edited_plugin_keeps:
  "plg_id (edited_plugin n s r p) = plg_id p \<and> plg_slug (edited_plugin n s r p) = plg_slug p
   \<and> plg_owner_kind (edited_plugin n s r p) = plg_owner_kind p \<and> plg_category (edited_plugin n s r p) = plg_category p"
  by (simp add: edited_plugin_def Let_def split: option.split)

lemma preserved_edits:
  "preserved (plugin_hist k vs) (update_standard_plugin i u n s r)"
  "preserved (plugin_hist k vs) (set_standard_plugin_status i u st)"
  "preserved (plugin_hist k vs) (activate_standard_plugin v u i)"
  "preserved (plugin_hist k vs) (deactivate_standard_plugin v u i)"
  unfolding update_standard_plugin_def set_standard_plugin_status_def activate_standard_plugin_def
    deactivate_standard_plugin_def
  by (rule preserved_both keeps_plugin_edit edited_plugin_keeps keeps_plugin_audit keeps_both_uuid4 plugin_hist_mono
        keeps_intros keeps_plugin_other reads_only_keeps reads_only_checks reads_only_plugin
      | (simp add: plugin_tables_def; fail))+

lemma preserved_scan: "preserved (plugin_hist k vs) (bindE (handle_scan p) (\<lambda>_. commit))"
proof -
  have scan: "keeps (both (plugin_hist k vs)) (modifies (plugin_versions_update (upd_row pvr_id i (\<lambda>v.
      if pvr_scan_status v = ''pending'' then v\<lparr>pvr_scan_status := ''passed''\<rparr> else v))))" for i
    by (rule keeps_both_modifies, erule plugin_hist_move_only)
       (auto simp: plugin_tables_def intro: version_move.scan)
  show ?thesis
    unfolding handle_scan_def Let_def
    by (rule preserved_both scan keeps_intros reads_only_keeps reads_only_parse_uuid)+
qed

subsection \<open>Runs\<close>

datatype plugin_call =
    Register_Plugin uuid uuid string string string string
  | Submit_Version uuid uuid string string string string
  | Submit_Bundle uuid uuid string string string string string string "uuid option" "string option"
  | Declare_Capabilities uuid uuid "(string \<times> string) list"
  | Claim_Version uuid uuid
  | Request_Changes uuid uuid string
  | Decide_Version uuid uuid string "string option"
  | Create_Standard uuid string string string string string string string "json list option" bool
  | Update_Standard uuid uuid "string option" "string option" "json list option"
  | Set_Standard_Status uuid uuid string
  | Delete_Standard uuid uuid
  | Activate uuid uuid uuid
  | Deactivate uuid uuid uuid

fun answer_plugin :: "plugin_call \<Rightarrow> unit op" where
  "answer_plugin (Register_Plugin v u n s c t) = silent (register_plugin v u n s c t)"
| "answer_plugin (Submit_Version i u ver a c b) = silent (submit_version i u ver a c b)"
| "answer_plugin (Submit_Bundle v u n ver c t a b i s) = silent (submit_plugin_bundle v u n ver c t a b i s)"
| "answer_plugin (Declare_Capabilities i u cs) = silent (declare_capabilities i u cs)"
| "answer_plugin (Claim_Version i u) = silent (claim_version i u)"
| "answer_plugin (Request_Changes i u txt) = silent (request_changes i u txt)"
| "answer_plugin (Decide_Version i u dec txt) = silent (decide_version i u dec txt)"
| "answer_plugin (Create_Standard u n s c t ver a cl r pub) = silent (create_standard_plugin u n s c t ver a cl r pub)"
| "answer_plugin (Update_Standard i u n s r) = silent (update_standard_plugin i u n s r)"
| "answer_plugin (Set_Standard_Status i u s) = silent (set_standard_plugin_status i u s)"
| "answer_plugin (Delete_Standard i u) = silent (delete_standard_plugin i u)"
| "answer_plugin (Activate v u i) = silent (activate_standard_plugin v u i)"
| "answer_plugin (Deactivate v u i) = silent (deactivate_standard_plugin v u i)"

inductive plugin_step :: "world \<Rightarrow> world \<Rightarrow> bool" where
  call: "request (answer_plugin c) w = (r, w') \<Longrightarrow> plugin_step w w'"
| scan: "request (bindE (handle_scan p) (\<lambda>_. commit)) w = (r, w') \<Longrightarrow> plugin_step w w'"
| tick: "clock w \<le> t \<Longrightarrow> plugin_step w (w\<lparr>clock := t\<rparr>)"
| other: "plugin_tables d = plugin_tables (db w) \<Longrightarrow> next_uuid w \<le> n
    \<Longrightarrow> plugin_step w (w\<lparr>db := d, disk := d, next_uuid := n\<rparr>)"

lemma answer_plugin_preserved: "preserved (plugin_hist k vs) (answer_plugin c)"
  by (cases c) (simp_all add: preserved_silent preserved_register_plugin preserved_submit_version preserved_bundle
      preserved_declare preserved_claim preserved_changes preserved_decide_version preserved_create_standard
      preserved_edits preserved_delete)

definition plugin_ok :: "world \<Rightarrow> bool" where
  "plugin_ok w \<longleftrightarrow> disk w = db w \<and> plugin_typed (next_uuid w) (db w)"

definition plugin_since :: "(uuid \<Rightarrow> plugin_capability_row list) \<Rightarrow> plugin_version_row list \<Rightarrow> world \<Rightarrow> bool" where
  "plugin_since k vs w \<longleftrightarrow> disk w = db w \<and> plugin_hist k vs (next_uuid w) (db w)"

lemma plugin_since_step:
  assumes "plugin_step w w'" and "plugin_since k vs w"
  shows "plugin_since k vs w'"
  using assms(1)
proof cases
  case (call c r)
  have "disk w = db w" "plugin_hist k vs (next_uuid w) (db w)" using assms(2) by (simp_all add: plugin_since_def)
  from preservedD [OF answer_plugin_preserved this call] show ?thesis by (simp add: plugin_since_def)
next
  case (scan p r)
  have "disk w = db w" "plugin_hist k vs (next_uuid w) (db w)" using assms(2) by (simp_all add: plugin_since_def)
  from preservedD [OF preserved_scan this scan] show ?thesis by (simp add: plugin_since_def)
next
  case (tick t)
  with assms(2) show ?thesis by (simp add: plugin_since_def)
next
  case (other d n)
  have "plugin_hist k vs (next_uuid w) d"
    using assms(2) plugin_hist_same [OF other(2)] by (simp add: plugin_since_def)
  from supply_monoD [OF plugin_hist_mono this other(3)] show ?thesis by (simp add: plugin_since_def other(1))
qed

interpretation plugin_runs: served_machine plugin_step "plugin_hist k vs" for k vs
  by unfold_locales (rule plugin_since_step [unfolded plugin_since_def])

lemma plugin_since_run:
  assumes "plugin_step\<^sup>*\<^sup>* w w'" and "plugin_ok w"
    and "\<forall>v \<in> set vs. v \<in> set (plugin_versions (db w))
      \<and> (\<exists>p \<in> set (plugins (db w)). plg_id p = pvr_plugin_id v \<and> plg_owner_kind p = ''vendor'')"
  shows "plugin_since (capabilities_of (db w)) vs w'"
  unfolding plugin_since_def
proof (rule plugin_runs.run_keeps [OF assms(1)])
  have "version_kept (capabilities_of (db w)) (db w) v" if "v \<in> set vs" for v
    using assms(3) that unfolding version_kept_def by blast
  then show "plugin_hist (capabilities_of (db w)) vs (next_uuid w) (db w)"
    using assms(2) by (simp add: plugin_ok_def plugin_hist_def)
  show "disk w = db w" using assms(2) by (simp add: plugin_ok_def)
qed

lemma plugin_called: "plugin_step w (snd (request (answer_plugin c) w))"
  by (rule plugin_step.call) (rule prod.collapse [symmetric])

end
