(* ===== verification/Plugin_Properties.thy ===== *)
theory Plugin_Properties
  imports Plugin_Machine
begin

section \<open>What the plugin service promises\<close>

text \<open>
  The properties of plugins, with a small world as witness: vendor 5 of organization 1 (owner 3, verified) and
  the platform's organization 2 (owner 4).
\<close>

definition plugin_db :: database where
  "plugin_db = empty_db\<lparr>organizations := [sample_org 1 False, sample_org 2 True],
     org_memberships := [\<lparr>omb_id = 6, omb_organization_id = 1, omb_user_id = 3, omb_role = ''owner'', omb_status = ''active''\<rparr>,
                         \<lparr>omb_id = 7, omb_organization_id = 2, omb_user_id = 4, omb_role = ''owner'', omb_status = ''active''\<rparr>],
     vendor_profiles := [\<lparr>vnd_id = 5, vnd_organization_id = 1, vnd_legal_name = ''Acme'', vnd_tax_id = None,
       vnd_payout_bank_account = None, vnd_contact_email = ''a@b'', vnd_business_doc_url = None,
       vnd_status = ''verified'', vnd_created_at = 0\<rparr>]\<rparr>"

definition plugin_world :: world where
  "plugin_world = \<lparr>db = plugin_db, disk = plugin_db, clock = 0, next_uuid = 8\<rparr>"

lemma plugin_world_ok: "plugin_ok plugin_world"
  by (simp add: plugin_ok_def plugin_typed_def plugin_world_def plugin_db_def empty_db_def standard_plugins_def)

definition bundle_call :: plugin_call where
  "bundle_call = Submit_Bundle 5 3 '' Net!'' ''v1'' ''x'' [] ''u'' [] None None"

definition bundle_world :: world where
  "bundle_world = snd (request (answer_plugin bundle_call) plugin_world)"

lemma bundle_step: "plugin_step plugin_world bundle_world"
  unfolding bundle_world_def by (rule plugin_called)

lemma bundle_rows: "plugin_versions (db bundle_world) \<noteq> []"
  by code_simp

text \<open>A version under review, and its approval.\<close>

definition review_world :: world where
  "review_world = (let d = plugin_db\<lparr>
       plugins := [new_plugin 6 0 (Some 5) ''vendor'' ''N'' ''n'' ''C'' [] ''draft'' []],
       plugin_versions := [new_version 7 0 6 ''1'' ''u'' [] []]\<rparr>
     in \<lparr>db = d, disk = d, clock = 0, next_uuid = 8\<rparr>)"

definition approved_world :: world where
  "approved_world = snd (request (answer_plugin (Decide_Version 7 4 ''approved'' None)) review_world)"

lemma review_world_ok: "plugin_ok review_world"
proof -
  have "plugin_typed (next_uuid review_world) (db review_world)" by code_simp
  then show ?thesis by (simp add: plugin_ok_def review_world_def Let_def)
qed

lemma approved_step: "plugin_step review_world approved_world"
  unfolding approved_world_def by (rule plugin_called)

lemma approved_rows: "list_all (\<lambda>v. pvr_status v = ''approved'') (plugin_versions (db approved_world))"
  by code_simp

lemma review_rows:
  "plugin_versions (db review_world) = [new_version 7 0 6 ''1'' ''u'' [] []]"
  "plugins (db review_world) = [new_plugin 6 0 (Some 5) ''vendor'' ''N'' ''n'' ''C'' [] ''draft'' []]"
  by (simp_all add: review_world_def Let_def)

text \<open>
  C38. Over every run the plugin tables stay consistent: slugs are well formed and unique, there is at most one
  standard plugin per category and one version per number, versions are in a documented status with a reviewer
  when decided, the one who claimed it if it was claimed, and the risk level is the one of the capabilities
  declared.
\<close>

theorem plugin_tables_consistent:
  assumes "plugin_step\<^sup>*\<^sup>* w w'" and "plugin_ok w"
  shows "plugin_typed (next_uuid w') (db w')"
  using plugin_since_run [OF assms, of "[]"] by (simp add: plugin_since_def plugin_hist_def)

lemma plugin_tables_consistent_witness:
  "plugin_typed (next_uuid bundle_world) (db bundle_world) \<and> plugin_versions (db bundle_world) \<noteq> []"
  using plugin_tables_consistent [OF r_into_rtranclp [of plugin_step, OF bundle_step] plugin_world_ok] bundle_rows
  by (cases "plugin_versions (db bundle_world)") auto

text \<open>
  C39. Every version of a vendor's plugin follows the abstract review machine over every run, whoever acts; once
  it is decided, neither its row, but for the scan, nor the capabilities it asked for ever change.
\<close>

theorem version_follows_review:
  assumes "plugin_step\<^sup>*\<^sup>* w w'" and "plugin_ok w" and "v \<in> set (plugin_versions (db w))"
    and "p \<in> set (plugins (db w))" "plg_id p = pvr_plugin_id v" "plg_owner_kind p = ''vendor''"
  shows "\<exists>v' \<in> set (plugin_versions (db w')). version_path v v'
     \<and> (decided v \<longrightarrow> same_decision v v'
          \<and> capabilities_of (db w') (pvr_id v) = capabilities_of (db w) (pvr_id v))"
proof -
  have "plugin_since (capabilities_of (db w)) [v] w'"
    by (rule plugin_since_run [OF assms(1,2)]) (use assms(3-6) in auto)
  then have "version_kept (capabilities_of (db w)) (db w') v" by (simp add: plugin_since_def plugin_hist_def)
  then show ?thesis using version_path_decided unfolding version_kept_def by blast
qed

lemma version_follows_review_witness:
  "\<exists>v'. version_path (new_version 7 0 6 ''1'' ''u'' [] []) v' \<and> pvr_status v' = ''approved''"
proof -
  have "\<exists>v' \<in> set (plugin_versions (db approved_world)). version_path (new_version 7 0 6 ''1'' ''u'' [] []) v'"
    using version_follows_review [OF r_into_rtranclp [of plugin_step, OF approved_step] review_world_ok,
        of "hd (plugin_versions (db review_world))" "hd (plugins (db review_world))"]
    by (auto simp: review_rows new_plugin_def new_version_def)
  with approved_rows show ?thesis by (auto simp: list_all_iff)
qed

text \<open>
  The search for a free slug always ends: a bundle of a verified vendor is accepted under the first candidate
  that no plugin has, and this slug is well formed.
\<close>

theorem bundle_finds_slug:
  assumes "plugin_ok w" and "require_vendor_owner v u w = (Inr p, w)" and "vnd_status p = ''verified''"
    and "strip n \<noteq> []" "strip c \<noteq> []" "strip a \<noteq> []" "dropWhile (\<lambda>x. x = CHR ''v'') (strip ver) \<noteq> []"
    and "derived_slug (str_or sl (strip n)) \<noteq> []"
  shows "\<exists>x w' k. request (submit_plugin_bundle v u n ver c t a b None sl) w = (Inr x, w')
     \<and> psr_slug x = slug_candidate (derived_slug (str_or sl (strip n))) k \<and> is_slug (psr_slug x)
     \<and> psr_slug x \<notin> plg_slug ` set (plugins (db w))
     \<and> (\<forall>j < k. slug_candidate (derived_slug (str_or sl (strip n))) j \<in> plg_slug ` set (plugins (db w)))"
proof -
  let ?base = "derived_slug (str_or sl (strip n))"
  let ?slug = "free_slug (map plg_slug (plugins (db w))) ?base 0"
  have T: "plugin_typed (next_uuid w) (db w)" using assms(1) by (simp add: plugin_ok_def)
  have own: "verified_vendor v u w = (Inr (), w)"
    using assms(2,3) by (simp add: verified_vendor_def bindE_run raise_if_run)
  have fresh: "filter (\<lambda>r. pvr_plugin_id r = next_uuid w \<and> pvr_version r = z) (plugin_versions (db w)) = []" for z
    using plugin_typedD(5) [OF T] by (fastforce simp: filter_empty_conv)
  have run: "\<exists>x w'. request (submit_plugin_bundle v u n ver c t a b None sl) w = (Inr x, w') \<and> psr_slug x = ?slug"
    using assms(4-8)
    by (simp add: submit_plugin_bundle_def bundle_plugin_def insert_vendor_plugin_def insert_version_def Let_def
        request_run bindE_run run_simps own fresh)
  obtain k where k: "?slug = slug_candidate ?base k" "slug_candidate ?base k \<notin> set (map plg_slug (plugins (db w)))"
    "\<forall>i. 0 \<le> i \<and> i < k \<longrightarrow> slug_candidate ?base i \<in> set (map plg_slug (plugins (db w)))"
    using free_slug_first [of 0 "map plg_slug (plugins (db w))" ?base] by blast
  moreover have "is_slug ?slug" by (rule free_slug_is_slug [OF derived_slug_is_slug [OF assms(8)]])
  ultimately show ?thesis using run by auto
qed

lemma bundle_finds_slug_witness:
  "\<exists>x w'. request (submit_plugin_bundle 5 3 '' N!'' ''v2'' ''x'' [] ''u'' [] None None) review_world = (Inr x, w')
     \<and> is_slug (psr_slug x) \<and> psr_slug x \<noteq> ''n''"
proof -
  have texts: "strip '' N!'' \<noteq> []" "strip ''x'' \<noteq> []" "strip ''u'' \<noteq> []"
    "dropWhile (\<lambda>x. x = CHR ''v'') (strip ''v2'') \<noteq> []" "derived_slug (str_or None (strip '' N!'')) \<noteq> []"
    by code_simp+
  have owner: "require_vendor_owner 5 3 review_world = (Inr (hd (vendor_profiles plugin_db)), review_world)"
    "vnd_status (hd (vendor_profiles plugin_db)) = ''verified''"
    by (simp_all add: require_vendor_owner_def review_world_def Let_def plugin_db_def run_simps bindE_run)
  have "''n'' \<in> plg_slug ` set (plugins (db review_world))" by (simp add: review_rows new_plugin_def)
  with bundle_finds_slug [OF review_world_ok owner texts, where t = "[]" and b = "[]"]
  show ?thesis by metis
qed

text \<open>
  Deactivating a standard plugin the platform has withdrawn is committed, and yet answered with an error:
  the plugin is looked up in the list of active ones after the commit.
\<close>

theorem withdrawn_deactivation_error:
  assumes "require_vendor_owner v u w = (Inr pr, w)" and "get_row plg_id i (plugins (db w)) = Some p"
    and "plg_owner_kind p = ''platform''" "plg_status p \<noteq> ''active''"
    and "activation_of (db w) v i = [a]" and "distinct (map plg_id (plugins (db w)))"
  shows "\<exists>w'. request (deactivate_standard_plugin v u i) w = (Inl (NotFoundError ''standard plugin not found''), w')
     \<and> activation_of (db w') v i = [a\<lparr>act_status := ''inactive'', act_updated_at := clock w\<rparr>]"
proof -
  let ?f = "\<lambda>a. a\<lparr>act_status := ''inactive'', act_updated_at := clock w\<rparr>"
  let ?acts = "upd_row act_id (act_id a) ?f (vendor_plugin_activations (db w))"
  have own: "require_vendor_owner v u w1 = (Inr pr, w1)"
    if "org_memberships (db w1) = org_memberships (db w)" "vendor_profiles (db w1) = vendor_profiles (db w)" for w1 :: world
    using assms(1) that
    by (auto simp: require_vendor_owner_def bindE_run run_simps raise_if_run split: option.splits list.splits if_splits)
  have acts: "filter (\<lambda>x. act_vendor_id x = v \<and> act_plugin_id x = i) (upd_row act_id k ?f rows)
      = map (\<lambda>x. if act_id x = k then ?f x else x) (filter (\<lambda>x. act_vendor_id x = v \<and> act_plugin_id x = i) rows)"
    for k rows by (induction rows) auto
  have after: "filter (\<lambda>x. act_vendor_id x = v \<and> act_plugin_id x = i) ?acts = [?f a]"
    using assms(5) unfolding acts activation_of_def by simp
  have gone: "find (\<lambda>x. vsp_plugin_id x = i) (map (vendor_standard_view d v) (standard_query d None None)) = None"
    if "plugins d = plugins (db w)" for d
  proof -
    have "plg_id q \<noteq> i" if q: "q \<in> set (standard_query d None None)" for q
    proof
      assume "plg_id q = i"
      moreover have "q \<in> set (plugins (db w))" "plg_status q = ''active''"
        using q \<open>plugins d = plugins (db w)\<close> by (auto simp: standard_query_def)
      ultimately have "q = p"
        using get_row_unique [of plg_id "plugins (db w)" q] assms(2,6) by simp
      with \<open>plg_status q = ''active''\<close> assms(4) show False by simp
    qed
    then show ?thesis by (auto simp: find_None_iff vendor_standard_view_def)
  qed
  show ?thesis
    using assms(2,3,5)
    by (simp add: deactivate_standard_plugin_def vendor_view_of_def list_vendor_standard_plugins_def request_run
        bindE_run run_simps own gone after
        activation_of_def [of "_\<lparr>audit_log := _\<rparr>"])
qed

definition withdrawn_world :: world where
  "withdrawn_world = \<lparr>db = plugin_db\<lparr>
       plugins := [\<lparr>plg_id = 1, plg_vendor_id = None, plg_owner_kind = ''platform'', plg_name = ''N'', plg_slug = ''n'',
         plg_category = ''C'', plg_short_description = [], plg_status = ''archived'', plg_requirements = [],
         plg_created_at = 0, plg_updated_at = 0\<rparr>],
       vendor_plugin_activations := [\<lparr>act_id = 2, act_vendor_id = 5, act_plugin_id = 1, act_status = ''active'',
         act_activated_at = 0, act_updated_at = 0\<rparr>]\<rparr>, disk = plugin_db, clock = 9, next_uuid = 8\<rparr>"

lemma withdrawn_deactivation_error_witness:
  "\<exists>w'. request (deactivate_standard_plugin 5 3 1) withdrawn_world
      = (Inl (NotFoundError ''standard plugin not found''), w')
    \<and> map act_status (activation_of (db w') 5 1) = [''inactive'']"
proof -
  let ?p = "hd (plugins (db withdrawn_world))" and ?a = "hd (vendor_plugin_activations (db withdrawn_world))"
  have w: "require_vendor_owner 5 3 withdrawn_world = (Inr (hd (vendor_profiles plugin_db)), withdrawn_world)"
    "get_row plg_id 1 (plugins (db withdrawn_world)) = Some ?p" "plg_owner_kind ?p = ''platform''"
    "plg_status ?p \<noteq> ''active''" "activation_of (db withdrawn_world) 5 1 = [?a]"
    "distinct (map plg_id (plugins (db withdrawn_world)))"
    by code_simp+
  from withdrawn_deactivation_error [OF w] show ?thesis by auto
qed

end
