(* ===== verification/Identity_Base.thy ===== *)
theory Identity_Base
  imports Outbox Vendor_Service Authz_Seed
begin

section \<open>Identity: validators, secrets and the services outside the repository\<close>

text \<open>
  \<open>identity/domain/security.py\<close>, \<open>identity/domain/validators.py\<close>, the adapters of
  \<open>identity/infrastructure/bootstrap_adapters.py\<close> and the settings the identity services read.

  Keycloak, the password hashing of passlib, the tokens of jose and the random draws of \<open>secrets\<close> are not in
  the repository: they are the arguments \<open>K\<close> and \<open>C\<close> of the operations that use them. A Keycloak call answers
  with an exception or a value, and touches no table. A random draw takes a value of the supply that \<open>uuid4()\<close>
  uses, so that two draws differ as two identifiers do. A decoded token is its claims; \<open>None\<close> is any
  \<open>JWTError\<close>.
\<close>

record settings =
  stg_app_env :: string
  stg_platform_realm_name :: string
  stg_platform_issuer_url :: string
  stg_otp_ttl_minutes :: int
  stg_reset_token_ttl_minutes :: int
  stg_jwt_access_ttl_seconds :: int
  stg_jwt_refresh_ttl_days :: int
  stg_workflow_mode :: string
  stg_platform_operator_emails :: string

record keycloak =
  kc_create_user :: "string \<Rightarrow> string \<Rightarrow> string \<Rightarrow> error + string"
  kc_delete_user :: "string \<Rightarrow> string \<Rightarrow> error + unit"
  kc_authenticate :: "string \<Rightarrow> string \<Rightarrow> string \<Rightarrow> error + string"
  kc_set_password :: "string \<Rightarrow> string \<Rightarrow> string \<Rightarrow> string option \<Rightarrow> error + string"
  kc_create_realm :: "string \<Rightarrow> error + string"
  kc_reset_mfa :: "string \<Rightarrow> string \<Rightarrow> error + unit"
  kc_has_mfa :: "string \<Rightarrow> string \<Rightarrow> error + bool"

record crypto =
  cry_hash :: "uuid \<Rightarrow> string \<Rightarrow> string"
  cry_verify :: "string \<Rightarrow> string \<Rightarrow> bool"
  cry_token :: "nat \<Rightarrow> uuid \<Rightarrow> string"
  cry_hex :: "nat \<Rightarrow> uuid \<Rightarrow> string"
  cry_below :: "nat \<Rightarrow> uuid \<Rightarrow> nat"
  cry_jwt_encode :: "payload \<Rightarrow> string"
  cry_jwt_decode :: "instant \<Rightarrow> string \<Rightarrow> payload option"

definition of_reply :: "error + 'a \<Rightarrow> 'a op" where
  "of_reply r = (case r of Inl e \<Rightarrow> raise e | Inr x \<Rightarrow> ret x)"

definition dev_mode :: "settings \<Rightarrow> bool" where
  "dev_mode S = (lower (str_or (Some (stg_app_env S)) ''dev'') \<in> {''dev'', ''test''})"

text \<open>\<open>str.split(sep)\<close> for a separator of one character.\<close>

fun split_at :: "char \<Rightarrow> string \<Rightarrow> string list" where
  "split_at x [] = [[]]"
| "split_at x (c # cs) =
     (if c = x then [] # split_at x cs
      else case split_at x cs of [] \<Rightarrow> [[c]] | w # ws \<Rightarrow> (c # w) # ws)"

definition operator_email_set :: "settings \<Rightarrow> string list" where
  "operator_email_set S =
     map (\<lambda>e. lower (strip e)) (filter (\<lambda>e. strip e \<noteq> []) (split_at (CHR '','') (stg_platform_operator_emails S)))"

subsection \<open>Secrets\<close>

definition minutes :: "int \<Rightarrow> int" where
  "minutes n = n * 60000000"

definition hash_secret :: "crypto \<Rightarrow> string \<Rightarrow> string op" where
  "hash_secret C value = bindE uuid4 (\<lambda>salt. ret (cry_hash C salt value))"

definition token_urlsafe :: "crypto \<Rightarrow> nat \<Rightarrow> string op" where
  "token_urlsafe C n = bindE uuid4 (\<lambda>draw. ret (cry_token C n draw))"

text \<open>\<open>f"{n:06d}"\<close>.\<close>

definition six_digits :: "nat \<Rightarrow> string" where
  "six_digits n = replicate (6 - length (nat_str n)) (CHR ''0'') @ nat_str n"

definition generate_otp :: "crypto \<Rightarrow> string op" where
  "generate_otp C = bindE uuid4 (\<lambda>draw. ret (six_digits (cry_below C 1000000 draw)))"

definition otp_expires_at :: "settings \<Rightarrow> instant op" where
  "otp_expires_at S = bindE utcnow (\<lambda>now. ret (now + minutes (stg_otp_ttl_minutes S)))"

definition refresh_expires_at :: "settings \<Rightarrow> instant op" where
  "refresh_expires_at S = bindE utcnow (\<lambda>now. ret (now + days (stg_jwt_refresh_ttl_days S)))"

text \<open>
  \<open>UUID(text)\<close>: \<open>urn:\<close> and \<open>uuid:\<close> removed, braces stripped, hyphens dropped, then 32 hexadecimal digits. What
  \<open>int(hex, 16)\<close> takes beyond digits (a sign, \<open>0x\<close>, underscores) is left out.
\<close>

fun remove_all :: "string \<Rightarrow> nat \<Rightarrow> string \<Rightarrow> string" where
  "remove_all t k [] = []"
| "remove_all t (Suc k) (c # cs) = remove_all t k cs"
| "remove_all t 0 (c # cs) =
     (if t \<noteq> [] \<and> startswith (c # cs) t then remove_all t (length t - 1) cs else c # remove_all t 0 cs)"

definition hex_value :: "char \<Rightarrow> nat option" where
  "hex_value c =
     (let n = (of_char c :: nat)
      in if 48 \<le> n \<and> n \<le> 57 then Some (n - 48)
         else if 97 \<le> n \<and> n \<le> 102 then Some (n - 87)
         else if 65 \<le> n \<and> n \<le> 70 then Some (n - 55) else None)"

fun parse_hex :: "nat \<Rightarrow> string \<Rightarrow> nat option" where
  "parse_hex acc [] = Some acc"
| "parse_hex acc (c # cs) =
     (case hex_value c of None \<Rightarrow> None | Some v \<Rightarrow> parse_hex (acc * 16 + v) cs)"

definition uuid_of_text :: "string \<Rightarrow> uuid option" where
  "uuid_of_text s =
     (let bare = remove_all ''uuid:'' 0 (remove_all ''urn:'' 0 s);
          inner = rev (dropWhile (\<lambda>c. c \<in> set ''{}'') (rev (dropWhile (\<lambda>c. c \<in> set ''{}'') bare)));
          hex = filter (\<lambda>c. c \<noteq> CHR ''-'') inner
      in if length hex = 32 then parse_hex 0 hex else None)"

definition make_reset_token_composite :: "string \<Rightarrow> string \<Rightarrow> string" where
  "make_reset_token_composite token_id secret = token_id @ ''.'' @ secret"

definition split_reset_token :: "string \<Rightarrow> (string \<times> string) option" where
  "split_reset_token composite =
     (let token_id = takeWhile (\<lambda>c. c \<noteq> CHR ''.'') composite;
          secret = drop (Suc (length token_id)) composite
      in if composite = [] \<or> CHR ''.'' \<notin> set composite then None
         else if token_id = [] \<or> secret = [] then None
         else Some (token_id, secret))"

subsection \<open>Validators\<close>

text \<open>
  \<open>re.match\<close> against the three lookaheads and \<open>.{10,}$\<close>: \<open>.\<close> stops at a line break, and \<open>$\<close> also matches before
  a final one. The character that is no letter or digit may be that line break itself.
\<close>

definition password_ok :: "string \<Rightarrow> bool" where
  "password_ok s =
     (let line = takeWhile (\<lambda>c. c \<noteq> char_of (10::nat)) s; rest = drop (length line) s
      in length line \<ge> 10 \<and> rest \<in> {[], [char_of (10::nat)]}
         \<and> list_ex is_capital line \<and> list_ex is_digit line
         \<and> list_ex (\<lambda>c. \<not> is_alpha c \<and> \<not> is_digit c) (line @ rest))"

definition validate_password :: "string \<Rightarrow> unit op" where
  "validate_password s =
     raise_if (\<not> password_ok s) (ValidationError ''password does not meet requirements'')"

definition without_newline :: "string \<Rightarrow> string" where
  "without_newline s = (if s \<noteq> [] \<and> last s = char_of (10::nat) then butlast s else s)"

definition validate_email :: "string \<Rightarrow> unit op" where
  "validate_email s = raise_if (\<not> is_email (without_newline s)) (ValidationError ''invalid email format'')"

definition validate_display_name :: "string \<Rightarrow> unit op" where
  "validate_display_name s =
     raise_if (s = [] \<or> strip s = [] \<or> length s > 255) (ValidationError ''display_name is required'')"

subsection \<open>The adapters\<close>

definition has_tenant_permission :: "bool \<Rightarrow> uuid \<Rightarrow> uuid \<Rightarrow> string \<Rightarrow> bool op" where
  "has_tenant_permission b user tenant code =
     bindE (reads (\<lambda>d. get_row usr_id user (users d))) (\<lambda>found.
     (case found of
        None \<Rightarrow> ret False
      | Some u \<Rightarrow>
          bindE (authorize (build_authorization_service b)
                   (public_command (usr_principal_id u) tenant code None)) (\<lambda>result.
          ret (azr_allowed result))))"

definition session_belongs_to_tenant :: "uuid \<Rightarrow> uuid \<Rightarrow> bool op" where
  "session_belongs_to_tenant user tenant =
     bindE (reads (\<lambda>d. get_row usr_id user (users d))) (\<lambda>found.
     (case found of
        None \<Rightarrow> ret False
      | Some u \<Rightarrow> sql_has_active_tenant_membership (usr_principal_id u) tenant))"

record bootstrap_result =
  bsr_org_id :: uuid
  bsr_tenant_id :: uuid
  bsr_project_id :: uuid
  bsr_tenant_admin_role_id :: uuid

definition new_organization ::
  "uuid \<Rightarrow> instant \<Rightarrow> string \<Rightarrow> string \<Rightarrow> string \<Rightarrow> organization_row"
where
  "new_organization i now name slug kind =
     \<lparr>org_id = i, org_name = name, org_slug = slug, org_type = kind, org_participation = ''consumer'',
      org_is_platform_operator = False, org_keycloak_realm_ref = None, org_status = ''active'',
      org_created_at = now\<rparr>"

definition new_org_membership :: "uuid \<Rightarrow> uuid \<Rightarrow> uuid \<Rightarrow> string \<Rightarrow> string \<Rightarrow> org_membership_row" where
  "new_org_membership i org user role status =
     \<lparr>omb_id = i, omb_organization_id = org, omb_user_id = user, omb_role = role, omb_status = status\<rparr>"

definition new_tenant :: "uuid \<Rightarrow> instant \<Rightarrow> uuid \<Rightarrow> string \<Rightarrow> string \<Rightarrow> tenant_row" where
  "new_tenant i now org name slug =
     \<lparr>ten_id = i, ten_organization_id = org, ten_name = name, ten_slug = slug, ten_status = ''active'',
      ten_created_at = now\<rparr>"

definition new_tenant_membership :: "uuid \<Rightarrow> uuid \<Rightarrow> uuid \<Rightarrow> tenant_membership_row" where
  "new_tenant_membership i tenant user =
     \<lparr>tmb_id = i, tmb_tenant_id = tenant, tmb_user_id = user, tmb_status = ''active''\<rparr>"

definition tenant_binding ::
  "uuid \<Rightarrow> instant \<Rightarrow> uuid \<Rightarrow> uuid \<Rightarrow> uuid \<Rightarrow> uuid option \<Rightarrow> string option \<Rightarrow> principal_role_row"
where
  "tenant_binding i now prin role tenant assigned why =
     \<lparr>prl_id = i, prl_principal_id = prin, prl_role_id = role, prl_scope_type = ''tenant'',
      prl_tenant_id = Some tenant, prl_operator_org_id = None, prl_status = ''active'',
      prl_assigned_by = assigned, prl_valid_from = now, prl_valid_until = None, prl_revoked_at = None,
      prl_justification = why, prl_created_at = now\<rparr>"

definition email_slug_base :: "string \<Rightarrow> string" where
  "email_slug_base email =
     str_or (Some (strip_char (CHR ''-'') (dash_runs False (lower (takeWhile (\<lambda>c. c \<noteq> CHR ''@'') email))))) ''user''"

definition seed_roles :: "uuid \<Rightarrow> (string \<times> uuid) list op" where
  "seed_roles tenant =
     bindE (seed_tenant_system_roles tenant) (\<lambda>_.
     reads (\<lambda>d. map (\<lambda>r. (rol_name r, rol_id r))
       (rev (filter (\<lambda>r. rol_scope_type r = ''tenant'' \<and> rol_tenant_id r = Some tenant) (roles d)))))"

definition bootstrap_individual_org :: "uuid \<Rightarrow> uuid \<Rightarrow> string \<Rightarrow> string \<Rightarrow> bootstrap_result op" where
  "bootstrap_individual_org user prin email display_name =
     (let slug_base = email_slug_base email in
     bindE utcnow (\<lambda>now.
     bindE uuid4 (\<lambda>org.
     bindE (modifies (organizations_update (\<lambda>rows. rows @
        [new_organization org now (display_name @ '' workspace'')
           (slug_base @ ''-'' @ take 8 (uuid_str user)) ''individual'']))) (\<lambda>_.
     bindE uuid4 (\<lambda>m.
     bindE (modifies (org_memberships_update (\<lambda>rows. rows @
        [new_org_membership m org user ''owner'' ''active'']))) (\<lambda>_.
     bindE uuid4 (\<lambda>tenant.
     bindE (modifies (tenants_update (\<lambda>rows. rows @
        [new_tenant tenant now org ''default'' (slug_base @ ''-default'')]))) (\<lambda>_.
     bindE uuid4 (\<lambda>tm.
     bindE (modifies (tenant_memberships_update (\<lambda>rows. rows @ [new_tenant_membership tm tenant user]))) (\<lambda>_.
     bindE uuid4 (\<lambda>project.
     bindE (modifies (projects_update (\<lambda>rows. rows @
        [\<lparr>prj_id = project, prj_tenant_id = tenant, prj_name = ''default-project'', prj_status = ''active'',
          prj_created_at = now\<rparr>]))) (\<lambda>_.
     bindE (seed_roles tenant) (\<lambda>role_ids.
     bindE (the_or (map_of role_ids ''tenant-admin'') KeyError) (\<lambda>role.
     bindE uuid4 (\<lambda>b.
     bindE (modifies (principal_roles_update (\<lambda>rows. rows @
        [tenant_binding b now prin role tenant (Some prin) None]))) (\<lambda>_.
     ret \<lparr>bsr_org_id = org, bsr_tenant_id = tenant, bsr_project_id = project,
          bsr_tenant_admin_role_id = role\<rparr>))))))))))))))))"

end
