(* ===== verification/Identity_Service.thy ===== *)
theory Identity_Service
  imports Identity_Base
begin

section \<open>The identity service\<close>

text \<open>
  \<open>IdentityApplicationService\<close> of \<open>identity/application/identity_service.py\<close>: registration with its e-mail
  verification, login and refresh, the revocation of sessions, and the reset of a password.
\<close>

subsection \<open>Helpers\<close>

definition user_by_email :: "string \<Rightarrow> user_row option op" where
  "user_by_email email =
     bindE (reads (\<lambda>d. filter (\<lambda>u. usr_normalized_email u = lower email) (users d))) one_or_none"

definition realm_by_name :: "string \<Rightarrow> realm_row option op" where
  "realm_by_name name =
     bindE (reads (\<lambda>d. filter (\<lambda>r. rlm_realm_name r = name) (identity_realms d))) one_or_none"

definition platform_realm :: "settings \<Rightarrow> realm_row op" where
  "platform_realm S =
     bindE (realm_by_name (stg_platform_realm_name S)) (\<lambda>found.
     the_or found (NotFoundError ''platform realm not configured''))"

definition realm_issuer :: "realm_row \<Rightarrow> string" where
  "realm_issuer r = str_or (Some (rlm_issuer r)) (rlm_issuer_url r)"

definition latest_verification_token :: "database \<Rightarrow> uuid \<Rightarrow> verification_token_row option" where
  "latest_verification_token d user =
     first_row (sort_desc vtk_created_at (filter (\<lambda>t. vtk_user_id t = user) (verification_tokens d)))"

definition revoked_session :: "instant \<Rightarrow> session_row \<Rightarrow> session_row" where
  "revoked_session now s = s\<lparr>ses_status := ''revoked'', ses_revoked_at := Some now, ses_refresh_token_hash := None\<rparr>"

definition revoke_session :: "session_row \<Rightarrow> uuid \<Rightarrow> unit op" where
  "revoke_session s actor =
     bindE utcnow (\<lambda>now.
     bindE (modifies (sessions_update (upd_row ses_id (ses_id s) (revoked_session now)))) (\<lambda>_.
     audit ''user.session_revoked'' (Some actor) None []))"

definition active_sessions :: "database \<Rightarrow> uuid \<Rightarrow> session_row list" where
  "active_sessions d user = filter (\<lambda>s. ses_user_id s = user \<and> ses_status s = ''active'') (sessions d)"

definition build_access_token :: "crypto \<Rightarrow> settings \<Rightarrow> string \<Rightarrow> string \<Rightarrow> uuid \<Rightarrow> string \<Rightarrow> uuid \<Rightarrow> uuid \<Rightarrow> string op" where
  "build_access_token C S sub iss sid typ uid pid =
     bindE utcnow (\<lambda>now.
     ret (cry_jwt_encode C
       [(''sub'', JStr sub), (''iss'', JStr iss), (''exp'', JInt (now + stg_jwt_access_ttl_seconds S * 1000000)),
        (''sid'', JUuid sid), (''typ'', JStr typ), (''uid'', JUuid uid), (''pid'', JUuid pid)]))"

definition insert_delivery :: "instant \<Rightarrow> string \<Rightarrow> string \<Rightarrow> uuid op" where
  "insert_delivery expires purpose secret =
     bindE uuid4 (\<lambda>i.
     bindE (modifies (delivery_secrets_update (\<lambda>rows. rows @
        [\<lparr>dsc_id = i, dsc_purpose = purpose, dsc_secret_plain = Some secret, dsc_expires_at = expires,
          dsc_consumed_at = None\<rparr>]))) (\<lambda>_.
     ret i))"

definition insert_event :: "string \<Rightarrow> payload \<Rightarrow> unit op" where
  "insert_event kind p =
     bindE uuid4 (\<lambda>i.
     bindE utcnow (\<lambda>now.
     modifies (outbox_events_update (\<lambda>rows. rows @
        [\<lparr>obx_id = i, obx_type = kind, obx_payload = p, obx_status = ''pending'', obx_retry_count = 0,
          obx_created_at = now, obx_processed_at = None\<rparr>]))))"

subsection \<open>Registration\<close>

record register_result =
  rgr_user_id :: uuid
  rgr_org_id :: uuid
  rgr_tenant_id :: uuid
  rgr_status :: string
  rgr_dev_otp :: "string option"

definition insert_user :: "string \<Rightarrow> string \<Rightarrow> user_row op" where
  "insert_user normalized display_name =
     bindE utcnow (\<lambda>now.
     bindE uuid4 (\<lambda>p.
     bindE (modifies (principals_update (\<lambda>rows. rows @
        [\<lparr>pri_id = p, pri_type = ''user'', pri_status = ''inactive''\<rparr>]))) (\<lambda>_.
     bindE uuid4 (\<lambda>u.
     let user = \<lparr>usr_id = u, usr_principal_id = p, usr_email = normalized, usr_normalized_email = normalized,
                 usr_display_name = strip display_name, usr_status = ''pending_verification'',
                 usr_last_login_at = None, usr_created_at = now\<rparr>
     in bindE (modifies (users_update (\<lambda>rows. rows @ [user]))) (\<lambda>_. ret user)))))"

definition insert_credential :: "crypto \<Rightarrow> uuid \<Rightarrow> uuid \<Rightarrow> string \<Rightarrow> string \<Rightarrow> unit op" where
  "insert_credential C prin realm subject password =
     bindE uuid4 (\<lambda>i.
     bindE (hash_secret C password) (\<lambda>h.
     modifies (credentials_update (\<lambda>rows. rows @
        [\<lparr>crd_id = i, crd_principal_id = prin, crd_realm_id = realm, crd_keycloak_subject = subject,
          crd_password_hash = Some h, crd_type = ''password_delegated'', crd_status = ''active''\<rparr>]))))"

definition start_verification :: "crypto \<Rightarrow> settings \<Rightarrow> user_row \<Rightarrow> string op" where
  "start_verification C S user =
     bindE (generate_otp C) (\<lambda>otp.
     bindE utcnow (\<lambda>now.
     bindE uuid4 (\<lambda>v.
     bindE (hash_secret C otp) (\<lambda>h.
     bindE (otp_expires_at S) (\<lambda>expires.
     bindE (modifies (verification_tokens_update (\<lambda>rows. rows @
        [\<lparr>vtk_id = v, vtk_user_id = usr_id user, vtk_otp_hash = h, vtk_expires_at = expires,
          vtk_created_at = now\<rparr>]))) (\<lambda>_.
     bindE (insert_delivery expires ''verification_email'' otp) (\<lambda>delivery.
     bindE (insert_event ''send_verification_email''
              [(''email'', JStr (usr_email user)), (''user_id'', JUuid (usr_id user)),
               (''verification_token_id'', JUuid v), (''delivery_secret_id'', JUuid delivery)]) (\<lambda>_.
     ret otp))))))))"

text \<open>The part of the registration inside the \<open>try\<close>, after Keycloak has made the user.\<close>

definition register_locally ::
  "crypto \<Rightarrow> settings \<Rightarrow> realm_row \<Rightarrow> string \<Rightarrow> string \<Rightarrow> string \<Rightarrow> string \<Rightarrow> register_result op"
where
  "register_locally C S realm subject email password display_name =
     bindE (insert_user (lower email) display_name) (\<lambda>user.
     bindE (insert_credential C (usr_principal_id user) (rlm_id realm) subject password) (\<lambda>_.
     bindE (bootstrap_individual_org (usr_id user) (usr_principal_id user) email display_name) (\<lambda>bootstrap.
     bindE (start_verification C S user) (\<lambda>otp.
     let actor = Some (usr_id user); tenant = Some (bsr_tenant_id bootstrap) in
     bindE (audit ''user.registered'' actor tenant []) (\<lambda>_.
     bindE (audit ''credential.created'' actor None []) (\<lambda>_.
     bindE (audit ''org.created'' actor tenant []) (\<lambda>_.
     bindE (audit ''tenant.created'' actor tenant []) (\<lambda>_.
     bindE (audit ''roles.seeded'' actor tenant []) (\<lambda>_.
     bindE (audit ''role_binding.created'' actor tenant []) (\<lambda>_.
     bindE commit (\<lambda>_.
     ret \<lparr>rgr_user_id = usr_id user, rgr_org_id = bsr_org_id bootstrap, rgr_tenant_id = bsr_tenant_id bootstrap,
          rgr_status = usr_status user, rgr_dev_otp = (if dev_mode S then Some otp else None)\<rparr>)))))))))))"

definition register_user ::
  "keycloak \<Rightarrow> crypto \<Rightarrow> settings \<Rightarrow> string \<Rightarrow> string \<Rightarrow> string \<Rightarrow> bool \<Rightarrow> register_result op"
where
  "register_user K C S email password display_name agreed_to_terms =
     bindE (validate_email email) (\<lambda>_.
     bindE (validate_password password) (\<lambda>_.
     bindE (validate_display_name display_name) (\<lambda>_.
     bindE (raise_if (\<not> agreed_to_terms) (ValidationError ''terms of service must be accepted'')) (\<lambda>_.
     bindE (user_by_email email) (\<lambda>existing.
     bindE (raise_if (existing \<noteq> None) (ConflictError ''email already registered'')) (\<lambda>_.
     bindE (platform_realm S) (\<lambda>realm.
     bindE (catch (of_reply (kc_create_user K (rlm_realm_name realm) email password))
              (\<lambda>e. bindE rollback (\<lambda>_. raise e))) (\<lambda>subject.
     catch (register_locally C S realm subject email password display_name)
       (\<lambda>e. bindE rollback (\<lambda>_.
            bindE (if subject = [] then ret () else of_reply (kc_delete_user K (stg_platform_realm_name S) subject)) (\<lambda>_.
            raise e)))))))))))"

definition activate_user :: "user_row \<Rightarrow> unit op" where
  "activate_user user =
     bindE (modifies (users_update (upd_row usr_id (usr_id user) (\<lambda>u. u\<lparr>usr_status := ''active''\<rparr>)))) (\<lambda>_.
     modifies (principals_update (upd_row pri_id (usr_principal_id user) (\<lambda>p. p\<lparr>pri_status := ''active''\<rparr>))))"

definition verify_email :: "crypto \<Rightarrow> string \<Rightarrow> string \<Rightarrow> uuid op" where
  "verify_email C email otp_code =
     bindE (user_by_email email) (\<lambda>found.
     bindE (the_or found (ValidationError ''invalid or expired OTP'')) (\<lambda>user.
     bindE (raise_if (usr_status user = ''active'') (ConflictError ''user already verified'')) (\<lambda>_.
     bindE (raise_if (usr_status user \<noteq> ''pending_verification'') (ForbiddenError ''account is not accessible'')) (\<lambda>_.
     bindE utcnow (\<lambda>now.
     bindE (reads (\<lambda>d. latest_verification_token d (usr_id user))) (\<lambda>token.
     bindE (raise_if (case token of None \<Rightarrow> True
              | Some t \<Rightarrow> vtk_expires_at t < now \<or> \<not> cry_verify C otp_code (vtk_otp_hash t))
              (ValidationError ''invalid or expired OTP'')) (\<lambda>_.
     bindE (activate_user user) (\<lambda>_.
     bindE (audit ''user.email_verified'' (Some (usr_id user)) None []) (\<lambda>_.
     bindE commit (\<lambda>_.
     ret (usr_id user)))))))))))"

end
