(* ===== verification/Identity_Sessions.thy ===== *)
theory Identity_Sessions
  imports Identity_Service
begin

section \<open>The identity service: sessions and passwords\<close>

text \<open>The rest of \<open>IdentityApplicationService\<close>: login, refresh, revocation, the profile and the password reset.\<close>

subsection \<open>Login\<close>

record token_pair =
  tkp_access_token :: string
  tkp_refresh_token :: string
  tkp_expires_in :: int
  tkp_session_id :: uuid
  tkp_user_id :: uuid
  tkp_principal_id :: uuid

definition update_credential :: "uuid \<Rightarrow> (credential_row \<Rightarrow> credential_row) \<Rightarrow> unit op" where
  "update_credential i f = modifies (credentials_update (upd_row crd_id i f))"

definition keycloak_subject_for_login ::
  "keycloak \<Rightarrow> crypto \<Rightarrow> string \<Rightarrow> string \<Rightarrow> string \<Rightarrow> credential_row \<Rightarrow> string op"
where
  "keycloak_subject_for_login K C realm email password credential =
     bindE (catch (of_reply (kc_authenticate K realm email password))
              (\<lambda>e. case e of ValueError _ \<Rightarrow> ret [] | _ \<Rightarrow> raise e)) (\<lambda>subject.
     if subject \<noteq> []
     then bindE (update_credential (crd_id credential) (\<lambda>c. c\<lparr>crd_keycloak_subject := subject\<rparr>)) (\<lambda>_.
          bindE (if str_or (crd_password_hash credential) [] = []
                 then bindE (hash_secret C password) (\<lambda>h.
                      update_credential (crd_id credential) (\<lambda>c. c\<lparr>crd_password_hash := Some h\<rparr>))
                 else ret ()) (\<lambda>_.
          ret subject))
     else
       bindE (raise_if (str_or (crd_password_hash credential) [] = []
                \<or> \<not> cry_verify C password (str_or (crd_password_hash credential) []))
                (UnauthorizedError ''invalid credentials'')) (\<lambda>_.
       bindE (of_reply (kc_set_password K realm (crd_keycloak_subject credential) password (Some email))) (\<lambda>new_subject.
       bindE (update_credential (crd_id credential) (\<lambda>c. c\<lparr>crd_keycloak_subject := new_subject\<rparr>)) (\<lambda>_.
       ret new_subject))))"

definition issue_tokens :: "crypto \<Rightarrow> settings \<Rightarrow> user_row \<Rightarrow> string \<Rightarrow> string \<Rightarrow> token_pair op" where
  "issue_tokens C S user subject issuer =
     bindE (token_urlsafe C 48) (\<lambda>refresh.
     bindE uuid4 (\<lambda>sid.
     bindE (hash_secret C refresh) (\<lambda>h.
     bindE (refresh_expires_at S) (\<lambda>expires.
     bindE utcnow (\<lambda>now.
     bindE (modifies (sessions_update (\<lambda>rows. rows @
        [\<lparr>ses_id = sid, ses_user_id = usr_id user, ses_status = ''active'', ses_refresh_token_hash = Some h,
          ses_expires_at = expires, ses_last_active_at = Some now, ses_revoked_at = None, ses_created_at = now\<rparr>]))) (\<lambda>_.
     bindE (modifies (users_update (upd_row usr_id (usr_id user) (\<lambda>u. u\<lparr>usr_last_login_at := Some now\<rparr>)))) (\<lambda>_.
     bindE (build_access_token C S subject issuer sid ''user'' (usr_id user) (usr_principal_id user)) (\<lambda>access.
     bindE (audit ''user.login'' (Some (usr_id user)) None []) (\<lambda>_.
     bindE commit (\<lambda>_.
     ret \<lparr>tkp_access_token = access, tkp_refresh_token = refresh, tkp_expires_in = stg_jwt_access_ttl_seconds S,
          tkp_session_id = sid, tkp_user_id = usr_id user, tkp_principal_id = usr_principal_id user\<rparr>))))))))))"

definition login ::
  "keycloak \<Rightarrow> crypto \<Rightarrow> settings \<Rightarrow> string \<Rightarrow> string \<Rightarrow> string option \<Rightarrow> token_pair op"
where
  "login K C S email password realm_hint =
     bindE (user_by_email email) (\<lambda>found.
     bindE (the_or found (UnauthorizedError ''invalid credentials'')) (\<lambda>user.
     bindE (realm_by_name (str_or realm_hint (stg_platform_realm_name S))) (\<lambda>found_realm.
     bindE (the_or found_realm (UnauthorizedError ''invalid credentials'')) (\<lambda>realm.
     bindE (raise_if (usr_status user \<noteq> ''active'') (ForbiddenError ''account is not accessible'')) (\<lambda>_.
     bindE (reads (\<lambda>d. get_row pri_id (usr_principal_id user) (principals d))) (\<lambda>prin.
     bindE (raise_if (case prin of None \<Rightarrow> True | Some p \<Rightarrow> pri_status p \<noteq> ''active'')
              (ForbiddenError ''account is not accessible'')) (\<lambda>_.
     bindE (reads (\<lambda>d. filter (\<lambda>c. crd_principal_id c = usr_principal_id user \<and> crd_realm_id c = rlm_id realm
              \<and> crd_status c = ''active'') (credentials d))) (\<lambda>rows.
     bindE (one_or_none rows) (\<lambda>found_credential.
     bindE (the_or found_credential (UnauthorizedError ''invalid credentials'')) (\<lambda>credential.
     bindE (keycloak_subject_for_login K C (rlm_realm_name realm) email password credential) (\<lambda>subject.
     issue_tokens C S user subject (realm_issuer realm))))))))))))"

subsection \<open>Refresh\<close>

record refresh_result =
  rfr_access_token :: string
  rfr_refresh_token :: string
  rfr_expires_in :: int
  rfr_session_id :: uuid

text \<open>A session that must not be refreshed any more is revoked, committed, and the call fails.\<close>

definition kill_session :: "session_row \<Rightarrow> 'a op" where
  "kill_session s =
     bindE (revoke_session s (ses_user_id s)) (\<lambda>_.
     bindE commit (\<lambda>_.
     raise (UnauthorizedError ''refresh token invalid / expired'')))"

definition rotate_refresh ::
  "crypto \<Rightarrow> settings \<Rightarrow> session_row \<Rightarrow> user_row \<Rightarrow> credential_row \<Rightarrow> refresh_result op"
where
  "rotate_refresh C S s user credential =
     bindE (reads (\<lambda>d. get_row rlm_id (crd_realm_id credential) (identity_realms d))) (\<lambda>realm.
     bindE (token_urlsafe C 48) (\<lambda>new_refresh.
     bindE (hash_secret C new_refresh) (\<lambda>h.
     bindE utcnow (\<lambda>now.
     bindE (refresh_expires_at S) (\<lambda>expires.
     bindE (modifies (sessions_update (upd_row ses_id (ses_id s) (\<lambda>r. r\<lparr>ses_refresh_token_hash := Some h,
              ses_last_active_at := Some now, ses_expires_at := expires\<rparr>)))) (\<lambda>_.
     bindE (build_access_token C S (crd_keycloak_subject credential)
              (case realm of None \<Rightarrow> stg_platform_issuer_url S | Some r \<Rightarrow> realm_issuer r)
              (ses_id s) ''user'' (usr_id user) (usr_principal_id user)) (\<lambda>access.
     bindE commit (\<lambda>_.
     ret \<lparr>rfr_access_token = access, rfr_refresh_token = new_refresh,
          rfr_expires_in = stg_jwt_access_ttl_seconds S, rfr_session_id = ses_id s\<rparr>))))))))"

definition refresh_token :: "crypto \<Rightarrow> settings \<Rightarrow> string \<Rightarrow> uuid \<Rightarrow> refresh_result op" where
  "refresh_token C S token session_id =
     bindE (reads (\<lambda>d. get_row ses_id session_id (sessions d))) (\<lambda>found.
     bindE (the_or found (UnauthorizedError ''refresh token invalid / expired'')) (\<lambda>s.
     bindE (raise_if (ses_status s = ''revoked'') (UnauthorizedError ''refresh token invalid / expired'')) (\<lambda>_.
     bindE utcnow (\<lambda>now.
     if ses_expires_at s < now then kill_session s
     else
       bindE (raise_if (str_or (ses_refresh_token_hash s) [] = [])
                (UnauthorizedError ''refresh token invalid / expired'')) (\<lambda>_.
       if \<not> cry_verify C token (str_or (ses_refresh_token_hash s) []) then kill_session s
       else
         bindE (reads (\<lambda>d. get_row usr_id (ses_user_id s) (users d))) (\<lambda>found_user.
         case found_user of
           None \<Rightarrow> kill_session s
         | Some user \<Rightarrow>
             if usr_status user \<noteq> ''active'' then kill_session s
             else
               bindE (reads (\<lambda>d. get_row pri_id (usr_principal_id user) (principals d))) (\<lambda>prin.
               if (case prin of None \<Rightarrow> True | Some p \<Rightarrow> pri_status p \<noteq> ''active'') then kill_session s
               else
                 bindE (reads (\<lambda>d. first_row (filter (\<lambda>c. crd_principal_id c = usr_principal_id user
                          \<and> crd_status c = ''active'') (credentials d)))) (\<lambda>found_credential.
                 bindE (the_or found_credential (UnauthorizedError ''refresh token invalid / expired'')) (\<lambda>credential.
                 rotate_refresh C S s user credential)))))))))"

subsection \<open>Revocation\<close>

definition logout_self :: "uuid \<Rightarrow> uuid \<Rightarrow> unit op" where
  "logout_self session_id actor =
     bindE (reads (\<lambda>d. get_row ses_id session_id (sessions d))) (\<lambda>found.
     bindE (the_or (case found of None \<Rightarrow> None | Some s \<Rightarrow> if ses_user_id s \<noteq> actor then None else Some s)
              (NotFoundError ''session not found'')) (\<lambda>s.
     bindE (revoke_session s actor) (\<lambda>_.
     commit)))"

definition revoke_session_admin :: "bool \<Rightarrow> uuid \<Rightarrow> uuid \<Rightarrow> uuid \<Rightarrow> (uuid \<times> instant) op" where
  "revoke_session_admin b session_id caller tenant =
     bindE (has_tenant_permission b caller tenant ''tenant.admin'') (\<lambda>may.
     bindE (raise_if (\<not> may) (ForbiddenError ''forbidden'')) (\<lambda>_.
     bindE (reads (\<lambda>d. get_row ses_id session_id (sessions d))) (\<lambda>found.
     bindE (the_or found (NotFoundError ''session not found'')) (\<lambda>s.
     bindE (session_belongs_to_tenant (ses_user_id s) tenant) (\<lambda>belongs.
     bindE (raise_if (\<not> belongs) (ForbiddenError ''forbidden'')) (\<lambda>_.
     bindE (revoke_session s caller) (\<lambda>_.
     bindE utcnow (\<lambda>now.
     bindE commit (\<lambda>_.
     ret (ses_id s, now))))))))))"

definition revoke_other_sessions :: "uuid \<Rightarrow> uuid \<Rightarrow> nat op" where
  "revoke_other_sessions current user =
     bindE (reads (\<lambda>d. filter (\<lambda>s. ses_id s \<noteq> current) (active_sessions d user))) (\<lambda>rows.
     bindE (for_each rows (\<lambda>s. revoke_session s user)) (\<lambda>_.
     bindE commit (\<lambda>_.
     ret (length rows))))"

record access_revoked =
  acr_user_id :: uuid
  acr_principal_id :: uuid
  acr_status :: string
  acr_sessions_revoked :: nat

definition lock_user :: "user_row \<Rightarrow> unit op" where
  "lock_user user =
     bindE (modifies (principals_update (upd_row pri_id (usr_principal_id user) (\<lambda>p. p\<lparr>pri_status := ''locked''\<rparr>)))) (\<lambda>_.
     modifies (users_update (upd_row usr_id (usr_id user) (\<lambda>u. u\<lparr>usr_status := ''locked''\<rparr>))))"

definition revoke_principal_access :: "bool \<Rightarrow> uuid \<Rightarrow> uuid \<Rightarrow> uuid \<Rightarrow> access_revoked op" where
  "revoke_principal_access b target caller tenant =
     bindE (has_tenant_permission b caller tenant ''tenant.admin'') (\<lambda>may.
     bindE (raise_if (\<not> may) (ForbiddenError ''forbidden'')) (\<lambda>_.
     bindE (session_belongs_to_tenant target tenant) (\<lambda>belongs.
     bindE (raise_if (\<not> belongs) (ForbiddenError ''forbidden'')) (\<lambda>_.
     bindE (reads (\<lambda>d. get_row usr_id target (users d))) (\<lambda>found.
     bindE (the_or found (NotFoundError ''user not found'')) (\<lambda>user.
     bindE (lock_user user) (\<lambda>_.
     bindE (reads (\<lambda>d. active_sessions d (usr_id user))) (\<lambda>rows.
     bindE (for_each rows (\<lambda>s. revoke_session s caller)) (\<lambda>_.
     bindE (audit ''user.access_revoked'' (Some caller) (Some tenant) []) (\<lambda>_.
     bindE commit (\<lambda>_.
     ret \<lparr>acr_user_id = usr_id user, acr_principal_id = usr_principal_id user, acr_status = ''locked'',
          acr_sessions_revoked = length rows\<rparr>)))))))))))"

end
