(* ===== verification/Identity_Passwords.thy ===== *)
theory Identity_Passwords
  imports Identity_Sessions
begin

section \<open>The identity service: profile, password reset and access tokens\<close>

text \<open>
  \<open>get_me\<close>, \<open>password_reset_request\<close>, \<open>password_reset\<close> and \<open>resolve_user_from_access_token\<close> of
  \<open>identity/application/identity_service.py\<close>.
\<close>

subsection \<open>The profile\<close>

record my_organization =
  myo_org_id :: uuid
  myo_name :: string
  myo_org_type :: string
  myo_participation :: string
  myo_realm_ref :: "string option"
  myo_membership_role :: string
  myo_status :: string

record my_tenant =
  myt_tenant_id :: uuid
  myt_org_id :: uuid
  myt_name :: string
  myt_slug :: string
  myt_status :: string
  myt_membership_status :: string

record my_profile =
  myp_user_id :: uuid
  myp_principal_id :: uuid
  myp_email :: string
  myp_display_name :: string
  myp_status :: string
  myp_is_platform_operator :: bool
  myp_last_login_at :: "instant option"
  myp_mfa_enabled :: bool
  myp_organizations :: "my_organization list"
  myp_tenants :: "my_tenant list"

definition my_org_rows :: "database \<Rightarrow> uuid \<Rightarrow> (org_membership_row \<times> organization_row) list" where
  "my_org_rows d user =
     [(m, o'). m \<leftarrow> org_memberships d, o' \<leftarrow> organizations d,
        org_id o' = omb_organization_id m \<and> omb_user_id m = user \<and> omb_status m = ''active'']"

definition my_tenant_rows :: "database \<Rightarrow> uuid \<Rightarrow> (tenant_membership_row \<times> tenant_row) list" where
  "my_tenant_rows d user =
     [(m, t). m \<leftarrow> tenant_memberships d, t \<leftarrow> tenants d,
        ten_id t = tmb_tenant_id m \<and> tmb_user_id m = user \<and> tmb_status m = ''active'']"

definition mfa_enabled_for :: "keycloak \<Rightarrow> user_row \<Rightarrow> bool op" where
  "mfa_enabled_for K user =
     bindE (reads (\<lambda>d. first_row [(c, r). c \<leftarrow> credentials d, r \<leftarrow> identity_realms d,
        rlm_id r = crd_realm_id c \<and> crd_principal_id c = usr_principal_id user \<and> crd_status c = ''active''])) (\<lambda>row.
     (case row of
        None \<Rightarrow> ret False
      | Some (c, r) \<Rightarrow>
          catch (of_reply (kc_has_mfa K (rlm_realm_name r) (crd_keycloak_subject c))) (\<lambda>_. ret False)))"

text \<open>The organizations that \<open>GET /auth/me\<close> makes platform operators: owned by a user whose e-mail is configured.\<close>

definition promotable :: "settings \<Rightarrow> user_row \<Rightarrow> org_membership_row \<times> organization_row \<Rightarrow> bool" where
  "promotable S user row =
     (omb_role (fst row) = ''owner'' \<and> lower (usr_email user) \<in> set (operator_email_set S)
      \<and> \<not> org_is_platform_operator (snd row))"

definition promote_orgs :: "organization_row list \<Rightarrow> unit op" where
  "promote_orgs orgs =
     modifies (organizations_update (map (\<lambda>o'.
       if org_id o' \<in> org_id ` set orgs then o'\<lparr>org_is_platform_operator := True\<rparr> else o')))"

definition get_me :: "keycloak \<Rightarrow> settings \<Rightarrow> user_row \<Rightarrow> my_profile op" where
  "get_me K S user =
     bindE (reads (\<lambda>d. my_org_rows d (usr_id user))) (\<lambda>org_rows.
     bindE (reads (\<lambda>d. my_tenant_rows d (usr_id user))) (\<lambda>tenant_rows.
     let promoted = filter (promotable S user) org_rows in
     bindE (if promoted = [] then ret () else bindE (promote_orgs (map snd promoted)) (\<lambda>_. commit)) (\<lambda>_.
     bindE (mfa_enabled_for K user) (\<lambda>mfa.
     ret \<lparr>myp_user_id = usr_id user, myp_principal_id = usr_principal_id user, myp_email = usr_email user,
          myp_display_name = usr_display_name user, myp_status = usr_status user,
          myp_is_platform_operator = (promoted \<noteq> [] \<or> list_ex (\<lambda>(_, o'). org_is_platform_operator o') org_rows),
          myp_last_login_at = usr_last_login_at user, myp_mfa_enabled = mfa,
          myp_organizations = map (\<lambda>(m, o').
            \<lparr>myo_org_id = org_id o', myo_name = org_name o', myo_org_type = org_type o',
             myo_participation = org_participation o', myo_realm_ref = org_keycloak_realm_ref o',
             myo_membership_role = omb_role m, myo_status = org_status o'\<rparr>) org_rows,
          myp_tenants = map (\<lambda>(m, t).
            \<lparr>myt_tenant_id = ten_id t, myt_org_id = ten_organization_id t, myt_name = ten_name t,
             myt_slug = ten_slug t, myt_status = ten_status t, myt_membership_status = tmb_status m\<rparr>) tenant_rows\<rparr>))))"

subsection \<open>The password reset\<close>

definition password_reset_request :: "crypto \<Rightarrow> settings \<Rightarrow> string \<Rightarrow> string option op" where
  "password_reset_request C S email =
     bindE (user_by_email email) (\<lambda>found.
     (case found of
        None \<Rightarrow> ret None
      | Some user \<Rightarrow>
          if usr_status user \<noteq> ''active'' then ret None
          else
            bindE uuid4 (\<lambda>token_id.
            bindE (token_urlsafe C 32) (\<lambda>secret.
            let composite = make_reset_token_composite (uuid_str token_id) secret in
            bindE (hash_secret C secret) (\<lambda>h.
            bindE utcnow (\<lambda>now.
            let expires = now + minutes (stg_reset_token_ttl_minutes S) in
            bindE (modifies (password_reset_tokens_update (\<lambda>rows. rows @
               [\<lparr>rtk_id = token_id, rtk_user_id = usr_id user, rtk_token_hash = h, rtk_expires_at = expires,
                 rtk_used_at = None, rtk_created_at = now\<rparr>]))) (\<lambda>_.
            bindE (insert_delivery expires ''password_reset_email'' composite) (\<lambda>delivery.
            bindE (insert_event ''send_password_reset_email''
                     [(''email'', JStr (usr_email user)), (''reset_token_id'', JUuid token_id),
                      (''delivery_secret_id'', JUuid delivery)]) (\<lambda>_.
            bindE commit (\<lambda>_.
            ret (if dev_mode S then Some composite else None)))))))))))"

definition find_valid_reset_token :: "crypto \<Rightarrow> string \<Rightarrow> reset_token_row option op" where
  "find_valid_reset_token C token =
     (case split_reset_token token of
        None \<Rightarrow> ret None
      | Some (token_id_str, secret) \<Rightarrow>
          (case uuid_of_text token_id_str of
             None \<Rightarrow> ret None
           | Some token_id \<Rightarrow>
               bindE (reads (\<lambda>d. get_row rtk_id token_id (password_reset_tokens d))) (\<lambda>found.
               bindE utcnow (\<lambda>now.
               ret (case found of
                      None \<Rightarrow> None
                    | Some row \<Rightarrow>
                        if rtk_used_at row \<noteq> None \<or> rtk_expires_at row < now
                           \<or> \<not> cry_verify C secret (rtk_token_hash row) then None
                        else Some row)))))"

text \<open>The first transaction: the token is used and every session of the user revoked.\<close>

definition close_sessions :: "reset_token_row \<Rightarrow> user_row \<Rightarrow> nat op" where
  "close_sessions token user =
     bindE utcnow (\<lambda>now.
     bindE (modifies (password_reset_tokens_update (upd_row rtk_id (rtk_id token) (\<lambda>t.
              t\<lparr>rtk_used_at := Some now\<rparr>)))) (\<lambda>_.
     bindE (reads (\<lambda>d. active_sessions d (usr_id user))) (\<lambda>rows.
     bindE (modifies (sessions_update (map (\<lambda>s. if ses_id s \<in> ses_id ` set rows then revoked_session now s else s)))) (\<lambda>_.
     bindE (audit ''user.password_reset'' (Some (usr_id user)) None []) (\<lambda>_.
     bindE (if rows = [] then ret () else audit ''user.sessions_revoked'' (Some (usr_id user)) None []) (\<lambda>_.
     bindE commit (\<lambda>_.
     ret (length rows))))))))"

definition password_reset :: "keycloak \<Rightarrow> crypto \<Rightarrow> string \<Rightarrow> string \<Rightarrow> nat op" where
  "password_reset K C token new_password =
     bindE (validate_password new_password) (\<lambda>_.
     bindE (find_valid_reset_token C token) (\<lambda>found.
     bindE (the_or found (ValidationError ''token invalid or expired'')) (\<lambda>row.
     bindE (reads (\<lambda>d. get_row usr_id (rtk_user_id row) (users d))) (\<lambda>found_user.
     bindE (the_or found_user (ValidationError ''token invalid or expired'')) (\<lambda>user.
     bindE (reads (\<lambda>d. first_row (filter (\<lambda>c. crd_principal_id c = usr_principal_id user
              \<and> crd_status c = ''active'') (credentials d)))) (\<lambda>found_credential.
     bindE (the_or found_credential (ValidationError ''token invalid or expired'')) (\<lambda>credential.
     bindE (reads (\<lambda>d. get_row rlm_id (crd_realm_id credential) (identity_realms d))) (\<lambda>found_realm.
     bindE (the_or found_realm (ValidationError ''token invalid or expired'')) (\<lambda>realm.
     bindE (close_sessions row user) (\<lambda>revoked.
     bindE (catch (of_reply (kc_set_password K (rlm_realm_name realm) (crd_keycloak_subject credential)
                      new_password (Some (usr_email user))))
              (\<lambda>_. bindE (insert_event ''retry_keycloak_set_password''
                             [(''user_id'', JUuid (usr_id user)), (''realm'', JStr (rlm_realm_name realm)),
                              (''subject'', JStr (crd_keycloak_subject credential)),
                              (''email'', JStr (usr_email user))]) (\<lambda>_.
                   bindE commit (\<lambda>_.
                   raise (ValidationError
                     ''password update could not be completed; request a new reset link and try again''))))) (\<lambda>subject.
     bindE (hash_secret C new_password) (\<lambda>h.
     bindE (update_credential (crd_id credential) (\<lambda>c.
              c\<lparr>crd_keycloak_subject := subject, crd_password_hash := Some h\<rparr>)) (\<lambda>_.
     bindE commit (\<lambda>_.
     ret revoked))))))))))))))"

subsection \<open>Access tokens\<close>

definition resolve_user_from_access_token ::
  "crypto \<Rightarrow> string \<Rightarrow> (user_row \<times> session_row \<times> credential_row) op"
where
  "resolve_user_from_access_token C token =
     bindE utcnow (\<lambda>now.
     bindE (the_or (cry_jwt_decode C now token) (UnauthorizedError ''invalid token'')) (\<lambda>claims.
     let sid = payload_value claims ''sid''; sub = payload_value claims ''sub''; iss = payload_value claims ''iss'' in
     bindE (raise_if (\<not> truthy sid \<or> \<not> truthy sub \<or> \<not> truthy iss) (UnauthorizedError ''invalid token'')) (\<lambda>_.
     bindE (reads (\<lambda>d. filter (\<lambda>r. JStr (rlm_issuer r) = iss \<or> JStr (rlm_issuer_url r) = iss) (identity_realms d))) (\<lambda>realms.
     bindE (one_or_none realms) (\<lambda>found_realm.
     bindE (the_or found_realm (UnauthorizedError ''invalid token'')) (\<lambda>realm.
     bindE (parse_uuid sid) (\<lambda>session_id.
     bindE (reads (\<lambda>d. get_row ses_id session_id (sessions d))) (\<lambda>found_session.
     bindE (the_or (case found_session of None \<Rightarrow> None
              | Some s \<Rightarrow> if ses_status s \<noteq> ''active'' then None else Some s) (UnauthorizedError ''invalid token'')) (\<lambda>s.
     bindE (raise_if (ses_expires_at s < now) (UnauthorizedError ''invalid token'')) (\<lambda>_.
     bindE (reads (\<lambda>d. filter (\<lambda>c. JStr (crd_keycloak_subject c) = sub \<and> crd_realm_id c = rlm_id realm
              \<and> crd_status c = ''active'') (credentials d))) (\<lambda>creds.
     bindE (one_or_none creds) (\<lambda>found_credential.
     bindE (the_or found_credential (UnauthorizedError ''invalid token'')) (\<lambda>credential.
     bindE (user_by_principal (crd_principal_id credential)) (\<lambda>found_user.
     bindE (the_or (case found_user of None \<Rightarrow> None
              | Some u \<Rightarrow> if usr_status u \<noteq> ''active'' then None else Some u) (UnauthorizedError ''invalid token'')) (\<lambda>user.
     bindE (raise_if (ses_user_id s \<noteq> usr_id user) (UnauthorizedError ''invalid token'')) (\<lambda>_.
     bindE (reads (\<lambda>d. get_row pri_id (usr_principal_id user) (principals d))) (\<lambda>prin.
     bindE (raise_if (case prin of None \<Rightarrow> True | Some p \<Rightarrow> pri_status p \<noteq> ''active'')
              (UnauthorizedError ''invalid token'')) (\<lambda>_.
     ret (user, s, credential)))))))))))))))))))"

end
