(* ===== verification/Platform_Team.thy ===== *)
theory Platform_Team
  imports Identity_Passwords
begin

section \<open>The platform team\<close>

text \<open>
  \<open>upsert_operator_team_member\<close> of \<open>platform_ops/application/team_bootstrap.py\<close> and the team operations of
  \<open>AdminOpsService\<close> in \<open>platform_ops/application/admin_ops_service.py\<close>: inviting, changing roles, suspending,
  the reset of a second factor and the transfer of the role \<open>super_admin\<close>.
\<close>

definition platform_team_roles :: "string list" where
  "platform_team_roles =
     [''super_admin'', ''platform_admin'', ''finance_manager'', ''content_moderator'', ''kyc_reviewer'',
      ''support_agent'', ''catalog_manager'', ''support'']"

record team_member_item =
  tmi_id :: uuid
  tmi_user_id :: "uuid option"
  tmi_email :: string
  tmi_platform_role :: string
  tmi_status :: string
  tmi_mfa_enabled :: bool
  tmi_invited_at :: instant
  tmi_activated_at :: "instant option"

definition team_item :: "team_member_row \<Rightarrow> team_member_item" where
  "team_item row =
     \<lparr>tmi_id = tmm_id row, tmi_user_id = tmm_user_id row, tmi_email = tmm_email row,
      tmi_platform_role = tmm_platform_role row, tmi_status = tmm_status row,
      tmi_mfa_enabled = tmm_mfa_enabled row, tmi_invited_at = tmm_invited_at row,
      tmi_activated_at = tmm_activated_at row\<rparr>"

definition update_member :: "uuid \<Rightarrow> (team_member_row \<Rightarrow> team_member_row) \<Rightarrow> unit op" where
  "update_member i f = modifies (team_members_update (upd_row tmm_id i f))"

text \<open>A user that is already on the team keeps its role; an invited one becomes active.\<close>

definition joined_member :: "instant \<Rightarrow> uuid option \<Rightarrow> team_member_row \<Rightarrow> team_member_row" where
  "joined_member now user_id row =
     (let row1 = (if user_id \<noteq> None \<and> tmm_user_id row = None then row\<lparr>tmm_user_id := user_id\<rparr> else row)
      in if tmm_status row1 = ''invited'' \<and> user_id \<noteq> None
         then row1\<lparr>tmm_status := ''active'', tmm_activated_at := Some now\<rparr> else row1)"

definition upsert_operator_team_member ::
  "string \<Rightarrow> uuid option \<Rightarrow> string \<Rightarrow> uuid option \<Rightarrow> string option \<Rightarrow> team_member_row op"
where
  "upsert_operator_team_member email user_id platform_role invited_by status =
     (let normalized = lower (strip email) in
     bindE (reads (\<lambda>d. filter (\<lambda>m. tmm_email m = normalized) (team_members d))) (\<lambda>rows.
     bindE (one_or_none rows) (\<lambda>existing.
     bindE utcnow (\<lambda>now.
     case existing of
       Some row \<Rightarrow>
         bindE (update_member (tmm_id row) (joined_member now user_id)) (\<lambda>_.
         ret (joined_member now user_id row))
     | None \<Rightarrow>
         bindE uuid4 (\<lambda>i.
         let resolved = str_or status (if user_id \<noteq> None then ''active'' else ''invited'');
             row = \<lparr>tmm_id = i, tmm_user_id = user_id, tmm_email = normalized, tmm_platform_role = platform_role,
                    tmm_status = resolved, tmm_invited_by = invited_by, tmm_invited_at = now,
                    tmm_activated_at = (if resolved = ''active'' then Some now else None),
                    tmm_mfa_enabled = False, tmm_invite_note = []\<rparr>
         in bindE (modifies (team_members_update (\<lambda>rows. rows @ [row]))) (\<lambda>_.
            ret row))))))"

subsection \<open>Helpers\<close>

definition ops_audit :: "string \<Rightarrow> uuid \<Rightarrow> payload \<Rightarrow> unit op" where
  "ops_audit action actor p = audit action (Some actor) None p"

definition ensure_caller_team_row :: "uuid \<Rightarrow> unit op" where
  "ensure_caller_team_row caller =
     bindE (reads (\<lambda>d. get_row usr_id caller (users d))) (\<lambda>found.
     (case found of
        None \<Rightarrow> ret ()
      | Some user \<Rightarrow>
          bindE (upsert_operator_team_member (usr_email user) (Some (usr_id user)) ''platform_admin'' None
                   (Some ''active'')) (\<lambda>_.
          ret ())))"

definition caller_team_row :: "uuid \<Rightarrow> team_member_row option op" where
  "caller_team_row caller =
     bindE (reads (\<lambda>d. get_row usr_id caller (users d))) (\<lambda>found.
     (case found of
        None \<Rightarrow> ret None
      | Some user \<Rightarrow>
          bindE (reads (\<lambda>d. filter (\<lambda>m. tmm_email m = lower (usr_email user)) (team_members d))) one_or_none))"

definition require_team_member :: "uuid \<Rightarrow> team_member_row op" where
  "require_team_member member_id =
     bindE (reads (\<lambda>d. get_row tmm_id member_id (team_members d))) (\<lambda>found.
     the_or found (NotFoundError ''team member not found''))"

definition ensure_operator_org_membership :: "uuid \<Rightarrow> unit op" where
  "ensure_operator_org_membership user_id =
     bindE (reads (\<lambda>d. first_row (filter org_is_platform_operator (organizations d)))) (\<lambda>operator_org.
     (case operator_org of
        None \<Rightarrow> ret ()
      | Some org \<Rightarrow>
          bindE (reads (\<lambda>d. filter (\<lambda>m. omb_organization_id m = org_id org \<and> omb_user_id m = user_id)
                   (org_memberships d))) (\<lambda>rows.
          bindE (one_or_none rows) (\<lambda>existing.
          if existing \<noteq> None then ret ()
          else bindE uuid4 (\<lambda>i.
               modifies (org_memberships_update (\<lambda>rows. rows @
                 [new_org_membership i (org_id org) user_id ''member'' ''active''])))))))"

text \<open>All active sessions of a user, closed in one go.\<close>

definition revoke_user_sessions :: "uuid \<Rightarrow> nat op" where
  "revoke_user_sessions user =
     bindE (reads (\<lambda>d. active_sessions d user)) (\<lambda>rows.
     bindE utcnow (\<lambda>now.
     bindE (modifies (sessions_update (map (\<lambda>s. if ses_id s \<in> ses_id ` set rows then revoked_session now s else s)))) (\<lambda>_.
     ret (length rows))))"

fun revoke_sessions_of :: "uuid list \<Rightarrow> nat op" where
  "revoke_sessions_of [] = ret 0"
| "revoke_sessions_of (u # us) =
     bindE (revoke_user_sessions u) (\<lambda>n. bindE (revoke_sessions_of us) (\<lambda>m. ret (n + m)))"

text \<open>The first credential of a principal with its realm.\<close>

definition credential_with_realm :: "uuid \<Rightarrow> (credential_row \<times> realm_row) option op" where
  "credential_with_realm prin =
     reads (\<lambda>d. first_row [(c, r). c \<leftarrow> credentials d, r \<leftarrow> identity_realms d,
       rlm_id r = crd_realm_id c \<and> crd_principal_id c = prin])"

subsection \<open>The team operations\<close>

definition list_team :: "uuid \<Rightarrow> team_member_item list op" where
  "list_team caller =
     bindE (require_platform_operator caller) (\<lambda>_.
     bindE (ensure_caller_team_row caller) (\<lambda>_.
     reads (\<lambda>d. map team_item (sort_desc tmm_invited_at (team_members d)))))"

definition invite_team_member :: "uuid \<Rightarrow> string \<Rightarrow> string \<Rightarrow> string \<Rightarrow> team_member_item op" where
  "invite_team_member caller email platform_role invite_note =
     bindE (require_platform_operator caller) (\<lambda>_.
     let normalized = lower (strip email) in
     bindE (raise_if (normalized = []) (ValidationError ''email is required'')) (\<lambda>_.
     bindE (raise_if (platform_role \<notin> set platform_team_roles) (ValidationError ''invalid platform_role'')) (\<lambda>_.
     bindE (raise_if (platform_role = ''super_admin'') (ForbiddenError ''cannot invite super_admin directly'')) (\<lambda>_.
     bindE (reads (\<lambda>d. filter (\<lambda>u. usr_normalized_email u = normalized) (users d))) (\<lambda>rows.
     bindE (one_or_none rows) (\<lambda>user.
     bindE (upsert_operator_team_member normalized (map_option usr_id user) platform_role (Some caller)
              (Some (if user \<noteq> None then ''active'' else ''invited''))) (\<lambda>row.
     bindE (update_member (tmm_id row) (\<lambda>m. m\<lparr>tmm_invite_note := strip invite_note\<rparr>)) (\<lambda>_.
     bindE (case user of None \<Rightarrow> ret () | Some u \<Rightarrow> ensure_operator_org_membership (usr_id u)) (\<lambda>_.
     bindE (ops_audit ''team.invited'' caller
              [(''email'', JStr normalized), (''platform_role'', JStr platform_role), (''member_id'', JUuid (tmm_id row))]) (\<lambda>_.
     bindE commit (\<lambda>_.
     ret (team_item row))))))))))))"

definition update_team_role :: "uuid \<Rightarrow> uuid \<Rightarrow> string \<Rightarrow> team_member_item op" where
  "update_team_role caller member_id platform_role =
     bindE (require_platform_operator caller) (\<lambda>_.
     bindE (raise_if (platform_role \<notin> set platform_team_roles) (ValidationError ''invalid platform_role'')) (\<lambda>_.
     bindE (raise_if (platform_role = ''super_admin'')
              (ForbiddenError ''use super-admin transfer to assign super_admin'')) (\<lambda>_.
     bindE (require_team_member member_id) (\<lambda>row.
     bindE (raise_if (tmm_platform_role row = ''super_admin'')
              (ForbiddenError ''cannot change super_admin role directly'')) (\<lambda>_.
     bindE (update_member member_id (\<lambda>m. m\<lparr>tmm_platform_role := platform_role\<rparr>)) (\<lambda>_.
     bindE (ops_audit ''team.role_changed'' caller
              [(''member_id'', JUuid member_id), (''platform_role'', JStr platform_role)]) (\<lambda>_.
     bindE commit (\<lambda>_.
     ret (team_item (row\<lparr>tmm_platform_role := platform_role\<rparr>))))))))))"

definition suspend_team_member :: "uuid \<Rightarrow> uuid \<Rightarrow> team_member_item op" where
  "suspend_team_member caller member_id =
     bindE (require_platform_operator caller) (\<lambda>_.
     bindE (require_team_member member_id) (\<lambda>row.
     bindE (raise_if (tmm_platform_role row = ''super_admin'') (ForbiddenError ''cannot suspend super_admin'')) (\<lambda>_.
     bindE (raise_if (tmm_status row = ''suspended'') (ConflictError ''already suspended'')) (\<lambda>_.
     bindE (update_member member_id (\<lambda>m. m\<lparr>tmm_status := ''suspended''\<rparr>)) (\<lambda>_.
     bindE (case tmm_user_id row of None \<Rightarrow> ret 0 | Some u \<Rightarrow> revoke_user_sessions u) (\<lambda>_.
     bindE (ops_audit ''team.suspended'' caller [(''member_id'', JUuid member_id)]) (\<lambda>_.
     bindE commit (\<lambda>_.
     ret (team_item (row\<lparr>tmm_status := ''suspended''\<rparr>))))))))))"

definition reactivated_member :: "instant \<Rightarrow> team_member_row \<Rightarrow> team_member_row" where
  "reactivated_member now m =
     m\<lparr>tmm_status := ''active'',
       tmm_activated_at := (case tmm_activated_at m of None \<Rightarrow> Some now | Some t \<Rightarrow> Some t)\<rparr>"

definition reactivate_team_member :: "uuid \<Rightarrow> uuid \<Rightarrow> team_member_item op" where
  "reactivate_team_member caller member_id =
     bindE (require_platform_operator caller) (\<lambda>_.
     bindE (require_team_member member_id) (\<lambda>row.
     bindE (raise_if (tmm_status row \<noteq> ''suspended'') (ConflictError ''member is not suspended'')) (\<lambda>_.
     bindE utcnow (\<lambda>now.
     bindE (update_member member_id (reactivated_member now)) (\<lambda>_.
     bindE (ops_audit ''team.reactivated'' caller [(''member_id'', JUuid member_id)]) (\<lambda>_.
     bindE commit (\<lambda>_.
     ret (team_item (reactivated_member now row)))))))))"

definition reset_team_mfa :: "keycloak \<Rightarrow> uuid \<Rightarrow> uuid \<Rightarrow> unit op" where
  "reset_team_mfa K caller member_id =
     bindE (require_platform_operator caller) (\<lambda>_.
     bindE (require_team_member member_id) (\<lambda>row.
     bindE (the_or (tmm_user_id row) (ConflictError ''invited member has no user account yet'')) (\<lambda>uid.
     bindE (reads (\<lambda>d. get_row usr_id uid (users d))) (\<lambda>found.
     bindE (the_or found (NotFoundError ''user not found'')) (\<lambda>user.
     bindE (credential_with_realm (usr_principal_id user)) (\<lambda>cred.
     bindE (case cred of
              Some (credential, realm) \<Rightarrow>
                bindE (of_reply (kc_reset_mfa K (rlm_realm_name realm) (crd_keycloak_subject credential))) (\<lambda>_.
                bindE (revoke_user_sessions (usr_id user)) (\<lambda>_. ret ()))
            | None \<Rightarrow>
                ops_audit ''team.mfa_reset_stub'' caller
                  [(''member_id'', JUuid member_id), (''user_id'', JUuid (usr_id user))]) (\<lambda>_.
     bindE (update_member member_id (\<lambda>m. m\<lparr>tmm_mfa_enabled := False\<rparr>)) (\<lambda>_.
     bindE (ops_audit ''team.mfa_reset'' caller [(''member_id'', JUuid member_id)]) (\<lambda>_.
     commit)))))))))"

record super_admin_transfer =
  sat_from_member_id :: uuid
  sat_to_member_id :: uuid
  sat_caller_role :: string
  sat_recipient_role :: string

definition transfer_super_admin :: "keycloak \<Rightarrow> uuid \<Rightarrow> uuid \<Rightarrow> string \<Rightarrow> super_admin_transfer op" where
  "transfer_super_admin K caller recipient_member_id password =
     bindE (require_platform_operator caller) (\<lambda>_.
     bindE (caller_team_row caller) (\<lambda>found_caller.
     bindE (the_or (case found_caller of None \<Rightarrow> None
              | Some m \<Rightarrow> if tmm_platform_role m \<noteq> ''super_admin'' then None else Some m)
              (ForbiddenError ''only super_admin may transfer super_admin role'')) (\<lambda>caller_row.
     bindE (require_team_member recipient_member_id) (\<lambda>recipient.
     bindE (raise_if (tmm_status recipient \<noteq> ''active'')
              (ConflictError ''recipient must be an active team member'')) (\<lambda>_.
     bindE (raise_if (tmm_user_id recipient = None)
              (ConflictError ''recipient must have an activated user account'')) (\<lambda>_.
     bindE (reads (\<lambda>d. get_row usr_id caller (users d))) (\<lambda>found_user.
     bindE (the_or found_user (NotFoundError ''caller not found'')) (\<lambda>caller_user.
     bindE (credential_with_realm (usr_principal_id caller_user)) (\<lambda>cred.
     bindE (the_or cred (NotFoundError ''credential not found'')) (\<lambda>(credential, realm).
     bindE (catch (bindE (of_reply (kc_authenticate K (rlm_realm_name realm) (usr_email caller_user) password)) (\<lambda>_. ret ()))
              (\<lambda>e. case e of ValueError _ \<Rightarrow> raise (UnauthorizedError ''invalid password'') | _ \<Rightarrow> raise e)) (\<lambda>_.
     bindE (update_member (tmm_id caller_row) (\<lambda>m. m\<lparr>tmm_platform_role := ''platform_admin''\<rparr>)) (\<lambda>_.
     bindE (update_member recipient_member_id (\<lambda>m. m\<lparr>tmm_platform_role := ''super_admin''\<rparr>)) (\<lambda>_.
     bindE (ops_audit ''team.super_admin_transferred'' caller
              [(''from_member_id'', JUuid (tmm_id caller_row)), (''to_member_id'', JUuid (tmm_id recipient))]) (\<lambda>_.
     bindE commit (\<lambda>_.
     ret \<lparr>sat_from_member_id = tmm_id caller_row, sat_to_member_id = tmm_id recipient,
          sat_caller_role = (if tmm_id caller_row = tmm_id recipient then ''super_admin'' else ''platform_admin''),
          sat_recipient_role = ''super_admin''\<rparr>)))))))))))))))"

end
