(* ===== verification/Admin_Users.thy ===== *)
theory Admin_Users
  imports Platform_Team
begin

section \<open>The user directory of the platform\<close>

text \<open>
  \<open>PlatformAdminUserService\<close> of \<open>identity/application/platform_admin_users.py\<close>: the directory of users and
  service accounts, suspending, blocking and reinstating users, and promoting one to platform operator.
\<close>

record admin_user_item =
  aui_user_id :: uuid
  aui_principal_id :: uuid
  aui_email :: string
  aui_display_name :: string
  aui_principal_type :: string
  aui_status :: string
  aui_tenant_id :: "uuid option"
  aui_tenant_name :: "string option"
  aui_org_name :: "string option"
  aui_role_label :: "string option"
  aui_is_platform_operator :: bool
  aui_last_active_at :: "instant option"

record admin_user_list =
  aul_items :: "admin_user_item list"
  aul_total :: nat
  aul_page :: int
  aul_page_size :: int

definition directory_user :: "uuid \<Rightarrow> (user_row \<times> principal_row) op" where
  "directory_user user_id =
     bindE (reads (\<lambda>d. get_row usr_id user_id (users d))) (\<lambda>found.
     bindE (the_or found (NotFoundError ''user not found'')) (\<lambda>user.
     bindE (reads (\<lambda>d. get_row pri_id (usr_principal_id user) (principals d))) (\<lambda>found_principal.
     bindE (the_or found_principal (NotFoundError ''principal not found'')) (\<lambda>prin.
     ret (user, prin)))))"

definition set_user_status :: "user_row \<Rightarrow> string \<Rightarrow> string \<Rightarrow> unit op" where
  "set_user_status user user_status principal_status =
     bindE (modifies (users_update (upd_row usr_id (usr_id user) (\<lambda>u. u\<lparr>usr_status := user_status\<rparr>)))) (\<lambda>_.
     modifies (principals_update (upd_row pri_id (usr_principal_id user) (\<lambda>p. p\<lparr>pri_status := principal_status\<rparr>))))"

subsection \<open>The directory\<close>

definition user_context ::
  "database \<Rightarrow> uuid \<Rightarrow> (uuid option \<times> string option \<times> string option \<times> string option \<times> bool)"
where
  "user_context d user =
     (let tenant_row = first_row (my_tenant_rows d user); org_row = first_row (my_org_rows d user);
          is_op = (case org_row of None \<Rightarrow> False | Some (_, o') \<Rightarrow> org_is_platform_operator o')
      in (map_option (\<lambda>(_, t). ten_id t) tenant_row, map_option (\<lambda>(_, t). ten_name t) tenant_row,
          map_option (\<lambda>(_, o'). org_name o') org_row,
          (if is_op then Some ''platform_operator'' else map_option (\<lambda>(m, _). omb_role m) org_row), is_op))"

definition asked_text :: "string option \<Rightarrow> string list \<Rightarrow> bool" where
  "asked_text q texts =
     (str_or q [] = [] \<or> list_ex (\<lambda>s. ilike_part s (strip (str_or q []))) texts)"

definition asked_value :: "string option \<Rightarrow> string \<Rightarrow> bool" where
  "asked_value x v = (str_or x [] = [] \<or> v = str_or x [])"

definition list_human_users :: "database \<Rightarrow> string option \<Rightarrow> string option \<Rightarrow> admin_user_item list" where
  "list_human_users d q status =
     [(let (tenant, tenant_name, org, label, is_op) = user_context d (usr_id u)
       in \<lparr>aui_user_id = usr_id u, aui_principal_id = pri_id p, aui_email = usr_email u,
           aui_display_name = usr_display_name u, aui_principal_type = ''user'', aui_status = usr_status u,
           aui_tenant_id = tenant, aui_tenant_name = tenant_name, aui_org_name = org, aui_role_label = label,
           aui_is_platform_operator = is_op, aui_last_active_at = usr_last_login_at u\<rparr>).
      (u, p) \<leftarrow> sort_desc (\<lambda>(u, _). usr_created_at u)
        [(u, p). u \<leftarrow> users d, p \<leftarrow> principals d, pri_id p = usr_principal_id u \<and> asked_value status (usr_status u)
           \<and> asked_text q [usr_email u, usr_display_name u, usr_normalized_email u]]]"

definition list_directory_accounts :: "database \<Rightarrow> string option \<Rightarrow> string option \<Rightarrow> admin_user_item list" where
  "list_directory_accounts d q status =
     [\<lparr>aui_user_id = sac_id s, aui_principal_id = pri_id p,
       aui_email = ''sa:'' @ sac_name s @ ''@'' @ ten_slug t, aui_display_name = sac_name s,
       aui_principal_type = ''service_account'', aui_status = sac_status s, aui_tenant_id = Some (ten_id t),
       aui_tenant_name = Some (ten_name t), aui_org_name = Some (org_name o'),
       aui_role_label = Some ''service_account'', aui_is_platform_operator = False, aui_last_active_at = None\<rparr>.
      s \<leftarrow> service_accounts d, p \<leftarrow> principals d, t \<leftarrow> tenants d, o' \<leftarrow> organizations d,
      pri_id p = sac_principal_id s \<and> ten_id t = sac_tenant_id s \<and> org_id o' = sac_organization_id s
      \<and> asked_value status (sac_status s) \<and> asked_text q [sac_name s]]"

text \<open>\<open>items[start : start + page_size]\<close>.\<close>

definition page_of :: "int \<Rightarrow> int \<Rightarrow> 'a list \<Rightarrow> 'a list" where
  "page_of page per items = take (nat per) (drop (nat ((page - 1) * per)) items)"

definition check_page :: "int \<Rightarrow> int \<Rightarrow> unit op" where
  "check_page page page_size =
     bindE (raise_if (page < 1) (ValidationError ''page must be >= 1'')) (\<lambda>_.
     raise_if (page_size < 1 \<or> page_size > 200) (ValidationError ''page_size must be 1..200''))"

definition list_users ::
  "uuid \<Rightarrow> string option \<Rightarrow> string option \<Rightarrow> string option \<Rightarrow> int \<Rightarrow> int \<Rightarrow> admin_user_list op"
where
  "list_users caller q principal_type status page page_size =
     bindE (require_platform_operator caller) (\<lambda>_.
     bindE (check_page page page_size) (\<lambda>_.
     bindE (raise_if (principal_type \<notin> {None, Some ''user'', Some ''service_account''})
              (ValidationError ''principal_type must be user or service_account'')) (\<lambda>_.
     reads (\<lambda>d.
       let items = sort_key (\<lambda>i. lower (aui_email i))
             ((if principal_type \<in> {None, Some ''user''} then list_human_users d q status else [])
              @ (if principal_type \<in> {None, Some ''service_account''} then list_directory_accounts d q status else []))
       in \<lparr>aul_items = page_of page page_size items, aul_total = length items, aul_page = page,
           aul_page_size = page_size\<rparr>))))"

subsection \<open>Lifecycle\<close>

record user_action =
  uac_user_id :: uuid
  uac_status :: string
  uac_sessions_revoked :: nat

definition suspend_user :: "uuid \<Rightarrow> uuid \<Rightarrow> user_action op" where
  "suspend_user caller target =
     bindE (require_platform_operator caller) (\<lambda>_.
     bindE (directory_user target) (\<lambda>(user, prin).
     bindE (raise_if (usr_status user = ''blocked'') (ConflictError ''user is blocked'')) (\<lambda>_.
     bindE (set_user_status user ''locked'' ''locked'') (\<lambda>_.
     bindE (revoke_user_sessions (usr_id user)) (\<lambda>revoked.
     bindE (ops_audit ''user.suspended'' caller [(''user_id'', JUuid (usr_id user))]) (\<lambda>_.
     bindE commit (\<lambda>_.
     ret \<lparr>uac_user_id = usr_id user, uac_status = ''locked'', uac_sessions_revoked = revoked\<rparr>)))))))"

definition reinstate_user :: "uuid \<Rightarrow> uuid \<Rightarrow> user_action op" where
  "reinstate_user caller target =
     bindE (require_platform_operator caller) (\<lambda>_.
     bindE (directory_user target) (\<lambda>(user, prin).
     bindE (raise_if (usr_status user = ''blocked'') (ConflictError ''blocked users cannot be reinstated'')) (\<lambda>_.
     bindE (set_user_status user ''active'' ''active'') (\<lambda>_.
     bindE (ops_audit ''user.reinstated'' caller [(''user_id'', JUuid (usr_id user))]) (\<lambda>_.
     bindE commit (\<lambda>_.
     ret \<lparr>uac_user_id = usr_id user, uac_status = ''active'', uac_sessions_revoked = 0\<rparr>))))))"

definition block_user :: "uuid \<Rightarrow> uuid \<Rightarrow> user_action op" where
  "block_user caller target =
     bindE (require_platform_operator caller) (\<lambda>_.
     bindE (directory_user target) (\<lambda>(user, prin).
     bindE (set_user_status user ''blocked'' ''locked'') (\<lambda>_.
     bindE (revoke_user_sessions (usr_id user)) (\<lambda>revoked.
     bindE (ops_audit ''user.blocked'' caller [(''user_id'', JUuid (usr_id user))]) (\<lambda>_.
     bindE commit (\<lambda>_.
     ret \<lparr>uac_user_id = usr_id user, uac_status = ''blocked'', uac_sessions_revoked = revoked\<rparr>))))))"

definition reset_mfa :: "keycloak \<Rightarrow> uuid \<Rightarrow> uuid \<Rightarrow> uuid op" where
  "reset_mfa K caller target =
     bindE (require_platform_operator caller) (\<lambda>_.
     bindE (directory_user target) (\<lambda>(user, prin).
     bindE (credential_with_realm (usr_principal_id user)) (\<lambda>cred.
     bindE (the_or cred (NotFoundError ''credential not found'')) (\<lambda>(credential, realm).
     bindE (of_reply (kc_reset_mfa K (rlm_realm_name realm) (crd_keycloak_subject credential))) (\<lambda>_.
     bindE (revoke_user_sessions (usr_id user)) (\<lambda>_.
     bindE (ops_audit ''user.mfa_reset'' caller [(''user_id'', JUuid (usr_id user))]) (\<lambda>_.
     bindE commit (\<lambda>_.
     ret (usr_id user)))))))))"

definition owner_org_rows :: "database \<Rightarrow> uuid \<Rightarrow> (org_membership_row \<times> organization_row) list" where
  "owner_org_rows d user = filter (\<lambda>(m, _). omb_role m = ''owner'') (my_org_rows d user)"

definition promote_operator :: "uuid \<Rightarrow> uuid \<Rightarrow> uuid op" where
  "promote_operator caller target =
     bindE (require_platform_operator caller) (\<lambda>_.
     bindE (directory_user target) (\<lambda>(user, prin).
     bindE (reads (\<lambda>d. owner_org_rows d (usr_id user))) (\<lambda>memberships.
     bindE (raise_if (memberships = []) (ConflictError ''target user has no owner organization membership'')) (\<lambda>_.
     bindE (promote_orgs (map snd memberships)) (\<lambda>_.
     bindE (upsert_operator_team_member (usr_email user) (Some (usr_id user)) ''platform_admin'' (Some caller)
              (Some ''active'')) (\<lambda>_.
     bindE (ops_audit ''user.promoted_operator'' caller
              [(''user_id'', JUuid (usr_id user)), (''org_ids'', JList (map (\<lambda>(_, o'). JUuid (org_id o')) memberships))]) (\<lambda>_.
     bindE commit (\<lambda>_.
     ret (usr_id user)))))))))"

end
