(* ===== verification/Admin_Ops.thy ===== *)
theory Admin_Ops
  imports Admin_Users
begin

section \<open>Platform operations\<close>

text \<open>
  The rest of \<open>AdminOpsService\<close> in \<open>platform_ops/application/admin_ops_service.py\<close>: the tenants, the dashboard
  and analytics, the audit log, policies and the configuration. Amounts are hundredths, as everywhere.
\<close>

subsection \<open>Tenants\<close>

record tenant_list_item =
  tli_tenant_id :: uuid
  tli_tenant_name :: string
  tli_org_id :: uuid
  tli_org_name :: string
  tli_org_type :: string
  tli_participation :: string
  tli_member_count :: nat
  tli_status :: string

record tenant_stats =
  tst_active :: nat
  tst_suspended :: nat
  tst_total :: nat
  tst_individual :: nat
  tst_organisation :: nat
  tst_vendor :: nat

definition customer_tenants :: "database \<Rightarrow> (tenant_row \<times> organization_row) list" where
  "customer_tenants d =
     [(t, o'). t \<leftarrow> tenants d, o' \<leftarrow> organizations d,
        org_id o' = ten_organization_id t \<and> \<not> org_is_platform_operator o']"

definition member_count :: "database \<Rightarrow> uuid \<Rightarrow> nat" where
  "member_count d tenant =
     length (filter (\<lambda>m. tmb_tenant_id m = tenant \<and> tmb_status m = ''active'') (tenant_memberships d))"

definition list_tenants :: "uuid \<Rightarrow> string option \<Rightarrow> string option \<Rightarrow> tenant_list_item list op" where
  "list_tenants caller q kind =
     bindE (require_platform_operator caller) (\<lambda>_.
     reads (\<lambda>d.
       [\<lparr>tli_tenant_id = ten_id t, tli_tenant_name = ten_name t, tli_org_id = org_id o', tli_org_name = org_name o',
         tli_org_type = org_type o', tli_participation = org_participation o',
         tli_member_count = member_count d (ten_id t),
         tli_status = (if ten_status t \<noteq> ''active'' then ten_status t else org_status o')\<rparr>.
        (t, o') \<leftarrow> sort_desc (\<lambda>(t, _). ten_created_at t)
          (filter (\<lambda>(t, o'). asked_value kind (org_type o')
             \<and> (strip (str_or q []) = []
                \<or> list_ex (\<lambda>s. ilike_part s (strip (str_or q []))) [ten_name t, org_name o', org_slug o']))
           (customer_tenants d))]))"

definition tenant_stats_of :: "uuid \<Rightarrow> tenant_stats op" where
  "tenant_stats_of caller =
     bindE (require_platform_operator caller) (\<lambda>_.
     reads (\<lambda>d.
       let count = (\<lambda>P. length (filter P (customer_tenants d)));
           active = count (\<lambda>(t, _). ten_status t = ''active'');
           suspended = count (\<lambda>(t, _). ten_status t = ''suspended'')
       in \<lparr>tst_active = active, tst_suspended = suspended, tst_total = active + suspended,
           tst_individual = count (\<lambda>(_, o'). org_type o' = ''individual''),
           tst_organisation = count (\<lambda>(_, o'). org_type o' = ''organization''),
           tst_vendor = count (\<lambda>(_, o'). org_participation o' = ''vendor'')\<rparr>))"

definition revoke_tenant_sessions :: "uuid \<Rightarrow> nat op" where
  "revoke_tenant_sessions tenant_id =
     bindE (reads (\<lambda>d. map tmb_user_id (filter (\<lambda>m. tmb_tenant_id m = tenant_id \<and> tmb_status m = ''active'')
              (tenant_memberships d)))) (\<lambda>user_ids.
     revoke_sessions_of user_ids)"

definition set_tenant_status :: "tenant_row \<Rightarrow> string \<Rightarrow> unit op" where
  "set_tenant_status tenant status =
     bindE (modifies (tenants_update (upd_row ten_id (ten_id tenant) (\<lambda>t. t\<lparr>ten_status := status\<rparr>)))) (\<lambda>_.
     modifies (organizations_update (upd_row org_id (ten_organization_id tenant) (\<lambda>o'. o'\<lparr>org_status := status\<rparr>))))"

definition suspend_tenant :: "uuid \<Rightarrow> uuid \<Rightarrow> nat op" where
  "suspend_tenant tenant_id caller =
     bindE (require_platform_operator caller) (\<lambda>_.
     bindE (reads (\<lambda>d. get_row ten_id tenant_id (tenants d))) (\<lambda>found.
     bindE (the_or found (NotFoundError ''tenant not found'')) (\<lambda>tenant.
     bindE (reads (\<lambda>d. get_row org_id (ten_organization_id tenant) (organizations d))) (\<lambda>org.
     bindE (raise_if (case org of None \<Rightarrow> True | Some o' \<Rightarrow> org_is_platform_operator o')
              (ForbiddenError ''cannot suspend platform operator tenant'')) (\<lambda>_.
     bindE (raise_if (ten_status tenant = ''suspended'') (ConflictError ''already suspended'')) (\<lambda>_.
     bindE (set_tenant_status tenant ''suspended'') (\<lambda>_.
     bindE (revoke_tenant_sessions tenant_id) (\<lambda>revoked.
     bindE (ops_audit ''tenant.suspended'' caller
              [(''tenant_id'', JUuid tenant_id), (''sessions_revoked'', JInt (int revoked))]) (\<lambda>_.
     bindE commit (\<lambda>_.
     ret revoked))))))))))"

definition reinstate_tenant :: "uuid \<Rightarrow> uuid \<Rightarrow> unit op" where
  "reinstate_tenant tenant_id caller =
     bindE (require_platform_operator caller) (\<lambda>_.
     bindE (reads (\<lambda>d. get_row ten_id tenant_id (tenants d))) (\<lambda>found.
     bindE (the_or found (NotFoundError ''tenant not found'')) (\<lambda>tenant.
     bindE (reads (\<lambda>d. get_row org_id (ten_organization_id tenant) (organizations d))) (\<lambda>org.
     bindE (raise_if (org = None) (NotFoundError ''tenant not found'')) (\<lambda>_.
     bindE (raise_if (ten_status tenant \<noteq> ''suspended'') (ConflictError ''tenant is not suspended'')) (\<lambda>_.
     bindE (set_tenant_status tenant ''active'') (\<lambda>_.
     bindE (ops_audit ''tenant.reinstated'' caller [(''tenant_id'', JUuid tenant_id)]) (\<lambda>_.
     commit))))))))"

record tenant_provisioned =
  tpr_tenant_id :: uuid
  tpr_org_id :: uuid
  tpr_status :: string
  tpr_created :: bool

definition slug_base_of :: "string \<Rightarrow> string" where
  "slug_base_of normalized =
     str_or (Some (take 32 (map (\<lambda>c. if c = CHR ''.'' then CHR ''-'' else c)
       (takeWhile (\<lambda>c. c \<noteq> CHR ''@'') normalized)))) ''org''"

definition provision_tenant :: "uuid \<Rightarrow> string \<Rightarrow> string option \<Rightarrow> string \<Rightarrow> tenant_provisioned op" where
  "provision_tenant caller email name tenant_name =
     bindE (require_platform_operator caller) (\<lambda>_.
     let normalized = lower (strip email) in
     bindE (raise_if (normalized = []) (ValidationError ''email is required'')) (\<lambda>_.
     bindE (reads (\<lambda>d. filter (\<lambda>u. usr_normalized_email u = normalized) (users d))) (\<lambda>rows.
     bindE (one_or_none rows) (\<lambda>found.
     bindE (the_or found (NotFoundError ''user not found'')) (\<lambda>user.
     bindE (reads (\<lambda>d. first_row [(t, o'). m \<leftarrow> tenant_memberships d, (t, o') \<leftarrow> customer_tenants d,
              ten_id t = tmb_tenant_id m \<and> tmb_user_id m = usr_id user \<and> tmb_status m = ''active''])) (\<lambda>existing.
     case existing of
       Some (t, o') \<Rightarrow>
         ret \<lparr>tpr_tenant_id = ten_id t, tpr_org_id = org_id o', tpr_status = ten_status t, tpr_created = False\<rparr>
     | None \<Rightarrow>
         let slug_base = slug_base_of normalized in
         bindE utcnow (\<lambda>now.
         bindE uuid4 (\<lambda>org.
         bindE uuid4 (\<lambda>suffix.
         bindE (modifies (organizations_update (\<lambda>rows. rows @
            [new_organization org now (str_or name (usr_display_name user @ '' organization''))
               (slug_base @ ''-'' @ take 8 (uuid_str suffix)) ''organization'']))) (\<lambda>_.
         bindE uuid4 (\<lambda>m.
         bindE (modifies (org_memberships_update (\<lambda>rows. rows @
            [new_org_membership m org (usr_id user) ''owner'' ''active'']))) (\<lambda>_.
         bindE uuid4 (\<lambda>t.
         bindE (modifies (tenants_update (\<lambda>rows. rows @
            [new_tenant t now org tenant_name (slug_base @ ''-default'')]))) (\<lambda>_.
         bindE uuid4 (\<lambda>tm.
         bindE (modifies (tenant_memberships_update (\<lambda>rows. rows @ [new_tenant_membership tm t (usr_id user)]))) (\<lambda>_.
         bindE (ops_audit ''tenant.provisioned'' caller
                  [(''tenant_id'', JUuid t), (''user_id'', JUuid (usr_id user)), (''email'', JStr normalized)]) (\<lambda>_.
         bindE commit (\<lambda>_.
         ret \<lparr>tpr_tenant_id = t, tpr_org_id = org, tpr_status = ''active'', tpr_created = True\<rparr>))))))))))))))))))"

subsection \<open>Dashboard and analytics\<close>

record dashboard_event =
  dev_action :: string
  dev_actor_user_id :: "uuid option"
  dev_created_at :: instant

record dashboard_summary =
  dsm_tenant_count :: nat
  dsm_active_tenants :: nat
  dsm_vendor_count :: nat
  dsm_verified_vendors :: nat
  dsm_user_count :: nat
  dsm_pending_plugin_reviews :: nat
  dsm_pending_product_reviews :: nat
  dsm_revenue_mtd :: money
  dsm_recent_events :: "dashboard_event list"

definition revenue_since :: "database \<Rightarrow> instant \<Rightarrow> money" where
  "revenue_since d start =
     sum_list [oln_unit_price l * oln_quantity l. l \<leftarrow> order_lines d, order \<leftarrow> orders d,
       ord_id order = oln_order_id l \<and> start \<le> ord_created_at order]"

definition dashboard :: "uuid \<Rightarrow> dashboard_summary op" where
  "dashboard caller =
     bindE (require_platform_operator caller) (\<lambda>_.
     bindE utcnow (\<lambda>now.
     reads (\<lambda>d.
       \<lparr>dsm_tenant_count = length (customer_tenants d),
        dsm_active_tenants = length (filter (\<lambda>(t, _). ten_status t = ''active'') (customer_tenants d)),
        dsm_vendor_count = length (vendor_profiles d),
        dsm_verified_vendors = length (filter (\<lambda>v. vnd_status v = ''verified'') (vendor_profiles d)),
        dsm_user_count = length (users d),
        dsm_pending_plugin_reviews =
          length (filter (\<lambda>v. pvr_status v = ''pending_review'') (plugin_versions d)),
        dsm_pending_product_reviews =
          length (filter (\<lambda>p. prd_pa_status p = ''pending_review'') (products d)),
        dsm_revenue_mtd = revenue_since d (month_start now),
        dsm_recent_events =
          map (\<lambda>a. \<lparr>dev_action = aud_event_action a, dev_actor_user_id = aud_actor_user_id a,
                     dev_created_at = aud_created_at a\<rparr>)
              (take 8 (sort_desc aud_created_at (audit_log d)))\<rparr>)))"

text \<open>\<open>GROUP BY status\<close> with the number of rows, a group where its first row stands.\<close>

definition count_by :: "('r \<Rightarrow> string) \<Rightarrow> 'r list \<Rightarrow> payload" where
  "count_by f rows =
     map (\<lambda>s. (s, JInt (int (length (filter (\<lambda>r. f r = s) rows))))) (remdups (map f rows))"

definition analytics :: "uuid \<Rightarrow> string \<Rightarrow> payload op" where
  "analytics caller tab =
     bindE (require_platform_operator caller) (\<lambda>_.
     bindE (raise_if (tab \<notin> {''users'', ''vendors'', ''plugins'', ''revenue''})
              (ValidationError ''tab must be users, vendors, plugins, or revenue'')) (\<lambda>_.
     if tab = ''users''
     then reads (\<lambda>d.
            [(''tab'', JStr tab), (''total_users'', JInt (int (length (users d)))),
             (''active_users'', JInt (int (length (filter (\<lambda>u. usr_status u = ''active'') (users d)))))])
     else if tab = ''vendors''
     then reads (\<lambda>d. [(''tab'', JStr tab), (''by_status'', JObj (count_by vnd_status (vendor_profiles d)))])
     else if tab = ''plugins''
     then reads (\<lambda>d.
            [(''tab'', JStr tab), (''total_plugins'', JInt (int (length (plugins d)))),
             (''versions_by_status'', JObj (count_by pvr_status (plugin_versions d)))])
     else bindE utcnow (\<lambda>now.
          reads (\<lambda>d.
            [(''tab'', JStr tab), (''revenue_mtd'', JMoney (revenue_since d (month_start now))),
             (''orders_mtd'',
              JInt (int (length (filter (\<lambda>order. month_start now \<le> ord_created_at order) (orders d)))))]))))"

subsection \<open>The audit log\<close>

record audit_log_item =
  ali_id :: uuid
  ali_event_action :: string
  ali_actor_user_id :: "uuid option"
  ali_actor_email :: "string option"
  ali_tenant_id :: "uuid option"
  ali_payload :: payload
  ali_created_at :: instant

record audit_log_result =
  alr_items :: "audit_log_item list"
  alr_total :: nat
  alr_page :: int
  alr_page_size :: int

definition audit_log_rows ::
  "database \<Rightarrow> string option \<Rightarrow> uuid option \<Rightarrow> instant option \<Rightarrow> instant option \<Rightarrow> string option \<Rightarrow> audit_row list"
where
  "audit_log_rows d action actor from_dt to_dt q =
     sort_desc aud_created_at
       (filter (\<lambda>a. asked_value action (aud_event_action a)
          \<and> (actor = None \<or> aud_actor_user_id a = actor)
          \<and> (case from_dt of None \<Rightarrow> True | Some t \<Rightarrow> t \<le> aud_created_at a)
          \<and> (case to_dt of None \<Rightarrow> True | Some t \<Rightarrow> aud_created_at a \<le> t)
          \<and> (strip (str_or q []) = [] \<or> ilike_part (aud_event_action a) (strip (str_or q []))))
        (audit_log d))"

definition audit_log_item_of :: "database \<Rightarrow> audit_row \<Rightarrow> audit_log_item" where
  "audit_log_item_of d a =
     \<lparr>ali_id = aud_id a, ali_event_action = aud_event_action a, ali_actor_user_id = aud_actor_user_id a,
      ali_actor_email =
        (case aud_actor_user_id a of
           None \<Rightarrow> None
         | Some i \<Rightarrow> map_option usr_email (get_row usr_id i (users d))),
      ali_tenant_id = aud_tenant_id a, ali_payload = aud_payload a, ali_created_at = aud_created_at a\<rparr>"

definition list_audit_log ::
  "uuid \<Rightarrow> string option \<Rightarrow> uuid option \<Rightarrow> instant option \<Rightarrow> instant option \<Rightarrow> string option
   \<Rightarrow> int \<Rightarrow> int \<Rightarrow> audit_log_result op"
where
  "list_audit_log caller action actor from_dt to_dt q page page_size =
     bindE (require_platform_operator caller) (\<lambda>_.
     bindE (check_page page page_size) (\<lambda>_.
     reads (\<lambda>d.
       let rows = audit_log_rows d action actor from_dt to_dt q
       in \<lparr>alr_items = map (audit_log_item_of d) (page_of page page_size rows), alr_total = length rows,
           alr_page = page, alr_page_size = page_size\<rparr>)))"

subsection \<open>Policies\<close>

text \<open>\<open>_policy_item\<close> copies the row, so a policy is answered as its row.\<close>

definition update_policy_row :: "uuid \<Rightarrow> (policy_row \<Rightarrow> policy_row) \<Rightarrow> unit op" where
  "update_policy_row i f = modifies (platform_policies_update (upd_row pol_id i f))"

definition list_policies :: "uuid \<Rightarrow> policy_row list op" where
  "list_policies caller =
     bindE (require_platform_operator caller) (\<lambda>_.
     reads (\<lambda>d. sort_key pol_name (platform_policies d)))"

definition create_policy ::
  "uuid \<Rightarrow> string \<Rightarrow> string \<Rightarrow> string \<Rightarrow> string \<Rightarrow> payload option \<Rightarrow> policy_row op"
where
  "create_policy caller name scope enforcement applies_to body =
     bindE (require_platform_operator caller) (\<lambda>_.
     bindE (raise_if (strip name = [] \<or> strip scope = []) (ValidationError ''name and scope are required'')) (\<lambda>_.
     bindE uuid4 (\<lambda>i.
     let row = \<lparr>pol_id = i, pol_name = strip name, pol_scope = strip scope,
                pol_enforcement = str_or (Some (strip enforcement)) ''mandatory'',
                pol_applies_to = strip applies_to, pol_status = ''enforced'',
                pol_body = (case body of None \<Rightarrow> [] | Some b \<Rightarrow> b)\<rparr>
     in bindE (modifies (platform_policies_update (\<lambda>rows. rows @ [row]))) (\<lambda>_.
        bindE (ops_audit ''policy.created'' caller [(''policy_id'', JUuid i), (''name'', JStr (strip name))]) (\<lambda>_.
        bindE commit (\<lambda>_.
        ret row))))))"

definition policy_changes ::
  "string option \<Rightarrow> string option \<Rightarrow> string option \<Rightarrow> string option \<Rightarrow> payload option \<Rightarrow> policy_row \<Rightarrow> policy_row"
where
  "policy_changes name status enforcement applies_to body row =
     row\<lparr>pol_name := str_or (map_option strip name) (pol_name row),
         pol_status := (case status of None \<Rightarrow> pol_status row | Some s \<Rightarrow> strip s),
         pol_enforcement := (case enforcement of None \<Rightarrow> pol_enforcement row | Some s \<Rightarrow> strip s),
         pol_applies_to := (case applies_to of None \<Rightarrow> pol_applies_to row | Some s \<Rightarrow> strip s),
         pol_body := (case body of None \<Rightarrow> pol_body row | Some b \<Rightarrow> b)\<rparr>"

definition update_policy ::
  "uuid \<Rightarrow> uuid \<Rightarrow> string option \<Rightarrow> string option \<Rightarrow> string option \<Rightarrow> string option \<Rightarrow> payload option \<Rightarrow> policy_row op"
where
  "update_policy caller policy_id name status enforcement applies_to body =
     bindE (require_platform_operator caller) (\<lambda>_.
     bindE (reads (\<lambda>d. get_row pol_id policy_id (platform_policies d))) (\<lambda>found.
     bindE (the_or found (NotFoundError ''policy not found'')) (\<lambda>row.
     let changed = policy_changes name status enforcement applies_to body
     in bindE (update_policy_row (pol_id row) changed) (\<lambda>_.
        bindE (ops_audit ''policy.updated'' caller [(''policy_id'', JUuid (pol_id row))]) (\<lambda>_.
        bindE commit (\<lambda>_.
        ret (changed row)))))))"

definition toggled_policy :: "policy_row \<Rightarrow> policy_row" where
  "toggled_policy row =
     row\<lparr>pol_status := (if pol_status row = ''enforced'' then ''disabled'' else ''enforced'')\<rparr>"

definition toggle_policy_status :: "uuid \<Rightarrow> uuid \<Rightarrow> policy_row op" where
  "toggle_policy_status caller policy_id =
     bindE (require_platform_operator caller) (\<lambda>_.
     bindE (reads (\<lambda>d. get_row pol_id policy_id (platform_policies d))) (\<lambda>found.
     bindE (the_or found (NotFoundError ''policy not found'')) (\<lambda>row.
     bindE (update_policy_row (pol_id row) toggled_policy) (\<lambda>_.
     bindE (ops_audit ''policy.status_toggled'' caller
              [(''policy_id'', JUuid (pol_id row)), (''status'', JStr (pol_status (toggled_policy row)))]) (\<lambda>_.
     bindE commit (\<lambda>_.
     ret (toggled_policy row)))))))"

subsection \<open>Configuration\<close>

definition default_config :: payload where
  "default_config =
     [(''platform_name'', JStr ''AdanPradan FairShare''), (''commission_rate_pct'', JInt 10),
      (''settlement_cycle'', JStr ''weekly_t7''), (''plugin_review_sla_days'', JInt 3),
      (''webhook_hmac_key'', JStr []), (''product_content_review_required'', JBool True)]"

definition get_config :: "uuid \<Rightarrow> payload op" where
  "get_config caller =
     bindE (require_platform_operator caller) (\<lambda>_.
     reads (\<lambda>d. if platform_config d = [] then default_config
                else map (\<lambda>c. (cfg_key c, cfg_value c)) (platform_config d)))"

definition set_config :: "uuid \<Rightarrow> instant \<Rightarrow> string \<Rightarrow> json \<Rightarrow> config_row list \<Rightarrow> config_row list" where
  "set_config caller now key v rows =
     (if \<exists>c \<in> set rows. cfg_key c = key
      then map (\<lambda>c. if cfg_key c = key then c\<lparr>cfg_value := v, cfg_updated_by := Some caller, cfg_updated_at := now\<rparr>
                   else c) rows
      else rows @ [\<lparr>cfg_key = key, cfg_value = v, cfg_updated_by = Some caller, cfg_updated_at = now\<rparr>])"

definition patch_config :: "uuid \<Rightarrow> payload \<Rightarrow> payload op" where
  "patch_config caller updates =
     bindE (require_platform_operator caller) (\<lambda>_.
     bindE (raise_if (updates = []) (ValidationError ''updates required'')) (\<lambda>_.
     bindE utcnow (\<lambda>now.
     bindE (for_each updates (\<lambda>(key, v). modifies (platform_config_update (set_config caller now key v)))) (\<lambda>_.
     bindE (ops_audit ''config.updated'' caller
              [(''keys'', JList (map (\<lambda>(key, _). JStr key) updates))]) (\<lambda>_.
     bindE commit (\<lambda>_.
     get_config caller))))))"

end
