(* ===== verification/Session_Rules.thy ===== *)
theory Session_Rules
  imports Invariants Admin_Ops
begin

section \<open>The life of a session\<close>

text \<open>
  A session belongs to one user, and once revoked it stays revoked. The lemmas follow the writes of the
  identity service and of the platform services to the table of sessions; \<open>identity_step\<close> is a run of all of
  them in any order.
\<close>

definition session_moves :: "session_row \<Rightarrow> session_row \<Rightarrow> bool" where
  "session_moves s t \<longleftrightarrow>
     ses_user_id t = ses_user_id s \<and> (ses_status s = ''revoked'' \<longrightarrow> ses_status t = ''revoked'')"

definition session_hist :: "session_row list \<Rightarrow> uuid \<Rightarrow> database \<Rightarrow> bool" where
  "session_hist ss n d \<longleftrightarrow>
     distinct (map ses_id (sessions d)) \<and> (\<forall>s \<in> set (sessions d). ses_id s < n)
     \<and> (\<forall>s \<in> set ss. \<exists>t. get_row ses_id (ses_id s) (sessions d) = Some t \<and> session_moves s t)"

lemma session_moves_refl [simp]: "session_moves s s"
  by (simp add: session_moves_def)

lemma session_moves_trans: "session_moves s t \<Longrightarrow> session_moves t u \<Longrightarrow> session_moves s u"
  by (simp add: session_moves_def)

lemma session_hist_mono: "supply_mono (session_hist ss)"
  unfolding supply_mono_def session_hist_def by (metis order_less_le_trans)

lemma session_hist_same: "sessions d' = sessions d \<Longrightarrow> session_hist ss n d' \<longleftrightarrow> session_hist ss n d"
  by (simp add: session_hist_def)

lemma session_hist_log: "log_blind (session_hist ss)"
  by (simp add: log_blind_def session_hist_def)

lemma session_hist_start:
  "distinct (map ses_id (sessions d)) \<Longrightarrow> \<forall>s \<in> set (sessions d). ses_id s < n
    \<Longrightarrow> session_hist (sessions d) n d"
  by (auto simp: session_hist_def get_row_unique)

lemma get_row_map: "(\<And>r. key (f r) = key r) \<Longrightarrow> get_row key k (map f rows) = map_option f (get_row key k rows)"
  by (induction rows) auto

text \<open>A write that changes rows in place: ids stay, and each row moves.\<close>

lemma session_hist_map:
  assumes J: "session_hist ss n d" and d': "sessions d' = map f (sessions d)"
    and id: "\<And>t. ses_id (f t) = ses_id t" and mv: "\<And>t. t \<in> set (sessions d) \<Longrightarrow> session_moves t (f t)"
  shows "session_hist ss n d'"
proof -
  have "\<exists>t. get_row ses_id (ses_id s) (sessions d') = Some t \<and> session_moves s t" if "s \<in> set ss" for s
  proof -
    from J that obtain t where t: "get_row ses_id (ses_id s) (sessions d) = Some t" "session_moves s t"
      by (auto simp: session_hist_def)
    have "session_moves s (f t)"
      using session_moves_trans [OF t(2) mv] get_row_Some [OF t(1)] by blast
    with t(1) show ?thesis by (simp add: d' get_row_map id)
  qed
  moreover have "map ses_id (sessions d') = map ses_id (sessions d)" by (simp add: d' id)
  ultimately show ?thesis using J by (auto simp: session_hist_def d' id comp_def)
qed

lemma session_hist_append:
  assumes J: "session_hist ss n d" and d': "sessions d' = sessions d @ [r]" and r: "n \<le> ses_id r" "ses_id r < m" "n \<le> m"
  shows "session_hist ss m d'"
proof -
  have fresh: "\<forall>s \<in> set (sessions d). ses_id s < ses_id r"
    using J r by (auto simp: session_hist_def)
  have "get_row ses_id k (sessions d') = Some t" if "get_row ses_id k (sessions d) = Some t" for k t
    by (simp add: d' get_row_append that)
  then show ?thesis
    using J r fresh unfolding session_hist_def d' by (auto simp: get_row_append)
qed

subsection \<open>The operations\<close>

lemma revoked_session_moves: "ses_id (revoked_session now t) = ses_id t" "session_moves t (revoked_session now t)"
  by (simp_all add: revoked_session_def session_moves_def)

lemma keeps_session_other:
  "(\<And>d. sessions (f d) = sessions d) \<Longrightarrow> keeps (both (session_hist ss)) (modifies f)"
  by (rule keeps_both_modifies, erule session_hist_same [THEN iffD2, rotated])

lemma keeps_session_map:
  assumes "\<And>t. ses_id (f t) = ses_id t" and "\<And>t. session_moves t (f t)"
  shows "keeps (both (session_hist ss)) (modifies (sessions_update (map f)))"
  by (rule keeps_both_modifies, erule session_hist_map [where f = f]) (simp_all add: assms)

lemma keeps_session_revoke:
  "keeps (both (session_hist ss)) (modifies (sessions_update (upd_row ses_id i (revoked_session now))))"
  "keeps (both (session_hist ss)) (modifies (sessions_update (map (\<lambda>s. if P s then revoked_session now s else s))))"
  unfolding upd_row_def by (rule keeps_session_map; simp add: revoked_session_moves)+

lemma keeps_session_basic:
  "keeps (both (session_hist ss)) uuid4" "keeps (both (session_hist ss)) (audit a u t p)"
  by (rule keeps_both_uuid4 [OF session_hist_mono])
     (rule keeps_both_audit [OF session_hist_mono], erule session_hist_same [THEN iffD2, rotated], simp)

lemmas session_intros =
  keeps_session_revoke keeps_session_basic keeps_session_other keeps_intros reads_only_keeps

lemma reads_only_identity [reads_only_intros]:
  "reads_only (of_reply r)" "reads_only (user_by_email e)" "reads_only (realm_by_name n)"
  "reads_only (directory_user u)" "reads_only (require_team_member i)" "reads_only (credential_with_realm p)"
  "reads_only (validate_password s)" "reads_only (find_valid_reset_token C t)"
  "reads_only (build_access_token C S sub iss sid typ uid pid)"
  unfolding of_reply_def user_by_email_def realm_by_name_def directory_user_def require_team_member_def
    credential_with_realm_def validate_password_def find_valid_reset_token_def build_access_token_def
  by (auto intro!: reads_only_intros split: sum.split prod.split option.split json.split)


lemma keeps_session_revoke_session:
  "keeps (both (session_hist ss)) (revoke_session s a)"
  "keeps (both (session_hist ss)) (revoke_user_sessions u)"
  "keeps (both (session_hist ss)) (revoke_sessions_of us)"
  "keeps (both (session_hist ss)) (ops_audit act c p)"
proof -
  show "keeps (both (session_hist ss)) (revoke_session s a)"
    unfolding revoke_session_def by (rule session_intros)+
  show u: "keeps (both (session_hist ss)) (revoke_user_sessions u)" for u
    unfolding revoke_user_sessions_def by (rule session_intros)+
  show "keeps (both (session_hist ss)) (revoke_sessions_of us)"
    by (induction us) (auto intro!: keeps_intros u)
  show "keeps (both (session_hist ss)) (ops_audit act c p)"
    unfolding ops_audit_def by (rule session_intros)
qed

lemma keeps_session_writes:
  "keeps (both (session_hist ss)) (hash_secret C x)"
  "keeps (both (session_hist ss)) (token_urlsafe C k)"
  "keeps (both (session_hist ss)) (update_credential i g)"
  "keeps (both (session_hist ss)) (set_user_status u a b)"
  "keeps (both (session_hist ss)) (set_tenant_status tn a)"
  "keeps (both (session_hist ss)) (update_member i h)"
  "keeps (both (session_hist ss)) (lock_user u)"
  "keeps (both (session_hist ss)) (insert_delivery e q x)"
  "keeps (both (session_hist ss)) (insert_event q pl)"
  unfolding hash_secret_def token_urlsafe_def update_credential_def set_user_status_def set_tenant_status_def
    update_member_def lock_user_def insert_delivery_def insert_event_def
  by (rule session_intros | (simp; fail))+

lemma reads_only_belongs [reads_only_intros]: "reads_only (session_belongs_to_tenant u tn)"
  unfolding session_belongs_to_tenant_def sql_has_active_tenant_membership_def
  by (intro reads_only_intros)

lemma reads_only_claim_id [reads_only_intros]: "reads_only (parse_uuid v)"
  by (cases v rule: parse_uuid.cases) (auto intro: reads_only_intros)

lemma keeps_session_permission:
  "keeps (both (session_hist ss)) (has_tenant_permission b u tn code)"
  "keeps (both (session_hist ss)) (session_belongs_to_tenant u tn)"
proof -
  have "log_free (both (session_hist ss))"
  proof -
    have "session_hist ss (Suc n) d" if "session_hist ss n d" for n d
      by (rule supply_monoD [OF session_hist_mono that]) simp
    then show ?thesis
      using session_hist_log [of ss] unfolding log_blind_def
      by (simp add: log_free_def both_def sql_logged_rest sql_logged_db)
  qed
  then show "keeps (both (session_hist ss)) (has_tenant_permission b u tn code)"
    unfolding has_tenant_permission_def by (auto intro!: keeps_intros keeps_authorize)
  show "keeps (both (session_hist ss)) (session_belongs_to_tenant u tn)"
    by (rule reads_only_keeps [OF reads_only_belongs])
qed

text \<open>A login adds a session under a new identifier.\<close>

lemma issue_tokens_run:
  "\<exists>x w1 s. issue_tokens C S user subject issuer w = (Inr x, w1) \<and> disk w1 = db w1
     \<and> sessions (db w1) = sessions (db w) @ [s] \<and> next_uuid w1 = next_uuid w + 4
     \<and> next_uuid w \<le> ses_id s \<and> ses_id s < next_uuid w + 4 \<and> ses_user_id s = usr_id user
     \<and> tkp_session_id x = ses_id s \<and> tkp_user_id x = usr_id user"
  by (simp add: issue_tokens_def token_urlsafe_def hash_secret_def refresh_expires_at_def build_access_token_def run_simps)

lemma keeps_session_login: "keeps (both (session_hist ss)) (issue_tokens C S user subject issuer)"
proof (rule keepsI)
  fix w assume "both (session_hist ss) w"
  then have J: "session_hist ss (next_uuid w) (db w)" by (simp add: both_def)
  obtain x w1 s where run: "issue_tokens C S user subject issuer w = (Inr x, w1)" "disk w1 = db w1"
    and s: "sessions (db w1) = sessions (db w) @ [s]" "next_uuid w1 = next_uuid w + 4"
      "next_uuid w \<le> ses_id s" "ses_id s < next_uuid w + 4"
    using issue_tokens_run [of C S user subject issuer w] by blast
  have "session_hist ss (next_uuid w + 4) (db w1)"
    by (rule session_hist_append [OF J s(1,3,4)]) simp
  then show "both (session_hist ss) (snd (issue_tokens C S user subject issuer w))"
    by (simp add: run both_def s(2))
qed

lemma keeps_session_kill: "keeps (both (session_hist ss)) (kill_session s)"
  unfolding kill_session_def by (rule keeps_session_revoke_session session_intros)+

lemma keeps_session_rotate:
  "keeps (both (session_hist ss)) (modifies (sessions_update (upd_row ses_id i (\<lambda>r. r\<lparr>ses_refresh_token_hash := h,
     ses_last_active_at := a, ses_expires_at := e\<rparr>))))"
  unfolding upd_row_def by (rule keeps_session_map) (simp_all add: session_moves_def)

lemma keeps_session_refresh: "keeps (both (session_hist ss)) (refresh_token C S tok i)"
  unfolding refresh_token_def rotate_refresh_def refresh_expires_at_def
  by (rule keeps_session_rotate keeps_session_kill keeps_session_writes keeps_session_revoke_session
      session_intros reads_only_identity | (simp; fail))+

lemma keeps_value_error:
  "keeps I m \<Longrightarrow> keeps I (case e of ValueError x \<Rightarrow> m | _ \<Rightarrow> raise e)"
  by (cases e) (auto intro: keeps_intros)

lemma keeps_session_requests:
  "keeps (both (session_hist ss)) (login K C S email password hint)"
  "keeps (both (session_hist ss)) (logout_self i u)"
  "keeps (both (session_hist ss)) (revoke_session_admin b i u tn)"
  "keeps (both (session_hist ss)) (revoke_other_sessions i u)"
  "keeps (both (session_hist ss)) (revoke_principal_access b v u tn)"
  "keeps (both (session_hist ss)) (password_reset_request C S email)"
  "keeps (both (session_hist ss)) (password_reset K C tok password)"
  unfolding login_def keycloak_subject_for_login_def logout_self_def revoke_session_admin_def
    revoke_other_sessions_def revoke_principal_access_def password_reset_request_def password_reset_def
    close_sessions_def Let_def
  by (rule keeps_value_error keeps_session_login keeps_session_permission keeps_session_writes
      keeps_session_revoke_session session_intros reads_only_identity | (simp; fail))+

lemma keeps_session_operator:
  "keeps (both (session_hist ss)) (suspend_user u v)"
  "keeps (both (session_hist ss)) (reinstate_user u v)"
  "keeps (both (session_hist ss)) (block_user u v)"
  "keeps (both (session_hist ss)) (reset_mfa K u v)"
  "keeps (both (session_hist ss)) (suspend_tenant tn u)"
  "keeps (both (session_hist ss)) (reinstate_tenant tn u)"
  "keeps (both (session_hist ss)) (suspend_team_member u m)"
  "keeps (both (session_hist ss)) (reset_team_mfa K u m)"
  unfolding suspend_user_def reinstate_user_def block_user_def reset_mfa_def suspend_tenant_def reinstate_tenant_def
    suspend_team_member_def reset_team_mfa_def revoke_tenant_sessions_def
  by (rule keeps_session_permission keeps_session_writes keeps_session_revoke_session
      session_intros reads_only_identity reads_only_checks | (simp; fail))+


subsection \<open>Runs\<close>

datatype identity_call =
    Login keycloak string string "string option"
  | Refresh string uuid
  | Logout uuid uuid
  | Revoke_Session uuid uuid uuid
  | Revoke_Others uuid uuid
  | Revoke_Access uuid uuid uuid
  | Ask_Reset string
  | Reset_Password keycloak string string
  | Suspend_User uuid uuid
  | Reinstate_User uuid uuid
  | Block_User uuid uuid
  | Reset_User_Factor keycloak uuid uuid
  | Suspend_Tenant uuid uuid
  | Reinstate_Tenant uuid uuid
  | Suspend_Team_Member uuid uuid
  | Reset_Team_Factor keycloak uuid uuid

fun answer_identity :: "crypto \<Rightarrow> settings \<Rightarrow> bool \<Rightarrow> identity_call \<Rightarrow> unit op" where
  "answer_identity C S b (Login K email password hint) = silent (login K C S email password hint)"
| "answer_identity C S b (Refresh tok i) = silent (refresh_token C S tok i)"
| "answer_identity C S b (Logout i u) = silent (logout_self i u)"
| "answer_identity C S b (Revoke_Session i u t) = silent (revoke_session_admin b i u t)"
| "answer_identity C S b (Revoke_Others i u) = silent (revoke_other_sessions i u)"
| "answer_identity C S b (Revoke_Access v u t) = silent (revoke_principal_access b v u t)"
| "answer_identity C S b (Ask_Reset email) = silent (password_reset_request C S email)"
| "answer_identity C S b (Reset_Password K tok password) = silent (password_reset K C tok password)"
| "answer_identity C S b (Suspend_User u v) = silent (suspend_user u v)"
| "answer_identity C S b (Reinstate_User u v) = silent (reinstate_user u v)"
| "answer_identity C S b (Block_User u v) = silent (block_user u v)"
| "answer_identity C S b (Reset_User_Factor K u v) = silent (reset_mfa K u v)"
| "answer_identity C S b (Suspend_Tenant t u) = silent (suspend_tenant t u)"
| "answer_identity C S b (Reinstate_Tenant t u) = silent (reinstate_tenant t u)"
| "answer_identity C S b (Suspend_Team_Member u m) = silent (suspend_team_member u m)"
| "answer_identity C S b (Reset_Team_Factor K u m) = silent (reset_team_mfa K u m)"

inductive identity_step :: "crypto \<Rightarrow> settings \<Rightarrow> bool \<Rightarrow> world \<Rightarrow> world \<Rightarrow> bool"
  for C S b
where
  call: "request (answer_identity C S b c) w = (r, w') \<Longrightarrow> identity_step C S b w w'"
| tick: "clock w \<le> t \<Longrightarrow> identity_step C S b w (w\<lparr>clock := t\<rparr>)"
| other: "sessions d = sessions (db w) \<Longrightarrow> next_uuid w \<le> n
    \<Longrightarrow> identity_step C S b w (w\<lparr>db := d, disk := d, next_uuid := n\<rparr>)"

lemma answer_identity_preserved: "preserved (session_hist ss) (answer_identity C S b c)"
  by (cases c; simp only: answer_identity.simps;
      rule preserved_silent, rule preserved_both, rule keeps_session_requests keeps_session_operator keeps_session_refresh)

definition sessions_ok :: "world \<Rightarrow> bool" where
  "sessions_ok w \<longleftrightarrow>
     disk w = db w \<and> distinct (map ses_id (sessions (db w))) \<and> (\<forall>s \<in> set (sessions (db w)). ses_id s < next_uuid w)"

definition sessions_since :: "session_row list \<Rightarrow> world \<Rightarrow> bool" where
  "sessions_since ss w \<longleftrightarrow> disk w = db w \<and> session_hist ss (next_uuid w) (db w)"

lemma sessions_since_step:
  assumes "identity_step C S b w w'" and "sessions_since ss w"
  shows "sessions_since ss w'"
  using assms(1)
proof cases
  case (call c r)
  have "disk w = db w" "session_hist ss (next_uuid w) (db w)" using assms(2) by (simp_all add: sessions_since_def)
  from preservedD [OF answer_identity_preserved this call] show ?thesis by (simp add: sessions_since_def)
next
  case (tick t)
  with assms(2) show ?thesis by (simp add: sessions_since_def)
next
  case (other d n)
  have "session_hist ss (next_uuid w) d"
    using assms(2) session_hist_same [OF other(2)] by (simp add: sessions_since_def)
  from supply_monoD [OF session_hist_mono this other(3)] show ?thesis by (simp add: sessions_since_def other(1))
qed

interpretation session_runs: served_machine "identity_step C S b" "session_hist ss" for C S b ss
  by unfold_locales (rule sessions_since_step [unfolded sessions_since_def])

lemma sessions_since_run:
  assumes "(identity_step C S b)\<^sup>*\<^sup>* w w'" and "sessions_ok w"
  shows "sessions_since (sessions (db w)) w'"
  unfolding sessions_since_def
  by (rule session_runs.run_keeps [OF assms(1)]) (use assms(2) session_hist_start in \<open>simp_all add: sessions_ok_def\<close>)

subsection \<open>What a revoked session is refused\<close>

lemma refresh_revoked:
  assumes "get_row ses_id i (sessions (db w)) = Some s" and "ses_status s = ''revoked''"
  shows "refresh_token C S tok i w = (Inl (UnauthorizedError ''refresh token invalid / expired''), w)"
  using assms by (simp add: refresh_token_def step_run)

lemma resolve_okD:
  assumes "resolve_user_from_access_token C tok w = (Inr (u, s, c), w')"
  shows "w' = w" and "get_row ses_id (ses_id s) (sessions (db w)) = Some s" and "ses_status s = ''active''"
    and "ses_user_id s = usr_id u" and "usr_status u = ''active''" and "u \<in> set (users (db w))"
    and "\<exists>p. get_row pri_id (usr_principal_id u) (principals (db w)) = Some p \<and> pri_status p = ''active''"
proof -
  have ro: "reads_only (resolve_user_from_access_token C tok)"
    unfolding resolve_user_from_access_token_def Let_def
    by (intro reads_only_bindE reads_only_simple reads_only_one_or_none reads_only_lookups reads_only_claim_id)
  show "w' = w" by (rule reads_onlyD [OF ro assms])
  from assms obtain sid where s: "get_row ses_id sid (sessions (db w)) = Some s" "ses_status s = ''active''"
    and u: "ses_user_id s = usr_id u" "usr_status u = ''active''"
    and p: "\<exists>p. get_row pri_id (usr_principal_id u) (principals (db w)) = Some p \<and> pri_status p = ''active''"
    and ur: "user_by_principal (crd_principal_id c) w = (Inr (Some u), w)"
    unfolding resolve_user_from_access_token_def Let_def
    by (auto simp: ok_iff step_ok_reads_only [OF reads_only_claim_id] dest!: reads_onlyD [OF reads_only_claim_id]
        reads_onlyD [OF reads_only_lookups(1)] split: option.splits if_splits)
  from s(1) get_row_Some [OF s(1)] show "get_row ses_id (ses_id s) (sessions (db w)) = Some s" by simp
  show "ses_status s = ''active''" "ses_user_id s = usr_id u" "usr_status u = ''active''"
    "\<exists>p. get_row pri_id (usr_principal_id u) (principals (db w)) = Some p \<and> pri_status p = ''active''"
    by (rule s u p)+
  from ur have "u \<in> set (filter (\<lambda>u. usr_principal_id u = crd_principal_id c) (users (db w)))"
    by (auto simp: user_by_principal_def ok_iff)
  then show "u \<in> set (users (db w))" by simp
qed

end
