(* ===== verification/Session_Properties.thy ===== *)
theory Session_Properties
  imports Session_Rules
begin

section \<open>What sessions, tokens and resets guarantee\<close>

text \<open>
  The properties of the identity service. Hashes and random tokens are those of libraries outside the
  repository: \<open>ideal_secrets\<close> states what the code relies on, that a hash verifies its own secret only and that
  two draws give two tokens.
\<close>

definition ideal_secrets :: "crypto \<Rightarrow> bool" where
  "ideal_secrets C \<longleftrightarrow>
     (\<forall>salt v x. cry_verify C x (cry_hash C salt v) \<longleftrightarrow> x = v) \<and> (\<forall>salt v. cry_hash C salt v \<noteq> [])
     \<and> (\<forall>k. inj (cry_token C k)) \<and> (\<forall>k i. cry_token C k i \<noteq> [])"

text \<open>A small instance for the witnesses: a user with an open session, a closed one and a reset token.\<close>

definition sample_crypto :: crypto where
  "sample_crypto =
     \<lparr>cry_hash = (\<lambda>_ v. CHR ''h'' # v), cry_verify = (\<lambda>x h. h = CHR ''h'' # x),
      cry_token = (\<lambda>_ i. CHR ''t'' # replicate i (CHR ''x'')), cry_hex = (\<lambda>_ i. replicate i (CHR ''0'')),
      cry_below = (\<lambda>n i. i mod n), cry_jwt_encode = (\<lambda>_. ''j''),
      cry_jwt_decode = (\<lambda>_ _. Some [(''sub'', JStr ''k''), (''iss'', JStr ''i''), (''sid'', JUuid 9)])\<rparr>"

definition sample_settings :: settings where
  "sample_settings =
     \<lparr>stg_app_env = ''dev'', stg_platform_realm_name = ''p'', stg_platform_issuer_url = ''i'',
      stg_otp_ttl_minutes = 10, stg_reset_token_ttl_minutes = 30, stg_jwt_access_ttl_seconds = 900,
      stg_jwt_refresh_ttl_days = 30, stg_workflow_mode = ''inline'', stg_platform_operator_emails = []\<rparr>"

definition sample_keycloak :: keycloak where
  "sample_keycloak =
     \<lparr>kc_create_user = (\<lambda>_ _ _. Inr ''k''), kc_delete_user = (\<lambda>_ _. Inr ()),
      kc_authenticate = (\<lambda>_ _ _. Inr ''k''), kc_set_password = (\<lambda>_ _ _ _. Inl (KeycloakUnavailable ''down'')),
      kc_create_realm = (\<lambda>s. Inr s), kc_reset_mfa = (\<lambda>_ _. Inr ()), kc_has_mfa = (\<lambda>_ _. Inr False)\<rparr>"

definition sample_session :: "uuid \<Rightarrow> uuid \<Rightarrow> string \<Rightarrow> string option \<Rightarrow> session_row" where
  "sample_session i u status h =
     \<lparr>ses_id = i, ses_user_id = u, ses_status = status, ses_refresh_token_hash = h, ses_expires_at = 50,
      ses_last_active_at = None, ses_revoked_at = None, ses_created_at = 0\<rparr>"

definition identity_db :: database where
  "identity_db = empty_db\<lparr>
     principals := [\<lparr>pri_id = 1, pri_type = ''user'', pri_status = ''active''\<rparr>],
     users := [sample_user 3 1 ''a''],
     identity_realms := [\<lparr>rlm_id = 7, rlm_realm_name = ''p'', rlm_realm_type = ''platform'', rlm_issuer = ''i'',
       rlm_issuer_url = ''i'', rlm_keycloak_realm_id = None, rlm_organization_id = None, rlm_status = ''active''\<rparr>],
     credentials := [\<lparr>crd_id = 8, crd_principal_id = 1, crd_realm_id = 7, crd_keycloak_subject = ''k'',
       crd_password_hash = None, crd_type = ''password'', crd_status = ''active''\<rparr>],
     sessions := [sample_session 9 3 ''active'' (Some ''ht''), sample_session 10 3 ''revoked'' None]\<rparr>"

definition identity_world :: world where
  "identity_world = \<lparr>db = identity_db, disk = identity_db, clock = 5, next_uuid = 20\<rparr>"

lemma sample_ideal: "ideal_secrets sample_crypto"
  by (auto simp: ideal_secrets_def sample_crypto_def inj_def replicate_eq_replicate)

subsection \<open>Refresh\<close>

definition rotated :: "crypto \<Rightarrow> settings \<Rightarrow> instant \<Rightarrow> uuid \<Rightarrow> session_row \<Rightarrow> session_row" where
  "rotated C S now n = (\<lambda>r.
     r\<lparr>ses_refresh_token_hash := Some (cry_hash C (Suc n) (cry_token C 48 n)), ses_last_active_at := Some now,
       ses_expires_at := now + days (stg_jwt_refresh_ttl_days S)\<rparr>)"

lemma rotated_simps [simp]:
  "ses_id (rotated C S now n r) = ses_id r" "ses_status (rotated C S now n r) = ses_status r"
  "ses_user_id (rotated C S now n r) = ses_user_id r"
  "ses_refresh_token_hash (rotated C S now n r) = Some (cry_hash C (Suc n) (cry_token C 48 n))"
  "ses_expires_at (rotated C S now n r) = now + days (stg_jwt_refresh_ttl_days S)"
  by (simp_all add: rotated_def)

lemma rotate_refresh_run:
  obtains r where "rotate_refresh C S s user cred w = (Inr r,
     w\<lparr>next_uuid := Suc (Suc (next_uuid w)),
       db := sessions_update (upd_row ses_id (ses_id s) (rotated C S (clock w) (next_uuid w))) (db w),
       disk := sessions_update (upd_row ses_id (ses_id s) (rotated C S (clock w) (next_uuid w))) (db w)\<rparr>)"
    and "rfr_refresh_token r = cry_token C 48 (next_uuid w)" "rfr_session_id r = ses_id s"
  by (rule that, simp add: rotate_refresh_def token_urlsafe_def hash_secret_def refresh_expires_at_def
        build_access_token_def rotated_def run_simps, simp_all)

lemma kill_session_run:
  "\<exists>l. kill_session s w = (Inl (UnauthorizedError ''refresh token invalid / expired''),
     w\<lparr>next_uuid := Suc (next_uuid w),
       db := (sessions_update (upd_row ses_id (ses_id s) (revoked_session (clock w))) (db w))\<lparr>audit_log := l\<rparr>,
       disk := (sessions_update (upd_row ses_id (ses_id s) (revoked_session (clock w))) (db w))\<lparr>audit_log := l\<rparr>\<rparr>)"
  by (simp add: kill_session_def revoke_session_def run_simps) (rule exI, rule refl)

text \<open>The state in which the holder of an account can refresh a session.\<close>

definition refreshable :: "database \<Rightarrow> instant \<Rightarrow> session_row \<Rightarrow> user_row \<Rightarrow> credential_row \<Rightarrow> bool" where
  "refreshable d now s user cred \<longleftrightarrow>
     ses_status s \<noteq> ''revoked'' \<and> now \<le> ses_expires_at s \<and> str_or (ses_refresh_token_hash s) [] \<noteq> []
     \<and> get_row usr_id (ses_user_id s) (users d) = Some user \<and> usr_status user = ''active''
     \<and> (\<exists>p. get_row pri_id (usr_principal_id user) (principals d) = Some p \<and> pri_status p = ''active'')
     \<and> first_row (filter (\<lambda>c. crd_principal_id c = usr_principal_id user \<and> crd_status c = ''active'')
         (credentials d)) = Some cred"

lemma refresh_token_run:
  assumes "get_row ses_id i (sessions (db w)) = Some s" and "refreshable (db w) (clock w) s user cred"
  shows "refresh_token C S tok i w =
    (if cry_verify C tok (str_or (ses_refresh_token_hash s) []) then rotate_refresh C S s user cred w
     else kill_session s w)"
  using assms by (auto simp: refresh_token_def refreshable_def step_run)

lemma refresh_token_okD:
  assumes "refresh_token C S tok i w = (Inr r, w')"
  obtains s user cred where "get_row ses_id i (sessions (db w)) = Some s" "refreshable (db w) (clock w) s user cred"
    "cry_verify C tok (str_or (ses_refresh_token_hash s) [])" "rotate_refresh C S s user cred w = (Inr r, w')"
proof -
  have kill: "kill_session s w \<noteq> (Inr r, w')" for s
    by (simp add: kill_session_def revoke_session_def run_simps)
  from assms that show thesis
    unfolding refresh_token_def refreshable_def
    by (auto simp: run_simps kill not_less split: option.splits if_splits)
qed


text \<open>
  C9. A refresh token is used once: after a refresh the new token is accepted, and presenting the old one again
  revokes the session, whatever its holder had obtained.
\<close>

theorem refresh_once:
  assumes "request (refresh_token C S tok i) w = (Inr r, w')" and "disk w = db w"
    and "ideal_secrets C" and "tok = cry_token C 48 k" and "k < next_uuid w" and "0 \<le> stg_jwt_refresh_ttl_days S"
  shows "(\<exists>r2 w2. request (refresh_token C S (rfr_refresh_token r) i) w' = (Inr r2, w2) \<and> rfr_session_id r2 = i)
    \<and> (\<exists>w2 t. request (refresh_token C S tok i) w' = (Inl (UnauthorizedError ''refresh token invalid / expired''), w2)
         \<and> get_row ses_id i (sessions (disk w2)) = Some t \<and> ses_status t = ''revoked'' \<and> ses_refresh_token_hash t = None)"
proof -
  from assms(1) obtain w1 where m: "refresh_token C S tok i w = (Inr r, w1)" and w': "w' = w1\<lparr>db := disk w1\<rparr>"
    by (auto simp: request_run split: prod.splits)
  from m obtain s user cred where s: "get_row ses_id i (sessions (db w)) = Some s"
    and ok: "refreshable (db w) (clock w) s user cred" and rot: "rotate_refresh C S s user cred w = (Inr r, w1)"
    by (rule refresh_token_okD)
  let ?s = "rotated C S (clock w) (next_uuid w) s"
  obtain r1 where run: "rotate_refresh C S s user cred w = (Inr r1,
     w\<lparr>next_uuid := Suc (Suc (next_uuid w)),
       db := sessions_update (upd_row ses_id (ses_id s) (rotated C S (clock w) (next_uuid w))) (db w),
       disk := sessions_update (upd_row ses_id (ses_id s) (rotated C S (clock w) (next_uuid w))) (db w)\<rparr>)"
    and r1: "rfr_refresh_token r1 = cry_token C 48 (next_uuid w)"
    by (rule rotate_refresh_run)
  from s have id: "ses_id s = i" by (simp add: get_row_Some)
  from run rot have new: "rfr_refresh_token r = cry_token C 48 (next_uuid w)"
    and d: "db w' = sessions_update (upd_row ses_id i (rotated C S (clock w) (next_uuid w))) (db w)"
      "disk w' = db w'" "clock w' = clock w"
    by (auto simp: r1 w' id)
  have row: "get_row ses_id i (sessions (db w')) = Some ?s"
    by (simp add: d(1) get_row_upd_row s)
  have hash: "str_or (ses_refresh_token_hash ?s) [] = cry_hash C (Suc (next_uuid w)) (cry_token C 48 (next_uuid w))"
    using assms(3) by (simp add: ideal_secrets_def str_or_def)
  have "refreshable (db w') (clock w') ?s user cred"
    using ok assms(3,6) by (auto simp: refreshable_def d(1,3) str_or_def ideal_secrets_def days_def)
  note again = refresh_token_run [OF row this]
  show ?thesis
  proof
    have "cry_verify C (rfr_refresh_token r) (str_or (ses_refresh_token_hash ?s) [])"
      using assms(3) by (simp only: hash new) (simp add: ideal_secrets_def)
    then have "refresh_token C S (rfr_refresh_token r) i w' = rotate_refresh C S ?s user cred w'"
      by (simp add: again)
    moreover obtain r2 w2 where "rotate_refresh C S ?s user cred w' = (Inr r2, w2)" "rfr_session_id r2 = ses_id ?s"
      by (rule rotate_refresh_run [of C S ?s user cred w'])
    ultimately show "\<exists>r2 w2. request (refresh_token C S (rfr_refresh_token r) i) w' = (Inr r2, w2) \<and> rfr_session_id r2 = i"
      by (simp add: request_run id)
  next
    have "tok \<noteq> cry_token C 48 (next_uuid w)"
      using assms(3,4,5) by (auto simp: ideal_secrets_def dest!: spec [of _ 48] dest: injD)
    then have "\<not> cry_verify C tok (str_or (ses_refresh_token_hash ?s) [])"
      using assms(3) by (simp only: hash) (simp add: ideal_secrets_def)
    then have kill: "refresh_token C S tok i w' = kill_session ?s w'"
      by (simp add: again)
    have "get_row ses_id i (upd_row ses_id i (revoked_session (clock w')) (sessions (db w'))) = Some (revoked_session (clock w') ?s)"
      by (simp add: get_row_upd_row revoked_session_moves(1) row)
    with kill_session_run [of ?s w', where 'a = refresh_result] show "\<exists>w2 t. request (refresh_token C S tok i) w' = (Inl (UnauthorizedError ''refresh token invalid / expired''), w2)
         \<and> get_row ses_id i (sessions (disk w2)) = Some t \<and> ses_status t = ''revoked'' \<and> ses_refresh_token_hash t = None"
      by (elim exE) (simp add: request_run kill id revoked_session_def)
  qed
qed


lemma identity_refreshes:
  "\<exists>r w'. request (refresh_token sample_crypto sample_settings ''t'' 9) identity_world = (Inr r, w')"
  by (simp add: request_run refresh_token_def rotate_refresh_def token_urlsafe_def hash_secret_def refresh_expires_at_def
      build_access_token_def identity_world_def identity_db_def empty_db_def sample_session_def sample_user_def
      sample_crypto_def str_or_def run_simps)

theorem refresh_once_witness:
  "\<exists>r w'. request (refresh_token sample_crypto sample_settings ''t'' 9) identity_world = (Inr r, w')
    \<and> (\<exists>w2 t. request (refresh_token sample_crypto sample_settings ''t'' 9) w'
           = (Inl (UnauthorizedError ''refresh token invalid / expired''), w2)
         \<and> get_row ses_id 9 (sessions (disk w2)) = Some t \<and> ses_status t = ''revoked'')"
proof -
  obtain r w' where run: "request (refresh_token sample_crypto sample_settings ''t'' 9) identity_world = (Inr r, w')"
    using identity_refreshes by blast
  have "''t'' = cry_token sample_crypto 48 0" by (simp add: sample_crypto_def)
  from refresh_once [OF run _ sample_ideal this] run show ?thesis
    by (auto simp: identity_world_def sample_settings_def)
qed

text \<open>
  C10. A revoked session is dead: after any further requests, by its user, by administrators or by operators, its
  refresh token is refused and no access token of it is accepted.
\<close>

theorem revoked_sessions_stay:
  assumes "(identity_step C S b)\<^sup>*\<^sup>* w w'" and "sessions_ok w"
    and "s \<in> set (sessions (db w))" and "ses_status s = ''revoked''"
  shows "refresh_token C S tok (ses_id s) w' = (Inl (UnauthorizedError ''refresh token invalid / expired''), w')
    \<and> (\<forall>access u t c w2. resolve_user_from_access_token C access w' = (Inr (u, t, c), w2) \<longrightarrow> ses_id t \<noteq> ses_id s)"
proof -
  from sessions_since_run [OF assms(1,2)] assms(3) obtain t where
    t: "get_row ses_id (ses_id s) (sessions (db w')) = Some t" "session_moves s t"
    by (auto simp: sessions_since_def session_hist_def)
  with assms(4) have r: "ses_status t = ''revoked''" by (simp add: session_moves_def)
  have "ses_id t' \<noteq> ses_id s" if "resolve_user_from_access_token C access w' = (Inr (u, t', c), w2)" for access u t' c w2
    using resolve_okD(2,3) [OF that] t(1) r by auto
  with refresh_revoked [OF t(1) r] show ?thesis by blast
qed

lemma identity_called: "identity_step C S b w (snd (request (answer_identity C S b c) w))"
  by (rule identity_step.call) (rule prod.collapse [symmetric])

theorem revoked_sessions_stay_witness:
  "refresh_token sample_crypto sample_settings ''t'' 10
      (snd (request (answer_identity sample_crypto sample_settings False (Login sample_keycloak ''a'' ''x'' None)) identity_world))
    = (Inl (UnauthorizedError ''refresh token invalid / expired''),
       snd (request (answer_identity sample_crypto sample_settings False (Login sample_keycloak ''a'' ''x'' None)) identity_world))"
proof -
  have "sessions_ok identity_world"
    by (simp add: sessions_ok_def identity_world_def identity_db_def sample_session_def)
  moreover have "sample_session 10 3 ''revoked'' None \<in> set (sessions (db identity_world))"
    by (simp add: identity_world_def identity_db_def)
  ultimately show ?thesis
    using revoked_sessions_stay [OF r_into_rtranclp [of "identity_step sample_crypto sample_settings False",
        OF identity_called [of _ _ _ _ "Login sample_keycloak ''a'' ''x'' None"]]]
    by (fastforce simp: sample_session_def)
qed


subsection \<open>Locked out\<close>

lemma has_permission_frame:
  assumes "has_tenant_permission b u tn code w = (r, w')"
  shows "same_but_log w w'"
proof -
  have free: "log_free (same_but_log w)" by (auto simp: log_free_def intro: same_but_log_logged)
  have "keeps (same_but_log w) (has_tenant_permission b u tn code)"
    unfolding has_tenant_permission_def by (auto intro!: keeps_intros keeps_authorize free)
  from keepsD [OF this _ assms] show ?thesis by simp
qed

lemma revoke_each_run:
  "\<exists>w'. for_each rows (\<lambda>s. revoke_session s a) w = (Inr (), w')
     \<and> sessions (db w') = map (\<lambda>s. if ses_id s \<in> ses_id ` set rows then revoked_session (clock w) s else s) (sessions (db w))
     \<and> users (db w') = users (db w) \<and> clock w' = clock w"
proof (induction rows arbitrary: w)
  case Nil
  show ?case by (simp add: run_simps)
next
  case (Cons s rows)
  have idem: "revoked_session c (revoked_session c x) = revoked_session c x" for c x by (simp add: revoked_session_def)
  obtain w1 where one: "revoke_session s a w = (Inr (), w1)"
    and d1: "sessions (db w1) = upd_row ses_id (ses_id s) (revoked_session (clock w)) (sessions (db w))"
      "users (db w1) = users (db w)" "clock w1 = clock w"
    by (simp add: revoke_session_def run_simps)
  from Cons [of w1] obtain w2 where rest: "for_each rows (\<lambda>s. revoke_session s a) w1 = (Inr (), w2)"
    and d2: "sessions (db w2) = map (\<lambda>s. if ses_id s \<in> ses_id ` set rows then revoked_session (clock w1) s else s) (sessions (db w1))"
      "users (db w2) = users (db w1)" "clock w2 = clock w1"
    by blast
  have "sessions (db w2) = map (\<lambda>t. if ses_id t \<in> ses_id ` set (s # rows) then revoked_session (clock w) t else t) (sessions (db w))"
    by (auto simp: d1 d2 upd_row_def revoked_session_moves(1) idem)
  with one rest d1 d2 show ?case by (simp add: bindE_run)
qed

lemma no_active_left:
  assumes "rows = active_sessions d u"
    and "s \<in> set (map (\<lambda>s. if ses_id s \<in> ses_id ` set rows then revoked_session now s else s) (sessions d))"
    and "ses_user_id s = u"
  shows "ses_status s \<noteq> ''active''"
  using assms by (auto simp: active_sessions_def revoked_session_def split: if_splits)

lemma locked_rows:
  "\<forall>u \<in> set (upd_row usr_id i (\<lambda>u. u\<lparr>usr_status := x\<rparr>) rows). usr_id u = i \<longrightarrow> usr_status u = x"
  by (induction rows) auto

lemma revoke_principal_access_okD:
  assumes "revoke_principal_access b target caller tenant w = (Inr x, w')"
  shows "disk w' = db w'" and "\<forall>u \<in> set (users (db w')). usr_id u = target \<longrightarrow> usr_status u = ''locked''"
    and "\<forall>s \<in> set (sessions (db w')). ses_user_id s = target \<longrightarrow> ses_status s \<noteq> ''active''"
proof -
  from assms obtain user q w1 w2 where u: "get_row usr_id target (users (db w1)) = Some user"
    and w2: "lock_user user w1 = (Inr q, w2)"
    and rest: "bindE (for_each (active_sessions (db w2) (usr_id user)) (\<lambda>s. revoke_session s caller)) (\<lambda>_.
       bindE (audit ''user.access_revoked'' (Some caller) (Some tenant) []) (\<lambda>_.
       bindE commit (\<lambda>_.
       ret \<lparr>acr_user_id = usr_id user, acr_principal_id = usr_principal_id user, acr_status = ''locked'',
          acr_sessions_revoked = length (active_sessions (db w2) (usr_id user))\<rparr>))) w2 = (Inr x, w')"
    unfolding revoke_principal_access_def
    by (simp only: step_ok step_ok_bind [of "has_tenant_permission _ _ _ _"]
        step_ok_reads_only [OF reads_only_belongs] step_ok_bind [of "lock_user _"]) blast
  from u have id: "usr_id user = target" by (simp add: get_row_Some)
  have u2: "users (db w2) = upd_row usr_id target (\<lambda>u. u\<lparr>usr_status := ''locked''\<rparr>) (users (db w1))"
    using w2 by (auto simp: lock_user_def run_simps id)
  obtain w3 where w3: "for_each (active_sessions (db w2) (usr_id user)) (\<lambda>s. revoke_session s caller) w2 = (Inr (), w3)"
    and d3: "sessions (db w3) = map (\<lambda>s. if ses_id s \<in> ses_id ` set (active_sessions (db w2) (usr_id user))
        then revoked_session (clock w2) s else s) (sessions (db w2))" "users (db w3) = users (db w2)"
    using revoke_each_run [of "active_sessions (db w2) (usr_id user)" caller w2] by blast
  from rest w3 have w': "disk w' = db w'" "users (db w') = users (db w3)" "sessions (db w') = sessions (db w3)"
    by (auto simp: run_simps)
  show "disk w' = db w'" by (rule w')
  show "\<forall>u \<in> set (users (db w')). usr_id u = target \<longrightarrow> usr_status u = ''locked''"
    using locked_rows by (simp only: w' d3 u2) blast
  show "\<forall>s \<in> set (sessions (db w')). ses_user_id s = target \<longrightarrow> ses_status s \<noteq> ''active''"
    using no_active_left [OF refl, where now = "clock w2" and d = "db w2" and u = target] by (simp only: w' d3 id) blast
qed

lemma login_okD:
  assumes "login K C S email password hint w = (Inr r, w')"
  shows "\<exists>u \<in> set (users (db w)). usr_status u = ''active'' \<and> tkp_user_id r = usr_id u"
proof -
  from assms obtain user subject issuer w1 where u: "user_by_email email w = (Inr (Some user), w)"
    and a: "usr_status user = ''active''" and t: "issue_tokens C S user subject issuer w1 = (Inr r, w')"
    unfolding login_def
    by (simp only: step_ok step_ok_reads_only [OF reads_only_identity(2)] step_ok_reads_only [OF reads_only_identity(3)]
        step_ok_bind [of "keycloak_subject_for_login _ _ _ _ _ _"]) blast
  from u have "filter (\<lambda>u. usr_normalized_email u = lower email) (users (db w)) = [user]"
    by (auto simp: user_by_email_def ok_iff)
  then have "user \<in> set (filter (\<lambda>u. usr_normalized_email u = lower email) (users (db w)))" by simp
  then have "user \<in> set (users (db w))" by simp
  moreover have "tkp_user_id r = usr_id user"
    using issue_tokens_run [of C S user subject issuer w1] t by auto
  ultimately show ?thesis using a by blast
qed

text \<open>
  C11. Revoking the access of a user locks the user out at once: no access token of any session resolves to that
  user, no login and no refresh succeeds for it, and none of its sessions is active.
\<close>

theorem access_revoked_locks_out:
  assumes "request (revoke_principal_access b target caller tenant) w = (Inr x, w')"
  shows "(\<forall>access u t c w2. resolve_user_from_access_token C access w' = (Inr (u, t, c), w2) \<longrightarrow> usr_id u \<noteq> target)
    \<and> (\<forall>K email password hint r w2. login K C S email password hint w' = (Inr r, w2) \<longrightarrow> tkp_user_id r \<noteq> target)
    \<and> (\<forall>tok i r w2. refresh_token C S tok i w' = (Inr r, w2)
         \<longrightarrow> (\<exists>s. get_row ses_id i (sessions (db w')) = Some s \<and> ses_user_id s \<noteq> target))
    \<and> (\<forall>s \<in> set (sessions (db w')). ses_user_id s = target \<longrightarrow> ses_status s \<noteq> ''active'')"
proof -
  from assms obtain w1 where m: "revoke_principal_access b target caller tenant w = (Inr x, w1)"
    and w': "w' = w1\<lparr>db := disk w1\<rparr>"
    by (auto simp: request_run split: prod.splits)
  have d: "db w' = db w1" using revoke_principal_access_okD(1) [OF m] by (simp add: w')
  note locked = revoke_principal_access_okD(2) [OF m, folded d]
  have "usr_id u \<noteq> target" if "resolve_user_from_access_token C access w' = (Inr (u, t, c), w2)" for access u t c w2
    using resolve_okD(5,6) [OF that] locked by auto
  moreover have "tkp_user_id r \<noteq> target" if "login K C S email password hint w' = (Inr r, w2)" for K email password hint r w2
    using login_okD [OF that] locked by auto
  moreover have "\<exists>s. get_row ses_id i (sessions (db w')) = Some s \<and> ses_user_id s \<noteq> target"
    if "refresh_token C S tok i w' = (Inr r, w2)" for tok i r w2
  proof -
    from that obtain s user cred where s: "get_row ses_id i (sessions (db w')) = Some s"
      "refreshable (db w') (clock w') s user cred"
      by (rule refresh_token_okD)
    have "ses_user_id s \<noteq> target"
      using s(2) locked get_row_Some [of usr_id "ses_user_id s" "users (db w')" user] by (auto simp: refreshable_def)
    with s(1) show ?thesis by blast
  qed
  ultimately show ?thesis using revoke_principal_access_okD(3) [OF m, folded d] by blast
qed


definition admin_world :: world where
  "admin_world = world_of (sample_db\<lparr>sessions := [sample_session 9 12 ''active'' (Some ''ht'')]\<rparr>)"

lemma admin_revokes:
  "case request (revoke_principal_access False 12 11 31) admin_world of (Inr x, w') \<Rightarrow> True | (Inl e, w') \<Rightarrow> False"
  by code_simp

theorem access_revoked_locks_out_witness:
  "\<exists>x w'. request (revoke_principal_access False 12 11 31) admin_world = (Inr x, w')
    \<and> (\<forall>r w2. login sample_keycloak sample_crypto sample_settings ''bob'' ''x'' None w' = (Inr r, w2) \<longrightarrow> tkp_user_id r \<noteq> 12)"
proof -
  obtain x w' where run: "request (revoke_principal_access False 12 11 31) admin_world = (Inr x, w')"
    using admin_revokes by (auto split: prod.splits sum.splits)
  with access_revoked_locks_out [OF run] show ?thesis by blast
qed

end
