(* ===== verification/Reset_Properties.thy ===== *)
theory Reset_Properties
  imports Session_Properties Outbox
begin

section \<open>The password reset\<close>

text \<open>
  A reset link is the identifier of its row and a secret. The outbox mails it to the user; it is accepted until it
  expires or is used, and using it closes every session of the user, whatever Keycloak answers.
\<close>

definition reset_applied :: "error + nat \<Rightarrow> bool" where
  "reset_applied r = (case r of Inr n \<Rightarrow> True
     | Inl e \<Rightarrow> e = ValidationError ''password update could not be completed; request a new reset link and try again'')"

lemma close_sessions_run:
  "\<exists>w1. close_sessions row user w = (Inr (length (active_sessions (db w) (usr_id user))), w1) \<and> disk w1 = db w1
     \<and> password_reset_tokens (db w1) = upd_row rtk_id (rtk_id row) (\<lambda>t. t\<lparr>rtk_used_at := Some (clock w)\<rparr>) (password_reset_tokens (db w))
     \<and> sessions (db w1) = map (\<lambda>s. if ses_id s \<in> ses_id ` set (active_sessions (db w) (usr_id user))
          then revoked_session (clock w) s else s) (sessions (db w)) \<and> clock w1 = clock w"
  by (simp add: close_sessions_def active_sessions_def run_simps)

text \<open>What follows the first transaction leaves sessions and tokens alone.\<close>

definition reset_tables :: "database \<Rightarrow> session_row list \<times> reset_token_row list" where
  "reset_tables d = (sessions d, password_reset_tokens d)"

definition finish_reset :: "keycloak \<Rightarrow> crypto \<Rightarrow> string \<Rightarrow> user_row \<Rightarrow> credential_row \<Rightarrow> realm_row \<Rightarrow> nat \<Rightarrow> nat op" where
  "finish_reset K C pw user credential realm revoked =
     bindE (catch (of_reply (kc_set_password K (rlm_realm_name realm) (crd_keycloak_subject credential)
                      pw (Some (usr_email user))))
              (\<lambda>_. bindE (insert_event ''retry_keycloak_set_password''
                             [(''user_id'', JUuid (usr_id user)), (''realm'', JStr (rlm_realm_name realm)),
                              (''subject'', JStr (crd_keycloak_subject credential)),
                              (''email'', JStr (usr_email user))]) (\<lambda>_.
                   bindE commit (\<lambda>_.
                   raise (ValidationError
                     ''password update could not be completed; request a new reset link and try again''))))) (\<lambda>subject.
     bindE (hash_secret C pw) (\<lambda>h.
     bindE (update_credential (crd_id credential) (\<lambda>c.
              c\<lparr>crd_keycloak_subject := subject, crd_password_hash := Some h\<rparr>)) (\<lambda>_.
     bindE commit (\<lambda>_.
     ret revoked))))"

lemma finish_reset_leaves: "keeps (same_tables reset_tables x) (finish_reset K C pw user credential realm n)"
  unfolding finish_reset_def insert_event_def hash_secret_def update_credential_def
  by (rule keeps_intros keeps_same_tables reads_only_keeps reads_only_identity | (simp add: reset_tables_def; fail))+

lemma find_valid_total: "\<exists>f. find_valid_reset_token C tok w = (Inr f, w)"
  by (auto simp: find_valid_reset_token_def run_simps split: option.split prod.split)

lemma find_valid_okD:
  assumes "find_valid_reset_token C tok w = (Inr (Some row), w')"
  shows "\<exists>a b. split_reset_token tok = Some (a, b) \<and> uuid_of_text a = Some (rtk_id row)
    \<and> get_row rtk_id (rtk_id row) (password_reset_tokens (db w)) = Some row"
proof -
  from assms obtain a b i where t: "split_reset_token tok = Some (a, b)" "uuid_of_text a = Some i"
    "get_row rtk_id i (password_reset_tokens (db w)) = Some row"
    by (auto simp: find_valid_reset_token_def run_simps split: option.splits prod.splits if_splits)
  with get_row_Some [OF t(3)] show ?thesis by blast
qed

lemma password_reset_run:
  assumes "find_valid_reset_token C tok w = (Inr f, w)"
  shows "password_reset K C tok pw w =
    (if \<not> password_ok pw then (Inl (ValidationError ''password does not meet requirements''), w)
     else case f of None \<Rightarrow> (Inl (ValidationError ''token invalid or expired''), w)
     | Some row \<Rightarrow> (case get_row usr_id (rtk_user_id row) (users (db w)) of
         None \<Rightarrow> (Inl (ValidationError ''token invalid or expired''), w)
       | Some user \<Rightarrow> (case first_row (filter (\<lambda>c. crd_principal_id c = usr_principal_id user \<and> crd_status c = ''active'')
             (credentials (db w))) of
           None \<Rightarrow> (Inl (ValidationError ''token invalid or expired''), w)
         | Some credential \<Rightarrow> (case get_row rlm_id (crd_realm_id credential) (identity_realms (db w)) of
             None \<Rightarrow> (Inl (ValidationError ''token invalid or expired''), w)
           | Some realm \<Rightarrow> bindE (close_sessions row user) (finish_reset K C pw user credential realm) w))))"
  by (simp add: password_reset_def finish_reset_def [abs_def] validate_password_def step_run
      step_run_bind [where m = "find_valid_reset_token C tok", OF assms] split: option.split)

lemma password_reset_cases:
  assumes "password_reset K C tok pw w = (r, w')" and "reset_applied r"
  obtains row user w1 n where "find_valid_reset_token C tok w = (Inr (Some row), w)"
      "get_row usr_id (rtk_user_id row) (users (db w)) = Some user" "close_sessions row user w = (Inr n, w1)"
      "reset_tables (db w') = reset_tables (db w1)" "reset_tables (disk w') = reset_tables (db w1)"
proof -
  obtain f where f: "find_valid_reset_token C tok w = (Inr f, w)" using find_valid_total by blast
  note run = password_reset_run [OF f, of K pw]
  from assms obtain row user credential realm where ok: "f = Some row"
      "get_row usr_id (rtk_user_id row) (users (db w)) = Some user"
      "bindE (close_sessions row user) (finish_reset K C pw user credential realm) w = (r, w')"
    by (auto simp: run reset_applied_def split: if_splits option.splits)
  obtain w1 where w1: "close_sessions row user w = (Inr (length (active_sessions (db w) (usr_id user))), w1)"
    and d: "disk w1 = db w1"
    using close_sessions_run by blast
  have "same_tables reset_tables (reset_tables (db w1)) w1" by (simp add: same_tables_def d)
  moreover have "finish_reset K C pw user credential realm (length (active_sessions (db w) (usr_id user))) w1 = (r, w')"
    using ok(3) w1 by (simp add: bindE_run)
  ultimately have "same_tables reset_tables (reset_tables (db w1)) w'"
    using keepsD [OF finish_reset_leaves] by blast
  then show thesis
    by (intro that [OF _ ok(2) w1]) (simp_all add: f ok(1) same_tables_def)
qed

text \<open>
  C12. A password reset takes effect even when Keycloak fails: the link is used up, every session of the user is
  closed and no other one is touched, and the same link is refused from then on.
\<close>

theorem password_reset_closes:
  assumes "request (password_reset K C tok pw) w = (r, w')" and "reset_applied r"
    and "distinct (map ses_id (sessions (db w)))"
  shows "\<exists>row. find_valid_reset_token C tok w = (Inr (Some row), w)
    \<and> (\<forall>s \<in> set (sessions (disk w')). ses_user_id s = rtk_user_id row \<longrightarrow> ses_status s \<noteq> ''active'')
    \<and> (\<forall>s \<in> set (sessions (db w)). ses_user_id s \<noteq> rtk_user_id row \<longrightarrow> s \<in> set (sessions (disk w')))
    \<and> (\<forall>K' pw' q w2. password_reset K' C tok pw' w' = (q, w2) \<longrightarrow> \<not> reset_applied q \<and> w2 = w')"
proof -
  from assms(1) obtain w0 where m: "password_reset K C tok pw w = (r, w0)" and w': "w' = w0\<lparr>db := disk w0\<rparr>"
    by (auto simp: request_run split: prod.splits)
  from m assms(2) obtain row user w1 n where f: "find_valid_reset_token C tok w = (Inr (Some row), w)"
    and u: "get_row usr_id (rtk_user_id row) (users (db w)) = Some user"
    and c: "close_sessions row user w = (Inr n, w1)" and d: "reset_tables (disk w0) = reset_tables (db w1)"
    by (rule password_reset_cases)
  from u have id: "usr_id user = rtk_user_id row" by (simp add: get_row_Some)
  let ?closed = "\<lambda>s. if ses_id s \<in> ses_id ` set (active_sessions (db w) (usr_id user)) then revoked_session (clock w) s else s"
  from close_sessions_run [of row user w] c d have
    s: "sessions (disk w') = map ?closed (sessions (db w))" and
    t: "password_reset_tokens (db w') = upd_row rtk_id (rtk_id row) (\<lambda>t. t\<lparr>rtk_used_at := Some (clock w)\<rparr>) (password_reset_tokens (db w))"
    by (auto simp: reset_tables_def w')
  have "find_valid_reset_token C tok w' = (Inr None, w')"
    using find_valid_okD [OF f] by (auto simp: find_valid_reset_token_def run_simps t get_row_upd_row)
  note again = password_reset_run [OF this]
  have "?closed s' = s'" if "s' \<in> set (sessions (db w))" "ses_user_id s' \<noteq> rtk_user_id row" for s'
  proof -
    have "ses_id s' \<notin> ses_id ` set (active_sessions (db w) (usr_id user))"
      using that get_row_unique [OF assms(3)] id by (auto simp: active_sessions_def) (metis option.inject)
    then show ?thesis by simp
  qed
  then have "\<forall>s \<in> set (sessions (db w)). ses_user_id s \<noteq> rtk_user_id row \<longrightarrow> s \<in> set (sessions (disk w'))"
    by (force simp: s)
  moreover have "\<forall>s \<in> set (sessions (disk w')). ses_user_id s = rtk_user_id row \<longrightarrow> ses_status s \<noteq> ''active''"
    using no_active_left [OF refl, where now = "clock w" and d = "db w" and u = "usr_id user"] by (simp only: s id) blast
  moreover have "\<forall>K' pw' q w2. password_reset K' C tok pw' w' = (q, w2) \<longrightarrow> \<not> reset_applied q \<and> w2 = w'"
    by (simp add: again reset_applied_def)
  ultimately show ?thesis using f by blast
qed


definition reset_world :: world where
  "reset_world = \<lparr>db = identity_db\<lparr>password_reset_tokens := [\<lparr>rtk_id = 11, rtk_user_id = 3, rtk_token_hash = ''hs'',
       rtk_expires_at = 50, rtk_used_at = None, rtk_created_at = 0\<rparr>]\<rparr>,
     disk = identity_db, clock = 5, next_uuid = 20\<rparr>"

definition reset_link :: string where
  "reset_link = ''00000000-0000-0000-0000-00000000000b.s''"

lemma reset_applies:
  "case request (password_reset sample_keycloak sample_crypto reset_link ''Abcdefgh1!'') reset_world of (r, w') \<Rightarrow> reset_applied r"
  by code_simp

theorem password_reset_closes_witness:
  "\<exists>r w'. request (password_reset sample_keycloak sample_crypto reset_link ''Abcdefgh1!'') reset_world = (r, w')
    \<and> (\<exists>row. find_valid_reset_token sample_crypto reset_link reset_world = (Inr (Some row), reset_world)
        \<and> (\<forall>s \<in> set (sessions (disk w')). ses_user_id s = rtk_user_id row \<longrightarrow> ses_status s \<noteq> ''active''))"
proof -
  obtain r w' where run: "request (password_reset sample_keycloak sample_crypto reset_link ''Abcdefgh1!'') reset_world = (r, w')"
    by fastforce
  with reset_applies have "reset_applied r" by simp
  from password_reset_closes [OF run this] run show ?thesis
    by (auto simp: reset_world_def identity_db_def sample_session_def)
qed

subsection \<open>The reset link\<close>

lemma hex_value_char [simp]: "n < 16 \<Longrightarrow> hex_value (hex_char n) = Some n"
  by (auto simp: hex_value_def hex_char_def Let_def)

lemma parse_hex_append: "parse_hex a (s @ [c]) =
   (case parse_hex a s of None \<Rightarrow> None | Some v \<Rightarrow> map_option (\<lambda>d. v * 16 + d) (hex_value c))"
  by (induction a s rule: parse_hex.induct) (auto split: option.split)

lemma parse_hex_digits: "n < 16 ^ k \<Longrightarrow> parse_hex 0 (hex_digits k n) = Some n"
proof (induction k arbitrary: n)
  case (Suc k)
  have "n div 16 < 16 ^ k" using Suc.prems by (simp add: less_mult_imp_div_less mult.commute)
  then show ?case by (simp add: parse_hex_append Suc.IH)
qed simp

lemma length_hex_digits [simp]: "length (hex_digits k n) = k"
  by (induction k arbitrary: n) auto

definition is_hex :: "char \<Rightarrow> bool" where
  "is_hex c \<longleftrightarrow> (\<exists>n < 16. c = hex_char n)"

lemma is_hex_char: "is_hex (hex_char (n mod 16))"
  unfolding is_hex_def by (rule exI [of _ "n mod 16"]) simp

lemma hex_digits_hex: "c \<in> set (hex_digits k n) \<Longrightarrow> is_hex c"
  by (induction k arbitrary: n) (auto simp: is_hex_char)

lemma is_hex_cases: "is_hex c \<Longrightarrow> c \<in> set ''0123456789abcdef''"
proof -
  have "\<forall>n < 16. hex_char n \<in> set ''0123456789abcdef''" by code_simp
  then show "is_hex c \<Longrightarrow> c \<in> set ''0123456789abcdef''" by (auto simp: is_hex_def)
qed

lemma uuid_str_set: "set (uuid_str i) \<subseteq> insert (CHR ''-'') (set (hex_digits 32 i))"
  unfolding uuid_str_def Let_def
  by (auto dest: in_set_takeD in_set_dropD simp del: hex_digits.simps)

lemma uuid_str_chars:
  assumes "c \<in> set (uuid_str i)"
  shows "c \<in> set ''0123456789abcdef-''"
proof -
  from assms uuid_str_set consider "c = CHR ''-''" | "c \<in> set (hex_digits 32 i)" by blast
  then show ?thesis
  proof cases
    case 2
    from is_hex_cases [OF hex_digits_hex [OF 2]] show ?thesis by auto
  qed simp
qed

lemma remove_all_absent:
  assumes "hd t \<notin> set s" and "t \<noteq> []"
  shows "remove_all t 0 s = s"
  using assms by (induction s) (auto simp: startswith_iff neq_Nil_conv)

lemma strip_braces:
  assumes "CHR ''{'' \<notin> set s" and "CHR ''}'' \<notin> set s"
  shows "rev (dropWhile (\<lambda>c. c \<in> set ''{}'') (rev (dropWhile (\<lambda>c. c \<in> set ''{}'') s))) = s"
proof -
  have "dropWhile (\<lambda>c. c \<in> set ''{}'') s = s" if "CHR ''{'' \<notin> set s" "CHR ''}'' \<notin> set s" for s
    using that by (cases s) auto
  from this [OF assms] this [of "rev s"] assms show ?thesis by simp
qed

lemma uuid_str_bare: "filter (\<lambda>c. c \<noteq> CHR ''-'') (uuid_str i) = hex_digits 32 i"
proof -
  have no: "CHR ''-'' \<notin> set (hex_digits 32 i)"
    using is_hex_cases hex_digits_hex [of "CHR ''-''" 32 i] by auto
  have f: "filter (\<lambda>c. c \<noteq> CHR ''-'') xs = xs" if "set xs \<subseteq> set (hex_digits 32 i)" for xs
    using that no by (auto simp: filter_id_conv)
  have "filter (\<lambda>c. c \<noteq> CHR ''-'') (uuid_str i) =
     take 8 (hex_digits 32 i) @ take 4 (drop 8 (hex_digits 32 i)) @ take 4 (drop 12 (hex_digits 32 i))
     @ take 4 (drop 16 (hex_digits 32 i)) @ drop 20 (hex_digits 32 i)"
    by (simp add: uuid_str_def Let_def f set_take_subset set_drop_subset subset_trans [OF set_take_subset set_drop_subset]
        del: hex_digits.simps)
  also have "\<dots> = hex_digits 32 i"
    by (rule nth_equalityI) (auto simp: nth_append simp del: hex_digits.simps)
  finally show ?thesis .
qed

lemma uuid_text_roundtrip:
  assumes "i < 16 ^ 32"
  shows "uuid_of_text (uuid_str i) = Some i"
proof -
  have c: "CHR ''u'' \<notin> set (uuid_str i)" "CHR ''{'' \<notin> set (uuid_str i)" "CHR ''}'' \<notin> set (uuid_str i)"
    using uuid_str_chars [of _ i] by auto
  have "remove_all ''uuid:'' 0 (remove_all ''urn:'' 0 (uuid_str i)) = uuid_str i"
    using c(1) by (simp add: remove_all_absent)
  with c show ?thesis
    unfolding uuid_of_text_def
    by (simp add: strip_braces [OF c(2,3), simplified] uuid_str_bare parse_hex_digits [OF assms] del: hex_digits.simps)
qed


lemma split_composite:
  assumes "CHR ''.'' \<notin> set a" and "a \<noteq> []" and "s \<noteq> []"
  shows "split_reset_token (make_reset_token_composite a s) = Some (a, s)"
proof -
  have "takeWhile (\<lambda>c. c \<noteq> CHR ''.'') (a @ CHR ''.'' # s) = a"
    using assms(1) by (induction a) auto
  with assms show ?thesis
    by (simp add: split_reset_token_def make_reset_token_composite_def Let_def)
qed

text \<open>What a reset request for a known active user leaves behind: the link, its row, its secret and its event.\<close>

definition asked_link :: "crypto \<Rightarrow> uuid \<Rightarrow> string" where
  "asked_link C n = make_reset_token_composite (uuid_str n) (cry_token C 32 (Suc n))"

definition asked_token :: "crypto \<Rightarrow> uuid \<Rightarrow> user_row \<Rightarrow> instant \<Rightarrow> instant \<Rightarrow> reset_token_row" where
  "asked_token C n user expires now =
     \<lparr>rtk_id = n, rtk_user_id = usr_id user, rtk_token_hash = cry_hash C (Suc (Suc n)) (cry_token C 32 (Suc n)),
      rtk_expires_at = expires, rtk_used_at = None, rtk_created_at = now\<rparr>"

definition asked_secret :: "crypto \<Rightarrow> uuid \<Rightarrow> instant \<Rightarrow> delivery_secret_row" where
  "asked_secret C n expires =
     \<lparr>dsc_id = n + 3, dsc_purpose = ''password_reset_email'', dsc_secret_plain = Some (asked_link C n),
      dsc_expires_at = expires, dsc_consumed_at = None\<rparr>"

definition asked_event :: "uuid \<Rightarrow> user_row \<Rightarrow> instant \<Rightarrow> outbox_row" where
  "asked_event n user now =
     \<lparr>obx_id = n + 4, obx_type = ''send_password_reset_email'',
      obx_payload = [(''email'', JStr (usr_email user)), (''reset_token_id'', JUuid n), (''delivery_secret_id'', JUuid (n + 3))],
      obx_status = ''pending'', obx_retry_count = 0, obx_created_at = now, obx_processed_at = None\<rparr>"

lemmas asked_defs = asked_link_def asked_token_def asked_secret_def asked_event_def

lemma reset_request_run:
  assumes "filter (\<lambda>u. usr_normalized_email u = lower email) (users (db w)) = [user]" and "usr_status user = ''active''"
  shows "\<exists>w1. password_reset_request C S email w
       = (Inr (if dev_mode S then Some (asked_link C (next_uuid w)) else None), w1) \<and> disk w1 = db w1
    \<and> password_reset_tokens (db w1) = password_reset_tokens (db w)
        @ [asked_token C (next_uuid w) user (clock w + minutes (stg_reset_token_ttl_minutes S)) (clock w)]
    \<and> delivery_secrets (db w1) = delivery_secrets (db w)
        @ [asked_secret C (next_uuid w) (clock w + minutes (stg_reset_token_ttl_minutes S))]
    \<and> outbox_events (db w1) = outbox_events (db w) @ [asked_event (next_uuid w) user (clock w)]"
  using assms
  by (simp add: password_reset_request_def user_by_email_def Let_def token_urlsafe_def hash_secret_def
      insert_delivery_def insert_event_def run_simps asked_defs numeral_3_eq_3 eval_nat_numeral)

lemma asked_link_valid:
  assumes ideal: "ideal_secrets C" and "n < 16 ^ 32"
    and row: "get_row rtk_id n (password_reset_tokens (db w)) = Some (asked_token C n user expires now)"
    and "clock w \<le> expires"
  shows "find_valid_reset_token C (asked_link C n) w = (Inr (Some (asked_token C n user expires now)), w)"
proof -
  have "split_reset_token (asked_link C n) = Some (uuid_str n, cry_token C 32 (Suc n))"
    unfolding asked_link_def
  proof (rule split_composite)
    show "CHR ''.'' \<notin> set (uuid_str n)" using uuid_str_chars [of "CHR ''.''" n] by auto
    show "uuid_str n \<noteq> []" by (simp add: uuid_str_def Let_def)
    show "cry_token C 32 (Suc n) \<noteq> []" using ideal by (simp add: ideal_secrets_def)
  qed
  moreover have "cry_verify C (cry_token C 32 (Suc n)) (rtk_token_hash (asked_token C n user expires now))"
    using ideal by (simp add: ideal_secrets_def asked_token_def)
  ultimately show ?thesis
    using assms(4) row
    by (simp add: find_valid_reset_token_def uuid_text_roundtrip [OF assms(2)] run_simps asked_token_def)
qed

text \<open>The outbox mails the link that the secret row holds.\<close>

lemma asked_event_mails:
  assumes secret: "get_row dsc_id (n + 3) (delivery_secrets (db w)) = Some (asked_secret C n expires)"
    and "clock w \<le> expires"
  shows "\<exists>w'. process_event (asked_event n user now) w
       = (Inr ([\<lparr>ntc_channel = ''password_reset_email'', ntc_to = JStr (usr_email user),
                ntc_body = [(''secret'', JStr (asked_link C n)), (''reset_token_id'', JUuid n)]\<rparr>], True), w')
     \<and> password_reset_tokens (db w') = password_reset_tokens (db w)"
proof -
  have "asked_link C n \<noteq> []" by (simp add: asked_link_def make_reset_token_composite_def)
  then show ?thesis
    using assms
    by (simp add: process_event_def handle_event_def deliver_secret_def asked_event_def asked_secret_def payload_value_def
        Let_def run_simps catch_def str_or_def)
qed

text \<open>
  C13. A reset link that was mailed works, in every environment. For a request with the address of an active user
  one pending event is added to the outbox; processed before the link expires, with the two tables of the link as the
  request left them, it sends one message to the user's own address, and the text sent is accepted as the link of that
  user from then on until it expires. In development and test the answer shows this same text, otherwise none.
\<close>

theorem reset_link_works:
  assumes "request (password_reset_request C S email) w = (r, w')" and "ideal_secrets C"
    and "filter (\<lambda>u. usr_normalized_email u = lower email) (users (db w)) = [user]" and "usr_status user = ''active''"
    and "\<forall>t \<in> set (password_reset_tokens (db w)). rtk_id t < next_uuid w"
    and "\<forall>s \<in> set (delivery_secrets (db w)). dsc_id s < next_uuid w" and "next_uuid w < 16 ^ 32"
  shows "\<exists>link event. r = Inr (if dev_mode S then Some link else None)
    \<and> outbox_events (db w') = outbox_events (db w) @ [event] \<and> obx_status event = ''pending''
    \<and> (\<forall>w2. delivery_secrets (db w2) = delivery_secrets (db w')
           \<and> password_reset_tokens (db w2) = password_reset_tokens (db w')
           \<and> clock w2 \<le> clock w + minutes (stg_reset_token_ttl_minutes S) \<longrightarrow>
         (\<exists>notice row w3. process_event event w2 = (Inr ([notice], True), w3)
            \<and> ntc_to notice = JStr (usr_email user) \<and> map_of (ntc_body notice) ''secret'' = Some (JStr link)
            \<and> rtk_user_id row = usr_id user
            \<and> (\<forall>t \<le> clock w + minutes (stg_reset_token_ttl_minutes S).
                 find_valid_reset_token C link (w3\<lparr>clock := t\<rparr>) = (Inr (Some row), w3\<lparr>clock := t\<rparr>))))"
proof -
  let ?n = "next_uuid w" and ?until = "clock w + minutes (stg_reset_token_ttl_minutes S)"
  from reset_request_run [OF assms(3,4), of C S] obtain w1 where
    m: "password_reset_request C S email w = (Inr (if dev_mode S then Some (asked_link C ?n) else None), w1)"
    and d: "disk w1 = db w1"
      "password_reset_tokens (db w1) = password_reset_tokens (db w) @ [asked_token C ?n user ?until (clock w)]"
      "delivery_secrets (db w1) = delivery_secrets (db w) @ [asked_secret C ?n ?until]"
      "outbox_events (db w1) = outbox_events (db w) @ [asked_event ?n user (clock w)]"
    by blast
  from m assms(1) have r: "r = Inr (if dev_mode S then Some (asked_link C ?n) else None)" and w': "db w' = db w1"
    by (auto simp: request_run d(1))
  have token: "get_row rtk_id ?n (password_reset_tokens (db w')) = Some (asked_token C ?n user ?until (clock w))"
    using assms(5) get_row_None [of rtk_id ?n "password_reset_tokens (db w)"]
    by (auto simp: w' d(2) get_row_append asked_token_def)
  have secret: "get_row dsc_id (?n + 3) (delivery_secrets (db w')) = Some (asked_secret C ?n ?until)"
    using assms(6) get_row_None [of dsc_id "?n + 3" "delivery_secrets (db w)"]
    by (fastforce simp: w' d(3) get_row_append asked_secret_def)
  have mailed: "\<exists>notice row w3. process_event (asked_event ?n user (clock w)) w2 = (Inr ([notice], True), w3)
            \<and> ntc_to notice = JStr (usr_email user)
            \<and> map_of (ntc_body notice) ''secret'' = Some (JStr (asked_link C ?n)) \<and> rtk_user_id row = usr_id user
            \<and> (\<forall>t \<le> ?until. find_valid_reset_token C (asked_link C ?n) (w3\<lparr>clock := t\<rparr>)
                 = (Inr (Some row), w3\<lparr>clock := t\<rparr>))"
    if same: "delivery_secrets (db w2) = delivery_secrets (db w')"
      "password_reset_tokens (db w2) = password_reset_tokens (db w')" and "clock w2 \<le> ?until" for w2
  proof -
    from asked_event_mails [of ?n w2 C ?until user "clock w"] secret that obtain w3 where
      p: "process_event (asked_event ?n user (clock w)) w2
       = (Inr ([\<lparr>ntc_channel = ''password_reset_email'', ntc_to = JStr (usr_email user),
                ntc_body = [(''secret'', JStr (asked_link C ?n)), (''reset_token_id'', JUuid ?n)]\<rparr>], True), w3)"
      and t: "password_reset_tokens (db w3) = password_reset_tokens (db w2)" by auto
    have "find_valid_reset_token C (asked_link C ?n) (w3\<lparr>clock := t\<rparr>)
        = (Inr (Some (asked_token C ?n user ?until (clock w))), w3\<lparr>clock := t\<rparr>)" if "t \<le> ?until" for t
      by (rule asked_link_valid [OF assms(2,7)]) (use token that in \<open>simp_all add: t same(2)\<close>)
    then show ?thesis
      unfolding p by (intro exI [of _ "asked_token C ?n user ?until (clock w)"] exI conjI) (auto simp: asked_token_def)
  qed
  show ?thesis
    by (intro exI [of _ "asked_link C ?n"] exI [of _ "asked_event ?n user (clock w)"] conjI allI impI mailed)
       (auto simp: r w' d(4) asked_event_def)
qed

definition production_settings :: settings where
  "production_settings = sample_settings\<lparr>stg_app_env := ''production''\<rparr>"

lemma production_not_dev: "\<not> dev_mode production_settings"
  by code_simp

theorem reset_link_works_witness:
  "\<exists>w' event. request (password_reset_request sample_crypto production_settings ''A'') identity_world = (Inr None, w')
     \<and> outbox_events (db w') = [event]
     \<and> (\<exists>notice link row w3. process_event event (w'\<lparr>clock := 30\<rparr>) = (Inr ([notice], True), w3)
          \<and> ntc_to notice = JStr ''a'' \<and> map_of (ntc_body notice) ''secret'' = Some (JStr link) \<and> rtk_user_id row = 3
          \<and> find_valid_reset_token sample_crypto link (w3\<lparr>clock := 100\<rparr>) = (Inr (Some row), w3\<lparr>clock := 100\<rparr>))"
proof -
  obtain r w' where run: "request (password_reset_request sample_crypto production_settings ''A'') identity_world = (r, w')"
    by fastforce
  have "lower ''A'' = ''a''" by code_simp
  then have "filter (\<lambda>u. usr_normalized_email u = lower ''A'') (users (db identity_world)) = [sample_user 3 1 ''a'']"
    "usr_status (sample_user 3 1 ''a'') = ''active''"
    "\<forall>t \<in> set (password_reset_tokens (db identity_world)). rtk_id t < next_uuid identity_world"
    "\<forall>s \<in> set (delivery_secrets (db identity_world)). dsc_id s < next_uuid identity_world"
    "next_uuid identity_world < 16 ^ 32"
    by (simp_all add: identity_world_def identity_db_def empty_db_def sample_user_def)
  note works = reset_link_works [OF run sample_ideal this]
  have late: "100 \<le> clock identity_world + minutes (stg_reset_token_ttl_minutes production_settings)"
    and mail: "usr_email (sample_user 3 1 ''a'') = ''a''" "usr_id (sample_user 3 1 ''a'') = 3"
    and none: "outbox_events (db identity_world) = []"
    by (simp_all add: identity_world_def identity_db_def empty_db_def sample_user_def production_settings_def
        sample_settings_def minutes_def)
  have early: "clock (w'\<lparr>clock := 30\<rparr>) \<le> clock identity_world + minutes (stg_reset_token_ttl_minutes production_settings)"
    by (simp add: identity_world_def production_settings_def sample_settings_def minutes_def)
  from works obtain link event where r: "r = Inr (if dev_mode production_settings then Some link else None)"
    and e: "outbox_events (db w') = [event]"
    and mailed: "\<forall>w2. delivery_secrets (db w2) = delivery_secrets (db w')
           \<and> password_reset_tokens (db w2) = password_reset_tokens (db w')
           \<and> clock w2 \<le> clock identity_world + minutes (stg_reset_token_ttl_minutes production_settings) \<longrightarrow>
         (\<exists>notice row w3. process_event event w2 = (Inr ([notice], True), w3)
            \<and> ntc_to notice = JStr ''a'' \<and> map_of (ntc_body notice) ''secret'' = Some (JStr link) \<and> rtk_user_id row = 3
            \<and> (\<forall>t \<le> clock identity_world + minutes (stg_reset_token_ttl_minutes production_settings).
                 find_valid_reset_token sample_crypto link (w3\<lparr>clock := t\<rparr>) = (Inr (Some row), w3\<lparr>clock := t\<rparr>)))"
    unfolding mail none append_Nil by blast
  from mailed [rule_format, of "w'\<lparr>clock := 30\<rparr>"] early obtain notice row w3 where
    "process_event event (w'\<lparr>clock := 30\<rparr>) = (Inr ([notice], True), w3)" "ntc_to notice = JStr ''a''"
    "map_of (ntc_body notice) ''secret'' = Some (JStr link)" "rtk_user_id row = 3"
    "find_valid_reset_token sample_crypto link (w3\<lparr>clock := 100\<rparr>) = (Inr (Some row), w3\<lparr>clock := 100\<rparr>)"
    using late by auto
  with run r e show ?thesis by (auto simp: production_not_dev)
qed

end
