(* ===== verification/Service_Accounts.thy ===== *)
theory Service_Accounts
  imports Role_Bindings Identity_Base
begin

section \<open>Service accounts and their keys\<close>

text \<open>
  \<open>ServiceAccountService\<close> of \<open>identity/application/service_accounts.py\<close>: the service accounts of a tenant, the
  roles assigned to them, and the life of their API keys. Only the hash of a key is stored.
\<close>

record service_account_created =
  scd_service_account_id :: uuid
  scd_principal_id :: uuid
  scd_name :: string
  scd_api_key :: string
  scd_key_prefix :: string
  scd_key_id :: uuid
  scd_status :: string
  scd_role_assigned :: "string option"

record sa_role_assigned =
  sra_user_role_id :: uuid
  sra_principal_type :: string
  sra_role :: string
  sra_tenant :: uuid
  sra_status :: string

record api_key_rotated =
  akr_old_key_prefix :: string
  akr_old_key_status :: string
  akr_new_api_key :: string
  akr_new_key_prefix :: string
  akr_new_key_id :: uuid
  akr_new_status :: string

record api_key_revoked =
  akv_key_id :: uuid
  akv_key_prefix :: string
  akv_status :: string
  akv_revoked_at :: instant

record service_account_summary =
  ssm_service_account_id :: uuid
  ssm_principal_id :: uuid
  ssm_name :: string
  ssm_description :: "string option"
  ssm_status :: string
  ssm_key_prefix :: "string option"
  ssm_last_used_at :: "instant option"
  ssm_expires_at :: "instant option"

definition api_key_ttl_days :: int where
  "api_key_ttl_days = 90"

text \<open>\<open>token_hex(4)\<close> and \<open>token_urlsafe(24)\<close> are two draws.\<close>

definition generate_api_key :: "crypto \<Rightarrow> (string \<times> string) op" where
  "generate_api_key C =
     bindE uuid4 (\<lambda>draw.
     let prefix = ''ak_'' @ cry_hex C 4 draw in
     bindE (token_urlsafe C 24) (\<lambda>secret.
     ret (prefix, prefix @ ''_'' @ secret)))"

definition key_expires_at :: "instant op" where
  "key_expires_at = bindE utcnow (\<lambda>now. ret (now + days api_key_ttl_days))"

text \<open>\<open>^[a-z][a-z0-9-]{1,62}[a-z0-9]$\<close> on stripped text.\<close>

definition is_sa_name :: "string \<Rightarrow> bool" where
  "is_sa_name s =
     (3 \<le> length s \<and> length s \<le> 64 \<and> slug_char (hd s) \<and> \<not> is_digit (hd s) \<and> slug_char (last s)
      \<and> list_all (\<lambda>c. slug_char c \<or> c = CHR ''-'') s)"

definition active_keys :: "database \<Rightarrow> uuid \<Rightarrow> api_key_row list" where
  "active_keys d sa = filter (\<lambda>k. key_service_account_id k = sa \<and> key_status k = ''active'') (api_keys d)"

definition get_sa :: "uuid \<Rightarrow> uuid \<Rightarrow> service_account_row op" where
  "get_sa tenant_id sa_id =
     bindE (reads (\<lambda>d. get_row sac_id sa_id (service_accounts d))) (\<lambda>found.
     the_or (case found of None \<Rightarrow> None
             | Some sa \<Rightarrow> if sac_tenant_id sa \<noteq> tenant_id \<or> sac_status sa \<noteq> ''active'' then None else Some sa)
       (NotFoundError ''service account not found''))"

definition list_service_accounts :: "authz_ports \<Rightarrow> uuid \<Rightarrow> uuid \<Rightarrow> service_account_summary list op" where
  "list_service_accounts P tenant_id caller =
     bindE (require_permission P caller tenant_id ''tenant.admin'' None) (\<lambda>_.
     reads (\<lambda>d.
       [(let key = first_row (active_keys d (sac_id sa))
         in \<lparr>ssm_service_account_id = sac_id sa, ssm_principal_id = sac_principal_id sa, ssm_name = sac_name sa,
             ssm_description = sac_description sa, ssm_status = sac_status sa,
             ssm_key_prefix = map_option key_prefix key,
             ssm_last_used_at = (case key of None \<Rightarrow> None | Some k \<Rightarrow> key_last_used_at k),
             ssm_expires_at = (case key of None \<Rightarrow> None | Some k \<Rightarrow> key_expiry k)\<rparr>).
        sa \<leftarrow> sort_key sac_name (filter (\<lambda>s. sac_tenant_id s = tenant_id \<and> sac_status s = ''active'')
               (service_accounts d))]))"

text \<open>A new key of a service account: its hash is stored, the key itself only returned.\<close>

definition insert_key :: "crypto \<Rightarrow> uuid \<Rightarrow> (uuid \<times> string \<times> string) op" where
  "insert_key C sa =
     bindE (generate_api_key C) (\<lambda>(prefix, raw_key).
     bindE uuid4 (\<lambda>i.
     bindE (hash_secret C raw_key) (\<lambda>h.
     bindE key_expires_at (\<lambda>expires.
     bindE utcnow (\<lambda>now.
     bindE (modifies (api_keys_update (\<lambda>rows. rows @
        [\<lparr>key_id = i, key_service_account_id = sa, key_prefix = prefix, key_hash = h, key_status = ''active'',
          key_revoked_at = None, key_expiry = Some expires, key_last_used_at = None,
          key_created_at = now\<rparr>]))) (\<lambda>_.
     ret (i, prefix, raw_key)))))))"

definition insert_binding :: "uuid \<Rightarrow> uuid \<Rightarrow> uuid \<Rightarrow> uuid \<Rightarrow> string option \<Rightarrow> uuid op" where
  "insert_binding prin role tenant_id caller why =
     bindE utcnow (\<lambda>now.
     bindE uuid4 (\<lambda>b.
     bindE (modifies (principal_roles_update (\<lambda>rows. rows @
        [tenant_binding b now prin role tenant_id (Some caller) why]))) (\<lambda>_.
     ret b)))"

definition initial_role_of :: "uuid \<Rightarrow> uuid \<Rightarrow> uuid \<Rightarrow> string option \<Rightarrow> string option op" where
  "initial_role_of tenant_id caller prin initial_role =
     (if str_or initial_role [] = [] then ret None
      else
        bindE (reads (\<lambda>d. filter (\<lambda>r. rol_tenant_id r = Some tenant_id \<and> rol_name r = str_or initial_role []
                 \<and> rol_status r = ''active'') (roles d))) (\<lambda>rows.
        bindE (one_or_none rows) (\<lambda>found.
        bindE (the_or found (NotFoundError ''initial role not found'')) (\<lambda>role.
        bindE (insert_binding prin (rol_id role) tenant_id caller (Some ''initial role on SA create'')) (\<lambda>_.
        ret (Some (rol_name role)))))))"

definition create_service_account ::
  "authz_ports \<Rightarrow> crypto \<Rightarrow> uuid \<Rightarrow> uuid \<Rightarrow> string \<Rightarrow> string option \<Rightarrow> string option
    \<Rightarrow> service_account_created op"
where
  "create_service_account P C tenant_id caller name description initial_role =
     bindE (require_permission P caller tenant_id ''tenant.admin'' None) (\<lambda>_.
     let name' = lower (strip name) in
     bindE (raise_if (\<not> is_sa_name name') (ValidationError ''invalid name'')) (\<lambda>_.
     bindE (reads (\<lambda>d. get_row ten_id tenant_id (tenants d))) (\<lambda>found.
     bindE (the_or (case found of None \<Rightarrow> None | Some t \<Rightarrow> if ten_status t \<noteq> ''active'' then None else Some t)
              (NotFoundError ''tenant not found'')) (\<lambda>tenant.
     bindE (reads (\<lambda>d. filter (\<lambda>s. sac_tenant_id s = tenant_id \<and> sac_name s = name') (service_accounts d))) (\<lambda>rows.
     bindE (one_or_none rows) (\<lambda>dup.
     bindE (raise_if (dup \<noteq> None) (ConflictError ''SA name already exists in this tenant'')) (\<lambda>_.
     bindE utcnow (\<lambda>now.
     bindE uuid4 (\<lambda>prin.
     bindE (modifies (principals_update (\<lambda>rows. rows @
        [\<lparr>pri_id = prin, pri_type = ''service_account'', pri_status = ''active''\<rparr>]))) (\<lambda>_.
     bindE uuid4 (\<lambda>sa.
     bindE (modifies (service_accounts_update (\<lambda>rows. rows @
        [\<lparr>sac_id = sa, sac_principal_id = prin, sac_tenant_id = tenant_id,
          sac_organization_id = ten_organization_id tenant, sac_name = name', sac_description = description,
          sac_status = ''active'', sac_created_by = Some caller, sac_created_at = now\<rparr>]))) (\<lambda>_.
     bindE (insert_key C sa) (\<lambda>(k, prefix, raw_key).
     bindE (initial_role_of tenant_id caller prin initial_role) (\<lambda>role_assigned.
     bindE (user_by_principal caller) (\<lambda>caller_user.
     bindE (audit ''service_account.created'' (map_option usr_id caller_user) (Some tenant_id)
              [(''service_account_id'', JUuid sa), (''name'', JStr name'),
               (''role_assigned'', case role_assigned of None \<Rightarrow> JNull | Some r \<Rightarrow> JStr r)]) (\<lambda>_.
     bindE commit (\<lambda>_.
     ret \<lparr>scd_service_account_id = sa, scd_principal_id = prin, scd_name = name', scd_api_key = raw_key,
          scd_key_prefix = prefix, scd_key_id = k, scd_status = ''active'',
          scd_role_assigned = role_assigned\<rparr>)))))))))))))))))"

definition assign_sa_role ::
  "authz_ports \<Rightarrow> uuid \<Rightarrow> uuid \<Rightarrow> uuid \<Rightarrow> uuid \<Rightarrow> string option \<Rightarrow> sa_role_assigned op"
where
  "assign_sa_role P tenant_id sa_id caller role_id justification =
     bindE (require_permission P caller tenant_id ''tenant.admin'' None) (\<lambda>_.
     bindE (get_sa tenant_id sa_id) (\<lambda>sa.
     bindE (reads (\<lambda>d. get_row rol_id role_id (roles d))) (\<lambda>found.
     bindE (the_or (case found of None \<Rightarrow> None
              | Some r \<Rightarrow> if rol_tenant_id r \<noteq> Some tenant_id \<or> rol_status r \<noteq> ''active'' then None else Some r)
              (NotFoundError ''role not found'')) (\<lambda>role.
     bindE (reads (\<lambda>d. active_binding_rows d (sac_principal_id sa) (rol_id role) tenant_id)) (\<lambda>rows.
     bindE (one_or_none rows) (\<lambda>existing.
     bindE (raise_if (existing \<noteq> None) (ConflictError ''service account already has this role'')) (\<lambda>_.
     bindE (insert_binding (sac_principal_id sa) (rol_id role) tenant_id caller justification) (\<lambda>b.
     bindE (user_by_principal caller) (\<lambda>caller_user.
     bindE (audit ''role_binding.created'' (map_option usr_id caller_user) (Some tenant_id)
              [(''binding_id'', JUuid b), (''principal_id'', JUuid (sac_principal_id sa)),
               (''principal_type'', JStr ''service_account''), (''role_id'', JUuid (rol_id role))]) (\<lambda>_.
     bindE commit (\<lambda>_.
     ret \<lparr>sra_user_role_id = b, sra_principal_type = ''service_account'', sra_role = rol_name role,
          sra_tenant = tenant_id, sra_status = ''active''\<rparr>)))))))))))"

definition revoked_key :: "instant \<Rightarrow> api_key_row \<Rightarrow> api_key_row" where
  "revoked_key now k = k\<lparr>key_status := ''revoked'', key_revoked_at := Some now\<rparr>"

definition opt_text :: "string option \<Rightarrow> json" where
  "opt_text x = (case x of None \<Rightarrow> JNull | Some s \<Rightarrow> JStr s)"

definition rotate_key ::
  "authz_ports \<Rightarrow> crypto \<Rightarrow> uuid \<Rightarrow> uuid \<Rightarrow> uuid \<Rightarrow> string option \<Rightarrow> api_key_rotated op"
where
  "rotate_key P C tenant_id sa_id caller reason =
     bindE (require_permission P caller tenant_id ''tenant.admin'' None) (\<lambda>_.
     bindE (get_sa tenant_id sa_id) (\<lambda>sa.
     bindE (reads (\<lambda>d. active_keys d (sac_id sa))) (\<lambda>rows.
     bindE (one_or_none rows) (\<lambda>found.
     bindE (the_or found (ConflictError ''no active key exists to rotate'')) (\<lambda>active.
     bindE utcnow (\<lambda>now.
     bindE (modifies (api_keys_update (upd_row key_id (key_id active) (revoked_key now)))) (\<lambda>_.
     bindE (insert_key C (sac_id sa)) (\<lambda>(k, prefix, raw_key).
     bindE (user_by_principal caller) (\<lambda>caller_user.
     bindE (audit ''api_key.rotated'' (map_option usr_id caller_user) (Some tenant_id)
              [(''service_account_id'', JUuid (sac_id sa)), (''old_key_id'', JUuid (key_id active)),
               (''new_key_id'', JUuid k), (''reason'', opt_text reason)]) (\<lambda>_.
     bindE commit (\<lambda>_.
     ret \<lparr>akr_old_key_prefix = key_prefix active, akr_old_key_status = ''revoked'', akr_new_api_key = raw_key,
          akr_new_key_prefix = prefix, akr_new_key_id = k, akr_new_status = ''active''\<rparr>)))))))))))"

definition revoke_key ::
  "authz_ports \<Rightarrow> uuid \<Rightarrow> uuid \<Rightarrow> uuid \<Rightarrow> uuid \<Rightarrow> string option \<Rightarrow> api_key_revoked op"
where
  "revoke_key P tenant_id sa_id k caller reason =
     bindE (require_permission P caller tenant_id ''tenant.admin'' None) (\<lambda>_.
     bindE (get_sa tenant_id sa_id) (\<lambda>sa.
     bindE (reads (\<lambda>d. get_row key_id k (api_keys d))) (\<lambda>found.
     bindE (the_or (case found of None \<Rightarrow> None
              | Some key \<Rightarrow> if key_service_account_id key \<noteq> sac_id sa then None else Some key)
              (NotFoundError ''key not found'')) (\<lambda>key.
     bindE (raise_if (key_status key \<noteq> ''active'') (ConflictError ''already revoked'')) (\<lambda>_.
     bindE utcnow (\<lambda>now.
     bindE (modifies (api_keys_update (upd_row key_id k (revoked_key now)))) (\<lambda>_.
     bindE (user_by_principal caller) (\<lambda>caller_user.
     bindE (audit ''api_key.revoked'' (map_option usr_id caller_user) (Some tenant_id)
              [(''service_account_id'', JUuid (sac_id sa)), (''key_id'', JUuid (key_id key)),
               (''reason'', opt_text reason)]) (\<lambda>_.
     bindE commit (\<lambda>_.
     ret \<lparr>akv_key_id = key_id key, akv_key_prefix = key_prefix key, akv_status = ''revoked'',
          akv_revoked_at = now\<rparr>))))))))))"

end
