(* ===== verification/Key_Properties.thy ===== *)
theory Key_Properties
  imports Invariants Service_Accounts Session_Properties
begin

section \<open>API keys over a run\<close>

text \<open>
  A service account has at most one active key at any time, and a key that is not active any more never changes
  again: rotation revokes the old key before it issues the new one.
\<close>

definition keys_typed :: "uuid \<Rightarrow> database \<Rightarrow> bool" where
  "keys_typed n d \<longleftrightarrow>
     distinct (map key_id (api_keys d)) \<and> (\<forall>k \<in> set (api_keys d). key_id k < n \<and> key_service_account_id k < n)
     \<and> (\<forall>sa. at_most_one (\<lambda>k. key_service_account_id k = sa \<and> key_status k = ''active'') (api_keys d))"

definition keys_hist :: "api_key_row list \<Rightarrow> uuid \<Rightarrow> database \<Rightarrow> bool" where
  "keys_hist ks n d \<longleftrightarrow>
     keys_typed n d \<and> (\<forall>k \<in> set ks. key_status k \<noteq> ''active'' \<longrightarrow> k \<in> set (api_keys d))"

lemma keys_hist_mono: "supply_mono (keys_hist ks)"
  unfolding supply_mono_def keys_hist_def keys_typed_def by (meson order_less_le_trans)

lemma keys_hist_same: "api_keys d' = api_keys d \<Longrightarrow> keys_hist ks n d' \<longleftrightarrow> keys_hist ks n d"
  by (simp add: keys_hist_def keys_typed_def)

lemma keys_hist_log: "log_blind (keys_hist ks)"
  by (simp add: log_blind_def keys_hist_def keys_typed_def)

lemma at_most_one_upd:
  assumes "\<And>k. Q (f k) \<Longrightarrow> Q k" and "at_most_one Q rows"
  shows "at_most_one Q (upd_row key i f rows)"
proof -
  have "length (filter Q (upd_row key i f rows)) \<le> length (filter Q rows)"
    using assms(1) by (induction rows) auto
  with assms(2) show ?thesis by (simp add: at_most_one_def)
qed

lemma revoked_key_simps [simp]:
  "key_id (revoked_key now k) = key_id k" "key_service_account_id (revoked_key now k) = key_service_account_id k"
  "key_status (revoked_key now k) = ''revoked''"
  by (simp_all add: revoked_key_def)

lemma keys_hist_revoke:
  assumes J: "keys_hist ks n d" and k: "get_row key_id i (api_keys d) = Some k" "key_status k = ''active''"
    and d': "api_keys d' = upd_row key_id i (revoked_key now) (api_keys d)"
  shows "keys_hist ks n d'"
proof -
  have T: "keys_typed n d" using J by (simp add: keys_hist_def)
  have stay: "k' \<in> set (api_keys d')" if "k' \<in> set (api_keys d)" "key_status k' \<noteq> ''active''" for k'
  proof -
    have "key_id k' \<noteq> i"
      using that k get_row_unique [of key_id "api_keys d" k'] T by (auto simp: keys_typed_def)
    with that(1) show ?thesis unfolding d' set_upd_row by (intro bexI [of _ k']) simp_all
  qed
  moreover have "keys_typed n d'"
    unfolding keys_typed_def d'
  proof (intro conjI allI)
    show "distinct (map key_id (upd_row key_id i (revoked_key now) (api_keys d)))"
      using T by (simp add: keys_typed_def)
    show "\<forall>k \<in> set (upd_row key_id i (revoked_key now) (api_keys d)). key_id k < n \<and> key_service_account_id k < n"
      using T by (auto simp: keys_typed_def set_upd_row)
    show "at_most_one (\<lambda>k. key_service_account_id k = sa \<and> key_status k = ''active'')
        (upd_row key_id i (revoked_key now) (api_keys d))" for sa
      by (rule at_most_one_upd) (use T in \<open>auto simp: keys_typed_def\<close>)
  qed
  ultimately show ?thesis using J by (simp add: keys_hist_def)
qed

lemma keys_hist_insert:
  assumes J: "keys_hist ks n d" and d': "api_keys d' = api_keys d @ [k]"
    and k: "n \<le> key_id k" "key_id k < m" "key_service_account_id k < m" "n \<le> m"
    and free: "filter (\<lambda>x. key_service_account_id x = key_service_account_id k \<and> key_status x = ''active'') (api_keys d) = []"
  shows "keys_hist ks m d'"
proof -
  have "keys_typed n d" using J by (simp add: keys_hist_def)
  then have T: "distinct (map key_id (api_keys d))" "\<forall>x \<in> set (api_keys d). key_id x < n \<and> key_service_account_id x < n"
    "\<And>sa. at_most_one (\<lambda>k. key_service_account_id k = sa \<and> key_status k = ''active'') (api_keys d)"
    by (simp_all add: keys_typed_def)
  have "keys_typed m d'"
    unfolding keys_typed_def d'
  proof (intro conjI allI)
    show "distinct (map key_id (api_keys d @ [k]))" using T(1,2) k(1) by force
    show "\<forall>x \<in> set (api_keys d @ [k]). key_id x < m \<and> key_service_account_id x < m" using T(2) k by force
    show "at_most_one (\<lambda>x. key_service_account_id x = sa \<and> key_status x = ''active'') (api_keys d @ [k])" for sa
      using T(3) [of sa] free by (auto simp: at_most_one_append)
  qed
  then show ?thesis using J by (auto simp: keys_hist_def d')
qed

subsection \<open>The operations\<close>

lemma insert_key_run:
  "\<exists>i p raw w1 k. insert_key C sa w = (Inr (i, p, raw), w1) \<and> api_keys (db w1) = api_keys (db w) @ [k]
     \<and> key_id k = i \<and> next_uuid w \<le> i \<and> i < next_uuid w1 \<and> key_service_account_id k = sa \<and> disk w1 = disk w"
  by (simp add: insert_key_def generate_api_key_def token_urlsafe_def hash_secret_def key_expires_at_def run_simps)

lemma insert_key_okD:
  assumes "insert_key C sa w = (Inr q, w1)"
  shows "\<exists>k. api_keys (db w1) = api_keys (db w) @ [k] \<and> next_uuid w \<le> key_id k \<and> key_id k < next_uuid w1
     \<and> key_service_account_id k = sa \<and> disk w1 = disk w"
  using insert_key_run [of C sa w] assms by auto

lemma keeps_key_tables [keeps_intros]:
  "keeps (same_tables api_keys x) (initial_role_of t c p r)"
  "keeps (uuid_ge n) (initial_role_of t c p r)"
  "keeps (uuid_ge n) (insert_key C sa)"
  "keeps (disk_is d) (initial_role_of t c p r)"
  unfolding initial_role_of_def insert_binding_def insert_key_def generate_api_key_def token_urlsafe_def hash_secret_def
    key_expires_at_def
  by (rule keeps_intros | (simp; fail))+

lemma reads_only_sa [reads_only_intros]: "reads_only (get_sa t i)"
  unfolding get_sa_def by (intro reads_only_intros)

lemma get_sa_ok: "get_sa t i w = (Inr sa, w') \<Longrightarrow> w' = w \<and> sac_id sa = i"
  by (auto simp: get_sa_def ok_iff the_or_checked_ok dest: get_row_Some)

lemma key_atomic:
  "atomic_but_log (create_service_account (build_authorization_service b) C t c name desc r)"
  "atomic_but_log (rotate_key (build_authorization_service b) C t sa c reason)"
  "atomic_but_log (revoke_key (build_authorization_service b) t sa k c reason)"
  "atomic_but_log (assign_sa_role (build_authorization_service b) t sa c role why)"
  unfolding create_service_account_def rotate_key_def revoke_key_def assign_sa_role_def initial_role_of_def
    insert_binding_def insert_key_def generate_api_key_def token_urlsafe_def hash_secret_def key_expires_at_def Let_def
  by (rule atomic_but_log_intros keeps_intros reads_only_sa reads_only_lookups reads_only_keeps | (simp; fail))+

lemma key_uuid:
  "keeps (uuid_ge n) (create_service_account (build_authorization_service b) C t c name desc r)"
  "keeps (uuid_ge n) (rotate_key (build_authorization_service b) C t sa c reason)"
  "keeps (uuid_ge n) (revoke_key (build_authorization_service b) t sa k c reason)"
  "keeps (uuid_ge n) (assign_sa_role (build_authorization_service b) t sa c role why)"
  unfolding create_service_account_def rotate_key_def revoke_key_def assign_sa_role_def insert_binding_def Let_def
  by (rule keeps_key_tables keeps_intros reads_only_sa reads_only_lookups reads_only_keeps | (simp; fail))+

lemma same_but_log_keys:
  assumes "same_but_log w w1"
  shows "api_keys (db w1) = api_keys (db w)" "next_uuid w \<le> next_uuid w1"
  using assms by (auto simp: same_but_log_def)

lemma revoke_key_okD:
  assumes "revoke_key (build_authorization_service b) t sa i c reason w = (Inr x, w')"
  shows "\<exists>k now. get_row key_id i (api_keys (db w)) = Some k \<and> key_status k = ''active''
    \<and> api_keys (db w') = upd_row key_id i (revoked_key now) (api_keys (db w)) \<and> disk w' = db w' \<and> next_uuid w \<le> next_uuid w'"
  using assms unfolding revoke_key_def
  apply (simp only: step_ok step_ok_reads_only [OF reads_only_sa] the_or_checked_ok)
  apply (elim exE conjE)
  apply (drule require_permission_frame)
  apply (frule same_but_log_keys(1), drule same_but_log_keys(2))
  apply (intro exI conjI)
  apply simp_all
  done

lemma rotate_key_okD:
  assumes "rotate_key (build_authorization_service b) C t sa c reason w = (Inr x, w')"
  obtains w1 sr k q w2 where "same_but_log w w1" "get_sa t sa w1 = (Inr sr, w1)"
    "active_keys (db w1) (sac_id sr) = [k]"
    "insert_key C (sac_id sr) (w1\<lparr>db := api_keys_update (upd_row key_id (key_id k) (revoked_key (clock w1))) (db w1)\<rparr>) = (Inr q, w2)"
    "api_keys (db w') = api_keys (db w2)" "disk w' = db w'" "next_uuid w2 \<le> next_uuid w'"
proof -
  from assms have "\<exists>w1 sr k q w2. same_but_log w w1 \<and> get_sa t sa w1 = (Inr sr, w1)
    \<and> active_keys (db w1) (sac_id sr) = [k]
    \<and> insert_key C (sac_id sr) (w1\<lparr>db := api_keys_update (upd_row key_id (key_id k) (revoked_key (clock w1))) (db w1)\<rparr>) = (Inr q, w2)
    \<and> api_keys (db w') = api_keys (db w2) \<and> disk w' = db w' \<and> next_uuid w2 \<le> next_uuid w'"
    unfolding rotate_key_def
    apply (simp only: step_ok step_ok_reads_only [OF reads_only_sa] step_ok_bind [of "insert_key _ _"] case_prod_beta)
    apply (elim exE conjE)
    apply (drule require_permission_frame)
    apply (intro exI conjI, assumption, assumption)
    apply simp
    apply simp
    apply simp_all
    done
  with that show thesis by blast
qed


lemma initial_role_okD:
  assumes "initial_role_of t c p r w = (Inr x, w')"
  shows "api_keys (db w') = api_keys (db w)" "next_uuid w \<le> next_uuid w'"
  using assms by (auto simp: initial_role_of_def insert_binding_def ok_iff split: if_splits)

lemma create_account_okD:
  assumes "create_service_account (build_authorization_service b) C t c name desc r w = (Inr x, w')"
  obtains w1 n D q w2 and w3 :: world where "same_but_log w w1" "next_uuid w1 \<le> n" "api_keys D = api_keys (db w1)"
    "insert_key C n (w1\<lparr>next_uuid := Suc n, db := D\<rparr>) = (Inr q, w2)"
    "api_keys (db w3) = api_keys (db w2)" "next_uuid w2 \<le> next_uuid w3"
    "api_keys (db w') = api_keys (db w3)" "disk w' = db w'" "next_uuid w3 \<le> next_uuid w'"
proof -
  from assms have "\<exists>w1 n D q w2 s p w3. same_but_log w w1
    \<and> insert_key C n (w1\<lparr>next_uuid := Suc n, db := D\<rparr>) = (Inr q, w2)
    \<and> initial_role_of t c p r w2 = (Inr s, w3) \<and> next_uuid w1 \<le> n \<and> api_keys D = api_keys (db w1)
    \<and> api_keys (db w') = api_keys (db w3) \<and> disk w' = db w' \<and> next_uuid w3 \<le> next_uuid w'"
    unfolding create_service_account_def Let_def
    apply (simp only: step_ok step_ok_bind [of "insert_key _ _"] step_ok_bind [of "initial_role_of _ _ _ _"] case_prod_beta)
    apply (elim exE conjE)
    apply (drule require_permission_frame)
    apply (intro exI conjI, assumption)
    apply simp
    apply assumption
    apply simp_all
    done
  then obtain w1 n D q w2 s p w3 where f: "same_but_log w w1"
    "insert_key C n (w1\<lparr>next_uuid := Suc n, db := D\<rparr>) = (Inr q, w2)"
    "initial_role_of t c p r w2 = (Inr s, w3)" "next_uuid w1 \<le> n" "api_keys D = api_keys (db w1)"
    "api_keys (db w') = api_keys (db w3)" "disk w' = db w'" "next_uuid w3 \<le> next_uuid w'"
    by blast
  show thesis
    by (rule that [OF f(1,4,5,2) initial_role_okD [OF f(3)] f(6-8)])
qed

lemma revoked_key_fix: "k = revoked_key now k \<Longrightarrow> key_status k = ''revoked''"
  by (metis revoked_key_simps(3))

lemma active_keys_revoked:
  assumes "keys_typed n d" and "active_keys d sa = [k]" and "api_keys d' = upd_row key_id (key_id k) (revoked_key now) (api_keys d)"
  shows "active_keys d' sa = []" and "key_status k = ''active''" and "get_row key_id (key_id k) (api_keys d) = Some k" and "sa < n"
proof -
  have k: "k \<in> set (active_keys d sa)" using assms(2) by simp
  then show "key_status k = ''active''" "sa < n" using assms(1) by (auto simp: active_keys_def keys_typed_def)
  from k show "get_row key_id (key_id k) (api_keys d) = Some k"
    using get_row_unique [of key_id "api_keys d" k] assms(1) by (simp add: active_keys_def keys_typed_def)
  have only: "x = k" if "x \<in> set (api_keys d)" "key_service_account_id x = sa" "key_status x = ''active''" for x
  proof -
    have "x \<in> set (active_keys d sa)" using that by (simp add: active_keys_def)
    then show ?thesis by (simp add: assms(2))
  qed
  then show "active_keys d' sa = []"
    by (auto simp: active_keys_def assms(3) filter_empty_conv set_upd_row dest: only dest!: revoked_key_fix split: if_split_asm)
qed

lemma preserved_rotate: "preserved (keys_hist ks) (rotate_key (build_authorization_service b) C t sa c reason)"
proof (rule preservedI [OF keys_hist_mono keys_hist_log key_atomic(2) key_uuid(2)])
  fix w x w' assume J: "keys_hist ks (next_uuid w) (db w)"
    and run: "rotate_key (build_authorization_service b) C t sa c reason w = (Inr x, w')"
  from run obtain w1 sr k q w2 where f: "same_but_log w w1" and g: "get_sa t sa w1 = (Inr sr, w1)"
    and k: "active_keys (db w1) (sac_id sr) = [k]"
    and i: "insert_key C (sac_id sr) (w1\<lparr>db := api_keys_update (upd_row key_id (key_id k) (revoked_key (clock w1))) (db w1)\<rparr>) = (Inr q, w2)"
    and r: "api_keys (db w') = api_keys (db w2)" "disk w' = db w'" "next_uuid w2 \<le> next_uuid w'"
    by (rule rotate_key_okD)
  let ?d = "api_keys_update (upd_row key_id (key_id k) (revoked_key (clock w1))) (db w1)"
  have J1: "keys_hist ks (next_uuid w1) (db w1)"
    using supply_monoD [OF keys_hist_mono J same_but_log_keys(2) [OF f]] keys_hist_same [OF same_but_log_keys(1) [OF f]] by blast
  then have T: "keys_typed (next_uuid w1) (db w1)" by (simp add: keys_hist_def)
  have d: "api_keys ?d = upd_row key_id (key_id k) (revoked_key (clock w1)) (api_keys (db w1))" by simp
  note act = active_keys_revoked [OF T k d]
  have J2: "keys_hist ks (next_uuid w1) ?d"
    by (rule keys_hist_revoke [OF J1 act(3,2) d])
  from insert_key_okD [OF i] obtain k' where k': "api_keys (db w2) = api_keys ?d @ [k']" "next_uuid w1 \<le> key_id k'"
    "key_id k' < next_uuid w2" "key_service_account_id k' = sac_id sr"
    by auto
  have "keys_hist ks (next_uuid w2) (db w2)"
    by (rule keys_hist_insert [OF J2 k'(1-3)]) (use k' act(1,4) in \<open>auto simp: active_keys_def\<close>)
  then show "keys_hist ks (next_uuid w') (disk w')"
    using supply_monoD [OF keys_hist_mono _ r(3)] keys_hist_same [OF r(1)] r(2) by metis
qed

lemma preserved_create_account:
  "preserved (keys_hist ks) (create_service_account (build_authorization_service b) C t c name desc r)"
proof (rule preservedI [OF keys_hist_mono keys_hist_log key_atomic(1) key_uuid(1)])
  fix w x w' assume J: "keys_hist ks (next_uuid w) (db w)"
    and run: "create_service_account (build_authorization_service b) C t c name desc r w = (Inr x, w')"
  from run obtain w1 n D q w2 and w3 :: world where f: "same_but_log w w1" and n: "next_uuid w1 \<le> n" "api_keys D = api_keys (db w1)"
    and i: "insert_key C n (w1\<lparr>next_uuid := Suc n, db := D\<rparr>) = (Inr q, w2)"
    and r: "api_keys (db w3) = api_keys (db w2)" "next_uuid w2 \<le> next_uuid w3"
      "api_keys (db w') = api_keys (db w3)" "disk w' = db w'" "next_uuid w3 \<le> next_uuid w'"
    by (rule create_account_okD)
  have J1: "keys_hist ks (next_uuid w1) D"
    using supply_monoD [OF keys_hist_mono J same_but_log_keys(2) [OF f]]
      keys_hist_same [OF trans [OF n(2) same_but_log_keys(1) [OF f]]] by blast
  from insert_key_okD [OF i] obtain k' where k': "api_keys (db w2) = api_keys D @ [k']" "Suc n \<le> key_id k'"
    "key_id k' < next_uuid w2" "key_service_account_id k' = n"
    by auto
  have "filter (\<lambda>x. key_service_account_id x = n \<and> key_status x = ''active'') (api_keys D) = []"
    using J1 n(1) by (auto simp: keys_hist_def keys_typed_def filter_empty_conv)
  then have "keys_hist ks (next_uuid w2) (db w2)"
    by (intro keys_hist_insert [OF J1 k'(1)]) (use k' n in auto)
  then show "keys_hist ks (next_uuid w') (disk w')"
    using supply_monoD [OF keys_hist_mono _ order_trans [OF r(2,5)]] keys_hist_same [OF trans [OF r(3,1)]] r(4) by metis
qed

lemma preserved_revoke_key: "preserved (keys_hist ks) (revoke_key (build_authorization_service b) t sa i c reason)"
proof (rule preservedI [OF keys_hist_mono keys_hist_log key_atomic(3) key_uuid(3)])
  fix w x w' assume J: "keys_hist ks (next_uuid w) (db w)"
    and run: "revoke_key (build_authorization_service b) t sa i c reason w = (Inr x, w')"
  from revoke_key_okD [OF run] obtain k now where k: "get_row key_id i (api_keys (db w)) = Some k" "key_status k = ''active''"
    and d: "api_keys (db w') = upd_row key_id i (revoked_key now) (api_keys (db w))" "disk w' = db w'" "next_uuid w \<le> next_uuid w'"
    by blast
  from keys_hist_revoke [OF J k d(1)] show "keys_hist ks (next_uuid w') (disk w')"
    using supply_monoD [OF keys_hist_mono _ d(3)] d(2) by simp
qed

lemma preserved_assign_role: "preserved (keys_hist ks) (assign_sa_role (build_authorization_service b) t sa c role why)"
proof (rule preserved_leaves [OF leaves_intro, where p = api_keys])
  show "keeps (same_tables api_keys x) (assign_sa_role (build_authorization_service b) t sa c role why)" for x
    unfolding assign_sa_role_def insert_binding_def
    by (rule keeps_same_tables_require keeps_intros reads_only_sa reads_only_lookups reads_only_keeps | (simp; fail))+
  show "depends_on api_keys (keys_hist ks)" by (auto simp: depends_on_def keys_hist_def keys_typed_def)
qed (rule keys_hist_mono key_uuid)+


subsection \<open>Runs\<close>

datatype key_call =
    Create_Account uuid uuid string "string option" "string option"
  | Assign_Role uuid uuid uuid uuid "string option"
  | Rotate_Key uuid uuid uuid "string option"
  | Revoke_Key uuid uuid uuid uuid "string option"

fun answer_key :: "bool \<Rightarrow> crypto \<Rightarrow> key_call \<Rightarrow> unit op" where
  "answer_key b C (Create_Account t c name desc r) = silent (create_service_account (build_authorization_service b) C t c name desc r)"
| "answer_key b C (Assign_Role t sa c role why) = silent (assign_sa_role (build_authorization_service b) t sa c role why)"
| "answer_key b C (Rotate_Key t sa c reason) = silent (rotate_key (build_authorization_service b) C t sa c reason)"
| "answer_key b C (Revoke_Key t sa k c reason) = silent (revoke_key (build_authorization_service b) t sa k c reason)"

inductive key_step :: "bool \<Rightarrow> crypto \<Rightarrow> world \<Rightarrow> world \<Rightarrow> bool" for b C where
  call: "request (answer_key b C c) w = (r, w') \<Longrightarrow> key_step b C w w'"
| tick: "clock w \<le> t \<Longrightarrow> key_step b C w (w\<lparr>clock := t\<rparr>)"
| other: "api_keys d = api_keys (db w) \<Longrightarrow> next_uuid w \<le> n
    \<Longrightarrow> key_step b C w (w\<lparr>db := d, disk := d, next_uuid := n\<rparr>)"

lemma answer_key_preserved: "preserved (keys_hist ks) (answer_key b C c)"
  by (cases c) (simp_all add: preserved_silent preserved_create_account preserved_assign_role preserved_rotate preserved_revoke_key)

lemma keys_since_step:
  assumes "key_step b C w w'" and "disk w = db w \<and> keys_hist ks (next_uuid w) (db w)"
  shows "disk w' = db w' \<and> keys_hist ks (next_uuid w') (db w')"
  using assms(1)
proof cases
  case (call c r)
  from preservedD [OF answer_key_preserved _ _ call] assms(2) show ?thesis by blast
next
  case (tick t)
  with assms(2) show ?thesis by simp
next
  case (other d n)
  have "keys_hist ks (next_uuid w) d" using assms(2) keys_hist_same [OF other(2)] by blast
  from supply_monoD [OF keys_hist_mono this other(3)] show ?thesis by (simp add: other(1))
qed

interpretation key_runs: served_machine "key_step b C" "keys_hist ks" for b C ks
  by unfold_locales (rule keys_since_step)

text \<open>
  C14. Over any run a service account has at most one active key, and a key that has been revoked or rotated away
  stays exactly as it is.
\<close>

theorem one_active_key:
  assumes "(key_step b C)\<^sup>*\<^sup>* w w'" and "disk w = db w" and "keys_typed (next_uuid w) (db w)"
  shows "(\<forall>sa. length (active_keys (db w') sa) \<le> 1)
    \<and> (\<forall>k \<in> set (api_keys (db w)). key_status k \<noteq> ''active'' \<longrightarrow> k \<in> set (api_keys (db w')))"
proof -
  have "keys_hist (api_keys (db w)) (next_uuid w) (db w)" using assms(3) by (simp add: keys_hist_def)
  from key_runs.run_keeps [OF assms(1,2) this]
  have "keys_hist (api_keys (db w)) (next_uuid w') (db w')" by blast
  then show ?thesis by (auto simp: keys_hist_def keys_typed_def active_keys_def at_most_one_def)
qed

lemma key_called: "key_step b C w (snd (request (answer_key b C c) w))"
  by (rule key_step.call) (rule prod.collapse [symmetric])

definition key_world :: world where
  "key_world = world_of (sample_db\<lparr>
     service_accounts := [\<lparr>sac_id = 94, sac_principal_id = 4, sac_tenant_id = 31, sac_organization_id = 21,
       sac_name = ''bot'', sac_description = None, sac_status = ''active'', sac_created_by = None, sac_created_at = 0\<rparr>],
     api_keys := [\<lparr>key_id = 95, key_service_account_id = 94, key_prefix = ''a'', key_hash = ''h'', key_status = ''active'',
       key_revoked_at = None, key_expiry = None, key_last_used_at = None, key_created_at = 0\<rparr>]\<rparr>)"

theorem one_active_key_witness:
  "length (active_keys (db (snd (request (answer_key False sample_crypto (Rotate_Key 31 94 1 None)) key_world))) 94) \<le> 1"
proof -
  have "keys_typed (next_uuid key_world) (db key_world)"
    by (simp add: keys_typed_def key_world_def at_most_one_def)
  with one_active_key [OF r_into_rtranclp [of "key_step False sample_crypto", OF key_called [of _ _ _ "Rotate_Key 31 94 1 None"]], of key_world]
  show ?thesis by (simp add: key_world_def)
qed

end
