(* ===== verification/Tenant_Members.thy ===== *)
theory Tenant_Members
  imports Role_Bindings Identity_Base
begin

section \<open>Tenant and organization members\<close>

text \<open>
  \<open>MemberService\<close> of \<open>tenant/application/members.py\<close>: inviting a member of the organization to a tenant and
  removing it, and inviting to, joining and leaving an organization. The dash of one message, which Latin-1
  does not have, is a hyphen here.
\<close>

record tenant_invite_result =
  tir_membership_id :: uuid
  tir_tenant_id :: uuid
  tir_user_id :: uuid
  tir_role :: string
  tir_status :: string

record tenant_remove_result =
  trr_user_id :: uuid
  trr_tenant_id :: uuid
  trr_status :: string

record org_invite_result =
  oir_invite_id :: uuid
  oir_email :: string
  oir_org_role :: string
  oir_status :: string
  oir_user_id :: uuid

record org_remove_result =
  orm_user_id :: uuid
  orm_status :: string
  orm_tenant_bindings_revoked :: nat

definition require_org_owner_of :: "uuid \<Rightarrow> uuid \<Rightarrow> organization_row op" where
  "require_org_owner_of org user =
     bindE (reads (\<lambda>d. get_row org_id org (organizations d))) (\<lambda>found.
     bindE (the_or found (NotFoundError ''organization not found'')) (\<lambda>row.
     bindE (reads (\<lambda>d. filter (\<lambda>m. omb_organization_id m = org \<and> omb_user_id m = user
              \<and> omb_role m = ''owner'' \<and> omb_status m = ''active'') (org_memberships d))) (\<lambda>rows.
     bindE (one_or_none rows) (\<lambda>membership.
     bindE (raise_if (membership = None) (ForbiddenError ''org owner required'')) (\<lambda>_.
     ret row)))))"

definition active_role_named :: "database \<Rightarrow> uuid \<Rightarrow> string \<Rightarrow> role_row list" where
  "active_role_named d tenant name =
     filter (\<lambda>r. rol_tenant_id r = Some tenant \<and> rol_name r = name \<and> rol_status r = ''active'') (roles d)"

definition invite_tenant_member ::
  "authz_ports \<Rightarrow> uuid \<Rightarrow> uuid \<Rightarrow> uuid \<Rightarrow> string \<Rightarrow> tenant_invite_result op"
where
  "invite_tenant_member P tenant_id caller user_id role_name =
     bindE (require_permission P caller tenant_id ''tenant.admin'' None) (\<lambda>_.
     bindE (reads (\<lambda>d. get_row ten_id tenant_id (tenants d))) (\<lambda>found_tenant.
     bindE (the_or found_tenant (NotFoundError ''tenant not found'')) (\<lambda>tenant.
     bindE (reads (\<lambda>d. get_row usr_id user_id (users d))) (\<lambda>found_user.
     bindE (the_or (case found_user of None \<Rightarrow> None
              | Some u \<Rightarrow> if usr_status u \<noteq> ''active'' then None else Some u) (NotFoundError ''user not found'')) (\<lambda>user.
     bindE (reads (\<lambda>d. filter (\<lambda>m. omb_organization_id m = ten_organization_id tenant \<and> omb_user_id m = user_id
              \<and> omb_status m \<in> {''active'', ''invited''}) (org_memberships d))) (\<lambda>org_rows.
     bindE (one_or_none org_rows) (\<lambda>org_member.
     bindE (raise_if (org_member = None) (NotFoundError ''user not found or not an org member'')) (\<lambda>_.
     bindE (reads (\<lambda>d. filter (\<lambda>m. tmb_tenant_id m = tenant_id \<and> tmb_user_id m = user_id) (tenant_memberships d))) (\<lambda>rows.
     bindE (one_or_none rows) (\<lambda>existing.
     bindE (raise_if (case existing of None \<Rightarrow> False | Some m \<Rightarrow> tmb_status m = ''active'')
              (ConflictError ''already a member of this tenant'')) (\<lambda>_.
     bindE (reads (\<lambda>d. active_role_named d tenant_id role_name)) (\<lambda>role_rows.
     bindE (one_or_none role_rows) (\<lambda>found_role.
     bindE (the_or found_role (ValidationError ''unknown role'')) (\<lambda>role.
     bindE (case existing of
              Some m \<Rightarrow>
                bindE (modifies (tenant_memberships_update (upd_row tmb_id (tmb_id m) (\<lambda>m. m\<lparr>tmb_status := ''active''\<rparr>)))) (\<lambda>_.
                ret (tmb_id m))
            | None \<Rightarrow>
                bindE uuid4 (\<lambda>i.
                bindE (modifies (tenant_memberships_update (\<lambda>rows. rows @ [new_tenant_membership i tenant_id user_id]))) (\<lambda>_.
                ret i))) (\<lambda>membership.
     bindE utcnow (\<lambda>now.
     bindE uuid4 (\<lambda>b.
     bindE (modifies (principal_roles_update (\<lambda>rows. rows @
        [tenant_binding b now (usr_principal_id user) (rol_id role) tenant_id (Some caller)
           (Some ''tenant member invite'')]))) (\<lambda>_.
     bindE (user_by_principal caller) (\<lambda>caller_user.
     bindE (audit ''tenant_member.added'' (map_option usr_id caller_user) (Some tenant_id)
              [(''user_id'', JUuid user_id), (''role'', JStr role_name), (''membership_id'', JUuid membership)]) (\<lambda>_.
     bindE commit (\<lambda>_.
     ret \<lparr>tir_membership_id = membership, tir_tenant_id = tenant_id, tir_user_id = user_id, tir_role = role_name,
          tir_status = ''active''\<rparr>)))))))))))))))))))))"

text \<open>The guard of \<open>remove_tenant_member\<close>: the last active binding of the role \<open>tenant-admin\<close> stays.\<close>

definition admin_bindings_of :: "database \<Rightarrow> uuid \<Rightarrow> uuid \<Rightarrow> principal_role_row list" where
  "admin_bindings_of d role tenant =
     filter (\<lambda>b. prl_role_id b = role \<and> prl_tenant_id b = Some tenant \<and> prl_status b = ''active'') (principal_roles d)"

definition guard_last_admin :: "uuid \<Rightarrow> uuid \<Rightarrow> unit op" where
  "guard_last_admin tenant_id user_id =
     bindE (reads (\<lambda>d. active_role_named d tenant_id ''tenant-admin'')) (\<lambda>role_rows.
     bindE (one_or_none role_rows) (\<lambda>admin_role.
     (case admin_role of
        None \<Rightarrow> ret ()
      | Some role \<Rightarrow>
          bindE (reads (\<lambda>d. get_row usr_id user_id (users d))) (\<lambda>found.
          (case found of
             None \<Rightarrow> ret ()
           | Some user \<Rightarrow>
               bindE (reads (\<lambda>d. filter (\<lambda>b. prl_principal_id b = usr_principal_id user)
                        (admin_bindings_of d (rol_id role) tenant_id))) (\<lambda>rows.
               bindE (one_or_none rows) (\<lambda>is_admin.
               if is_admin = None then ret ()
               else
                 bindE (reads (\<lambda>d. length (admin_bindings_of d (rol_id role) tenant_id))) (\<lambda>admin_count.
                 raise_if (admin_count \<le> 1) (ConflictError ''cannot remove the last tenant-admin'')))))))))"

definition revoke_bindings :: "instant \<Rightarrow> principal_role_row list \<Rightarrow> unit op" where
  "revoke_bindings now bindings =
     modifies (principal_roles_update (map (\<lambda>b.
       if prl_id b \<in> prl_id ` set bindings then b\<lparr>prl_status := ''revoked'', prl_revoked_at := Some now\<rparr> else b)))"

definition remove_tenant_member :: "authz_ports \<Rightarrow> uuid \<Rightarrow> uuid \<Rightarrow> uuid \<Rightarrow> tenant_remove_result op" where
  "remove_tenant_member P tenant_id caller user_id =
     bindE (require_permission P caller tenant_id ''tenant.admin'' None) (\<lambda>_.
     bindE (active_membership tenant_id user_id) (\<lambda>found.
     bindE (the_or found (NotFoundError ''not a member'')) (\<lambda>membership.
     bindE (guard_last_admin tenant_id user_id) (\<lambda>_.
     bindE (modifies (tenant_memberships_update (upd_row tmb_id (tmb_id membership) (\<lambda>m.
              m\<lparr>tmb_status := ''removed''\<rparr>)))) (\<lambda>_.
     bindE utcnow (\<lambda>now.
     bindE (reads (\<lambda>d. get_row usr_id user_id (users d))) (\<lambda>found_user.
     bindE (case found_user of
              None \<Rightarrow> ret ()
            | Some user \<Rightarrow>
                bindE (reads (\<lambda>d. filter (\<lambda>b. prl_tenant_id b = Some tenant_id \<and> prl_status b = ''active''
                         \<and> prl_principal_id b = usr_principal_id user) (principal_roles d))) (\<lambda>bindings.
                revoke_bindings now bindings)) (\<lambda>_.
     bindE (user_by_principal caller) (\<lambda>caller_user.
     bindE (audit ''tenant_member.removed'' (map_option usr_id caller_user) (Some tenant_id)
              [(''user_id'', JUuid user_id)]) (\<lambda>_.
     bindE commit (\<lambda>_.
     ret \<lparr>trr_user_id = user_id, trr_tenant_id = tenant_id, trr_status = ''removed''\<rparr>)))))))))))"

subsection \<open>Organizations\<close>

definition invite_org_member :: "uuid \<Rightarrow> uuid \<Rightarrow> string \<Rightarrow> string \<Rightarrow> org_invite_result op" where
  "invite_org_member org caller email org_role =
     bindE (require_org_owner_of org caller) (\<lambda>_.
     let email' = lower (strip email) in
     bindE (raise_if (org_role \<notin> {''member'', ''owner''}) (ValidationError ''org_role must be member or owner'')) (\<lambda>_.
     bindE (reads (\<lambda>d. filter (\<lambda>u. usr_normalized_email u = email') (users d))) (\<lambda>user_rows.
     bindE (one_or_none user_rows) (\<lambda>found.
     bindE (the_or found (NotFoundError ''user not found - invitee must already have an account'')) (\<lambda>user.
     bindE (reads (\<lambda>d. filter (\<lambda>m. omb_organization_id m = org \<and> omb_user_id m = usr_id user) (org_memberships d))) (\<lambda>rows.
     bindE (one_or_none rows) (\<lambda>existing.
     bindE (raise_if (case existing of None \<Rightarrow> False | Some m \<Rightarrow> omb_status m \<in> {''active'', ''invited''})
              (ConflictError ''already invited or already a member'')) (\<lambda>_.
     bindE (case existing of
              Some m \<Rightarrow>
                bindE (modifies (org_memberships_update (upd_row omb_id (omb_id m) (\<lambda>m.
                         m\<lparr>omb_status := ''invited'', omb_role := org_role\<rparr>)))) (\<lambda>_.
                ret (omb_id m))
            | None \<Rightarrow>
                bindE uuid4 (\<lambda>i.
                bindE (modifies (org_memberships_update (\<lambda>rows. rows @
                   [new_org_membership i org (usr_id user) org_role ''invited'']))) (\<lambda>_.
                ret i))) (\<lambda>membership.
     bindE (audit ''org_member.invited'' (Some caller) None
              [(''org_id'', JUuid org), (''invite_id'', JUuid membership), (''email'', JStr email'),
               (''org_role'', JStr org_role)]) (\<lambda>_.
     bindE commit (\<lambda>_.
     ret \<lparr>oir_invite_id = membership, oir_email = email', oir_org_role = org_role, oir_status = ''invited'',
          oir_user_id = usr_id user\<rparr>)))))))))))"

definition accept_org_invite :: "uuid \<Rightarrow> uuid \<Rightarrow> org_invite_result op" where
  "accept_org_invite org caller =
     bindE (reads (\<lambda>d. filter (\<lambda>m. omb_organization_id m = org \<and> omb_user_id m = caller
              \<and> omb_status m = ''invited'') (org_memberships d))) (\<lambda>rows.
     bindE (one_or_none rows) (\<lambda>found.
     bindE (the_or found (NotFoundError ''invite not found'')) (\<lambda>membership.
     bindE (modifies (org_memberships_update (upd_row omb_id (omb_id membership) (\<lambda>m.
              m\<lparr>omb_status := ''active''\<rparr>)))) (\<lambda>_.
     bindE (reads (\<lambda>d. get_row usr_id caller (users d))) (\<lambda>user.
     bindE (audit ''org_member.joined'' (Some caller) None
              [(''org_id'', JUuid org), (''invite_id'', JUuid (omb_id membership))]) (\<lambda>_.
     bindE commit (\<lambda>_.
     ret \<lparr>oir_invite_id = omb_id membership, oir_email = (case user of None \<Rightarrow> [] | Some u \<Rightarrow> usr_email u),
          oir_org_role = omb_role membership, oir_status = ''active'', oir_user_id = caller\<rparr>)))))))"

text \<open>Leaving the tenants of the organization: bindings revoked, memberships closed.\<close>

definition leave_tenants :: "uuid list \<Rightarrow> uuid \<Rightarrow> user_row \<Rightarrow> nat op" where
  "leave_tenants tenant_ids user_id user =
     bindE utcnow (\<lambda>now.
     bindE (reads (\<lambda>d. filter (\<lambda>b. prl_principal_id b = usr_principal_id user
              \<and> prl_tenant_id b \<in> Some ` set tenant_ids \<and> prl_status b = ''active'') (principal_roles d))) (\<lambda>bindings.
     bindE (revoke_bindings now bindings) (\<lambda>_.
     bindE (for_each tenant_ids (\<lambda>tid.
        bindE (active_membership tid user_id) (\<lambda>found.
        (case found of
           None \<Rightarrow> ret ()
         | Some m \<Rightarrow> modifies (tenant_memberships_update (upd_row tmb_id (tmb_id m) (\<lambda>m.
                       m\<lparr>tmb_status := ''removed''\<rparr>))))))) (\<lambda>_.
     ret (length bindings)))))"

definition remove_org_member :: "uuid \<Rightarrow> uuid \<Rightarrow> uuid \<Rightarrow> org_remove_result op" where
  "remove_org_member org caller user_id =
     bindE (require_org_owner_of org caller) (\<lambda>_.
     bindE (raise_if (caller = user_id) (ConflictError ''cannot remove yourself'')) (\<lambda>_.
     bindE (reads (\<lambda>d. filter (\<lambda>m. omb_organization_id m = org \<and> omb_user_id m = user_id
              \<and> omb_status m \<in> {''active'', ''invited''}) (org_memberships d))) (\<lambda>rows.
     bindE (one_or_none rows) (\<lambda>found.
     bindE (the_or found (NotFoundError ''member not found'')) (\<lambda>membership.
     bindE (modifies (org_memberships_update (upd_row omb_id (omb_id membership) (\<lambda>m.
              m\<lparr>omb_status := ''removed''\<rparr>)))) (\<lambda>_.
     bindE (reads (\<lambda>d. map ten_id (filter (\<lambda>t. ten_organization_id t = org) (tenants d)))) (\<lambda>tenant_ids.
     bindE (reads (\<lambda>d. get_row usr_id user_id (users d))) (\<lambda>found_user.
     bindE (if tenant_ids = [] then ret 0
            else case found_user of None \<Rightarrow> ret 0 | Some user \<Rightarrow> leave_tenants tenant_ids user_id user) (\<lambda>revoked.
     bindE (audit ''org_member.removed'' (Some caller) None
              [(''org_id'', JUuid org), (''user_id'', JUuid user_id),
               (''tenant_bindings_revoked'', JInt (int revoked))]) (\<lambda>_.
     bindE commit (\<lambda>_.
     ret \<lparr>orm_user_id = user_id, orm_status = ''removed'', orm_tenant_bindings_revoked = revoked\<rparr>)))))))))))"

end
