(* ===== verification/Member_Properties.thy ===== *)
theory Member_Properties
  imports Tenant_Members
begin

section \<open>Removing a member\<close>

text \<open>
  What a removal leaves behind: the member has no active binding and no active membership in the tenant any more,
  and the last administrator of a tenant cannot be removed by this way. The removal from the organization takes
  its bindings too, without the guard.
\<close>

definition left_bindings :: "instant \<Rightarrow> uuid \<Rightarrow> uuid \<Rightarrow> principal_role_row list \<Rightarrow> principal_role_row list" where
  "left_bindings now t p rows =
     (let gone = filter (\<lambda>b. prl_tenant_id b = Some t \<and> prl_status b = ''active'' \<and> prl_principal_id b = p) rows
      in map (\<lambda>b. if prl_id b \<in> prl_id ` set gone then b\<lparr>prl_status := ''revoked'', prl_revoked_at := Some now\<rparr> else b) rows)"

lemma left_bindings_gone:
  "b \<in> set (left_bindings now t p rows) \<Longrightarrow> prl_tenant_id b = Some t \<Longrightarrow> prl_principal_id b = p
    \<Longrightarrow> prl_status b \<noteq> ''active''"
  by (auto simp: left_bindings_def Let_def split: if_split_asm)

lemma left_bindings_kept:
  assumes "distinct (map prl_id rows)" and "b \<in> set rows" and "prl_tenant_id b \<noteq> Some t \<or> prl_principal_id b \<noteq> p"
  shows "b \<in> set (left_bindings now t p rows)"
proof -
  have "prl_id b \<notin> prl_id ` {x \<in> set rows. prl_tenant_id x = Some t \<and> prl_status x = ''active'' \<and> prl_principal_id x = p}"
    using assms by (auto simp: distinct_map dest: inj_onD)
  with assms(2) show ?thesis by (force simp: left_bindings_def Let_def image_iff)
qed

lemma reads_only_guard [reads_only_intros]: "reads_only (guard_last_admin t u)"
  unfolding guard_last_admin_def by (intro reads_only_intros)

lemma guard_last_admin_ok:
  assumes "guard_last_admin t u w = (Inr x, w')" and "active_role_named (db w) t ''tenant-admin'' = [role]"
    and "get_row usr_id u (users (db w)) = Some user"
    and "b \<in> set (admin_bindings_of (db w) (rol_id role) t)" and "prl_principal_id b = usr_principal_id user"
  shows "2 \<le> length (admin_bindings_of (db w) (rol_id role) t)"
    and "filter (\<lambda>b. prl_principal_id b = usr_principal_id user) (admin_bindings_of (db w) (rol_id role) t) = [b]"
proof -
  let ?mine = "filter (\<lambda>b. prl_principal_id b = usr_principal_id user) (admin_bindings_of (db w) (rol_id role) t)"
  have m: "?mine \<noteq> []" using assms(4,5) by (auto simp: filter_empty_conv)
  from assms(1-3) m have g: "length ?mine = 1 \<and> 2 \<le> length (admin_bindings_of (db w) (rol_id role) t)"
    by (auto simp: guard_last_admin_def ok_iff not_le split: option.split_asm if_split_asm)
  then show "2 \<le> length (admin_bindings_of (db w) (rol_id role) t)" by simp
  have "b \<in> set ?mine" using assms(4,5) by simp
  with g show "?mine = [b]" by (cases ?mine) auto
qed

lemma remove_atomic: "atomic_but_log (remove_tenant_member (build_authorization_service b) t c u)"
  unfolding remove_tenant_member_def revoke_bindings_def
  by (rule atomic_but_log_intros keeps_intros reads_only_keeps reads_only_guard reads_only_lookups)+

lemma step_ok_leave:
  "bindE (case z of None \<Rightarrow> ret () | Some user \<Rightarrow>
      bindE (reads (\<lambda>d. filter (\<lambda>b. prl_tenant_id b = Some t \<and> prl_status b = ''active''
               \<and> prl_principal_id b = usr_principal_id user) (principal_roles d))) (\<lambda>bindings.
      revoke_bindings now bindings)) f w = (Inr y, w') \<longleftrightarrow>
   f () (w\<lparr>db := principal_roles_update (\<lambda>rows. case z of None \<Rightarrow> rows
      | Some user \<Rightarrow> left_bindings now t (usr_principal_id user) rows) (db w)\<rparr>) = (Inr y, w')"
  by (cases z; cases w; cases "db w") (simp_all add: bindE_run revoke_bindings_def left_bindings_def Let_def run_simps)

lemma remove_okD:
  assumes "remove_tenant_member (build_authorization_service b) t c u w = (Inr x, w')"
  shows "\<exists>w1 m. same_but_log w w1 \<and> guard_last_admin t u w1 = (Inr (), w1)
    \<and> active_membership t u w1 = (Inr (Some m), w1)
    \<and> tenant_memberships (db w') = upd_row tmb_id (tmb_id m) (\<lambda>m. m\<lparr>tmb_status := ''removed''\<rparr>) (tenant_memberships (db w1))
    \<and> principal_roles (db w') = (case get_row usr_id u (users (db w1)) of None \<Rightarrow> principal_roles (db w1)
         | Some user \<Rightarrow> left_bindings (clock w1) t (usr_principal_id user) (principal_roles (db w1)))
    \<and> roles (db w') = roles (db w1) \<and> permissions (db w') = permissions (db w1) \<and> disk w' = db w'"
  using assms unfolding remove_tenant_member_def
  apply (simp only: step_ok step_ok_reads_only [OF reads_only_guard] step_ok_leave)
  apply (elim exE conjE)
  apply (drule require_permission_frame)
  apply (rule exI, rule exI)
  apply (intro conjI, assumption)
  apply (simp_all split: option.split)
  done

text \<open>
  C7. After a removal the member is out: no binding of the user is active in the tenant, no membership is, and the
  authorization service allows nothing in the tenant any more.
\<close>

theorem removed_member_is_out:
  assumes "request (remove_tenant_member (build_authorization_service b) t c u) w = (Inr x, w')"
    and "get_row usr_id u (users (db w)) = Some user" and "distinct (map prm_id (permissions (db w)))"
  shows "(\<forall>b \<in> set (principal_roles (db w')). prl_tenant_id b = Some t \<and> prl_principal_id b = usr_principal_id user
             \<longrightarrow> prl_status b \<noteq> ''active'')
    \<and> filter (\<lambda>m. tmb_tenant_id m = t \<and> tmb_user_id m = u \<and> tmb_status m = ''active'') (tenant_memberships (db w')) = []
    \<and> \<not> may_use_tenant (sql_views (db w')) (usr_principal_id user) code t at"
proof -
  from request_ok_db [OF assms(1)] obtain w2 where
    ok: "remove_tenant_member (build_authorization_service b) t c u w = (Inr x, w2)" and d: "db w' = disk w2" by blast
  from remove_okD [OF ok] obtain w1 m where s: "same_but_log w w1" and m: "active_membership t u w1 = (Inr (Some m), w1)"
    and t: "tenant_memberships (db w2) = upd_row tmb_id (tmb_id m) (\<lambda>m. m\<lparr>tmb_status := ''removed''\<rparr>) (tenant_memberships (db w1))"
    and p: "principal_roles (db w2) = (case get_row usr_id u (users (db w1)) of None \<Rightarrow> principal_roles (db w1)
         | Some user \<Rightarrow> left_bindings (clock w1) t (usr_principal_id user) (principal_roles (db w1)))"
    and same: "permissions (db w2) = permissions (db w1)" "disk w2 = db w2" by blast
  have user: "get_row usr_id u (users (db w1)) = Some user" and ids: "distinct (map prm_id (permissions (db w2)))"
    using s assms(2,3) same(1) by (auto simp: same_but_log_def)
  have out: "prl_status b \<noteq> ''active''" if "b \<in> set (principal_roles (db w2))" "prl_tenant_id b = Some t"
      "prl_principal_id b = usr_principal_id user" for b
    using left_bindings_gone that by (auto simp: p user)
  have only: "x = m" if "x \<in> set (tenant_memberships (db w1))" "tmb_tenant_id x = t" "tmb_user_id x = u" "tmb_status x = ''active''" for x
  proof -
    have "x \<in> set (filter (\<lambda>m. tmb_tenant_id m = t \<and> tmb_user_id m = u \<and> tmb_status m = ''active'') (tenant_memberships (db w1)))"
      using that by simp
    moreover have "filter (\<lambda>m. tmb_tenant_id m = t \<and> tmb_user_id m = u \<and> tmb_status m = ''active'') (tenant_memberships (db w1)) = [m]"
      using m by (simp add: active_membership_ok)
    ultimately show ?thesis by simp
  qed
  have "\<not> may_use_tenant (sql_views (db w2)) (usr_principal_id user) code t at"
    using may_use_tenant_rows [OF _ ids] out by (fastforce simp: grants_permission_def)
  moreover have "\<not> (tmb_tenant_id x = t \<and> tmb_user_id x = u \<and> tmb_status x = ''active'')"
    if "x \<in> set (tenant_memberships (db w2))" for x
  proof -
    from that obtain r where r: "r \<in> set (tenant_memberships (db w1))"
      "x = (if tmb_id r = tmb_id m then r\<lparr>tmb_status := ''removed''\<rparr> else r)"
      unfolding t set_upd_row by blast
    show ?thesis
    proof (cases "tmb_id r = tmb_id m")
      case True
      with r show ?thesis by simp
    next
      case False
      with only [OF r(1)] r(2) show ?thesis by auto
    qed
  qed
  ultimately show ?thesis using out d same(2) by (auto simp: filter_empty_conv)
qed

subsection \<open>The last administrator\<close>

lemma remove_leaves_admin:
  assumes "remove_tenant_member (build_authorization_service b) t c u w = (Inr x, w')"
    and keys: "distinct (map prl_id (principal_roles (db w)))"
    and role: "active_role_named (db w) t ''tenant-admin'' = [role]"
    and some: "admin_bindings_of (db w) (rol_id role) t \<noteq> []"
  shows "admin_bindings_of (db w') (rol_id role) t \<noteq> []"
proof -
  from remove_okD [OF assms(1)] obtain w1 where s: "same_but_log w w1" and g: "guard_last_admin t u w1 = (Inr (), w1)"
    and p: "principal_roles (db w') = (case get_row usr_id u (users (db w1)) of None \<Rightarrow> principal_roles (db w1)
         | Some user \<Rightarrow> left_bindings (clock w1) t (usr_principal_id user) (principal_roles (db w1)))"
    by blast
  from s have same: "principal_roles (db w1) = principal_roles (db w)" "roles (db w1) = roles (db w)"
    by (auto simp: same_but_log_def)
  let ?admins = "\<lambda>d. admin_bindings_of d (rol_id role) t"
  have eq: "?admins (db w1) = ?admins (db w)" "active_role_named (db w1) t ''tenant-admin'' = [role]"
    using role by (simp_all add: admin_bindings_of_def active_role_named_def same)
  show ?thesis
  proof (cases "get_row usr_id u (users (db w1))")
    case None
    with p some show ?thesis by (simp add: admin_bindings_of_def same)
  next
    case (Some user)
    have "\<exists>a \<in> set (?admins (db w)). prl_principal_id a \<noteq> usr_principal_id user"
    proof (rule ccontr)
      assume all: "\<not> ?thesis"
      from some obtain a where a: "a \<in> set (?admins (db w))" by (cases "?admins (db w)") auto
      note guarded = guard_last_admin_ok [OF g eq(2) Some, unfolded eq(1), OF a]
      from all have "filter (\<lambda>b. prl_principal_id b = usr_principal_id user) (?admins (db w)) = ?admins (db w)"
        by (auto simp: filter_id_conv)
      with guarded a all show False by auto
    qed
    then obtain a where a: "a \<in> set (?admins (db w))" "prl_principal_id a \<noteq> usr_principal_id user" by blast
    then have "a \<in> set (principal_roles (db w'))"
      using left_bindings_kept [OF keys] by (simp add: p Some same admin_bindings_of_def)
    with a(1) have "a \<in> set (?admins (db w'))" by (simp add: admin_bindings_of_def)
    then show ?thesis by auto
  qed
qed

text \<open>
  C6. A request to remove a member of a tenant, successful or not, never takes the last active binding of the role
  \<open>tenant-admin\<close>: a tenant with an administrator keeps one. This is about \<open>remove_tenant_member\<close>; the removal of a
  member of the organization has no such guard (\<open>org_removal_drops_last_admin\<close>).
\<close>

theorem remove_member_keeps_admin:
  assumes "disk w = db w" and "distinct (map prl_id (principal_roles (db w)))"
    and "active_role_named (db w) t ''tenant-admin'' = [role]" and "admin_bindings_of (db w) (rol_id role) t \<noteq> []"
    and "request (remove_tenant_member (build_authorization_service b) t c u) w = (r, w')"
  shows "admin_bindings_of (db w') (rol_id role) t \<noteq> []"
proof (cases r)
  case (Inl e)
  from request_error [OF remove_atomic] assms(5) Inl obtain l where "db w' = (disk w)\<lparr>authorization_audit_log := l\<rparr>"
    by blast
  with assms(1,4) show ?thesis by (simp add: admin_bindings_of_def)
next
  case (Inr x)
  from request_ok_db [OF assms(5) [unfolded Inr]] obtain w1 where
    ok: "remove_tenant_member (build_authorization_service b) t c u w = (Inr x, w1)" and d: "db w' = disk w1" by blast
  from remove_okD [OF ok] have "disk w1 = db w1" by blast
  with remove_leaves_admin [OF ok assms(2-4)] d show ?thesis by simp
qed

subsection \<open>On concrete worlds\<close>

theorem removed_member_is_out_witness:
  "\<exists>x w'. request (remove_tenant_member (build_authorization_service True) 31 1 12) sample_world = (Inr x, w')
     \<and> \<not> may_use_tenant (sql_views (db w')) 2 ''resource.read'' 31 2000"
proof -
  let ?m = "request (remove_tenant_member (build_authorization_service True) 31 1 12)"
  have k: "get_row usr_id 12 (users (db sample_world)) = Some (sample_user 12 2 ''bob'')"
    "distinct (map prm_id (permissions (db sample_world)))"
    by code_simp+
  have "case ?m sample_world of (Inl _, _) \<Rightarrow> False | (Inr r, _) \<Rightarrow> True" by code_simp
  then obtain x w' where e: "?m sample_world = (Inr x, w')" by (auto split: prod.splits sum.splits)
  have "usr_principal_id (sample_user 12 2 ''bob'') = 2" by code_simp
  with removed_member_is_out [OF e k, of "''resource.read''" 2000] e show ?thesis by auto
qed

theorem remove_member_keeps_admin_witness:
  "\<exists>r w'. request (remove_tenant_member (build_authorization_service True) 31 1 11) sample_world = (r, w')
     \<and> admin_bindings_of (db w') 51 31 \<noteq> []"
proof -
  have k: "disk sample_world = db sample_world" "distinct (map prl_id (principal_roles (db sample_world)))"
    "active_role_named (db sample_world) 31 ''tenant-admin'' = [sample_tenant_role 51 ''tenant-admin'']"
    "admin_bindings_of (db sample_world) (rol_id (sample_tenant_role 51 ''tenant-admin'')) 31 \<noteq> []"
    by (simp, code_simp, code_simp, code_simp)
  obtain r w' where e: "request (remove_tenant_member (build_authorization_service True) 31 1 11) sample_world = (r, w')"
    by fastforce
  have "rol_id (sample_tenant_role 51 ''tenant-admin'') = 51" by code_simp
  with remove_member_keeps_admin [OF k e] e show ?thesis by auto
qed

text \<open>
  The owner of an organization can remove the user that alone administers a tenant of it: the removal from the
  organization has no guard, and the tenant is left without an administrator.
\<close>

definition orphan_world :: world where
  "orphan_world = world_of (sample_db\<lparr>
     org_memberships := org_memberships sample_db @
       [\<lparr>omb_id = 93, omb_organization_id = 21, omb_user_id = 12, omb_role = ''owner'', omb_status = ''active''\<rparr>]\<rparr>)"

theorem org_removal_drops_last_admin:
  "\<exists>x w'. request (remove_org_member 21 12 11) orphan_world = (Inr x, w')
     \<and> admin_bindings_of (db orphan_world) 51 31 \<noteq> [] \<and> admin_bindings_of (db w') 51 31 = []"
proof -
  have "case request (remove_org_member 21 12 11) orphan_world of (Inl _, _) \<Rightarrow> False
      | (Inr x, w') \<Rightarrow> admin_bindings_of (db orphan_world) 51 31 \<noteq> [] \<and> admin_bindings_of (db w') 51 31 = []"
    by code_simp
  then show ?thesis by (auto split: prod.splits sum.splits)
qed

end
