(* ===== verification/Org_Upgrade.thy ===== *)
theory Org_Upgrade
  imports Tenant_Members
begin

section \<open>Upgrading an individual organization\<close>

text \<open>
  \<open>OrgUpgradeService\<close> of \<open>tenant/application/org_upgrade.py\<close>: the request is stored as processing, the
  pipeline creates the realm, the tenant, its roles and the first administrator, and a failure is recorded on
  the request. \<open>text\<close> is the \<open>str()\<close> of exceptions that carry no message of the services, \<open>start\<close> the call that
  starts the workflow when \<open>workflow_mode\<close> is temporal. Attributes of a row that are read after a rollback are
  those the row had before.
\<close>

record org_register_result =
  org_request_id :: uuid
  org_request_status :: string
  org_request_org_id :: uuid
  org_estimated_ms :: int
  org_keycloak_realm :: "string option"
  org_realm_url :: "string option"
  org_error_message :: "string option"

definition org_result ::
  "uuid \<Rightarrow> string \<Rightarrow> uuid \<Rightarrow> int \<Rightarrow> string option \<Rightarrow> string option \<Rightarrow> org_register_result"
where
  "org_result i status org ms realm err =
     \<lparr>org_request_id = i, org_request_status = status, org_request_org_id = org, org_estimated_ms = ms,
      org_keycloak_realm = realm,
      org_realm_url = (case realm of None \<Rightarrow> None
                       | Some r \<Rightarrow> if r = [] then None else Some (r @ ''.auth.platform.io'')),
      org_error_message = err\<rparr>"

fun error_text :: "(error \<Rightarrow> string) \<Rightarrow> error \<Rightarrow> string" where
  "error_text f (ConflictError m) = m"
| "error_text f (NotFoundError m) = m"
| "error_text f (ValidationError m) = m"
| "error_text f (ForbiddenError m) = m"
| "error_text f (UnauthorizedError m) = m"
| "error_text f (KeycloakUnavailable m) = m"
| "error_text f (ValueError m) = m"
| "error_text f e = f e"

definition owned_individual_org :: "uuid \<Rightarrow> organization_row op" where
  "owned_individual_org user =
     bindE (reads (\<lambda>d. first_row (sort_key org_created_at
       [o'. o' \<leftarrow> organizations d, m \<leftarrow> org_memberships d,
          omb_organization_id m = org_id o' \<and> omb_user_id m = user \<and> omb_role m = ''owner''
          \<and> omb_status m = ''active'' \<and> org_status o' = ''active'']))) (\<lambda>found.
     bindE (the_or found (ForbiddenError ''no owned organization'')) (\<lambda>row.
     bindE (raise_if (org_type row \<noteq> ''individual'') (ForbiddenError ''already an organization'')) (\<lambda>_.
     ret row)))"

definition assert_slug_available :: "string \<Rightarrow> uuid \<Rightarrow> unit op" where
  "assert_slug_available slug org =
     bindE (reads (\<lambda>d. filter (\<lambda>o'. org_slug o' = slug \<and> org_id o' \<noteq> org) (organizations d))) (\<lambda>rows.
     bindE (one_or_none rows) (\<lambda>existing.
     bindE (raise_if (existing \<noteq> None) (ConflictError ''slug already taken'')) (\<lambda>_.
     bindE (reads (\<lambda>d. filter (\<lambda>r. orr_slug r = slug \<and> orr_status r \<in> {''processing'', ''completed''})
              (registration_requests d))) (\<lambda>requests.
     bindE (one_or_none requests) (\<lambda>pending.
     raise_if (pending \<noteq> None) (ConflictError ''slug already taken''))))))"

definition update_request :: "uuid \<Rightarrow> (registration_request_row \<Rightarrow> registration_request_row) \<Rightarrow> unit op" where
  "update_request i f = modifies (registration_requests_update (upd_row orr_id i f))"

definition failed_request :: "instant \<Rightarrow> string \<Rightarrow> registration_request_row \<Rightarrow> registration_request_row" where
  "failed_request now err r =
     r\<lparr>orr_status := ''failed'', orr_error_message := Some (take 500 err), orr_completed_at := Some now\<rparr>"

text \<open>Recorded in a transaction of its own: the row is stored again when the rollback dropped it.\<close>

definition mark_failed :: "registration_request_row \<Rightarrow> string \<Rightarrow> unit op" where
  "mark_failed req err =
     bindE (reads (\<lambda>d. get_row orr_id (orr_id req) (registration_requests d))) (\<lambda>existing.
     bindE utcnow (\<lambda>now.
     bindE (case existing of
              None \<Rightarrow> modifies (registration_requests_update (\<lambda>rows. rows @
                [failed_request now err (req\<lparr>orr_keycloak_realm_ref := None\<rparr>)]))
            | Some row \<Rightarrow> update_request (orr_id row) (failed_request now err)) (\<lambda>_.
     commit)))"

definition upgraded_org :: "registration_request_row \<Rightarrow> organization_row \<Rightarrow> organization_row" where
  "upgraded_org req o' =
     o'\<lparr>org_name := orr_name req, org_slug := orr_slug req, org_type := ''organization'',
        org_keycloak_realm_ref := Some (orr_slug req), org_status := ''active''\<rparr>"

definition ensure_org_realm :: "string \<Rightarrow> string \<Rightarrow> uuid \<Rightarrow> unit op" where
  "ensure_org_realm slug realm_name org =
     (let issuer = ''https://'' @ slug @ ''.auth.platform.io'' in
     bindE (reads (\<lambda>d. filter (\<lambda>r. rlm_realm_name r = slug) (identity_realms d))) (\<lambda>rows.
     bindE (one_or_none rows) (\<lambda>existing.
     if existing \<noteq> None then ret ()
     else bindE uuid4 (\<lambda>i.
          modifies (identity_realms_update (\<lambda>rows. rows @
            [\<lparr>rlm_id = i, rlm_realm_name = slug, rlm_realm_type = ''organization'', rlm_issuer = issuer,
              rlm_issuer_url = issuer, rlm_keycloak_realm_id = Some realm_name, rlm_organization_id = Some org,
              rlm_status = ''active''\<rparr>]))))))"

definition only_row :: "'r list \<Rightarrow> 'r op" where
  "only_row rows =
     bindE (one_or_none rows) (\<lambda>found. the_or found NoResultFound)"

definition completed_request :: "instant \<Rightarrow> registration_request_row \<Rightarrow> registration_request_row" where
  "completed_request now r =
     r\<lparr>orr_status := ''completed'', orr_keycloak_realm_ref := Some (orr_slug r), orr_completed_at := Some now,
       orr_error_message := None\<rparr>"

definition run_pipeline ::
  "keycloak \<Rightarrow> registration_request_row \<Rightarrow> organization_row \<Rightarrow> uuid \<Rightarrow> uuid \<Rightarrow> org_register_result op"
where
  "run_pipeline K req org requester_user requester_principal =
     (let slug = orr_slug req in
     bindE (of_reply (kc_create_realm K slug)) (\<lambda>realm_name.
     bindE (ensure_org_realm slug realm_name (org_id org)) (\<lambda>_.
     bindE (modifies (organizations_update (upd_row org_id (org_id org) (upgraded_org req)))) (\<lambda>_.
     bindE utcnow (\<lambda>now.
     bindE uuid4 (\<lambda>tenant.
     bindE (modifies (tenants_update (\<lambda>rows. rows @
        [new_tenant tenant now (org_id org) (orr_name req @ '' default'') (slug @ ''-default'')]))) (\<lambda>_.
     bindE uuid4 (\<lambda>tm.
     bindE (modifies (tenant_memberships_update (\<lambda>rows. rows @
        [new_tenant_membership tm tenant requester_user]))) (\<lambda>_.
     bindE uuid4 (\<lambda>project.
     bindE (modifies (projects_update (\<lambda>rows. rows @
        [\<lparr>prj_id = project, prj_tenant_id = tenant, prj_name = ''default-project'', prj_status = ''active'',
          prj_created_at = now\<rparr>]))) (\<lambda>_.
     bindE (seed_tenant_system_roles tenant) (\<lambda>_.
     bindE (reads (\<lambda>d. filter (\<lambda>r. rol_tenant_id r = Some tenant \<and> rol_scope_type r = ''tenant''
              \<and> rol_name r = ''tenant-admin'') (roles d))) (\<lambda>rows.
     bindE (only_row rows) (\<lambda>role.
     bindE uuid4 (\<lambda>b.
     bindE (modifies (principal_roles_update (\<lambda>rows. rows @
        [tenant_binding b now requester_principal (rol_id role) tenant (Some requester_principal) None]))) (\<lambda>_.
     bindE (update_request (orr_id req) (completed_request now)) (\<lambda>_.
     bindE (audit ''organization.registered'' (Some requester_user) (Some tenant)
              [(''org_id'', JUuid (org_id org)), (''slug'', JStr slug), (''request_id'', JUuid (orr_id req)),
               (''new_tenant_id'', JUuid tenant)]) (\<lambda>_.
     bindE (audit ''keycloak.realm.created'' (Some requester_user) (Some tenant)
              [(''realm'', JStr slug), (''org_id'', JUuid (org_id org))]) (\<lambda>_.
     ret (org_result (orr_id req) ''completed'' (org_id org) 0 (Some slug) None))))))))))))))))))))"

text \<open>The pipeline with its two handlers: an unreachable Keycloak is raised again, any other failure recorded.\<close>

definition recorded_failure ::
  "(error \<Rightarrow> string) \<Rightarrow> registration_request_row \<Rightarrow> uuid \<Rightarrow> error \<Rightarrow> org_register_result op"
where
  "recorded_failure text req org e =
     bindE (mark_failed req (error_text text e)) (\<lambda>_.
     ret (org_result (orr_id req) ''failed'' org 0 None (Some (take 500 (error_text text e)))))"

definition is_unavailable :: "error \<Rightarrow> bool" where
  "is_unavailable e = (case e of KeycloakUnavailable _ \<Rightarrow> True | _ \<Rightarrow> False)"

definition guarded_pipeline ::
  "keycloak \<Rightarrow> (error \<Rightarrow> string) \<Rightarrow> registration_request_row \<Rightarrow> organization_row \<Rightarrow> uuid \<Rightarrow> uuid
   \<Rightarrow> org_register_result op"
where
  "guarded_pipeline K text req org requester_user requester_principal =
     catch
       (bindE (run_pipeline K req org requester_user requester_principal) (\<lambda>result.
        bindE commit (\<lambda>_.
        ret result)))
       (\<lambda>e. bindE rollback (\<lambda>_.
            if is_unavailable e then raise e else recorded_failure text req (org_id org) e))"

definition check_registration :: "string \<Rightarrow> string \<Rightarrow> string \<Rightarrow> string \<Rightarrow> string \<Rightarrow> unit op" where
  "check_registration name slug contact_name contact_email country =
     bindE (raise_if (name = [] \<or> length name > 255) (ValidationError ''invalid organization name'')) (\<lambda>_.
     bindE (raise_if (\<not> is_slug slug \<or> length slug < 2 \<or> length slug > 64)
              (ValidationError ''invalid slug format'')) (\<lambda>_.
     bindE (raise_if (contact_name = [] \<or> contact_email = [] \<or> CHR ''@'' \<notin> set contact_email)
              (ValidationError ''invalid contact details'')) (\<lambda>_.
     raise_if (length country < 2 \<or> length country > 8) (ValidationError ''invalid country''))))"

definition submit ::
  "settings \<Rightarrow> keycloak \<Rightarrow> (error \<Rightarrow> string) \<Rightarrow> (payload \<Rightarrow> error + unit) \<Rightarrow> uuid \<Rightarrow> uuid
   \<Rightarrow> string \<Rightarrow> string \<Rightarrow> string \<Rightarrow> string \<Rightarrow> string \<Rightarrow> org_register_result op"
where
  "submit S K text start requester_user requester_principal name slug contact_name contact_email country =
     (let slug' = lower (strip slug);
          req = (\<lambda>i org. \<lparr>orr_id = i, orr_org_id = org, orr_requester_user_id = requester_user,
                   orr_name = strip name, orr_slug = slug', orr_contact_name = strip contact_name,
                   orr_contact_email = lower (strip contact_email), orr_country = upper (strip country),
                   orr_status = ''processing'', orr_keycloak_realm_ref = None, orr_error_message = None,
                   orr_completed_at = None\<rparr>) in
     bindE (check_registration (strip name) slug' (strip contact_name) (lower (strip contact_email))
              (upper (strip country))) (\<lambda>_.
     bindE (owned_individual_org requester_user) (\<lambda>org.
     bindE (assert_slug_available slug' (org_id org)) (\<lambda>_.
     bindE uuid4 (\<lambda>i.
     bindE (modifies (registration_requests_update (\<lambda>rows. rows @ [req i (org_id org)]))) (\<lambda>_.
     if lower (str_or (Some (stg_workflow_mode S)) ''inline'') = ''temporal''
     then bindE commit (\<lambda>_.
          catch
            (bindE (of_reply (start [(''request_id'', JUuid i),
                                     (''requester_principal_id'', JUuid requester_principal)])) (\<lambda>_.
             ret (org_result i ''processing'' (org_id org) 15000 None None)))
            (recorded_failure text (req i (org_id org)) (org_id org)))
     else guarded_pipeline K text (req i (org_id org)) org requester_user requester_principal))))))"

definition run_for_request ::
  "keycloak \<Rightarrow> (error \<Rightarrow> string) \<Rightarrow> uuid \<Rightarrow> uuid \<Rightarrow> org_register_result op"
where
  "run_for_request K text request_id requester_principal =
     bindE (reads (\<lambda>d. get_row orr_id request_id (registration_requests d))) (\<lambda>found.
     bindE (the_or found (NotFoundError ''request not found'')) (\<lambda>req.
     if orr_status req = ''completed''
     then ret (org_result (orr_id req) ''completed'' (orr_org_id req) 0 (orr_keycloak_realm_ref req) None)
     else bindE (reads (\<lambda>d. get_row org_id (orr_org_id req) (organizations d))) (\<lambda>found_org.
          bindE (the_or found_org (NotFoundError ''organization not found'')) (\<lambda>org.
          guarded_pipeline K text req org (orr_requester_user_id req) requester_principal))))"

definition upgrade_status :: "uuid \<Rightarrow> uuid \<Rightarrow> org_register_result op" where
  "upgrade_status request_id requester_user =
     bindE (reads (\<lambda>d. get_row orr_id request_id (registration_requests d))) (\<lambda>found.
     bindE (the_or found (NotFoundError ''request not found'')) (\<lambda>req.
     bindE (raise_if (orr_requester_user_id req \<noteq> requester_user) (ForbiddenError ''not the request owner'')) (\<lambda>_.
     ret (org_result (orr_id req) (orr_status req) (orr_org_id req)
            (if orr_status req \<noteq> ''processing'' then 0 else 15000) (orr_keycloak_realm_ref req)
            (orr_error_message req)))))"

end
