(* ===== verification/Upgrade_Properties.thy ===== *)
theory Upgrade_Properties
  imports Invariants Org_Upgrade Session_Properties
begin

section \<open>The upgrade is all or nothing\<close>

text \<open>
  An upgrade run in the request either happens as a whole (the organization, its realm, a tenant with its first
  administrator and the completed request) or leaves nothing behind but the request, recorded as failed.
\<close>

abbreviation upgrade_tables ::
  "database \<Rightarrow> organization_row list \<times> tenant_row list \<times> tenant_membership_row list \<times> principal_role_row list
     \<times> registration_request_row list"
where
  "upgrade_tables d \<equiv> (organizations d, tenants d, tenant_memberships d, principal_roles d, registration_requests d)"

lemma reads_only_upgrade [reads_only_intros]: "reads_only (of_reply r)" "reads_only (only_row rows)"
  unfolding of_reply_def only_row_def by (auto intro!: reads_only_intros split: sum.split)

lemma keeps_disk_upgrade: "keeps (disk_is d) (run_pipeline K req org u p)"
  unfolding run_pipeline_def Let_def ensure_org_realm_def update_request_def
    seed_tenant_system_roles_def seed_permission_catalog_def upsert_permission_def
    get_or_create_tenant_role_def get_or_create_role_def seed_link_def ensure_role_permission_def
  by (rule keeps_intros reads_only_upgrade reads_only_keeps | (simp; fail))+

lemma keeps_view:
  "(\<And>d. p (f d) = p d) \<Longrightarrow> keeps (\<lambda>w. p (db w) = x) (modifies f)" "keeps (\<lambda>w. p (db w) = x) uuid4"
  by (auto simp: keeps_def run_simps)

lemma keeps_upgrade_tables:
  "keeps (\<lambda>w. upgrade_tables (db w) = x) (seed_tenant_system_roles t)"
  "keeps (\<lambda>w. upgrade_tables (db w) = x) (ensure_org_realm s r i)"
  unfolding ensure_org_realm_def Let_def
    seed_tenant_system_roles_def seed_permission_catalog_def upsert_permission_def
    get_or_create_tenant_role_def get_or_create_role_def seed_link_def ensure_role_permission_def
  by (rule keeps_view [of upgrade_tables] keeps_intros reads_only_keeps | (simp; fail))+

lemma seed_leaves:
  assumes "seed_tenant_system_roles t w = (Inr x, w')"
  shows "upgrade_tables (db w') = upgrade_tables (db w)"
  using keepsD [OF keeps_upgrade_tables(1) refl assms] .

lemma realm_leaves:
  assumes "ensure_org_realm s r i w = (Inr x, w')"
  shows "upgrade_tables (db w') = upgrade_tables (db w)"
  using keepsD [OF keeps_upgrade_tables(2) refl assms] .

lemma only_row_ok: "only_row rows w = (Inr r, w') \<Longrightarrow> rows = [r]"
  by (auto simp: only_row_def ok_iff)

lemma filter_single: "filter P xs = [r] \<Longrightarrow> r \<in> set xs \<and> P r"
  by (auto simp: filter_eq_Cons_iff)

lemma run_pipeline_okD:
  assumes "run_pipeline K req org u p w = (Inr x, w')"
  shows "\<exists>now tenant tm b role. x = org_result (orr_id req) ''completed'' (org_id org) 0 (Some (orr_slug req)) None
    \<and> role \<in> set (roles (db w')) \<and> rol_tenant_id role = Some tenant \<and> rol_name role = ''tenant-admin''
    \<and> organizations (db w') = upd_row org_id (org_id org) (upgraded_org req) (organizations (db w))
    \<and> tenants (db w') = tenants (db w) @ [new_tenant tenant now (org_id org) (orr_name req @ '' default'') (orr_slug req @ ''-default'')]
    \<and> tenant_memberships (db w') = tenant_memberships (db w) @ [new_tenant_membership tm tenant u]
    \<and> principal_roles (db w') = principal_roles (db w) @ [tenant_binding b now p (rol_id role) tenant (Some p) None]
    \<and> registration_requests (db w') = upd_row orr_id (orr_id req) (completed_request now) (registration_requests (db w))"
  using assms
  apply (simp only: run_pipeline_def Let_def step_ok step_ok_reads_only [OF reads_only_upgrade(1)] step_ok_reads_only [OF reads_only_upgrade(2)]
      step_ok_bind [of "ensure_org_realm _ _ _"] step_ok_bind [of "seed_tenant_system_roles _"] update_request_def)
  apply (elim exE conjE)
  apply (drule realm_leaves, drule seed_leaves, drule only_row_ok, drule filter_single)
  apply (elim conjE)
  apply hypsubst
  apply (intro exI conjI)
  apply (rule refl)
  apply simp
  apply simp_all
  done

subsection \<open>The guarded pipeline\<close>

lemma mark_failed_run:
  assumes "get_row orr_id (orr_id req) (registration_requests (db w)) = None"
  shows "mark_failed req err w =
    (let d = registration_requests_update (\<lambda>rows. rows @ [failed_request (clock w) err (req\<lparr>orr_keycloak_realm_ref := None\<rparr>)]) (db w)
     in (Inr (), w\<lparr>db := d, disk := d\<rparr>))"
  using assms by (simp add: mark_failed_def run_simps Let_def)

lemma guarded_run:
  assumes "run_pipeline K req org u p w = (q, w1)"
  shows "guarded_pipeline K text req org u p w = (case q of
      Inr res \<Rightarrow> (Inr res, w1\<lparr>disk := db w1\<rparr>)
    | Inl e \<Rightarrow> if is_unavailable e then (Inl e, w1\<lparr>db := disk w1\<rparr>)
        else recorded_failure text req (org_id org) e (w1\<lparr>db := disk w1\<rparr>))"
  using assms by (simp add: guarded_pipeline_def catch_def bindE_run commit_run rollback_run raise_run ret_run split: sum.split)

lemma guarded_cases:
  assumes fresh: "get_row orr_id (orr_id req) (registration_requests (disk w)) = None"
    and run: "guarded_pipeline K text req org u p w = (r, w')"
  shows "(\<exists>res w1. r = Inr res \<and> run_pipeline K req org u p w = (Inr res, w1) \<and> db w' = db w1 \<and> disk w' = db w1)
    \<or> (\<exists>e. r = Inr (org_result (orr_id req) ''failed'' (org_id org) 0 None (Some (take 500 (error_text text e))))
        \<and> (\<exists>now. disk w' = registration_requests_update
             (\<lambda>rows. rows @ [failed_request now (error_text text e) (req\<lparr>orr_keycloak_realm_ref := None\<rparr>)]) (disk w)))
    \<or> (\<exists>e. r = Inl e \<and> disk w' = disk w)"
proof -
  obtain q w1 where q: "run_pipeline K req org u p w = (q, w1)" by fastforce
  have d: "disk w1 = disk w" by (rule disk_isD [OF keeps_disk_upgrade q])
  note g = run [unfolded guarded_run [OF q]]
  show ?thesis
  proof (cases q)
    case (Inr res)
    with g have "r = Inr res" "w' = w1\<lparr>disk := db w1\<rparr>" by simp_all
    with q Inr show ?thesis by (intro disjI1 exI conjI) simp_all
  next
    case (Inl e)
    show ?thesis
    proof (cases "is_unavailable e")
      case True
      with g Inl have "r = Inl e" "disk w' = disk w1" by auto
      with d show ?thesis by (intro disjI2 exI conjI) simp_all
    next
      case False
      have "get_row orr_id (orr_id req) (registration_requests (db (w1\<lparr>db := disk w1\<rparr>))) = None" using fresh d by simp
      note failed = mark_failed_run [OF this, of "error_text text e", unfolded Let_def]
      from g Inl False have "recorded_failure text req (org_id org) e (w1\<lparr>db := disk w1\<rparr>) = (r, w')" by simp
      then have "r = Inr (org_result (orr_id req) ''failed'' (org_id org) 0 None (Some (take 500 (error_text text e))))
        \<and> disk w' = registration_requests_update (\<lambda>rows. rows @ [failed_request (clock w1) (error_text text e)
             (req\<lparr>orr_keycloak_realm_ref := None\<rparr>)]) (disk w)"
        unfolding recorded_failure_def bindE_run failed by (auto simp: ret_run d)
      then show ?thesis by blast
    qed
  qed
qed

lemma reads_only_at: "reads_only m \<Longrightarrow> m w = (fst (m w), w)"
  using reads_onlyD [of m w "fst (m w)" "snd (m w)"] by (cases "m w") simp

lemma reads_only_submit [reads_only_intros]:
  "reads_only (check_registration a b c d e)" "reads_only (owned_individual_org u)" "reads_only (assert_slug_available s i)"
  unfolding check_registration_def owned_individual_org_def assert_slug_available_def
  by (intro reads_only_intros)+

definition upgrade_request :: "uuid \<Rightarrow> uuid \<Rightarrow> uuid \<Rightarrow> string \<Rightarrow> string \<Rightarrow> string \<Rightarrow> string \<Rightarrow> string \<Rightarrow> registration_request_row" where
  "upgrade_request i org user name slug contact_name contact_email country =
     \<lparr>orr_id = i, orr_org_id = org, orr_requester_user_id = user,
      orr_name = strip name, orr_slug = lower (strip slug), orr_contact_name = strip contact_name,
      orr_contact_email = lower (strip contact_email), orr_country = upper (strip country),
      orr_status = ''processing'', orr_keycloak_realm_ref = None, orr_error_message = None, orr_completed_at = None\<rparr>"

lemma owned_individual_ok:
  assumes "owned_individual_org u w = (Inr org, w')"
  shows "org \<in> set (organizations (db w)) \<and> org_type org = ''individual''"
  using assms by (auto simp: owned_individual_org_def ok_iff dest!: first_row_Some)

lemma submit_cases:
  assumes inline: "lower (str_or (Some (stg_workflow_mode S)) ''inline'') \<noteq> ''temporal''"
    and run: "submit S K text start u p name slug cn ce country w = (r, w')"
  shows "(\<exists>e. r = Inl e \<and> disk w' = disk w)
    \<or> (\<exists>org. org \<in> set (organizations (db w)) \<and> org_type org = ''individual''
         \<and> (let req = upgrade_request (next_uuid w) (org_id org) u name slug cn ce country in
            guarded_pipeline K text req org u p (w\<lparr>next_uuid := Suc (next_uuid w),
              db := registration_requests_update (\<lambda>rows. rows @ [req]) (db w)\<rparr>) = (r, w')))"
proof -
  note run' = run [unfolded submit_def Let_def if_not_P [OF inline]]
  let ?c = "check_registration (strip name) (lower (strip slug)) (strip cn) (lower (strip ce)) (upper (strip country))"
  note at = reads_only_at [OF reads_only_submit(1), of "strip name" "lower (strip slug)" "strip cn" "lower (strip ce)" "upper (strip country)" w]
    reads_only_at [OF reads_only_submit(2), of u w]
    reads_only_at [OF reads_only_submit(3), of "lower (strip slug)" _ w]
  show ?thesis
  proof (cases "fst (?c w)")
    case (Inl e)
    with at(1) have "?c w = (Inl e, w)" by simp
    with run' show ?thesis by (auto simp: bindE_run)
  next
    case (Inr x1)
    with at(1) have c: "?c w = (Inr x1, w)" by simp
    show ?thesis
    proof (cases "fst (owned_individual_org u w)")
      case (Inl e)
      with at(2) have "owned_individual_org u w = (Inl e, w)" by simp
      with run' c show ?thesis by (auto simp: bindE_run)
    next
      case (Inr org)
      with at(2) have o: "owned_individual_org u w = (Inr org, w)" by simp
      show ?thesis
      proof (cases "fst (assert_slug_available (lower (strip slug)) (org_id org) w)")
        case (Inl e)
        with at(3) [of "org_id org"] have "assert_slug_available (lower (strip slug)) (org_id org) w = (Inl e, w)" by simp
        with run' c o show ?thesis by (auto simp: bindE_run)
      next
        case (Inr x3)
        with at(3) [of "org_id org"] have "assert_slug_available (lower (strip slug)) (org_id org) w = (Inr x3, w)" by simp
        with run' c o owned_individual_ok [OF o] show ?thesis
          by (simp add: bindE_run uuid4_run modifies_run upgrade_request_def Let_def) blast
      qed
    qed
  qed
qed

subsection \<open>All or nothing\<close>

text \<open>The organization after the upgrade, as the form asks for it, and the tables of a finished upgrade.\<close>

definition upgraded ::
  "database \<Rightarrow> database \<Rightarrow> org_register_result \<Rightarrow> uuid \<Rightarrow> uuid \<Rightarrow> string \<Rightarrow> string \<Rightarrow> bool"
where
  "upgraded d d' res user prin name slug \<longleftrightarrow>
     (\<exists>org \<in> set (organizations d). org_type org = ''individual'' \<and> org_id org = org_request_org_id res
        \<and> organizations d' = upd_row org_id (org_id org) (\<lambda>o'. o'\<lparr>org_name := name, org_slug := slug,
             org_type := ''organization'', org_keycloak_realm_ref := Some slug, org_status := ''active''\<rparr>) (organizations d)
        \<and> (\<exists>tenant m b role. tenants d' = tenants d @ [tenant] \<and> ten_organization_id tenant = org_id org
             \<and> tenant_memberships d' = tenant_memberships d @ [m] \<and> tmb_tenant_id m = ten_id tenant \<and> tmb_user_id m = user
             \<and> role \<in> set (roles d') \<and> rol_name role = ''tenant-admin'' \<and> rol_tenant_id role = Some (ten_id tenant)
             \<and> principal_roles d' = principal_roles d @ [b] \<and> prl_role_id b = rol_id role
             \<and> prl_principal_id b = prin \<and> prl_tenant_id b = Some (ten_id tenant) \<and> prl_status b = ''active''))
     \<and> (\<exists>row \<in> set (registration_requests d'). orr_id row = org_request_id res \<and> orr_status row = ''completed'')"

lemma upgraded_pipeline:
  assumes run: "run_pipeline K (upgrade_request i (org_id org) u name slug cn ce country) org u p
      (w\<lparr>next_uuid := n, db := registration_requests_update (\<lambda>rows. rows @
         [upgrade_request i (org_id org) u name slug cn ce country]) (db w)\<rparr>) = (Inr res, w')"
    and org: "org \<in> set (organizations (db w))" "org_type org = ''individual''"
  shows "org_request_status res = ''completed'' \<and> upgraded (db w) (db w') res u p (strip name) (lower (strip slug))"
proof -
  let ?req = "upgrade_request i (org_id org) u name slug cn ce country"
  from run_pipeline_okD [OF run] obtain now tenant tm b role where
    x: "res = org_result i ''completed'' (org_id org) 0 (Some (lower (strip slug))) None"
    and role: "role \<in> set (roles (db w'))" "rol_tenant_id role = Some tenant" "rol_name role = ''tenant-admin''"
    and o': "organizations (db w') = upd_row org_id (org_id org) (upgraded_org ?req) (organizations (db w))"
    and t: "tenants (db w') = tenants (db w) @
        [new_tenant tenant now (org_id org) (strip name @ '' default'') (lower (strip slug) @ ''-default'')]"
    and m: "tenant_memberships (db w') = tenant_memberships (db w) @ [new_tenant_membership tm tenant u]"
    and b: "principal_roles (db w') = principal_roles (db w) @ [tenant_binding b now p (rol_id role) tenant (Some p) None]"
    and r: "registration_requests (db w') = upd_row orr_id i (completed_request now) (registration_requests (db w) @ [?req])"
    by (auto simp: upgrade_request_def)
  have "completed_request now ?req \<in> set (registration_requests (db w'))"
    unfolding r set_upd_row by (intro bexI [of _ ?req]) (simp_all add: upgrade_request_def)
  then have "\<exists>row \<in> set (registration_requests (db w')). orr_id row = org_request_id res \<and> orr_status row = ''completed''"
    by (rule rev_bexI) (simp add: x org_result_def completed_request_def upgrade_request_def)
  moreover have "organizations (db w') = upd_row org_id (org_id org) (\<lambda>o'. o'\<lparr>org_name := strip name, org_slug := lower (strip slug),
      org_type := ''organization'', org_keycloak_realm_ref := Some (lower (strip slug)), org_status := ''active''\<rparr>) (organizations (db w))"
    unfolding o' by (rule arg_cong [where f = "\<lambda>f. upd_row org_id (org_id org) f _"])
       (simp add: upgraded_org_def upgrade_request_def fun_eq_iff)
  moreover have "org_id org = org_request_org_id res" "org_request_status res = ''completed''"
    by (simp_all add: x org_result_def)
  ultimately show ?thesis
    unfolding upgraded_def using org t m b role
    by (auto simp: new_tenant_def new_tenant_membership_def tenant_binding_def intro!: bexI [of _ org] exI [of _ role])
qed

text \<open>
  C16. An upgrade in the request is all or nothing. It completes with the organization, its tenant, the membership and
  the administrator of the tenant stored together; or it fails and stores nothing but the request, with the error it
  answers; or it is refused and stores nothing.
\<close>

theorem upgrade_all_or_nothing:
  assumes "lower (str_or (Some (stg_workflow_mode S)) ''inline'') \<noteq> ''temporal''"
    and "disk w = db w" and "\<forall>row \<in> set (registration_requests (db w)). orr_id row < next_uuid w"
    and "request (submit S K text start u p name slug cn ce country) w = (r, w')"
  shows "case r of
      Inl e \<Rightarrow> db w' = db w
    | Inr res \<Rightarrow>
        if org_request_status res = ''completed'' then upgraded (db w) (db w') res u p (strip name) (lower (strip slug))
        else \<exists>row. db w' = (db w)\<lparr>registration_requests := registration_requests (db w) @ [row]\<rparr>
               \<and> orr_id row = org_request_id res \<and> orr_status row = ''failed'' \<and> org_request_status res = ''failed''
               \<and> orr_error_message row = org_error_message res"
proof -
  from assms(4) obtain w1 where run: "submit S K text start u p name slug cn ce country w = (r, w1)" and w': "db w' = disk w1"
    by (auto simp: request_run split: prod.splits)
  from submit_cases [OF assms(1) run] show ?thesis
  proof (elim disjE exE conjE)
    fix e assume "r = Inl e" "disk w1 = disk w"
    then show ?thesis by (simp add: w' assms(2))
  next
    fix org assume org: "org \<in> set (organizations (db w))" "org_type org = ''individual''"
      and g: "let req = upgrade_request (next_uuid w) (org_id org) u name slug cn ce country in
            guarded_pipeline K text req org u p (w\<lparr>next_uuid := Suc (next_uuid w),
              db := registration_requests_update (\<lambda>rows. rows @ [req]) (db w)\<rparr>) = (r, w1)"
    let ?req = "upgrade_request (next_uuid w) (org_id org) u name slug cn ce country"
    let ?w = "w\<lparr>next_uuid := Suc (next_uuid w), db := registration_requests_update (\<lambda>rows. rows @ [?req]) (db w)\<rparr>"
    have fresh: "get_row orr_id (orr_id ?req) (registration_requests (disk ?w)) = None"
      using assms(2,3) by (auto simp: upgrade_request_def get_row_None)
    from guarded_cases [OF fresh g [unfolded Let_def]] show ?thesis
    proof (elim disjE exE conjE)
      fix res w2 assume "r = Inr res" "run_pipeline K ?req org u p ?w = (Inr res, w2)" "disk w1 = db w2"
      with upgraded_pipeline [OF _ org] show ?thesis by (simp add: w')
    next
      fix e now assume r: "r = Inr (org_result (orr_id ?req) ''failed'' (org_id org) 0 None (Some (take 500 (error_text text e))))"
        and d: "disk w1 = registration_requests_update
             (\<lambda>rows. rows @ [failed_request now (error_text text e) (?req\<lparr>orr_keycloak_realm_ref := None\<rparr>)]) (disk ?w)"
      let ?row = "failed_request now (error_text text e) (?req\<lparr>orr_keycloak_realm_ref := None\<rparr>)"
      have "db w' = (db w)\<lparr>registration_requests := registration_requests (db w) @ [?row]\<rparr>"
        using d assms(2) by (cases "db w") (simp add: w')
      then show ?thesis
        by (auto simp: r org_result_def failed_request_def upgrade_request_def)
    next
      fix e assume "r = Inl e" "disk w1 = disk ?w"
      then show ?thesis by (simp add: w' assms(2))
    qed
  qed
qed

subsection \<open>On a concrete world\<close>

definition sample_submit :: "keycloak \<Rightarrow> org_register_result op" where
  "sample_submit K = submit sample_settings K (\<lambda>_. ''error'') (\<lambda>_. Inr ()) 11 1 ''Acme'' ''zeta'' ''Al'' ''a@b'' ''in''"

lemma sample_submit_failed:
  "case request (sample_submit (sample_keycloak\<lparr>kc_create_realm := (\<lambda>_. Inl (ValueError ''down''))\<rparr>)) sample_world of
     (Inl _, _) \<Rightarrow> False | (Inr res, _) \<Rightarrow> org_request_status res = ''failed''"
  by code_simp

theorem upgrade_all_or_nothing_witness:
  "(\<exists>res w' row. request (sample_submit (sample_keycloak\<lparr>kc_create_realm := (\<lambda>_. Inl (ValueError ''down''))\<rparr>)) sample_world
        = (Inr res, w') \<and> db w' = sample_db\<lparr>registration_requests := [row]\<rparr> \<and> orr_status row = ''failed'')"
proof -
  have a: "lower (str_or (Some (stg_workflow_mode sample_settings)) ''inline'') \<noteq> ''temporal''"
    by code_simp
  have none: "registration_requests sample_db = []" by code_simp
  have w: "disk sample_world = db sample_world"
    "\<forall>row \<in> set (registration_requests (db sample_world)). orr_id row < next_uuid sample_world"
    by (simp_all add: none)
  note use = upgrade_all_or_nothing [OF a w]
  obtain res' w2 where e': "request (sample_submit (sample_keycloak\<lparr>kc_create_realm := (\<lambda>_. Inl (ValueError ''down''))\<rparr>)) sample_world
      = (Inr res', w2)" and failed: "org_request_status res' = ''failed''"
    using sample_submit_failed by (auto split: prod.splits sum.splits)
  from use [OF e' [unfolded sample_submit_def]] failed e' none show ?thesis by auto
qed

end
