(* ===== verification/Team_Properties.thy ===== *)
theory Team_Properties
  imports Invariants Session_Properties
begin

section \<open>The super administrator of the platform\<close>

text \<open>
  The platform team has one super administrator at any time, an active member with an account. The role moves
  only by a transfer from the one that has it.
\<close>

definition team_led :: "uuid \<Rightarrow> team_member_row list \<Rightarrow> bool" where
  "team_led s rows \<longleftrightarrow>
     (\<forall>m \<in> set rows. tmm_platform_role m = ''super_admin'' \<longleftrightarrow> tmm_id m = s)
     \<and> (\<exists>m \<in> set rows. tmm_id m = s \<and> tmm_status m = ''active'' \<and> tmm_user_id m \<noteq> None)"

definition team_hist :: "uuid \<Rightarrow> uuid \<Rightarrow> database \<Rightarrow> bool" where
  "team_hist s n d \<longleftrightarrow>
     distinct (map tmm_id (team_members d)) \<and> (\<forall>m \<in> set (team_members d). tmm_id m < n) \<and> team_led s (team_members d)"

definition team_typed :: "uuid \<Rightarrow> database \<Rightarrow> bool" where
  "team_typed n d \<longleftrightarrow> (\<exists>s. team_hist s n d)"

lemma team_hist_mono: "supply_mono (team_hist s)"
  by (auto simp: supply_mono_def team_hist_def intro: less_le_trans)

lemma team_typed_mono: "supply_mono team_typed"
  unfolding supply_mono_def team_typed_def by (meson supply_monoD [OF team_hist_mono])

lemma team_hist_same: "team_members d' = team_members d \<Longrightarrow> team_hist s n d' \<longleftrightarrow> team_hist s n d"
  by (simp add: team_hist_def)

lemma team_blind: "log_blind (team_hist s)" "log_blind team_typed"
  by (simp_all add: log_blind_def team_hist_def team_typed_def)

lemma team_hist_upd:
  assumes J: "team_hist s n d" and d': "team_members d' = upd_row tmm_id i f (team_members d)"
    and id: "\<And>m. tmm_id (f m) = tmm_id m"
    and role: "\<And>m. tmm_platform_role (f m) = ''super_admin'' \<longleftrightarrow> tmm_platform_role m = ''super_admin''"
    and act: "\<And>m. i = s \<Longrightarrow> tmm_status m = ''active'' \<Longrightarrow> tmm_user_id m \<noteq> None
      \<Longrightarrow> tmm_status (f m) = ''active'' \<and> tmm_user_id (f m) \<noteq> None"
  shows "team_hist s n d'"
proof -
  have rows: "x \<in> set (team_members d') \<longleftrightarrow> (\<exists>m \<in> set (team_members d). x = (if tmm_id m = i then f m else m))" for x
    by (simp add: d' set_upd_row)
  from J obtain m where m: "m \<in> set (team_members d)" "tmm_id m = s" "tmm_status m = ''active''" "tmm_user_id m \<noteq> None"
    by (auto simp: team_hist_def team_led_def)
  have "(if tmm_id m = i then f m else m) \<in> set (team_members d')" using m(1) rows by blast
  then have "\<exists>x \<in> set (team_members d'). tmm_id x = s \<and> tmm_status x = ''active'' \<and> tmm_user_id x \<noteq> None"
    by (rule rev_bexI) (use m act [of m] in \<open>auto simp: id\<close>)
  moreover have "tmm_platform_role x = ''super_admin'' \<longleftrightarrow> tmm_id x = s" if "x \<in> set (team_members d')" for x
    using that J by (auto simp: rows team_hist_def team_led_def id role)
  moreover have "tmm_id x < n" if "x \<in> set (team_members d')" for x
    using that J by (auto simp: rows team_hist_def id)
  moreover have "distinct (map tmm_id (team_members d'))" using J by (simp add: d' team_hist_def id)
  ultimately show ?thesis unfolding team_hist_def team_led_def by blast
qed

lemma team_hist_insert:
  assumes "team_hist s n d" and "team_members d' = team_members d @ [m]"
    and "n \<le> tmm_id m" and "tmm_id m < k" and "tmm_platform_role m \<noteq> ''super_admin''" and "n \<le> k"
  shows "team_hist s k d'"
proof -
  have "tmm_id m \<noteq> s" using assms(1,3) by (auto simp: team_hist_def team_led_def)
  moreover have "distinct (map tmm_id (team_members d'))" using assms(1-3) by (force simp: team_hist_def)
  ultimately show ?thesis using assms by (auto simp: team_hist_def team_led_def)
qed

subsection \<open>The operations\<close>

lemma keeps_team_upd:
  assumes "\<And>m. tmm_id (f m) = tmm_id m"
    and "\<And>m. tmm_platform_role (f m) = tmm_platform_role m"
    and "\<And>m. tmm_status m = ''active'' \<Longrightarrow> tmm_user_id m \<noteq> None \<Longrightarrow> tmm_status (f m) = ''active'' \<and> tmm_user_id (f m) \<noteq> None"
  shows "keeps (both (team_hist s)) (update_member i f)"
  unfolding update_member_def
  by (rule keeps_both_modifies, rule team_hist_upd [where i = i and f = f], assumption) (simp_all add: assms)

lemma keeps_team_basic:
  "keeps (both (team_hist s)) uuid4"
  "keeps (both (team_hist s)) (audit a u t p)"
  "keeps (both (team_hist s)) (ops_audit a c p)"
  "keeps (both (team_hist s)) (modifies (sessions_update g1))"
  "keeps (both (team_hist s)) (modifies (org_memberships_update g2))"
  "keeps (both (team_hist s)) (modifies (organizations_update g3))"
  unfolding ops_audit_def
  by (rule keeps_both_uuid4 keeps_both_audit keeps_both_modifies team_hist_mono | simp add: team_hist_def)+

lemmas team_intros = keeps_team_basic keeps_intros reads_only_keeps

lemma keeps_team_other:
  "keeps (both (team_hist s)) (revoke_user_sessions u)"
  "keeps (both (team_hist s)) (ensure_operator_org_membership u)"
  unfolding revoke_user_sessions_def ensure_operator_org_membership_def
  by (rule team_intros | (simp; fail))+

lemma joined_member_simps [simp]:
  "tmm_id (joined_member now u m) = tmm_id m" "tmm_platform_role (joined_member now u m) = tmm_platform_role m"
  by (simp_all add: joined_member_def Let_def)

lemma keeps_team_upsert:
  assumes "role \<noteq> ''super_admin''"
  shows "keeps (both (team_hist s)) (upsert_operator_team_member e u role i st)"
proof -
  have upd: "keeps (both (team_hist s)) (update_member k (joined_member now u))" for k now
    by (rule keeps_team_upd) (simp_all add: joined_member_def Let_def)
  have new: "keeps (both (team_hist s)) (bindE uuid4 (\<lambda>i. bindE (modifies (team_members_update (\<lambda>rows. rows @ [row i])))
      (\<lambda>_. ret (row i))))" if "\<And>i. tmm_id (row i) = i" "\<And>i. tmm_platform_role (row i) = role" for row
  proof -
    have "team_hist s (Suc n) (team_members_update (\<lambda>rows. rows @ [row n]) d)" if "team_hist s n d" for n d
      by (rule team_hist_insert [OF that, of _ "row n"]) (simp_all add: \<open>\<And>i. tmm_id (row i) = i\<close>
          \<open>\<And>i. tmm_platform_role (row i) = role\<close> assms)
    moreover have "team_hist s (Suc n) d" if "team_hist s n d" for n d
      by (rule supply_monoD [OF team_hist_mono that]) simp
    ultimately show ?thesis by (auto simp: keeps_def both_def run_simps)
  qed
  show ?thesis
    unfolding upsert_operator_team_member_def Let_def
    by (rule upd new team_intros | (simp; fail))+
qed

lemma reads_only_caller_row [reads_only_intros]: "reads_only (caller_team_row c)"
  unfolding caller_team_row_def by (intro reads_only_intros)

lemma keeps_after_raise_if: "(\<not> b \<Longrightarrow> keeps I (f ())) \<Longrightarrow> keeps I (bindE (raise_if b e) f)"
  by (cases b) (auto simp: keeps_def run_simps)

lemma keeps_promote_orgs: "keeps (both (team_hist s)) (promote_orgs os)"
  unfolding promote_orgs_def by (rule team_intros)

lemma preserved_team_calls:
  "preserved (team_hist s) (list_team c)"
  "preserved (team_hist s) (invite_team_member c e role why)"
  "preserved (team_hist s) (reactivate_team_member c i)"
  "preserved (team_hist s) (reset_team_mfa K c i)"
  "preserved (team_hist s) (promote_operator c u)"
proof -
  show "preserved (team_hist s) (list_team c)"
    unfolding list_team_def ensure_caller_team_row_def
    by (rule preserved_both, (rule keeps_team_upsert team_intros reads_only_checks | (simp; fail))+)
  show "preserved (team_hist s) (invite_team_member c e role why)"
    unfolding invite_team_member_def Let_def
    by (rule preserved_both, (rule keeps_after_raise_if keeps_team_upsert keeps_team_upd keeps_team_other team_intros reads_only_checks
        | (simp; fail))+)
  show "preserved (team_hist s) (reactivate_team_member c i)"
    unfolding reactivate_team_member_def
    by (rule preserved_both, (rule keeps_team_upd team_intros reads_only_checks reads_only_identity
        | (simp add: reactivated_member_def; fail))+)
  show "preserved (team_hist s) (reset_team_mfa K c i)"
    unfolding reset_team_mfa_def
    by (rule preserved_both, (rule keeps_team_upd keeps_team_other team_intros reads_only_checks reads_only_identity
        | (simp; fail))+)
  show "preserved (team_hist s) (promote_operator c u)"
    unfolding promote_operator_def
    by (rule preserved_both, (rule keeps_team_upsert keeps_promote_orgs team_intros reads_only_checks reads_only_identity
        | (simp; fail))+)
qed

lemma reads_only_password:
  "reads_only (catch (bindE (of_reply r) (\<lambda>_. ret ()))
      (\<lambda>e. case e of ValueError _ \<Rightarrow> raise (UnauthorizedError m) | _ \<Rightarrow> raise e))"
  by (auto simp: reads_only_def of_reply_def run_simps split: sum.split error.split)

lemma team_atomic:
  "atomic_but_log (update_team_role c i role)" "atomic_but_log (suspend_team_member c i)"
  "atomic_but_log (transfer_super_admin K c i pw)"
  "keeps (uuid_ge n) (update_team_role c i role)" "keeps (uuid_ge n) (suspend_team_member c i)"
  "keeps (uuid_ge n) (transfer_super_admin K c i pw)"
  unfolding update_team_role_def suspend_team_member_def transfer_super_admin_def update_member_def ops_audit_def
    revoke_user_sessions_def
  by (rule reads_only_keeps [OF reads_only_password] atomic_but_log_intros keeps_intros reads_only_caller_row reads_only_checks reads_only_identity reads_only_keeps
      | (simp; fail))+

lemma update_team_role_okD:
  assumes "update_team_role c i role w = (Inr x, w')"
  shows "\<exists>row. get_row tmm_id i (team_members (db w)) = Some row \<and> role \<noteq> ''super_admin''
     \<and> tmm_platform_role row \<noteq> ''super_admin''
     \<and> team_members (db w') = upd_row tmm_id i (\<lambda>m. m\<lparr>tmm_platform_role := role\<rparr>) (team_members (db w))
     \<and> disk w' = db w' \<and> next_uuid w \<le> next_uuid w'"
  using assms unfolding update_team_role_def require_team_member_def update_member_def ops_audit_def
  apply (simp only: step_ok)
  apply (elim exE conjE)
  apply (intro exI conjI)
  apply simp_all
  done

lemma suspend_team_member_okD:
  assumes "suspend_team_member c i w = (Inr x, w')"
  shows "\<exists>row. get_row tmm_id i (team_members (db w)) = Some row \<and> tmm_platform_role row \<noteq> ''super_admin''
     \<and> team_members (db w') = upd_row tmm_id i (\<lambda>m. m\<lparr>tmm_status := ''suspended''\<rparr>) (team_members (db w))
     \<and> disk w' = db w' \<and> next_uuid w \<le> next_uuid w'"
proof -
  have left: "team_members (db w2) = team_members (db w1) \<and> next_uuid w1 \<le> next_uuid w2"
    if "(case u of None \<Rightarrow> ret 0 | Some u \<Rightarrow> revoke_user_sessions u) w1 = (Inr k, w2)" for u w1 w2 k
    using that by (cases u) (auto simp: revoke_user_sessions_def run_simps)
  from assms show ?thesis
    unfolding suspend_team_member_def require_team_member_def update_member_def ops_audit_def
    apply (simp only: step_ok step_ok_bind [of "case_option _ _ _"])
    apply (elim exE conjE)
    apply (drule left)
    apply (intro exI conjI)
    apply simp_all
    done
qed

lemma transfer_okD:
  assumes "transfer_super_admin K c i pw w = (Inr x, w')"
  shows "\<exists>mine row. mine \<in> set (team_members (db w)) \<and> tmm_platform_role mine = ''super_admin''
     \<and> get_row tmm_id i (team_members (db w)) = Some row \<and> tmm_status row = ''active'' \<and> tmm_user_id row \<noteq> None
     \<and> team_members (db w') = upd_row tmm_id i (\<lambda>m. m\<lparr>tmm_platform_role := ''super_admin''\<rparr>)
          (upd_row tmm_id (tmm_id mine) (\<lambda>m. m\<lparr>tmm_platform_role := ''platform_admin''\<rparr>) (team_members (db w)))
     \<and> disk w' = db w' \<and> next_uuid w \<le> next_uuid w'"
proof -
  have caller: "m \<in> set (team_members (db w))" if "caller_team_row c w = (Inr z, w)" "z = Some m" for m z
  proof -
    from that obtain e where "filter (\<lambda>m. tmm_email m = e) (team_members (db w)) = [m]"
      by (auto simp: caller_team_row_def ok_iff split: option.split_asm)
    then have "m \<in> set (filter (\<lambda>m. tmm_email m = e) (team_members (db w)))" by simp
    then show ?thesis by simp
  qed
  from assms show ?thesis
    unfolding transfer_super_admin_def require_team_member_def update_member_def ops_audit_def
    apply (simp only: step_ok step_ok_reads_only [OF reads_only_caller_row] step_ok_reads_only [OF reads_only_identity(6)]
        step_ok_reads_only [OF reads_only_password] case_prod_beta the_or_checked_ok)
    apply (elim exE conjE)
    apply (drule (1) caller)
    apply (intro exI conjI)
    apply assumption
    apply simp_all
    done
qed

lemma preserved_role: "preserved (team_hist s) (update_team_role c i role)"
proof (rule preservedI [OF team_hist_mono team_blind(1) team_atomic(1,4)])
  fix w x w' assume J: "team_hist s (next_uuid w) (db w)" and run: "update_team_role c i role w = (Inr x, w')"
  from update_team_role_okD [OF run] obtain row where row: "get_row tmm_id i (team_members (db w)) = Some row"
    "role \<noteq> ''super_admin''" "tmm_platform_role row \<noteq> ''super_admin''"
    and t: "team_members (db w') = upd_row tmm_id i (\<lambda>m. m\<lparr>tmm_platform_role := role\<rparr>) (team_members (db w))"
    and d: "disk w' = db w'" "next_uuid w \<le> next_uuid w'" by blast
  from get_row_Some [OF row(1)] row J have i: "i \<noteq> s" by (auto simp: team_hist_def team_led_def)
  have "team_members (db w') = upd_row tmm_id i
      (\<lambda>m. if tmm_platform_role m = ''super_admin'' then m else m\<lparr>tmm_platform_role := role\<rparr>) (team_members (db w))"
    unfolding t upd_row_def
    by (rule map_cong) (use i J in \<open>auto simp: team_hist_def team_led_def\<close>)
  from team_hist_upd [OF J this] i row(2) have "team_hist s (next_uuid w) (db w')" by simp
  from supply_monoD [OF team_hist_mono this d(2)] show "team_hist s (next_uuid w') (disk w')" by (simp add: d(1))
qed

lemma preserved_suspend_member: "preserved (team_hist s) (suspend_team_member c i)"
proof (rule preservedI [OF team_hist_mono team_blind(1) team_atomic(2,5)])
  fix w x w' assume J: "team_hist s (next_uuid w) (db w)" and run: "suspend_team_member c i w = (Inr x, w')"
  from suspend_team_member_okD [OF run] obtain row where row: "get_row tmm_id i (team_members (db w)) = Some row"
    "tmm_platform_role row \<noteq> ''super_admin''"
    and t: "team_members (db w') = upd_row tmm_id i (\<lambda>m. m\<lparr>tmm_status := ''suspended''\<rparr>) (team_members (db w))"
    and d: "disk w' = db w'" "next_uuid w \<le> next_uuid w'" by blast
  from get_row_Some [OF row(1)] row J have "i \<noteq> s" by (auto simp: team_hist_def team_led_def)
  with team_hist_upd [OF J t] have "team_hist s (next_uuid w) (db w')" by simp
  from supply_monoD [OF team_hist_mono this d(2)] show "team_hist s (next_uuid w') (disk w')" by (simp add: d(1))
qed

lemma team_hist_transfer:
  assumes J: "team_hist s n d" and mine: "mine \<in> set (team_members d)" "tmm_platform_role mine = ''super_admin''"
    and row: "get_row tmm_id i (team_members d) = Some row" "tmm_status row = ''active''" "tmm_user_id row \<noteq> None"
    and d': "team_members d' = upd_row tmm_id i (\<lambda>m. m\<lparr>tmm_platform_role := ''super_admin''\<rparr>)
          (upd_row tmm_id (tmm_id mine) (\<lambda>m. m\<lparr>tmm_platform_role := ''platform_admin''\<rparr>) (team_members d))"
  shows "team_hist i n d'"
proof -
  have s: "tmm_id mine = s" using J mine by (simp add: team_hist_def team_led_def)
  let ?g = "\<lambda>m. m\<lparr>tmm_platform_role := if tmm_id m = i then ''super_admin''
      else if tmm_id m = s then ''platform_admin'' else tmm_platform_role m\<rparr>"
  have rows: "team_members d' = map ?g (team_members d)"
    by (simp add: d' upd_row_def s)
  have led: "tmm_platform_role m = ''super_admin'' \<longleftrightarrow> tmm_id m = s" if "m \<in> set (team_members d)" for m
    using J that by (simp add: team_hist_def team_led_def)
  have r: "row \<in> set (team_members d)" "tmm_id row = i" using get_row_Some [OF row(1)] by simp_all
  have "distinct (map tmm_id (team_members d'))" using J by (simp add: rows team_hist_def comp_def)
  moreover have "\<forall>m \<in> set (team_members d'). tmm_id m < n" using J by (simp add: rows team_hist_def)
  moreover have "\<forall>m \<in> set (team_members d'). tmm_platform_role m = ''super_admin'' \<longleftrightarrow> tmm_id m = i"
    by (auto simp: rows led)
  moreover have "\<exists>m \<in> set (team_members d'). tmm_id m = i \<and> tmm_status m = ''active'' \<and> tmm_user_id m \<noteq> None"
    unfolding rows using r row(2,3) by (intro bexI [of _ "?g row"]) auto
  ultimately show ?thesis by (simp add: team_hist_def team_led_def)
qed

lemma preserved_transfer: "preserved team_typed (transfer_super_admin K c i pw)"
proof (rule preservedI [OF team_typed_mono team_blind(2) team_atomic(3,6)])
  fix w x w' assume "team_typed (next_uuid w) (db w)" and run: "transfer_super_admin K c i pw w = (Inr x, w')"
  then obtain s where J: "team_hist s (next_uuid w) (db w)" by (auto simp: team_typed_def)
  from transfer_okD [OF run] obtain mine row where a: "mine \<in> set (team_members (db w))" "tmm_platform_role mine = ''super_admin''"
     "get_row tmm_id i (team_members (db w)) = Some row" "tmm_status row = ''active''" "tmm_user_id row \<noteq> None"
     "team_members (db w') = upd_row tmm_id i (\<lambda>m. m\<lparr>tmm_platform_role := ''super_admin''\<rparr>)
          (upd_row tmm_id (tmm_id mine) (\<lambda>m. m\<lparr>tmm_platform_role := ''platform_admin''\<rparr>) (team_members (db w)))"
    and d: "disk w' = db w'" "next_uuid w \<le> next_uuid w'" by blast
  from supply_monoD [OF team_hist_mono team_hist_transfer [OF J a] d(2)]
  show "team_typed (next_uuid w') (disk w')" by (auto simp: team_typed_def d(1))
qed

subsection \<open>Runs\<close>

datatype team_call =
    List_Team uuid
  | Invite_To_Team uuid string string string
  | Change_Team_Role uuid uuid string
  | Suspend_Team_Member uuid uuid
  | Reactivate_Team_Member uuid uuid
  | Reset_Team_Mfa uuid uuid
  | Transfer_Super_Admin uuid uuid string
  | Promote_Operator uuid uuid

fun answer_team :: "keycloak \<Rightarrow> team_call \<Rightarrow> unit op" where
  "answer_team K (List_Team c) = silent (list_team c)"
| "answer_team K (Invite_To_Team c e role why) = silent (invite_team_member c e role why)"
| "answer_team K (Change_Team_Role c i role) = silent (update_team_role c i role)"
| "answer_team K (Suspend_Team_Member c i) = silent (suspend_team_member c i)"
| "answer_team K (Reactivate_Team_Member c i) = silent (reactivate_team_member c i)"
| "answer_team K (Reset_Team_Mfa c i) = silent (reset_team_mfa K c i)"
| "answer_team K (Transfer_Super_Admin c i pw) = silent (transfer_super_admin K c i pw)"
| "answer_team K (Promote_Operator c u) = silent (promote_operator c u)"

inductive team_step :: "keycloak \<Rightarrow> world \<Rightarrow> world \<Rightarrow> bool" for K where
  call: "request (answer_team K c) w = (r, w') \<Longrightarrow> team_step K w w'"
| tick: "clock w \<le> t \<Longrightarrow> team_step K w (w\<lparr>clock := t\<rparr>)"
| other: "team_members d = team_members (db w) \<Longrightarrow> next_uuid w \<le> n
    \<Longrightarrow> team_step K w (w\<lparr>db := d, disk := d, next_uuid := n\<rparr>)"

lemma preserved_some:
  assumes "\<And>s. preserved (team_hist s) m"
  shows "preserved team_typed m"
  unfolding preserved_def team_typed_def by (meson preservedD [OF assms])

lemma answer_team_preserved: "preserved team_typed (answer_team K c)"
  by (cases c) (simp_all add: preserved_silent preserved_transfer
      preserved_some preserved_team_calls preserved_role preserved_suspend_member)

lemma team_typed_step:
  assumes "team_step K w w'" and "disk w = db w \<and> team_typed (next_uuid w) (db w)"
  shows "disk w' = db w' \<and> team_typed (next_uuid w') (db w')"
  using assms(1)
proof cases
  case (call c r)
  from preservedD [OF answer_team_preserved _ _ call] assms(2) show ?thesis by blast
next
  case (tick t)
  with assms(2) show ?thesis by simp
next
  case (other d n)
  have "team_typed (next_uuid w) d" using assms(2) team_hist_same [OF other(2)] by (auto simp: team_typed_def)
  from supply_monoD [OF team_typed_mono this other(3)] show ?thesis by (simp add: other(1))
qed

interpretation team_runs: served_machine "team_step K" team_typed for K
  by unfold_locales (rule team_typed_step)

lemma led_by_one:
  assumes "distinct (map tmm_id rows)" and "team_led s rows"
  shows "\<exists>m. filter (\<lambda>m. tmm_platform_role m = ''super_admin'') rows = [m] \<and> tmm_status m = ''active'' \<and> tmm_user_id m \<noteq> None"
proof -
  let ?super = "filter (\<lambda>m. tmm_platform_role m = ''super_admin'') rows"
  have eq: "?super = filter (\<lambda>m. tmm_id m = s) rows"
    by (rule filter_cong) (use assms(2) in \<open>auto simp: team_led_def\<close>)
  from assms(2) obtain m where m: "m \<in> set rows" "tmm_id m = s" "tmm_status m = ''active''" "tmm_user_id m \<noteq> None"
    by (auto simp: team_led_def)
  have "length ?super \<le> 1" unfolding eq by (rule length_filter_unique [OF assms(1), THEN order_trans]) auto
  moreover have "m \<in> set ?super" using m eq by auto
  ultimately have "?super = [m]" by (cases ?super) auto
  with m show ?thesis by blast
qed

text \<open>
  C15. Over any run of the team operations the platform has exactly one super administrator, and it is an active
  member with an account.
\<close>

theorem one_super_admin:
  assumes "(team_step K)\<^sup>*\<^sup>* w w'" and "disk w = db w" and "team_typed (next_uuid w) (db w)"
  shows "\<exists>m. filter (\<lambda>m. tmm_platform_role m = ''super_admin'') (team_members (db w')) = [m]
    \<and> tmm_status m = ''active'' \<and> tmm_user_id m \<noteq> None"
proof -
  from team_runs.run_keeps [OF assms] have "team_typed (next_uuid w') (db w')" by blast
  then obtain s where "team_hist s (next_uuid w') (db w')" by (auto simp: team_typed_def)
  then show ?thesis using led_by_one by (auto simp: team_hist_def)
qed

lemma team_called: "team_step K w (snd (request (answer_team K c) w))"
  by (rule team_step.call) (rule prod.collapse [symmetric])

definition sample_team_member :: "uuid \<Rightarrow> uuid \<Rightarrow> string \<Rightarrow> string \<Rightarrow> team_member_row" where
  "sample_team_member i u email role =
     \<lparr>tmm_id = i, tmm_user_id = Some u, tmm_email = email, tmm_platform_role = role, tmm_status = ''active'',
      tmm_invited_by = None, tmm_invited_at = 0, tmm_activated_at = Some 0, tmm_mfa_enabled = False, tmm_invite_note = []\<rparr>"

definition team_world :: world where
  "team_world = world_of (sample_db\<lparr>team_members :=
     [sample_team_member 95 13 ''olga'' ''super_admin'', sample_team_member 96 12 ''bob'' ''support_agent'']\<rparr>)"

theorem one_super_admin_witness:
  "\<exists>m. filter (\<lambda>m. tmm_platform_role m = ''super_admin'')
     (team_members (db (snd (request (answer_team sample_keycloak (Suspend_Team_Member 13 96)) team_world)))) = [m]"
proof -
  have "team_hist 95 (next_uuid team_world) (db team_world)"
    by (simp add: team_hist_def team_led_def team_world_def sample_team_member_def)
  then have t: "team_typed (next_uuid team_world) (db team_world)" by (auto simp: team_typed_def)
  have d: "disk team_world = db team_world" by (simp add: team_world_def)
  from one_super_admin [OF r_into_rtranclp [of "team_step sample_keycloak", OF team_called] d t] show ?thesis by blast
qed

end
