(* ===== verification/Platform_Roles.thy ===== *)
theory Platform_Roles
  imports Role_Bindings Authz_Seed Commerce_Base
begin

section \<open>Platform role administration\<close>

text \<open>
  \<open>PlatformAdminRoleService\<close> of \<open>authz/application/platform_admin_roles.py\<close>: the permission catalog, the matrix of
  roles, the custom roles of a tenant and the bindings an operator grants and revokes. The codes of a new role
  are a set in the source; here they are a list without repetitions, and the check of the codes goes through it
  in that order.
\<close>

record permission_view =
  pmv_code :: string
  pmv_scope_type :: string
  pmv_description :: "string option"

record role_view =
  rlv_role_id :: "uuid option"
  rlv_name :: string
  rlv_scope_type :: string
  rlv_is_system_role :: bool
  rlv_tenant_id :: "uuid option"
  rlv_operator_org_id :: "uuid option"
  rlv_status :: string
  rlv_permission_codes :: "string list"

record binding_view =
  bdv_binding_id :: uuid
  bdv_principal_id :: uuid
  bdv_user_email :: "string option"
  bdv_role_id :: uuid
  bdv_role_name :: string
  bdv_scope_type :: string
  bdv_tenant_id :: "uuid option"
  bdv_tenant_name :: "string option"
  bdv_granted_by :: "uuid option"
  bdv_since :: instant
  bdv_status :: string

definition list_permissions :: "uuid \<Rightarrow> permission_view list op" where
  "list_permissions caller =
     bindE (require_platform_operator caller) (\<lambda>_.
     bindE seed_permission_catalog (\<lambda>_.
     reads (\<lambda>d. map (\<lambda>p. \<lparr>pmv_code = prm_code p, pmv_scope_type = prm_scope_type p,
                            pmv_description = prm_description p\<rparr>)
       (sort_key prm_code (filter (\<lambda>p. prm_status p = ''active'') (permissions d))))))"

subsection \<open>The matrix of roles\<close>

definition permission_codes_of :: "database \<Rightarrow> uuid \<Rightarrow> string list" where
  "permission_codes_of d role =
     sort_key (\<lambda>c. c) [prm_code p. p \<leftarrow> permissions d, l \<leftarrow> role_permissions d,
       rpm_permission_id l = prm_id p \<and> rpm_role_id l = role]"

definition role_view_of :: "database \<Rightarrow> role_row \<Rightarrow> role_view" where
  "role_view_of d r =
     \<lparr>rlv_role_id = Some (rol_id r), rlv_name = rol_name r, rlv_scope_type = rol_scope_type r,
      rlv_is_system_role = rol_is_system_role r, rlv_tenant_id = rol_tenant_id r,
      rlv_operator_org_id = rol_operator_org_id r, rlv_status = rol_status r,
      rlv_permission_codes = permission_codes_of d (rol_id r)\<rparr>"

definition template_view :: "string \<Rightarrow> string \<times> string list \<Rightarrow> role_view" where
  "template_view scope entry =
     \<lparr>rlv_role_id = None, rlv_name = fst entry, rlv_scope_type = scope, rlv_is_system_role = True,
      rlv_tenant_id = None, rlv_operator_org_id = None, rlv_status = ''template'',
      rlv_permission_codes = snd entry\<rparr>"

text \<open>\<open>dict.setdefault\<close> on the pair of scope and name: the first view of a pair stays.\<close>

definition set_default :: "role_view list \<Rightarrow> role_view \<Rightarrow> role_view list" where
  "set_default views v =
     (if \<exists>u \<in> set views. rlv_scope_type u = rlv_scope_type v \<and> rlv_name u = rlv_name v then views
      else views @ [v])"

definition list_all_roles :: "uuid \<Rightarrow> role_view list op" where
  "list_all_roles caller =
     bindE (require_platform_operator caller) (\<lambda>_.
     bindE seed_permission_catalog (\<lambda>_.
     reads (\<lambda>d.
       let views = map (role_view_of d) (sort_key (\<lambda>r. [rol_scope_type r, rol_name r])
                     (filter (\<lambda>r. rol_status r = ''active'') (roles d)))
       in foldl set_default []
            (filter rlv_is_system_role views
             @ map (template_view ''tenant'') tenant_system_role_permissions
             @ map (template_view ''platform'') platform_system_role_permissions)
          @ filter (\<lambda>v. \<not> rlv_is_system_role v) views)))"

text \<open>The two outer joins: a binding without a user or a tenant keeps its row.\<close>

definition outer_rows :: "('r \<Rightarrow> bool) \<Rightarrow> 'r list \<Rightarrow> 'r option list" where
  "outer_rows P rows = (case filter P rows of [] \<Rightarrow> [None] | found \<Rightarrow> map Some found)"

definition list_bindings :: "uuid \<Rightarrow> binding_view list op" where
  "list_bindings caller =
     bindE (require_platform_operator caller) (\<lambda>_.
     reads (\<lambda>d.
       map (\<lambda>(b, r, u, t).
         \<lparr>bdv_binding_id = prl_id b, bdv_principal_id = prl_principal_id b,
          bdv_user_email = map_option usr_email u, bdv_role_id = rol_id r, bdv_role_name = rol_name r,
          bdv_scope_type = prl_scope_type b, bdv_tenant_id = prl_tenant_id b,
          bdv_tenant_name = map_option ten_name t, bdv_granted_by = prl_assigned_by b,
          bdv_since = prl_valid_from b, bdv_status = prl_status b\<rparr>)
       (take 500 (sort_desc (\<lambda>(b, _). prl_created_at b)
         [(b, r, u, t). b \<leftarrow> principal_roles d, prl_status b = ''active'',
            r \<leftarrow> roles d, rol_id r = prl_role_id b,
            u \<leftarrow> outer_rows (\<lambda>u. usr_principal_id u = prl_principal_id b) (users d),
            t \<leftarrow> outer_rows (\<lambda>t. Some (ten_id t) = prl_tenant_id b) (tenants d)]))))"

subsection \<open>Custom roles\<close>

definition add_role_permissions :: "uuid \<Rightarrow> (string \<times> permission_row) list \<Rightarrow> string list \<Rightarrow> unit op" where
  "add_role_permissions role perms codes =
     for_each codes (\<lambda>code.
       bindE (the_or (map_of perms code) (ValidationError (''unknown permission: '' @ code))) (\<lambda>permission.
       bindE uuid4 (\<lambda>i.
       modifies (role_permissions_update (\<lambda>ls. ls @
         [\<lparr>rpm_id = i, rpm_role_id = role, rpm_permission_id = prm_id permission\<rparr>])))))"

definition custom_codes :: "string list \<Rightarrow> string list \<Rightarrow> string list \<Rightarrow> string list" where
  "custom_codes base added removed =
     filter (\<lambda>c. c \<notin> set removed) (remdups (base @ added))"

definition role_audit :: "uuid \<Rightarrow> string \<Rightarrow> payload \<Rightarrow> unit op" where
  "role_audit actor action p = audit action (Some actor) None p"

definition create_custom_role ::
  "uuid \<Rightarrow> string \<Rightarrow> string \<Rightarrow> uuid \<Rightarrow> string list \<Rightarrow> string list \<Rightarrow> role_view op"
where
  "create_custom_role caller name based_on tenant_id add_permissions remove_permissions =
     bindE (require_platform_operator caller) (\<lambda>_.
     let name' = strip name in
     bindE (raise_if (name' = []) (ValidationError ''name is required'')) (\<lambda>_.
     bindE (the_or (map_of tenant_system_role_permissions based_on)
              (ValidationError ''based_on must be a tenant system role name'')) (\<lambda>base_codes.
     bindE (reads (\<lambda>d. get_row ten_id tenant_id (tenants d))) (\<lambda>tenant.
     bindE (raise_if (tenant = None) (NotFoundError ''tenant not found'')) (\<lambda>_.
     bindE (reads (\<lambda>d. filter (\<lambda>r. rol_tenant_id r = Some tenant_id \<and> rol_name r = name'
              \<and> rol_status r = ''active'') (roles d))) (\<lambda>rows.
     bindE (one_or_none rows) (\<lambda>existing.
     bindE (raise_if (existing \<noteq> None) (ConflictError ''role name already exists in tenant'')) (\<lambda>_.
     bindE seed_permission_catalog (\<lambda>_.
     let codes = custom_codes base_codes add_permissions remove_permissions in
     bindE (for_each codes (assert_role_may_receive_permission ''tenant'')) (\<lambda>_.
     bindE uuid4 (\<lambda>i.
     bindE (modifies (roles_update (\<lambda>rs. rs @
        [\<lparr>rol_id = i, rol_scope_type = ''tenant'', rol_tenant_id = Some tenant_id, rol_operator_org_id = None,
          rol_name = name', rol_is_system_role = False, rol_status = ''active''\<rparr>]))) (\<lambda>_.
     bindE (reads perm_rows) (\<lambda>perms.
     bindE (add_role_permissions i perms (sort_key (\<lambda>c. c) codes)) (\<lambda>_.
     bindE (role_audit caller ''custom_role.created''
              [(''role_id'', JUuid i), (''tenant_id'', JUuid tenant_id), (''name'', JStr name')]) (\<lambda>_.
     bindE commit (\<lambda>_.
     ret \<lparr>rlv_role_id = Some i, rlv_name = name', rlv_scope_type = ''tenant'', rlv_is_system_role = False,
          rlv_tenant_id = Some tenant_id, rlv_operator_org_id = None, rlv_status = ''active'',
          rlv_permission_codes = sort_key (\<lambda>c. c) codes\<rparr>))))))))))))))))"

definition update_custom_role :: "uuid \<Rightarrow> uuid \<Rightarrow> string list \<Rightarrow> role_view op" where
  "update_custom_role caller role_id permission_codes =
     bindE (require_platform_operator caller) (\<lambda>_.
     bindE (reads (\<lambda>d. get_row rol_id role_id (roles d))) (\<lambda>found.
     bindE (the_or (case found of None \<Rightarrow> None
              | Some r \<Rightarrow> if rol_is_system_role r \<or> rol_scope_type r \<noteq> ''tenant'' then None else Some r)
              (NotFoundError ''custom role not found'')) (\<lambda>role.
     bindE seed_permission_catalog (\<lambda>_.
     bindE (for_each permission_codes (assert_role_may_receive_permission ''tenant'')) (\<lambda>_.
     bindE (modifies (role_permissions_update (filter (\<lambda>l. rpm_role_id l \<noteq> role_id)))) (\<lambda>_.
     bindE (reads perm_rows) (\<lambda>perms.
     bindE (add_role_permissions (rol_id role) perms permission_codes) (\<lambda>_.
     bindE (role_audit caller ''custom_role.updated''
              [(''role_id'', JUuid (rol_id role)), (''permission_codes'', JList (map JStr permission_codes))]) (\<lambda>_.
     bindE commit (\<lambda>_.
     ret \<lparr>rlv_role_id = Some (rol_id role), rlv_name = rol_name role, rlv_scope_type = rol_scope_type role,
          rlv_is_system_role = False, rlv_tenant_id = rol_tenant_id role,
          rlv_operator_org_id = rol_operator_org_id role, rlv_status = rol_status role,
          rlv_permission_codes = permission_codes\<rparr>))))))))))"

subsection \<open>Bindings\<close>

definition platform_grant_target ::
  "uuid option \<Rightarrow> uuid option \<Rightarrow> (uuid \<times> user_row option) op"
where
  "platform_grant_target principal_id user_id =
     bindE (case user_id of
              Some u \<Rightarrow>
                bindE (reads (\<lambda>d. get_row usr_id u (users d))) (\<lambda>found.
                bindE (the_or found (NotFoundError ''user not found'')) (\<lambda>user.
                ret (usr_principal_id user, Some user)))
            | None \<Rightarrow> bindE (the_or principal_id AssertionError) (\<lambda>p. ret (p, None))) (\<lambda>(p, user).
     bindE (reads (\<lambda>d. get_row pri_id p (principals d))) (\<lambda>found.
     bindE (raise_if (case found of None \<Rightarrow> True | Some r \<Rightarrow> pri_status r \<noteq> ''active'')
              (NotFoundError ''principal not found'')) (\<lambda>_.
     ret (p, user))))"

text \<open>Where a role can be bound: in its tenant, or at the operator's organization.\<close>

definition binding_scope ::
  "role_row \<Rightarrow> uuid option \<Rightarrow> user_row option \<Rightarrow> (uuid option \<times> uuid option) op"
where
  "binding_scope role tenant_id user =
     (if rol_scope_type role = ''tenant''
      then bindE (the_or tenant_id (ValidationError ''tenant_id required for tenant role'')) (\<lambda>tenant.
           bindE (raise_if (rol_tenant_id role \<noteq> Some tenant)
                    (ValidationError ''role does not belong to tenant'')) (\<lambda>_.
           bindE (case user of None \<Rightarrow> ret ()
                  | Some u \<Rightarrow> bindE (active_membership tenant (usr_id u)) (\<lambda>member.
                      raise_if (member = None)
                        (ValidationError ''target user is not an active member of this tenant''))) (\<lambda>_.
           ret (Some tenant, None))))
      else bindE (raise_if (rol_operator_org_id role = None)
                    (ValidationError ''platform role missing operator org'')) (\<lambda>_.
           ret (None, rol_operator_org_id role)))"

definition grant_binding ::
  "uuid \<Rightarrow> uuid \<Rightarrow> uuid option \<Rightarrow> uuid option \<Rightarrow> uuid option \<Rightarrow> string option \<Rightarrow> binding_view op"
where
  "grant_binding caller role_id principal_id user_id tenant_id justification =
     bindE (require_platform_operator caller) (\<lambda>_.
     bindE (raise_if (principal_id = None \<and> user_id = None)
              (ValidationError ''principal_id or user_id is required'')) (\<lambda>_.
     bindE (reads (\<lambda>d. get_row rol_id role_id (roles d))) (\<lambda>found.
     bindE (the_or (case found of None \<Rightarrow> None
              | Some r \<Rightarrow> if rol_status r \<noteq> ''active'' then None else Some r)
              (NotFoundError ''role not found'')) (\<lambda>role.
     bindE (platform_grant_target principal_id user_id) (\<lambda>(p, target_user).
     bindE (binding_scope role tenant_id target_user) (\<lambda>(scope_tenant, operator_org).
     bindE (reads (\<lambda>d. filter (\<lambda>b. prl_principal_id b = p \<and> prl_role_id b = role_id
              \<and> prl_tenant_id b = scope_tenant \<and> prl_operator_org_id b = operator_org
              \<and> prl_status b = ''active'') (principal_roles d))) (\<lambda>rows.
     bindE (one_or_none rows) (\<lambda>existing.
     bindE (raise_if (existing \<noteq> None) (ConflictError ''binding already exists'')) (\<lambda>_.
     bindE (reads (\<lambda>d. get_row usr_id caller (users d))) (\<lambda>caller_user.
     bindE utcnow (\<lambda>now.
     bindE uuid4 (\<lambda>i.
     bindE (modifies (principal_roles_update (\<lambda>bs. bs @
        [\<lparr>prl_id = i, prl_principal_id = p, prl_role_id = rol_id role, prl_scope_type = rol_scope_type role,
          prl_tenant_id = scope_tenant, prl_operator_org_id = operator_org, prl_status = ''active'',
          prl_assigned_by = map_option usr_principal_id caller_user, prl_valid_from = now, prl_valid_until = None,
          prl_revoked_at = None, prl_justification = justification, prl_created_at = now\<rparr>]))) (\<lambda>_.
     bindE (role_audit caller ''role_binding.created''
              [(''binding_id'', JUuid i), (''principal_id'', JUuid p), (''role_id'', JUuid (rol_id role)),
               (''tenant_id'', case scope_tenant of None \<Rightarrow> JNull | Some t \<Rightarrow> JUuid t)]) (\<lambda>_.
     bindE commit (\<lambda>_.
     bindE (reads (\<lambda>d. case scope_tenant of None \<Rightarrow> None | Some t \<Rightarrow> get_row ten_id t (tenants d))) (\<lambda>tenant.
     ret \<lparr>bdv_binding_id = i, bdv_principal_id = p, bdv_user_email = map_option usr_email target_user,
          bdv_role_id = rol_id role, bdv_role_name = rol_name role, bdv_scope_type = rol_scope_type role,
          bdv_tenant_id = scope_tenant, bdv_tenant_name = map_option ten_name tenant,
          bdv_granted_by = map_option usr_principal_id caller_user, bdv_since = now,
          bdv_status = ''active''\<rparr>))))))))))))))))"

definition revoke_binding :: "uuid \<Rightarrow> uuid \<Rightarrow> string option \<Rightarrow> instant op" where
  "revoke_binding caller binding_id reason =
     bindE (require_platform_operator caller) (\<lambda>_.
     bindE (reads (\<lambda>d. get_row prl_id binding_id (principal_roles d))) (\<lambda>found.
     bindE (the_or found (NotFoundError ''binding not found'')) (\<lambda>binding.
     bindE (raise_if (prl_status binding \<noteq> ''active'') (ConflictError ''binding already revoked'')) (\<lambda>_.
     bindE utcnow (\<lambda>now.
     bindE (modifies (principal_roles_update (upd_row prl_id (prl_id binding) (revoked_binding now reason)))) (\<lambda>_.
     bindE (role_audit caller ''role_binding.revoked''
              [(''binding_id'', JUuid (prl_id binding)),
               (''reason'', case reason of None \<Rightarrow> JNull | Some r \<Rightarrow> JStr r)]) (\<lambda>_.
     bindE commit (\<lambda>_.
     ret now))))))))"

end
