(* ===== verification/Scope_Properties.thy ===== *)
theory Scope_Properties
  imports Invariants Platform_Roles
begin

section \<open>Tenant roles and platform permissions\<close>

text \<open>
  The invariant that \<open>assert_role_may_receive_permission\<close> states: whatever roles operators create and change and
  tenants are seeded with, no role of a tenant carries a platform permission, neither by its code nor by its scope.
\<close>

definition scopes_separate :: "uuid \<Rightarrow> database \<Rightarrow> bool" where
  "scopes_separate n d \<longleftrightarrow>
     distinct (map prm_id (permissions d)) \<and> (\<forall>p \<in> set (permissions d). prm_id p < n)
     \<and> (\<forall>p \<in> set (permissions d). prm_scope_type p = scope_type_for_code (prm_code p))
     \<and> (\<forall>r \<in> set (roles d). rol_id r < n)
     \<and> (\<forall>l \<in> set (role_permissions d). rpm_role_id l < n \<and> rpm_permission_id l < n)
     \<and> (\<forall>l \<in> set (role_permissions d). \<forall>r \<in> set (roles d). \<forall>p \<in> set (permissions d).
          rpm_role_id l = rol_id r \<and> rpm_permission_id l = prm_id p \<and> rol_scope_type r = ''tenant''
          \<longrightarrow> \<not> is_platform_code (prm_code p))"

lemma scopes_mono: "supply_mono scopes_separate"
  unfolding supply_mono_def scopes_separate_def by (meson less_le_trans)

lemma scopes_same:
  "permissions d' = permissions d \<Longrightarrow> role_permissions d' = role_permissions d \<Longrightarrow> roles d' = roles d
    \<Longrightarrow> scopes_separate n d' \<longleftrightarrow> scopes_separate n d"
  by (simp add: scopes_separate_def)

lemma scopes_blind: "log_blind scopes_separate"
  by (simp add: log_blind_def scopes_separate_def)

lemma scopes_links:
  assumes "scopes_separate n d"
    and "\<And>l. l \<in> set ls \<Longrightarrow> rpm_role_id l < n \<and> (\<exists>p \<in> set (permissions d). rpm_permission_id l = prm_id p \<and> \<not> is_platform_code (prm_code p))"
  shows "scopes_separate n (role_permissions_update (\<lambda>rows. rows @ ls) d)"
proof -
  have "\<not> is_platform_code (prm_code p)" if "l \<in> set ls" "p \<in> set (permissions d)" "rpm_permission_id l = prm_id p" for l p
  proof -
    from assms(2) [OF that(1)] obtain q where q: "q \<in> set (permissions d)" "rpm_permission_id l = prm_id q"
      "\<not> is_platform_code (prm_code q)" by blast
    with that have "q = p" using assms(1) by (auto simp: scopes_separate_def distinct_map dest: inj_onD)
    with q show ?thesis by simp
  qed
  moreover have "rpm_permission_id l < n" if "l \<in> set ls" for l
    using assms(2) [OF that] assms(1) by (auto simp: scopes_separate_def)
  ultimately show ?thesis using assms unfolding scopes_separate_def by auto
qed

lemma scopes_new_role:
  assumes "scopes_separate n d" and "n \<le> rol_id r" and "rol_id r < k"
  shows "scopes_separate k (roles_update (\<lambda>rows. rows @ [r]) d)"
proof -
  have "n \<le> k" using assms(2,3) by simp
  with assms show ?thesis unfolding scopes_separate_def by fastforce
qed

lemma scopes_upd_role:
  assumes "scopes_separate n d" and "\<And>r. rol_id (f r) = rol_id r" "\<And>r. rol_scope_type (f r) = rol_scope_type r"
  shows "scopes_separate n (roles_update (upd_row rol_id i f) d)"
  using assms unfolding scopes_separate_def by (auto simp: set_upd_row split: if_split_asm)

lemma scopes_new_permission:
  assumes "scopes_separate n d" and "n \<le> prm_id p" and "prm_id p < k"
    and "prm_scope_type p = scope_type_for_code (prm_code p)"
  shows "scopes_separate k (permissions_update (\<lambda>rows. rows @ [p]) d)"
proof -
  have "distinct (map prm_id (permissions d @ [p]))" using assms by (force simp: scopes_separate_def)
  moreover have "n \<le> k" using assms(2,3) by simp
  ultimately show ?thesis using assms unfolding scopes_separate_def by fastforce
qed

lemma scopes_upd_permission:
  assumes "scopes_separate n d" and "\<And>p. prm_id (f p) = prm_id p" "\<And>p. prm_code (f p) = prm_code p"
    and "\<And>p. p \<in> set (permissions d) \<Longrightarrow> prm_id p = i \<Longrightarrow> prm_scope_type (f p) = scope_type_for_code (prm_code p)"
  shows "scopes_separate n (permissions_update (upd_row prm_id i f) d)"
  using assms unfolding scopes_separate_def by (auto simp: set_upd_row split: if_split_asm)

subsection \<open>The operations\<close>

text \<open>\<open>known_codes\<close>: the rows of a snapshot of the catalog still name the codes they were read with.\<close>

definition known_codes :: "(string \<times> permission_row) list \<Rightarrow> database \<Rightarrow> bool" where
  "known_codes perms d \<longleftrightarrow> (\<forall>(c, p) \<in> set perms. p \<in> set (permissions d) \<and> prm_code p = c)"

lemma known_codes_read: "known_codes (perm_rows d) d"
  by (auto simp: known_codes_def perm_rows_def)

lemma known_codes_at:
  "known_codes perms d \<Longrightarrow> map_of perms c = Some p \<Longrightarrow> p \<in> set (permissions d) \<and> prm_code p = c"
  unfolding known_codes_def by (fastforce dest: map_of_SomeD)

lemma keeps_upsert_permission:
  assumes spec: "spc_scope_type spec = scope_type_for_code (spc_code spec)"
  shows "keeps (both scopes_separate) (upsert_permission spec)"
proof (rule keepsI)
  fix w assume "both scopes_separate w"
  then have J: "scopes_separate (next_uuid w) (db w)" "scopes_separate (next_uuid w) (disk w)" by (simp_all add: both_def)
  let ?rows = "filter (\<lambda>r. prm_code r = spc_code spec) (permissions (db w))"
  show "both scopes_separate (snd (upsert_permission spec w))"
  proof (cases "?rows")
    case Nil
    have "scopes_separate (Suc (next_uuid w)) (disk w)" by (rule supply_monoD [OF scopes_mono J(2)]) simp
    moreover have "scopes_separate (Suc (next_uuid w)) (permissions_update (\<lambda>rs. rs @ [p]) (db w))"
      if "prm_id p = next_uuid w" "prm_code p = spc_code spec" "prm_scope_type p = spc_scope_type spec" for p
      using scopes_new_permission [OF J(1), of p "Suc (next_uuid w)"] that spec by simp
    ultimately show ?thesis using Nil by (simp add: upsert_permission_def both_def run_simps)
  next
    case (Cons r rs)
    then have "r \<in> set ?rows" by simp
    then have r: "r \<in> set (permissions (db w))" "prm_code r = spc_code spec" by simp_all
    have only: "p = r" if "p \<in> set (permissions (db w))" "prm_id p = prm_id r" for p
      using J(1) r(1) that by (auto simp: scopes_separate_def distinct_map dest: inj_onD)
    have "scopes_separate (next_uuid w) (permissions_update (upd_row prm_id (prm_id r) (\<lambda>r. r\<lparr>
            prm_scope_type := spc_scope_type spec,
            prm_description := first_some (non_empty (spc_description spec)) (prm_description r),
            prm_status := ''active''\<rparr>)) (db w))"
      by (rule scopes_upd_permission [OF J(1)]) (use r(2) spec in \<open>auto dest: only\<close>)
    with J Cons show ?thesis by (cases rs) (simp_all add: upsert_permission_def both_def run_simps)
  qed
qed

lemma keeps_for_each_in: "(\<And>x. x \<in> set xs \<Longrightarrow> keeps I (f x)) \<Longrightarrow> keeps I (for_each xs f)"
  by (induction xs) (auto intro: keeps_intros)

lemma keeps_seed_catalog: "keeps (both scopes_separate) seed_permission_catalog"
  unfolding seed_permission_catalog_def
  by (intro keeps_intros keeps_for_each_in keeps_upsert_permission) (use spec_scope in blast)

lemma add_role_permissions_okD:
  assumes "add_role_permissions role perms codes w = (Inr x, w')"
  shows "\<exists>ls. db w' = role_permissions_update (\<lambda>rows. rows @ ls) (db w) \<and> disk w' = disk w \<and> next_uuid w \<le> next_uuid w'
    \<and> (\<forall>l \<in> set ls. rpm_role_id l = role
         \<and> (\<exists>c \<in> set codes. \<exists>p. map_of perms c = Some p \<and> rpm_permission_id l = prm_id p))"
  using assms unfolding add_role_permissions_def
proof (induction codes arbitrary: w)
  case Nil
  then show ?case by (auto simp: run_simps intro: exI [of _ "[]"])
next
  case (Cons c codes)
  let ?w = "\<lambda>p. w\<lparr>next_uuid := Suc (next_uuid w), db := role_permissions_update (\<lambda>ls. ls @
      [\<lparr>rpm_id = next_uuid w, rpm_role_id = role, rpm_permission_id = prm_id p\<rparr>]) (db w)\<rparr>"
  from Cons.prems obtain p where p: "map_of perms c = Some p"
    and rest: "for_each codes (\<lambda>code. bindE (the_or (map_of perms code) (ValidationError (''unknown permission: '' @ code)))
       (\<lambda>permission. bindE uuid4 (\<lambda>i. modifies (role_permissions_update (\<lambda>ls. ls @
         [\<lparr>rpm_id = i, rpm_role_id = role, rpm_permission_id = prm_id permission\<rparr>]))))) (?w p) = (Inr x, w')"
    by (simp only: for_each.simps step_ok) auto
  from Cons.IH [OF rest] obtain ls where ls: "db w' = role_permissions_update (\<lambda>rows. rows @ ls) (db (?w p))"
    "disk w' = disk w" "Suc (next_uuid w) \<le> next_uuid w'"
    "\<forall>l \<in> set ls. rpm_role_id l = role \<and> (\<exists>c \<in> set codes. \<exists>p. map_of perms c = Some p \<and> rpm_permission_id l = prm_id p)"
    by auto
  then show ?case using p
    by (intro exI [of _ "\<lparr>rpm_id = next_uuid w, rpm_role_id = role, rpm_permission_id = prm_id p\<rparr> # ls"])
       (cases "db w", auto)
qed

lemma for_each_assert:
  "for_each codes (assert_role_may_receive_permission ''tenant'') w = (Inr x, w')
    \<longleftrightarrow> w' = w \<and> (\<forall>c \<in> set codes. \<not> is_platform_code c)"
  by (induction codes) (auto simp: ok_iff assert_role_ok)

lemma add_links:
  assumes J: "scopes_separate (next_uuid w) (db w)" and known: "known_codes perms (db w)" and role: "role < next_uuid w"
    and codes: "\<forall>c \<in> set codes. \<not> is_platform_code c" and run: "add_role_permissions role perms codes w = (Inr x, w')"
  shows "scopes_separate (next_uuid w') (db w') \<and> disk w' = disk w \<and> next_uuid w \<le> next_uuid w'"
proof -
  from add_role_permissions_okD [OF run] obtain ls where ls: "db w' = role_permissions_update (\<lambda>rows. rows @ ls) (db w)"
    "disk w' = disk w" "next_uuid w \<le> next_uuid w'"
    "\<forall>l \<in> set ls. rpm_role_id l = role \<and> (\<exists>c \<in> set codes. \<exists>p. map_of perms c = Some p \<and> rpm_permission_id l = prm_id p)"
    by blast
  have "scopes_separate (next_uuid w) (db w')"
    unfolding ls(1)
  proof (rule scopes_links [OF J])
    fix l assume "l \<in> set ls"
    with ls(4) obtain c p where l: "rpm_role_id l = role" "c \<in> set codes" "map_of perms c = Some p" "rpm_permission_id l = prm_id p"
      by blast
    with codes known_codes_at [OF known l(3)] role
    show "rpm_role_id l < next_uuid w
        \<and> (\<exists>p \<in> set (permissions (db w)). rpm_permission_id l = prm_id p \<and> \<not> is_platform_code (prm_code p))"
      by auto
  qed
  from supply_monoD [OF scopes_mono this ls(3)] ls(2,3) show ?thesis by simp
qed

lemma keeps_scopes_basic:
  "keeps (both scopes_separate) uuid4" "keeps (both scopes_separate) (audit a u t p)"
  "keeps (both scopes_separate) (role_audit c act q)"
  "keeps (both scopes_separate) (modifies (principal_roles_update g))"
  unfolding role_audit_def
  by (rule keeps_both_uuid4 keeps_both_audit keeps_both_modifies scopes_mono | simp add: scopes_separate_def)+

lemma role_calls_atomic:
  "atomic_but_log (create_custom_role c name base t add remove)" "atomic_but_log (update_custom_role c i codes)"
  "keeps (uuid_ge n) (create_custom_role c name base t add remove)" "keeps (uuid_ge n) (update_custom_role c i codes)"
  unfolding create_custom_role_def update_custom_role_def seed_permission_catalog_def upsert_permission_def
    add_role_permissions_def role_audit_def Let_def
  by (rule atomic_but_log_intros keeps_intros reads_only_checks reads_only_keeps | (simp; fail))+

lemma preserved_create_role: "preserved scopes_separate (create_custom_role c name base t add remove)"
proof (rule preservedI [OF scopes_mono scopes_blind role_calls_atomic(1,3)])
  fix w x w' assume J: "scopes_separate (next_uuid w) (db w)" and d: "disk w = db w"
    and run: "create_custom_role c name base t add remove w = (Inr x, w')"
  let ?role = "\<lambda>i. \<lparr>rol_id = i, rol_scope_type = ''tenant'', rol_tenant_id = Some t, rol_operator_org_id = None,
          rol_name = strip name, rol_is_system_role = False, rol_status = ''active''\<rparr>"
  let ?d = "\<lambda>w1. roles_update (\<lambda>rs. rs @ [?role (next_uuid w1)]) (db w1)"
  from run have "\<exists>k w1 codes codes' w2. seed_permission_catalog w = (Inr k, w1)
     \<and> add_role_permissions (next_uuid w1) (perm_rows (?d w1)) codes'
         (w1\<lparr>next_uuid := Suc (next_uuid w1), db := ?d w1\<rparr>) = (Inr (), w2)
     \<and> (\<forall>c \<in> set codes. \<not> is_platform_code c) \<and> set codes' = set codes
     \<and> permissions (db w') = permissions (db w2) \<and> role_permissions (db w') = role_permissions (db w2) \<and> roles (db w') = roles (db w2)
     \<and> disk w' = db w' \<and> next_uuid w2 \<le> next_uuid w'"
    unfolding create_custom_role_def role_audit_def Let_def
    apply (simp only: step_ok step_ok_bind [of seed_permission_catalog] step_ok_bind [of "add_role_permissions _ _ _"]
        step_ok_bind [of "for_each _ _"] for_each_assert)
    apply (elim exE conjE, hypsubst)
    apply (intro exI conjI, assumption)
    apply simp
    apply assumption
    apply simp_all
    done
  then obtain k w1 codes codes' w2 where s: "seed_permission_catalog w = (Inr k, w1)"
    and a: "add_role_permissions (next_uuid w1) (perm_rows (?d w1)) codes'
         (w1\<lparr>next_uuid := Suc (next_uuid w1), db := ?d w1\<rparr>) = (Inr (), w2)"
    and c: "\<forall>c \<in> set codes. \<not> is_platform_code c" "set codes' = set codes"
    and same: "permissions (db w') = permissions (db w2)" "role_permissions (db w') = role_permissions (db w2)"
      "roles (db w') = roles (db w2)"
    and r: "disk w' = db w'" "next_uuid w2 \<le> next_uuid w'"
    by blast
  have "both scopes_separate w" using J d by (simp add: both_def)
  from keepsD [OF keeps_seed_catalog this s] have "scopes_separate (next_uuid w1) (db w1)" by (simp add: both_def)
  from scopes_new_role [OF this, of "?role (next_uuid w1)" "Suc (next_uuid w1)"]
  have J1: "scopes_separate (Suc (next_uuid w1)) (?d w1)" by simp
  from add_links [OF _ _ _ _ a] J1 known_codes_read [of "?d w1"] c
  have "scopes_separate (next_uuid w2) (db w2)" by simp
  then have "scopes_separate (next_uuid w2) (db w')" by (simp add: scopes_same [OF same])
  from supply_monoD [OF scopes_mono this r(2)] r(1) show "scopes_separate (next_uuid w') (disk w')" by simp
qed

lemma scopes_unlink:
  "scopes_separate n d \<Longrightarrow> scopes_separate n (role_permissions_update (filter Q) d)"
  by (auto simp: scopes_separate_def)

lemma update_role_okD:
  assumes "update_custom_role c i codes w = (Inr x, w')"
  shows "\<exists>role k w1 w2. get_row rol_id i (roles (db w)) = Some role \<and> rol_scope_type role = ''tenant''
     \<and> \<not> rol_is_system_role role \<and> seed_permission_catalog w = (Inr k, w1)
     \<and> (\<forall>c \<in> set codes. \<not> is_platform_code c)
     \<and> add_role_permissions i (perm_rows (db w1)) codes
         (w1\<lparr>db := role_permissions_update (filter (\<lambda>l. rpm_role_id l \<noteq> i)) (db w1)\<rparr>) = (Inr (), w2)
     \<and> permissions (db w') = permissions (db w2) \<and> role_permissions (db w') = role_permissions (db w2) \<and> roles (db w') = roles (db w2)
     \<and> disk w' = db w' \<and> next_uuid w2 \<le> next_uuid w'"
proof -
  have role: "z = Some v \<and> \<not> rol_is_system_role v \<and> rol_scope_type v = ''tenant''"
    if "(case z of None \<Rightarrow> None | Some r \<Rightarrow> if rol_is_system_role r \<or> rol_scope_type r \<noteq> ''tenant'' then None else Some r) = Some v"
    for z v
    using that by (auto split: option.split_asm if_split_asm)
  have id: "get_row rol_id i rows = Some r \<Longrightarrow> rol_id r = i" for rows r by (rule get_row_Some [THEN conjunct2])
  from assms show ?thesis
    unfolding update_custom_role_def role_audit_def
    apply (simp only: step_ok step_ok_bind [of seed_permission_catalog] step_ok_bind [of "add_role_permissions _ _ _"]
        step_ok_bind [of "for_each _ _"] for_each_assert)
    apply (elim exE conjE)
    apply (drule role)
    apply (elim conjE)
    apply (frule id)
    apply hypsubst
    apply (intro exI conjI, assumption, assumption, assumption, assumption, assumption)
    apply (simp add: perm_rows_def)
    apply simp_all
    done
qed

lemma preserved_update_role: "preserved scopes_separate (update_custom_role c i codes)"
proof (rule preservedI [OF scopes_mono scopes_blind role_calls_atomic(2,4)])
  fix w x w' assume J: "scopes_separate (next_uuid w) (db w)" and d: "disk w = db w"
    and run: "update_custom_role c i codes w = (Inr x, w')"
  from update_role_okD [OF run] obtain role k w1 w2 where row: "get_row rol_id i (roles (db w)) = Some role"
    and s: "seed_permission_catalog w = (Inr k, w1)" and c: "\<forall>c \<in> set codes. \<not> is_platform_code c"
    and a: "add_role_permissions i (perm_rows (db w1)) codes
         (w1\<lparr>db := role_permissions_update (filter (\<lambda>l. rpm_role_id l \<noteq> i)) (db w1)\<rparr>) = (Inr (), w2)"
    and same: "permissions (db w') = permissions (db w2)" "role_permissions (db w') = role_permissions (db w2)"
      "roles (db w') = roles (db w2)"
    and r: "disk w' = db w'" "next_uuid w2 \<le> next_uuid w'"
    by blast
  from get_row_Some [OF row] J have i: "i < next_uuid w" by (auto simp: scopes_separate_def)
  have "both scopes_separate w" using J d by (simp add: both_def)
  from keepsD [OF keeps_seed_catalog this s] have J1: "scopes_separate (next_uuid w1) (db w1)" by (simp add: both_def)
  have "keeps (uuid_ge n) seed_permission_catalog" for n
    unfolding seed_permission_catalog_def upsert_permission_def
    by (rule keeps_intros reads_only_keeps | (simp; fail))+
  from keepsD [OF this uuid_ge_refl s] i have i1: "i < next_uuid w1" by (simp add: uuid_ge_def)
  have known: "known_codes (perm_rows (db w1)) (role_permissions_update (filter (\<lambda>l. rpm_role_id l \<noteq> i)) (db w1))"
    using known_codes_read [of "db w1"] by (simp add: known_codes_def)
  from add_links [OF _ _ _ c a] scopes_unlink [OF J1] known i1
  have "scopes_separate (next_uuid w2) (db w2)" by simp
  then have "scopes_separate (next_uuid w2) (db w')" by (simp add: scopes_same [OF same])
  from supply_monoD [OF scopes_mono this r(2)] r(1) show "scopes_separate (next_uuid w') (disk w')" by simp
qed

subsection \<open>Seeding a tenant\<close>

text \<open>The loop of \<open>seed_tenant_system_roles\<close>, under the snapshot of the catalog it has read.\<close>

definition seeding :: "(string \<times> permission_row) list \<Rightarrow> database \<Rightarrow> world \<Rightarrow> bool" where
  "seeding perms D w \<longleftrightarrow> scopes_separate (next_uuid w) (db w) \<and> known_codes perms (db w) \<and> disk w = D"

lemma seed_link_keeps:
  assumes w: "seeding perms D w" and role: "rol_id role < next_uuid w"
    and run: "seed_link ''tenant'' name perms role code w = (Inr k, w')"
  shows "seeding perms D w' \<and> next_uuid w \<le> next_uuid w'"
proof -
  from run have np: "\<not> is_platform_code code" by (auto simp: seed_link_def ok_iff assert_role_ok)
  have J: "scopes_separate (next_uuid w) (db w)" and known: "known_codes perms (db w)" and D: "disk w = D"
    using w by (simp_all add: seeding_def)
  show ?thesis
  proof (cases "map_of perms code")
    case None
    with run w show ?thesis by (auto simp: seed_link_def ok_iff assert_role_ok)
  next
    case (Some p)
    from known_codes_at [OF known Some] have p: "p \<in> set (permissions (db w))" "prm_code p = code" by simp_all
    let ?l = "\<lparr>rpm_id = next_uuid w, rpm_role_id = rol_id role, rpm_permission_id = prm_id p\<rparr>"
    have "scopes_separate (next_uuid w) (role_permissions_update (\<lambda>rows. rows @ [?l]) (db w))"
      by (rule scopes_links [OF J]) (use p np role in auto)
    from supply_monoD [OF scopes_mono this, of "Suc (next_uuid w)"]
    have new: "scopes_separate (Suc (next_uuid w)) (role_permissions_update (\<lambda>rows. rows @ [?l]) (db w))" by simp
    from run Some have "w' = w \<or> w' = w\<lparr>next_uuid := Suc (next_uuid w), db := role_permissions_update (\<lambda>rows. rows @ [?l]) (db w)\<rparr>"
      by (auto simp: seed_link_def assert_role_tenant [OF np] ensure_role_permission_def run_simps
          split: if_split_asm list.split_asm)
    with w new show ?thesis by (auto simp: seeding_def known_codes_def)
  qed
qed

lemma seed_links_keep:
  assumes "seeding perms D w" and "rol_id role < next_uuid w"
    and "map_each codes (seed_link ''tenant'' name perms role) w = (Inr ks, w')"
  shows "seeding perms D w' \<and> next_uuid w \<le> next_uuid w'"
  using assms
proof (induction codes arbitrary: w ks)
  case Nil
  then show ?case by (simp add: run_simps)
next
  case (Cons c codes)
  from Cons.prems(3) obtain k w1 ks' where k: "seed_link ''tenant'' name perms role c w = (Inr k, w1)"
    and rest: "map_each codes (seed_link ''tenant'' name perms role) w1 = (Inr ks', w')"
    by (auto simp: ok_iff)
  from seed_link_keeps [OF Cons.prems(1,2) k] Cons.IH [OF _ _ rest] Cons.prems(2) show ?case by simp
qed

lemma seeding_roles:
  assumes "seeding perms D w" and "get_or_create_tenant_role t name w = (Inr role, w')"
  shows "seeding perms D w' \<and> rol_id role < next_uuid w' \<and> next_uuid w \<le> next_uuid w'"
proof -
  have J: "scopes_separate (next_uuid w) (db w)" using assms(1) by (simp add: seeding_def)
  have new: "scopes_separate (Suc (next_uuid w)) (roles_update (\<lambda>rs. rs @ [r]) (db w))" if "rol_id r = next_uuid w" for r
    using scopes_new_role [OF J, of r "Suc (next_uuid w)"] that by simp
  have upd: "scopes_separate (next_uuid w) (roles_update (upd_row rol_id i (\<lambda>r. r\<lparr>rol_is_system_role := True, rol_status := ''active''\<rparr>)) (db w))" for i
    by (rule scopes_upd_role [OF J]) simp_all
  have old: "rol_id r < next_uuid w" if "filter Q (roles (db w)) = [r]" for r Q
  proof -
    have "r \<in> set (filter Q (roles (db w)))" by (simp add: that)
    then show ?thesis using J by (simp add: scopes_separate_def)
  qed
  show ?thesis
    using assms unfolding get_or_create_tenant_role_def get_or_create_role_def Let_def
    by (auto simp: seeding_def known_codes_def run_simps intro!: new upd dest: old split: list.split_asm)
qed

lemma seeding_loop:
  assumes "seeding perms D w"
    and "map_each templates (\<lambda>(role_name, codes). bindE (get_or_create_tenant_role t role_name) (\<lambda>role.
           map_each codes (seed_link ''tenant'' role_name perms role))) w = (Inr ks, w')"
  shows "seeding perms D w' \<and> next_uuid w \<le> next_uuid w'"
  using assms
proof (induction templates arbitrary: w ks)
  case Nil
  then show ?case by (simp add: run_simps)
next
  case (Cons x templates)
  obtain name codes where x: "x = (name, codes)" by fastforce
  from Cons.prems(2) obtain role w1 k w2 ks' where r: "get_or_create_tenant_role t name w = (Inr role, w1)"
    and k: "map_each codes (seed_link ''tenant'' name perms role) w1 = (Inr k, w2)"
    and rest: "map_each templates (\<lambda>(role_name, codes). bindE (get_or_create_tenant_role t role_name) (\<lambda>role.
           map_each codes (seed_link ''tenant'' role_name perms role))) w2 = (Inr ks', w')"
    by (auto simp: ok_iff x)
  from seeding_roles [OF Cons.prems(1) r] seed_links_keep [OF _ _ k] Cons.IH [OF _ rest] show ?case by fastforce
qed

text \<open>The tenant's roles as a service stores them: seeded, and committed with the rest of its work.\<close>

definition store_tenant_roles :: "uuid \<Rightarrow> unit op" where
  "store_tenant_roles t = bindE (seed_tenant_system_roles t) (\<lambda>_. commit)"

lemma store_roles_atomic:
  "atomic_but_log (store_tenant_roles t)" "keeps (uuid_ge n) (store_tenant_roles t)"
  unfolding store_tenant_roles_def seed_tenant_system_roles_def seed_permission_catalog_def upsert_permission_def
    get_or_create_tenant_role_def get_or_create_role_def seed_link_def ensure_role_permission_def Let_def
  by (rule atomic_but_log_intros keeps_intros reads_only_keeps | (simp; fail))+

lemma preserved_store_roles: "preserved scopes_separate (store_tenant_roles t)"
proof (rule preservedI [OF scopes_mono scopes_blind store_roles_atomic])
  fix w x w' assume J: "scopes_separate (next_uuid w) (db w)" and d: "disk w = db w"
    and run: "store_tenant_roles t w = (Inr x, w')"
  from run obtain k w1 ks w2 where s: "seed_permission_catalog w = (Inr k, w1)"
    and l: "map_each tenant_system_role_permissions (\<lambda>(role_name, codes). bindE (get_or_create_tenant_role t role_name) (\<lambda>role.
           map_each codes (seed_link ''tenant'' role_name (perm_rows (db w1)) role))) w1 = (Inr ks, w2)"
    and w': "w' = w2\<lparr>disk := db w2\<rparr>"
    unfolding store_tenant_roles_def seed_tenant_system_roles_def
    by (simp only: step_ok step_ok_bind [of seed_permission_catalog] step_ok_bind [of "map_each _ _"])
       (auto simp: run_simps)
  have "both scopes_separate w" using J d by (simp add: both_def)
  from keepsD [OF keeps_seed_catalog this s] have "seeding (perm_rows (db w1)) (disk w1) w1"
    using known_codes_read by (simp add: both_def seeding_def)
  from seeding_loop [OF this l] show "scopes_separate (next_uuid w') (disk w')" by (simp add: w' seeding_def)
qed

lemma reads_only_scope [reads_only_intros]:
  "reads_only (platform_grant_target p u)" "reads_only (binding_scope role t user)"
  unfolding platform_grant_target_def binding_scope_def by (intro reads_only_intros)+

lemma preserved_role_reads:
  "preserved scopes_separate (list_permissions c)" "preserved scopes_separate (list_all_roles c)"
  "preserved scopes_separate (grant_binding c i p u t why)" "preserved scopes_separate (revoke_binding c i why)"
  unfolding list_permissions_def list_all_roles_def grant_binding_def revoke_binding_def Let_def
  by (rule preserved_both, (rule keeps_seed_catalog keeps_scopes_basic keeps_intros reads_only_scope reads_only_checks
      reads_only_lookups reads_only_keeps | (simp; fail))+)+

subsection \<open>Runs\<close>

datatype scope_call =
    List_Permissions uuid
  | List_Roles uuid
  | Create_Role uuid string string uuid "string list" "string list"
  | Update_Role uuid uuid "string list"
  | Grant_Binding uuid uuid "uuid option" "uuid option" "uuid option" "string option"
  | Revoke_Binding uuid uuid "string option"
  | Store_Tenant_Roles uuid

fun answer_scope :: "scope_call \<Rightarrow> unit op" where
  "answer_scope (List_Permissions c) = silent (list_permissions c)"
| "answer_scope (List_Roles c) = silent (list_all_roles c)"
| "answer_scope (Create_Role c name base t add remove) = silent (create_custom_role c name base t add remove)"
| "answer_scope (Update_Role c i codes) = silent (update_custom_role c i codes)"
| "answer_scope (Grant_Binding c i p u t why) = silent (grant_binding c i p u t why)"
| "answer_scope (Revoke_Binding c i why) = silent (revoke_binding c i why)"
| "answer_scope (Store_Tenant_Roles t) = store_tenant_roles t"

inductive scope_step :: "world \<Rightarrow> world \<Rightarrow> bool" where
  call: "request (answer_scope c) w = (r, w') \<Longrightarrow> scope_step w w'"
| tick: "clock w \<le> t \<Longrightarrow> scope_step w (w\<lparr>clock := t\<rparr>)"
| other: "permissions d = permissions (db w) \<Longrightarrow> role_permissions d = role_permissions (db w) \<Longrightarrow> roles d = roles (db w)
    \<Longrightarrow> next_uuid w \<le> n \<Longrightarrow> scope_step w (w\<lparr>db := d, disk := d, next_uuid := n\<rparr>)"

lemma answer_scope_preserved: "preserved scopes_separate (answer_scope c)"
  by (cases c) (simp_all add: preserved_silent preserved_role_reads preserved_create_role preserved_update_role preserved_store_roles)

lemma scopes_step:
  assumes "scope_step w w'" and "disk w = db w \<and> scopes_separate (next_uuid w) (db w)"
  shows "disk w' = db w' \<and> scopes_separate (next_uuid w') (db w')"
  using assms(1)
proof cases
  case (call c r)
  from preservedD [OF answer_scope_preserved _ _ call] assms(2) show ?thesis by blast
next
  case (tick t)
  with assms(2) show ?thesis by simp
next
  case (other d n)
  have "scopes_separate (next_uuid w) d" using assms(2) scopes_same [OF other(2-4)] by blast
  from supply_monoD [OF scopes_mono this other(5)] show ?thesis by (simp add: other(1))
qed

interpretation scope_runs: served_machine scope_step scopes_separate
  by unfold_locales (rule scopes_step)

text \<open>
  C8. No role of a tenant ever carries a platform permission: over any run of the role administration, the seeding
  of tenants and other requests, whatever permission is linked to a role of a tenant has no platform code and the
  scope of tenants, so the authorization service finds no grant of a platform code in a tenant.
\<close>

theorem tenant_roles_stay_tenant:
  assumes "scope_step\<^sup>*\<^sup>* w w'" and "disk w = db w" and "scopes_separate (next_uuid w) (db w)"
  shows "(\<forall>r \<in> set (roles (db w')). \<forall>l \<in> set (role_permissions (db w')). \<forall>p \<in> set (permissions (db w')).
           rol_scope_type r = ''tenant'' \<and> rpm_role_id l = rol_id r \<and> rpm_permission_id l = prm_id p
           \<longrightarrow> \<not> is_platform_code (prm_code p) \<and> prm_scope_type p = ''tenant'')
    \<and> (is_platform_code code \<longrightarrow>
         \<not> (\<exists>p at pr role. grants_permission (db w') p ''tenant'' code at pr role)
         \<and> \<not> may_use_tenant (sql_views (db w')) prin code t at)"
proof -
  from scope_runs.run_keeps [OF assms] have J: "scopes_separate (next_uuid w') (db w')" by blast
  have none: "\<not> (\<exists>p at pr role. grants_permission (db w') p ''tenant'' code at pr role)" if "is_platform_code code"
    using J that by (fastforce simp: grants_permission_def scopes_separate_def)
  have ids: "distinct (map prm_id (permissions (db w')))" using J by (simp add: scopes_separate_def)
  show ?thesis
  proof (intro conjI ballI impI none)
    fix r l p assume "r \<in> set (roles (db w'))" "l \<in> set (role_permissions (db w'))" "p \<in> set (permissions (db w'))"
      and "rol_scope_type r = ''tenant'' \<and> rpm_role_id l = rol_id r \<and> rpm_permission_id l = prm_id p"
    with J show "\<not> is_platform_code (prm_code p)" by (simp add: scopes_separate_def)
    with J \<open>p \<in> set (permissions (db w'))\<close> show "prm_scope_type p = ''tenant''"
      by (simp add: scopes_separate_def scope_type_for_code_def)
  next
    assume "is_platform_code code"
    from may_use_tenant_rows [OF _ ids] none [OF this] show "\<not> may_use_tenant (sql_views (db w')) prin code t at"
      by blast
  qed
qed

lemma scope_called: "scope_step w (snd (request (answer_scope c) w))"
  by (rule scope_step.call) (rule prod.collapse [symmetric])

theorem tenant_roles_stay_tenant_witness:
  "let w' = snd (request (answer_scope (Update_Role 13 51 [''resource.read''])) sample_world)
   in (\<forall>r \<in> set (roles (db w')). \<forall>l \<in> set (role_permissions (db w')). \<forall>p \<in> set (permissions (db w')).
         rol_scope_type r = ''tenant'' \<and> rpm_role_id l = rol_id r \<and> rpm_permission_id l = prm_id p
         \<longrightarrow> \<not> is_platform_code (prm_code p) \<and> prm_scope_type p = ''tenant'')
      \<and> \<not> may_use_tenant (sql_views (db w')) 1 ''platform.tenant.read'' 31 2000"
proof -
  have j: "scopes_separate (next_uuid sample_world) (db sample_world)" by code_simp
  have c: "is_platform_code ''platform.tenant.read''" by code_simp
  have d: "disk sample_world = db sample_world" by simp
  from tenant_roles_stay_tenant [OF r_into_rtranclp [of scope_step, OF scope_called] d j] c
  show ?thesis unfolding Let_def by blast
qed

end
