(* ===== verification/Resources.thy ===== *)
theory Resources
  imports Commerce_Base
begin

section \<open>Resources of a tenant\<close>

text \<open>
  \<open>Resource.create\<close> of \<open>resources/domain/aggregate.py\<close>, the repository of
  \<open>resources/infrastructure/repositories.py\<close> and the two handlers of \<open>resources/application\<close>. The event that
  \<open>Resource.create\<close> records stays on the aggregate, which nobody reads; it is not modelled.
\<close>

record create_resource_command =
  crc_tenant_id :: uuid
  crc_principal_id :: uuid
  crc_name :: string
  crc_resource_type :: string
  crc_external_ref :: "string option"
  crc_request_id :: "string option"

record listed_resource =
  lrs_resource_id :: uuid
  lrs_tenant_id :: uuid
  lrs_name :: string
  lrs_resource_type :: string
  lrs_status :: string

definition listed_resource_of :: "resource_row \<Rightarrow> listed_resource" where
  "listed_resource_of r =
     \<lparr>lrs_resource_id = res_id r, lrs_tenant_id = res_tenant_id r, lrs_name = res_name r,
      lrs_resource_type = res_resource_type r, lrs_status = res_status r\<rparr>"

definition resource_create :: "uuid \<Rightarrow> string \<Rightarrow> string \<Rightarrow> uuid \<Rightarrow> string option \<Rightarrow> resource_row op" where
  "resource_create tenant name resource_type creator external_ref =
     bindE (raise_if (strip name = []) (ValidationError ''name is required'')) (\<lambda>_.
     bindE (raise_if (length (strip name) > 255) (ValidationError ''name is too long'')) (\<lambda>_.
     bindE (raise_if (strip resource_type = []) (ValidationError ''resource_type is required'')) (\<lambda>_.
     bindE (raise_if (length (strip resource_type) > 128) (ValidationError ''resource_type is too long'')) (\<lambda>_.
     bindE uuid4 (\<lambda>i.
     bindE utcnow (\<lambda>now.
     ret \<lparr>res_id = i, res_tenant_id = tenant, res_name = strip name, res_resource_type = strip resource_type,
          res_status = ''active'',
          res_external_ref = (let ref = strip (str_or external_ref []) in if ref = [] then None else Some ref),
          res_created_by = Some creator, res_created_at = now\<rparr>))))))"

subsection \<open>The repository\<close>

definition resource_add :: "resource_row \<Rightarrow> unit op" where
  "resource_add r = modifies (resources_update (\<lambda>rows. rows @ [r]))"

definition resource_get_by_id :: "uuid \<Rightarrow> uuid \<Rightarrow> resource_row option op" where
  "resource_get_by_id tenant i =
     bindE (reads (\<lambda>d. filter (\<lambda>r. res_tenant_id r = tenant \<and> res_id r = i) (resources d))) one_or_none"

definition resources_by_tenant :: "uuid \<Rightarrow> resource_row list op" where
  "resources_by_tenant tenant =
     reads (\<lambda>d. sort_desc res_created_at (filter (\<lambda>r. res_tenant_id r = tenant) (resources d)))"

definition resource_exists_by_name :: "uuid \<Rightarrow> string \<Rightarrow> bool op" where
  "resource_exists_by_name tenant name =
     bindE (reads (\<lambda>d. filter (\<lambda>r. res_tenant_id r = tenant \<and> res_name r = strip name) (resources d))) (\<lambda>rows.
     bindE (one_or_none rows) (\<lambda>found.
     ret (found \<noteq> None)))"

subsection \<open>The handlers\<close>

definition handle_create_resource :: "authz_ports \<Rightarrow> create_resource_command \<Rightarrow> listed_resource op" where
  "handle_create_resource P c =
     bindE (authorize P (public_command (crc_principal_id c) (crc_tenant_id c) ''resource.create''
              (crc_request_id c))) (\<lambda>decision.
     bindE (raise_if (\<not> azr_allowed decision)
              (ForbiddenError (public_forbid_detail (azr_reason decision)))) (\<lambda>_.
     bindE (resource_exists_by_name (crc_tenant_id c) (strip (crc_name c))) (\<lambda>taken.
     bindE (raise_if taken (ConflictError ''resource name already exists in tenant'')) (\<lambda>_.
     bindE (resource_create (crc_tenant_id c) (crc_name c) (crc_resource_type c) (crc_principal_id c)
              (crc_external_ref c)) (\<lambda>r.
     bindE (resource_add r) (\<lambda>_.
     bindE commit (\<lambda>_.
     ret (listed_resource_of r))))))))"

definition handle_list_resources ::
  "authz_ports \<Rightarrow> uuid \<Rightarrow> uuid \<Rightarrow> string option \<Rightarrow> listed_resource list op"
where
  "handle_list_resources P tenant prin request_id =
     bindE (authorize P (public_command prin tenant ''resource.read'' request_id)) (\<lambda>decision.
     bindE (raise_if (\<not> azr_allowed decision)
              (ForbiddenError (public_forbid_detail (azr_reason decision)))) (\<lambda>_.
     bindE (resources_by_tenant tenant) (\<lambda>rows.
     ret (map listed_resource_of rows))))"

end
