(* ===== verification/Resource_Properties.thy ===== *)
theory Resource_Properties
  imports Invariants Resources
begin

section \<open>The names of resources\<close>

text \<open>
  The names of the resources of a tenant are unique, stripped, not empty and at most 255 characters long, and a
  stored resource never changes.
\<close>

definition resources_hist :: "resource_row list \<Rightarrow> uuid \<Rightarrow> database \<Rightarrow> bool" where
  "resources_hist rs n d \<longleftrightarrow>
     (\<forall>t nm. at_most_one (\<lambda>r. res_tenant_id r = t \<and> res_name r = nm) (resources d))
     \<and> (\<forall>r \<in> set (resources d). res_name r \<noteq> [] \<and> strip (res_name r) = res_name r \<and> length (res_name r) \<le> 255)
     \<and> set rs \<subseteq> set (resources d)"

lemma resources_hist_mono: "supply_mono (resources_hist rs)"
  by (simp add: supply_mono_def resources_hist_def)

lemma resources_hist_blind: "log_blind (resources_hist rs)"
  by (simp add: log_blind_def resources_hist_def)

lemma create_by_permission:
  "handle_create_resource P c =
     bindE (require_permission P (crc_principal_id c) (crc_tenant_id c) ''resource.create'' (crc_request_id c)) (\<lambda>_.
     bindE (resource_exists_by_name (crc_tenant_id c) (strip (crc_name c))) (\<lambda>taken.
     bindE (raise_if taken (ConflictError ''resource name already exists in tenant'')) (\<lambda>_.
     bindE (resource_create (crc_tenant_id c) (crc_name c) (crc_resource_type c) (crc_principal_id c)
              (crc_external_ref c)) (\<lambda>r.
     bindE (resource_add r) (\<lambda>_.
     bindE commit (\<lambda>_.
     ret (listed_resource_of r)))))))"
  by (simp add: handle_create_resource_def require_permission_def bindE_assoc)

lemma list_by_permission:
  "handle_list_resources P t p rid =
     bindE (require_permission P p t ''resource.read'' rid) (\<lambda>_.
     bindE (resources_by_tenant t) (\<lambda>rows. ret (map listed_resource_of rows)))"
  by (simp add: handle_list_resources_def require_permission_def bindE_assoc)

lemma create_atomic:
  "atomic_but_log (handle_create_resource (build_authorization_service b) c)"
  "keeps (uuid_ge n) (handle_create_resource (build_authorization_service b) c)"
  unfolding create_by_permission resource_exists_by_name_def resource_create_def resource_add_def
  by (rule atomic_but_log_intros keeps_intros reads_only_keeps | (simp; fail))+

lemma create_resource_okD:
  assumes "handle_create_resource (build_authorization_service b) c w = (Inr x, w')"
  shows "\<exists>r. resources (db w') = resources (db w) @ [r] \<and> res_tenant_id r = crc_tenant_id c \<and> res_name r = strip (crc_name c)
     \<and> strip (crc_name c) \<noteq> [] \<and> length (strip (crc_name c)) \<le> 255
     \<and> filter (\<lambda>r. res_tenant_id r = crc_tenant_id c \<and> res_name r = strip (crc_name c)) (resources (db w)) = []
     \<and> x = listed_resource_of r \<and> disk w' = db w'"
  using assms unfolding create_by_permission resource_exists_by_name_def resource_create_def resource_add_def
  apply (simp only: step_ok)
  apply (elim exE conjE)
  apply (drule require_permission_frame)
  apply (rule exI)
  apply (intro conjI)
  apply (auto simp: same_but_log_def)
  done

lemma preserved_create_resource: "preserved (resources_hist rs) (handle_create_resource (build_authorization_service b) c)"
proof (rule preservedI [OF resources_hist_mono resources_hist_blind create_atomic])
  fix w x w' assume J: "resources_hist rs (next_uuid w) (db w)"
    and run: "handle_create_resource (build_authorization_service b) c w = (Inr x, w')"
  from create_resource_okD [OF run] J show "resources_hist rs (next_uuid w') (disk w')"
    by (auto simp: resources_hist_def at_most_one_append)
qed

lemma preserved_list_resources: "preserved (resources_hist rs) (handle_list_resources (build_authorization_service b) t p rid)"
  unfolding list_by_permission resources_by_tenant_def
  by (rule preserved_both, (rule keeps_both_require [OF resources_hist_mono resources_hist_blind] keeps_intros reads_only_keeps
      | (simp; fail))+)

subsection \<open>Runs\<close>

datatype resource_call = Create_Resource create_resource_command | List_Resources uuid uuid "string option"

fun answer_resource :: "bool \<Rightarrow> resource_call \<Rightarrow> unit op" where
  "answer_resource b (Create_Resource c) = silent (handle_create_resource (build_authorization_service b) c)"
| "answer_resource b (List_Resources t p rid) = silent (handle_list_resources (build_authorization_service b) t p rid)"

inductive resource_step :: "bool \<Rightarrow> world \<Rightarrow> world \<Rightarrow> bool" for b where
  call: "request (answer_resource b c) w = (r, w') \<Longrightarrow> resource_step b w w'"
| tick: "clock w \<le> t \<Longrightarrow> resource_step b w (w\<lparr>clock := t\<rparr>)"
| other: "resources d = resources (db w) \<Longrightarrow> next_uuid w \<le> n \<Longrightarrow> resource_step b w (w\<lparr>db := d, disk := d, next_uuid := n\<rparr>)"

lemma resources_hist_step:
  assumes "resource_step b w w'" and "disk w = db w \<and> resources_hist rs (next_uuid w) (db w)"
  shows "disk w' = db w' \<and> resources_hist rs (next_uuid w') (db w')"
  using assms(1)
proof cases
  case (call c r)
  have "preserved (resources_hist rs) (answer_resource b c)"
    by (cases c) (simp_all add: preserved_silent preserved_create_resource preserved_list_resources)
  from preservedD [OF this _ _ call] assms(2) show ?thesis by blast
qed (use assms(2) in \<open>simp_all add: resources_hist_def\<close>)

interpretation resource_runs: served_machine "resource_step b" "resources_hist rs" for b rs
  by unfold_locales (rule resources_hist_step)

text \<open>
  C40. Over any run a tenant never has two resources of one name, every name is stripped, not empty and at most 255
  characters long, and no stored resource changes.
\<close>

theorem resource_names_unique:
  assumes "(resource_step b)\<^sup>*\<^sup>* w w'" and "disk w = db w" and "resources_hist [] (next_uuid w) (db w)"
  shows "length (filter (\<lambda>r. res_tenant_id r = t \<and> res_name r = nm) (resources (db w'))) \<le> 1
    \<and> (\<forall>r \<in> set (resources (db w')). res_name r \<noteq> [] \<and> strip (res_name r) = res_name r \<and> length (res_name r) \<le> 255)
    \<and> set (resources (db w)) \<subseteq> set (resources (db w'))"
proof -
  have "resources_hist (resources (db w)) (next_uuid w) (db w)" using assms(3) by (simp add: resources_hist_def)
  from resource_runs.run_keeps [OF assms(1,2) this]
  have "resources_hist (resources (db w)) (next_uuid w') (db w')" by blast
  then show ?thesis by (simp add: resources_hist_def at_most_one_def)
qed

lemma resource_called: "resource_step b w (snd (request (answer_resource b c) w))"
  by (rule resource_step.call) (rule prod.collapse [symmetric])

theorem resource_names_unique_witness:
  "length (filter (\<lambda>r. res_tenant_id r = 31 \<and> res_name r = ''disk'')
     (resources (db (snd (request (answer_resource False (Create_Resource
        \<lparr>crc_tenant_id = 31, crc_principal_id = 1, crc_name = '' disk'', crc_resource_type = ''volume'',
         crc_external_ref = None, crc_request_id = None\<rparr>)) sample_world))))) \<le> 1"
proof -
  have "resources_hist [] (next_uuid sample_world) (db sample_world)"
    by (simp add: resources_hist_def sample_db_def empty_db_def at_most_one_def)
  moreover have "disk sample_world = db sample_world" by simp
  ultimately show ?thesis
    using resource_names_unique [OF r_into_rtranclp [of "resource_step False", OF resource_called]] by blast
qed

end
